(* ===== verification/Smorx_Prelude.thy ===== *)
theory Smorx_Prelude
  imports Complex_Main "HOL-Library.AList" "HOL-Library.List_Lexorder"
    "HOL-Library.Char_ord" "HOL-Library.Product_Lexorder"
begin

text \<open>
  Shared vocabulary of the development: the Python values and string operations the
  modelled code uses, insertion-ordered dictionaries, the host the code reads (clock and
  \<open>uuid4\<close>), and the generic lemmas and lemma collections of the component theories.

  Conventions. A Python \<open>str\<close> is a \<^typ>\<open>string\<close> (one \<open>char\<close> per code point,
  so the code points U+0000 to U+00FF); a \<open>datetime\<close> is an \<^typ>\<open>int\<close> counting
  microseconds (the resolution of \<open>datetime\<close>); a \<open>float\<close> is a \<^typ>\<open>rat\<close> (no
  rounding, no NaN); an \<open>int\<close> is an \<^typ>\<open>int\<close>. A function that may raise returns
  \<open>error + result\<close>. A tuple or list is a \<^typ>\<open>'a list\<close>. A dictionary that keeps
  insertion order is an association list with distinct keys, updated by \<^const>\<open>AList.update\<close>
  (in place for a present key, appended otherwise, as \<open>d[k] = v\<close> does).
\<close>

named_theorems table_simps \<open>transition tables, written out state by state\<close>
named_theorems op_defs \<open>the equations of the operations of a component\<close>

section \<open>Strings\<close>

definition startswith :: "string \<Rightarrow> string \<Rightarrow> bool" where
  "startswith s p \<longleftrightarrow> take (length p) s = p"

definition endswith :: "string \<Rightarrow> string \<Rightarrow> bool" where
  "endswith s p \<longleftrightarrow> drop (length s - length p) s = p"

text \<open>\<open>needle in hay\<close> for two strings.\<close>

fun contains :: "string \<Rightarrow> string \<Rightarrow> bool" where
  "contains n [] = (n = [])"
| "contains n (c # cs) = (startswith (c # cs) n \<or> contains n cs)"

text \<open>\<open>str.lower\<close> on the code points below 256.\<close>

definition lower_char :: "char \<Rightarrow> char" where
  "lower_char c =
     (let n = (of_char c :: nat) in
      if (65 \<le> n \<and> n \<le> 90) \<or> (192 \<le> n \<and> n \<le> 222 \<and> n \<noteq> 215)
      then char_of (n + 32) else c)"

definition lower :: "string \<Rightarrow> string" where
  "lower s = map lower_char s"

text \<open>\<open>str.upper\<close>: the code points below 256 whose upper case is below 256 too.\<close>

definition upper_char :: "char \<Rightarrow> char" where
  "upper_char c =
     (let n = (of_char c :: nat) in
      if (97 \<le> n \<and> n \<le> 122) \<or> (224 \<le> n \<and> n \<le> 254 \<and> n \<noteq> 247)
      then char_of (n - 32) else c)"

definition upper :: "string \<Rightarrow> string" where
  "upper s = map upper_char s"

text \<open>\<open>str.strip()\<close>: the white space code points below 256.\<close>

definition is_space :: "char \<Rightarrow> bool" where
  "is_space c =
     (let n = (of_char c :: nat) in
      (9 \<le> n \<and> n \<le> 13) \<or> (28 \<le> n \<and> n \<le> 32) \<or> n = 133 \<or> n = 160)"

definition strip :: "string \<Rightarrow> string" where
  "strip s = rev (dropWhile is_space (rev (dropWhile is_space s)))"

text \<open>\<open>str.split()\<close>: the maximal runs of characters that are no white space.\<close>

fun words_from :: "string \<Rightarrow> string \<Rightarrow> string list" where
  "words_from acc [] = (if acc = [] then [] else [rev acc])"
| "words_from acc (c # cs) =
     (if is_space c then (if acc = [] then [] else [rev acc]) @ words_from [] cs else words_from (c # acc) cs)"

text \<open>A decimal digit.\<close>

definition is_digit :: "char \<Rightarrow> bool" where
  "is_digit c \<longleftrightarrow> (let n = (of_char c :: nat) in 48 \<le> n \<and> n \<le> 57)"

text \<open>\<open>sep.join(parts)\<close>.\<close>

fun join :: "string \<Rightarrow> string list \<Rightarrow> string" where
  "join sep [] = []"
| "join sep [x] = x"
| "join sep (x # y # xs) = x @ sep @ join sep (y # xs)"

text \<open>\<open>str(n)\<close> for an integer.\<close>

fun digits :: "nat \<Rightarrow> string" where
  "digits n = (if n < 10 then [char_of (48 + n)] else digits (n div 10) @ [char_of (48 + n mod 10)])"

declare digits.simps [simp del]

definition str_int :: "int \<Rightarrow> string" where
  "str_int i = (if i < 0 then ''-'' @ digits (nat (- i)) else digits (nat i))"

lemma startswith_refl [simp]: "startswith s s"
  by (simp add: startswith_def)

lemma startswith_append [simp]: "startswith (p @ s) p"
  by (simp add: startswith_def)

lemma startswith_iff: "startswith s p \<longleftrightarrow> (\<exists>r. s = p @ r)"
  by (metis append_take_drop_id startswith_append startswith_def)

lemma contains_iff: "contains n s \<longleftrightarrow> (\<exists>l r. s = l @ n @ r)"
proof (induction s)
  case Nil
  then show ?case by simp
next
  case (Cons c cs)
  show ?case
  proof
    assume "contains n (c # cs)"
    then show "\<exists>l r. c # cs = l @ n @ r"
      using Cons by (metis append_Cons append_Nil contains.simps(2) startswith_iff)
  next
    assume "\<exists>l r. c # cs = l @ n @ r"
    then obtain l r where lr: "c # cs = l @ n @ r" by blast
    show "contains n (c # cs)"
    proof (cases l)
      case Nil
      with lr have "startswith (c # cs) n" by (auto simp: startswith_iff)
      then show ?thesis by simp
    next
      case (Cons d ds)
      with lr have "cs = ds @ n @ r" by simp
      then show ?thesis using Cons.IH by auto
    qed
  qed
qed

text \<open>Decimal numerals: made of digits, and different for different numbers.\<close>

lemma digits_chars: "c \<in> set (digits n) \<Longrightarrow> \<exists>m < 10. c = char_of (48 + m :: nat)"
proof (induction n rule: digits.induct)
  case (1 n)
  show ?case
  proof (cases "n < 10")
    case True
    with 1(2) show ?thesis by (auto simp: digits.simps [of n])
  next
    case False
    show ?thesis
    proof (cases "c \<in> set (digits (n div 10))")
      case True
      then show ?thesis using 1(1) False by blast
    next
      case no: False
      with 1(2) False have "c = char_of (48 + n mod 10)" by (auto simp: digits.simps [of n])
      then show ?thesis by (intro exI [of _ "n mod 10"]) simp
    qed
  qed
qed

lemma digit_no: 
  assumes "(of_char c :: nat) < 48 \<or> 57 < (of_char c :: nat)"
  shows "c \<notin> set (digits n)"
proof
  assume "c \<in> set (digits n)"
  then obtain m where "m < 10" "c = char_of (48 + m :: nat)" using digits_chars by blast
  with assms show False by simp
qed

definition numeral_value :: "string \<Rightarrow> nat" where
  "numeral_value s = foldl (\<lambda>a c. 10 * a + (of_char c - 48)) 0 s"

lemma numeral_value_digits: "numeral_value (digits n) = n"
proof (induction n rule: digits.induct)
  case (1 n)
  show ?case
  proof (cases "n < 10")
    case True
    then show ?thesis by (simp add: digits.simps [of n] numeral_value_def)
  next
    case False
    with 1 show ?thesis by (simp add: digits.simps [of n] numeral_value_def)
  qed
qed

lemma digits_inj: "digits m = digits n \<longleftrightarrow> m = n"
  using numeral_value_digits by metis

lemma str_int_inj: "str_int i = str_int j \<longleftrightarrow> i = j"
proof -
  have no: "CHR ''-'' \<notin> set (digits n)" for n by (rule digit_no) simp
  have "digits n \<noteq> CHR ''-'' # s" for n s
  proof
    assume "digits n = CHR ''-'' # s"
    then have "CHR ''-'' \<in> set (digits n)" by simp
    with no show False by blast
  qed
  then show ?thesis by (auto simp: str_int_def digits_inj dest: sym)
qed

text \<open>Texts joined by bars split again at a part that holds none.\<close>

lemma str_int_no_bar: "CHR ''|'' \<notin> set (str_int i)"
  using digit_no [of "CHR ''|''"] by (simp add: str_int_def)

lemma split_at_bar:
  assumes "a @ CHR ''|'' # x = b @ CHR ''|'' # y" "CHR ''|'' \<notin> set a" "CHR ''|'' \<notin> set b"
  shows "a = b \<and> x = y"
  using assms
proof (induction a arbitrary: b)
  case Nil
  then show ?case by (cases b) auto
next
  case (Cons c a)
  then show ?case by (cases b) auto
qed

section \<open>Values of untyped dictionaries\<close>

text \<open>The values a \<open>Mapping[str, object]\<close> of the code holds.\<close>

datatype pyval =
    PNone
  | PBool bool
  | PInt int
  | PFloat rat
  | PStr string
  | PList "pyval list"
  | PDict "(string \<times> pyval) list"

fun truthy :: "pyval \<Rightarrow> bool" where
  "truthy PNone = False"
| "truthy (PBool b) = b"
| "truthy (PInt i) = (i \<noteq> 0)"
| "truthy (PFloat r) = (r \<noteq> 0)"
| "truthy (PStr s) = (s \<noteq> [])"
| "truthy (PList xs) = (xs \<noteq> [])"
| "truthy (PDict kvs) = (kvs \<noteq> [])"

text \<open>
  \<open>==\<close>: numbers (and \<open>bool\<close>, which is a number) compare by value, lists position by
  position, dictionaries by key whatever the order of insertion.
\<close>

fun num_of :: "pyval \<Rightarrow> rat option" where
  "num_of (PBool b) = Some (if b then 1 else 0)"
| "num_of (PInt i) = Some (of_int i)"
| "num_of (PFloat r) = Some r"
| "num_of _ = None"

fun py_eq :: "pyval \<Rightarrow> pyval \<Rightarrow> bool" where
  "py_eq (PStr a) y = (y = PStr a)"
| "py_eq PNone y = (y = PNone)"
| "py_eq (PList []) (PList []) = True"
| "py_eq (PList (x # xs)) (PList (y # ys)) = (py_eq x y \<and> py_eq (PList xs) (PList ys))"
| "py_eq (PDict xs) (PDict ys) =
     (length xs = length ys \<and>
      list_all (\<lambda>(k, v). case map_of ys k of None \<Rightarrow> False | Some w \<Rightarrow> py_eq v w) xs)"
| "py_eq x y = (case (num_of x, num_of y) of (Some a, Some b) \<Rightarrow> a = b | _ \<Rightarrow> False)"

text \<open>A value as \<open>json.loads\<close> or a Python program makes it has no key twice; it equals itself.\<close>

fun json_wf :: "pyval \<Rightarrow> bool" where
  "json_wf (PList xs) = list_all json_wf xs"
| "json_wf (PDict kvs) = (distinct (map fst kvs) \<and> list_all (\<lambda>(k, v). json_wf v) kvs)"
| "json_wf v = True"

lemma py_eq_refl: "json_wf v \<Longrightarrow> py_eq v v"
proof (induction v)
  case (PList xs)
  then show ?case by (induction xs) auto
next
  case (PDict kvs)
  have "py_eq v v" "map_of kvs k = Some v" if "(k, v) \<in> set kvs" for k v
    using PDict that by (fastforce simp: list_all_iff)+
  then show ?case by (auto simp: list_all_iff)
qed auto

text \<open>
  \<open>repr\<close> of a string and \<open>str\<close> of a value. \<open>repr\<close> of a \<open>float\<close> (the shortest decimal that
  rounds back) is an argument.
\<close>

definition hex_char :: "nat \<Rightarrow> char" where
  "hex_char n = char_of (if n < 10 then 48 + n else 87 + n)"

definition repr_char :: "char \<Rightarrow> char \<Rightarrow> string" where
  "repr_char quote c =
     (let n = (of_char c :: nat) in
      if c = quote \<or> n = 92 then [CHR 0x5C, c]
      else if n = 10 then [CHR 0x5C, CHR ''n'']
      else if n = 13 then [CHR 0x5C, CHR ''r'']
      else if n = 9 then [CHR 0x5C, CHR ''t'']
      else if n < 32 \<or> (127 \<le> n \<and> n \<le> 160) \<or> n = 173
        then [CHR 0x5C, CHR ''x'', hex_char (n div 16), hex_char (n mod 16)]
      else [c])"

definition repr_str :: "string \<Rightarrow> string" where
  "repr_str s =
     (let quote = (if CHR 0x27 \<in> set s \<and> CHR 0x22 \<notin> set s then CHR 0x22 else CHR 0x27)
      in quote # concat (map (repr_char quote) s) @ [quote])"

fun py_repr :: "(rat \<Rightarrow> string) \<Rightarrow> pyval \<Rightarrow> string" where
  "py_repr fr PNone = ''None''"
| "py_repr fr (PBool b) = (if b then ''True'' else ''False'')"
| "py_repr fr (PInt i) = str_int i"
| "py_repr fr (PFloat r) = fr r"
| "py_repr fr (PStr s) = repr_str s"
| "py_repr fr (PList xs) = ''['' @ join '', '' (map (py_repr fr) xs) @ '']''"
| "py_repr fr (PDict kvs) =
     ''{'' @ join '', '' (map (\<lambda>(k, v). repr_str k @ '': '' @ py_repr fr v) kvs) @ ''}''"

fun py_str :: "(rat \<Rightarrow> string) \<Rightarrow> pyval \<Rightarrow> string" where
  "py_str fr (PStr s) = s"
| "py_str fr v = py_repr fr v"

text \<open>\<open>for x in v\<close>: \<open>None\<close> is the \<open>TypeError\<close> of a value that is not iterable.\<close>

fun py_iter :: "pyval \<Rightarrow> pyval list option" where
  "py_iter (PStr s) = Some (map (\<lambda>c. PStr [c]) s)"
| "py_iter (PList xs) = Some xs"
| "py_iter (PDict kvs) = Some (map (\<lambda>(k, _). PStr k) kvs)"
| "py_iter _ = None"

definition py_strs :: "string list \<Rightarrow> pyval" where
  "py_strs xs = PList (map PStr xs)"

section \<open>The host\<close>

text \<open>
  What a run reads from its host: the instants its clock shows, in reading order, and the
  identifiers \<open>uuid4\<close> hands out. Both are arbitrary sequences; a theorem that needs the
  clock to be monotone or the identifiers to be distinct says so.
\<close>

record world =
  clock_at :: "nat \<Rightarrow> int"
  ticks :: nat
  uuid_at :: "nat \<Rightarrow> string"
  uuids :: nat

definition now :: "world \<Rightarrow> int \<times> world" where
  "now w = (clock_at w (ticks w), w\<lparr>ticks := Suc (ticks w)\<rparr>)"

definition uuid4 :: "world \<Rightarrow> string \<times> world" where
  "uuid4 w = (uuid_at w (uuids w), w\<lparr>uuids := Suc (uuids w)\<rparr>)"

text \<open>\<open>(b - a).total_seconds()\<close>.\<close>

definition seconds_between :: "int \<Rightarrow> int \<Rightarrow> rat" where
  "seconds_between a b = of_int (b - a) / 1000000"

text \<open>\<open>timedelta(seconds=s)\<close>, in microseconds: rounded to the nearest, ties to even.\<close>

definition timedelta_us :: "rat \<Rightarrow> int" where
  "timedelta_us s =
     (let x = s * 1000000; f = \<lfloor>x\<rfloor>; d = x - of_int f
      in if d < 1 / 2 \<or> (d = 1 / 2 \<and> even f) then f else f + 1)"

section \<open>Lists\<close>

text \<open>\<open>dict.fromkeys(xs)\<close> and \<open>set\<close> on a list: first occurrences, in order.\<close>

fun dedup :: "'a list \<Rightarrow> 'a list" where
  "dedup [] = []"
| "dedup (x # xs) = x # filter (\<lambda>y. y \<noteq> x) (dedup xs)"

lemma set_dedup [simp]: "set (dedup xs) = set xs"
  by (induction xs) auto

lemma distinct_dedup [simp]: "distinct (dedup xs)"
  by (induction xs) auto

lemma dedup_Nil_iff [simp]: "dedup xs = [] \<longleftrightarrow> xs = []"
  by (cases xs) auto

text \<open>The lemmas of dictionaries every component uses.\<close>

lemma map_of_update [simp]: "map_of (AList.update k v al) = (map_of al)(k \<mapsto> v)"
  by (rule update_conv')

lemma keys_update [simp]:
  "fst ` set (AList.update k v al) = insert k (fst ` set al)"
  by (simp add: dom_update)

lemma map_of_Some_in_keys: "map_of al k = Some v \<Longrightarrow> k \<in> fst ` set al"
  by (metis domI dom_map_of_conv_image_fst)

lemma list_all_snoc [simp]: "list_all P (xs @ [x]) \<longleftrightarrow> list_all P xs \<and> P x"
  by simp

end
