(* ===== verification/Lifecycle.thy ===== *)
theory Lifecycle
  imports Smorx_Prelude
begin

text \<open>
  The contract shared by the two explicit lifecycles of the runtime package, the agent state
  machine (\<open>state.py\<close>) and the workflow phases of the orchestrator (\<open>orchestrator.py\<close>):
  a transition table, a current state, the list of states entered so far, and a move that is
  taken exactly when the table lists its target. The lemmas are proved once from that contract.
\<close>

fun legal_path :: "('s \<Rightarrow> 's list) \<Rightarrow> 's \<Rightarrow> 's list \<Rightarrow> bool" where
  "legal_path tbl s [] = True"
| "legal_path tbl s (t # ts) = (t \<in> set (tbl s) \<and> legal_path tbl t ts)"

lemma legal_path_append [simp]:
  "legal_path tbl s (xs @ ys) \<longleftrightarrow> legal_path tbl s xs \<and> legal_path tbl (last (s # xs)) ys"
  by (induction xs arbitrary: s) auto

lemma legal_path_terminal: "tbl s = [] \<Longrightarrow> legal_path tbl s ts \<Longrightarrow> ts = []"
  by (cases ts) auto

lemma legal_path_adjacent:
  "legal_path tbl s (xs @ a # b # ys) \<Longrightarrow> b \<in> set (tbl a)"
  by simp

text \<open>The state before the last entry of a path, or the start when the path has one entry.\<close>

lemma legal_path_last:
  assumes "legal_path tbl s ts" and "ts \<noteq> []"
  shows "last ts \<in> set (tbl (last (s # butlast ts)))"
proof -
  from assms(2) have "ts = butlast ts @ [last ts]" by simp
  with assms(1) have "legal_path tbl s (butlast ts @ [last ts])" by metis
  then show ?thesis by simp
qed

locale lifecycle =
  fixes table :: "'s \<Rightarrow> 's list"
    and state_of :: "'m \<Rightarrow> 's"
    and entered :: "'m \<Rightarrow> 's list"
    and move :: "'s \<Rightarrow> 'a \<Rightarrow> 'm \<Rightarrow> 'm option"
  assumes move_some: "move t a m = Some m' \<Longrightarrow>
      t \<in> set (table (state_of m)) \<and> state_of m' = t \<and> entered m' = entered m @ [t]"
    and move_none: "move t a m = None \<Longrightarrow> t \<notin> set (table (state_of m))"
begin

definition follows :: "'s \<Rightarrow> 'm \<Rightarrow> bool" where
  "follows s0 m \<longleftrightarrow> legal_path table s0 (entered m) \<and> last (s0 # entered m) = state_of m"

text \<open>A run of attempts: a refused attempt leaves the machine as it was.\<close>

fun attempts :: "('s \<times> 'a) list \<Rightarrow> 'm \<Rightarrow> 'm" where
  "attempts [] m = m"
| "attempts ((t, a) # as) m = attempts as (case move t a m of None \<Rightarrow> m | Some m' \<Rightarrow> m')"

lemma move_iff: "(\<exists>m'. move t a m = Some m') \<longleftrightarrow> t \<in> set (table (state_of m))"
  using move_some move_none by (cases "move t a m") blast+

lemma move_follows: "follows s0 m \<Longrightarrow> move t a m = Some m' \<Longrightarrow> follows s0 m'"
  by (auto simp: follows_def dest!: move_some split: if_splits)

lemma attempts_follows: "follows s0 m \<Longrightarrow> follows s0 (attempts as m)"
  by (induction as m rule: attempts.induct) (auto split: option.splits dest: move_follows)

lemma terminal_stuck: "table (state_of m) = [] \<Longrightarrow> move t a m = None"
  using move_some by (cases "move t a m") fastforce+

lemma attempts_terminal: "table (state_of m) = [] \<Longrightarrow> attempts as m = m"
  by (induction as m rule: attempts.induct) (simp_all add: terminal_stuck)

lemma follows_last_step:
  "follows s0 m \<Longrightarrow> entered m \<noteq> [] \<Longrightarrow>
    state_of m \<in> set (table (last (s0 # butlast (entered m))))"
  using legal_path_last by (fastforce simp: follows_def)

end

end
