(* ===== verification/Agent_State.thy ===== *)
theory Agent_State
  imports Lifecycle
begin

text \<open>
  \<open>packages/agent-runtime/src/smorx_runtime/state.py\<close>: the lifecycle of a coding agent run.
  The machine keeps its state and an append-only history of transition records; a refused
  transition raises and changes nothing.
\<close>

datatype agent_state =
    CREATED | INSPECTED | PLANNED | EXECUTING | OBSERVED | FAILED | ITERATING | VERIFIED | BLOCKED

fun TRANSITIONS :: "agent_state \<Rightarrow> agent_state list" where
  "TRANSITIONS CREATED = [INSPECTED]"
| "TRANSITIONS INSPECTED = [PLANNED]"
| "TRANSITIONS PLANNED = [EXECUTING]"
| "TRANSITIONS EXECUTING = [OBSERVED, FAILED]"
| "TRANSITIONS OBSERVED = [ITERATING, VERIFIED]"
| "TRANSITIONS FAILED = [ITERATING, BLOCKED]"
| "TRANSITIONS ITERATING = [EXECUTING]"
| "TRANSITIONS VERIFIED = [BLOCKED]"
| "TRANSITIONS BLOCKED = []"

datatype transition_error = InvalidTransitionError (current: agent_state) (attempted: agent_state)

record transition_record =
  from_state :: agent_state
  to_state :: agent_state
  tr_at :: int
  tr_reason :: string
  tr_metadata :: "(string \<times> pyval) list"

record agent_machine =
  am_state :: agent_state
  am_history :: "transition_record list"

definition new_machine :: "agent_state \<Rightarrow> agent_machine" where
  "new_machine start = \<lparr>am_state = start, am_history = []\<rparr>"

definition can_transition :: "agent_machine \<Rightarrow> agent_state \<Rightarrow> bool" where
  "can_transition m target \<longleftrightarrow> target \<in> set (TRANSITIONS (am_state m))"

text \<open>The clock reading, moved one microsecond past the last record when it is not after it.\<close>

definition next_timestamp :: "agent_machine \<Rightarrow> world \<Rightarrow> int \<times> world" where
  "next_timestamp m w =
     (let (n, w') = now w in
      (if am_history m \<noteq> [] \<and> n \<le> tr_at (last (am_history m))
       then tr_at (last (am_history m)) + 1 else n, w'))"

definition transition ::
    "agent_machine \<Rightarrow> agent_state \<Rightarrow> string \<Rightarrow> (string \<times> pyval) list option \<Rightarrow> world \<Rightarrow>
     (transition_error + transition_record) \<times> agent_machine \<times> world" where
  "transition m target reason metadata w =
     (let cur = am_state m in
      if cur = BLOCKED then (Inl (InvalidTransitionError cur target), m, w)
      else if cur = VERIFIED \<and> target \<noteq> BLOCKED then (Inl (InvalidTransitionError cur target), m, w)
      else if target \<notin> set (TRANSITIONS cur) then (Inl (InvalidTransitionError cur target), m, w)
      else
        let (ts, w') = next_timestamp m w;
            rec = \<lparr>from_state = cur, to_state = target, tr_at = ts, tr_reason = reason,
                   tr_metadata = (case metadata of None \<Rightarrow> [] | Some kvs \<Rightarrow> kvs)\<rparr>
        in (Inr rec, \<lparr>am_state = target, am_history = am_history m @ [rec]\<rparr>, w'))"

definition reset :: "agent_machine \<Rightarrow> agent_machine" where
  "reset m = \<lparr>am_state = CREATED, am_history = []\<rparr>"

definition is_terminal :: "agent_machine \<Rightarrow> bool" where
  "is_terminal m \<longleftrightarrow> am_state m \<in> {VERIFIED, BLOCKED}"

definition execution_cycles :: "agent_machine \<Rightarrow> nat" where
  "execution_cycles m =
     length (filter (\<lambda>r. from_state r = ITERATING \<and> to_state r = EXECUTING) (am_history m))"

text \<open>A client's session: any sequence of calls, each at the next instants of the host clock.\<close>

datatype machine_op = Transition agent_state string "(string \<times> pyval) list option" | Reset

fun apply_op :: "agent_machine \<times> world \<Rightarrow> machine_op \<Rightarrow> agent_machine \<times> world" where
  "apply_op (m, w) (Transition t why md) = snd (transition m t why md w)"
| "apply_op (m, w) Reset = (reset m, w)"

definition run_ops :: "machine_op list \<Rightarrow> agent_machine \<times> world \<Rightarrow> agent_machine \<times> world" where
  "run_ops ops s = foldl apply_op s ops"

section \<open>The machine is a lifecycle\<close>

text \<open>The three guards of \<open>transition\<close> together are membership in the table.\<close>

lemma transition_unfold:
  "transition m target reason metadata w =
     (if target \<in> set (TRANSITIONS (am_state m)) then
        let (ts, w') = next_timestamp m w;
            rec = \<lparr>from_state = am_state m, to_state = target, tr_at = ts, tr_reason = reason,
                   tr_metadata = (case metadata of None \<Rightarrow> [] | Some kvs \<Rightarrow> kvs)\<rparr>
        in (Inr rec, \<lparr>am_state = target, am_history = am_history m @ [rec]\<rparr>, w')
      else (Inl (InvalidTransitionError (am_state m) target), m, w))"
  unfolding transition_def Let_def by (cases "am_state m") auto

definition attempt_move ::
    "agent_state \<Rightarrow> string \<times> (string \<times> pyval) list option \<times> world \<Rightarrow> agent_machine \<Rightarrow> agent_machine option" where
  "attempt_move t a m =
     (case a of (why, md, w) \<Rightarrow>
        (case transition m t why md w of (Inl e, _) \<Rightarrow> None | (Inr r, m', _) \<Rightarrow> Some m'))"

interpretation agent: lifecycle TRANSITIONS am_state "\<lambda>m. map to_state (am_history m)" attempt_move
  by unfold_locales
    (auto simp: attempt_move_def transition_unfold Let_def split: if_splits prod.splits)

text \<open>The history as a chain of records, each starting where the one before it ended.\<close>

fun chained :: "agent_state \<Rightarrow> transition_record list \<Rightarrow> bool" where
  "chained s [] = True"
| "chained s (r # rs) = (from_state r = s \<and> chained (to_state r) rs)"

lemma chained_snoc [simp]:
  "chained s (rs @ [r]) \<longleftrightarrow> chained s rs \<and> from_state r = last (s # map to_state rs)"
  by (induction rs arbitrary: s) auto

text \<open>The audit invariant of a machine whose history starts at \<open>s0\<close>.\<close>

definition machine_ok :: "agent_state \<Rightarrow> agent_machine \<Rightarrow> bool" where
  "machine_ok s0 m \<longleftrightarrow>
     legal_path TRANSITIONS s0 (map to_state (am_history m)) \<and>
     last (s0 # map to_state (am_history m)) = am_state m \<and>
     chained s0 (am_history m) \<and>
     sorted_wrt (<) (map tr_at (am_history m))"

lemma machine_ok_follows: "machine_ok s0 m \<Longrightarrow> agent.follows s0 m"
  by (simp add: machine_ok_def agent.follows_def)

lemma new_machine_ok: "machine_ok s (new_machine s)"
  by (simp add: machine_ok_def new_machine_def)

lemma sorted_wrt_snoc_last:
  "sorted_wrt (<) xs \<Longrightarrow> xs = [] \<or> last xs < (y::int) \<Longrightarrow> sorted_wrt (<) (xs @ [y])"
  by (induction xs rule: rev_induct) (auto simp: sorted_wrt_append)

lemma next_timestamp_after:
  "next_timestamp m w = (ts, w') \<Longrightarrow> am_history m = [] \<or> tr_at (last (am_history m)) < ts"
  by (auto simp: next_timestamp_def now_def Let_def split: if_splits)

lemma transition_ok:
  assumes "machine_ok s0 m"
  shows "machine_ok s0 (fst (snd (transition m t why md w)))"
proof (cases "t \<in> set (TRANSITIONS (am_state m))")
  case True
  obtain ts w' where nt: "next_timestamp m w = (ts, w')" by fastforce
  from next_timestamp_after [OF nt] assms
  have "sorted_wrt (<) (map tr_at (am_history m) @ [ts])"
    by (intro sorted_wrt_snoc_last) (cases "am_history m = []"; simp add: machine_ok_def last_map)+
  with True assms nt show ?thesis
    by (auto simp: machine_ok_def transition_unfold Let_def last_map split: if_splits)
next
  case False
  with assms show ?thesis by (simp add: transition_unfold)
qed

lemma apply_op_ok:
  "machine_ok s0 m \<or> machine_ok CREATED m \<Longrightarrow>
    machine_ok s0 (fst (apply_op (m, w) x)) \<or> machine_ok CREATED (fst (apply_op (m, w) x))"
  by (cases x) (auto simp: reset_def machine_ok_def [of CREATED "\<lparr>am_state = _, am_history = _\<rparr>"]
      dest: transition_ok)

lemma run_ops_ok_gen:
  "machine_ok s0 (fst s) \<or> machine_ok CREATED (fst s) \<Longrightarrow>
    machine_ok s0 (fst (run_ops ops s)) \<or> machine_ok CREATED (fst (run_ops ops s))"
proof (induction ops arbitrary: s)
  case Nil
  then show ?case by (simp add: run_ops_def)
next
  case (Cons x ops)
  from Cons.prems have "machine_ok s0 (fst (apply_op s x)) \<or> machine_ok CREATED (fst (apply_op s x))"
    using apply_op_ok by (cases s) auto
  with Cons.IH show ?case by (simp add: run_ops_def)
qed


lemma run_ops_from_new:
  "machine_ok start (fst (run_ops ops (new_machine start, w))) \<or>
   machine_ok CREATED (fst (run_ops ops (new_machine start, w)))"
  by (rule run_ops_ok_gen) (simp add: new_machine_ok)

text \<open>The record that led into the current state, and where it came from.\<close>

lemma machine_ok_snoc:
  assumes "machine_ok s0 m" and "am_history m = rs @ [r]"
  shows "to_state r = am_state m \<and> from_state r = last (s0 # map to_state rs) \<and>
    to_state r \<in> set (TRANSITIONS (from_state r)) \<and>
    machine_ok s0 \<lparr>am_state = from_state r, am_history = rs\<rparr>"
  using assms by (auto simp: machine_ok_def sorted_wrt_append)

lemma into_VERIFIED: "VERIFIED \<in> set (TRANSITIONS s) \<longleftrightarrow> s = OBSERVED"
  and into_OBSERVED: "OBSERVED \<in> set (TRANSITIONS s) \<longleftrightarrow> s = EXECUTING"
  by (cases s; simp)+

lemma machine_ok_moved:
  "machine_ok CREATED m \<Longrightarrow> am_state m \<noteq> CREATED \<Longrightarrow>
    \<exists>rs r. am_history m = rs @ [r]"
  by (cases "am_history m" rule: rev_cases) (auto simp: machine_ok_def)

lemma verified_history:
  assumes "machine_ok CREATED m" and "am_state m = VERIFIED"
  shows "\<exists>rs r1 r2. am_history m = rs @ [r1, r2] \<and>
    from_state r1 = EXECUTING \<and> to_state r1 = OBSERVED \<and>
    from_state r2 = OBSERVED \<and> to_state r2 = VERIFIED"
proof -
  obtain rs2 r2 where h2: "am_history m = rs2 @ [r2]"
    using machine_ok_moved [OF assms(1)] assms(2) by auto
  note s2 = machine_ok_snoc [OF assms(1) h2]
  then have r2: "to_state r2 = VERIFIED" "from_state r2 = OBSERVED"
    using assms(2) into_VERIFIED by metis+
  let ?m1 = "\<lparr>am_state = from_state r2, am_history = rs2\<rparr>"
  from s2 have ok1: "machine_ok CREATED ?m1" by blast
  obtain rs1 r1 where h1: "rs2 = rs1 @ [r1]"
    using machine_ok_moved [OF ok1] r2 by auto
  have "am_history ?m1 = rs1 @ [r1]" using h1 by simp
  from machine_ok_snoc [OF ok1 this] r2 have "to_state r1 = OBSERVED" "from_state r1 = EXECUTING"
    using into_OBSERVED by (metis agent_machine.select_convs(1))+
  with h1 h2 r2 show ?thesis by auto
qed

text \<open>Executions of a run that started at \<open>CREATED\<close>, against the iteration metric.\<close>

definition executions :: "agent_machine \<Rightarrow> nat" where
  "executions m = length (filter (\<lambda>r. to_state r = EXECUTING) (am_history m))"

definition before_execution :: "agent_state \<Rightarrow> bool" where
  "before_execution s \<longleftrightarrow> s \<in> {CREATED, INSPECTED, PLANNED}"

lemma step_out_of:
  "t \<in> set (TRANSITIONS s) \<Longrightarrow>
    (before_execution t \<longleftrightarrow> s \<in> {CREATED, INSPECTED}) \<and>
    (t = EXECUTING \<longleftrightarrow> s \<in> {PLANNED, ITERATING})"
  by (cases s) (auto simp: before_execution_def)

lemma executions_cycles:
  "machine_ok CREATED m \<Longrightarrow>
    executions m = execution_cycles m + (if before_execution (am_state m) then 0 else 1)"
proof (induction "am_history m" arbitrary: m rule: rev_induct)
  case Nil
  then have "am_state m = CREATED" by (simp add: machine_ok_def)
  with Nil.hyps [symmetric] show ?case
    by (simp add: executions_def execution_cycles_def before_execution_def)
next
  case (snoc r rs)
  note h = snoc.hyps(2) [symmetric]
  let ?m1 = "\<lparr>am_state = from_state r, am_history = rs\<rparr>"
  note s = machine_ok_snoc [OF snoc.prems h]
  then have "machine_ok CREATED ?m1" by blast
  then have "executions ?m1 = execution_cycles ?m1 + (if before_execution (from_state r) then 0 else 1)"
    using snoc.hyps(1) [of ?m1] by simp
  moreover have "to_state r = am_state m" using s by simp
  ultimately show ?case
    using step_out_of [of "to_state r" "from_state r"] s h
    by (cases "from_state r") (auto simp: executions_def execution_cycles_def before_execution_def)
qed

section \<open>Properties\<close>

text \<open>
  Whatever calls a client makes, in whatever order and under whatever clock, the history
  of the machine is an unbroken chain of legal transitions that ends in the current state,
  and its timestamps strictly increase. (After a \<open>reset\<close> the chain starts at \<open>CREATED\<close>.)
\<close>
theorem agent_history_audit:
  fixes start :: agent_state and ops :: "machine_op list" and w :: world
  defines "m \<equiv> fst (run_ops ops (new_machine start, w))"
  shows "machine_ok start m \<or> machine_ok CREATED m"
  unfolding m_def by (rule run_ops_from_new)

text \<open>
  C37. A run that starts at \<open>CREATED\<close> is \<open>VERIFIED\<close> only when its last two recorded
  transitions are an execution that was observed and the acceptance of that observation.
\<close>
theorem verified_only_after_observed_execution:
  assumes "am_state (fst (run_ops ops (new_machine CREATED, w))) = VERIFIED"
  shows "\<exists>rs r1 r2. am_history (fst (run_ops ops (new_machine CREATED, w))) = rs @ [r1, r2] \<and>
    from_state r1 = EXECUTING \<and> to_state r1 = OBSERVED \<and>
    from_state r2 = OBSERVED \<and> to_state r2 = VERIFIED"
  using run_ops_from_new [of CREATED ops w] verified_history [OF _ assms] by blast

definition demo_world :: world where
  "demo_world = \<lparr>clock_at = (\<lambda>n. 100), ticks = 0, uuid_at = (\<lambda>n. digits n), uuids = 0\<rparr>"

definition demo_ops :: "machine_op list" where
  "demo_ops = map (\<lambda>t. Transition t ''demo'' None)
     [INSPECTED, PLANNED, EXECUTING, BLOCKED, OBSERVED, VERIFIED]"

lemmas machine_eval = demo_ops_def demo_world_def run_ops_def new_machine_def transition_def
  next_timestamp_def now_def Let_def

theorem verified_only_after_observed_execution_witness:
  "am_state (fst (run_ops demo_ops (new_machine CREATED, demo_world))) = VERIFIED \<and>
   (\<exists>rs r1 r2. am_history (fst (run_ops demo_ops (new_machine CREATED, demo_world))) = rs @ [r1, r2] \<and>
    from_state r1 = EXECUTING \<and> to_state r1 = OBSERVED \<and>
    from_state r2 = OBSERVED \<and> to_state r2 = VERIFIED)"
proof -
  have v: "am_state (fst (run_ops demo_ops (new_machine CREATED, demo_world))) = VERIFIED"
    by (simp add: machine_eval)
  with verified_only_after_observed_execution [OF v] show ?thesis by simp
qed

end
