(* ===== verification/No_Progress.thy ===== *)
theory No_Progress
  imports Smorx_Prelude
begin

text \<open>
  The no-progress rule several components implement, each with its own state: a failure
  signature that repeats \<open>k\<close> times in a row stops the loop. The contract relates the
  component's state to the signatures observed since it last reported; the lemmas say when the
  first report comes. \<open>NoProgressDetector\<close> (\<open>loop_controls.py\<close>) keeps a counter,
  \<open>LoopBoundsController\<close> (\<open>develop/bounds.py\<close>) a window of the recent signatures.
\<close>

text \<open>How many equal entries end a list.\<close>

fun head_run :: "'a list \<Rightarrow> nat" where
  "head_run [] = 0"
| "head_run (x # xs) = Suc (length (takeWhile (\<lambda>y. y = x) xs))"

definition tail_run :: "'a list \<Rightarrow> nat" where
  "tail_run xs = head_run (rev xs)"

lemma tail_run_Nil [simp]: "tail_run [] = 0"
  by (simp add: tail_run_def)

lemma tail_run_snoc:
  "tail_run (xs @ [x]) = (if xs \<noteq> [] \<and> last xs = x then Suc (tail_run xs) else 1)"
  by (cases xs rule: rev_cases) (simp_all add: tail_run_def)

lemma tail_run_le_length: "tail_run xs \<le> length xs"
  by (induction xs rule: rev_induct) (simp_all add: tail_run_snoc)

lemma tail_run_pos: "xs \<noteq> [] \<Longrightarrow> 1 \<le> tail_run xs"
  by (cases xs rule: rev_cases) (simp_all add: tail_run_snoc)

text \<open>A run of length \<open>k\<close> is a window of \<open>k\<close> equal entries.\<close>

lemma tail_run_window:
  "k \<le> tail_run xs \<longleftrightarrow> k \<le> length xs \<and> (\<forall>y \<in> set (drop (length xs - k) xs). y = last xs)"
proof (induction xs arbitrary: k rule: rev_induct)
  case Nil
  then show ?case by simp
next
  case (snoc x xs)
  show ?case
  proof (cases k)
    case 0
    then show ?thesis by simp
  next
    case (Suc j)
    show ?thesis
    proof (cases "xs \<noteq> [] \<and> last xs = x")
      case True
      with snoc [of j] Suc show ?thesis by (auto simp: tail_run_snoc)
    next
      case False
      have "\<not> (\<forall>y \<in> set (drop (length xs - j) xs). y = x)" if "j \<noteq> 0" "j \<le> length xs"
      proof -
        from that have "drop (length xs - j) xs \<noteq> []" by simp
        then have "last (drop (length xs - j) xs) \<in> set (drop (length xs - j) xs)" by (rule last_in_set)
        moreover have "last (drop (length xs - j) xs) = last xs" using that by (intro last_drop) auto
        moreover have "last xs \<noteq> x" using False that by auto
        ultimately show ?thesis by metis
      qed
      with False Suc show ?thesis by (cases "j = 0") (auto simp: tail_run_snoc)
    qed
  qed
qed

lemma tail_run_extend: "tail_run (xs @ replicate n x) \<ge> n"
proof (induction n)
  case (Suc n)
  have "tail_run (xs @ replicate (Suc n) x) = tail_run ((xs @ replicate n x) @ [x])"
    by (simp add: replicate_append_same)
  also have "\<dots> = (if xs @ replicate n x \<noteq> [] \<and> last (xs @ replicate n x) = x
      then Suc (tail_run (xs @ replicate n x)) else 1)"
    by (rule tail_run_snoc)
  finally show ?case using Suc by (cases "n = 0") simp_all
qed simp

locale no_progress =
  fixes k :: nat
    and start :: 's
    and observe :: "string \<Rightarrow> 's \<Rightarrow> bool \<times> 's"
    and represents :: "'s \<Rightarrow> string list \<Rightarrow> bool"
  assumes represents_start: "represents start []"
    and observe_report: "represents s xs \<Longrightarrow> fst (observe x s) \<longleftrightarrow> k \<le> tail_run (xs @ [x])"
    and observe_next: "represents s xs \<Longrightarrow> \<not> fst (observe x s) \<Longrightarrow> represents (snd (observe x s)) (xs @ [x])"
begin

text \<open>The number of observations up to and including the first report.\<close>

fun first_report :: "'s \<Rightarrow> string list \<Rightarrow> nat option" where
  "first_report s [] = None"
| "first_report s (x # xs) =
     (if fst (observe x s) then Some 1 else map_option Suc (first_report (snd (observe x s)) xs))"

lemma first_report_None:
  "represents s ys \<Longrightarrow>
    first_report s xs = None \<longleftrightarrow> (\<forall>i < length xs. tail_run (ys @ take (Suc i) xs) < k)"
proof (induction xs arbitrary: s ys)
  case Nil
  then show ?case by simp
next
  case (Cons x xs)
  show ?case
  proof (cases "fst (observe x s)")
    case True
    with observe_report [OF Cons.prems] show ?thesis by (auto intro!: exI [of _ 0] simp: not_less)
  next
    case False
    note rep = observe_next [OF Cons.prems False]
    have "(\<forall>i < length (x # xs). tail_run (ys @ take (Suc i) (x # xs)) < k) \<longleftrightarrow>
        tail_run (ys @ [x]) < k \<and> (\<forall>i < length xs. tail_run ((ys @ [x]) @ take (Suc i) xs) < k)"
      by (simp add: All_less_Suc2)
    with False Cons.IH [OF rep] observe_report [OF Cons.prems] show ?thesis by (simp add: not_le)
  qed
qed

text \<open>No report without \<open>k\<close> equal signatures in a row, and \<open>k\<close> in a row always report.\<close>

lemma no_report_iff:
  "first_report start xs = None \<longleftrightarrow> (\<forall>i < length xs. tail_run (take (Suc i) xs) < k)"
  using first_report_None [OF represents_start] by simp

lemma repetition_reports:
  assumes "0 < k"
  shows "first_report start (xs @ replicate k x) \<noteq> None"
proof
  assume none: "first_report start (xs @ replicate k x) = None"
  let ?n = "length xs + k - 1"
  have "tail_run (take (Suc ?n) (xs @ replicate k x)) < k"
    using none assms unfolding no_report_iff by (metis Suc_diff_1 add_gr_0 length_append length_replicate lessI)
  moreover have "take (Suc ?n) (xs @ replicate k x) = xs @ replicate k x" using assms by simp
  ultimately show False using tail_run_extend [of k xs x] by simp
qed

end

end
