(* ===== verification/Loop_Controls.thy ===== *)
theory Loop_Controls
  imports No_Progress
begin

text \<open>
  \<open>packages/agent-runtime/src/smorx_runtime/loop_controls.py\<close>: the validated bounds of the
  execution loop, the no-progress detector and the iteration budget. Environment parsing
  (\<open>from_env\<close>) is not modelled. A message is a constructor with the values the f-string
  interpolates.
\<close>

section \<open>Bounds\<close>

record loop_controls =
  max_iterations :: int
  max_runtime_seconds :: rat
  max_command_count :: int
  max_repair_attempts :: int
  no_progress_threshold :: int
  tool_timeouts_seconds :: "(string \<times> rat) list"
  per_agent_timeout_seconds :: rat
  total_phase_timeout_seconds :: rat

datatype control_error =
    FieldError "string list"
  | ToolTimeoutError string rat
  | RepairsAboveIterations int int
  | ThresholdAboveIterations int int
  | AgentTimeoutAbovePhase rat rat

definition check_tool_timeouts :: "(string \<times> rat) list \<Rightarrow> control_error + (string \<times> rat) list" where
  "check_tool_timeouts timeouts =
     (case List.find (\<lambda>(_, seconds). seconds \<le> 0) timeouts of
        Some (tool, seconds) \<Rightarrow> Inl (ToolTimeoutError tool seconds)
      | None \<Rightarrow> Inr timeouts)"

text \<open>The \<open>Field\<close> constraints, in declaration order; all violated fields are reported together.\<close>

definition field_violations :: "loop_controls \<Rightarrow> string list" where
  "field_violations c =
     (if max_iterations c < 1 then [''max_iterations''] else [])
     @ (if max_runtime_seconds c \<le> 0 then [''max_runtime_seconds''] else [])
     @ (if max_command_count c < 1 then [''max_command_count''] else [])
     @ (if max_repair_attempts c < 0 then [''max_repair_attempts''] else [])
     @ (if no_progress_threshold c < 2 then [''no_progress_threshold''] else [])
     @ (case check_tool_timeouts (tool_timeouts_seconds c) of
          Inl _ \<Rightarrow> [''tool_timeouts_seconds''] | Inr _ \<Rightarrow> [])
     @ (if per_agent_timeout_seconds c \<le> 0 then [''per_agent_timeout_seconds''] else [])
     @ (if total_phase_timeout_seconds c \<le> 0 then [''total_phase_timeout_seconds''] else [])"

definition check_bound_ordering :: "loop_controls \<Rightarrow> control_error + loop_controls" where
  "check_bound_ordering c =
     (if max_repair_attempts c > max_iterations c
      then Inl (RepairsAboveIterations (max_repair_attempts c) (max_iterations c))
      else if no_progress_threshold c > max_iterations c
      then Inl (ThresholdAboveIterations (no_progress_threshold c) (max_iterations c))
      else if per_agent_timeout_seconds c > total_phase_timeout_seconds c
      then Inl (AgentTimeoutAbovePhase (per_agent_timeout_seconds c) (total_phase_timeout_seconds c))
      else Inr c)"

text \<open>Construction: the field checks first, the model validator only when they all pass.\<close>

definition construct_controls :: "loop_controls \<Rightarrow> control_error + loop_controls" where
  "construct_controls c =
     (if field_violations c \<noteq> [] then Inl (FieldError (field_violations c))
      else check_bound_ordering c)"

definition tool_timeout_seconds :: "loop_controls \<Rightarrow> string \<Rightarrow> rat" where
  "tool_timeout_seconds c tool_name =
     (case map_of (tool_timeouts_seconds c) tool_name of
        Some timeout \<Rightarrow> timeout
      | None \<Rightarrow> (case map_of (tool_timeouts_seconds c) ''*'' of Some timeout \<Rightarrow> timeout | None \<Rightarrow> 120))"

definition default_controls :: loop_controls where
  "default_controls = \<lparr>max_iterations = 25, max_runtime_seconds = 7200, max_command_count = 200,
     max_repair_attempts = 5, no_progress_threshold = 3, tool_timeouts_seconds = [(''*'', 120)],
     per_agent_timeout_seconds = 1800, total_phase_timeout_seconds = 14400\<rparr>"

definition production_controls :: loop_controls where
  "production_controls = \<lparr>max_iterations = 8, max_runtime_seconds = 1800, max_command_count = 60,
     max_repair_attempts = 2, no_progress_threshold = 2, tool_timeouts_seconds = [(''*'', 60)],
     per_agent_timeout_seconds = 600, total_phase_timeout_seconds = 3600\<rparr>"

definition for_env :: "string \<Rightarrow> control_error + loop_controls" where
  "for_env app_env =
     (if app_env = ''development'' then construct_controls default_controls
      else construct_controls production_controls)"

section \<open>The no-progress detector\<close>

record detector =
  np_threshold :: int
  np_signature :: "string option"
  np_consecutive :: int

datatype threshold_error = ThresholdTooSmall int

definition new_detector :: "int \<Rightarrow> threshold_error + detector" where
  "new_detector threshold =
     (if threshold < 2 then Inl (ThresholdTooSmall threshold)
      else Inr \<lparr>np_threshold = threshold, np_signature = None, np_consecutive = 0\<rparr>)"

definition np_observe :: "string \<Rightarrow> detector \<Rightarrow> bool \<times> detector" where
  "np_observe signature d =
     (let d' = (if Some signature = np_signature d
                then d\<lparr>np_consecutive := np_consecutive d + 1\<rparr>
                else d\<lparr>np_signature := Some signature, np_consecutive := 1\<rparr>)
      in (np_consecutive d' \<ge> np_threshold d', d'))"

definition np_reset :: "detector \<Rightarrow> detector" where
  "np_reset d = d\<lparr>np_signature := None, np_consecutive := 0\<rparr>"

definition detector_from_controls :: "loop_controls \<Rightarrow> threshold_error + detector" where
  "detector_from_controls c = new_detector (no_progress_threshold c)"

section \<open>The iteration budget\<close>

record budget =
  bu_controls :: loop_controls
  bu_iterations :: int
  bu_commands :: int
  bu_repairs :: int
  bu_started_at :: int

datatype block_reason =
    MaxIterations int int
  | MaxCommands int int
  | MaxRepairs int int
  | MaxRuntime rat rat
  | PhaseTimeout rat rat

definition new_budget :: "loop_controls \<Rightarrow> world \<Rightarrow> budget \<times> world" where
  "new_budget c w =
     (let (t, w') = now w in
      (\<lparr>bu_controls = c, bu_iterations = 0, bu_commands = 0, bu_repairs = 0, bu_started_at = t\<rparr>, w'))"

definition record_iteration :: "budget \<Rightarrow> budget" where
  "record_iteration b = b\<lparr>bu_iterations := bu_iterations b + 1\<rparr>"

definition record_command :: "budget \<Rightarrow> budget" where
  "record_command b = b\<lparr>bu_commands := bu_commands b + 1\<rparr>"

definition record_repair :: "budget \<Rightarrow> budget" where
  "record_repair b = b\<lparr>bu_repairs := bu_repairs b + 1\<rparr>"

definition elapsed_seconds :: "budget \<Rightarrow> world \<Rightarrow> rat \<times> world" where
  "elapsed_seconds b w = (let (t, w') = now w in (seconds_between (bu_started_at b) t, w'))"

definition exceeded_iterations :: "budget \<Rightarrow> bool" where
  "exceeded_iterations b \<longleftrightarrow> bu_iterations b \<ge> max_iterations (bu_controls b)"

definition exceeded_commands :: "budget \<Rightarrow> bool" where
  "exceeded_commands b \<longleftrightarrow> bu_commands b \<ge> max_command_count (bu_controls b)"

definition exceeded_repairs :: "budget \<Rightarrow> bool" where
  "exceeded_repairs b \<longleftrightarrow> bu_repairs b \<ge> max_repair_attempts (bu_controls b)"

definition exceeded_runtime :: "budget \<Rightarrow> world \<Rightarrow> bool \<times> world" where
  "exceeded_runtime b w =
     (let (e, w') = elapsed_seconds b w in (e \<ge> max_runtime_seconds (bu_controls b), w'))"

definition exceeded_phase_timeout :: "budget \<Rightarrow> world \<Rightarrow> bool \<times> world" where
  "exceeded_phase_timeout b w =
     (let (e, w') = elapsed_seconds b w in (e \<ge> total_phase_timeout_seconds (bu_controls b), w'))"

text \<open>The clock is read for the message, then once more in each of the two time checks.\<close>

definition blocked_reasons :: "budget \<Rightarrow> world \<Rightarrow> block_reason list \<times> world" where
  "blocked_reasons b w =
     (let c = bu_controls b;
          (elapsed, w1) = elapsed_seconds b w;
          r1 = (if exceeded_iterations b then [MaxIterations (bu_iterations b) (max_iterations c)] else []);
          r2 = (if exceeded_commands b then [MaxCommands (bu_commands b) (max_command_count c)] else []);
          r3 = (if exceeded_repairs b then [MaxRepairs (bu_repairs b) (max_repair_attempts c)] else []);
          (over_runtime, w2) = exceeded_runtime b w1;
          r4 = (if over_runtime then [MaxRuntime elapsed (max_runtime_seconds c)] else []);
          (over_phase, w3) = exceeded_phase_timeout b w2;
          r5 = (if over_phase then [PhaseTimeout elapsed (total_phase_timeout_seconds c)] else [])
      in (r1 @ r2 @ r3 @ r4 @ r5, w3))"

definition within_bounds :: "budget \<Rightarrow> world \<Rightarrow> bool \<times> world" where
  "within_bounds b w = (let (reasons, w') = blocked_reasons b w in (reasons = [], w'))"

section \<open>Lemmas\<close>

definition valid_controls :: "loop_controls \<Rightarrow> bool" where
  "valid_controls c \<longleftrightarrow>
     1 \<le> max_iterations c \<and> 0 < max_runtime_seconds c \<and> 1 \<le> max_command_count c \<and>
     0 \<le> max_repair_attempts c \<and> 2 \<le> no_progress_threshold c \<and>
     (\<forall>(_, s) \<in> set (tool_timeouts_seconds c). 0 < s) \<and>
     0 < per_agent_timeout_seconds c \<and> 0 < total_phase_timeout_seconds c \<and>
     max_repair_attempts c \<le> max_iterations c \<and> no_progress_threshold c \<le> max_iterations c \<and>
     per_agent_timeout_seconds c \<le> total_phase_timeout_seconds c"

lemma check_tool_timeouts_Inl:
  "(\<exists>e. check_tool_timeouts ts = Inl e) \<longleftrightarrow> (\<exists>x \<in> set ts. snd x \<le> 0)"
proof -
  let ?P = "\<lambda>(uu :: string, seconds :: rat). seconds \<le> 0"
  have "(\<exists>e. check_tool_timeouts ts = Inl e) \<longleftrightarrow> List.find ?P ts \<noteq> None"
    by (cases "List.find ?P ts") (auto simp: check_tool_timeouts_def)
  also have "\<dots> \<longleftrightarrow> (\<exists>x. x \<in> set ts \<and> ?P x)" by (simp add: find_None_iff)
  also have "?P = (\<lambda>x. snd x \<le> 0)" by auto
  finally show ?thesis by blast
qed

lemma field_violations_Nil:
  "field_violations c = [] \<longleftrightarrow>
     1 \<le> max_iterations c \<and> 0 < max_runtime_seconds c \<and> 1 \<le> max_command_count c \<and>
     0 \<le> max_repair_attempts c \<and> 2 \<le> no_progress_threshold c \<and>
     (\<forall>(_, s) \<in> set (tool_timeouts_seconds c). 0 < s) \<and>
     0 < per_agent_timeout_seconds c \<and> 0 < total_phase_timeout_seconds c"
  using check_tool_timeouts_Inl [of "tool_timeouts_seconds c"]
  by (cases "check_tool_timeouts (tool_timeouts_seconds c)")
    (auto simp: field_violations_def not_le not_less case_prod_beta split: if_splits)

lemma construct_controls_iff: "construct_controls c = Inr c' \<longleftrightarrow> c' = c \<and> valid_controls c"
  by (auto simp: construct_controls_def check_bound_ordering_def field_violations_Nil
      valid_controls_def not_less split: if_splits)

lemma timeout_positive:
  "valid_controls c \<Longrightarrow> 0 < tool_timeout_seconds c tool"
  by (auto simp: valid_controls_def tool_timeout_seconds_def split: option.splits dest!: map_of_SomeD)

text \<open>The detector follows the no-progress contract with its threshold.\<close>

definition counts :: "int \<Rightarrow> detector \<Rightarrow> string list \<Rightarrow> bool" where
  "counts threshold d xs \<longleftrightarrow>
     np_threshold d = threshold \<and> np_consecutive d = int (tail_run xs) \<and>
     np_signature d = (if xs = [] then None else Some (last xs))"

lemma counts_observe:
  "counts threshold d xs \<Longrightarrow>
    counts threshold (snd (np_observe x d)) (xs @ [x]) \<and>
    (fst (np_observe x d) \<longleftrightarrow> threshold \<le> int (tail_run (xs @ [x])))"
  by (auto simp: counts_def np_observe_def tail_run_snoc)

interpretation detector: no_progress "nat threshold"
    "\<lparr>np_threshold = threshold, np_signature = None, np_consecutive = 0\<rparr>" np_observe "counts threshold"
  for threshold :: int
  by unfold_locales (auto simp: counts_def [of threshold "\<lparr>np_threshold = _, np_signature = _, np_consecutive = _\<rparr>"]
      nat_le_iff dest: counts_observe)

text \<open>Feeding a detector: its final state and its last answer.\<close>

fun feed :: "string list \<Rightarrow> detector \<Rightarrow> bool \<times> detector" where
  "feed [] d = (False, d)"
| "feed (x # xs) d = (if xs = [] then np_observe x d else feed xs (snd (np_observe x d)))"

lemma feed_counts:
  "counts threshold d ys \<Longrightarrow> xs \<noteq> [] \<Longrightarrow>
    counts threshold (snd (feed xs d)) (ys @ xs) \<and>
    (fst (feed xs d) \<longleftrightarrow> threshold \<le> int (tail_run (ys @ xs)))"
proof (induction xs arbitrary: d ys)
  case (Cons x xs)
  from counts_observe [OF Cons.prems(1)]
  have step: "counts threshold (snd (np_observe x d)) (ys @ [x])" by blast
  from Cons.IH [OF step] counts_observe [OF Cons.prems(1)] show ?case by (cases "xs = []") auto
qed simp

section \<open>Properties\<close>

lemma profiles_valid:
  "construct_controls c = Inr c' \<longleftrightarrow> c' = c \<and> valid_controls c"
  "for_env e = Inr (if e = ''development'' then default_controls else production_controls)"
  "max_iterations production_controls \<le> max_iterations default_controls \<and>
   max_runtime_seconds production_controls \<le> max_runtime_seconds default_controls \<and>
   max_command_count production_controls \<le> max_command_count default_controls \<and>
   max_repair_attempts production_controls \<le> max_repair_attempts default_controls \<and>
   no_progress_threshold production_controls \<le> no_progress_threshold default_controls \<and>
   0 < tool_timeout_seconds production_controls tool \<and>
   tool_timeout_seconds production_controls tool \<le> tool_timeout_seconds default_controls tool \<and>
   per_agent_timeout_seconds production_controls \<le> per_agent_timeout_seconds default_controls \<and>
   total_phase_timeout_seconds production_controls \<le> total_phase_timeout_seconds default_controls"
  by (rule construct_controls_iff)
    (simp_all add: for_env_def construct_controls_def check_bound_ordering_def field_violations_def
      check_tool_timeouts_def default_controls_def production_controls_def tool_timeout_seconds_def)

text \<open>
  A constructed \<open>LoopControls\<close> always satisfies the documented invariants and never bounds
  a tool by a non-positive timeout; both environment profiles construct, and the production
  profile is at least as strict in every bound as the development profile.
\<close>
theorem loop_controls_valid:
  "(construct_controls c = Inr c' \<longleftrightarrow> c' = c \<and> valid_controls c) \<and>
   for_env e = Inr (if e = ''development'' then default_controls else production_controls) \<and>
   max_iterations production_controls \<le> max_iterations default_controls \<and>
   max_runtime_seconds production_controls \<le> max_runtime_seconds default_controls \<and>
   max_command_count production_controls \<le> max_command_count default_controls \<and>
   max_repair_attempts production_controls \<le> max_repair_attempts default_controls \<and>
   no_progress_threshold production_controls \<le> no_progress_threshold default_controls \<and>
   0 < tool_timeout_seconds production_controls tool \<and>
   tool_timeout_seconds production_controls tool \<le> tool_timeout_seconds default_controls tool \<and>
   per_agent_timeout_seconds production_controls \<le> per_agent_timeout_seconds default_controls \<and>
   total_phase_timeout_seconds production_controls \<le> total_phase_timeout_seconds default_controls"
  using profiles_valid by blast

text \<open>
  After any non-empty sequence of signatures the detector reports no progress exactly when
  the last \<open>threshold\<close> signatures are equal.
\<close>
theorem no_progress_detector_exact:
  assumes "new_detector threshold = Inr d" and "xs \<noteq> []"
  shows "fst (feed xs d) \<longleftrightarrow>
    threshold \<le> int (length xs) \<and> (\<forall>y \<in> set (drop (length xs - nat threshold) xs). y = last xs)"
proof -
  from assms(1) have d: "counts threshold d []" and t: "2 \<le> threshold"
    by (auto simp: new_detector_def counts_def split: if_splits)
  from feed_counts [OF d assms(2)] have "fst (feed xs d) \<longleftrightarrow> nat threshold \<le> tail_run xs"
    by (simp add: nat_le_iff)
  then show ?thesis using t by (simp add: tail_run_window nat_le_iff)
qed

theorem no_progress_detector_exact_witness:
  "fst (feed [''a'', ''b'', ''b''] \<lparr>np_threshold = 2, np_signature = None, np_consecutive = 0\<rparr>) \<longleftrightarrow>
    2 \<le> int (length [''a'', ''b'', ''b'']) \<and>
    (\<forall>y \<in> set (drop (length [''a'', ''b'', ''b''] - nat 2) [''a'', ''b'', ''b'']). y = last [''a'', ''b'', ''b''])"
  by (rule no_progress_detector_exact) (simp_all add: new_detector_def)

end
