(* ===== verification/Agents.thy ===== *)
theory Agents
  imports Smorx_Prelude
begin

text \<open>
  \<open>packages/agent-runtime/src/smorx_runtime/agents.py\<close> and \<open>capabilities.py\<close>: the
  specialist catalog, the contracts of an assignment and of the result an executor returns, and
  the two discipline functions \<open>validate_result\<close> and \<open>assignment_allows_tool\<close>.
\<close>

section \<open>Specialist capabilities\<close>

datatype specialist =
    ARCHAEOLOGY | KNOWLEDGE | INTENT | IMPACT | CODING | VERIFICATION | EVIDENCE | REPAIR | CERTIFICATION

fun capability_value :: "specialist \<Rightarrow> string" where
  "capability_value ARCHAEOLOGY = ''ARCHAEOLOGY''"
| "capability_value KNOWLEDGE = ''KNOWLEDGE''"
| "capability_value INTENT = ''INTENT''"
| "capability_value IMPACT = ''IMPACT''"
| "capability_value CODING = ''CODING''"
| "capability_value VERIFICATION = ''VERIFICATION''"
| "capability_value EVIDENCE = ''EVIDENCE''"
| "capability_value REPAIR = ''REPAIR''"
| "capability_value CERTIFICATION = ''CERTIFICATION''"

record agent_capability =
  cap_capability :: specialist
  allowed_tool_prefixes :: "string list"
  required_for_phase :: "string list"

text \<open>The catalog in declaration order (the \<open>description\<close> texts are not modelled).\<close>

definition CAPABILITY_CATALOG :: "(specialist \<times> agent_capability) list" where
  "CAPABILITY_CATALOG = map (\<lambda>(c, tools, phases).
     (c, \<lparr>cap_capability = c, allowed_tool_prefixes = tools, required_for_phase = phases\<rparr>))
     [(ARCHAEOLOGY, [''evidence.'', ''file.read'', ''repository.inspect'', ''command.run''],
         [''6'', ''9'', ''10'']),
      (KNOWLEDGE, [''file.read'', ''repository.inspect'', ''web.'', ''contracts.''], []),
      (INTENT, [''file.read'', ''repository.inspect'', ''contracts.'', ''evidence.''], [''10'']),
      (IMPACT, [''file.read'', ''repository.inspect'', ''evidence.'', ''graph.''], [''7'']),
      (CODING, [''file.'', ''command.run'', ''test.run'', ''sandbox.''], [''8'']),
      (VERIFICATION, [''test.run'', ''command.run'', ''evidence.'', ''verify.''], [''9'', ''11'']),
      (EVIDENCE, [''evidence.'', ''file.read''], []),
      (REPAIR, [''file.'', ''command.run'', ''test.run'', ''sandbox.''], [''10'']),
      (CERTIFICATION, [''evidence.'', ''certificate.'', ''repository.inspect'', ''contracts.''],
         [''11''])]"

datatype key_error = KeyError

definition capability_for :: "specialist \<Rightarrow> key_error + agent_capability" where
  "capability_for name =
     (case map_of CAPABILITY_CATALOG name of None \<Rightarrow> Inl KeyError | Some entry \<Rightarrow> Inr entry)"

definition capabilities_for_phase :: "string \<Rightarrow> specialist list" where
  "capabilities_for_phase phase =
     map (cap_capability \<circ> snd)
       (filter (\<lambda>(_, entry). required_for_phase entry = [] \<or> phase \<in> set (required_for_phase entry))
          CAPABILITY_CATALOG)"

section \<open>Assignments and results\<close>

record agent_context =
  ctx_run_id :: string
  ctx_phase :: string
  ctx_task_id :: string
  ctx_correlation_id :: string
  ctx_repository :: string
  ctx_change_id :: string
  ctx_environment :: "(string \<times> string) list"
  ctx_extra :: "(string \<times> pyval) list"

record agent_assignment =
  as_id :: string
  as_task_id :: string
  as_wave_id :: string
  as_agent_id :: string
  as_objective :: string
  as_capability :: specialist
  as_context :: agent_context
  as_inputs :: "(string \<times> pyval) list"
  as_constraints :: "string list"
  allowed_tools :: "string list"
  expected_artifact :: string
  as_timeout :: rat
  as_created_at :: int

record agent_evidence =
  ev_id :: string
  ev_source :: string
  ev_timestamp :: int
  ev_type :: string
  ev_claim_id :: "string option"
  ev_machine_result :: "(string \<times> pyval) list"
  ev_provenance :: string
  ev_related_execution :: string

record agent_failure =
  failure_id :: string
  classification :: string
  fl_summary :: string
  observed_at :: int
  fl_evidence :: string
  probable_cause :: string
  next_action :: string

record agent_result =
  rs_assignment_id :: string
  rs_task_id :: string
  rs_status :: string
  rs_started_at :: int
  rs_finished_at :: int
  rs_claims :: "string list"
  rs_artifacts :: "(string \<times> pyval) list"
  rs_evidence :: "agent_evidence list"
  rs_failures :: "agent_failure list"
  execution_references :: "string list"
  confidence :: rat
  next_recommendation :: string
  rs_summary :: string

datatype value_error = ValueError

text \<open>The check of \<open>AgentResult.__post_init__\<close>: only a confidence in [0, 1] is constructed.\<close>

definition construct_result :: "agent_result \<Rightarrow> value_error + agent_result" where
  "construct_result r = (if 0 \<le> confidence r \<and> confidence r \<le> 1 then Inr r else Inl ValueError)"

record agent_spec =
  sp_agent_id :: string
  sp_name :: string
  sp_capability :: specialist
  replacement_weight :: int

definition validate_result :: "agent_result \<Rightarrow> string list" where
  "validate_result r =
     (if rs_status r = ''SUCCEEDED'' then
        (if rs_evidence r = [] \<and> execution_references r = [] then [''SUCCEEDED without evidence''] else [])
        @ (if rs_failures r \<noteq> [] then [''SUCCEEDED with failures''] else [])
      else if rs_status r = ''FAILED'' then
        (if rs_failures r = [] then [''FAILED without failure record''] else [])
      else [])
     @ (if \<not> (0 \<le> confidence r \<and> confidence r \<le> 1) then [''confidence out of range''] else [])
     @ (if rs_finished_at r < rs_started_at r then [''finished_at before started_at''] else [])"

text \<open>The loop over the allowed entries; the first match returns.\<close>

fun allowed_by :: "string list \<Rightarrow> string \<Rightarrow> bool" where
  "allowed_by [] tool_name = False"
| "allowed_by (entry # rest) tool_name =
     (if tool_name = entry then True
      else if endswith entry ''.'' \<and> startswith tool_name entry then True
      else allowed_by rest tool_name)"

definition assignment_allows_tool :: "agent_assignment \<Rightarrow> string \<Rightarrow> bool" where
  "assignment_allows_tool assignment tool_name = allowed_by (allowed_tools assignment) tool_name"

section \<open>Lemmas\<close>

lemma allowed_by_iff:
  "allowed_by entries tool \<longleftrightarrow>
    tool \<in> set entries \<or> (\<exists>e \<in> set entries. endswith e ''.'' \<and> startswith tool e)"
  by (induction entries) auto

lemma allowed_by_append: "allowed_by (xs @ ys) t \<longleftrightarrow> allowed_by xs t \<or> allowed_by ys t"
  by (auto simp: allowed_by_iff)

lemma capability_total: "\<exists>entry. capability_for c = Inr entry \<and> cap_capability entry = c"
  by (cases c) (simp_all add: capability_for_def CAPABILITY_CATALOG_def)

definition tools_of :: "specialist \<Rightarrow> string list" where
  "tools_of c = (case capability_for c of Inr entry \<Rightarrow> allowed_tool_prefixes entry | Inl _ \<Rightarrow> [])"

lemmas catalog_eval = tools_of_def capability_for_def CAPABILITY_CATALOG_def startswith_def endswith_def

text \<open>A result the runtime may count as a success.\<close>

definition disciplined :: "agent_result \<Rightarrow> bool" where
  "disciplined r \<longleftrightarrow>
     (rs_status r = ''SUCCEEDED'' \<longrightarrow>
        (rs_evidence r \<noteq> [] \<or> execution_references r \<noteq> []) \<and> rs_failures r = []) \<and>
     (rs_status r = ''FAILED'' \<longrightarrow> rs_failures r \<noteq> []) \<and>
     0 \<le> confidence r \<and> confidence r \<le> 1 \<and> rs_started_at r \<le> rs_finished_at r"

lemma validate_result_Nil_iff: "validate_result r = [] \<longleftrightarrow> disciplined r"
  by (auto simp: validate_result_def disciplined_def)

section \<open>Properties\<close>

text \<open>
  Only the coding and the repair specialist are given a tool that writes: of the tools
  under \<open>file.\<close> every other role reaches at most \<open>file.read\<close>, and no other role reaches any
  tool under \<open>sandbox.\<close>. Only the certification specialist reaches \<open>certificate.\<close> tools.
\<close>
theorem catalog_separates_duties:
  "allowed_by (tools_of c) (''file.'' @ s) \<longleftrightarrow>
     c \<in> {CODING, REPAIR} \<or> (s = ''read'' \<and> c \<notin> {VERIFICATION, CERTIFICATION})"
  "allowed_by (tools_of c) (''sandbox.'' @ s) \<longleftrightarrow> c \<in> {CODING, REPAIR}"
  "allowed_by (tools_of c) (''certificate.'' @ s) \<longleftrightarrow> c = CERTIFICATION"
  by (cases c; simp add: catalog_eval)+

text \<open>
  \<open>validate_result\<close> reports nothing exactly for a disciplined result: a success has
  evidence or an execution reference and no failure, a failure has a failure record, the
  confidence is in range, and the result does not finish before it starts.
\<close>
theorem validate_result_complete:
  "validate_result r = [] \<longleftrightarrow> disciplined r"
  by (rule validate_result_Nil_iff)

end
