(* ===== verification/Task_Graph.thy ===== *)
theory Task_Graph
  imports Agents "HOL-Library.Multiset"
begin

text \<open>
  \<open>packages/agent-runtime/src/smorx_runtime/graph.py\<close>: the task graph and the wave planner.
  A graph is the dictionary from task ids to tasks, in insertion order. The cycle check is the
  depth-first search of the source over an explicit stack and a seen set; the planner is its
  layering loop. Both loops are proved to terminate.
\<close>

section \<open>Model\<close>

datatype task_kind = INDEPENDENT | DEPENDENT | RECONCILER | SERIALIZED

fun kind_priority :: "task_kind \<Rightarrow> nat" where
  "kind_priority INDEPENDENT = 0"
| "kind_priority DEPENDENT = 1"
| "kind_priority RECONCILER = 2"
| "kind_priority SERIALIZED = 3"

record task_spec =
  ts_id :: string
  ts_capability :: specialist
  ts_kind :: task_kind
  ts_description :: string
  depends_on :: "string list"
  ts_timeout :: "rat option"
  ts_inputs :: "(string \<times> pyval) list"

type_synonym task_graph = "(string \<times> task_spec) list"

datatype graph_error =
    DuplicateTask string
  | UnknownTask string
  | WouldCycle string string
  | BadParallelism int
  | Unschedulable

definition has_task :: "task_graph \<Rightarrow> string \<Rightarrow> bool" where
  "has_task g i \<longleftrightarrow> i \<in> fst ` set g"

definition add :: "task_graph \<Rightarrow> task_spec \<Rightarrow> graph_error + task_graph" where
  "add g task =
     (if has_task g (ts_id task) then Inl (DuplicateTask (ts_id task))
      else Inr (AList.update (ts_id task) task g))"

definition tasks :: "task_graph \<Rightarrow> task_spec list" where
  "tasks g = map snd g"

definition dependencies_of :: "task_graph \<Rightarrow> string \<Rightarrow> graph_error + string list" where
  "dependencies_of g i =
     (case map_of g i of None \<Rightarrow> Inl (UnknownTask i) | Some task \<Rightarrow> Inr (depends_on task))"

definition ready :: "task_graph \<Rightarrow> string list \<Rightarrow> task_spec list" where
  "ready g completed =
     filter (\<lambda>task. ts_id task \<notin> set completed \<and> list_all (\<lambda>dep. dep \<in> set completed) (depends_on task))
       (tasks g)"

definition remaining :: "task_graph \<Rightarrow> string list \<Rightarrow> task_spec list" where
  "remaining g completed = filter (\<lambda>task. ts_id task \<notin> set completed) (tasks g)"

text \<open>
  The inner loop of \<open>_creates_cycle\<close> over the dependencies of the current task: \<open>None\<close> when it
  meets the task the edge starts from (the method returns True), otherwise the seen set and the
  stack it leaves. The top of the stack is the end of the list, as with \<open>append\<close> and \<open>pop\<close>.
\<close>

fun scan_deps :: "string \<Rightarrow> string list \<Rightarrow> string list \<Rightarrow> string list \<Rightarrow> (string list \<times> string list) option" where
  "scan_deps t [] seen stack = Some (seen, stack)"
| "scan_deps t (dep # deps) seen stack =
     (if dep = t then None
      else if dep \<notin> set seen then scan_deps t deps (dep # seen) (stack @ [dep])
      else scan_deps t deps seen stack)"

definition all_deps :: "task_graph \<Rightarrow> string set" where
  "all_deps g = (\<Union>task \<in> set (tasks g). set (depends_on task))"

lemma finite_all_deps [simp]: "finite (all_deps g)"
  by (simp add: all_deps_def)

lemma map_of_in_tasks: "map_of g i = Some task \<Longrightarrow> task \<in> set (tasks g)"
  by (metis image_eqI list.set_map map_of_SomeD snd_conv tasks_def)

lemma deps_in_all_deps: "map_of g i = Some task \<Longrightarrow> set (depends_on task) \<subseteq> all_deps g"
  using map_of_in_tasks by (fastforce simp: all_deps_def)

lemma card_diff_Cons:
  assumes "finite D" and "x \<in> D" and "x \<notin> set seen"
  shows "card (D - set seen) = Suc (card (D - set (x # seen)))"
proof -
  have "D - set seen = insert x (D - set (x # seen))" using assms by auto
  then have "card (D - set seen) = card (insert x (D - set (x # seen)))" by (rule arg_cong)
  also have "\<dots> = Suc (card (D - set (x # seen)))"
    by (rule card_insert_disjoint) (use assms in auto)
  finally show ?thesis .
qed

lemma scan_deps_measure:
  assumes "finite D"
  shows "scan_deps t deps seen stack = Some (seen', stack') \<Longrightarrow> set deps \<subseteq> D \<Longrightarrow>
    2 * card (D - set seen') + length stack' \<le> 2 * card (D - set seen) + length stack"
proof (induction deps arbitrary: seen stack)
  case Nil
  then show ?case by simp
next
  case (Cons dep deps)
  show ?case
  proof (cases "dep \<in> set seen")
    case True
    with Cons show ?thesis by (simp split: if_splits)
  next
    case False
    with Cons.prems have sc: "scan_deps t deps (dep # seen) (stack @ [dep]) = Some (seen', stack')"
      by (simp split: if_splits)
    have "card (D - set seen) = Suc (card (D - set (dep # seen)))"
      using assms Cons.prems False by (intro card_diff_Cons) simp_all
    with Cons.IH [OF sc] Cons.prems show ?thesis by simp
  qed
qed

function search :: "task_graph \<Rightarrow> string \<Rightarrow> string list \<Rightarrow> string list \<Rightarrow> bool" where
  "search g t seen stack =
     (if stack = [] then False
      else case map_of g (last stack) of
          None \<Rightarrow> search g t seen (butlast stack)
        | Some task \<Rightarrow>
            (case scan_deps t (depends_on task) seen (butlast stack) of
               None \<Rightarrow> True
             | Some (seen', stack') \<Rightarrow> search g t seen' stack'))"
  by pat_completeness auto
termination
proof (relation "measure (\<lambda>(g, t, seen, stack). 2 * card (all_deps g - set seen) + length stack)")
  fix g :: task_graph and t seen stack task p seen' stack'
  assume ne: "stack \<noteq> []" and m: "map_of g (last stack) = Some task"
    and sc: "scan_deps t (depends_on task) seen (butlast stack) = Some p" and p: "(seen', stack') = p"
  have "2 * card (all_deps g - set seen') + length stack'
      \<le> 2 * card (all_deps g - set seen) + length (butlast stack)"
    using scan_deps_measure [OF finite_all_deps sc [folded p] deps_in_all_deps [OF m]] .
  moreover from ne have "length (butlast stack) < length stack"
    by (cases stack) simp_all
  ultimately have "2 * card (all_deps g - set seen') + length stack'
      < 2 * card (all_deps g - set seen) + length stack"
    by linarith
  then show "((g, t, seen', stack'), g, t, seen, stack)
      \<in> measure (\<lambda>(g, t, seen, stack). 2 * card (all_deps g - set seen) + length stack)"
    by simp
qed auto

declare search.simps [simp del]

definition creates_cycle :: "task_graph \<Rightarrow> string \<Rightarrow> string \<Rightarrow> bool" where
  "creates_cycle g t d = (if t = d then True else search g t [] [d])"

definition add_dependency :: "task_graph \<Rightarrow> string \<Rightarrow> string \<Rightarrow> graph_error + task_graph" where
  "add_dependency g t d =
     (if \<not> has_task g t then Inl (UnknownTask t)
      else if \<not> has_task g d then Inl (UnknownTask d)
      else case map_of g t of
          None \<Rightarrow> Inl (UnknownTask t)
        | Some task \<Rightarrow>
            if d \<in> set (depends_on task) then Inr g
            else if creates_cycle g t d then Inl (WouldCycle t d)
            else Inr (AList.update t (task\<lparr>depends_on := depends_on task @ [d]\<rparr>) g))"

text \<open>The slices \<open>xs[i : i + n]\<close> for \<open>i\<close> in \<open>range(0, len(xs), n)\<close>.\<close>

function chunk :: "nat \<Rightarrow> 'a list \<Rightarrow> 'a list list" where
  "chunk n xs = (if n = 0 \<or> xs = [] then [] else take n xs # chunk n (drop n xs))"
  by pat_completeness auto
termination by (relation "measure (\<lambda>(n, xs). length xs)") auto

declare chunk.simps [simp del]

definition candidates :: "task_graph \<Rightarrow> string list \<Rightarrow> string list \<Rightarrow> task_spec list" where
  "candidates g fin unscheduled =
     sort_key (\<lambda>task. (kind_priority (ts_kind task), ts_id task))
       (filter (\<lambda>task. ts_id task \<in> set unscheduled \<and>
           list_all (\<lambda>dep. dep \<in> set fin) (depends_on task)) (tasks g))"

lemma candidates_set:
  "set (candidates g fin unscheduled) =
    {task \<in> set (tasks g). ts_id task \<in> set unscheduled \<and> set (depends_on task) \<subseteq> set fin}"
  by (auto simp: candidates_def list_all_iff)

lemma filter_shorter: "x \<in> set xs \<Longrightarrow> x \<in> A \<Longrightarrow> length (filter (\<lambda>i. i \<notin> A) xs) < length xs"
  by (rule length_filter_less) auto

lemma candidate_progress:
  assumes "part = filter Q (candidates g fin unscheduled)" and "part \<noteq> []"
  shows "length (filter (\<lambda>i. i \<notin> set (map ts_id part)) unscheduled) < length unscheduled"
proof -
  from assms(2) obtain task where t: "task \<in> set part" by (cases part) auto
  with assms(1) have "ts_id task \<in> set unscheduled" by (auto simp: candidates_set)
  with t show ?thesis by (auto intro!: filter_shorter [of "ts_id task"])
qed

function waves_loop ::
    "task_graph \<Rightarrow> int option \<Rightarrow> string list \<Rightarrow> string list \<Rightarrow> task_spec list list \<Rightarrow>
     graph_error + task_spec list list" where
  "waves_loop g maxp fin unscheduled plan =
     (if unscheduled = [] then Inr plan
      else
        let cands = candidates g fin unscheduled;
            serialized = filter (\<lambda>task. ts_kind task = SERIALIZED) cands;
            non_serialized = filter (\<lambda>task. ts_kind task \<noteq> SERIALIZED) cands
        in
        if cands = [] then Inl Unschedulable
        else if serialized \<noteq> [] then
          waves_loop g maxp (fin @ map ts_id serialized)
            (filter (\<lambda>i. i \<notin> set (map ts_id serialized)) unscheduled)
            (plan @ map (\<lambda>task. [task]) serialized)
        else
          let capacity = (case maxp of None \<Rightarrow> length non_serialized | Some p \<Rightarrow> nat p) in
          waves_loop g maxp (fin @ map ts_id non_serialized)
            (filter (\<lambda>i. i \<notin> set (map ts_id non_serialized)) unscheduled)
            (plan @ chunk capacity non_serialized))"
  by pat_completeness auto

termination
proof (relation "measure (\<lambda>(g, maxp, fin, unscheduled, plan). length unscheduled)", goal_cases)
  case 1
  show ?case by simp
next
  case (2 g maxp fin unscheduled plan cands ser non)
  then show ?case using candidate_progress [of ser _ g fin unscheduled] by simp
next
  case (3 g maxp fin unscheduled plan cands ser non capacity)
  then have "non \<noteq> []" by (auto simp: filter_empty_conv)
  with 3 show ?case using candidate_progress [of non _ g fin unscheduled] by simp
qed

declare waves_loop.simps [simp del]

definition waves :: "task_graph \<Rightarrow> string list \<Rightarrow> int option \<Rightarrow> graph_error + task_spec list list" where
  "waves g completed maxp =
     (case maxp of
        Some p \<Rightarrow>
          if p < 1 then Inl (BadParallelism p)
          else waves_loop g maxp completed (filter (\<lambda>i. i \<notin> set completed) (map fst g)) []
      | None \<Rightarrow> waves_loop g maxp completed (filter (\<lambda>i. i \<notin> set completed) (map fst g)) [])"


section \<open>The cycle check is reachability\<close>

definition edges :: "task_graph \<Rightarrow> (string \<times> string) set" where
  "edges g = {(a, b). \<exists>task. map_of g a = Some task \<and> b \<in> set (depends_on task)}"

lemma scan_deps_Some:
  "scan_deps t deps seen stack = Some (seen', stack') \<Longrightarrow>
    t \<notin> set deps \<and> set seen' = set seen \<union> set deps \<and> set stack \<subseteq> set stack' \<and>
    set stack' \<subseteq> set stack \<union> set deps \<and> set seen' - set seen \<subseteq> set stack'"
proof (induction deps arbitrary: seen stack)
  case Nil
  then show ?case by simp
next
  case (Cons dep deps)
  show ?case
  proof (cases "dep \<in> set seen")
    case True
    with Cons.prems have "dep \<noteq> t" "scan_deps t deps seen stack = Some (seen', stack')"
      by (auto split: if_splits)
    with Cons.IH [OF this(2)] True show ?thesis by auto
  next
    case False
    with Cons.prems have "dep \<noteq> t" "scan_deps t deps (dep # seen) (stack @ [dep]) = Some (seen', stack')"
      by (auto split: if_splits)
    with Cons.IH [OF this(2)] False show ?thesis by auto
  qed
qed

lemma scan_deps_None: "scan_deps t deps seen stack = None \<longleftrightarrow> t \<in> set deps"
  by (induction deps arbitrary: seen stack) auto

lemma in_butlast_or_last: "stack \<noteq> [] \<Longrightarrow> set stack = insert (last stack) (set (butlast stack))"
  by (cases stack rule: rev_cases) auto

text \<open>Every stacked node is reachable from the src; every other seen node is expanded.\<close>

definition search_inv :: "task_graph \<Rightarrow> string \<Rightarrow> string \<Rightarrow> string list \<Rightarrow> string list \<Rightarrow> bool" where
  "search_inv g t src seen stack \<longleftrightarrow>
     (\<forall>x \<in> set stack. (src, x) \<in> (edges g)\<^sup>*) \<and>
     (\<forall>x \<in> insert src (set seen). x \<notin> set stack \<longrightarrow>
        (\<forall>y. (x, y) \<in> edges g \<longrightarrow> y \<in> set seen \<and> y \<noteq> t))"

lemma search_inv_skip:
  assumes "search_inv g t src seen stack" "stack \<noteq> []" "map_of g (last stack) = None"
  shows "search_inv g t src seen (butlast stack)"
proof -
  note L = in_butlast_or_last [OF assms(2)]
  have "y \<in> set seen \<and> y \<noteq> t"
    if x: "x \<in> insert src (set seen)" "x \<notin> set (butlast stack)" and e: "(x, y) \<in> edges g" for x y
  proof -
    have "x \<noteq> last stack" using e assms(3) by (auto simp: edges_def)
    with x L have "x \<notin> set stack" by simp
    with x(1) e assms(1) show ?thesis by (auto simp: search_inv_def)
  qed
  moreover have "\<forall>x \<in> set (butlast stack). (src, x) \<in> (edges g)\<^sup>*"
    using assms(1) L by (simp add: search_inv_def)
  ultimately show ?thesis by (simp add: search_inv_def)
qed

lemma search_inv_expand:
  assumes inv: "search_inv g t src seen stack" and ne: "stack \<noteq> []"
    and m: "map_of g (last stack) = Some task"
    and sc: "scan_deps t (depends_on task) seen (butlast stack) = Some (seen', stack')"
  shows "search_inv g t src seen' stack'"
proof -
  note S = scan_deps_Some [OF sc] and L = in_butlast_or_last [OF ne]
  have out: "(last stack, y) \<in> edges g \<longleftrightarrow> y \<in> set (depends_on task)" for y
    using m by (auto simp: edges_def)
  have "(src, last stack) \<in> (edges g)\<^sup>*"
    using inv ne by (simp add: search_inv_def)
  then have "(src, y) \<in> (edges g)\<^sup>*" if "y \<in> set (depends_on task)" for y
    using out that by (meson rtrancl.rtrancl_into_rtrancl)
  then have "\<forall>x \<in> set stack'. (src, x) \<in> (edges g)\<^sup>*"
    using S L inv by (auto simp: search_inv_def)
  moreover have "y \<in> set seen' \<and> y \<noteq> t"
    if x: "x \<in> insert src (set seen')" "x \<notin> set stack'" and e: "(x, y) \<in> edges g" for x y
  proof (cases "x = last stack")
    case True
    with e out S show ?thesis by auto
  next
    case False
    with x S L have "x \<in> insert src (set seen)" "x \<notin> set stack" by auto
    with inv e S show ?thesis by (auto simp: search_inv_def)
  qed
  ultimately show ?thesis by (auto simp: search_inv_def)
qed

lemma search_inv_end:
  assumes inv: "search_inv g t src seen []"
  shows "(src, t) \<notin> (edges g)\<^sup>+"
proof
  have closed: "x \<in> insert src (set seen) \<Longrightarrow> (x, y) \<in> edges g \<Longrightarrow> y \<in> set seen \<and> y \<noteq> t" for x y
    using inv by (auto simp: search_inv_def)
  assume "(src, t) \<in> (edges g)\<^sup>+"
  then obtain z where z: "(src, z) \<in> (edges g)\<^sup>*" "(z, t) \<in> edges g"
    by (meson tranclD2)
  from z(1) have "z \<in> insert src (set seen)"
    by (induction rule: rtrancl_induct) (use closed in auto)
  with closed z(2) show False by blast
qed

lemma search_correct:
  "search_inv g t src seen stack \<Longrightarrow> search g t seen stack \<longleftrightarrow> (src, t) \<in> (edges g)\<^sup>+"
proof (induction g t seen stack rule: search.induct)
  case (1 g t seen stack)
  show ?case
  proof (cases "stack = []")
    case True
    with "1.prems" show ?thesis using search_inv_end by (subst search.simps) simp
  next
    case ne: False
    show ?thesis
    proof (cases "map_of g (last stack)")
      case None
      with ne "1.IH"(1) search_inv_skip [OF "1.prems"] show ?thesis by (subst search.simps) simp
    next
      case (Some task)
      show ?thesis
      proof (cases "scan_deps t (depends_on task) seen (butlast stack)")
        case None
        then have "(last stack, t) \<in> edges g" using Some by (auto simp: edges_def scan_deps_None)
        moreover have "(src, last stack) \<in> (edges g)\<^sup>*"
          using "1.prems" ne by (simp add: search_inv_def)
        ultimately show ?thesis
          using ne Some None by (subst search.simps) (simp add: rtrancl_into_trancl1)
      next
        case sc: (Some p)
        obtain seen' stack' where p: "p = (seen', stack')" by fastforce
        from "1.IH"(2) [OF ne Some sc p [symmetric]]
          search_inv_expand [OF "1.prems" ne Some sc [unfolded p]]
        show ?thesis using ne Some sc p by (subst search.simps) simp
      qed
    qed
  qed
qed

lemma creates_cycle_reach: "creates_cycle g t d \<longleftrightarrow> (d, t) \<in> (edges g)\<^sup>*"
proof -
  have "search_inv g t d [] [d]" by (simp add: search_inv_def)
  from search_correct [OF this] show ?thesis
    by (auto simp: creates_cycle_def rtrancl_eq_or_trancl)
qed

lemma edges_add_edge:
  assumes "map_of g t = Some task"
  shows "edges (AList.update t (task\<lparr>depends_on := depends_on task @ [d]\<rparr>) g) = insert (t, d) (edges g)"
  using assms by (auto simp: edges_def split: if_splits)

lemma add_dependency_cases:
  assumes "add_dependency g t d = Inr g'"
  shows "(g' = g \<and> (t, d) \<in> edges g) \<or>
    (\<exists>task. map_of g t = Some task \<and> (d, t) \<notin> (edges g)\<^sup>* \<and>
       g' = AList.update t (task\<lparr>depends_on := depends_on task @ [d]\<rparr>) g)"
  using assms
  by (auto simp: add_dependency_def creates_cycle_reach edges_def split: if_splits option.splits)

section \<open>The wave planner\<close>

text \<open>A graph built by \<open>add\<close> and \<open>add_dependency\<close>: the keys are the task ids, each once.\<close>

definition wf_graph :: "task_graph \<Rightarrow> bool" where
  "wf_graph g \<longleftrightarrow> distinct (map fst g) \<and> (\<forall>(i, task) \<in> set g. ts_id task = i)"

lemma wf_graph_Nil: "wf_graph []"
  by (simp add: wf_graph_def)

lemma set_update_subset: "set (AList.update k v al) \<subseteq> insert (k, v) (set al)"
  by (induction al) auto

lemma wf_graph_update:
  "wf_graph g \<Longrightarrow> ts_id task = i \<Longrightarrow> wf_graph (AList.update i task g)"
  using set_update_subset [of i task g] by (fastforce simp: wf_graph_def distinct_update)

lemma wf_graph_add: "wf_graph g \<Longrightarrow> add g task = Inr g' \<Longrightarrow> wf_graph g'"
  by (auto simp: add_def wf_graph_update split: if_splits)

lemma wf_graph_lookup: "wf_graph g \<Longrightarrow> map_of g i = Some task \<Longrightarrow> ts_id task = i"
  using map_of_SomeD by (fastforce simp: wf_graph_def)

lemma wf_graph_add_dependency: "wf_graph g \<Longrightarrow> add_dependency g t d = Inr g' \<Longrightarrow> wf_graph g'"
  by (auto dest!: add_dependency_cases simp: wf_graph_lookup intro!: wf_graph_update)

lemma wf_graph_key: "wf_graph g \<Longrightarrow> task \<in> set (tasks g) \<Longrightarrow> map_of g (ts_id task) = Some task"
  by (fastforce simp: wf_graph_def tasks_def)

lemma wf_graph_ids: "wf_graph g \<Longrightarrow> ts_id ` set (tasks g) = fst ` set g"
  by (force simp: wf_graph_def tasks_def image_iff)

lemma wf_graph_inj: "wf_graph g \<Longrightarrow> inj_on ts_id (set (tasks g))"
  by (metis inj_onI option.inject wf_graph_key)

text \<open>What a plan promises, wave by wave, from the set of completed ids.\<close>

fun ordered_after :: "string set \<Rightarrow> task_spec list list \<Rightarrow> bool" where
  "ordered_after D [] = True"
| "ordered_after D (wave # plan) =
     ((\<forall>task \<in> set wave. set (depends_on task) \<subseteq> D) \<and> ordered_after (D \<union> ts_id ` set wave) plan)"

definition wave_shape :: "int option \<Rightarrow> task_spec list \<Rightarrow> bool" where
  "wave_shape maxp wave \<longleftrightarrow>
     wave \<noteq> [] \<and>
     (case maxp of None \<Rightarrow> True | Some p \<Rightarrow> int (length wave) \<le> p) \<and>
     ((\<exists>task \<in> set wave. ts_kind task = SERIALIZED) \<longrightarrow> length wave = 1)"

lemma ordered_after_append [simp]:
  "ordered_after D (xs @ ys) \<longleftrightarrow> ordered_after D xs \<and> ordered_after (D \<union> ts_id ` set (concat xs)) ys"
  by (induction xs arbitrary: D) (auto simp: Un_assoc image_Un)

lemma ordered_after_layer:
  "\<forall>wave \<in> set plan. \<forall>task \<in> set wave. set (depends_on task) \<subseteq> D \<Longrightarrow> ordered_after D plan"
proof (induction plan arbitrary: D)
  case (Cons wave plan)
  then have "ordered_after (D \<union> ts_id ` set wave) plan"
    by (intro Cons.IH) (metis le_supI1 list.set_intros(2))
  with Cons.prems show ?case by simp
qed simp

lemma concat_chunk: "0 < n \<Longrightarrow> concat (chunk n xs) = xs"
  by (induction n xs rule: chunk.induct) (subst chunk.simps, simp)

lemma chunk_bounds: "ys \<in> set (chunk n xs) \<Longrightarrow> ys \<noteq> [] \<and> length ys \<le> n \<and> set ys \<subseteq> set xs"
proof (induction n xs rule: chunk.induct)
  case (1 n xs)
  show ?case
  proof (cases "n = 0 \<or> xs = []")
    case True
    with "1.prems" show ?thesis by (simp add: chunk.simps [of n xs])
  next
    case False
    with "1.prems" have "ys = take n xs \<or> ys \<in> set (chunk n (drop n xs))"
      by (simp add: chunk.simps [of n xs])
    with False "1.IH" show ?thesis by (auto dest: in_set_takeD in_set_dropD)
  qed
qed

text \<open>The state of the layering loop.\<close>

definition loop_inv :: "task_graph \<Rightarrow> string list \<Rightarrow> int option \<Rightarrow>
    string list \<Rightarrow> string list \<Rightarrow> task_spec list list \<Rightarrow> bool" where
  "loop_inv g completed maxp fin unscheduled plan \<longleftrightarrow>
     set fin = set completed \<union> ts_id ` set (concat plan) \<and>
     set unscheduled = fst ` set g - set fin \<and>
     set (concat plan) \<subseteq> set (tasks g) \<and>
     ts_id ` set (concat plan) \<inter> set completed = {} \<and>
     distinct (map ts_id (concat plan)) \<and>
     ordered_after (set completed) plan \<and>
     (\<forall>wave \<in> set plan. wave_shape maxp wave)"

lemma distinct_candidates:
  assumes "wf_graph g"
  shows "distinct (map ts_id (candidates g fin unscheduled))"
proof -
  have "map ts_id (tasks g) = map fst g"
    using assms by (auto simp: wf_graph_def tasks_def)
  then have "distinct (map ts_id (tasks g))" using assms by (simp add: wf_graph_def)
  then have d: "distinct (tasks g)" by (simp add: distinct_map)
  have "inj_on ts_id (set (candidates g fin unscheduled))"
    by (rule inj_on_subset [OF wf_graph_inj [OF assms]]) (auto simp: candidates_set)
  moreover have "distinct (candidates g fin unscheduled)"
    using d by (simp add: candidates_def)
  ultimately show ?thesis by (simp add: distinct_map)
qed

lemma loop_inv_step:
  assumes wf: "wf_graph g" and inv: "loop_inv g completed maxp fin unscheduled plan"
    and part: "part = filter Q (candidates g fin unscheduled)"
    and layer: "concat new = part" "\<forall>wave \<in> set new. wave_shape maxp wave"
  shows "loop_inv g completed maxp (fin @ map ts_id part)
    (filter (\<lambda>i. i \<notin> set (map ts_id part)) unscheduled) (plan @ new)"
proof -
  have sub: "set part \<subseteq> {task \<in> set (tasks g). ts_id task \<in> set unscheduled \<and> set (depends_on task) \<subseteq> set fin}"
    using part candidates_set by auto
  have fresh: "ts_id ` set part \<inter> set fin = {}"
    using sub inv by (auto simp: loop_inv_def)
  have "distinct (map ts_id part)"
    using distinct_candidates [OF wf] by (simp add: part distinct_map_filter)
  then have "distinct (map ts_id (concat (plan @ new)))"
    using inv fresh layer(1) by (auto simp: loop_inv_def)
  moreover have "ordered_after (set completed) (plan @ new)"
  proof -
    have "\<forall>task \<in> set (concat new). set (depends_on task) \<subseteq> set fin" using sub layer(1) by blast
    then have "ordered_after (set fin) new" by (intro ordered_after_layer) auto
    with inv show ?thesis by (simp add: loop_inv_def)
  qed
  moreover have "ts_id ` set (concat (plan @ new)) \<inter> set completed = {}"
  proof -
    have "ts_id ` set (concat plan) \<inter> set completed = {}" "set completed \<subseteq> set fin"
      using inv by (auto simp: loop_inv_def)
    moreover have "ts_id ` set (concat new) \<inter> set fin = {}" using fresh layer(1) by simp
    ultimately have "(ts_id ` set (concat plan) \<union> ts_id ` set (concat new)) \<inter> set completed = {}"
      by blast
    then show ?thesis by (simp only: concat_append set_append image_Un)
  qed
  moreover have "set (concat (plan @ new)) \<subseteq> set (tasks g)"
    using inv sub layer(1) by (auto simp: loop_inv_def)
  moreover have "set (fin @ map ts_id part) = set completed \<union> ts_id ` set (concat (plan @ new))"
    using inv layer(1) by (auto simp: loop_inv_def)
  moreover have "set (filter (\<lambda>i. i \<notin> set (map ts_id part)) unscheduled) =
      fst ` set g - set (fin @ map ts_id part)"
    using inv by (auto simp: loop_inv_def)
  moreover have "\<forall>wave \<in> set (plan @ new). wave_shape maxp wave"
    using inv layer(2) by (auto simp: loop_inv_def)
  ultimately show ?thesis unfolding loop_inv_def by (intro conjI)
qed

lemma capacity_shapes:
  assumes "part \<noteq> []" and "\<forall>task \<in> set part. ts_kind task \<noteq> SERIALIZED"
    and "\<forall>p. maxp = Some p \<longrightarrow> 1 \<le> p"
  defines "capacity \<equiv> (case maxp of None \<Rightarrow> length part | Some p \<Rightarrow> nat p)"
  shows "concat (chunk capacity part) = part \<and> (\<forall>wave \<in> set (chunk capacity part). wave_shape maxp wave)"
proof
  from assms have "0 < capacity" by (auto split: option.splits)
  then show "concat (chunk capacity part) = part" by (rule concat_chunk)
  show "\<forall>wave \<in> set (chunk capacity part). wave_shape maxp wave"
  proof
    fix wave assume "wave \<in> set (chunk capacity part)"
    note b = chunk_bounds [OF this]
    then have "\<forall>task \<in> set wave. ts_kind task \<noteq> SERIALIZED" using assms(2) by blast
    moreover have "case maxp of None \<Rightarrow> True | Some p \<Rightarrow> int (length wave) \<le> p"
      using b assms(3) by (auto simp: capacity_def split: option.splits)
    ultimately show "wave_shape maxp wave" using b by (auto simp: wave_shape_def)
  qed
qed

lemma serial_shapes:
  "\<forall>p. maxp = Some p \<longrightarrow> 1 \<le> p \<Longrightarrow>
    concat (map (\<lambda>task. [task]) part) = part \<and>
    (\<forall>wave \<in> set (map (\<lambda>task. [task]) part). wave_shape maxp wave)"
  by (induction part) (auto simp: wave_shape_def split: option.splits)

lemma waves_loop_inv:
  assumes "wf_graph g" and "\<forall>p. maxp = Some p \<longrightarrow> 1 \<le> p"
  shows "loop_inv g completed maxp fin unscheduled plan \<Longrightarrow>
    waves_loop g maxp fin unscheduled plan = Inr result \<Longrightarrow>
    \<exists>fin'. loop_inv g completed maxp fin' [] result"
  using assms
proof (induction g maxp fin unscheduled plan rule: waves_loop.induct)
  case (1 g maxp fin unscheduled plan)
  let ?c = "candidates g fin unscheduled"
  let ?ser = "filter (\<lambda>task. ts_kind task = SERIALIZED) ?c"
  let ?non = "filter (\<lambda>task. ts_kind task \<noteq> SERIALIZED) ?c"
  show ?case
  proof (cases "unscheduled = []")
    case True
    with "1.prems" show ?thesis by (auto simp: waves_loop.simps [of g maxp fin "[]" plan])
  next
    case False
    with "1.prems"(2) have ne: "?c \<noteq> []"
      by (auto simp: waves_loop.simps [of g maxp fin unscheduled plan])
    show ?thesis
    proof (cases "?ser = []")
      case True
      with ne have nn: "?non \<noteq> []" by (auto simp: filter_empty_conv)
      note shapes = capacity_shapes [of ?non maxp, OF nn _ "1.prems"(4)]
      have inv: "loop_inv g completed maxp (fin @ map ts_id ?non)
          (filter (\<lambda>i. i \<notin> set (map ts_id ?non)) unscheduled)
          (plan @ chunk (case maxp of None \<Rightarrow> length ?non | Some p \<Rightarrow> nat p) ?non)"
        using shapes by (intro loop_inv_step [OF "1.prems"(3,1) refl]) auto
      show ?thesis
        by (rule "1.IH"(2) [OF False refl refl refl ne _ refl inv _ "1.prems"(3,4)])
          (use "1.prems"(2) False ne True in \<open>simp_all add: waves_loop.simps [of g maxp fin unscheduled plan] Let_def\<close>)
    next
      case sne: False
      note shapes = serial_shapes [of maxp ?ser, OF "1.prems"(4)]
      have inv: "loop_inv g completed maxp (fin @ map ts_id ?ser)
          (filter (\<lambda>i. i \<notin> set (map ts_id ?ser)) unscheduled) (plan @ map (\<lambda>task. [task]) ?ser)"
        using shapes by (intro loop_inv_step [OF "1.prems"(3,1) refl]) auto
      show ?thesis
        by (rule "1.IH"(1) [OF False refl refl refl ne sne inv _ "1.prems"(3,4)])
          (use "1.prems"(2) False ne sne in \<open>simp add: waves_loop.simps [of g maxp fin unscheduled plan] Let_def\<close>)
    qed
  qed
qed

lemma loop_inv_start:
  "loop_inv g completed maxp completed (filter (\<lambda>i. i \<notin> set completed) (map fst g)) []"
  by (auto simp: loop_inv_def)

text \<open>Progress: while something is unscheduled, an acyclic graph has a candidate.\<close>

lemma finite_edges: "finite (edges g)"
proof (rule finite_subset)
  show "edges g \<subseteq> (fst ` set g) \<times> all_deps g"
  proof
    fix e assume "e \<in> edges g"
    then obtain a b task where "e = (a, b)" "map_of g a = Some task" "b \<in> set (depends_on task)"
      by (auto simp: edges_def)
    then show "e \<in> (fst ` set g) \<times> all_deps g"
      using map_of_Some_in_keys [of g a task] deps_in_all_deps [of g a task] by auto
  qed
qed simp

definition deps_known :: "task_graph \<Rightarrow> string list \<Rightarrow> bool" where
  "deps_known g completed \<longleftrightarrow>
     list_all (\<lambda>task. list_all (\<lambda>d. d \<in> fst ` set g \<or> d \<in> set completed) (depends_on task)) (tasks g)"

lemma candidate_exists:
  assumes wf: "wf_graph g" and ac: "acyclic (edges g)" and known: "deps_known g completed"
    and inv: "loop_inv g completed maxp fin unscheduled plan" and ne: "unscheduled \<noteq> []"
  shows "candidates g fin unscheduled \<noteq> []"
proof -
  have "wf ((edges g)\<inverse>)" using finite_acyclic_wf_converse [OF finite_edges ac] .
  moreover from ne have "hd unscheduled \<in> set unscheduled" by simp
  ultimately obtain z where z: "z \<in> set unscheduled"
    and min0: "\<And>y. (y, z) \<in> (edges g)\<inverse> \<Longrightarrow> y \<notin> set unscheduled"
    by (rule wfE_min) blast
  have min: "y \<notin> set unscheduled" if "(z, y) \<in> edges g" for y using min0 that by simp
  have sets: "set unscheduled = fst ` set g - set fin" "set completed \<subseteq> set fin"
    using inv by (auto simp: loop_inv_def)
  with z obtain task where m: "map_of g z = Some task"
    by (metis DiffD1 domD dom_map_of_conv_image_fst)
  have "set (depends_on task) \<subseteq> set fin"
  proof
    fix y assume y: "y \<in> set (depends_on task)"
    with m have "y \<notin> set unscheduled" by (intro min) (auto simp: edges_def)
    moreover have "y \<in> fst ` set g \<or> y \<in> set completed"
      using known map_of_in_tasks [OF m] y by (auto simp: deps_known_def list_all_iff)
    ultimately show "y \<in> set fin" using sets by auto
  qed
  then have "task \<in> set (candidates g fin unscheduled)"
    using z map_of_in_tasks [OF m] wf_graph_lookup [OF wf m] by (simp add: candidates_set)
  then show ?thesis by auto
qed

lemma waves_loop_total:
  assumes "wf_graph g" "\<forall>p. maxp = Some p \<longrightarrow> 1 \<le> p" "acyclic (edges g)" "deps_known g completed"
  shows "loop_inv g completed maxp fin unscheduled plan \<Longrightarrow>
    \<exists>result. waves_loop g maxp fin unscheduled plan = Inr result"
  using assms
proof (induction g maxp fin unscheduled plan rule: waves_loop.induct)
  case (1 g maxp fin unscheduled plan)
  let ?c = "candidates g fin unscheduled"
  let ?ser = "filter (\<lambda>task. ts_kind task = SERIALIZED) ?c"
  let ?non = "filter (\<lambda>task. ts_kind task \<noteq> SERIALIZED) ?c"
  show ?case
  proof (cases "unscheduled = []")
    case True
    then show ?thesis by (simp add: waves_loop.simps [of g maxp fin "[]" plan])
  next
    case False
    note ne = candidate_exists [OF "1.prems"(2,4,5,1) False]
    show ?thesis
    proof (cases "?ser = []")
      case True
      with ne have nn: "?non \<noteq> []" by (auto simp: filter_empty_conv)
      note shapes = capacity_shapes [of ?non maxp, OF nn _ "1.prems"(3)]
      have inv: "loop_inv g completed maxp (fin @ map ts_id ?non)
          (filter (\<lambda>i. i \<notin> set (map ts_id ?non)) unscheduled)
          (plan @ chunk (case maxp of None \<Rightarrow> length ?non | Some p \<Rightarrow> nat p) ?non)"
        using shapes by (intro loop_inv_step [OF "1.prems"(2,1) refl]) auto
      have "\<not> ?ser \<noteq> []" using True by simp
      from "1.IH"(2) [OF False refl refl refl ne this refl inv "1.prems"(2-5)]
      show ?thesis using False ne True by (simp add: waves_loop.simps [of g maxp fin unscheduled plan] Let_def)
    next
      case sne: False
      note shapes = serial_shapes [of maxp ?ser, OF "1.prems"(3)]
      have inv: "loop_inv g completed maxp (fin @ map ts_id ?ser)
          (filter (\<lambda>i. i \<notin> set (map ts_id ?ser)) unscheduled) (plan @ map (\<lambda>task. [task]) ?ser)"
        using shapes by (intro loop_inv_step [OF "1.prems"(2,1) refl]) auto
      from "1.IH"(1) [OF False refl refl refl ne sne inv "1.prems"(2-5)]
      show ?thesis using False ne sne by (simp add: waves_loop.simps [of g maxp fin unscheduled plan] Let_def)
    qed
  qed
qed

text \<open>The plan does not depend on the order in which tasks were added.\<close>

lemma candidates_perm:
  assumes "mset (tasks g) = mset (tasks g')" and "inj_on ts_id (set (tasks g))"
    and "set u = set u'"
  shows "candidates g fin u = candidates g' fin u'"
proof -
  let ?k = "\<lambda>task. (kind_priority (ts_kind task), ts_id task)"
  let ?P = "\<lambda>task. ts_id task \<in> set u' \<and> list_all (\<lambda>dep. dep \<in> set fin) (depends_on task)"
  have "sort_key ?k (filter ?P (tasks g)) = sort_key ?k (filter ?P (tasks g'))"
  proof (rule sort_key_inj_key_eq)
    show "mset (filter ?P (tasks g)) = mset (sort_key ?k (filter ?P (tasks g')))"
      using assms(1) by simp
    show "inj_on ?k (set (filter ?P (tasks g)))"
      using assms(2) by (auto simp: inj_on_def)
  qed simp
  then show ?thesis using assms(3) by (simp add: candidates_def)
qed

lemma waves_loop_perm:
  assumes "mset (tasks g) = mset (tasks g')" and "inj_on ts_id (set (tasks g))"
  shows "set u = set u' \<Longrightarrow> waves_loop g maxp fin u plan = waves_loop g' maxp fin u' plan"
  using assms
proof (induction g maxp fin u plan arbitrary: u' rule: waves_loop.induct)
  case (1 g maxp fin u plan)
  let ?c = "candidates g fin u"
  note eq = candidates_perm [OF "1.prems"(2,3,1), of fin, symmetric]
  have flt: "set (filter (\<lambda>i. i \<notin> set xs) u) = set (filter (\<lambda>i. i \<notin> set xs) u')" for xs
    using "1.prems"(1) by auto
  show ?case
  proof (cases "u = [] \<or> ?c = []")
    case True
    with "1.prems"(1) eq show ?thesis
      by (auto simp: waves_loop.simps [of g maxp fin u plan] waves_loop.simps [of g' maxp fin u' plan]
          waves_loop.simps [of _ maxp fin "[]" plan])
  next
    case False
    then have u: "u \<noteq> []" "u' \<noteq> []" and ne: "?c \<noteq> []" using "1.prems"(1) by auto
    show ?thesis
    proof (cases "filter (\<lambda>task. ts_kind task = SERIALIZED) ?c = []")
      case True
      then have "\<not> filter (\<lambda>task. ts_kind task = SERIALIZED) ?c \<noteq> []" by simp
      from "1.IH"(2) [OF u(1) refl refl refl ne this refl flt "1.prems"(2,3)] show ?thesis
        using u ne True eq
        by (simp add: waves_loop.simps [of g maxp fin u plan] waves_loop.simps [of g' maxp fin u' plan] Let_def)
    next
      case sne: False
      from "1.IH"(1) [OF u(1) refl refl refl ne sne flt "1.prems"(2,3)] show ?thesis
        using u ne sne eq
        by (simp add: waves_loop.simps [of g maxp fin u plan] waves_loop.simps [of g' maxp fin u' plan] Let_def)
    qed
  qed
qed

lemma waves_plan_facts:
  assumes "wf_graph g" and "waves g completed maxp = Inr plan"
  shows "distinct (map ts_id (concat plan)) \<and>
    set (concat plan) = {task \<in> set (tasks g). ts_id task \<notin> set completed} \<and>
    ordered_after (set completed) plan \<and>
    (\<forall>wave \<in> set plan. wave_shape maxp wave)"
proof -
  have ok: "\<forall>p. maxp = Some p \<longrightarrow> 1 \<le> p"
    and run: "waves_loop g maxp completed (filter (\<lambda>i. i \<notin> set completed) (map fst g)) [] = Inr plan"
    using assms(2) by (auto simp: waves_def split: option.splits if_splits)
  obtain fin' where inv: "loop_inv g completed maxp fin' [] plan"
    using waves_loop_inv [OF assms(1) ok loop_inv_start run] by blast
  then have ids: "fst ` set g \<subseteq> set completed \<union> ts_id ` set (concat plan)"
    and sub: "set (concat plan) \<subseteq> set (tasks g)"
    and out: "ts_id ` set (concat plan) \<inter> set completed = {}"
    by (auto simp: loop_inv_def)
  have "task \<in> set (concat plan)" if "task \<in> set (tasks g)" "ts_id task \<notin> set completed" for task
  proof -
    have "ts_id task \<in> fst ` set g" using that(1) wf_graph_ids [OF assms(1)] by blast
    with ids that(2) have "ts_id task \<in> ts_id ` set (concat plan)" by blast
    then obtain t2 where t2: "t2 \<in> set (concat plan)" "ts_id t2 = ts_id task" by force
    with sub have "t2 \<in> set (tasks g)" by blast
    with t2 that(1) wf_graph_inj [OF assms(1)] have "t2 = task" by (metis inj_onD)
    with t2 show ?thesis by simp
  qed
  then have "set (concat plan) = {task \<in> set (tasks g). ts_id task \<notin> set completed}"
    using sub out by blast
  with inv show ?thesis unfolding loop_inv_def by blast
qed

text \<open>The same for a run from the start, as the orchestrator plans it.\<close>

lemma waves_plan:
  assumes "wf_graph g" and "waves g [] maxp = Inr plan"
  shows "distinct (map ts_id (concat plan))" "set (concat plan) = set (tasks g)" "ordered_after {} plan"
    "plan = [] \<longleftrightarrow> g = []"
proof -
  note f = waves_plan_facts [OF assms]
  show "distinct (map ts_id (concat plan))" "set (concat plan) = set (tasks g)" "ordered_after {} plan"
    using f by simp_all
  have "plan = [] \<longleftrightarrow> concat plan = []"
    using f by (cases plan) (auto simp: wave_shape_def)
  also have "\<dots> \<longleftrightarrow> set (concat plan) = {}" by (simp only: set_empty)
  also have "set (concat plan) = set (tasks g)" using f by simp
  also have "set (tasks g) = {} \<longleftrightarrow> g = []" by (simp add: tasks_def)
  finally show "plan = [] \<longleftrightarrow> g = []" .
qed

section \<open>Properties\<close>

text \<open>
  C17. Every plan \<open>waves\<close> returns schedules each task that is not yet completed exactly once,
  puts a task only after all of its dependencies (completed before, or in an earlier wave),
  keeps every wave within \<open>max_parallelism\<close> and runs a serialized task alone.
\<close>
theorem waves_sound:
  assumes "wf_graph g" and "waves g completed maxp = Inr plan"
  shows "distinct (map ts_id (concat plan)) \<and>
    set (concat plan) = {task \<in> set (tasks g). ts_id task \<notin> set completed} \<and>
    ordered_after (set completed) plan \<and>
    (\<forall>wave \<in> set plan. wave_shape maxp wave)"
  by (rule waves_plan_facts [OF assms])

text \<open>
  C36. On an acyclic graph whose dependencies are all tasks of the graph or completed, the
  planner never gives up: for every admissible \<open>max_parallelism\<close> it returns a plan.
\<close>
theorem waves_complete:
  assumes "wf_graph g" "acyclic (edges g)" "deps_known g completed" "\<forall>p. maxp = Some p \<longrightarrow> 1 \<le> p"
  shows "\<exists>plan. waves g completed maxp = Inr plan"
  using waves_loop_total [OF assms(1,4,2,3) loop_inv_start] assms(4)
  by (auto simp: waves_def split: option.splits)

text \<open>
  The plan depends only on which tasks the graph holds and which ids are completed, not on
  the order in which the tasks were added.
\<close>
theorem waves_deterministic:
  assumes "wf_graph g" "wf_graph g'" "set g = set g'"
  shows "waves g completed maxp = waves g' completed maxp"
proof -
  have d: "distinct (tasks h)" if "wf_graph h" for h
  proof -
    have "map ts_id (tasks h) = map fst h" using that by (auto simp: wf_graph_def tasks_def)
    with that show ?thesis by (metis distinct_map wf_graph_def)
  qed
  have "set (tasks g) = set (tasks g')" using assms(3) by (simp add: tasks_def)
  with d assms(1,2) have "mset (tasks g) = mset (tasks g')" by (simp add: set_eq_iff_mset_eq_distinct)
  moreover have "set (filter (\<lambda>i. i \<notin> set completed) (map fst g)) =
      set (filter (\<lambda>i. i \<notin> set completed) (map fst g'))"
    using assms(3) by simp
  ultimately have "waves_loop g maxp completed (filter (\<lambda>i. i \<notin> set completed) (map fst g)) [] =
      waves_loop g' maxp completed (filter (\<lambda>i. i \<notin> set completed) (map fst g')) []"
    using waves_loop_perm wf_graph_inj [OF assms(1)] by blast
  then show ?thesis by (cases maxp) (simp_all add: waves_def)
qed

text \<open>
  Between two known tasks of an acyclic graph, \<open>add_dependency\<close> accepts an edge exactly
  when the graph with that edge is still acyclic, and the graph it returns has that edge and no
  other new one.
\<close>
theorem add_dependency_exact:
  assumes "has_task g t" "has_task g d" "acyclic (edges g)"
  shows "(\<exists>g'. add_dependency g t d = Inr g' \<and> edges g' = insert (t, d) (edges g)) \<longleftrightarrow>
    acyclic (insert (t, d) (edges g))"
proof -
  obtain task where m: "map_of g t = Some task"
    using assms(1) by (metis domD dom_map_of_conv_image_fst has_task_def)
  have e: "d \<in> set (depends_on task) \<longleftrightarrow> (t, d) \<in> edges g" using m by (simp add: edges_def)
  have "acyclic (insert (t, d) (edges g)) \<longleftrightarrow> (d, t) \<notin> (edges g)\<^sup>*"
    using assms(3) by (simp add: acyclic_insert)
  moreover have "(d, t) \<notin> (edges g)\<^sup>*" if "(t, d) \<in> edges g"
    using assms(3) rtrancl_into_trancl2 [OF that] by (auto simp: acyclic_def)
  ultimately show ?thesis
    using assms(1,2) m e edges_add_edge [OF m] by (auto simp: add_dependency_def creates_cycle_reach insert_absorb)
qed

definition demo_task :: "string \<Rightarrow> task_kind \<Rightarrow> string list \<Rightarrow> task_spec" where
  "demo_task i k deps = \<lparr>ts_id = i, ts_capability = CODING, ts_kind = k, ts_description = [],
     depends_on = deps, ts_timeout = None, ts_inputs = []\<rparr>"

definition demo_graph :: task_graph where
  "demo_graph = map (\<lambda>task. (ts_id task, task))
     [demo_task ''c'' RECONCILER [''a'', ''b''], demo_task ''b'' INDEPENDENT [],
      demo_task ''a'' INDEPENDENT []]"

definition demo_plan :: "task_spec list list" where
  "demo_plan = [[demo_task ''a'' INDEPENDENT [], demo_task ''b'' INDEPENDENT []],
     [demo_task ''c'' RECONCILER [''a'', ''b'']]]"

lemma demo_graph_wf: "wf_graph demo_graph"
  by (simp add: wf_graph_def demo_graph_def demo_task_def)

lemma demo_graph_edges: "edges demo_graph = {(''c'', ''a''), (''c'', ''b'')}"
  by (auto simp: edges_def demo_graph_def demo_task_def split: if_splits)

lemma demo_graph_acyclic: "acyclic (edges demo_graph)"
  by (simp add: demo_graph_edges acyclic_insert rtrancl_insert wf_acyclic)

lemma demo_graph_known: "deps_known demo_graph []"
  by (simp add: deps_known_def demo_graph_def demo_task_def tasks_def)

lemma demo_graph_plan: "waves demo_graph [] (Some 2) = Inr demo_plan"
  by code_simp

theorem waves_sound_witness:
  "wf_graph demo_graph \<and> waves demo_graph [] (Some 2) = Inr demo_plan \<and>
   ordered_after {} demo_plan"
  using waves_sound [OF demo_graph_wf demo_graph_plan] demo_graph_wf demo_graph_plan by simp

theorem waves_complete_witness: "\<exists>plan. waves demo_graph [] (Some 2) = Inr plan"
  by (rule waves_complete [OF demo_graph_wf demo_graph_acyclic demo_graph_known]) simp

theorem waves_deterministic_witness:
  "waves demo_graph [] None = waves (rev demo_graph) [] None"
proof (rule waves_deterministic [OF demo_graph_wf])
  show "wf_graph (rev demo_graph)" by (simp add: wf_graph_def demo_graph_def demo_task_def)
qed simp

theorem add_dependency_exact_witness:
  "(\<exists>g'. add_dependency demo_graph ''a'' ''c'' = Inr g' \<and>
      edges g' = insert (''a'', ''c'') (edges demo_graph)) \<longleftrightarrow>
   acyclic (insert (''a'', ''c'') (edges demo_graph))"
  by (rule add_dependency_exact [OF _ _ demo_graph_acyclic])
    (simp_all add: has_task_def demo_graph_def demo_task_def)

end
