(* ===== verification/Telemetry.thy ===== *)
theory Telemetry
  imports Smorx_Prelude "HOL-Library.Multiset"
begin

text \<open>
  \<open>packages/agent-runtime/src/smorx_runtime/telemetry.py\<close> and the timing summary
  \<open>_summarize_timings\<close> of \<open>waves.py\<close>: the evidence that tasks really ran in parallel.
  (\<open>ParallelismTelemetry.summary\<close>, a JSON rendering, is not modelled.)
\<close>

section \<open>Model\<close>

record task_timing =
  tt_task_id :: string
  tt_agent_id :: string
  tt_started_at :: int
  tt_finished_at :: int
  tt_duration :: rat
  tt_status :: string
  tt_timed_out :: bool

record wave_telemetry =
  wt_wave_id :: string
  wt_timings :: "task_timing list"
  wt_started_at :: int
  wt_finished_at :: int
  wt_wall_seconds :: rat
  wt_high_water :: int
  wt_max_overlap :: rat

definition overlap_seconds :: "task_timing \<Rightarrow> task_timing \<Rightarrow> rat" where
  "overlap_seconds l r =
     (let latest_start = max (tt_started_at l) (tt_started_at r);
          earliest_finish = min (tt_finished_at l) (tt_finished_at r)
      in max 0 (seconds_between latest_start earliest_finish))"

definition record_wave :: "wave_telemetry list \<Rightarrow> wave_telemetry \<Rightarrow> wave_telemetry list" where
  "record_wave waves wave = waves @ [wave]"

text \<open>The double loop over \<open>relevant[index + 1:]\<close>.\<close>

fun any_overlap :: "task_timing list \<Rightarrow> bool" where
  "any_overlap [] = False"
| "any_overlap (l # rest) = (list_ex (\<lambda>r. overlap_seconds l r > 0) rest \<or> any_overlap rest)"

definition prove_concurrency :: "wave_telemetry list \<Rightarrow> string list \<Rightarrow> bool" where
  "prove_concurrency waves ids =
     (let involved = filter (\<lambda>wave. list_ex (\<lambda>t. tt_task_id t \<in> set ids) (wt_timings wave)) waves in
      if involved = [] then False
      else if Max (set (map wt_high_water involved)) < 2 then False
      else any_overlap (filter (\<lambda>t. tt_task_id t \<in> set ids) (concat (map wt_timings involved))))"

text \<open>
  The summary of one wave. The events of the sweep are sorted by instant, departures before
  arrivals; the high-water mark is the largest running sum.
\<close>

definition sweep_events :: "task_timing list \<Rightarrow> (int \<times> int) list" where
  "sweep_events ts =
     sort_key (\<lambda>e. e) (concat (map (\<lambda>t. [(tt_started_at t, 1), (tt_finished_at t, - 1)]) ts))"

fun sweep :: "(int \<times> int) list \<Rightarrow> int \<Rightarrow> int \<Rightarrow> int" where
  "sweep [] active high = high"
| "sweep ((_, delta) # es) active high =
     (let active' = active + delta in sweep es active' (if active' > high then active' else high))"

fun max_overlap :: "task_timing list \<Rightarrow> rat \<Rightarrow> rat" where
  "max_overlap [] best = best"
| "max_overlap (l # rest) best =
     max_overlap rest
       (foldl (\<lambda>b r. let ov = overlap_seconds l r in if ov > b then ov else b) best rest)"

definition summarize_timings :: "task_timing list \<Rightarrow> int \<Rightarrow> int \<Rightarrow> rat \<times> int \<times> rat \<times> int \<times> int" where
  "summarize_timings timings wave_started wave_finished =
     (if timings = [] then (seconds_between wave_started wave_finished, 0, 0, wave_started, wave_finished)
      else
        let window_start = Min (set (map tt_started_at timings));
            window_finish = Max (set (map tt_finished_at timings))
        in (seconds_between window_start window_finish,
            sweep (sweep_events timings) 0 0, max_overlap timings 0, window_start, window_finish))"

section \<open>The sweep computes the peak number of running tasks\<close>

definition running_at :: "int \<Rightarrow> task_timing list \<Rightarrow> nat" where
  "running_at t ts = length (filter (\<lambda>x. tt_started_at x \<le> t \<and> t < tt_finished_at x) ts)"

definition esum :: "(int \<times> int) list \<Rightarrow> int" where
  "esum es = sum_list (map snd es)"

lemma esum_simps [simp]:
  "esum [] = 0" "esum (e # es) = snd e + esum es" "esum (xs @ ys) = esum xs + esum ys"
  by (simp_all add: esum_def)

lemma esum_mset: "mset es = mset fs \<Longrightarrow> esum es = esum fs"
  unfolding esum_def by (metis mset_map sum_mset_sum_list)

lemma running_at_esum:
  assumes "\<forall>x \<in> set ts. tt_started_at x \<le> tt_finished_at x"
  shows "int (running_at t ts) = esum (filter (\<lambda>e. fst e \<le> t) (sweep_events ts))"
proof -
  let ?raw = "concat (map (\<lambda>x. [(tt_started_at x, 1::int), (tt_finished_at x, - 1)]) ts)"
  have "esum (filter (\<lambda>e. fst e \<le> t) (sweep_events ts)) = esum (filter (\<lambda>e. fst e \<le> t) ?raw)"
    by (rule esum_mset) (simp add: sweep_events_def)
  also have "\<dots> = int (running_at t ts)"
    using assms by (induction ts) (auto simp: running_at_def)
  finally show ?thesis by simp
qed

lemma sweep_ge: "high \<le> sweep es active high"
  by (induction es active high rule: sweep.induct) (auto simp: Let_def split: if_splits)

lemma sweep_prefix: "active + esum (take n es) \<le> max active (sweep es active high)"
proof (induction es active high arbitrary: n rule: sweep.induct)
  case (1 active high)
  then show ?case by simp
next
  case (2 time delta es active high)
  let ?h = "if active + delta > high then active + delta else high"
  have ge: "?h \<le> sweep es (active + delta) ?h" by (rule sweep_ge)
  show ?case
  proof (cases n)
    case (Suc m)
    from "2.IH" [OF refl, of m] ge show ?thesis by (simp add: Suc Let_def split: if_splits)
  qed simp
qed

lemma sweep_attained: "sweep es active high = high \<or> (\<exists>n. sweep es active high = active + esum (take n es))"
proof (induction es active high rule: sweep.induct)
  case (1 active high)
  then show ?case by simp
next
  case (2 time delta es active high)
  let ?a = "active + delta"
  let ?h = "if ?a > high then ?a else high"
  have eq: "sweep ((time, delta) # es) active high = sweep es ?a ?h" by (simp add: Let_def)
  from "2.IH" [OF refl] show ?case
  proof
    assume "sweep es ?a ?h = ?h"
    moreover have "?a = active + esum (take 1 ((time, delta) # es))" by simp
    ultimately show ?thesis using eq by (metis (full_types))
  next
    assume "\<exists>n. sweep es ?a ?h = ?a + esum (take n es)"
    then obtain n where "sweep es ?a ?h = ?a + esum (take n es)" by blast
    then have "sweep ((time, delta) # es) active high = active + esum (take (Suc n) ((time, delta) # es))"
      using eq by simp
    then show ?thesis by blast
  qed
qed

lemma sweep_events_sorted: "sorted (sweep_events ts)"
  unfolding sweep_events_def by (subst list.map_ident [symmetric]) (rule sorted_sort_key)

lemma sweep_events_delta: "e \<in> set (sweep_events ts) \<Longrightarrow> snd e = 1 \<or> snd e = - 1"
  by (auto simp: sweep_events_def)

text \<open>Every running sum is reached by the number of tasks running at some instant.\<close>

lemma sorted_fst_le: "sorted (es :: (int \<times> int) list) \<Longrightarrow> i \<le> j \<Longrightarrow> j < length es \<Longrightarrow> es ! i \<le> es ! j"
  by (rule sorted_nth_mono)

lemma prefix_below_running:
  assumes ok: "\<forall>x \<in> set ts. tt_started_at x \<le> tt_finished_at x"
  shows "\<exists>t. esum (take n (sweep_events ts)) \<le> int (running_at t ts)"
proof (induction n)
  case 0
  then show ?case by simp
next
  case (Suc n)
  let ?es = "sweep_events ts"
  show ?case
  proof (cases "n < length ?es \<and> snd (?es ! n) = 1")
    case False
    then have "esum (take (Suc n) ?es) \<le> esum (take n ?es)"
      using sweep_events_delta [of "?es ! n" ts] by (cases "n < length ?es") (auto simp: take_Suc_conv_app_nth)
    with Suc show ?thesis by (meson order_trans)
  next
    case True
    let ?t = "fst (?es ! n)"
    have early: "fst e \<le> ?t" if "e \<in> set (take (Suc n) ?es)" for e
    proof -
      from that obtain i where "i \<le> n" "e = ?es ! i"
        by (auto simp: in_set_conv_nth less_Suc_eq_le)
      with sorted_nth_mono [OF sweep_events_sorted, of i n ts] True show ?thesis
        by (auto simp: less_eq_prod_def)
    qed
    have late: "snd e = 1" if e: "e \<in> set (drop (Suc n) ?es)" "fst e \<le> ?t" for e
    proof -
      from e(1) obtain i where "i < length (drop (Suc n) ?es)" "e = drop (Suc n) ?es ! i"
        unfolding in_set_conv_nth by blast
      then have i: "Suc n + i < length ?es" "e = ?es ! (Suc n + i)" by simp_all
      with sorted_nth_mono [OF sweep_events_sorted, of n "Suc n + i" ts] have "?es ! n \<le> e" by simp
      with e(2) True have "1 \<le> snd e" by (auto simp: less_eq_prod_def)
      with i sweep_events_delta [of e ts] show ?thesis by auto
    qed
    have "int (running_at ?t ts) = esum (filter (\<lambda>e. fst e \<le> ?t) (take (Suc n) ?es @ drop (Suc n) ?es))"
      using running_at_esum [OF ok] by simp
    also have "\<dots> = esum (take (Suc n) ?es) + esum (filter (\<lambda>e. fst e \<le> ?t) (drop (Suc n) ?es))"
    proof -
      have "filter (\<lambda>e. fst e \<le> ?t) (take (Suc n) ?es) = take (Suc n) ?es"
        using early by (simp add: filter_id_conv)
      then show ?thesis by (simp only: filter_append esum_simps)
    qed
    also have "\<dots> \<ge> esum (take (Suc n) ?es)"
    proof -
      have "0 \<le> snd e" if "e \<in> set (filter (\<lambda>e. fst e \<le> ?t) (drop (Suc n) ?es))" for e
        using late [of e] that by simp
      then have "0 \<le> esum (filter (\<lambda>e. fst e \<le> ?t) (drop (Suc n) ?es))"
        unfolding esum_def by (intro sum_list_nonneg) auto
      then show ?thesis by simp
    qed
    finally show ?thesis by blast
  qed
qed

lemma sorted_filter_prefix:
  "sorted (es :: (int \<times> int) list) \<Longrightarrow> \<exists>n. filter (\<lambda>e. fst e \<le> t) es = take n es"
proof (induction es)
  case (Cons e es)
  show ?case
  proof (cases "fst e \<le> t")
    case True
    from Cons obtain n where "filter (\<lambda>e. fst e \<le> t) es = take n es" by auto
    with True have "filter (\<lambda>e. fst e \<le> t) (e # es) = take (Suc n) (e # es)" by simp
    then show ?thesis by blast
  next
    case False
    with Cons.prems have "filter (\<lambda>e. fst e \<le> t) (e # es) = []"
      by (auto simp: filter_empty_conv less_eq_prod_def)
    then show ?thesis by (metis take0)
  qed
qed simp

section \<open>Overlapping timings\<close>

lemma any_overlap_iff:
  "any_overlap ts \<longleftrightarrow> (\<exists>i j. i < j \<and> j < length ts \<and> overlap_seconds (ts ! i) (ts ! j) > 0)"
proof (induction ts)
  case (Cons l rest)
  have "(\<exists>i j. i < j \<and> j < length (l # rest) \<and> overlap_seconds ((l # rest) ! i) ((l # rest) ! j) > 0) \<longleftrightarrow>
      (\<exists>j < length rest. overlap_seconds l (rest ! j) > 0) \<or>
      (\<exists>i j. i < j \<and> j < length rest \<and> overlap_seconds (rest ! i) (rest ! j) > 0)"
    (is "?L \<longleftrightarrow> ?A \<or> ?B")
  proof
    assume ?L
    then obtain i j where ij: "i < j" "j < length (l # rest)"
      "overlap_seconds ((l # rest) ! i) ((l # rest) ! j) > 0" by blast
    then obtain j' where "j = Suc j'" by (cases j) auto
    with ij show "?A \<or> ?B" by (cases i) auto
  next
    assume "?A \<or> ?B"
    then show ?L
    proof
      assume ?A
      then obtain j where "j < length rest" "overlap_seconds l (rest ! j) > 0" by blast
      then show ?L by (intro exI [of _ 0] exI [of _ "Suc j"]) simp
    next
      assume ?B
      then obtain i j where "i < j" "j < length rest" "overlap_seconds (rest ! i) (rest ! j) > 0" by blast
      then show ?L by (intro exI [of _ "Suc i"] exI [of _ "Suc j"]) simp
    qed
  qed
  moreover have "list_ex (\<lambda>r. overlap_seconds l r > 0) rest \<longleftrightarrow> ?A"
    unfolding list_ex_iff by (metis in_set_conv_nth)
  ultimately show ?case using Cons by simp
qed simp

lemma overlap_pos_iff:
  "overlap_seconds l r > 0 \<longleftrightarrow>
    (\<exists>a b. a < b \<and> tt_started_at l \<le> a \<and> b \<le> tt_finished_at l \<and>
      tt_started_at r \<le> a \<and> b \<le> tt_finished_at r)"
proof -
  have "overlap_seconds l r > 0 \<longleftrightarrow>
      max (tt_started_at l) (tt_started_at r) < min (tt_finished_at l) (tt_finished_at r)"
    by (simp add: overlap_seconds_def seconds_between_def Let_def less_max_iff_disj)
  also have "\<dots> \<longleftrightarrow> (\<exists>a b. a < b \<and> tt_started_at l \<le> a \<and> b \<le> tt_finished_at l \<and>
      tt_started_at r \<le> a \<and> b \<le> tt_finished_at r)"
    by (smt (verit) max.cobounded1 max.cobounded2 min.cobounded1 min.cobounded2 max_def min_def)
  finally show ?thesis .
qed

section \<open>Properties\<close>

text \<open>
  For tasks that do not finish before they start, the reported high-water mark is the
  largest number of tasks running at one instant: no instant has more, and some instant has
  exactly that many. (A task runs from its start up to, not including, its finish.)
\<close>
theorem high_water_is_peak:
  assumes "\<forall>x \<in> set ts. tt_started_at x \<le> tt_finished_at x"
  shows "int (running_at t ts) \<le> sweep (sweep_events ts) 0 0 \<and>
    (\<exists>u. int (running_at u ts) = sweep (sweep_events ts) 0 0)"
proof -
  let ?es = "sweep_events ts"
  have upper: "int (running_at u ts) \<le> sweep ?es 0 0" for u
  proof -
    obtain n where "filter (\<lambda>e. fst e \<le> u) ?es = take n ?es"
      using sorted_filter_prefix [OF sweep_events_sorted] by blast
    with running_at_esum [OF assms] have "int (running_at u ts) = esum (take n ?es)" by simp
    with sweep_prefix [of 0 n ?es 0] sweep_ge [of 0 ?es 0] show ?thesis by simp
  qed
  have "\<exists>u. sweep ?es 0 0 \<le> int (running_at u ts)"
    using sweep_attained [of ?es 0 0] prefix_below_running [OF assms]
    by (metis add_0 of_nat_0_le_iff)
  with upper show ?thesis by (meson order_antisym)
qed

lemma proved_concurrency:
  assumes "prove_concurrency waves ids"
  shows "\<exists>l r a b. l \<in> set (concat (map wt_timings waves)) \<and> r \<in> set (concat (map wt_timings waves)) \<and>
      tt_task_id l \<in> set ids \<and> tt_task_id r \<in> set ids \<and> a < b \<and>
      tt_started_at l \<le> a \<and> b \<le> tt_finished_at l \<and> tt_started_at r \<le> a \<and> b \<le> tt_finished_at r"
    and "\<exists>wave \<in> set waves. 2 \<le> wt_high_water wave \<and> (\<exists>t \<in> set (wt_timings wave). tt_task_id t \<in> set ids)"
proof -
  let ?inv = "filter (\<lambda>wave. list_ex (\<lambda>t. tt_task_id t \<in> set ids) (wt_timings wave)) waves"
  let ?rel = "filter (\<lambda>t. tt_task_id t \<in> set ids) (concat (map wt_timings ?inv))"
  from assms have ne: "?inv \<noteq> []" and hw: "\<not> Max (set (map wt_high_water ?inv)) < 2"
    and ov: "any_overlap ?rel"
    by (auto simp: prove_concurrency_def Let_def split: if_splits)
  from ov obtain i j where ij: "i < j" "j < length ?rel" "overlap_seconds (?rel ! i) (?rel ! j) > 0"
    unfolding any_overlap_iff by blast
  have "?rel ! i \<in> set ?rel" "?rel ! j \<in> set ?rel" by (rule nth_mem; use ij in linarith)+
  then have "?rel ! i \<in> set (concat (map wt_timings waves)) \<and> tt_task_id (?rel ! i) \<in> set ids"
    "?rel ! j \<in> set (concat (map wt_timings waves)) \<and> tt_task_id (?rel ! j) \<in> set ids"
    by auto
  with ij(3) show "\<exists>l r a b. l \<in> set (concat (map wt_timings waves)) \<and> r \<in> set (concat (map wt_timings waves)) \<and>
      tt_task_id l \<in> set ids \<and> tt_task_id r \<in> set ids \<and> a < b \<and>
      tt_started_at l \<le> a \<and> b \<le> tt_finished_at l \<and> tt_started_at r \<le> a \<and> b \<le> tt_finished_at r"
    unfolding overlap_pos_iff by blast
  have "Max (set (map wt_high_water ?inv)) \<in> set (map wt_high_water ?inv)"
    by (rule Max_in) (simp_all only: List.finite_set set_empty map_is_Nil_conv ne not_False_eq_True)
  then obtain wave where w: "wave \<in> set ?inv" "wt_high_water wave = Max (set (map wt_high_water ?inv))"
    by auto
  then have "2 \<le> wt_high_water wave" using hw by simp
  with w(1) show "\<exists>wave \<in> set waves. 2 \<le> wt_high_water wave \<and> (\<exists>t \<in> set (wt_timings wave). tt_task_id t \<in> set ids)"
    by (auto simp: list_ex_iff)
qed

text \<open>
  \<open>prove_concurrency\<close> answers True only with two of the listed tasks' timings, at different
  positions of the record, that share a time interval of positive length, in waves one of which
  saw at least two tasks at once.
\<close>
theorem prove_concurrency_sound:
  assumes "prove_concurrency waves ids"
  shows "(\<exists>l r a b. l \<in> set (concat (map wt_timings waves)) \<and> r \<in> set (concat (map wt_timings waves)) \<and>
      tt_task_id l \<in> set ids \<and> tt_task_id r \<in> set ids \<and> a < b \<and>
      tt_started_at l \<le> a \<and> b \<le> tt_finished_at l \<and> tt_started_at r \<le> a \<and> b \<le> tt_finished_at r) \<and>
    (\<exists>wave \<in> set waves. 2 \<le> wt_high_water wave \<and> (\<exists>t \<in> set (wt_timings wave). tt_task_id t \<in> set ids))"
  using proved_concurrency [OF assms] by (rule conjI)

definition demo_timing :: "string \<Rightarrow> int \<Rightarrow> int \<Rightarrow> task_timing" where
  "demo_timing i a b = \<lparr>tt_task_id = i, tt_agent_id = i, tt_started_at = a, tt_finished_at = b,
     tt_duration = seconds_between a b, tt_status = ''SUCCEEDED'', tt_timed_out = False\<rparr>"

definition demo_wave :: wave_telemetry where
  "demo_wave = \<lparr>wt_wave_id = ''w1'', wt_timings = [demo_timing ''a'' 0 20, demo_timing ''b'' 10 30],
     wt_started_at = 0, wt_finished_at = 30, wt_wall_seconds = seconds_between 0 30,
     wt_high_water = 2, wt_max_overlap = seconds_between 10 20\<rparr>"

theorem high_water_is_peak_witness:
  "int (running_at 15 (wt_timings demo_wave)) \<le> sweep (sweep_events (wt_timings demo_wave)) 0 0 \<and>
    (\<exists>u. int (running_at u (wt_timings demo_wave)) = sweep (sweep_events (wt_timings demo_wave)) 0 0)"
  by (rule high_water_is_peak) (simp add: demo_wave_def demo_timing_def)

theorem prove_concurrency_sound_witness:
  "prove_concurrency [demo_wave] [''a'', ''b''] \<and>
   (\<exists>wave \<in> set [demo_wave]. 2 \<le> wt_high_water wave \<and>
     (\<exists>t \<in> set (wt_timings wave). tt_task_id t \<in> set [''a'', ''b'']))"
proof -
  have p: "prove_concurrency [demo_wave] [''a'', ''b'']"
    by (simp add: prove_concurrency_def demo_wave_def demo_timing_def overlap_seconds_def seconds_between_def)
  with prove_concurrency_sound [OF p] show ?thesis by blast
qed

end
