(* ===== verification/Waves.thy ===== *)
theory Waves
  imports Task_Graph Telemetry
begin

text \<open>
  \<open>packages/agent-runtime/src/smorx_runtime/waves.py\<close>: the parallel wave engine. The tasks of a
  wave run concurrently on the event loop, so one run of the engine is a sequence of events:
  a task's coroutine ends in some way, the cancel event is set, the engine wakes from
  \<open>asyncio.wait\<close>. The sequence is an argument (what the executors do and how the loop schedules
  them is not under the engine's control); a sequence that is no complete run of the wave gives
  \<open>None\<close>. The task timeouts reach \<open>asyncio.wait_for\<close>, so a timeout is one of the ways a task ends.
\<close>

section \<open>Model\<close>

datatype wave_status = PLANNED | RUNNING | COMPLETED | PARTIAL | FAILED | CANCELLED

record wave_request =
  rq_wave_id :: string
  rq_tasks :: "task_spec list"
  rq_assignments :: "(string \<times> agent_assignment) list"
  rq_executors :: "string list" \<comment> \<open>the ids that have an executor\<close>

record wave_result =
  wr_wave_id :: string
  wr_status :: wave_status
  wr_task_results :: "(string \<times> agent_result) list"
  wr_task_failures :: "(string \<times> agent_failure) list"
  wr_timings :: "task_timing list"
  wr_started_at :: int
  wr_finished_at :: int
  wr_wall_seconds :: rat
  wr_incomplete_agents :: "string list"

datatype wave_error = EmptyWave | MissingAssignment "string list"

definition derive_status ::
    "(string \<times> agent_result) list \<Rightarrow> (string \<times> agent_failure) list \<Rightarrow> bool \<Rightarrow> wave_status" where
  "derive_status results failures cancelled =
     (if cancelled then CANCELLED
      else if failures = [] then COMPLETED
      else if results \<noteq> [] then PARTIAL
      else FAILED)"

text \<open>\<open>min(assignment.timeout_seconds, wave_timeout)\<close>.\<close>

definition task_timeout :: "rat option \<Rightarrow> agent_assignment \<Rightarrow> rat" where
  "task_timeout wave_timeout assignment =
     (case wave_timeout of None \<Rightarrow> as_timeout assignment | Some t \<Rightarrow> min (as_timeout assignment) t)"

definition wave_failure :: "string \<Rightarrow> string \<Rightarrow> string \<Rightarrow> int \<Rightarrow> agent_failure" where
  "wave_failure task_id cls text t =
     \<lparr>failure_id = task_id @ '':'' @ cls, classification = cls, fl_summary = text, observed_at = t,
      fl_evidence = [], probable_cause = [], next_action = []\<rparr>"

text \<open>How the body of \<open>run_task\<close> ends; \<open>Raised\<close> carries \<open>type: text\<close> of the exception.\<close>

datatype task_outcome = Returned agent_result | TimedOut | WasCancelled | Raised string

text \<open>
  \<open>Finish i o s f e\<close>: the coroutine of task \<open>i\<close>, started at \<open>s\<close>, ends with outcome \<open>o\<close>, its
  failure (if any) observed at \<open>f\<close> and its finish stamped \<open>e\<close>.
\<close>

datatype wave_event = Finish string task_outcome int int int | CancelSet | Wake

record engine_state =
  es_running :: "string list"
  es_results :: "(string \<times> agent_result) list"
  es_failures :: "(string \<times> agent_failure) list"
  es_timings :: "task_timing list"
  es_cancel_set :: bool
  es_awake :: bool
  es_cancelled :: bool

fun outcome_status :: "task_outcome \<Rightarrow> string" where
  "outcome_status (Returned r) = ''SUCCEEDED''"
| "outcome_status TimedOut = ''TIMEOUT''"
| "outcome_status WasCancelled = ''CANCELLED''"
| "outcome_status (Raised text) = ''FAILED''"

fun store_outcome :: "string \<Rightarrow> task_outcome \<Rightarrow> int \<Rightarrow> engine_state \<Rightarrow> engine_state" where
  "store_outcome i (Returned r) t s = s\<lparr>es_results := AList.update i r (es_results s)\<rparr>"
| "store_outcome i TimedOut t s = s\<lparr>es_failures := AList.update i
     (wave_failure i ''timeout'' (''task '' @ i @ '' exceeded its timeout'') t) (es_failures s)\<rparr>"
| "store_outcome i WasCancelled t s = s"
| "store_outcome i (Raised text) t s = s\<lparr>es_failures := AList.update i
     (wave_failure i ''tool failure'' text t) (es_failures s)\<rparr>"

definition run_task_end ::
    "wave_request \<Rightarrow> string \<Rightarrow> task_outcome \<Rightarrow> int \<Rightarrow> int \<Rightarrow> int \<Rightarrow> engine_state \<Rightarrow> engine_state" where
  "run_task_end rq i outcome started failed_at finished s =
     (let s' = store_outcome i outcome failed_at s;
          agent = (case map_of (rq_assignments rq) i of None \<Rightarrow> [] | Some a \<Rightarrow> as_agent_id a)
      in s'\<lparr>es_running := remove1 i (es_running s),
            es_timings := es_timings s @
              [\<lparr>tt_task_id = i, tt_agent_id = agent, tt_started_at = started, tt_finished_at = finished,
                tt_duration = seconds_between started finished, tt_status = outcome_status outcome,
                tt_timed_out = (outcome = TimedOut)\<rparr>]\<rparr>)"

text \<open>
  Without a cancel event the engine just gathers the tasks, so it counts as awake from the start.
  With one it sleeps in \<open>asyncio.wait(..., FIRST_COMPLETED)\<close>, wakes once a task has ended or the
  event is set, looks at the event once, and gathers what is left.
\<close>

definition engine_init :: "wave_request \<Rightarrow> bool \<Rightarrow> engine_state" where
  "engine_init rq has_cancel =
     \<lparr>es_running = map ts_id (rq_tasks rq), es_results = [], es_failures = [], es_timings = [],
      es_cancel_set = False, es_awake = (\<not> has_cancel), es_cancelled = False\<rparr>"

fun engine_step :: "wave_request \<Rightarrow> bool \<Rightarrow> engine_state \<Rightarrow> wave_event \<Rightarrow> engine_state option" where
  "engine_step rq has_cancel s (Finish i outcome started failed_at finished) =
     (if i \<in> set (es_running s) then Some (run_task_end rq i outcome started failed_at finished s)
      else None)"
| "engine_step rq has_cancel s CancelSet =
     (if has_cancel then Some (s\<lparr>es_cancel_set := True\<rparr>) else None)"
| "engine_step rq has_cancel s Wake =
     (if \<not> es_awake s \<and> (es_cancel_set s \<or> es_timings s \<noteq> [])
      then Some (s\<lparr>es_awake := True, es_cancelled := es_cancel_set s\<rparr>) else None)"

fun engine_run :: "wave_request \<Rightarrow> bool \<Rightarrow> engine_state \<Rightarrow> wave_event list \<Rightarrow> engine_state option" where
  "engine_run rq has_cancel s [] = Some s"
| "engine_run rq has_cancel s (e # es) =
     (case engine_step rq has_cancel s e of None \<Rightarrow> None | Some s' \<Rightarrow> engine_run rq has_cancel s' es)"

definition compose_result ::
    "wave_request \<Rightarrow> wave_status \<Rightarrow> (string \<times> agent_result) list \<Rightarrow> (string \<times> agent_failure) list \<Rightarrow>
     task_timing list \<Rightarrow> int \<Rightarrow> int \<Rightarrow> wave_result \<times> wave_telemetry" where
  "compose_result rq status results failures timings started finished =
     (let (wall, high_water, overlap, window_start, window_finish) =
            summarize_timings timings started finished
      in (\<lparr>wr_wave_id = rq_wave_id rq, wr_status = status, wr_task_results = results,
           wr_task_failures = failures, wr_timings = timings, wr_started_at = started,
           wr_finished_at = finished, wr_wall_seconds = wall,
           wr_incomplete_agents =
             map tt_task_id (filter (\<lambda>t. tt_status t \<in> {''TIMEOUT'', ''CANCELLED''}) timings)\<rparr>,
          \<lparr>wt_wave_id = rq_wave_id rq, wt_timings = timings, wt_started_at = window_start,
           wt_finished_at = window_finish, wt_wall_seconds = wall,
           wt_high_water = high_water, wt_max_overlap = overlap\<rparr>))"

definition missing_ids :: "wave_request \<Rightarrow> string list" where
  "missing_ids rq =
     map ts_id (filter (\<lambda>t. ts_id t \<notin> fst ` set (rq_assignments rq) \<or> ts_id t \<notin> set (rq_executors rq))
       (rq_tasks rq))"

text \<open>
  \<open>cancel\<close> is \<open>None\<close> without a cancel event, otherwise whether the event is already set.
\<close>

definition run_wave ::
    "wave_request \<Rightarrow> bool option \<Rightarrow> wave_event list \<Rightarrow> world \<Rightarrow>
     (wave_error + wave_result \<times> wave_telemetry) option \<times> world" where
  "run_wave rq cancel events w =
     (if rq_tasks rq = [] then (Some (Inl EmptyWave), w)
      else if missing_ids rq \<noteq> [] then (Some (Inl (MissingAssignment (missing_ids rq))), w)
      else
        let (started, w1) = now w in
        if cancel = Some True then
          let (finished, w2) = now w1
          in (Some (Inr (compose_result rq CANCELLED [] [] [] started finished)), w2)
        else
          (case engine_run rq (cancel \<noteq> None) (engine_init rq (cancel \<noteq> None)) events of
             None \<Rightarrow> (None, w1)
           | Some s \<Rightarrow>
               if es_awake s \<and> es_running s = [] then
                 let (finished, w2) = now w1;
                     status = derive_status (es_results s) (es_failures s) (es_cancelled s)
                 in (Some (Inr (compose_result rq status (es_results s) (es_failures s)
                       (es_timings s) started finished)), w2)
               else (None, w1)))"

section \<open>Every task is accounted for\<close>

definition timed :: "string set \<Rightarrow> engine_state \<Rightarrow> string set" where
  "timed stats s = tt_task_id ` {t \<in> set (es_timings s). tt_status t \<in> stats}"

definition engine_inv :: "wave_request \<Rightarrow> engine_state \<Rightarrow> bool" where
  "engine_inv rq s \<longleftrightarrow>
     mset (map tt_task_id (es_timings s)) + mset (es_running s) = mset (map ts_id (rq_tasks rq)) \<and>
     fst ` set (es_results s) = timed {''SUCCEEDED''} s \<and>
     fst ` set (es_failures s) = timed {''TIMEOUT'', ''FAILED''} s \<and>
     timed {''SUCCEEDED'', ''TIMEOUT'', ''CANCELLED'', ''FAILED''} s = tt_task_id ` set (es_timings s)"

lemma engine_inv_init: "engine_inv rq (engine_init rq c)"
  by (simp add: engine_inv_def engine_init_def timed_def)

lemma timed_end:
  "timed stats (run_task_end rq i outcome a b c s) =
    (if outcome_status outcome \<in> stats then insert i (timed stats s) else timed stats s)"
proof -
  obtain t where "es_timings (run_task_end rq i outcome a b c s) = es_timings s @ [t]"
    and "tt_task_id t = i" and "tt_status t = outcome_status outcome"
    by (cases outcome) (simp_all add: run_task_end_def Let_def)
  moreover have "{u \<in> insert t T. tt_status u \<in> stats} =
      (if tt_status t \<in> stats then insert t {u \<in> T. tt_status u \<in> stats} else {u \<in> T. tt_status u \<in> stats})" for T
    by auto
  ultimately show ?thesis by (simp add: timed_def)
qed

lemma run_task_end_fields [simp]:
  "es_running (run_task_end rq i outcome a b c s) = remove1 i (es_running s)"
  "map tt_task_id (es_timings (run_task_end rq i outcome a b c s)) = map tt_task_id (es_timings s) @ [i]"
  "tt_task_id ` set (es_timings (run_task_end rq i outcome a b c s)) = insert i (tt_task_id ` set (es_timings s))"
  "es_cancelled (run_task_end rq i outcome a b c s) = es_cancelled s"
  "es_awake (run_task_end rq i outcome a b c s) = es_awake s"
  by (cases outcome; simp add: run_task_end_def Let_def)+

lemma run_task_end_stores:
  "fst ` set (es_results (run_task_end rq i outcome a b c s)) =
    (if outcome_status outcome = ''SUCCEEDED'' then insert i (fst ` set (es_results s)) else fst ` set (es_results s))"
  "fst ` set (es_failures (run_task_end rq i outcome a b c s)) =
    (if outcome_status outcome \<in> {''TIMEOUT'', ''FAILED''}
     then insert i (fst ` set (es_failures s)) else fst ` set (es_failures s))"
  by (cases outcome; simp add: run_task_end_def Let_def)+

lemma engine_step_inv:
  assumes "engine_inv rq s" and "engine_step rq c s e = Some s'"
  shows "engine_inv rq s'"
proof (cases e)
  case (Finish i outcome a b f)
  with assms(2) have run: "i \<in> set (es_running s)" and s': "s' = run_task_end rq i outcome a b f s"
    by (auto split: if_splits)
  have "mset (es_running s) = {#i#} + mset (remove1 i (es_running s))" using run by simp
  then have "mset (map tt_task_id (es_timings s')) + mset (es_running s') =
      mset (map tt_task_id (es_timings s)) + mset (es_running s)"
    unfolding s' run_task_end_fields by (simp del: mset_map)
  then have "mset (map tt_task_id (es_timings s')) + mset (es_running s') = mset (map ts_id (rq_tasks rq))"
    using assms(1) unfolding engine_inv_def by (metis (no_types))
  moreover have "fst ` set (es_results s') = timed {''SUCCEEDED''} s'"
    "fst ` set (es_failures s') = timed {''TIMEOUT'', ''FAILED''} s'"
    using assms(1) unfolding s' run_task_end_stores timed_end by (auto simp: engine_inv_def)
  moreover have "timed {''SUCCEEDED'', ''TIMEOUT'', ''CANCELLED'', ''FAILED''} s' = tt_task_id ` set (es_timings s')"
    using assms(1) unfolding s' timed_end by (cases outcome) (auto simp: engine_inv_def)
  ultimately show ?thesis by (simp only: engine_inv_def)
next
  case CancelSet
  with assms(2) have "s' = s\<lparr>es_cancel_set := True\<rparr>" by (simp split: if_splits)
  with assms(1) show ?thesis by (simp add: engine_inv_def timed_def)
next
  case Wake
  with assms(2) have "s' = s\<lparr>es_awake := True, es_cancelled := es_cancel_set s\<rparr>"
    by (simp split: if_splits)
  with assms(1) show ?thesis by (simp add: engine_inv_def timed_def)
qed

lemma engine_run_inv:
  "engine_inv rq s \<Longrightarrow> engine_run rq c s es = Some s' \<Longrightarrow> engine_inv rq s'"
  by (induction rq c s es rule: engine_run.induct) (auto split: option.splits dest: engine_step_inv)

text \<open>Once the engine is awake, the cancel event is never looked at again.\<close>

lemma engine_step_awake:
  "es_awake s \<Longrightarrow> engine_step rq c s e = Some s' \<Longrightarrow> es_awake s' \<and> es_cancelled s' = es_cancelled s"
  by (cases e) (auto split: if_splits)

lemma engine_run_awake:
  "es_awake s \<Longrightarrow> engine_run rq c s es = Some s' \<Longrightarrow> es_cancelled s' = es_cancelled s"
  by (induction rq c s es rule: engine_run.induct)
    (auto split: option.splits dest: engine_step_awake)

lemma engine_run_append:
  "engine_run rq c s (xs @ ys) =
    (case engine_run rq c s xs of None \<Rightarrow> None | Some s' \<Rightarrow> engine_run rq c s' ys)"
  by (induction xs arbitrary: s) (auto split: option.splits)

lemma run_task_end_cancel_set [simp]: "es_cancel_set (run_task_end rq i outcome a b c s) = es_cancel_set s"
  by (cases outcome) (simp_all add: run_task_end_def Let_def)

lemma engine_step_unset:
  "\<not> es_cancel_set s \<Longrightarrow> CancelSet \<noteq> e \<Longrightarrow> engine_step rq c s e = Some s' \<Longrightarrow> \<not> es_cancel_set s'"
  by (cases e) (auto split: if_splits)

lemma engine_run_unset:
  "\<not> es_cancel_set s \<Longrightarrow> CancelSet \<notin> set es \<Longrightarrow> engine_run rq c s es = Some s' \<Longrightarrow> \<not> es_cancel_set s'"
proof (induction es arbitrary: s)
  case (Cons e es)
  from Cons.prems obtain s1 where "engine_step rq c s e = Some s1" "engine_run rq c s1 es = Some s'"
    by (auto split: option.splits)
  with Cons show ?case using engine_step_unset [of s e rq c s1] by (metis list.set_intros)
qed simp

lemma run_wave_result:
  assumes "run_wave rq cancel events w = (Some (Inr (res, tel)), w')" and "cancel \<noteq> Some True"
  obtains s where "engine_run rq (cancel \<noteq> None) (engine_init rq (cancel \<noteq> None)) events = Some s"
    "es_running s = []" "wr_task_results res = es_results s" "wr_task_failures res = es_failures s"
    "wr_timings res = es_timings s" "wr_status res = derive_status (es_results s) (es_failures s) (es_cancelled s)"
    "wt_timings tel = es_timings s"
  using assms
  by (auto simp: run_wave_def compose_result_def Let_def split: if_splits option.splits prod.splits)

text \<open>A complete run of the engine always composes a result.\<close>

lemma run_wave_completes:
  assumes "rq_tasks rq \<noteq> []" and "missing_ids rq = []"
    and "case engine_run rq True (engine_init rq True) events of
      None \<Rightarrow> False | Some s \<Rightarrow> es_awake s \<and> es_running s = []"
  shows "\<exists>res tel w'. run_wave rq (Some False) events w = (Some (Inr (res, tel)), w')"
  using assms by (auto simp: run_wave_def Let_def split: option.splits prod.splits)

lemma wave_ledger:
  assumes "run_wave rq cancel events w = (Some (Inr (res, tel)), w')" and "cancel \<noteq> Some True"
  shows "mset (map tt_task_id (wr_timings res)) = mset (map ts_id (rq_tasks rq))"
    and "fst ` set (wr_task_results res) = tt_task_id ` {t \<in> set (wr_timings res). tt_status t = ''SUCCEEDED''}"
    and "fst ` set (wr_task_failures res) =
      tt_task_id ` {t \<in> set (wr_timings res). tt_status t \<in> {''TIMEOUT'', ''FAILED''}}"
    and "wr_status res = COMPLETED \<Longrightarrow> ''CANCELLED'' \<notin> tt_status ` set (wr_timings res) \<Longrightarrow>
      fst ` set (wr_task_results res) = ts_id ` set (rq_tasks rq)"
proof -
  obtain s where run: "engine_run rq (cancel \<noteq> None) (engine_init rq (cancel \<noteq> None)) events = Some s"
    and s: "es_running s = []" "wr_task_results res = es_results s" "wr_task_failures res = es_failures s"
      "wr_timings res = es_timings s" "wr_status res = derive_status (es_results s) (es_failures s) (es_cancelled s)"
    by (rule run_wave_result [OF assms]) simp
  have inv: "engine_inv rq s" using engine_run_inv [OF engine_inv_init run] .
  then show all: "mset (map tt_task_id (wr_timings res)) = mset (map ts_id (rq_tasks rq))"
    using s by (simp add: engine_inv_def)
  show "fst ` set (wr_task_results res) = tt_task_id ` {t \<in> set (wr_timings res). tt_status t = ''SUCCEEDED''}"
    "fst ` set (wr_task_failures res) =
      tt_task_id ` {t \<in> set (wr_timings res). tt_status t \<in> {''TIMEOUT'', ''FAILED''}}"
    using inv s by (simp_all add: engine_inv_def timed_def)
  assume "wr_status res = COMPLETED" and nc: "''CANCELLED'' \<notin> tt_status ` set (wr_timings res)"
  then have "es_failures s = []"
    using s(5) by (auto simp: derive_status_def split: if_splits)
  then have nf: "timed {''TIMEOUT'', ''FAILED''} s = {}" using inv by (simp add: engine_inv_def)
  have "tt_task_id ` set (es_timings s) \<subseteq> timed {''SUCCEEDED''} s"
  proof
    fix i assume "i \<in> tt_task_id ` set (es_timings s)"
    then have "i \<in> timed {''SUCCEEDED'', ''TIMEOUT'', ''CANCELLED'', ''FAILED''} s"
      using inv by (simp add: engine_inv_def)
    then obtain t where t: "t \<in> set (es_timings s)" "i = tt_task_id t"
      "tt_status t \<in> {''SUCCEEDED'', ''TIMEOUT'', ''CANCELLED'', ''FAILED''}" by (auto simp: timed_def)
    have "tt_status t \<noteq> ''CANCELLED''" using nc t(1) s(4) by (metis imageI)
    moreover have "tt_status t \<notin> {''TIMEOUT'', ''FAILED''}" using nf t(1) by (auto simp: timed_def)
    ultimately show "i \<in> timed {''SUCCEEDED''} s" using t by (auto simp: timed_def)
  qed
  moreover have "timed {''SUCCEEDED''} s \<subseteq> tt_task_id ` set (es_timings s)" by (auto simp: timed_def)
  ultimately have "fst ` set (es_results s) = tt_task_id ` set (es_timings s)"
    using inv by (simp add: engine_inv_def)
  also have "\<dots> = ts_id ` set (rq_tasks rq)"
    using all s(4) by (metis list.set_map mset_eq_setD)
  finally show "fst ` set (wr_task_results res) = ts_id ` set (rq_tasks rq)" using s(2) by simp
qed

section \<open>Properties\<close>

text \<open>
  However the event loop interleaves the tasks, a wave that finishes has exactly one timing
  per task; the tasks with a result are the ones timed \<open>SUCCEEDED\<close>, the tasks with a failure
  the ones timed \<open>TIMEOUT\<close> or \<open>FAILED\<close>; and a wave reported \<open>COMPLETED\<close> in which no task was
  cancelled has a result for every task.
\<close>
theorem wave_accounts_for_every_task:
  assumes "run_wave rq cancel events w = (Some (Inr (res, tel)), w')" and "cancel \<noteq> Some True"
  shows "mset (map tt_task_id (wr_timings res)) = mset (map ts_id (rq_tasks rq)) \<and>
    fst ` set (wr_task_results res) = tt_task_id ` {t \<in> set (wr_timings res). tt_status t = ''SUCCEEDED''} \<and>
    fst ` set (wr_task_failures res) =
      tt_task_id ` {t \<in> set (wr_timings res). tt_status t \<in> {''TIMEOUT'', ''FAILED''}} \<and>
    (wr_status res = COMPLETED \<and> ''CANCELLED'' \<notin> tt_status ` set (wr_timings res) \<longrightarrow>
      fst ` set (wr_task_results res) = ts_id ` set (rq_tasks rq))"
  using wave_ledger [OF assms] by blast

text \<open>
  A cancel event is heard only until the engine first wakes, which the end of any one task
  makes it do: set at any later point, it neither cancels a task nor makes the wave
  \<open>CANCELLED\<close>, whatever else happens and however long the other tasks still run.
\<close>
theorem late_cancel_is_ignored:
  assumes "run_wave rq (Some False) (before @ Wake # after) w = (Some (Inr (res, tel)), w')"
    and "CancelSet \<notin> set before"
  shows "wr_status res \<noteq> CANCELLED"
proof -
  obtain s where run: "engine_run rq True (engine_init rq True) (before @ Wake # after) = Some s"
    and st: "wr_status res = derive_status (es_results s) (es_failures s) (es_cancelled s)"
    by (rule run_wave_result [OF assms(1)]) simp_all
  then obtain s0 where s0: "engine_run rq True (engine_init rq True) before = Some s0"
    and s1: "engine_run rq True s0 (Wake # after) = Some s"
    by (auto simp: engine_run_append split: option.splits)
  have "\<not> es_cancel_set s0" using engine_run_unset [OF _ assms(2) s0] by (simp add: engine_init_def)
  then have "engine_run rq True (s0\<lparr>es_awake := True, es_cancelled := False\<rparr>) after = Some s"
    using s1 by (auto split: if_splits)
  from engine_run_awake [OF _ this] have "\<not> es_cancelled s" by simp
  with st show ?thesis by (simp add: derive_status_def)
qed

definition demo_assignment :: "string \<Rightarrow> agent_assignment" where
  "demo_assignment i = \<lparr>as_id = i, as_task_id = i, as_wave_id = ''w'', as_agent_id = i @ ''-agent'',
     as_objective = [], as_capability = CODING,
     as_context = \<lparr>ctx_run_id = [], ctx_phase = [], ctx_task_id = [], ctx_correlation_id = [],
       ctx_repository = [], ctx_change_id = [], ctx_environment = [], ctx_extra = []\<rparr>,
     as_inputs = [], as_constraints = [], allowed_tools = [], expected_artifact = [],
     as_timeout = 30, as_created_at = 0\<rparr>"

definition demo_result :: "string \<Rightarrow> agent_result" where
  "demo_result i = \<lparr>rs_assignment_id = i, rs_task_id = i, rs_status = ''SUCCEEDED'', rs_started_at = 0,
     rs_finished_at = 5, rs_claims = [], rs_artifacts = [], rs_evidence = [], rs_failures = [],
     execution_references = [''exec-1''], confidence = 1, next_recommendation = [], rs_summary = []\<rparr>"

definition demo_request :: wave_request where
  "demo_request = \<lparr>rq_wave_id = ''w'',
     rq_tasks = [demo_task ''a'' INDEPENDENT [], demo_task ''b'' INDEPENDENT []],
     rq_assignments = [(''a'', demo_assignment ''a''), (''b'', demo_assignment ''b'')],
     rq_executors = [''a'', ''b'']\<rparr>"

text \<open>Task b ends first; the cancel event is set while a is still running; a then returns.\<close>

definition demo_events :: "wave_event list" where
  "demo_events = [Finish ''b'' (Returned (demo_result ''b'')) 0 0 10, Wake, CancelSet,
     Finish ''a'' (Returned (demo_result ''a'')) 0 0 900]"

definition demo_clock :: world where
  "demo_clock = \<lparr>clock_at = (\<lambda>n. int n), ticks = 0, uuid_at = digits, uuids = 0\<rparr>"

lemma demo_run:
  "\<exists>res tel w'. run_wave demo_request (Some False) demo_events demo_clock = (Some (Inr (res, tel)), w')"
proof (rule run_wave_completes)
  show "missing_ids demo_request = []" by (simp add: missing_ids_def demo_request_def demo_task_def)
  show "rq_tasks demo_request \<noteq> []" by (simp add: demo_request_def)
  show "case engine_run demo_request True (engine_init demo_request True) demo_events of
      None \<Rightarrow> False | Some s \<Rightarrow> es_awake s \<and> es_running s = []"
    by code_simp
qed

theorem wave_accounts_for_every_task_witness:
  "\<exists>res tel w'. run_wave demo_request (Some False) demo_events demo_clock = (Some (Inr (res, tel)), w') \<and>
    mset (map tt_task_id (wr_timings res)) = mset (map ts_id (rq_tasks demo_request))"
proof -
  obtain res tel w' where run: "run_wave demo_request (Some False) demo_events demo_clock = (Some (Inr (res, tel)), w')"
    using demo_run by blast
  have "Some False \<noteq> Some True" by simp
  from run conjunct1 [OF wave_accounts_for_every_task [OF run this]] show ?thesis by blast
qed

theorem late_cancel_is_ignored_witness:
  "\<exists>res tel w'. run_wave demo_request (Some False) demo_events demo_clock = (Some (Inr (res, tel)), w') \<and>
    CancelSet \<in> set demo_events \<and> wr_status res \<noteq> CANCELLED"
proof -
  have ev: "demo_events = [Finish ''b'' (Returned (demo_result ''b'')) 0 0 10] @ Wake #
      [CancelSet, Finish ''a'' (Returned (demo_result ''a'')) 0 0 900]"
    by (simp add: demo_events_def)
  obtain res tel w' where run: "run_wave demo_request (Some False) demo_events demo_clock = (Some (Inr (res, tel)), w')"
    using demo_run by blast
  have "wr_status res \<noteq> CANCELLED"
    using late_cancel_is_ignored [OF run [unfolded ev]] by simp
  with run show ?thesis by (auto simp: ev)
qed

end
