(* ===== verification/Orchestrator.thy ===== *)
theory Orchestrator
  imports Waves Lifecycle
begin

text \<open>
  \<open>packages/agent-runtime/src/smorx_runtime/orchestrator.py\<close>: the workflow of one
  orchestration run. The orchestrator object is one record (its ledger \<open>OrchestratorState\<close>
  first, then its own attributes); every method takes and returns it. What a run is given from
  outside is the record \<open>host\<close>: how the event loop and the executors run the tasks of a wave
  (the event sequences of the wave engine; a sequence that does not complete the wave is one that
  exceeds the budget of \<open>asyncio.wait_for\<close>), the assignment decorator and the run context.
  A method that can raise returns \<open>error + value\<close> beside the orchestrator it leaves.
\<close>

section \<open>Data\<close>

datatype workflow_phase =
    IDLE | INSPECTING | PLANNING | DISPATCHING | EXECUTING | COLLECTING | RECONCILING
  | COMPLETED | BLOCKED

fun WORKFLOW_TRANSITIONS :: "workflow_phase \<Rightarrow> workflow_phase list" where
  "WORKFLOW_TRANSITIONS IDLE = [INSPECTING]"
| "WORKFLOW_TRANSITIONS INSPECTING = [PLANNING]"
| "WORKFLOW_TRANSITIONS PLANNING = [DISPATCHING]"
| "WORKFLOW_TRANSITIONS DISPATCHING = [EXECUTING]"
| "WORKFLOW_TRANSITIONS EXECUTING = [COLLECTING]"
| "WORKFLOW_TRANSITIONS COLLECTING = [RECONCILING, COMPLETED, BLOCKED]"
| "WORKFLOW_TRANSITIONS RECONCILING = [DISPATCHING, COMPLETED, BLOCKED]"
| "WORKFLOW_TRANSITIONS COMPLETED = []"
| "WORKFLOW_TRANSITIONS BLOCKED = []"

record retry_policy =
  max_retries_per_task :: int
  allow_replacement :: bool
  no_progress_threshold :: int
  failure_signature :: "agent_failure \<Rightarrow> string"

definition default_signature :: "agent_failure \<Rightarrow> string" where
  "default_signature f = classification f @ ''|'' @ fl_summary f"

record contradiction =
  cn_claim_id :: string
  cn_refs :: "string list"
  cn_statements :: "string list"
  cn_severity :: string
  cn_detected_at :: int

record orchestration_decision =
  dc_id :: string
  dc_kind :: string
  dc_detail :: "(string \<times> pyval) list"

record wave_summary =
  ws_wave_id :: string
  ws_status :: string
  ws_tasks :: "string list"
  ws_failures :: "string list"

record orchestrator_state =
  phase :: workflow_phase
  active_wave_id :: string
  pending_tasks :: "string list"
  completed_tasks :: "string list"
  task_dependencies :: "(string \<times> string list) list"
  task_statuses :: "(string \<times> string) list"
  active_agents :: "(string \<times> string) list"
  completed_agents :: "string list"
  agent_results :: "(string \<times> agent_result) list"
  evidence :: "agent_evidence list"
  failures :: "agent_failure list"
  conflicts :: "contradiction list"
  decisions :: "orchestration_decision list"
  phase_history :: "workflow_phase list"
  next_transition :: string

text \<open>The ledger and the private attributes; \<open>o_last\<close> is \<open>last_wave_telemetry\<close> of the engine.\<close>

record orchestrator = orchestrator_state +
  o_max_parallelism :: int
  o_timeout :: rat
  o_threshold :: int
  o_retry :: retry_policy
  o_run_id :: string
  o_wave_seq :: nat
  o_summaries :: "wave_summary list"
  o_run_counts :: "(string \<times> nat) list"
  o_replaced :: "(string \<times> nat) list"
  o_issued :: "(string \<times> agent_assignment) list"
  o_telemetry :: "wave_telemetry list"
  o_last :: "wave_telemetry option"
  o_world :: world

record orchestration_report =
  rp_run_id :: string
  rp_status :: string
  rp_phases :: "workflow_phase list"
  rp_wave_summaries :: "wave_summary list"
  rp_decisions :: "orchestration_decision list"
  rp_contradictions :: "contradiction list"
  rp_failures :: "agent_failure list"
  rp_evidence :: "agent_evidence list"
  rp_telemetry :: "wave_telemetry list"
  rp_next_transition :: string

datatype orch_error =
    PlanFailed graph_error
  | InvalidWorkflowTransition workflow_phase workflow_phase
  | TypeError
  | OrchestrationBlocked orchestration_report
  | OutOfFuel

record host =
  h_events :: "nat \<Rightarrow> wave_request \<Rightarrow> agent_spec list \<Rightarrow> wave_event list"
  h_decorate :: "agent_assignment \<Rightarrow> agent_assignment"
  h_context :: agent_context
  h_repr_float :: "rat \<Rightarrow> string"

text \<open>
  \<open>__init__\<close>: \<open>controls\<close> are the per-agent timeout and the no-progress threshold of the
  \<open>LoopControls\<close>, when given.
\<close>

definition new_orchestrator ::
    "int \<Rightarrow> rat \<Rightarrow> retry_policy \<Rightarrow> (rat \<times> int) option \<Rightarrow> world \<Rightarrow> orchestrator" where
  "new_orchestrator max_par timeout retry controls w =
     (let timeout' = (case controls of Some (t, _) \<Rightarrow> if timeout = 0 then t else timeout | None \<Rightarrow> timeout);
          threshold = (case controls of Some (_, k) \<Rightarrow> k | None \<Rightarrow> no_progress_threshold retry)
      in \<lparr>phase = IDLE, active_wave_id = [], pending_tasks = [], completed_tasks = [],
          task_dependencies = [], task_statuses = [], active_agents = [], completed_agents = [],
          agent_results = [], evidence = [], failures = [], conflicts = [], decisions = [],
          phase_history = [], next_transition = [],
          o_max_parallelism = max_par, o_timeout = timeout', o_threshold = threshold,
          o_retry = retry\<lparr>no_progress_threshold := threshold\<rparr>, o_run_id = [], o_wave_seq = 0,
          o_summaries = [], o_run_counts = [], o_replaced = [], o_issued = [], o_telemetry = [],
          o_last = None, o_world = w\<rparr>)"

section \<open>The ledger\<close>

definition wf_transition :: "workflow_phase \<Rightarrow> orchestrator \<Rightarrow> (orch_error + unit) \<times> orchestrator" where
  "wf_transition target m =
     (if target \<in> set (WORKFLOW_TRANSITIONS (phase m))
      then (Inr (), m\<lparr>phase := target, phase_history := phase_history m @ [target]\<rparr>)
      else (Inl (InvalidWorkflowTransition (phase m) target), m))"

definition read_clock :: "orchestrator \<Rightarrow> int \<times> orchestrator" where
  "read_clock m = (let (t, w) = now (o_world m) in (t, m\<lparr>o_world := w\<rparr>))"

definition fresh_hex :: "orchestrator \<Rightarrow> string \<times> orchestrator" where
  "fresh_hex m = (let (u, w) = uuid4 (o_world m) in (take 12 u, m\<lparr>o_world := w\<rparr>))"

definition record_decision :: "string \<Rightarrow> (string \<times> pyval) list \<Rightarrow> orchestrator \<Rightarrow> orchestrator" where
  "record_decision kind detail m =
     (let (h, m') = fresh_hex m
      in m'\<lparr>decisions := decisions m' @
           [\<lparr>dc_id = ''dec-'' @ h, dc_kind = kind, dc_detail = detail\<rparr>]\<rparr>)"

definition make_failure :: "string \<Rightarrow> string \<Rightarrow> orchestrator \<Rightarrow> agent_failure \<times> orchestrator" where
  "make_failure cls text m =
     (let (h, m1) = fresh_hex m; (t, m2) = read_clock m1
      in (\<lparr>failure_id = ''f-'' @ h, classification = cls, fl_summary = text, observed_at = t,
           fl_evidence = [], probable_cause = [], next_action = []\<rparr>, m2))"

definition status_str :: "agent_result \<Rightarrow> string" where
  "status_str r = upper (rs_status r)"

definition mark_failed :: "string \<Rightarrow> agent_failure \<Rightarrow> orchestrator \<Rightarrow> orchestrator" where
  "mark_failed i f m =
     m\<lparr>task_statuses := AList.update i ''FAILED'' (task_statuses m), failures := failures m @ [f]\<rparr>"

definition drop_pending :: "string \<Rightarrow> orchestrator \<Rightarrow> orchestrator" where
  "drop_pending i m = m\<lparr>pending_tasks := remove1 i (pending_tasks m)\<rparr>"

text \<open>\<open>None\<close> is the \<open>TypeError\<close> of a \<open>claim_ids\<close> artifact that cannot be iterated.\<close>

definition extract_claims :: "(rat \<Rightarrow> string) \<Rightarrow> agent_result \<Rightarrow> string list option" where
  "extract_claims fr r =
     (let arts = map_of (rs_artifacts r);
          single = concat (map (\<lambda>key. case arts key of
              None \<Rightarrow> [] | Some v \<Rightarrow> if truthy v then [py_str fr v] else []) [''claim_id'', ''claim''])
      in case arts ''claim_ids'' of
           None \<Rightarrow> Some (dedup (rs_claims r @ single))
         | Some v \<Rightarrow>
             if \<not> truthy v then Some (dedup (rs_claims r @ single))
             else (case py_iter v of None \<Rightarrow> None
                   | Some vs \<Rightarrow> Some (dedup (rs_claims r @ single @ map (py_str fr) vs))))"

text \<open>\<open>claims = self._extract_claims(result)\<close> is evaluated first, so a \<open>TypeError\<close> leaves the
  ledger as it was.\<close>

definition evidence_from ::
    "(rat \<Rightarrow> string) \<Rightarrow> agent_result \<Rightarrow> orchestrator \<Rightarrow> (orch_error + agent_evidence) \<times> orchestrator" where
  "evidence_from fr r m =
     (case extract_claims fr r of
        None \<Rightarrow> (Inl TypeError, m)
      | Some claims \<Rightarrow>
          let (h, m1) = fresh_hex m; (t, m2) = read_clock m1
          in (Inr \<lparr>ev_id = ''ev-'' @ h, ev_source = ''task:'' @ rs_task_id r, ev_timestamp = t,
                ev_type = ''EXECUTION_RESULT'',
                ev_claim_id = (case claims of [] \<Rightarrow> None | c # _ \<Rightarrow> Some c),
                ev_machine_result = rs_artifacts r, ev_provenance = [], ev_related_execution = []\<rparr>, m2))"

definition mark_succeeded ::
    "(rat \<Rightarrow> string) \<Rightarrow> string \<Rightarrow> agent_result \<Rightarrow> orchestrator \<Rightarrow> (orch_error + unit) \<times> orchestrator" where
  "mark_succeeded fr i r m =
     (let agents = (case map_of (o_issued m) i of None \<Rightarrow> [] | Some a \<Rightarrow> [as_agent_id a]);
          m1 = m\<lparr>task_statuses := AList.update i ''SUCCEEDED'' (task_statuses m),
                 completed_tasks := completed_tasks m @ [i],
                 agent_results := AList.update i r (agent_results m),
                 completed_agents := completed_agents m @ agents\<rparr>
      in if rs_evidence r \<noteq> [] then (Inr (), m1\<lparr>evidence := evidence m1 @ rs_evidence r\<rparr>)
         else (case evidence_from fr r m1 of
                 (Inl e, m2) \<Rightarrow> (Inl e, m2)
               | (Inr ev, m2) \<Rightarrow> (Inr (), m2\<lparr>evidence := evidence m2 @ [ev]\<rparr>)))"

section \<open>Dispatching a wave\<close>

definition ensure_dispatch_ready ::
    "task_spec list \<Rightarrow> orchestrator \<Rightarrow> (orch_error + unit) \<times> orchestrator" where
  "ensure_dispatch_ready upcoming m =
     (let (r, m1) =
        (if phase m = COLLECTING then
           (case wf_transition RECONCILING m of
              (Inl e, m') \<Rightarrow> (Inl e, m')
            | (Inr _, m') \<Rightarrow> wf_transition DISPATCHING m')
         else if phase m = RECONCILING then wf_transition DISPATCHING m
         else (Inr (), m))
      in case r of
           Inl e \<Rightarrow> (Inl e, m1)
         | Inr _ \<Rightarrow>
             (Inr (), if list_ex (\<lambda>task. ts_kind task = RECONCILER) upcoming
                then record_decision ''reconcile''
                  [(''tasks'', py_strs (map ts_id upcoming)), (''kind'', PStr ''reconciler'')] m1
                else m1))"

definition run_count :: "orchestrator \<Rightarrow> string \<Rightarrow> nat" where
  "run_count m i = (case map_of (o_run_counts m) i of None \<Rightarrow> 0 | Some n \<Rightarrow> n)"

definition is_replaced :: "orchestrator \<Rightarrow> string \<Rightarrow> bool" where
  "is_replaced m i \<longleftrightarrow> map_of (o_replaced m) i \<noteq> None"

text \<open>
  One iteration of the loop that issues the assignments. The local dictionaries \<open>assignments\<close>
  and \<open>executors\<close> get the keys and, the first, the values of \<open>_issued_assignments\<close>.
\<close>

definition issue_task ::
    "host \<Rightarrow> string \<Rightarrow> task_spec \<Rightarrow> agent_spec list \<times> orchestrator \<Rightarrow> agent_spec list \<times> orchestrator" where
  "issue_task h wave_id task = (\<lambda>(specs, m).
     let i = ts_id task;
         run_no = run_count m i;
         (weight, agent_id) =
           (case map_of (o_replaced m) i of
              Some k \<Rightarrow> (int k + 1, i @ ''-replacement'' @ digits k)
            | None \<Rightarrow> (1, i @ ''-agent''));
         tools = (case capability_for (ts_capability task) of
              Inr entry \<Rightarrow> allowed_tool_prefixes entry | Inl _ \<Rightarrow> []);
         (t, m1) = read_clock m;
         assignment = h_decorate h
           \<lparr>as_id = o_run_id m @ '':'' @ i @ '':'' @ digits run_no, as_task_id = i, as_wave_id = wave_id,
            as_agent_id = agent_id, as_objective = ts_description task,
            as_capability = ts_capability task, as_context = h_context h, as_inputs = ts_inputs task,
            as_constraints = depends_on task, allowed_tools = tools, expected_artifact = [],
            as_timeout = o_timeout m, as_created_at = t\<rparr>;
         spec = \<lparr>sp_agent_id = agent_id, sp_name = capability_value (ts_capability task),
                 sp_capability = ts_capability task, replacement_weight = weight\<rparr>
     in (specs @ [spec],
         m1\<lparr>o_issued := AList.update i assignment (o_issued m1),
            active_agents := AList.update i agent_id (active_agents m1),
            task_statuses := AList.update i ''RUNNING'' (task_statuses m1),
            o_run_counts := AList.update i (run_no + 1) (o_run_counts m1)\<rparr>))"

definition wave_error_text :: "wave_error \<Rightarrow> string" where
  "wave_error_text e = (case e of
     EmptyWave \<Rightarrow> ''run_wave requires at least one task in the wave''
   | MissingAssignment ids \<Rightarrow> ''missing assignment or executor for tasks: '' @ join '', '' ids)"

text \<open>
  The end of \<open>_execute_wave\<close>: the telemetry of the last wave the engine completed is recorded,
  whether or not it is the wave just run.
\<close>

definition record_last_wave :: "orchestrator \<Rightarrow> orchestrator" where
  "record_last_wave m = (case o_last m of
     None \<Rightarrow> m | Some tel \<Rightarrow> m\<lparr>o_telemetry := record_wave (o_telemetry m) tel\<rparr>)"

text \<open>The wave's result, if any, and whether the wave timed out.\<close>

definition dispatch_issued ::
    "host \<Rightarrow> task_spec list \<Rightarrow> string \<Rightarrow> nat \<Rightarrow> agent_spec list \<Rightarrow> orchestrator \<Rightarrow>
     (orch_error + wave_result option \<times> bool) \<times> orchestrator" where
  "dispatch_issued h wave wave_id seq specs m =
     (let request = \<lparr>rq_wave_id = wave_id, rq_tasks = wave, rq_assignments = o_issued m,
                     rq_executors = map fst (o_issued m)\<rparr>;
          (outcome, w) = run_wave request None (h_events h seq request specs) (o_world m);
          m1 = m\<lparr>o_world := w\<rparr>
      in (case outcome of
            None \<Rightarrow> (Inr (None, True), record_last_wave m1)
          | Some (Inl e) \<Rightarrow>
              (Inr (None, False),
               record_last_wave (record_decision ''reconcile''
                 [(''wave_id'', PStr wave_id), (''error'', PStr (wave_error_text e)),
                  (''kind'', PStr ''wave_error'')] m1))
          | Some (Inr (res, tel)) \<Rightarrow>
              (Inr (Some res, False), record_last_wave (m1\<lparr>o_last := Some tel\<rparr>))))"

definition execute_wave ::
    "host \<Rightarrow> task_spec list \<Rightarrow> orchestrator \<Rightarrow> (orch_error + wave_result option \<times> bool) \<times> orchestrator" where
  "execute_wave h wave m =
     (let seq = o_wave_seq m + 1;
          wave_id = o_run_id m @ ''-w'' @ digits seq;
          (specs, m1) = fold (issue_task h wave_id) wave
            ([], m\<lparr>o_wave_seq := seq, active_wave_id := wave_id, o_issued := []\<rparr>)
      in case wf_transition EXECUTING m1 of
           (Inl e, m2) \<Rightarrow> (Inl e, m2)
         | (Inr _, m2) \<Rightarrow> dispatch_issued h wave wave_id seq specs m2)"

section \<open>Collecting a wave\<close>

definition stale_result :: "orchestrator \<Rightarrow> string \<Rightarrow> agent_result \<Rightarrow> bool" where
  "stale_result m i r =
     (case map_of (o_issued m) i of
        None \<Rightarrow> True
      | Some issued \<Rightarrow> rs_task_id r \<noteq> i \<or> rs_assignment_id r \<noteq> as_id issued)"

definition add_mismatch :: "string \<Rightarrow> string \<Rightarrow> string \<Rightarrow> orchestrator \<Rightarrow> orchestrator" where
  "add_mismatch claim i text m =
     (let (t, m1) = read_clock m
      in m1\<lparr>conflicts := conflicts m1 @ [\<lparr>cn_claim_id = claim, cn_refs = [i],
           cn_statements = [text], cn_severity = ''mismatch'', cn_detected_at = t\<rparr>]\<rparr>)"

text \<open>What is done with the result a task returned; the representative failure, if there is one.\<close>

definition collect_result ::
    "host \<Rightarrow> string \<Rightarrow> agent_result \<Rightarrow> orchestrator \<Rightarrow> (orch_error + agent_failure option) \<times> orchestrator" where
  "collect_result h i r m =
     (if stale_result m i r then
        let m1 = add_mismatch ''__stale_result__'' i
              (''result for task '' @ i @ '' carried task_id='' @ repr_str (rs_task_id r) @
               '' and assignment_id='' @ repr_str (rs_assignment_id r)) m
        in (Inr None, m1\<lparr>task_statuses := AList.update i ''CANCELLED'' (task_statuses m1)\<rparr>)
      else if status_str r \<noteq> ''SUCCEEDED'' then
        let (f, m1) = (case rs_failures r of
              f # _ \<Rightarrow> (f, m)
            | [] \<Rightarrow> make_failure ''failed'' (rs_summary r) m)
        in (Inr (Some f), mark_failed i f m1)
      else
        (case validate_result r of
           issue # _ \<Rightarrow>
             let (f, m1) = make_failure ''mismatch'' (''result validation failed: '' @ issue)
                   (add_mismatch ''__validation__'' i issue m)
             in (Inr (Some f), mark_failed i f m1)
         | [] \<Rightarrow>
             (case mark_succeeded (h_repr_float h) i r m of
                (Inl e, m1) \<Rightarrow> (Inl e, m1)
              | (Inr _, m1) \<Rightarrow> (Inr None, m1))))"

definition collect_task ::
    "host \<Rightarrow> bool \<Rightarrow> (string \<times> agent_result) list \<Rightarrow> (string \<times> agent_failure) list \<Rightarrow> string \<Rightarrow>
     orchestrator \<Rightarrow> (orch_error + agent_failure option) \<times> orchestrator" where
  "collect_task h timed_out obtained engine_failures i m0 =
     (let m = drop_pending i m0
      in if map_of (task_statuses m) i \<notin> {Some ''QUEUED'', Some ''RUNNING''} then (Inr None, m)
         else if timed_out then
           let (f, m1) = make_failure ''timeout'' ''wave exceeded per-agent timeout budget'' m
           in (Inr (Some f), mark_failed i f m1)
         else
           (case map_of obtained i of
              None \<Rightarrow>
                (case map_of engine_failures i of
                   Some f \<Rightarrow> (Inr (Some f), mark_failed i f m)
                 | None \<Rightarrow>
                     let (f, m1) = make_failure ''no_result'' ''no result produced for task'' m
                     in (Inr (Some f), mark_failed i f m1))
            | Some r \<Rightarrow> collect_result h i r m))"

fun collect_tasks ::
    "host \<Rightarrow> bool \<Rightarrow> (string \<times> agent_result) list \<Rightarrow> (string \<times> agent_failure) list \<Rightarrow> string list \<Rightarrow>
     (string \<times> agent_failure) list \<Rightarrow> orchestrator \<Rightarrow>
     (orch_error + (string \<times> agent_failure) list) \<times> orchestrator" where
  "collect_tasks h timed_out obtained engine_failures [] found m = (Inr found, m)"
| "collect_tasks h timed_out obtained engine_failures (i # is) found m =
     (case collect_task h timed_out obtained engine_failures i m of
        (Inl e, m1) \<Rightarrow> (Inl e, m1)
      | (Inr None, m1) \<Rightarrow> collect_tasks h timed_out obtained engine_failures is found m1
      | (Inr (Some f), m1) \<Rightarrow>
          collect_tasks h timed_out obtained engine_failures is (AList.update i f found) m1)"

type_synonym claim_groups = "(string \<times> (string \<times> agent_result) list) list"

definition add_claim :: "string \<times> agent_result \<Rightarrow> string \<Rightarrow> claim_groups \<Rightarrow> claim_groups" where
  "add_claim entry claim groups =
     AList.update claim ((case map_of groups claim of None \<Rightarrow> [] | Some es \<Rightarrow> es) @ [entry]) groups"

fun group_claims ::
    "(rat \<Rightarrow> string) \<Rightarrow> (string \<times> agent_result) list \<Rightarrow> orchestrator \<Rightarrow> string list \<Rightarrow> claim_groups \<Rightarrow>
     claim_groups option" where
  "group_claims fr obtained m [] groups = Some groups"
| "group_claims fr obtained m (i # is) groups =
     (case map_of obtained i of
        None \<Rightarrow> group_claims fr obtained m is groups
      | Some r \<Rightarrow>
          if map_of (task_statuses m) i = Some ''CANCELLED'' then group_claims fr obtained m is groups
          else
            (case extract_claims fr r of
               None \<Rightarrow> None
             | Some claims \<Rightarrow> group_claims fr obtained m is (fold (add_claim (i, r)) claims groups)))"

text \<open>The comparison of the first two results of a claim.\<close>

definition agree :: "agent_result \<Rightarrow> agent_result \<Rightarrow> bool" where
  "agree r1 r2 \<longleftrightarrow>
     (status_str r1 = ''SUCCEEDED'') = (status_str r2 = ''SUCCEEDED'') \<and>
     py_eq (PDict (rs_artifacts r1)) (PDict (rs_artifacts r2))"

definition judge_group ::
    "string \<times> (string \<times> agent_result) list \<Rightarrow> orchestrator \<Rightarrow> orchestrator" where
  "judge_group = (\<lambda>(claim, entries) m.
     case entries of
       (_, r1) # (_, r2) # _ \<Rightarrow>
         if agree r1 r2 then m
         else
           let said = filter (\<lambda>s. s \<noteq> []) (map (rs_summary \<circ> snd) entries);
               (t, m1) = read_clock m
           in m1\<lparr>conflicts := conflicts m1 @ [\<lparr>cn_claim_id = claim, cn_refs = map fst entries,
                cn_statements = (if said = [] then map (rs_summary \<circ> snd) entries else said),
                cn_severity = ''conflict'', cn_detected_at = t\<rparr>]\<rparr>
     | _ \<Rightarrow> m)"

definition detect_conflicts ::
    "host \<Rightarrow> string list \<Rightarrow> (string \<times> agent_result) list \<Rightarrow> orchestrator \<Rightarrow>
     (orch_error + unit) \<times> orchestrator" where
  "detect_conflicts h ids obtained m =
     (case group_claims (h_repr_float h) obtained m ids [] of
        None \<Rightarrow> (Inl TypeError, m)
      | Some groups \<Rightarrow> (Inr (), fold judge_group groups m))"

definition collect_wave ::
    "host \<Rightarrow> task_spec list \<Rightarrow> wave_result option \<Rightarrow> bool \<Rightarrow> orchestrator \<Rightarrow>
     (orch_error + (string \<times> agent_failure) list) \<times> orchestrator" where
  "collect_wave h wave output timed_out m =
     (let obtained = (case output of None \<Rightarrow> [] | Some res \<Rightarrow> wr_task_results res);
          engine_failures = (case output of None \<Rightarrow> [] | Some res \<Rightarrow> wr_task_failures res)
      in case collect_tasks h timed_out obtained engine_failures (map ts_id wave) [] m of
           (Inl e, m1) \<Rightarrow> (Inl e, m1)
         | (Inr found, m1) \<Rightarrow>
             (case detect_conflicts h (map ts_id wave) obtained m1 of
                (Inl e, m2) \<Rightarrow> (Inl e, m2)
              | (Inr _, m2) \<Rightarrow> (Inr found, m2)))"

section \<open>Retry, replacement and no progress\<close>

text \<open>The locals of \<open>run\<close>: \<open>rl_rest\<close> is \<open>plan[wave_index:]\<close>.\<close>

record run_locals =
  rl_follow :: "task_spec list"
  rl_rest :: "task_spec list list"
  rl_last :: "(string \<times> string) list"
  rl_consecutive :: "(string \<times> int) list"

text \<open>\<open>Stop mismatch kind reason\<close>: the loop is left with \<open>blocked\<close> set.\<close>

datatype verdict = Staged "task_spec list" | Stop bool string string

definition note_signature :: "string \<Rightarrow> string \<Rightarrow> run_locals \<Rightarrow> int \<times> run_locals" where
  "note_signature i signature l =
     (let prior = (case map_of (rl_consecutive l) i of None \<Rightarrow> 0 | Some n \<Rightarrow> n);
          consecutive = (if map_of (rl_last l) i = Some signature then prior + 1 else 1)
      in (consecutive, l\<lparr>rl_last := AList.update i signature (rl_last l),
                         rl_consecutive := AList.update i consecutive (rl_consecutive l)\<rparr>))"

text \<open>The decision for one failed task: \<open>Staged [task]\<close> to run it again, or \<open>Stop\<close>.\<close>

definition decide_failure ::
    "task_spec \<Rightarrow> agent_failure \<Rightarrow> run_locals \<Rightarrow> orchestrator \<Rightarrow> verdict \<times> run_locals \<times> orchestrator" where
  "decide_failure task f l m =
     (let i = ts_id task;
          signature = failure_signature (o_retry m) f;
          (consecutive, l1) = note_signature i signature l;
          mismatch = (classification f = ''mismatch'');
          runs = run_count m i
      in if o_threshold m \<le> consecutive then
           (Stop mismatch ''no_progress_block''
              (''no progress: '' @ str_int consecutive @ '' consecutive identical failure signatures for task '' @ i),
            l1, record_decision ''no_progress_block''
              [(''task_id'', PStr i), (''signature'', PStr signature), (''consecutive'', PInt consecutive),
               (''threshold'', PInt (o_threshold m))] m)
         else if int runs \<le> max_retries_per_task (o_retry m) then
           (Staged [task], l1, record_decision ''retry''
              [(''task_id'', PStr i), (''attempt'', PInt (int runs + 1)), (''signature'', PStr signature)] m)
         else if allow_replacement (o_retry m) \<and> \<not> is_replaced m i then
           (Staged [task], l1, record_decision ''replace_agent''
              [(''task_id'', PStr i), (''replacement_weight'', PInt 2),
               (''agent_id'', PStr (i @ ''-replacement1''))]
              (m\<lparr>o_replaced := AList.update i 1 (o_replaced m)\<rparr>))
         else
           (let kind = (if mismatch then ''human_review_block'' else ''BLOCKED'')
            in (Stop mismatch kind (''task '' @ i @ '' failed after retries and replacement are exhausted''),
                l1, record_decision kind [(''task_id'', PStr i), (''signature'', PStr signature)] m)))"

fun reconcile_tasks ::
    "(string \<times> agent_failure) list \<Rightarrow> task_spec list \<Rightarrow> task_spec list \<Rightarrow> run_locals \<Rightarrow> orchestrator \<Rightarrow>
     verdict \<times> run_locals \<times> orchestrator" where
  "reconcile_tasks found [] staged l m = (Staged staged, l, m)"
| "reconcile_tasks found (task # ts) staged l m =
     (case map_of found (ts_id task) of
        None \<Rightarrow> reconcile_tasks found ts staged l m
      | Some f \<Rightarrow>
          (case decide_failure task f l m of
             (Stop mis kind reason, l1, m1) \<Rightarrow> (Stop mis kind reason, l1, m1)
           | (Staged again, l1, m1) \<Rightarrow> reconcile_tasks found ts (staged @ again) l1 m1))"

definition summarize_wave ::
    "task_spec list \<Rightarrow> (string \<times> agent_failure) list \<Rightarrow> orchestrator \<Rightarrow> orchestrator" where
  "summarize_wave wave found m =
     (let ids = map ts_id wave;
          failed = filter (\<lambda>i. map_of found i \<noteq> None) ids;
          cancelled = filter (\<lambda>i. map_of (task_statuses m) i = Some ''CANCELLED'') ids;
          m1 = m\<lparr>o_summaries := o_summaries m @
            [\<lparr>ws_wave_id = active_wave_id m,
              ws_status = (if failed \<noteq> [] \<or> cancelled \<noteq> [] then ''FAILED'' else ''COMPLETED''),
              ws_tasks = ids,
              ws_failures = map (\<lambda>(_, f). classification f @ '': '' @ fl_summary f)
                (filter (\<lambda>(i, _). i \<in> set ids) found)\<rparr>]\<rparr>
      in record_decision ''wave_completed''
           [(''wave_id'', PStr (active_wave_id m1)), (''tasks'', py_strs ids),
            (''failed'', py_strs failed), (''cancelled'', py_strs cancelled)] m1)"

section \<open>The run\<close>

text \<open>How one turn of the loop of \<open>run\<close> ends.\<close>

datatype turn = Again run_locals | Finished | Break bool string string | Raised orch_error

definition next_wave :: "run_locals \<Rightarrow> (task_spec list \<times> run_locals) option" where
  "next_wave l =
     (case rl_follow l of
        task # ts \<Rightarrow> Some ([task], l\<lparr>rl_follow := ts\<rparr>)
      | [] \<Rightarrow>
          (case rl_rest l of
             wave # rest \<Rightarrow> Some (wave, l\<lparr>rl_rest := rest\<rparr>)
           | [] \<Rightarrow> None))"

definition after_wave ::
    "task_spec list \<Rightarrow> (string \<times> agent_failure) list \<Rightarrow> run_locals \<Rightarrow> orchestrator \<Rightarrow> turn \<times> orchestrator" where
  "after_wave wave found l m =
     (case reconcile_tasks found wave [] l (summarize_wave wave found m) of
        (Stop mis kind reason, l1, m1) \<Rightarrow> (Break mis kind reason, m1)
      | (Staged staged, l1, m1) \<Rightarrow>
          if staged \<noteq> [] then
            (Again (l1\<lparr>rl_follow := rl_follow l1 @ staged\<rparr>),
             record_decision ''reconcile''
               [(''retries'', py_strs (map ts_id staged)),
                (''replaced'', py_strs (filter (is_replaced m1) (map ts_id staged)))] m1)
          else if rl_rest l1 = [] \<and> rl_follow l1 = [] then
            (case wf_transition COMPLETED m1 of
               (Inl e, m2) \<Rightarrow> (Raised e, m2)
             | (Inr _, m2) \<Rightarrow> (Finished, m2\<lparr>next_transition := ''COMPLETED''\<rparr>))
          else (Again l1, m1))"

definition run_turn :: "host \<Rightarrow> run_locals \<Rightarrow> orchestrator \<Rightarrow> turn \<times> orchestrator" where
  "run_turn h l m =
     (case next_wave l of
        None \<Rightarrow> (Finished, m)
      | Some (wave, l1) \<Rightarrow>
          (case ensure_dispatch_ready wave m of
             (Inl e, m1) \<Rightarrow> (Raised e, m1)
           | (Inr _, m1) \<Rightarrow>
          (case execute_wave h wave m1 of
             (Inl e, m2) \<Rightarrow> (Raised e, m2)
           | (Inr (output, timed_out), m2) \<Rightarrow>
          (case wf_transition COLLECTING m2 of
             (Inl e, m3) \<Rightarrow> (Raised e, m3)
           | (Inr _, m3) \<Rightarrow>
          (case collect_wave h wave output timed_out m3 of
             (Inl e, m4) \<Rightarrow> (Raised e, m4)
           | (Inr found, m4) \<Rightarrow> after_wave wave found l1 m4)))))"

definition build_report :: "string \<Rightarrow> orchestrator \<Rightarrow> orchestration_report" where
  "build_report status m =
     \<lparr>rp_run_id = o_run_id m, rp_status = status, rp_phases = phase_history m,
      rp_wave_summaries = o_summaries m, rp_decisions = decisions m, rp_contradictions = conflicts m,
      rp_failures = failures m, rp_evidence = evidence m, rp_telemetry = o_telemetry m,
      rp_next_transition = next_transition m\<rparr>"

fun run_loop ::
    "host \<Rightarrow> nat \<Rightarrow> run_locals \<Rightarrow> orchestrator \<Rightarrow> (orch_error + orchestration_report) \<times> orchestrator" where
  "run_loop h 0 l m = (Inl OutOfFuel, m)"
| "run_loop h (Suc n) l m =
     (case run_turn h l m of
        (Again l1, m1) \<Rightarrow> run_loop h n l1 m1
      | (Finished, m1) \<Rightarrow> (Inr (build_report ''COMPLETED'' m1), m1)
      | (Raised e, m1) \<Rightarrow> (Inl e, m1)
      | (Break mis kind reason, m1) \<Rightarrow>
          (case wf_transition BLOCKED
                  (m1\<lparr>next_transition := (if mis then ''HUMAN_REVIEW'' else ''BLOCKED'')\<rparr>) of
             (Inl e, m2) \<Rightarrow> (Inl e, m2)
           | (Inr _, m2) \<Rightarrow> (Inl (OrchestrationBlocked (build_report ''BLOCKED'' m2)), m2)))"

definition fresh_run :: "orchestrator \<Rightarrow> orchestrator" where
  "fresh_run m =
     (let (u, m1) = fresh_hex m
      in m1\<lparr>phase := IDLE, active_wave_id := [], pending_tasks := [], completed_tasks := [],
            task_dependencies := [], task_statuses := [], active_agents := [], completed_agents := [],
            agent_results := [], evidence := [], failures := [], conflicts := [], decisions := [],
            phase_history := [], next_transition := [],
            o_run_id := ''run-'' @ u, o_wave_seq := 0, o_summaries := [], o_run_counts := [],
            o_replaced := [], o_issued := [], o_telemetry := []\<rparr>)"

definition queue_task :: "task_spec \<Rightarrow> orchestrator \<Rightarrow> orchestrator" where
  "queue_task task m =
     m\<lparr>task_dependencies := AList.update (ts_id task) (depends_on task) (task_dependencies m),
       pending_tasks := pending_tasks m @ [ts_id task],
       task_statuses := AList.update (ts_id task) ''QUEUED'' (task_statuses m)\<rparr>"

fun wf_transitions :: "workflow_phase list \<Rightarrow> orchestrator \<Rightarrow> (orch_error + unit) \<times> orchestrator" where
  "wf_transitions [] m = (Inr (), m)"
| "wf_transitions (p # ps) m =
     (case wf_transition p m of (Inl e, m1) \<Rightarrow> (Inl e, m1) | (Inr _, m1) \<Rightarrow> wf_transitions ps m1)"

definition plan_waves :: "task_graph \<Rightarrow> orchestrator \<Rightarrow> graph_error + task_spec list list" where
  "plan_waves g m = waves g [] (Some (o_max_parallelism m))"

text \<open>A run needs at most \<open>run_fuel\<close> turns of its loop (\<open>orchestration_terminates\<close>).\<close>

definition run_fuel :: "task_spec list list \<Rightarrow> orchestrator \<Rightarrow> nat" where
  "run_fuel plan m =
     length plan + length (concat plan) * (nat (max_retries_per_task (o_retry m) + 1) + 1) + 1"

definition start_run :: "task_spec list list \<Rightarrow> orchestrator \<Rightarrow> (orch_error + unit) \<times> orchestrator" where
  "start_run plan m =
     wf_transitions [INSPECTING, PLANNING, DISPATCHING]
       (fold queue_task (concat plan)
         (record_decision ''wave_planned''
           [(''plan'', PList (map (PInt \<circ> int \<circ> length) plan)), (''run_id'', PStr (o_run_id m))] m))"

definition orchestrate ::
    "host \<Rightarrow> task_graph \<Rightarrow> orchestrator \<Rightarrow> (orch_error + orchestration_report) \<times> orchestrator" where
  "orchestrate h g m =
     (let m0 = fresh_run m
      in case plan_waves g m0 of
           Inl e \<Rightarrow> (Inl (PlanFailed e), m0)
         | Inr plan \<Rightarrow>
             (case start_run plan m0 of
                (Inl e, m1) \<Rightarrow> (Inl e, m1)
              | (Inr _, m1) \<Rightarrow>
                  run_loop h (run_fuel plan m1)
                    \<lparr>rl_follow = [], rl_rest = plan, rl_last = [], rl_consecutive = []\<rparr> m1))"
end
