(* ===== verification/Orchestration.thy ===== *)
theory Orchestration
  imports Orchestrator
begin

text \<open>
  What an orchestration run guarantees: the workflow lifecycle, the bounds of the retry policy
  and with them termination, the order in which tasks are dispatched, and what a report of
  status \<open>COMPLETED\<close> says about the tasks. The proofs follow one turn of the run's loop through
  an invariant of the ledger.
\<close>

section \<open>What the helpers leave alone\<close>

lemma clock_keeps [simp]:
  "phase (snd (read_clock m)) = phase m" "phase_history (snd (read_clock m)) = phase_history m"
  "task_statuses (snd (read_clock m)) = task_statuses m"
  "o_run_counts (snd (read_clock m)) = o_run_counts m" "o_replaced (snd (read_clock m)) = o_replaced m"
  "o_issued (snd (read_clock m)) = o_issued m" "o_retry (snd (read_clock m)) = o_retry m"
  "o_threshold (snd (read_clock m)) = o_threshold m" "conflicts (snd (read_clock m)) = conflicts m"
  by (simp_all add: read_clock_def case_prod_unfold Let_def)

lemma hex_keeps [simp]:
  "phase (snd (fresh_hex m)) = phase m" "phase_history (snd (fresh_hex m)) = phase_history m"
  "task_statuses (snd (fresh_hex m)) = task_statuses m"
  "o_run_counts (snd (fresh_hex m)) = o_run_counts m" "o_replaced (snd (fresh_hex m)) = o_replaced m"
  "o_issued (snd (fresh_hex m)) = o_issued m" "o_retry (snd (fresh_hex m)) = o_retry m"
  "o_threshold (snd (fresh_hex m)) = o_threshold m" "conflicts (snd (fresh_hex m)) = conflicts m"
  by (simp_all add: fresh_hex_def case_prod_unfold Let_def)

lemma decision_keeps [simp]:
  "phase (record_decision k d m) = phase m" "phase_history (record_decision k d m) = phase_history m"
  "task_statuses (record_decision k d m) = task_statuses m"
  "o_run_counts (record_decision k d m) = o_run_counts m"
  "o_replaced (record_decision k d m) = o_replaced m"
  "o_issued (record_decision k d m) = o_issued m" "o_retry (record_decision k d m) = o_retry m"
  "o_threshold (record_decision k d m) = o_threshold m"
  "conflicts (record_decision k d m) = conflicts m"
  by (simp_all add: record_decision_def case_prod_unfold Let_def)

lemma failure_keeps [simp]:
  "phase (snd (make_failure c s m)) = phase m" "phase_history (snd (make_failure c s m)) = phase_history m"
  "task_statuses (snd (make_failure c s m)) = task_statuses m"
  "o_run_counts (snd (make_failure c s m)) = o_run_counts m"
  "o_replaced (snd (make_failure c s m)) = o_replaced m"
  "o_issued (snd (make_failure c s m)) = o_issued m" "o_retry (snd (make_failure c s m)) = o_retry m"
  "o_threshold (snd (make_failure c s m)) = o_threshold m"
  "conflicts (snd (make_failure c s m)) = conflicts m"
  by (simp_all add: make_failure_def case_prod_unfold Let_def)

lemma mismatch_keeps [simp]:
  "phase (add_mismatch c i s m) = phase m" "phase_history (add_mismatch c i s m) = phase_history m"
  "task_statuses (add_mismatch c i s m) = task_statuses m"
  "o_run_counts (add_mismatch c i s m) = o_run_counts m"
  "o_replaced (add_mismatch c i s m) = o_replaced m"
  "o_issued (add_mismatch c i s m) = o_issued m" "o_retry (add_mismatch c i s m) = o_retry m"
  "o_threshold (add_mismatch c i s m) = o_threshold m"
  by (simp_all add: add_mismatch_def case_prod_unfold Let_def)

text \<open>The conflicts only grow.\<close>

definition stale_noted :: "string \<Rightarrow> orchestrator \<Rightarrow> bool" where
  "stale_noted i m \<longleftrightarrow> (\<exists>c \<in> set (conflicts m). cn_claim_id c = ''__stale_result__'' \<and> cn_refs c = [i])"

definition grows :: "orchestrator \<Rightarrow> orchestrator \<Rightarrow> bool" where
  "grows m m' \<longleftrightarrow> set (conflicts m) \<subseteq> set (conflicts m')"

lemma grows_refl [simp]: "grows m m"
  by (simp add: grows_def)

lemma grows_trans: "grows m m1 \<Longrightarrow> grows m1 m2 \<Longrightarrow> grows m m2"
  by (auto simp: grows_def)

lemma grows_stale: "grows m m' \<Longrightarrow> stale_noted i m \<Longrightarrow> stale_noted i m'"
  by (auto simp: grows_def stale_noted_def)

lemma conflicts_mismatch:
  "\<exists>c. cn_claim_id c = k \<and> cn_refs c = [i] \<and> conflicts (add_mismatch k i s m) = conflicts m @ [c]"
  by (simp add: add_mismatch_def case_prod_unfold Let_def)

section \<open>The workflow lifecycle\<close>

definition wf_move :: "workflow_phase \<Rightarrow> unit \<Rightarrow> orchestrator \<Rightarrow> orchestrator option" where
  "wf_move target u m = (case wf_transition target m of (Inl e, m1) \<Rightarrow> None | (Inr _, m1) \<Rightarrow> Some m1)"

lemma wf_move_eq:
  "wf_move t u m = (if t \<in> set (WORKFLOW_TRANSITIONS (phase m))
     then Some (m\<lparr>phase := t, phase_history := phase_history m @ [t]\<rparr>) else None)"
  by (simp add: wf_move_def wf_transition_def)

interpretation workflow: lifecycle WORKFLOW_TRANSITIONS phase phase_history wf_move
proof
  fix t u m m' assume "wf_move t u m = Some m'"
  then have "t \<in> set (WORKFLOW_TRANSITIONS (phase m))"
    and "m' = m\<lparr>phase := t, phase_history := phase_history m @ [t]\<rparr>"
    by (simp_all add: wf_move_eq split: if_splits)
  then show "t \<in> set (WORKFLOW_TRANSITIONS (phase m)) \<and> phase m' = t \<and> phase_history m' = phase_history m @ [t]"
    by simp
qed (simp add: wf_move_eq split: if_splits)

text \<open>The workflow has followed its table from \<open>IDLE\<close> to its current phase.\<close>

definition on_path :: "orchestrator \<Rightarrow> bool" where
  "on_path m \<longleftrightarrow> workflow.follows IDLE m"

lemma on_path_cong: "phase m' = phase m \<Longrightarrow> phase_history m' = phase_history m \<Longrightarrow> on_path m' = on_path m"
  by (simp add: on_path_def workflow.follows_def)

lemma on_path_transition:
  "on_path m \<Longrightarrow> t \<in> set (WORKFLOW_TRANSITIONS (phase m)) \<Longrightarrow>
    on_path (m\<lparr>phase := t, phase_history := phase_history m @ [t]\<rparr>)"
  using workflow.move_follows [of IDLE m t "()"] by (simp add: on_path_def wf_move_eq)

lemma wf_transition_legal:
  "t \<in> set (WORKFLOW_TRANSITIONS (phase m)) \<Longrightarrow>
    wf_transition t m = (Inr (), m\<lparr>phase := t, phase_history := phase_history m @ [t]\<rparr>)"
  by (simp add: wf_transition_def)

section \<open>Dispatching\<close>

text \<open>The parts of the ledger the bounds and the order of dispatch depend on.\<close>

definition same_tasks :: "orchestrator \<Rightarrow> orchestrator \<Rightarrow> bool" where
  "same_tasks m m' \<longleftrightarrow>
     task_statuses m' = task_statuses m \<and> o_run_counts m' = o_run_counts m \<and>
     o_replaced m' = o_replaced m \<and> o_retry m' = o_retry m \<and> o_threshold m' = o_threshold m"

lemma dispatch_ready:
  assumes "phase m \<in> {DISPATCHING, COLLECTING}"
  obtains m' where "ensure_dispatch_ready up m = (Inr (), m')" "phase m' = DISPATCHING"
    "same_tasks m m'" "conflicts m' = conflicts m" "on_path m \<longrightarrow> on_path m'"
proof -
  let ?r = "ensure_dispatch_ready up m"
  have "fst ?r = Inr () \<and> phase (snd ?r) = DISPATCHING \<and> same_tasks m (snd ?r) \<and>
      conflicts (snd ?r) = conflicts m \<and> (on_path m \<longrightarrow> on_path (snd ?r))"
    using assms
    by (elim insertE emptyE)
      (simp_all add: ensure_dispatch_ready_def wf_transition_legal same_tasks_def on_path_def workflow.follows_def)
  then show thesis using that by (metis surjective_pairing)
qed

lemma issue_task_keeps:
  "phase (snd (issue_task h w task sm)) = phase (snd sm)"
  "phase_history (snd (issue_task h w task sm)) = phase_history (snd sm)"
  "o_replaced (snd (issue_task h w task sm)) = o_replaced (snd sm)"
  "o_retry (snd (issue_task h w task sm)) = o_retry (snd sm)"
  "o_threshold (snd (issue_task h w task sm)) = o_threshold (snd sm)"
  "conflicts (snd (issue_task h w task sm)) = conflicts (snd sm)"
  "map_of (task_statuses (snd (issue_task h w task sm))) =
    (map_of (task_statuses (snd sm)))(ts_id task \<mapsto> ''RUNNING'')"
  "run_count (snd (issue_task h w task sm)) =
    (run_count (snd sm))(ts_id task := run_count (snd sm) (ts_id task) + 1)"
  by (simp_all add: issue_task_def case_prod_unfold Let_def run_count_def fun_eq_iff)

lemma issue_fold_keeps:
  "phase (snd (fold (issue_task h w) wave sm)) = phase (snd sm)"
  "phase_history (snd (fold (issue_task h w) wave sm)) = phase_history (snd sm)"
  "o_replaced (snd (fold (issue_task h w) wave sm)) = o_replaced (snd sm)"
  "o_retry (snd (fold (issue_task h w) wave sm)) = o_retry (snd sm)"
  "o_threshold (snd (fold (issue_task h w) wave sm)) = o_threshold (snd sm)"
  "conflicts (snd (fold (issue_task h w) wave sm)) = conflicts (snd sm)"
  by (induction wave arbitrary: sm) (simp_all add: issue_task_keeps)

lemma issue_fold_statuses:
  "map_of (task_statuses (snd (fold (issue_task h w) wave sm))) i =
    (if i \<in> ts_id ` set wave then Some ''RUNNING'' else map_of (task_statuses (snd sm)) i)"
  by (induction wave arbitrary: sm) (auto simp: issue_task_keeps)

lemma issue_fold_counts:
  "distinct (map ts_id wave) \<Longrightarrow>
    run_count (snd (fold (issue_task h w) wave sm)) i =
      run_count (snd sm) i + (if i \<in> ts_id ` set wave then 1 else 0)"
  by (induction wave arbitrary: sm) (auto simp: issue_task_keeps)

lemma last_wave_keeps [simp]:
  "phase (record_last_wave m) = phase m" "phase_history (record_last_wave m) = phase_history m"
  "task_statuses (record_last_wave m) = task_statuses m"
  "o_run_counts (record_last_wave m) = o_run_counts m" "o_replaced (record_last_wave m) = o_replaced m"
  "o_retry (record_last_wave m) = o_retry m" "o_threshold (record_last_wave m) = o_threshold m"
  "conflicts (record_last_wave m) = conflicts m"
  by (simp_all add: record_last_wave_def split: option.splits)

lemma run_count_cong [simp]:
  "run_count (record_decision k d m) = run_count m" "run_count (record_last_wave m) = run_count m"
  by (simp_all add: run_count_def fun_eq_iff)

lemma dispatch_issued_effect:
  assumes "phase m = EXECUTING"
  obtains out t m' where "dispatch_issued h wave wid seq specs m = (Inr (out, t), m')"
    "phase m' = EXECUTING" "phase_history m' = phase_history m" "conflicts m' = conflicts m"
    "same_tasks m m'"
proof -
  let ?r = "dispatch_issued h wave wid seq specs m"
  have "\<not> isl (fst ?r)"
    by (simp add: dispatch_issued_def case_prod_unfold Let_def split: option.splits sum.splits)
  then have "\<exists>out t. fst ?r = Inr (out, t)" by (cases "fst ?r") auto
  moreover have "phase (snd ?r) = EXECUTING \<and> phase_history (snd ?r) = phase_history m \<and>
      conflicts (snd ?r) = conflicts m \<and> same_tasks m (snd ?r)"
    using assms
    by (simp add: dispatch_issued_def same_tasks_def case_prod_unfold Let_def split: option.splits sum.splits)
  ultimately show thesis using that by (metis surjective_pairing)
qed

lemma execute_wave_split:
  obtains seq wid specs m2 where
    "(specs, m2) = fold (issue_task h wid) wave
      ([], m\<lparr>o_wave_seq := seq, active_wave_id := wid, o_issued := []\<rparr>)"
    "execute_wave h wave m = (case wf_transition EXECUTING m2 of
           (Inl e, m3) \<Rightarrow> (Inl e, m3)
         | (Inr _, m3) \<Rightarrow> dispatch_issued h wave wid seq specs m3)"
  by (simp add: execute_wave_def case_prod_unfold Let_def) (metis surjective_pairing)

lemma execute_wave_effect:
  assumes "phase m = DISPATCHING" "distinct (map ts_id wave)"
  obtains out t m' where "execute_wave h wave m = (Inr (out, t), m')" "phase m' = EXECUTING"
    "o_replaced m' = o_replaced m" "o_retry m' = o_retry m" "o_threshold m' = o_threshold m"
    "conflicts m' = conflicts m" "on_path m \<longrightarrow> on_path m'"
    "\<forall>i. map_of (task_statuses m') i =
       (if i \<in> ts_id ` set wave then Some ''RUNNING'' else map_of (task_statuses m) i)"
    "\<forall>i. run_count m' i = run_count m i + (if i \<in> ts_id ` set wave then 1 else 0)"
proof -
  let ?r = "execute_wave h wave m"
  obtain seq wid specs m2 where m2: "(specs, m2) = fold (issue_task h wid) wave
      ([], m\<lparr>o_wave_seq := seq, active_wave_id := wid, o_issued := []\<rparr>)"
    and run: "?r = (case wf_transition EXECUTING m2 of
           (Inl e, m3) \<Rightarrow> (Inl e, m3)
         | (Inr _, m3) \<Rightarrow> dispatch_issued h wave wid seq specs m3)"
    by (rule execute_wave_split)
  have keep: "phase m2 = DISPATCHING" "phase_history m2 = phase_history m" "o_replaced m2 = o_replaced m" "o_retry m2 = o_retry m"
    "o_threshold m2 = o_threshold m" "conflicts m2 = conflicts m"
    using assms(1) issue_fold_keeps [of h wid wave "([], m\<lparr>o_wave_seq := seq, active_wave_id := wid, o_issued := []\<rparr>)"]
    by (simp_all add: m2 [symmetric])
  have st: "map_of (task_statuses m2) i =
       (if i \<in> ts_id ` set wave then Some ''RUNNING'' else map_of (task_statuses m) i)" for i
    using issue_fold_statuses [of h wid wave "([], m\<lparr>o_wave_seq := seq, active_wave_id := wid, o_issued := []\<rparr>)" i]
    by (simp add: m2 [symmetric])
  have rc: "run_count m2 i = run_count m i + (if i \<in> ts_id ` set wave then 1 else 0)" for i
    using issue_fold_counts [OF assms(2), of h wid "([], m\<lparr>o_wave_seq := seq, active_wave_id := wid, o_issued := []\<rparr>)" i]
    by (simp add: m2 [symmetric] run_count_def)
  let ?m3 = "m2\<lparr>phase := EXECUTING, phase_history := phase_history m2 @ [EXECUTING]\<rparr>"
  have r: "?r = dispatch_issued h wave wid seq specs ?m3"
    using run keep(1) by (simp add: wf_transition_legal)
  obtain out t m' where d: "dispatch_issued h wave wid seq specs ?m3 = (Inr (out, t), m')"
    and k: "phase m' = EXECUTING" "phase_history m' = phase_history ?m3" "conflicts m' = conflicts ?m3"
      "same_tasks ?m3 m'"
    by (rule dispatch_issued_effect [of ?m3]) simp_all
  have "on_path m \<longrightarrow> on_path m2"
    using on_path_cong [of m2 m] keep(1,2) assms(1) by simp
  then have "on_path m \<longrightarrow> on_path ?m3" using on_path_transition [of m2 EXECUTING] keep(1) by simp
  then have op: "on_path m \<longrightarrow> on_path m'" using on_path_cong [of m' ?m3] k(1,2) by simp
  show thesis
    using that [of out t m'] r d k keep st rc op by (simp add: same_tasks_def run_count_def)
qed

section \<open>Collecting\<close>

text \<open>
  Nothing but the statuses of the tasks of \<open>ids\<close>, the results, the evidence, the failures and
  the conflicts changes.
\<close>

definition collects :: "string set \<Rightarrow> orchestrator \<Rightarrow> orchestrator \<Rightarrow> bool" where
  "collects ids m m' \<longleftrightarrow>
     phase m' = phase m \<and> phase_history m' = phase_history m \<and> o_run_counts m' = o_run_counts m \<and> o_replaced m' = o_replaced m \<and>
     o_retry m' = o_retry m \<and> o_threshold m' = o_threshold m \<and> o_issued m' = o_issued m \<and> grows m m' \<and>
     (\<forall>j. j \<notin> ids \<longrightarrow> map_of (task_statuses m') j = map_of (task_statuses m) j) \<and>
     (\<forall>j. map_of (task_statuses m') j = Some ''CANCELLED'' \<longrightarrow>
        map_of (task_statuses m) j = Some ''CANCELLED'' \<or> stale_noted j m')"

lemma collects_refl [simp]: "collects ids m m"
  by (simp add: collects_def)

lemma collects_trans: "collects ids m m1 \<Longrightarrow> collects ids m1 m2 \<Longrightarrow> collects ids m m2"
  unfolding collects_def using grows_trans [of m m1 m2] grows_stale [of m1 m2] by simp metis

lemma collects_mono: "collects ids m m1 \<Longrightarrow> ids \<subseteq> ids' \<Longrightarrow> collects ids' m m1"
  unfolding collects_def by blast

text \<open>How a task that was running is filed.\<close>

definition filed :: "string \<Rightarrow> bool \<Rightarrow> orchestrator \<Rightarrow> bool" where
  "filed i failed m \<longleftrightarrow>
     (if failed then map_of (task_statuses m) i = Some ''FAILED''
      else map_of (task_statuses m) i = Some ''SUCCEEDED'' \<or>
        (map_of (task_statuses m) i = Some ''CANCELLED'' \<and> stale_noted i m))"

lemma mark_succeeded_effect:
  "collects {i} m (snd (mark_succeeded fr i r m))"
  "map_of (task_statuses (snd (mark_succeeded fr i r m))) i = Some ''SUCCEEDED''"
  by (simp_all add: mark_succeeded_def evidence_from_def collects_def grows_def case_prod_unfold Let_def
      split: option.splits)

lemma mark_failed_effect:
  "collects {i} m (mark_failed i f (snd (make_failure c s m)))"
  "collects {i} m (mark_failed i f m)"
  "collects {i} m (mark_failed i f (snd (make_failure c s (add_mismatch k i t m))))"
  "map_of (task_statuses (mark_failed i f m)) i = Some ''FAILED''"
  using conflicts_mismatch [of k i t m]
  by (auto simp: mark_failed_def collects_def grows_def)

lemma collect_result_effect:
  "collects {i} m (snd (collect_result h i r m)) \<and>
   (\<forall>fo. fst (collect_result h i r m) = Inr fo \<longrightarrow>
      filed i (fo \<noteq> None) (snd (collect_result h i r m)))"
proof (cases "stale_result m i r")
  case True
  define m1 where "m1 = add_mismatch ''__stale_result__'' i
    (''result for task '' @ i @ '' carried task_id='' @ repr_str (rs_task_id r) @
               '' and assignment_id='' @ repr_str (rs_assignment_id r)) m"
  have r: "collect_result h i r m =
      (Inr None, m1\<lparr>task_statuses := AList.update i ''CANCELLED'' (task_statuses m1)\<rparr>)"
    using True unfolding m1_def by (simp add: collect_result_def Let_def)
  have k: "phase m1 = phase m" "phase_history m1 = phase_history m" "o_run_counts m1 = o_run_counts m"
    "o_replaced m1 = o_replaced m" "o_retry m1 = o_retry m" "o_threshold m1 = o_threshold m"
    "o_issued m1 = o_issued m" "task_statuses m1 = task_statuses m"
    by (simp_all add: m1_def)
  obtain c where c: "cn_claim_id c = ''__stale_result__''" "cn_refs c = [i]"
      "conflicts m1 = conflicts m @ [c]"
    using conflicts_mismatch unfolding m1_def by metis
  have "collects {i} m (m1\<lparr>task_statuses := AList.update i ''CANCELLED'' (task_statuses m1)\<rparr>)"
    using c k by (simp add: collects_def grows_def subset_insertI stale_noted_def)
  with r c show ?thesis by (simp add: filed_def stale_noted_def)
next
  case fresh: False
  show ?thesis
  proof (cases "status_str r = ''SUCCEEDED'' \<and> validate_result r = []")
    case True
    then have "collect_result h i r m = (case mark_succeeded (h_repr_float h) i r m of
        (Inl e, m1) \<Rightarrow> (Inl e, m1) | (Inr _, m1) \<Rightarrow> (Inr None, m1))"
      using fresh by (simp add: collect_result_def)
    then show ?thesis
      using mark_succeeded_effect
      by (cases "fst (mark_succeeded (h_repr_float h) i r m)") (simp_all add: filed_def case_prod_unfold)
  next
    case False
    show ?thesis
    proof (cases "status_str r = ''SUCCEEDED''")
      case True
      with False obtain issue rest where "validate_result r = issue # rest"
        by (cases "validate_result r") simp_all
      then show ?thesis using fresh True
        by (simp add: collect_result_def case_prod_unfold Let_def mark_failed_effect filed_def)
    next
      case unsuccessful: False
      then show ?thesis using fresh
        by (simp add: collect_result_def case_prod_unfold Let_def mark_failed_effect filed_def split: list.splits)
    qed
  qed
qed

lemma drop_pending_keeps [simp]:
  "task_statuses (drop_pending i m) = task_statuses m" "collects ids m (drop_pending i m)"
  by (simp_all add: drop_pending_def collects_def grows_def)

lemma collect_task_effect:
  "collects {i} m (snd (collect_task h t ob ef i m)) \<and>
   (map_of (task_statuses m) i = Some ''RUNNING'' \<longrightarrow>
      (\<forall>fo. fst (collect_task h t ob ef i m) = Inr fo \<longrightarrow>
        filed i (fo \<noteq> None) (snd (collect_task h t ob ef i m))))"
proof -
  let ?d = "drop_pending i m" and ?r = "collect_task h t ob ef i m"
  note dropped = collects_trans [OF drop_pending_keeps(2)]
  have made: ?thesis if "?r = (let (f, m1) = make_failure c s ?d in (Inr (Some f), mark_failed i f m1))" for c s
    using that dropped [OF mark_failed_effect(1)]
    by (simp add: filed_def mark_failed_effect(4) case_prod_unfold Let_def)
  show ?thesis
  proof (cases "map_of (task_statuses m) i \<notin> {Some ''QUEUED'', Some ''RUNNING''}")
    case True
    then have "?r = (Inr None, ?d)" by (simp add: collect_task_def Let_def)
    with True show ?thesis by simp
  next
    case False
    then have r: "?r = (if t then
           let (f, m1) = make_failure ''timeout'' ''wave exceeded per-agent timeout budget'' ?d
           in (Inr (Some f), mark_failed i f m1)
         else
           (case map_of ob i of
              None \<Rightarrow>
                (case map_of ef i of
                   Some f \<Rightarrow> (Inr (Some f), mark_failed i f ?d)
                 | None \<Rightarrow>
                     let (f, m1) = make_failure ''no_result'' ''no result produced for task'' ?d
                     in (Inr (Some f), mark_failed i f m1))
            | Some r \<Rightarrow> collect_result h i r ?d))"
      unfolding collect_task_def Let_def by (simp only: drop_pending_keeps(1) simp_thms if_False)
    show ?thesis
    proof (cases "t \<or> (map_of ob i = None \<and> map_of ef i = None)")
      case True
      then show ?thesis using r made by (cases t) simp_all
    next
      case notmade: False
      show ?thesis
      proof (cases "map_of ob i")
        case None
        with r notmade obtain f where "?r = (Inr (Some f), mark_failed i f ?d)" by auto
        then show ?thesis
          using dropped [OF mark_failed_effect(2)] by (simp add: filed_def mark_failed_effect(4))
      next
        case (Some a)
        with r notmade have "?r = collect_result h i a ?d" by simp
        then show ?thesis
          using dropped [OF conjunct1 [OF collect_result_effect]] conjunct2 [OF collect_result_effect]
          by simp
      qed
    qed
  qed
qed

lemma filed_other:
  assumes "collects ids m m'" "i \<notin> ids" "filed i b m"
  shows "filed i b m'"
proof -
  have "map_of (task_statuses m') i = map_of (task_statuses m) i" "grows m m'"
    using assms(1,2) by (simp_all add: collects_def)
  then show ?thesis using assms(3) grows_stale [of m m' i] by (cases b) (simp_all add: filed_def, blast)
qed

text \<open>The tasks collected so far have been filed as \<open>found\<close> says; the others still run.\<close>

lemma collect_tasks_effect:
  assumes "distinct is" "\<forall>i \<in> set is. map_of (task_statuses m) i = Some ''RUNNING''"
    and "\<forall>i \<in> set is. map_of found i = None"
  shows "collects (set is) m (snd (collect_tasks h t ob ef is found m)) \<and>
    (\<forall>found'. fst (collect_tasks h t ob ef is found m) = Inr found' \<longrightarrow>
      (\<forall>i \<in> set is. filed i (map_of found' i \<noteq> None) (snd (collect_tasks h t ob ef is found m))) \<and>
      (\<forall>i. i \<notin> set is \<longrightarrow> map_of found' i = map_of found i))"
  using assms
proof (induction "is" arbitrary: found m)
  case Nil
  then show ?case by simp
next
  case (Cons i "is")
  obtain r m1 where eq: "collect_task h t ob ef i m = (r, m1)" by (metis surj_pair)
  have step: "collects {i} m m1"
    and fl: "\<And>fo. r = Inr fo \<Longrightarrow> filed i (fo \<noteq> None) m1"
    using collect_task_effect [of i m h t ob ef] eq Cons.prems(2) by simp_all
  have run: "\<forall>j \<in> set is. map_of (task_statuses m1) j = Some ''RUNNING''"
    using step Cons.prems(1,2) unfolding collects_def by (metis distinct.simps(2) list.set_intros(2) singletonD)
  show ?case
  proof (cases r)
    case (Inl e)
    with eq show ?thesis using collects_mono [OF step] by simp
  next
    case (Inr fo)
    define found1 where "found1 = (case fo of None \<Rightarrow> found | Some f \<Rightarrow> AList.update i f found)"
    have fi: "map_of found1 i \<noteq> None \<longleftrightarrow> fo \<noteq> None" and fj: "\<And>j. j \<noteq> i \<Longrightarrow> map_of found1 j = map_of found j"
      using Cons.prems(3) by (simp_all add: found1_def split: option.splits)
    have eq2: "collect_tasks h t ob ef (i # is) found m = collect_tasks h t ob ef is found1 m1"
      using eq Inr by (simp add: found1_def split: option.splits)
    have none: "\<forall>j \<in> set is. map_of found1 j = None"
      using Cons.prems(1,3) fj by (metis distinct.simps(2) list.set_intros(2))
    from Cons.prems(1) have d: "distinct is" "i \<notin> set is" by simp_all
    note IH = Cons.IH [OF d(1) run none]
    let ?r = "collect_tasks h t ob ef is found1 m1"
    have all: "collects (insert i (set is)) m (snd ?r)"
      using collects_trans [OF collects_mono [OF step] collects_mono [OF conjunct1 [OF IH]]] by blast
    have "filed j (map_of found' j \<noteq> None) (snd ?r)"
      if "fst ?r = Inr found'" "j \<in> set (i # is)" for found' j
    proof (cases "j = i")
      case True
      have "map_of found' i = map_of found1 i" using IH that(1) d(2) by simp
      then show ?thesis using filed_other [OF conjunct1 [OF IH] d(2) fl [OF Inr]] fi True by simp
    next
      case False
      then show ?thesis using IH that by simp
    qed
    moreover have "map_of found' j = map_of found j" if "fst ?r = Inr found'" "j \<notin> set (i # is)" for found' j
      using IH that fj by simp
    ultimately show ?thesis using all unfolding eq2 by (simp del: collect_tasks.simps)
  qed
qed

lemma judge_group_collects: "collects {} m (judge_group g m) \<and> task_statuses (judge_group g m) = task_statuses m"
  by (simp add: judge_group_def collects_def grows_def case_prod_unfold Let_def subset_insertI split: list.splits)

lemma judge_fold_collects:
  "collects {} m (fold judge_group gs m) \<and> task_statuses (fold judge_group gs m) = task_statuses m"
  by (induction gs arbitrary: m) (simp_all, metis collects_trans judge_group_collects)

lemma detect_conflicts_collects:
  "collects {} m (snd (detect_conflicts h ids ob m))"
  using judge_fold_collects by (simp add: detect_conflicts_def split: option.splits)

lemma collect_wave_effect:
  assumes "distinct (map ts_id wave)"
    and "\<forall>i \<in> ts_id ` set wave. map_of (task_statuses m) i = Some ''RUNNING''"
  shows "collects (ts_id ` set wave) m (snd (collect_wave h wave out t m))"
    and "\<And>found. fst (collect_wave h wave out t m) = Inr found \<Longrightarrow>
      (\<forall>i. (i \<in> ts_id ` set wave \<longrightarrow> filed i (map_of found i \<noteq> None) (snd (collect_wave h wave out t m))) \<and>
           (i \<notin> ts_id ` set wave \<longrightarrow> map_of found i = None))"
proof -
  define ob where "ob = (case out of None \<Rightarrow> [] | Some res \<Rightarrow> wr_task_results res)"
  define ef where "ef = (case out of None \<Rightarrow> [] | Some res \<Rightarrow> wr_task_failures res)"
  let ?c = "collect_tasks h t ob ef (map ts_id wave) [] m"
  have c: "collects (ts_id ` set wave) m (snd ?c)"
    and f: "\<And>found. fst ?c = Inr found \<Longrightarrow>
      (\<forall>i \<in> ts_id ` set wave. filed i (map_of found i \<noteq> None) (snd ?c)) \<and>
      (\<forall>i. i \<notin> ts_id ` set wave \<longrightarrow> map_of found i = None)"
    using collect_tasks_effect [of "map ts_id wave" m "[]" h t ob ef] assms by simp_all
  have w: "collect_wave h wave out t m =
      (case ?c of (Inl e, m1) \<Rightarrow> (Inl e, m1)
       | (Inr found, m1) \<Rightarrow>
         (case detect_conflicts h (map ts_id wave) ob m1 of
            (Inl e, m2) \<Rightarrow> (Inl e, m2) | (Inr _, m2) \<Rightarrow> (Inr found, m2)))"
    unfolding collect_wave_def ob_def ef_def Let_def by (rule refl)
  show "collects (ts_id ` set wave) m (snd (collect_wave h wave out t m))"
    using c collects_trans [OF c collects_mono [OF detect_conflicts_collects]]
    by (simp add: w case_prod_unfold split: sum.splits)
  fix found assume a: "fst (collect_wave h wave out t m) = Inr found"
  then have fc: "fst ?c = Inr found"
    by (simp add: w case_prod_unfold split: sum.splits)
  have "snd (collect_wave h wave out t m) = snd (detect_conflicts h (map ts_id wave) ob (snd ?c))"
    using a fc by (simp add: w case_prod_unfold split: sum.splits)
  then show "\<forall>i. (i \<in> ts_id ` set wave \<longrightarrow> filed i (map_of found i \<noteq> None) (snd (collect_wave h wave out t m))) \<and>
           (i \<notin> ts_id ` set wave \<longrightarrow> map_of found i = None)"
    using f [OF fc] filed_other [OF detect_conflicts_collects] by (metis empty_iff)
qed

section \<open>Retrying and replacing\<close>

definition max_retries :: "orchestrator \<Rightarrow> int" where
  "max_retries m = max_retries_per_task (o_retry m)"

text \<open>The runs the policy grants a task, and the re-runs it may still grant.\<close>

definition run_bound :: "orchestrator \<Rightarrow> string \<Rightarrow> nat" where
  "run_bound m i = nat (max_retries m) + 1 + (if is_replaced m i then 1 else 0)"

definition credit :: "orchestrator \<Rightarrow> string \<Rightarrow> nat" where
  "credit m i = nat (max_retries m + 1 - int (run_count m i)) + (if is_replaced m i then 0 else 1)"

text \<open>A failed task is run again only against a credit: a retry left, or its one replacement.\<close>

definition granted :: "orchestrator \<Rightarrow> orchestrator \<Rightarrow> string \<Rightarrow> bool" where
  "granted m m' i \<longleftrightarrow> int (run_count m i) \<le> max_retries m \<or>
     (allow_replacement (o_retry m) \<and> \<not> is_replaced m i \<and> is_replaced m' i)"

definition reconciles :: "string set \<Rightarrow> orchestrator \<Rightarrow> orchestrator \<Rightarrow> bool" where
  "reconciles ids m m' \<longleftrightarrow>
     phase m' = phase m \<and> phase_history m' = phase_history m \<and> o_run_counts m' = o_run_counts m \<and>
     o_retry m' = o_retry m \<and> o_threshold m' = o_threshold m \<and> task_statuses m' = task_statuses m \<and>
     conflicts m' = conflicts m \<and>
     (\<forall>i. is_replaced m i \<longrightarrow> is_replaced m' i) \<and>
     (\<forall>i. is_replaced m' i \<longrightarrow> is_replaced m i \<or> (i \<in> ids \<and> allow_replacement (o_retry m)))"

lemma is_replaced_cong: "o_replaced m' = o_replaced m \<Longrightarrow> is_replaced m' = is_replaced m"
  by (simp add: is_replaced_def fun_eq_iff)

lemma reconciles_decision: "reconciles ids m (record_decision k d m)"
  by (simp add: reconciles_def is_replaced_def)

lemma reconciles_trans: "reconciles ids m m1 \<Longrightarrow> reconciles ids' m1 m2 \<Longrightarrow> reconciles (ids \<union> ids') m m2"
  unfolding reconciles_def by (metis Un_iff)

lemma decide_failure_effect:
  fixes m :: orchestrator
  assumes "decide_failure task f l m = (v, l1, m1)"
  shows "reconciles {ts_id task} m m1" "rl_follow l1 = rl_follow l" "rl_rest l1 = rl_rest l"
    "v = Staged again \<Longrightarrow> again = [task] \<and> granted m m1 (ts_id task)"
proof -
  have l1: "l1 = snd (note_signature (ts_id task) (failure_signature (o_retry m) f) l)"
    using assms by (simp add: decide_failure_def case_prod_unfold Let_def split: if_splits)
  then show "rl_follow l1 = rl_follow l" "rl_rest l1 = rl_rest l"
    by (simp_all add: note_signature_def Let_def)
  consider (stop) k d mis s reason where "m1 = record_decision k d m" "v = Stop mis s reason"
    | (retry) k d where "m1 = record_decision k d m" "v = Staged [task]"
        "int (run_count m (ts_id task)) \<le> max_retries m"
    | (replace) k d where
        "m1 = record_decision k d (m\<lparr>o_replaced := AList.update (ts_id task) 1 (o_replaced m)\<rparr>)"
        "v = Staged [task]" "allow_replacement (o_retry m)" "\<not> is_replaced m (ts_id task)"
    using assms
    by (simp add: decide_failure_def case_prod_unfold Let_def max_retries_def split: if_splits) metis+
  then have "reconciles {ts_id task} m m1 \<and> (v = Staged again \<longrightarrow> again = [task] \<and> granted m m1 (ts_id task))"
  proof cases
    case stop
    then show ?thesis by (simp add: reconciles_decision)
  next
    case retry
    then show ?thesis by (simp add: reconciles_decision granted_def)
  next
    case replace
    then show ?thesis by (simp add: reconciles_def granted_def is_replaced_def)
  qed
  then show "reconciles {ts_id task} m m1"
    and "v = Staged again \<Longrightarrow> again = [task] \<and> granted m m1 (ts_id task)" by blast+
qed

lemma granted_later:
  assumes "granted m m1 i" "reconciles ids m1 m2"
  shows "granted m m2 i"
  using assms unfolding granted_def reconciles_def by metis

lemma granted_earlier:
  assumes "granted m1 m2 i" "reconciles ids m m1" "i \<notin> ids"
  shows "granted m m2 i"
proof -
  have "run_count m1 i = run_count m i" "max_retries m1 = max_retries m" "o_retry m1 = o_retry m"
    "is_replaced m1 i = is_replaced m i"
    using assms(2,3) unfolding reconciles_def by (auto simp: run_count_def max_retries_def)
  with assms(1) show ?thesis by (simp add: granted_def)
qed

lemma reconcile_tasks_effect:
  fixes m :: orchestrator
  assumes "distinct (map ts_id wave)" "reconcile_tasks found wave staged l m = (v, l1, m1)"
  shows "reconciles (ts_id ` set wave) m m1 \<and> rl_follow l1 = rl_follow l \<and> rl_rest l1 = rl_rest l \<and>
    (\<forall>ts. v = Staged ts \<longrightarrow>
      ts = staged @ filter (\<lambda>t. map_of found (ts_id t) \<noteq> None) wave \<and>
      (\<forall>t \<in> set wave. map_of found (ts_id t) \<noteq> None \<longrightarrow> granted m m1 (ts_id t)))"
  using assms
proof (induction wave arbitrary: staged l m)
  case Nil
  then show ?case by (auto simp: reconciles_def)
next
  case (Cons task wave)
  show ?case
  proof (cases "map_of found (ts_id task)")
    case None
    with Cons.prems have "reconcile_tasks found wave staged l m = (v, l1, m1)" "distinct (map ts_id wave)"
      by simp_all
    from Cons.IH [OF this(2,1)] None show ?thesis by (auto simp: reconciles_def)
  next
    case (Some f)
    obtain v0 l0 m0 where d: "decide_failure task f l m = (v0, l0, m0)" by (metis surj_pair)
    note e = decide_failure_effect [OF d]
    show ?thesis
    proof (cases v0)
      case (Stop mis kind reason)
      with Cons.prems(2) Some d have "v = Stop mis kind reason" "l1 = l0" "m1 = m0" by simp_all
      with e(1-3) show ?thesis by (auto simp: reconciles_def)
    next
      case (Staged again)
      with e(4) have again: "again = [task]" "granted m m0 (ts_id task)" by blast+
      have step: "reconcile_tasks found wave (staged @ [task]) l0 m0 = (v, l1, m1)"
        using Cons.prems(2) Some d Staged again by simp
      have dw: "distinct (map ts_id wave)" using Cons.prems(1) by simp
      note IH = Cons.IH [OF dw step]
      have "reconciles (ts_id ` set (task # wave)) m m1"
        using reconciles_trans [OF e(1) conjunct1 [OF IH]] by simp
      moreover have "granted m m1 (ts_id task)"
        using granted_later [OF again(2) conjunct1 [OF IH]] by simp
      moreover have "granted m m1 (ts_id t)" if "t \<in> set wave" "granted m0 m1 (ts_id t)" for t
      proof -
        have "ts_id t \<noteq> ts_id task" using that(1) Cons.prems(1) by (metis distinct.simps(2) imageI list.simps(9) set_map)
        then show ?thesis using granted_earlier [OF that(2) e(1)] by simp
      qed
      ultimately show ?thesis using IH e(2,3) Some by simp
    qed
  qed
qed

section \<open>The invariant of the run\<close>

definition settled :: "orchestrator \<Rightarrow> string \<Rightarrow> bool" where
  "settled m i \<longleftrightarrow> map_of (task_statuses m) i \<in> {Some ''SUCCEEDED'', Some ''CANCELLED''}"

text \<open>What holds of the ledger at every moment of the loop and when the run ends, however it ends.\<close>

definition ledger_ok :: "retry_policy \<Rightarrow> task_spec list list \<Rightarrow> orchestrator \<Rightarrow> bool" where
  "ledger_ok R plan m \<longleftrightarrow>
     o_retry m = R \<and> on_path m \<and>
     (\<forall>i. run_count m i \<le> run_bound m i) \<and>
     (\<forall>i. is_replaced m i \<longrightarrow> allow_replacement R) \<and>
     (\<forall>i. map_of (task_statuses m) i = Some ''CANCELLED'' \<longrightarrow> stale_noted i m) \<and>
     (\<forall>t \<in> set (concat plan). 0 < run_count m (ts_id t) \<longrightarrow> (\<forall>d \<in> set (depends_on t). settled m d))"

lemma ledger_ok_cong:
  assumes "ledger_ok R plan m" "same_tasks m m'" "conflicts m' = conflicts m" "on_path m'"
  shows "ledger_ok R plan m'"
proof -
  have eq: "run_count m' = run_count m" "run_bound m' = run_bound m" "settled m' = settled m"
    "is_replaced m' = is_replaced m" "\<And>i. stale_noted i m' = stale_noted i m"
    "task_statuses m' = task_statuses m" "o_retry m' = o_retry m"
    using assms(2,3)
    by (simp_all add: same_tasks_def run_count_def run_bound_def max_retries_def settled_def is_replaced_def
        stale_noted_def fun_eq_iff)
  show ?thesis using assms(1,4) unfolding ledger_ok_def eq by blast
qed

text \<open>The wave \<open>wave\<close> has run once more, and nothing else has happened to the tasks.\<close>

definition ran :: "task_spec list \<Rightarrow> orchestrator \<Rightarrow> orchestrator \<Rightarrow> bool" where
  "ran wave m m' \<longleftrightarrow>
     phase m' = COLLECTING \<and> is_replaced m' = is_replaced m \<and> o_retry m' = o_retry m \<and>
     (\<forall>i. run_count m' i = run_count m i + (if i \<in> ts_id ` set wave then 1 else 0)) \<and>
     (\<forall>i. i \<notin> ts_id ` set wave \<longrightarrow> map_of (task_statuses m') i = map_of (task_statuses m) i)"

definition runnable :: "task_spec list list \<Rightarrow> task_spec list \<Rightarrow> orchestrator \<Rightarrow> bool" where
  "runnable plan wave m \<longleftrightarrow>
     set wave \<subseteq> set (concat plan) \<and> distinct (map ts_id wave) \<and>
     (\<forall>t \<in> set wave. \<not> settled m (ts_id t) \<and> run_count m (ts_id t) < run_bound m (ts_id t) \<and>
        (\<forall>d \<in> set (depends_on t). settled m d))"

lemma plan_inj:
  "distinct (map ts_id (concat plan)) \<Longrightarrow> t \<in> set (concat plan) \<Longrightarrow> u \<in> set (concat plan) \<Longrightarrow>
    ts_id t = ts_id u \<Longrightarrow> t = u"
  by (metis distinct_map inj_onD)

lemma wave_collected:
  assumes ok: "ledger_ok R plan m" and ph: "phase m \<in> {DISPATCHING, COLLECTING}"
    and dp: "distinct (map ts_id (concat plan))" and rn: "runnable plan wave m"
  obtains m1 out t m2 m3 r m4 where
    "ensure_dispatch_ready wave m = (Inr (), m1)" "execute_wave h wave m1 = (Inr (out, t), m2)"
    "wf_transition COLLECTING m2 = (Inr (), m3)" "collect_wave h wave out t m3 = (r, m4)"
    "ran wave m m4" "ledger_ok R plan m4"
    "\<And>found i. r = Inr found \<Longrightarrow>
       (i \<in> ts_id ` set wave \<longrightarrow> filed i (map_of found i \<noteq> None) m4) \<and>
       (i \<notin> ts_id ` set wave \<longrightarrow> map_of found i = None)"
proof -
  let ?W = "ts_id ` set wave"
  have dw: "distinct (map ts_id wave)" using rn by (simp add: runnable_def)
  obtain m1 where m1: "ensure_dispatch_ready wave m = (Inr (), m1)" "phase m1 = DISPATCHING"
    "same_tasks m m1" "conflicts m1 = conflicts m" "on_path m \<longrightarrow> on_path m1"
    by (rule dispatch_ready [OF ph])
  obtain out t m2 where m2: "execute_wave h wave m1 = (Inr (out, t), m2)" "phase m2 = EXECUTING"
    "o_replaced m2 = o_replaced m1" "o_retry m2 = o_retry m1" "o_threshold m2 = o_threshold m1"
    "conflicts m2 = conflicts m1" "on_path m1 \<longrightarrow> on_path m2"
    and st2: "\<forall>i. map_of (task_statuses m2) i = (if i \<in> ?W then Some ''RUNNING'' else map_of (task_statuses m1) i)"
    and rc2: "\<forall>i. run_count m2 i = run_count m1 i + (if i \<in> ?W then 1 else 0)"
    by (rule execute_wave_effect [OF m1(2) dw, of h])
  define m3 where "m3 = m2\<lparr>phase := COLLECTING, phase_history := phase_history m2 @ [COLLECTING]\<rparr>"
  have t3: "wf_transition COLLECTING m2 = (Inr (), m3)"
    unfolding m3_def using m2(2) by (intro wf_transition_legal) simp
  have p3: "on_path m3"
    using ok m1(5) m2(7) on_path_transition [of m2 COLLECTING] m2(2) by (simp add: m3_def ledger_ok_def)
  obtain r m4 where m4: "collect_wave h wave out t m3 = (r, m4)" by (metis surj_pair)
  have run3: "\<forall>i \<in> ?W. map_of (task_statuses m3) i = Some ''RUNNING''" by (simp add: m3_def st2)
  have c: "collects ?W m3 m4" using collect_wave_effect(1) [OF dw run3, of h out t] m4 by simp
  have fl: "(i \<in> ?W \<longrightarrow> filed i (map_of found i \<noteq> None) m4) \<and> (i \<notin> ?W \<longrightarrow> map_of found i = None)"
    if "r = Inr found" for found i
    using collect_wave_effect(2) [OF dw run3, of h out t found] m4 that by simp
  have rp: "is_replaced m4 = is_replaced m" "o_retry m4 = o_retry m" "phase m4 = COLLECTING"
    using c m2(3,4) m1(3) by (simp_all add: collects_def same_tasks_def m3_def is_replaced_def fun_eq_iff)
  have rc: "run_count m4 i = run_count m i + (if i \<in> ?W then 1 else 0)" for i
    using c rc2 m1(3) by (simp add: collects_def same_tasks_def m3_def run_count_def)
  have st: "map_of (task_statuses m4) i = map_of (task_statuses m) i" if "i \<notin> ?W" for i
    using c st2 m1(3) that by (simp add: collects_def same_tasks_def m3_def)
  have ran: "ran wave m m4" unfolding ran_def using rp rc st by blast
  have g: "grows m m4" using c m1(4) m2(6) by (simp add: collects_def grows_def m3_def)
  show thesis
  proof (rule that [OF m1(1) m2(1) t3 m4 ran _ fl])
    have b: "run_bound m4 = run_bound m"
      using rp by (simp add: run_bound_def max_retries_def fun_eq_iff)
    have "run_count m4 i \<le> run_bound m4 i" for i
    proof (cases "i \<in> ?W")
      case True
      with rn show ?thesis by (auto simp: rc b runnable_def Suc_le_eq)
    next
      case False
      then show ?thesis using ok by (simp add: rc b ledger_ok_def)
    qed
    moreover have "stale_noted i m4" if "map_of (task_statuses m4) i = Some ''CANCELLED''" for i
    proof (cases "i \<in> ?W")
      case True
      then show ?thesis using c that run3 by (auto simp: collects_def)
    next
      case False
      then show ?thesis using ok that st grows_stale [OF g] by (simp add: ledger_ok_def)
    qed
    moreover have "settled m4 d"
      if t: "t \<in> set (concat plan)" "0 < run_count m4 (ts_id t)" and d: "d \<in> set (depends_on t)" for t d
    proof -
      have "settled m d"
      proof (cases "ts_id t \<in> ?W")
        case True
        then obtain u where u: "u \<in> set wave" "ts_id t = ts_id u" by blast
        then have "u \<in> set (concat plan)" using rn unfolding runnable_def by blast
        then have "t \<in> set wave" using plan_inj [OF dp t(1)] u by simp
        then show ?thesis using rn d by (simp add: runnable_def)
      next
        case False
        then have "0 < run_count m (ts_id t)" using t(2) by (simp add: rc)
        with ok t(1) d show ?thesis unfolding ledger_ok_def by blast
      qed
      moreover from this have "d \<notin> ?W" using rn by (auto simp: runnable_def)
      ultimately show ?thesis by (simp add: settled_def st)
    qed
    moreover have "on_path m4" using c p3 on_path_cong [of m4 m3] by (simp add: collects_def)
    ultimately show "ledger_ok R plan m4" using ok rp unfolding ledger_ok_def by metis
  qed
qed

text \<open>The ledger does not change in a way the invariant sees when a wave is summarized or a failure judged.\<close>

lemma reconciles_ledger_ok:
  assumes "reconciles ids m m'" "ledger_ok R plan m"
  shows "ledger_ok R plan m'"
proof -
  have eq: "run_count m' = run_count m" "max_retries m' = max_retries m" "settled m' = settled m"
    "on_path m' = on_path m" "\<And>i. stale_noted i m' = stale_noted i m"
    using assms(1) on_path_cong [of m' m]
    by (simp_all add: reconciles_def run_count_def max_retries_def settled_def stale_noted_def fun_eq_iff)
  have le: "run_bound m i \<le> run_bound m' i" for i
    using assms(1) eq(2) by (simp add: run_bound_def reconciles_def)
  have "run_count m i \<le> run_bound m' i" for i
    using assms(2) le [of i] unfolding ledger_ok_def by (meson order_trans)
  moreover have "task_statuses m' = task_statuses m" "o_retry m' = o_retry m"
    "\<And>i. is_replaced m' i \<Longrightarrow> is_replaced m i \<or> allow_replacement (o_retry m)"
    using assms(1) unfolding reconciles_def by blast+
  ultimately show ?thesis using assms(2) unfolding ledger_ok_def eq by metis
qed

lemma summarize_wave_reconciles: "reconciles {} m (summarize_wave wave found m)"
  by (simp add: summarize_wave_def Let_def reconciles_def is_replaced_def)

definition after_ok :: "(string \<times> agent_failure) list \<Rightarrow> task_spec list \<Rightarrow> orchestrator \<Rightarrow> bool" where
  "after_ok found wave m \<longleftrightarrow>
     (\<forall>t \<in> set wave. if map_of found (ts_id t) \<noteq> None
        then map_of (task_statuses m) (ts_id t) = Some ''FAILED'' else settled m (ts_id t))"

lemma filed_after_ok:
  assumes "\<And>i. (i \<in> ts_id ` set wave \<longrightarrow> filed i (map_of found i \<noteq> None) m) \<and> (i \<notin> ts_id ` set wave \<longrightarrow> map_of found i = None)"
  shows "after_ok found wave m"
  unfolding after_ok_def
proof
  fix t assume "t \<in> set wave"
  then have "filed (ts_id t) (map_of found (ts_id t) \<noteq> None) m" using assms by blast
  then show "if map_of found (ts_id t) \<noteq> None
        then map_of (task_statuses m) (ts_id t) = Some ''FAILED'' else settled m (ts_id t)"
    by (cases "map_of found (ts_id t)") (auto simp: filed_def settled_def)
qed

lemma after_wave_effect:
  assumes dw: "distinct (map ts_id wave)" and ph: "phase m = COLLECTING"
    and r: "after_wave wave found l m = (v, m')"
  obtains
    (stop) mis kind reason where "v = Break mis kind reason" "reconciles (ts_id ` set wave) m m'"
        "\<exists>t \<in> set wave. map_of found (ts_id t) \<noteq> None"
  | (again) l' where "v = Again l'" "rl_rest l' \<noteq> [] \<or> rl_follow l' \<noteq> []"
        "reconciles (ts_id ` set wave) m m'" "rl_rest l' = rl_rest l"
        "rl_follow l' = rl_follow l @ filter (\<lambda>t. map_of found (ts_id t) \<noteq> None) wave"
        "\<forall>t \<in> set wave. map_of found (ts_id t) \<noteq> None \<longrightarrow> granted m m' (ts_id t)"
  | (finished) m1 where "v = Finished" "reconciles (ts_id ` set wave) m m1" "rl_rest l = []" "rl_follow l = []"
        "m' = m1\<lparr>phase := COMPLETED, phase_history := phase_history m1 @ [COMPLETED], next_transition := ''COMPLETED''\<rparr>"
        "\<forall>t \<in> set wave. map_of found (ts_id t) = None"
proof -
  obtain w l1 m1 where q: "reconcile_tasks found wave [] l (summarize_wave wave found m) = (w, l1, m1)"
    by (metis surj_pair)
  note e = reconcile_tasks_effect [OF dw q]
  have rec: "reconciles (ts_id ` set wave) m m1"
    using reconciles_trans [OF summarize_wave_reconciles conjunct1 [OF e]] by simp
  have later: "granted m m2 i" if "granted (summarize_wave wave found m) m2 i" for m2 i
    using granted_earlier [OF that summarize_wave_reconciles] by simp
  show thesis
  proof (cases w)
    case (Stop mis kind reason)
    have "\<exists>t \<in> set wave. map_of found (ts_id t) \<noteq> None"
    proof (rule ccontr)
      assume "\<not> ?thesis"
      then have "reconcile_tasks found wave [] l x = (Staged [], l, x)" for x
        by (induction wave) simp_all
      with q Stop show False by simp
    qed
    then show thesis using that(1) [of mis kind reason] r q Stop rec by (simp add: after_wave_def)
  next
    case (Staged staged)
    let ?f = "filter (\<lambda>t. map_of found (ts_id t) \<noteq> None) wave"
    have st: "staged = ?f" "\<forall>t \<in> set wave. map_of found (ts_id t) \<noteq> None \<longrightarrow> granted m m1 (ts_id t)"
      "rl_follow l1 = rl_follow l" "rl_rest l1 = rl_rest l"
      using e Staged later by simp_all
    consider "staged \<noteq> []" | "staged = []" "rl_rest l = [] \<and> rl_follow l = []"
      | "staged = []" "\<not> (rl_rest l = [] \<and> rl_follow l = [])" by blast
    then show thesis
    proof cases
      case 1
      let ?m2 = "record_decision ''reconcile''
               [(''retries'', py_strs (map ts_id staged)),
                (''replaced'', py_strs (filter (is_replaced m1) (map ts_id staged)))] m1"
      have v: "v = Again (l1\<lparr>rl_follow := rl_follow l1 @ staged\<rparr>)" "m' = ?m2"
        using r q Staged 1 by (simp_all add: after_wave_def)
      have m2: "reconciles (ts_id ` set wave) m ?m2"
        using reconciles_trans [OF rec reconciles_decision] by (metis Un_absorb)
      have "\<forall>t \<in> set wave. map_of found (ts_id t) \<noteq> None \<longrightarrow> granted m ?m2 (ts_id t)"
        using st(2) granted_later [OF _ reconciles_decision] by blast
      then show thesis using that(2) [OF v(1)] m2 st 1 unfolding v(2) by simp
    next
      case 2
      have "phase m1 = COLLECTING" using rec ph by (simp add: reconciles_def)
      then show thesis
        using that(3) [of m1] r q Staged 2 rec st by (simp add: after_wave_def wf_transition_legal filter_empty_conv)
    next
      case 3
      then have v: "v = Again l1" "m' = m1"
        using r q Staged st(3,4) by (auto simp: after_wave_def)
      then show thesis using that(2) [OF v(1)] rec st 3 by simp
    qed
  qed
qed

section \<open>One turn of the loop\<close>

definition run_inv :: "retry_policy \<Rightarrow> task_spec list list \<Rightarrow> run_locals \<Rightarrow> orchestrator \<Rightarrow> bool" where
  "run_inv R plan l m \<longleftrightarrow> ledger_ok R plan m \<and>
     (rl_rest l = [] \<and> rl_follow l = [] \<longrightarrow> plan = []) \<and>
     (\<exists>dn. plan = dn @ rl_rest l \<and>
        (phase m = COLLECTING \<or> (dn = [] \<and> phase m = DISPATCHING)) \<and>
        set (rl_follow l) \<subseteq> set (concat dn) \<and> distinct (map ts_id (rl_follow l)) \<and>
        (\<forall>t \<in> set (concat dn). t \<notin> set (rl_follow l) \<longrightarrow> settled m (ts_id t)) \<and>
        (\<forall>t \<in> set (concat (rl_rest l)).
           map_of (task_statuses m) (ts_id t) = Some ''QUEUED'' \<and> run_count m (ts_id t) = 0) \<and>
        (\<forall>t \<in> set (rl_follow l). \<not> settled m (ts_id t) \<and> run_count m (ts_id t) < run_bound m (ts_id t) \<and>
           (\<forall>d \<in> set (depends_on t). settled m d)))"

text \<open>The turns that are left: the waves to come, the re-runs staged and the re-runs still granted.\<close>

definition turns_left :: "task_spec list list \<Rightarrow> run_locals \<Rightarrow> orchestrator \<Rightarrow> nat" where
  "turns_left plan l m =
     length (rl_rest l) + length (rl_follow l) + (\<Sum>i \<in> ts_id ` set (concat plan). credit m i)"

lemma ordered_prefix:
  "ordered_after D (dn @ wave # rest) \<Longrightarrow> t \<in> set wave \<Longrightarrow> d \<in> set (depends_on t) \<Longrightarrow>
    d \<in> D \<or> d \<in> ts_id ` set (concat dn)"
  by auto

text \<open>The wave the loop takes up next can be run.\<close>

lemma next_wave_runnable:
  assumes inv: "run_inv R plan l m" and ord: "ordered_after {} plan"
    and dp: "distinct (map ts_id (concat plan))" and nw: "next_wave l = Some (wave, l1)"
  shows "runnable plan wave m"
    "\<exists>dn. plan = dn @ rl_rest l1 \<and> set wave \<subseteq> set (concat dn) \<and>
       set (rl_follow l1) \<subseteq> set (concat dn) \<and> distinct (map ts_id (wave @ rl_follow l1)) \<and>
       (\<forall>t \<in> set (concat dn). t \<notin> set wave \<union> set (rl_follow l1) \<longrightarrow> settled m (ts_id t))"
    "length (rl_rest l1) + length (rl_follow l1) + 1 = length (rl_rest l) + length (rl_follow l)"
    "set (concat (rl_rest l1)) \<subseteq> set (concat (rl_rest l))" "set (rl_follow l1) \<subseteq> set (rl_follow l)"
proof -
  obtain dn where dn: "plan = dn @ rl_rest l" "set (rl_follow l) \<subseteq> set (concat dn)"
    "distinct (map ts_id (rl_follow l))"
    and done_settled: "\<forall>t \<in> set (concat dn). t \<notin> set (rl_follow l) \<longrightarrow> settled m (ts_id t)"
    and rest: "\<forall>t \<in> set (concat (rl_rest l)).
           map_of (task_statuses m) (ts_id t) = Some ''QUEUED'' \<and> run_count m (ts_id t) = 0"
    and follow: "\<forall>t \<in> set (rl_follow l). \<not> settled m (ts_id t) \<and> run_count m (ts_id t) < run_bound m (ts_id t) \<and>
           (\<forall>d \<in> set (depends_on t). settled m d)"
    using inv unfolding run_inv_def by blast
  have "runnable plan wave m \<and>
    (\<exists>dn. plan = dn @ rl_rest l1 \<and> set wave \<subseteq> set (concat dn) \<and>
       set (rl_follow l1) \<subseteq> set (concat dn) \<and> distinct (map ts_id (wave @ rl_follow l1)) \<and>
       (\<forall>t \<in> set (concat dn). t \<notin> set wave \<union> set (rl_follow l1) \<longrightarrow> settled m (ts_id t))) \<and>
    length (rl_rest l1) + length (rl_follow l1) + 1 = length (rl_rest l) + length (rl_follow l) \<and>
    set (concat (rl_rest l1)) \<subseteq> set (concat (rl_rest l)) \<and> set (rl_follow l1) \<subseteq> set (rl_follow l)"
  proof (cases "rl_follow l")
    case (Cons task ts)
    then have w: "wave = [task]" "l1 = l\<lparr>rl_follow := ts\<rparr>" using nw by (simp_all add: next_wave_def)
    have "runnable plan wave m" using follow dn(1,2) Cons by (simp add: runnable_def w)
    moreover have "\<exists>dn. plan = dn @ rl_rest l1 \<and> set wave \<subseteq> set (concat dn) \<and>
       set (rl_follow l1) \<subseteq> set (concat dn) \<and> distinct (map ts_id (wave @ rl_follow l1)) \<and>
       (\<forall>t \<in> set (concat dn). t \<notin> set wave \<union> set (rl_follow l1) \<longrightarrow> settled m (ts_id t))"
      using dn done_settled Cons by (intro exI [of _ dn]) (simp add: w)
    ultimately show ?thesis using Cons by (simp add: w subset_insertI)
  next
    case Nil
    then obtain rest' where w: "rl_rest l = wave # rest'" "l1 = l\<lparr>rl_rest := rest'\<rparr>"
      using nw by (auto simp: next_wave_def split: list.splits)
    have dw: "distinct (map ts_id wave)" using dp by (simp add: dn(1) w)
    have "settled m d" if "t \<in> set wave" "d \<in> set (depends_on t)" for t d
    proof -
      have "d \<in> ts_id ` set (concat dn)" using ordered_prefix [of "{}" dn wave rest' t d] ord that by (simp add: dn(1) w)
      then show ?thesis using done_settled Nil by auto
    qed
    moreover have "run_count m (ts_id t) < run_bound m (ts_id t)" "\<not> settled m (ts_id t)" if "t \<in> set wave" for t
      using rest that by (simp_all add: w run_bound_def settled_def)
    ultimately have "runnable plan wave m" using dw by (auto simp: runnable_def dn(1) w)
    moreover have "\<exists>dn. plan = dn @ rl_rest l1 \<and> set wave \<subseteq> set (concat dn) \<and>
       set (rl_follow l1) \<subseteq> set (concat dn) \<and> distinct (map ts_id (wave @ rl_follow l1)) \<and>
       (\<forall>t \<in> set (concat dn). t \<notin> set wave \<union> set (rl_follow l1) \<longrightarrow> settled m (ts_id t))"
      using dn done_settled Nil dw by (intro exI [of _ "dn @ [wave]"]) (auto simp: w)
    ultimately show ?thesis using Nil by (simp add: w)
  qed
  then show "runnable plan wave m"
    "\<exists>dn. plan = dn @ rl_rest l1 \<and> set wave \<subseteq> set (concat dn) \<and>
       set (rl_follow l1) \<subseteq> set (concat dn) \<and> distinct (map ts_id (wave @ rl_follow l1)) \<and>
       (\<forall>t \<in> set (concat dn). t \<notin> set wave \<union> set (rl_follow l1) \<longrightarrow> settled m (ts_id t))"
    "length (rl_rest l1) + length (rl_follow l1) + 1 = length (rl_rest l) + length (rl_follow l)"
    "set (concat (rl_rest l1)) \<subseteq> set (concat (rl_rest l))" "set (rl_follow l1) \<subseteq> set (rl_follow l)"
    by blast+
qed

text \<open>The credits a turn spends pay for the re-runs it stages.\<close>

lemma credit_spent:
  assumes ran: "ran wave m m1" and rec: "reconciles (ts_id ` set wave) m1 m2"
    and gr: "\<forall>t \<in> set wave. P t \<longrightarrow> granted m1 m2 (ts_id t)"
    and dw: "distinct (map ts_id wave)" and sub: "set wave \<subseteq> set (concat plan)"
  shows "length (filter P wave) + (\<Sum>i \<in> ts_id ` set (concat plan). credit m2 i)
    \<le> (\<Sum>i \<in> ts_id ` set (concat plan). credit m i)"
proof -
  let ?I = "ts_id ` set (concat plan)" and ?S = "ts_id ` set (filter P wave)"
  have mono: "credit m2 i \<le> credit m i" for i
  proof -
    have "is_replaced m i \<longrightarrow> is_replaced m2 i" "max_retries m2 = max_retries m" "run_count m i \<le> run_count m2 i"
      using ran rec by (auto simp: ran_def reconciles_def max_retries_def run_count_def)
    then show ?thesis by (auto simp: credit_def)
  qed
  have spend: "credit m2 i + 1 \<le> credit m i" if i: "i \<in> ?S" for i
  proof -
    obtain t where t: "t \<in> set wave" "P t" "i = ts_id t" using i by auto
    have rc: "run_count m2 i = run_count m i + 1" "max_retries m2 = max_retries m"
      and rp: "is_replaced m1 = is_replaced m" "is_replaced m i \<longrightarrow> is_replaced m2 i"
      using ran rec t by (auto simp: ran_def reconciles_def max_retries_def run_count_def)
    have m1: "run_count m1 i = run_count m i + 1" "max_retries m1 = max_retries m"
      using ran t by (auto simp: ran_def max_retries_def)
    from gr t have "int (run_count m1 i) \<le> max_retries m1 \<or> (\<not> is_replaced m1 i \<and> is_replaced m2 i)"
      unfolding granted_def by blast
    then show ?thesis using rc rp unfolding credit_def m1 by auto
  qed
  have "length (filter P wave) = card ?S"
    using dw by (metis distinct_card distinct_filter distinct_map length_map list.set_map distinct_map_filter)
  also have "\<dots> = (\<Sum>i \<in> ?I. if i \<in> ?S then 1 else 0)"
  proof -
    have "?S \<subseteq> ?I" using sub by auto
    then have "?I \<inter> ?S = ?S" by blast
    then show ?thesis by (simp add: sum.If_cases)
  qed
  finally have "length (filter P wave) + (\<Sum>i \<in> ?I. credit m2 i) =
      (\<Sum>i \<in> ?I. (if i \<in> ?S then 1 else 0) + credit m2 i)"
    by (simp add: sum.distrib)
  also have "\<dots> \<le> (\<Sum>i \<in> ?I. credit m i)"
  proof (rule sum_mono)
    fix i show "(if i \<in> ?S then 1 else 0) + credit m2 i \<le> credit m i"
      using spend [of i] mono [of i] by simp
  qed
  finally show ?thesis .
qed

text \<open>The only exception of a collection is the \<open>TypeError\<close> of a claim list that cannot be iterated.\<close>

lemma collect_tasks_error:
  "fst (collect_tasks h t ob ef is found m) = Inl e \<Longrightarrow> e = TypeError"
proof (induction "is" arbitrary: found m)
  case (Cons i "is")
  have "fst (collect_task h t ob ef i m) = Inl e \<Longrightarrow> e = TypeError"
    by (simp add: collect_task_def collect_result_def mark_succeeded_def evidence_from_def case_prod_unfold Let_def
        split: option.splits list.splits if_splits sum.splits)
  with Cons show ?case by (auto simp: case_prod_unfold split: sum.splits option.splits)
qed simp

lemma collect_wave_error: "fst (collect_wave h wave out t m) = Inl e \<Longrightarrow> e = TypeError"
  using collect_tasks_error
  by (auto simp: collect_wave_def detect_conflicts_def case_prod_unfold Let_def split: sum.splits option.splits)

text \<open>A turn leaves the tasks outside its wave alone.\<close>

lemma turn_other:
  assumes "ran wave m m1" "reconciles (ts_id ` set wave) m1 m2" "i \<notin> ts_id ` set wave"
  shows "map_of (task_statuses m2) i = map_of (task_statuses m) i" "run_count m2 i = run_count m i"
    "settled m2 i = settled m i"
  using assms by (simp_all add: ran_def reconciles_def run_count_def settled_def)

lemma granted_bound:
  assumes "granted m1 m2 i" "run_count m1 i \<le> run_bound m1 i" "reconciles ids m1 m2"
  shows "run_count m2 i < run_bound m2 i"
proof -
  have "run_count m2 i = run_count m1 i" "max_retries m2 = max_retries m1" "is_replaced m1 i \<longrightarrow> is_replaced m2 i"
    using assms(3) by (auto simp: reconciles_def run_count_def max_retries_def)
  then show ?thesis using assms(1,2) by (auto simp: granted_def run_bound_def)
qed

text \<open>After a wave that is not the last, the invariant holds again.\<close>

lemma again_inv:
  assumes inv: "run_inv R plan l m" and ord: "ordered_after {} plan"
    and dp: "distinct (map ts_id (concat plan))" and nw: "next_wave l = Some (wave, l1)"
    and ran: "ran wave m m1" and ok: "ledger_ok R plan m1" and ao: "after_ok found wave m1"
    and rec: "reconciles (ts_id ` set wave) m1 m2"
    and ne: "rl_rest l' \<noteq> [] \<or> rl_follow l' \<noteq> []" and rest: "rl_rest l' = rl_rest l1"
    and fol: "rl_follow l' = rl_follow l1 @ filter (\<lambda>t. map_of found (ts_id t) \<noteq> None) wave"
    and gr: "\<forall>t \<in> set wave. map_of found (ts_id t) \<noteq> None \<longrightarrow> granted m1 m2 (ts_id t)"
  shows "run_inv R plan l' m2"
proof -
  note w = next_wave_runnable [OF inv ord dp nw]
  obtain dn where dn: "plan = dn @ rl_rest l1" "set wave \<subseteq> set (concat dn)"
       "set (rl_follow l1) \<subseteq> set (concat dn)" "distinct (map ts_id (wave @ rl_follow l1))"
    and dset: "\<forall>t \<in> set (concat dn). t \<notin> set wave \<union> set (rl_follow l1) \<longrightarrow> settled m (ts_id t)"
    using w(2) by blast
  have wp: "set wave \<subseteq> set (concat plan)" using w(1) by (simp add: runnable_def)
  have out: "ts_id t \<notin> ts_id ` set wave" if "t \<in> set (concat plan)" "t \<notin> set wave" for t
    using plan_inj [OF dp that(1)] that(2) wp by blast
  have dep: "settled m2 d" if "settled m d" for d
  proof -
    have "d \<notin> ts_id ` set wave" using that w(1) by (auto simp: runnable_def)
    then show ?thesis using turn_other(3) [OF ran rec] that by simp
  qed
  have st: "task_statuses m2 = task_statuses m1" "settled m2 = settled m1"
    using rec by (simp_all add: reconciles_def settled_def fun_eq_iff)
  have ok2: "ledger_ok R plan m2" by (rule reconciles_ledger_ok [OF rec ok])
  have phase2: "phase m2 = COLLECTING" using ran rec by (simp add: ran_def reconciles_def)
  have bound: "run_count m1 i \<le> run_bound m1 i" for i using ok unfolding ledger_ok_def by blast
  have 1: "set (rl_follow l') \<subseteq> set (concat dn)" using dn(2,3) by (auto simp: fol)
  have 2: "distinct (map ts_id (rl_follow l'))"
    using dn(4) by (auto simp: fol distinct_map_filter)
  have 3: "settled m2 (ts_id t)" if "t \<in> set (concat dn)" "t \<notin> set (rl_follow l')" for t
  proof (cases "t \<in> set wave")
    case True
    with that(2) have "map_of found (ts_id t) = None" by (auto simp: fol)
    with ao True show ?thesis by (simp add: after_ok_def st)
  next
    case False
    then have "settled m (ts_id t)" using dset that by (auto simp: fol)
    then show ?thesis by (rule dep)
  qed
  have 4: "map_of (task_statuses m2) (ts_id t) = Some ''QUEUED'' \<and> run_count m2 (ts_id t) = 0"
    if t: "t \<in> set (concat (rl_rest l'))" for t
  proof -
    have "t \<notin> set (concat dn)"
      using dp t by (auto simp: dn(1) rest)
    then have "t \<notin> set wave" using dn(2) by blast
    moreover have "t \<in> set (concat plan)" using t by (simp add: dn(1) rest)
    ultimately have o: "ts_id t \<notin> ts_id ` set wave" using out by blast
    have "t \<in> set (concat (rl_rest l))" using t w(4) rest by auto
    then have "map_of (task_statuses m) (ts_id t) = Some ''QUEUED'' \<and> run_count m (ts_id t) = 0"
      using inv unfolding run_inv_def by blast
    then show ?thesis using turn_other(1,2) [OF ran rec o] by simp
  qed
  have 5: "\<not> settled m2 (ts_id t) \<and> run_count m2 (ts_id t) < run_bound m2 (ts_id t) \<and>
           (\<forall>d \<in> set (depends_on t). settled m2 d)" if t: "t \<in> set (rl_follow l')" for t
  proof (cases "t \<in> set (rl_follow l1)")
    case True
    then have tl: "t \<in> set (rl_follow l)" using w(5) by blast
    have "t \<notin> set wave" using dn(4) True by auto
    moreover have "t \<in> set (concat plan)" using True dn(1,3) by auto
    ultimately have o: "ts_id t \<notin> ts_id ` set wave" using out by blast
    have le: "run_bound m (ts_id t) \<le> run_bound m2 (ts_id t)"
      using ran rec by (simp add: run_bound_def ran_def reconciles_def max_retries_def)
    have "\<not> settled m (ts_id t) \<and> run_count m (ts_id t) < run_bound m (ts_id t) \<and>
           (\<forall>d \<in> set (depends_on t). settled m d)"
      using inv tl unfolding run_inv_def by blast
    then show ?thesis using turn_other(2,3) [OF ran rec o] dep le by auto
  next
    case False
    then have tw: "t \<in> set wave" "map_of found (ts_id t) \<noteq> None" using t by (auto simp: fol)
    then have "map_of (task_statuses m2) (ts_id t) = Some ''FAILED''" using ao by (auto simp: after_ok_def st)
    moreover have "granted m1 m2 (ts_id t)" using gr tw by blast
    then have "run_count m2 (ts_id t) < run_bound m2 (ts_id t)" using granted_bound [OF _ bound rec] by blast
    moreover have "settled m2 d" if "d \<in> set (depends_on t)" for d
      using w(1) tw(1) that dep unfolding runnable_def by blast
    ultimately show ?thesis by (simp add: settled_def)
  qed
  show ?thesis
    unfolding run_inv_def
    using ok2 ne dn(1) phase2 1 2 3 4 5 rest by (intro conjI exI [of _ dn]) auto
qed

text \<open>One turn keeps the invariant and uses up a turn, or ends the run.\<close>

lemma turn_effect:
  assumes inv: "run_inv R plan l m" and ord: "ordered_after {} plan"
    and dp: "distinct (map ts_id (concat plan))" and r: "run_turn h l m = (v, m')"
  obtains
    (again) l' where "v = Again l'" "run_inv R plan l' m'" "turns_left plan l' m' < turns_left plan l m"
  | (finished) "v = Finished" "ledger_ok R plan m'" "\<forall>t \<in> set (concat plan). settled m' (ts_id t)"
      "plan \<noteq> [] \<longrightarrow> phase m' = COMPLETED"
  | (stop) mis kind reason where "v = Break mis kind reason" "ledger_ok R plan m'" "phase m' = COLLECTING"
      "\<exists>t \<in> set (concat plan). map_of (task_statuses m') (ts_id t) = Some ''FAILED''"
  | (raised) "v = turn.Raised TypeError" "ledger_ok R plan m'"
proof (cases "next_wave l")
  case None
  then have "rl_follow l = []" "rl_rest l = []" by (auto simp: next_wave_def split: list.splits)
  then have "plan = []" using inv by (simp add: run_inv_def)
  moreover have "v = Finished" "m' = m" using r None by (simp_all add: run_turn_def)
  ultimately show thesis using inv by (intro finished) (simp_all add: run_inv_def)
next
  case (Some wl)
  obtain wave l1 where nw: "next_wave l = Some (wave, l1)" using Some by (cases wl) simp
  note w = next_wave_runnable [OF inv ord dp nw]
  have ok: "ledger_ok R plan m" and ph: "phase m \<in> {DISPATCHING, COLLECTING}"
    using inv unfolding run_inv_def by blast+
  obtain m1 out t m2 m3 r4 m4 where steps: "ensure_dispatch_ready wave m = (Inr (), m1)"
      "execute_wave h wave m1 = (Inr (out, t), m2)" "wf_transition COLLECTING m2 = (Inr (), m3)"
      "collect_wave h wave out t m3 = (r4, m4)" and ran: "ran wave m m4" and ok4: "ledger_ok R plan m4"
    and fl: "\<And>found i. r4 = Inr found \<Longrightarrow>
       (i \<in> ts_id ` set wave \<longrightarrow> filed i (map_of found i \<noteq> None) m4) \<and>
       (i \<notin> ts_id ` set wave \<longrightarrow> map_of found i = None)"
    by (rule wave_collected [OF ok ph dp w(1), of h]) blast
  have vr: "(v, m') = (case r4 of Inl e \<Rightarrow> (turn.Raised e, m4) | Inr found \<Rightarrow> after_wave wave found l1 m4)"
    using r nw steps by (simp add: run_turn_def)
  have dw: "distinct (map ts_id wave)" and wp: "set wave \<subseteq> set (concat plan)"
    using w(1) by (simp_all add: runnable_def)
  have ph4: "phase m4 = COLLECTING" using ran by (simp add: ran_def)
  show thesis
  proof (cases r4)
    case (Inl e)
    then have "e = TypeError" using collect_wave_error [of h wave out t m3] steps(4) by simp
    then show thesis using raised vr Inl ok4 by simp
  next
    case (Inr found)
    have aw: "after_wave wave found l1 m4 = (v, m')" using vr Inr by simp
    have ao: "after_ok found wave m4" using fl [OF Inr] by (rule filed_after_ok)
    show thesis
      using dw ph4 aw
    proof (cases rule: after_wave_effect)
      case (stop mis kind reason)
      then obtain u where u: "u \<in> set wave" "map_of found (ts_id u) \<noteq> None" by blast
      have "map_of (task_statuses m') (ts_id u) = Some ''FAILED''"
        using ao u stop(2) by (auto simp: after_ok_def reconciles_def)
      moreover have "ledger_ok R plan m'" by (rule reconciles_ledger_ok [OF stop(2) ok4])
      moreover have "phase m' = COLLECTING" using stop(2) ph4 by (simp add: reconciles_def)
      ultimately show thesis using that(3) [OF stop(1)] u(1) wp by blast
    next
      case (again l')
      have "run_inv R plan l' m'"
        by (rule again_inv [OF inv ord dp nw ran ok4 ao again(3,2,4,5,6)])
      moreover have "turns_left plan l' m' < turns_left plan l m"
        using credit_spent [OF ran again(3,6) dw wp] w(3) again(4,5) by (simp add: turns_left_def)
      ultimately show thesis using that(1) [OF again(1)] by blast
    next
      case (finished n1)
      have okn: "ledger_ok R plan n1" by (rule reconciles_ledger_ok [OF finished(2) ok4])
      have pn: "phase n1 = COLLECTING" using finished(2) ph4 by (simp add: reconciles_def)
      have "on_path m'"
        using on_path_transition [of n1 COMPLETED] okn pn on_path_cong
        by (simp add: finished(5) ledger_ok_def on_path_def workflow.follows_def)
      then have okm: "ledger_ok R plan m'"
        by (intro ledger_ok_cong [OF okn]) (simp_all add: finished(5) same_tasks_def)
      obtain dn where dn: "plan = dn @ rl_rest l1"
        and dset: "\<forall>t \<in> set (concat dn). t \<notin> set wave \<union> set (rl_follow l1) \<longrightarrow> settled m (ts_id t)"
        using w(2) by blast
      have "settled m' (ts_id u)" if u: "u \<in> set (concat plan)" for u
      proof -
        have "settled n1 (ts_id u)"
        proof (cases "u \<in> set wave")
          case True
          then have "settled m4 (ts_id u)" using ao finished(6) by (auto simp: after_ok_def)
          then show ?thesis using finished(2) by (simp add: reconciles_def settled_def)
        next
          case False
          then have "ts_id u \<notin> ts_id ` set wave" using plan_inj [OF dp u] wp by blast
          moreover have "settled m (ts_id u)" using dset False u dn finished(3,4) by auto
          ultimately show ?thesis using turn_other(3) [OF ran finished(2)] by simp
        qed
        then show ?thesis by (simp add: finished(5) settled_def)
      qed
      then show thesis using that(2) [OF finished(1) okm] by (simp add: finished(5))
    qed
  qed
qed

section \<open>The whole run\<close>

definition outcome_ok :: "retry_policy \<Rightarrow> task_spec list list \<Rightarrow> (orch_error + orchestration_report) \<Rightarrow> orchestrator \<Rightarrow> bool" where
  "outcome_ok R plan r m \<longleftrightarrow> ledger_ok R plan m \<and>
     (case r of
        Inr rep \<Rightarrow> rep = build_report ''COMPLETED'' m \<and> (\<forall>t \<in> set (concat plan). settled m (ts_id t)) \<and>
          (plan \<noteq> [] \<longrightarrow> phase m = COMPLETED)
      | Inl (OrchestrationBlocked rep) \<Rightarrow> rep = build_report ''BLOCKED'' m \<and> phase m = BLOCKED \<and>
          next_transition m \<in> {''HUMAN_REVIEW'', ''BLOCKED''} \<and>
          (\<exists>t \<in> set (concat plan). map_of (task_statuses m) (ts_id t) = Some ''FAILED'')
      | Inl e \<Rightarrow> e = TypeError)"

lemma loop_effect:
  assumes "run_inv R plan l m" "ordered_after {} plan" "distinct (map ts_id (concat plan))"
    "turns_left plan l m < n" "run_loop h n l m = (r, m')"
  shows "outcome_ok R plan r m'"
  using assms(1,4,5)
proof (induction n arbitrary: l m)
  case (Suc n)
  obtain v m1 where t: "run_turn h l m = (v, m1)" by (metis surj_pair)
  show ?case
    using Suc.prems(1) assms(2,3) t
  proof (cases rule: turn_effect)
    case (again l')
    with Suc t show ?thesis by simp
  next
    case finished
    with Suc.prems(3) t show ?thesis by (auto simp: outcome_ok_def)
  next
    case (stop mis kind reason)
    define m2 where "m2 = m1\<lparr>next_transition := if mis then ''HUMAN_REVIEW'' else ''BLOCKED'',
      phase := BLOCKED, phase_history := phase_history m1 @ [BLOCKED]\<rparr>"
    have r: "r = Inl (OrchestrationBlocked (build_report ''BLOCKED'' m2))" "m' = m2"
      using Suc.prems(3) t stop(1,3) by (auto simp: wf_transition_legal m2_def)
    have "on_path m2"
      using on_path_transition [of m1 BLOCKED] stop(2,3)
      by (simp add: m2_def ledger_ok_def on_path_def workflow.follows_def)
    then have "ledger_ok R plan m2"
      by (intro ledger_ok_cong [OF stop(2)]) (simp_all add: m2_def same_tasks_def)
    with stop(4) show ?thesis by (simp add: outcome_ok_def r m2_def)
  next
    case raised
    with Suc.prems(3) t show ?thesis by (auto simp: outcome_ok_def)
  qed
qed simp

lemma queue_fold_keeps:
  "phase (fold queue_task ts m) = phase m" "phase_history (fold queue_task ts m) = phase_history m"
  "o_run_counts (fold queue_task ts m) = o_run_counts m" "o_replaced (fold queue_task ts m) = o_replaced m"
  "o_retry (fold queue_task ts m) = o_retry m" "conflicts (fold queue_task ts m) = conflicts m"
  "map_of (task_statuses (fold queue_task ts m)) i =
    (if i \<in> ts_id ` set ts then Some ''QUEUED'' else map_of (task_statuses m) i)"
  by (induction ts arbitrary: m) (simp_all add: queue_task_def)

lemma fresh_run_fields:
  "phase (fresh_run m) = IDLE" "phase_history (fresh_run m) = []" "o_run_counts (fresh_run m) = []"
  "o_replaced (fresh_run m) = []" "o_retry (fresh_run m) = o_retry m" "conflicts (fresh_run m) = []"
  "task_statuses (fresh_run m) = []"
  by (simp_all add: fresh_run_def case_prod_unfold Let_def)

lemma start_run_effect:
  assumes m0: "m0 = fresh_run m" and dp: "distinct (map ts_id (concat plan))"
  obtains m1 where "start_run plan m0 = (Inr (), m1)"
    "run_inv (o_retry m) plan \<lparr>rl_follow = [], rl_rest = plan, rl_last = [], rl_consecutive = []\<rparr> m1"
    "turns_left plan \<lparr>rl_follow = [], rl_rest = plan, rl_last = [], rl_consecutive = []\<rparr> m1 < run_fuel plan m1"
proof -
  define q where "q = fold queue_task (concat plan) (record_decision ''wave_planned''
           [(''plan'', PList (map (PInt \<circ> int \<circ> length) plan)), (''run_id'', PStr (o_run_id m0))] m0)"
  have q: "phase q = IDLE" "phase_history q = []" "o_run_counts q = []" "o_replaced q = []"
    "o_retry q = o_retry m" "conflicts q = []"
    "\<And>i. map_of (task_statuses q) i = (if i \<in> ts_id ` set (concat plan) then Some ''QUEUED'' else None)"
    using m0 by (simp_all add: q_def queue_fold_keeps fresh_run_fields del: set_concat)
  define m1 where "m1 = q\<lparr>phase := DISPATCHING, phase_history := [INSPECTING, PLANNING, DISPATCHING]\<rparr>"
  have s: "start_run plan m0 = (Inr (), m1)"
    by (simp add: start_run_def q_def [symmetric] wf_transition_legal q m1_def)
  have cnt: "run_count m1 i = 0" "\<not> is_replaced m1 i" for i
    by (simp_all add: m1_def run_count_def is_replaced_def q)
  have "on_path m1" by (simp add: on_path_def workflow.follows_def m1_def)
  then have ok: "ledger_ok (o_retry m) plan m1"
    by (simp add: ledger_ok_def cnt) (simp add: m1_def q)
  have inv: "run_inv (o_retry m) plan \<lparr>rl_follow = [], rl_rest = plan, rl_last = [], rl_consecutive = []\<rparr> m1"
    using ok by (simp add: run_inv_def cnt) (simp add: m1_def q, blast)
  have "(\<Sum>i \<in> ts_id ` set (concat plan). credit m1 i) =
      card (ts_id ` set (concat plan)) * (nat (max_retries_per_task (o_retry m1) + 1) + 1)"
    by (simp add: credit_def cnt max_retries_def)
  moreover have "card (ts_id ` set (concat plan)) = length (concat plan)"
    using dp by (metis distinct_card length_map list.set_map)
  ultimately have "turns_left plan \<lparr>rl_follow = [], rl_rest = plan, rl_last = [], rl_consecutive = []\<rparr> m1 < run_fuel plan m1"
    by (simp add: turns_left_def run_fuel_def)
  with s inv show thesis by (rule that)
qed

lemma orchestrate_effect:
  assumes wf: "wf_graph g" and r: "orchestrate h g m = (r, m')"
  obtains (planned) plan where "set (concat plan) = set (tasks g)" "plan = [] \<longleftrightarrow> g = []"
      "outcome_ok (o_retry m) plan r m'"
  | (refused) e where "r = Inl (PlanFailed e)" "m' = fresh_run m"
proof (cases "plan_waves g (fresh_run m)")
  case (Inl e)
  with r show thesis by (intro refused [of e]) (simp_all add: orchestrate_def Let_def)
next
  case (Inr plan)
  then have w: "waves g [] (Some (o_max_parallelism (fresh_run m))) = Inr plan" by (simp add: plan_waves_def)
  note s = waves_plan [OF wf w]
  obtain m1 where m1: "start_run plan (fresh_run m) = (Inr (), m1)"
    "run_inv (o_retry m) plan \<lparr>rl_follow = [], rl_rest = plan, rl_last = [], rl_consecutive = []\<rparr> m1"
    "turns_left plan \<lparr>rl_follow = [], rl_rest = plan, rl_last = [], rl_consecutive = []\<rparr> m1 < run_fuel plan m1"
    by (rule start_run_effect [OF refl s(1)])
  have "run_loop h (run_fuel plan m1) \<lparr>rl_follow = [], rl_rest = plan, rl_last = [], rl_consecutive = []\<rparr> m1 = (r, m')"
    using r Inr m1(1) by (simp add: orchestrate_def Let_def)
  from loop_effect [OF m1(2) s(3,1) m1(3) this] s(2,4) show thesis by (intro planned) simp_all
qed

section \<open>A concrete run\<close>

text \<open>
  Task b depends on task a. Every executor returns a success for the assignment it was issued,
  except that the executor of \<open>stale\<close> answers with the id of an older assignment.
\<close>

definition answer :: "string \<Rightarrow> string \<Rightarrow> agent_assignment \<Rightarrow> wave_event" where
  "answer stale i a = Finish i (Returned ((demo_result i)
     \<lparr>rs_assignment_id := if i = stale then ''run-old:a:0'' else as_id a\<rparr>)) 0 0 5"

definition demo_host :: "string \<Rightarrow> host" where
  "demo_host stale = \<lparr>h_events = (\<lambda>n rq specs. map (\<lambda>(i, a). answer stale i a) (rq_assignments rq)),
     h_decorate = id, h_context = as_context (demo_assignment ''a''), h_repr_float = (\<lambda>_. [])\<rparr>"

text \<open>A host on which no wave ever completes.\<close>

definition hung_host :: host where
  "hung_host = (demo_host [])\<lparr>h_events := (\<lambda>n rq specs. [])\<rparr>"

definition chain_graph :: task_graph where
  "chain_graph = map (\<lambda>task. (ts_id task, task))
     [demo_task ''a'' INDEPENDENT [], demo_task ''b'' DEPENDENT [''a'']]"

definition demo_orchestrator :: orchestrator where
  "demo_orchestrator = new_orchestrator 3 30
     \<lparr>max_retries_per_task = 1, allow_replacement = True, no_progress_threshold = 2,
      failure_signature = default_signature\<rparr> None demo_clock"

definition run_of :: "host \<Rightarrow> (orch_error + orchestration_report) \<times> orchestrator" where
  "run_of h = orchestrate h chain_graph demo_orchestrator"

lemma chain_graph_wf: "wf_graph chain_graph"
  by (simp add: wf_graph_def chain_graph_def demo_task_def)

lemma good_run: "\<not> isl (fst (run_of (demo_host [])))"
  by code_simp

lemma hung_run:
  "case fst (run_of hung_host) of Inl (OrchestrationBlocked rep) \<Rightarrow> True | _ \<Rightarrow> False"
  by code_simp

section \<open>Properties\<close>

text \<open>
  C15. Whatever the executors do, a run ends: it never runs out of turns and never attempts an
  illegal workflow transition. It returns a report, raises \<open>OrchestrationBlocked\<close>, or fails in
  planning or with the \<open>TypeError\<close> of a malformed claim list.
\<close>
theorem orchestration_terminates:
  assumes "wf_graph g"
  shows "fst (orchestrate h g m) \<in>
    range Inr \<union> Inl ` range OrchestrationBlocked \<union> Inl ` range PlanFailed \<union> {Inl TypeError}"
proof -
  obtain r m' where r: "orchestrate h g m = (r, m')" by (metis surj_pair)
  show ?thesis
    using assms r
  proof (cases rule: orchestrate_effect)
    case (planned plan)
    then show ?thesis
      unfolding r outcome_ok_def by (auto split: sum.splits orch_error.splits)
  next
    case refused
    then show ?thesis unfolding r by simp
  qed
qed

text \<open>
  C16. Retries are bounded: at the end of a run, however it ended, no task has been dispatched
  more often than once, plus the retries the policy allows, plus one replacement if it allows
  replacements.
\<close>
theorem dispatches_bounded:
  assumes "wf_graph g"
  shows "run_count (snd (orchestrate h g m)) i \<le>
    1 + nat (max_retries_per_task (o_retry m)) + (if allow_replacement (o_retry m) then 1 else 0)"
proof -
  obtain r m' where r: "orchestrate h g m = (r, m')" by (metis surj_pair)
  show ?thesis
    using assms r
  proof (cases rule: orchestrate_effect)
    case (planned plan)
    then have ok: "ledger_ok (o_retry m) plan m'" by (simp add: outcome_ok_def)
    then have "run_count m' i \<le> run_bound m' i" "o_retry m' = o_retry m"
      "is_replaced m' i \<longrightarrow> allow_replacement (o_retry m)" unfolding ledger_ok_def by blast+
    then show ?thesis unfolding r by (auto simp: run_bound_def max_retries_def split: if_splits)
  next
    case refused
    then show ?thesis unfolding r by (simp add: run_count_def fresh_run_fields)
  qed
qed

text \<open>
  C1. No task is dispatched before its dependencies: at the end of a run, however it ended,
  every dependency of every task that was dispatched has succeeded or was cancelled.
\<close>
theorem dependencies_settled_first:
  assumes "wf_graph g"
  shows "{t \<in> set (tasks g). run_count (snd (orchestrate h g m)) (ts_id t) > 0} \<subseteq>
    {t. set (depends_on t) \<subseteq> {d. settled (snd (orchestrate h g m)) d}}"
proof -
  obtain r m' where r: "orchestrate h g m = (r, m')" by (metis surj_pair)
  show ?thesis
    using assms r
  proof (cases rule: orchestrate_effect)
    case (planned plan)
    then have ok: "ledger_ok (o_retry m) plan m'" by (simp add: outcome_ok_def)
    then show ?thesis unfolding r ledger_ok_def planned(1) by auto
  next
    case refused
    then show ?thesis unfolding r by (simp add: run_count_def fresh_run_fields)
  qed
qed

text \<open>
  C18. What a returned report certifies: every task of the graph has succeeded, or was cancelled
  and the report carries the mismatch of its stale result; the phases of the report are a legal
  path of the workflow, which ends in \<open>COMPLETED\<close> unless there was no task to run.
\<close>
theorem completed_report_certifies:
  assumes "wf_graph g" "fst (orchestrate h g m) = Inr rep"
  shows "rp_status rep = ''COMPLETED'' \<and>
    (\<forall>t \<in> set (tasks g).
      map_of (task_statuses (snd (orchestrate h g m))) (ts_id t) = Some ''SUCCEEDED'' \<or>
      (map_of (task_statuses (snd (orchestrate h g m))) (ts_id t) = Some ''CANCELLED'' \<and>
       (\<exists>c \<in> set (rp_contradictions rep). cn_claim_id c = ''__stale_result__'' \<and> cn_refs c = [ts_id t]))) \<and>
    legal_path WORKFLOW_TRANSITIONS IDLE (rp_phases rep) \<and>
    (g = [] \<or> last (IDLE # rp_phases rep) = COMPLETED)"
proof -
  obtain m' where r: "orchestrate h g m = (Inr rep, m')" using assms(2) by (metis prod.collapse)
  show ?thesis
    using assms(1) r
  proof (cases rule: orchestrate_effect)
    case (planned plan)
    then have ok: "ledger_ok (o_retry m) plan m'" and rep: "rep = build_report ''COMPLETED'' m'"
      and all: "\<forall>t \<in> set (tasks g). settled m' (ts_id t)" and ph: "plan \<noteq> [] \<longrightarrow> phase m' = COMPLETED"
      by (simp_all add: outcome_ok_def del: set_concat)
    have "workflow.follows IDLE m'" using ok by (simp add: ledger_ok_def on_path_def)
    moreover have "stale_noted i m'" if "map_of (task_statuses m') i = Some ''CANCELLED''" for i
      using ok that by (simp add: ledger_ok_def)
    ultimately show ?thesis
      using all ph planned(2) unfolding r rep by (auto simp: build_report_def workflow.follows_def settled_def stale_noted_def)
  qed simp
qed

text \<open>
  A blocked run is never reported as a success: the report of \<open>OrchestrationBlocked\<close> says
  \<open>BLOCKED\<close>, hands over to \<open>BLOCKED\<close> or \<open>HUMAN_REVIEW\<close>, its phases are a legal path that ends
  in \<open>BLOCKED\<close>, and some task of the graph has failed.
\<close>
theorem blocked_report_certifies:
  assumes "wf_graph g" "fst (orchestrate h g m) = Inl (OrchestrationBlocked rep)"
  shows "rp_status rep = ''BLOCKED'' \<and> rp_next_transition rep \<in> {''BLOCKED'', ''HUMAN_REVIEW''} \<and>
    legal_path WORKFLOW_TRANSITIONS IDLE (rp_phases rep) \<and> last (IDLE # rp_phases rep) = BLOCKED \<and>
    (\<exists>t \<in> set (tasks g). map_of (task_statuses (snd (orchestrate h g m))) (ts_id t) = Some ''FAILED'')"
proof -
  obtain m' where r: "orchestrate h g m = (Inl (OrchestrationBlocked rep), m')"
    using assms(2) by (metis prod.collapse)
  show ?thesis
    using assms(1) r
  proof (cases rule: orchestrate_effect)
    case (planned plan)
    then have ok: "ledger_ok (o_retry m) plan m'" and rep: "rep = build_report ''BLOCKED'' m'"
      and f: "\<exists>t \<in> set (tasks g). map_of (task_statuses m') (ts_id t) = Some ''FAILED''"
      and ph: "phase m' = BLOCKED" "next_transition m' \<in> {''HUMAN_REVIEW'', ''BLOCKED''}"
      by (simp_all add: outcome_ok_def del: set_concat)
    have "workflow.follows IDLE m'" using ok by (simp add: ledger_ok_def on_path_def)
    with f ph show ?thesis unfolding r rep by (auto simp: build_report_def workflow.follows_def)
  qed simp
qed

text \<open>
  A stale result is neither retried nor does it block: in the run where the executor of task
  a answers for an older assignment, a is cancelled, the task b that depends on a is dispatched
  all the same, and the run is reported \<open>COMPLETED\<close> without a failure.
\<close>
theorem stale_result_is_completed:
  "case run_of (demo_host ''a'') of (r, m) \<Rightarrow>
     (case r of Inr rep \<Rightarrow> rp_status rep = ''COMPLETED'' \<and> rp_failures rep = [] | Inl _ \<Rightarrow> False) \<and>
     map_of (task_statuses m) ''a'' = Some ''CANCELLED'' \<and> map_of (task_statuses m) ''b'' = Some ''SUCCEEDED''"
  by code_simp

theorem orchestration_terminates_witness:
  "\<forall>h m. fst (orchestrate h chain_graph m) \<in>
    range Inr \<union> Inl ` range OrchestrationBlocked \<union> Inl ` range PlanFailed \<union> {Inl TypeError}"
  by (intro allI orchestration_terminates chain_graph_wf)

theorem dispatches_bounded_witness: "\<forall>i. run_count (snd (run_of hung_host)) i \<le> 3"
proof
  have "max_retries_per_task (o_retry demo_orchestrator) = 1"
    by (simp add: demo_orchestrator_def new_orchestrator_def)
  then show "run_count (snd (run_of hung_host)) i \<le> 3" for i
    using dispatches_bounded [OF chain_graph_wf, of hung_host demo_orchestrator i]
    unfolding run_of_def by (auto split: if_splits)
qed

theorem dependencies_settled_first_witness:
  "{t \<in> set (tasks chain_graph). run_count (snd (run_of (demo_host []))) (ts_id t) > 0} \<subseteq>
    {t. set (depends_on t) \<subseteq> {d. settled (snd (run_of (demo_host []))) d}}"
  unfolding run_of_def by (rule dependencies_settled_first [OF chain_graph_wf])

theorem completed_report_certifies_witness:
  "\<exists>rep. fst (run_of (demo_host [])) = Inr rep \<and> rp_status rep = ''COMPLETED'' \<and>
    last (IDLE # rp_phases rep) = COMPLETED"
proof -
  obtain rep where rep: "fst (run_of (demo_host [])) = Inr rep"
    using good_run by (cases "fst (run_of (demo_host []))") simp_all
  have "chain_graph \<noteq> []" by (simp add: chain_graph_def)
  then show ?thesis
    using completed_report_certifies [OF chain_graph_wf rep [unfolded run_of_def]] rep by blast
qed

theorem blocked_report_certifies_witness:
  "\<exists>rep. fst (run_of hung_host) = Inl (OrchestrationBlocked rep) \<and> rp_status rep = ''BLOCKED''"
proof -
  obtain rep where rep: "fst (run_of hung_host) = Inl (OrchestrationBlocked rep)"
    using hung_run by (auto split: sum.splits orch_error.splits)
  then show ?thesis
    using blocked_report_certifies [OF chain_graph_wf rep [unfolded run_of_def]] by blast
qed

end
