(* ===== verification/Tool_Gate.thy ===== *)
theory Tool_Gate
  imports Agents
begin

text \<open>
  \<open>packages/agent-runtime/src/smorx_runtime/toolgate.py\<close>: the decision, authorization and outcome
  types of a tool call, the protocol \<open>CapabilityGateway\<close> as a locale, and the enforcement double
  \<open>MemoryGateway\<close>, which is interpreted here. The policy-controlled gateway that replaces the
  double is interpreted in \<open>Control_Plane\<close>.
\<close>

section \<open>Types\<close>

datatype tool_decision = ALLOW | DENY | REQUIRE_REVIEW | BLOCK

record tool_authorization =
  ta_decision :: tool_decision
  ta_reasons :: "string list"
  ta_risk_level :: string

record tool_outcome =
  to_invocation_id :: string
  to_allowed :: bool
  to_decision :: tool_decision
  to_tool_name :: string
  to_result :: "(string \<times> pyval) list"
  to_classification :: string
  to_reviewed :: bool
  to_audit_ref :: string
  to_executed :: bool

section \<open>The gateway protocol\<close>

text \<open>
  A gateway authorizes and executes calls on its own state; a call may raise (\<open>Inl\<close>). The client
  relies on three promises: what is executed was allowed with decision \<open>ALLOW\<close>, an allowed call
  is one \<open>authorize\<close> would have allowed in the same state, and only tools within the
  assignment's allowed tools are ever allowed.
\<close>

locale capability_gateway =
  fixes authorize :: "agent_assignment \<Rightarrow> string \<Rightarrow> (string \<times> pyval) list \<Rightarrow> string \<Rightarrow> 'g \<Rightarrow>
        ('e + tool_authorization) \<times> 'g"
    and execute :: "agent_assignment \<Rightarrow> string \<Rightarrow> (string \<times> pyval) list \<Rightarrow> string \<Rightarrow> rat option \<Rightarrow> 'g \<Rightarrow>
        ('e + tool_outcome) \<times> 'g"
  assumes executed_allowed:
      "fst (execute a n args act t g) = Inr out \<Longrightarrow> to_executed out \<Longrightarrow> to_allowed out"
    and allowed_decision:
      "fst (execute a n args act t g) = Inr out \<Longrightarrow> to_allowed out \<Longrightarrow> to_decision out = ALLOW"
    and allowed_authorized:
      "fst (execute a n args act t g) = Inr out \<Longrightarrow> to_allowed out \<Longrightarrow>
       \<exists>auth. fst (authorize a n args act g) = Inr auth \<and> ta_decision auth = ALLOW"
    and authorized_within:
      "fst (authorize a n args act g) = Inr auth \<Longrightarrow> ta_decision auth = ALLOW \<Longrightarrow>
       assignment_allows_tool a n"
begin

text \<open>A session: one call after the other, each with what it returned.\<close>

fun session ::
    "(agent_assignment \<times> string \<times> (string \<times> pyval) list \<times> string \<times> rat option) list \<Rightarrow> 'g \<Rightarrow>
     ((agent_assignment \<times> string) \<times> ('e + tool_outcome)) list \<times> 'g" where
  "session [] g = ([], g)"
| "session ((a, n, args, act, t) # calls) g =
     (let (r, g1) = execute a n args act t g; (rs, g2) = session calls g1
      in (((a, n), r) # rs, g2))"

lemma executed_within:
  "fst (execute a n args act t g) = Inr out \<Longrightarrow> to_executed out \<Longrightarrow>
    assignment_allows_tool a n \<and> to_decision out = ALLOW"
  using executed_allowed allowed_decision allowed_authorized authorized_within by metis

lemma session_disciplined:
  "((a, n), Inr out) \<in> set (fst (session calls g)) \<Longrightarrow> to_executed out \<Longrightarrow>
    assignment_allows_tool a n \<and> to_decision out = ALLOW"
proof (induction calls arbitrary: g)
  case (Cons call calls)
  obtain a' n' args act t where c: "call = (a', n', args, act, t)" by (metis prod_cases5)
  show ?case
    using Cons executed_within [of a' n' args act t g out]
    by (auto simp: c case_prod_unfold Let_def)
qed simp

end

section \<open>The in-memory gateway\<close>

record memory_invocation =
  mi_action_id :: string
  mi_invocation_id :: string
  mi_tool_name :: string
  mi_allowed :: bool
  mi_executed :: bool
  mi_decision :: tool_decision
  mi_reason :: "string option"
  mi_argument_keys :: "string list option"

text \<open>
  The gateway is its invocation log and the host it reads; \<open>mg_isoformat\<close> is
  \<open>datetime.isoformat\<close> and \<open>mg_repr_capability\<close> the \<open>repr\<close> of the capability in the reason.
\<close>

record memory_gateway =
  mg_invocations :: "memory_invocation list"
  mg_world :: world
  mg_isoformat :: "int \<Rightarrow> string"
  mg_repr_capability :: "specialist \<Rightarrow> string"

definition memory_authorize ::
    "agent_assignment \<Rightarrow> string \<Rightarrow> (string \<times> pyval) list \<Rightarrow> string \<Rightarrow> memory_gateway \<Rightarrow>
     tool_authorization \<times> memory_gateway" where
  "memory_authorize a tool_name args action_id g =
     (if assignment_allows_tool a tool_name then
        (\<lparr>ta_decision = ALLOW,
          ta_reasons = [''tool '' @ repr_str tool_name @ '' allowed for capability '' @
            mg_repr_capability g (as_capability a)],
          ta_risk_level = ''low''\<rparr>, g)
      else
        (\<lparr>ta_decision = DENY,
          ta_reasons = [''tool '' @ repr_str tool_name @ '' not in allowed_tools for the assignment''],
          ta_risk_level = ''low''\<rparr>, g))"

definition sorted_keys :: "(string \<times> pyval) list \<Rightarrow> string list" where
  "sorted_keys args = sort (map fst args)"

definition memory_execute ::
    "agent_assignment \<Rightarrow> string \<Rightarrow> (string \<times> pyval) list \<Rightarrow> string \<Rightarrow> rat option \<Rightarrow> memory_gateway \<Rightarrow>
     tool_outcome \<times> memory_gateway" where
  "memory_execute a tool_name args action_id timeout g0 =
     (let (auth, g) = memory_authorize a tool_name args action_id g0;
          (invocation, w) = uuid4 (mg_world g)
      in if ta_decision auth \<noteq> ALLOW then
           (\<lparr>to_invocation_id = invocation, to_allowed = False, to_decision = ta_decision auth,
             to_tool_name = tool_name, to_result = [(''reason'', PStr ''tool not allowed'')],
             to_classification = [], to_reviewed = False, to_audit_ref = [], to_executed = False\<rparr>,
            g\<lparr>mg_world := w, mg_invocations := mg_invocations g @
              [\<lparr>mi_action_id = action_id, mi_invocation_id = invocation, mi_tool_name = tool_name,
                mi_allowed = False, mi_executed = False, mi_decision = ta_decision auth,
                mi_reason = Some (case ta_reasons auth of [] \<Rightarrow> ''denied'' | r # _ \<Rightarrow> r),
                mi_argument_keys = None\<rparr>]\<rparr>)
         else
           let (t, w') = now w
           in (\<lparr>to_invocation_id = invocation, to_allowed = True, to_decision = ALLOW,
                to_tool_name = tool_name,
                to_result = [(''tool_name'', PStr tool_name), (''status'', PStr ''SUCCEEDED''),
                  (''executed_at'', PStr (mg_isoformat g t)), (''arguments_summary'', py_strs (sorted_keys args))],
                to_classification = [], to_reviewed = False, to_audit_ref = [], to_executed = True\<rparr>,
               g\<lparr>mg_world := w', mg_invocations := mg_invocations g @
                 [\<lparr>mi_action_id = action_id, mi_invocation_id = invocation, mi_tool_name = tool_name,
                   mi_allowed = True, mi_executed = True, mi_decision = ta_decision auth,
                   mi_reason = None, mi_argument_keys = Some (sorted_keys args)\<rparr>]\<rparr>))"

text \<open>The double never raises: its calls seen as calls that might.\<close>

definition memory_authorize' ::
    "agent_assignment \<Rightarrow> string \<Rightarrow> (string \<times> pyval) list \<Rightarrow> string \<Rightarrow> memory_gateway \<Rightarrow>
     (unit + tool_authorization) \<times> memory_gateway" where
  "memory_authorize' a n args act g = map_prod Inr id (memory_authorize a n args act g)"

definition memory_execute' ::
    "agent_assignment \<Rightarrow> string \<Rightarrow> (string \<times> pyval) list \<Rightarrow> string \<Rightarrow> rat option \<Rightarrow> memory_gateway \<Rightarrow>
     (unit + tool_outcome) \<times> memory_gateway" where
  "memory_execute' a n args act t g = map_prod Inr id (memory_execute a n args act t g)"

interpretation memory: capability_gateway memory_authorize' memory_execute'
  by unfold_locales
    (auto simp: memory_authorize'_def memory_execute'_def memory_authorize_def memory_execute_def
      case_prod_unfold Let_def split: if_splits)

section \<open>Properties\<close>

text \<open>
  The in-memory gateway executes exactly the tools the assignment allows, and records every
  call: one record more than before, which says whether the tool was executed and carries the
  invocation id of the outcome.
\<close>
theorem memory_gateway_exact:
  "to_executed (fst (memory_execute a n args act t g)) = assignment_allows_tool a n \<and>
   (\<exists>r. mg_invocations (snd (memory_execute a n args act t g)) = mg_invocations g @ [r] \<and>
     mi_executed r = to_executed (fst (memory_execute a n args act t g)) \<and>
     mi_invocation_id r = to_invocation_id (fst (memory_execute a n args act t g)) \<and>
     mi_action_id r = act \<and> mi_tool_name r = n)"
  by (simp add: memory_execute_def memory_authorize_def case_prod_unfold Let_def)

end
