(* ===== verification/Policies.thy ===== *)
theory Policies
  imports Smorx_Prelude
begin

text \<open>
  \<open>packages/tools/src/smorx_tools/policies.py\<close>: risk levels, resource kinds, and the policy engine
  that resolves a context by the first matching rule, then by the risk defaults with the
  production promotion.
\<close>

section \<open>Model\<close>

datatype risk_level = LOW | MEDIUM | HIGH | CRITICAL

fun risk_value :: "risk_level \<Rightarrow> string" where
  "risk_value LOW = ''low''"
| "risk_value MEDIUM = ''medium''"
| "risk_value HIGH = ''high''"
| "risk_value CRITICAL = ''critical''"

text \<open>\<open>RiskLevel(text)\<close>; \<open>None\<close> is its \<open>ValueError\<close>.\<close>

definition parse_risk :: "string \<Rightarrow> risk_level option" where
  "parse_risk s = find (\<lambda>r. risk_value r = s) [LOW, MEDIUM, HIGH, CRITICAL]"

datatype policy_decision = Allow | Deny | RequireReview | Block

datatype resource_kind =
    R_TOOL | R_PATH | R_FILE | R_COMMAND | R_DATABASE | R_NETWORK | R_ENVIRONMENT | R_SANDBOX | R_SECRET

fun resource_value :: "resource_kind \<Rightarrow> string" where
  "resource_value R_TOOL = ''TOOL''"
| "resource_value R_PATH = ''PATH''"
| "resource_value R_FILE = ''FILE''"
| "resource_value R_COMMAND = ''COMMAND''"
| "resource_value R_DATABASE = ''DATABASE''"
| "resource_value R_NETWORK = ''NETWORK''"
| "resource_value R_ENVIRONMENT = ''ENVIRONMENT''"
| "resource_value R_SANDBOX = ''SANDBOX''"
| "resource_value R_SECRET = ''SECRET''"

fun DEFAULT_RISK_POLICY :: "risk_level \<Rightarrow> policy_decision" where
  "DEFAULT_RISK_POLICY LOW = Allow"
| "DEFAULT_RISK_POLICY MEDIUM = Allow"
| "DEFAULT_RISK_POLICY HIGH = RequireReview"
| "DEFAULT_RISK_POLICY CRITICAL = Block"

record policy_context =
  pc_environment :: string
  pc_agent_id :: string
  pc_task_id :: string
  pc_tool_name :: string
  pc_risk :: risk_level
  pc_resource :: resource_kind
  pc_resource_ref :: string
  pc_extra :: "(string \<times> pyval) list"

record policy_rule =
  pr_id :: string
  pr_decision :: policy_decision
  pr_resource :: resource_kind
  pr_tool_name :: string
  pr_environment :: string
  pr_reason :: string
  pr_predicate :: "policy_context \<Rightarrow> bool"

record policy_engine =
  pe_rules :: "policy_rule list"
  pe_defaults :: "(risk_level \<times> policy_decision) list"
  pe_production_requires_approval :: bool

definition new_engine ::
    "policy_rule list \<Rightarrow> (risk_level \<times> policy_decision) list option \<Rightarrow> bool \<Rightarrow> policy_engine" where
  "new_engine rules defaults production =
     \<lparr>pe_rules = rules,
      pe_defaults = (case defaults of Some d \<Rightarrow> d
        | None \<Rightarrow> map (\<lambda>r. (r, DEFAULT_RISK_POLICY r)) [LOW, MEDIUM, HIGH, CRITICAL]),
      pe_production_requires_approval = production\<rparr>"

definition rule_matches :: "policy_rule \<Rightarrow> policy_context \<Rightarrow> bool" where
  "rule_matches rule ctx =
     (if pr_environment rule \<noteq> [] \<and> pr_environment rule \<noteq> pc_environment ctx then False
      else if pr_tool_name rule \<noteq> [] then
        (if pr_tool_name rule \<noteq> pc_tool_name ctx then False else pr_predicate rule ctx)
      else if pr_resource rule \<noteq> pc_resource ctx then False
      else pr_predicate rule ctx)"

definition default_decision :: "policy_engine \<Rightarrow> policy_context \<Rightarrow> policy_decision" where
  "default_decision e ctx =
     (case map_of (pe_defaults e) (pc_risk ctx) of Some d \<Rightarrow> d | None \<Rightarrow> DEFAULT_RISK_POLICY (pc_risk ctx))"

fun evaluate_with_rules :: "policy_engine \<Rightarrow> policy_context \<Rightarrow> policy_rule list \<Rightarrow> policy_decision" where
  "evaluate_with_rules e ctx (rule # rules) =
     (if rule_matches rule ctx then pr_decision rule else evaluate_with_rules e ctx rules)"
| "evaluate_with_rules e ctx [] =
     (let decision = default_decision e ctx
      in if pe_production_requires_approval e \<and> pc_environment ctx = ''production'' \<and>
            decision = Allow \<and> pc_risk ctx \<in> {MEDIUM, HIGH}
         then RequireReview else decision)"

definition evaluate :: "policy_engine \<Rightarrow> policy_context \<Rightarrow> policy_decision" where
  "evaluate e ctx = evaluate_with_rules e ctx (pe_rules e)"

section \<open>First match\<close>

lemma evaluate_first_match:
  "rule_matches rule ctx \<Longrightarrow> \<forall>r \<in> set earlier. \<not> rule_matches r ctx \<Longrightarrow>
    evaluate_with_rules e ctx (earlier @ rule # later) = pr_decision rule"
  by (induction earlier) auto

lemma evaluate_no_match:
  "\<forall>r \<in> set rules. \<not> rule_matches r ctx \<Longrightarrow>
    evaluate_with_rules e ctx rules = evaluate_with_rules e ctx []"
  by (induction rules) auto

lemma evaluate_find:
  "evaluate_with_rules e ctx rules =
    (case find (\<lambda>r. rule_matches r ctx) rules of
       Some rule \<Rightarrow> pr_decision rule | None \<Rightarrow> evaluate_with_rules e ctx [])"
  by (induction rules) auto

lemma parse_risk_value [simp]: "parse_risk (risk_value r) = Some r"
  by (cases r) (simp_all add: parse_risk_def)

lemma engine_rules: "pe_rules (new_engine rules d p) = rules"
  by (simp add: new_engine_def)

lemma default_new_engine: "default_decision (new_engine rules None p) ctx = DEFAULT_RISK_POLICY (pc_risk ctx)"
  by (cases "pc_risk ctx") (simp_all add: default_decision_def new_engine_def)

section \<open>Properties\<close>

text \<open>
  With the default risk policy, nothing but an explicit rule lets a high-risk or critical
  operation through, in any environment, nor a medium-risk one in production when the promotion
  is on: if the engine allows such a context, the first rule that matches it is an allowing one.
\<close>
theorem risky_allow_needs_rule:
  assumes "evaluate (new_engine rules None True) ctx = Allow"
    and "pc_risk ctx \<in> {HIGH, CRITICAL} \<or> (pc_risk ctx = MEDIUM \<and> pc_environment ctx = ''production'')"
  shows "\<exists>rule earlier later. rules = earlier @ rule # later \<and> rule_matches rule ctx \<and>
    pr_decision rule = Allow \<and> (\<forall>r \<in> set earlier. \<not> rule_matches r ctx)"
proof (cases "find (\<lambda>r. rule_matches r ctx) rules")
  case None
  have "evaluate_with_rules (new_engine rules None True) ctx [] \<noteq> Allow"
    using assms(2) by (auto simp: default_new_engine Let_def) (simp add: new_engine_def)
  moreover have "evaluate (new_engine rules None True) ctx = evaluate_with_rules (new_engine rules None True) ctx []"
    using None by (simp add: evaluate_def evaluate_find [of _ ctx rules] engine_rules del: evaluate_with_rules.simps)
  ultimately show ?thesis using assms(1) by simp
next
  case (Some rule)
  then obtain i where i: "i < length rules" "rule_matches (rules ! i) ctx" "rule = rules ! i"
    "\<forall>j < i. \<not> rule_matches (rules ! j) ctx"
    by (auto simp: find_Some_iff)
  have "pr_decision rule = Allow"
    using assms(1) Some by (simp add: evaluate_def evaluate_find [of _ ctx rules] engine_rules)
  moreover have "rules = take i rules @ rule # drop (Suc i) rules" using i(1,3) by (simp add: id_take_nth_drop)
  moreover have "\<forall>r \<in> set (take i rules). \<not> rule_matches r ctx" using i(1,4) by (auto simp: in_set_conv_nth)
  ultimately show ?thesis using i(2,3) by blast
qed

definition demo_context :: policy_context where
  "demo_context = \<lparr>pc_environment = ''production'', pc_agent_id = ''a'', pc_task_id = ''t'',
     pc_tool_name = ''file.write'', pc_risk = HIGH, pc_resource = R_PATH, pc_resource_ref = [], pc_extra = []\<rparr>"

definition demo_rule :: policy_rule where
  "demo_rule = \<lparr>pr_id = ''r'', pr_decision = Allow, pr_resource = R_TOOL, pr_tool_name = ''file.write'',
     pr_environment = [], pr_reason = [], pr_predicate = (\<lambda>_. True)\<rparr>"

theorem risky_allow_needs_rule_witness:
  "\<exists>rule earlier later. [demo_rule] = earlier @ rule # later \<and> rule_matches rule demo_context \<and>
    pr_decision rule = Allow \<and> (\<forall>r \<in> set earlier. \<not> rule_matches r demo_context)"
  by (rule risky_allow_needs_rule)
    (simp_all add: evaluate_def new_engine_def rule_matches_def demo_rule_def demo_context_def)

end
