(* ===== verification/Human_Gate.thy ===== *)
theory Human_Gate
  imports Smorx_Prelude
begin

text \<open>
  \<open>packages/tools/src/smorx_tools/human.py\<close>: the human control plane. Its state is the control
  state and the approval requests in the order they were opened; the clock and \<open>uuid4\<close> come from
  the world. An approval is active while it is pending or approved; reading prunes it once it has
  expired.
\<close>

section \<open>Model\<close>

datatype control_state = RUNNING | PAUSED | APPROVAL_REQUIRED | ABORTED | COMPLETED

datatype approval_status = PENDING | APPROVED | DENIED | EXPIRED

record approval_request =
  ap_id :: string
  ap_requested_at :: int
  ap_action_id :: string
  ap_tool_name :: string
  ap_reason :: string
  ap_status :: approval_status
  ap_expires_at :: "int option"
  ap_decided_at :: "int option"
  ap_decided_by :: string

record human_plane =
  hp_default_expiry :: rat
  hp_state :: control_state
  hp_requests :: "approval_request list"

datatype approval_error = AbortedPlane | NotPending string approval_status | NoSuchApproval string

definition new_human :: "rat \<Rightarrow> human_plane" where
  "new_human expiry = \<lparr>hp_default_expiry = expiry, hp_state = RUNNING, hp_requests = []\<rparr>"

definition pause :: "human_plane \<Rightarrow> approval_error + human_plane" where
  "pause h = (if hp_state h = ABORTED then Inl AbortedPlane else Inr (h\<lparr>hp_state := PAUSED\<rparr>))"

definition resume :: "human_plane \<Rightarrow> approval_error + human_plane" where
  "resume h =
     (if hp_state h = ABORTED then Inl AbortedPlane
      else if hp_state h \<noteq> PAUSED then Inr h
      else Inr (h\<lparr>hp_state := RUNNING\<rparr>))"

definition abort :: "human_plane \<Rightarrow> human_plane" where
  "abort h = h\<lparr>hp_state := ABORTED\<rparr>"

definition is_paused :: "human_plane \<Rightarrow> bool" where
  "is_paused h \<longleftrightarrow> hp_state h = PAUSED"

definition can_execute :: "human_plane \<Rightarrow> bool" where
  "can_execute h \<longleftrightarrow> hp_state h = RUNNING"

definition request_approval ::
    "string \<Rightarrow> string \<Rightarrow> string \<Rightarrow> rat option \<Rightarrow> human_plane \<Rightarrow> world \<Rightarrow> approval_request \<times> human_plane \<times> world" where
  "request_approval action_id tool_name reason ttl_seconds h w =
     (let ttl = (case ttl_seconds of None \<Rightarrow> hp_default_expiry h | Some t \<Rightarrow> t);
          (requested_at, w1) = now w;
          (i, w2) = uuid4 w1;
          request = \<lparr>ap_id = i, ap_requested_at = requested_at, ap_action_id = action_id,
            ap_tool_name = tool_name, ap_reason = reason, ap_status = PENDING,
            ap_expires_at = Some (requested_at + timedelta_us ttl), ap_decided_at = None, ap_decided_by = []\<rparr>
      in (request, h\<lparr>hp_requests := hp_requests h @ [request]\<rparr>, w2))"

definition expire :: "int \<Rightarrow> approval_request \<Rightarrow> approval_request" where
  "expire t r =
     (if ap_status r \<in> {PENDING, APPROVED} \<and> (case ap_expires_at r of None \<Rightarrow> False | Some e \<Rightarrow> e \<le> t)
      then r\<lparr>ap_status := EXPIRED\<rparr> else r)"

definition prune :: "human_plane \<Rightarrow> world \<Rightarrow> human_plane \<times> world" where
  "prune h w = (let (t, w') = now w in (h\<lparr>hp_requests := map (expire t) (hp_requests h)\<rparr>, w'))"

definition approval_for ::
    "string \<Rightarrow> string \<Rightarrow> human_plane \<Rightarrow> world \<Rightarrow> approval_request option \<times> human_plane \<times> world" where
  "approval_for action_id tool_name h w =
     (let (h', w') = prune h w;
          matching = filter (\<lambda>r. ap_action_id r = action_id \<and> ap_tool_name r = tool_name) (hp_requests h')
      in (if matching = [] then None else Some (last matching), h', w'))"

definition pending_approvals :: "human_plane \<Rightarrow> world \<Rightarrow> approval_request list \<times> human_plane \<times> world" where
  "pending_approvals h w =
     (let (h', w') = prune h w in (filter (\<lambda>r. ap_status r = PENDING) (hp_requests h'), h', w'))"

text \<open>The loop of \<open>_decide\<close>: the first request with the id; the clock is read only to decide it.\<close>

fun decide_in ::
    "string \<Rightarrow> approval_status \<Rightarrow> string \<Rightarrow> approval_request list \<Rightarrow> world \<Rightarrow>
     (approval_error + approval_request list) \<times> world" where
  "decide_in i status who [] w = (Inl (NoSuchApproval i), w)"
| "decide_in i status who (r # rs) w =
     (if ap_id r \<noteq> i then
        (case decide_in i status who rs w of
           (Inl e, w') \<Rightarrow> (Inl e, w') | (Inr rs', w') \<Rightarrow> (Inr (r # rs'), w'))
      else if ap_status r \<noteq> PENDING then (Inl (NotPending i (ap_status r)), w)
      else
        let (t, w') = now w
        in (Inr (r\<lparr>ap_status := status, ap_decided_at := Some t, ap_decided_by := who\<rparr> # rs), w'))"

definition decide ::
    "string \<Rightarrow> approval_status \<Rightarrow> string \<Rightarrow> human_plane \<Rightarrow> world \<Rightarrow> (approval_error + human_plane) \<times> world" where
  "decide i status who h w =
     (case decide_in i status who (hp_requests h) w of
        (Inl e, w') \<Rightarrow> (Inl e, w') | (Inr rs, w') \<Rightarrow> (Inr (h\<lparr>hp_requests := rs\<rparr>), w'))"

definition approve :: "string \<Rightarrow> string \<Rightarrow> human_plane \<Rightarrow> world \<Rightarrow> (approval_error + human_plane) \<times> world" where
  "approve i who h w = decide i APPROVED who h w"

definition deny :: "string \<Rightarrow> string \<Rightarrow> human_plane \<Rightarrow> world \<Rightarrow> (approval_error + human_plane) \<times> world" where
  "deny i who h w = decide i DENIED who h w"

definition is_approved_for :: "string \<Rightarrow> string \<Rightarrow> human_plane \<Rightarrow> world \<Rightarrow> bool \<times> human_plane \<times> world" where
  "is_approved_for action_id tool_name h w =
     (let (r, h', w') = approval_for action_id tool_name h w
      in ((case r of None \<Rightarrow> False | Some a \<Rightarrow> ap_status a = APPROVED), h', w'))"

section \<open>Histories\<close>

text \<open>Everything that can happen to a plane; a call that raises leaves it as it was.\<close>

datatype human_op =
    Pause | Resume | Abort
  | Request string string string "rat option"
  | Approve string string
  | Refuse string string
  | Query string string
  | Pending

fun human_step :: "human_plane \<times> world \<Rightarrow> human_op \<Rightarrow> human_plane \<times> world" where
  "human_step (h, w) Pause = (case pause h of Inl _ \<Rightarrow> (h, w) | Inr h' \<Rightarrow> (h', w))"
| "human_step (h, w) Resume = (case resume h of Inl _ \<Rightarrow> (h, w) | Inr h' \<Rightarrow> (h', w))"
| "human_step (h, w) Abort = (abort h, w)"
| "human_step (h, w) (Request a n r ttl) = snd (request_approval a n r ttl h w)"
| "human_step (h, w) (Approve i b) = (case approve i b h w of (Inl _, w') \<Rightarrow> (h, w') | (Inr h', w') \<Rightarrow> (h', w'))"
| "human_step (h, w) (Refuse i b) = (case deny i b h w of (Inl _, w') \<Rightarrow> (h, w') | (Inr h', w') \<Rightarrow> (h', w'))"
| "human_step (h, w) (Query a n) = snd (approval_for a n h w)"
| "human_step (h, w) Pending = snd (pending_approvals h w)"

definition human_run :: "human_op list \<Rightarrow> human_plane \<times> world \<Rightarrow> human_plane \<times> world" where
  "human_run ops hw = foldl human_step hw ops"

text \<open>
  A request is accounted for by a history: it was opened by a \<open>Request\<close> for its action and tool,
  and if it is approved, an \<open>Approve\<close> by the recorded person approved its id.
\<close>

definition accounted :: "human_op list \<Rightarrow> approval_request \<Rightarrow> bool" where
  "accounted ops r \<longleftrightarrow>
     (\<exists>reason ttl. Request (ap_action_id r) (ap_tool_name r) reason ttl \<in> set ops) \<and>
     (ap_status r = APPROVED \<longrightarrow> Approve (ap_id r) (ap_decided_by r) \<in> set ops)"

lemma accounted_mono: "accounted ops r \<Longrightarrow> set ops \<subseteq> set ops' \<Longrightarrow> accounted ops' r"
  unfolding accounted_def by blast

lemma accounted_expire: "accounted ops r \<Longrightarrow> accounted ops (expire t r)"
  by (simp add: accounted_def expire_def)

lemma decide_in_requests:
  "decide_in i status b rs w = (Inr rs', w') \<Longrightarrow> r' \<in> set rs' \<Longrightarrow>
    r' \<in> set rs \<or> (\<exists>r t. r \<in> set rs \<and> ap_id r = i \<and> ap_status r = PENDING \<and>
      r' = r\<lparr>ap_status := status, ap_decided_at := Some t, ap_decided_by := b\<rparr>)"
proof (induction rs arbitrary: rs' w)
  case (Cons r rs)
  show ?case
  proof (cases "ap_id r = i")
    case True
    with Cons.prems have "ap_status r = PENDING" and
      "rs' = r\<lparr>ap_status := status, ap_decided_at := Some (fst (now w)), ap_decided_by := b\<rparr> # rs"
      by (simp_all add: case_prod_unfold Let_def split: if_splits)
    with Cons.prems(2) True show ?thesis by auto
  next
    case False
    with Cons.prems(1) obtain rs1 where "decide_in i status b rs w = (Inr rs1, w')" "rs' = r # rs1"
      by (auto split: prod.splits sum.splits)
    with Cons.IH Cons.prems(2) show ?thesis by fastforce
  qed
qed simp

lemma decide_accounted:
  assumes "\<forall>r \<in> set (hp_requests h). accounted ops r" "decide i status b h w = (Inr h', w')"
    and "status = APPROVED \<Longrightarrow> Approve i b \<in> set ops"
  shows "\<forall>r \<in> set (hp_requests h'). accounted ops r"
proof
  fix r' assume r': "r' \<in> set (hp_requests h')"
  obtain rs w1 where d: "decide_in i status b (hp_requests h) w = (Inr rs, w1)" "h' = h\<lparr>hp_requests := rs\<rparr>"
    using assms(2) by (auto simp: decide_def split: prod.splits sum.splits)
  then have "r' \<in> set rs" using r' by simp
  from decide_in_requests [OF d(1) this] assms(1,3) show "accounted ops r'"
    by (auto simp: accounted_def)
qed

lemma human_step_accounted:
  assumes "\<forall>r \<in> set (hp_requests h). accounted ops r" "human_step (h, w) op = (h', w')"
  shows "\<forall>r \<in> set (hp_requests h'). accounted (ops @ [op]) r"
proof -
  have old: "\<forall>r \<in> set (hp_requests h). accounted (ops @ [op]) r"
  proof
    fix r assume "r \<in> set (hp_requests h)"
    with assms(1) have "accounted ops r" by blast
    then show "accounted (ops @ [op]) r" by (rule accounted_mono) auto
  qed
  show ?thesis
  proof (cases op)
    case (Request a n reason ttl)
    with assms(2) obtain i t where "hp_requests h' = hp_requests h @
      [\<lparr>ap_id = i, ap_requested_at = t, ap_action_id = a, ap_tool_name = n, ap_reason = reason,
        ap_status = PENDING,
        ap_expires_at = Some (t + timedelta_us (case ttl of None \<Rightarrow> hp_default_expiry h | Some x \<Rightarrow> x)),
        ap_decided_at = None, ap_decided_by = []\<rparr>]"
      by (auto simp: request_approval_def case_prod_unfold Let_def)
    with old Request show ?thesis by (auto simp: accounted_def)
  next
    case (Approve i b)
    show ?thesis
    proof (cases "approve i b h w")
      case (Pair r w1)
      show ?thesis
      proof (cases r)
        case (Inl e)
        with assms(2) Approve Pair old show ?thesis by simp
      next
        case (Inr h1)
        with assms(2) Approve Pair have "h' = h1" by simp
        moreover have "decide i APPROVED b h w = (Inr h1, w1)" using Pair Inr by (simp add: approve_def)
        from decide_accounted [OF old this] have "\<forall>r \<in> set (hp_requests h1). accounted (ops @ [op]) r"
          by (simp add: Approve)
        ultimately show ?thesis by simp
      qed
    qed
  next
    case (Refuse i b)
    show ?thesis
    proof (cases "deny i b h w")
      case (Pair r w1)
      show ?thesis
      proof (cases r)
        case (Inl e)
        with assms(2) Refuse Pair old show ?thesis by simp
      next
        case (Inr h1)
        with assms(2) Refuse Pair have "h' = h1" by simp
        moreover have "decide i DENIED b h w = (Inr h1, w1)" using Pair Inr by (simp add: deny_def)
        from decide_accounted [OF old this] have "\<forall>r \<in> set (hp_requests h1). accounted (ops @ [op]) r"
          by simp
        ultimately show ?thesis by simp
      qed
    qed
  qed (use assms(2) old in \<open>auto simp: pause_def resume_def abort_def approval_for_def pending_approvals_def
      prune_def case_prod_unfold Let_def accounted_expire split: if_splits\<close>)
qed

lemma human_run_accounted:
  "human_run ops (new_human e, w) = (h, w') \<Longrightarrow> \<forall>r \<in> set (hp_requests h). accounted ops r"
proof (induction ops arbitrary: h w' rule: rev_induct)
  case Nil
  then show ?case by (auto simp: human_run_def new_human_def)
next
  case (snoc op ops)
  obtain h1 w1 where r: "human_run ops (new_human e, w) = (h1, w1)" by (metis surj_pair)
  with snoc.prems have "human_step (h1, w1) op = (h, w')" by (simp add: human_run_def)
  from human_step_accounted [OF snoc.IH [OF r] this] show ?case .
qed

lemma approval_for_Some:
  assumes "approval_for a n h w = (Some r, h', w')"
  obtains r0 where "r0 \<in> set (hp_requests h)" "r = expire (fst (now w)) r0" "ap_action_id r = a" "ap_tool_name r = n"
proof -
  let ?m = "filter (\<lambda>r. ap_action_id r = a \<and> ap_tool_name r = n) (map (expire (fst (now w))) (hp_requests h))"
  have "r = last ?m" "?m \<noteq> []"
    using assms by (auto simp: approval_for_def prune_def case_prod_unfold Let_def split: if_splits)
  then have "r \<in> set ?m" using last_in_set by metis
  then show thesis using that by auto
qed

lemma aborted_stays: "hp_state h = ABORTED \<Longrightarrow> hp_state (fst (human_step (h, w) op)) = ABORTED"
  by (cases op)
    (simp_all add: pause_def resume_def abort_def request_approval_def approval_for_def pending_approvals_def
      prune_def approve_def deny_def decide_def case_prod_unfold Let_def split: sum.splits prod.splits)

section \<open>Properties\<close>

text \<open>
  After any history of a new plane, an approval that \<open>approval_for\<close> returns as \<open>APPROVED\<close> is for
  that action and tool, was requested and then approved by the person it names, and has not
  expired at the instant of the query.
\<close>
theorem approvals_are_granted:
  assumes "human_run ops (new_human e, w) = (h, w1)"
    and "approval_for a n h w1 = (Some r, h', w2)" "ap_status r = APPROVED"
  shows "(\<exists>reason ttl. Request a n reason ttl \<in> set ops) \<and> Approve (ap_id r) (ap_decided_by r) \<in> set ops \<and>
    (\<forall>x. ap_expires_at r = Some x \<longrightarrow> fst (now w1) < x)"
proof -
  obtain r0 where r0: "r0 \<in> set (hp_requests h)" "r = expire (fst (now w1)) r0" "ap_action_id r = a" "ap_tool_name r = n"
    by (rule approval_for_Some [OF assms(2)])
  have "accounted ops r" using human_run_accounted [OF assms(1)] r0(1,2) accounted_expire by blast
  moreover have "\<forall>x. ap_expires_at r = Some x \<longrightarrow> fst (now w1) < x"
    using assms(3) r0(2) by (auto simp: expire_def split: if_splits)
  ultimately show ?thesis using assms(3) r0(3,4) by (simp add: accounted_def)
qed

text \<open>\<open>ABORTED\<close> is terminal: after any history of an aborted plane nothing can be executed.\<close>
theorem abort_is_final:
  "\<not> can_execute (fst (human_run ops (abort h, w)))"
proof -
  have "hp_state (fst (human_run ops (abort h, w))) = ABORTED"
  proof (induction ops rule: rev_induct)
    case Nil
    then show ?case by (simp add: human_run_def abort_def)
  next
    case (snoc op ops)
    then show ?case
      using aborted_stays [of "fst (human_run ops (abort h, w))" "snd (human_run ops (abort h, w))" op]
      by (simp add: human_run_def)
  qed
  then show ?thesis by (simp add: can_execute_def)
qed

definition demo_human_world :: world where
  "demo_human_world = \<lparr>clock_at = (\<lambda>n. int n * 1000000), ticks = 0, uuid_at = digits, uuids = 0\<rparr>"

definition demo_history :: "human_op list" where
  "demo_history = [Request ''act'' ''file.write'' ''risky'' None, Pause, Resume, Approve ''0'' ''ada'']"

theorem approvals_are_granted_witness:
  "\<exists>h w1 r h' w2. human_run demo_history (new_human 300, demo_human_world) = (h, w1) \<and>
    approval_for ''act'' ''file.write'' h w1 = (Some r, h', w2) \<and> ap_status r = APPROVED \<and>
    Approve (ap_id r) (ap_decided_by r) \<in> set demo_history"
proof -
  obtain h w1 where run: "human_run demo_history (new_human 300, demo_human_world) = (h, w1)" by (metis surj_pair)
  have "case approval_for ''act'' ''file.write'' h w1 of (None, _) \<Rightarrow> False | (Some r, _) \<Rightarrow> ap_status r = APPROVED"
  proof -
    have "(case human_run demo_history (new_human 300, demo_human_world) of (h, w1) \<Rightarrow>
      case approval_for ''act'' ''file.write'' h w1 of (None, _) \<Rightarrow> False | (Some r, _) \<Rightarrow> ap_status r = APPROVED)"
      by code_simp
    then show ?thesis by (simp add: run)
  qed
  then obtain r h' w2 where "approval_for ''act'' ''file.write'' h w1 = (Some r, h', w2)" "ap_status r = APPROVED"
    by (auto split: prod.splits option.splits)
  with approvals_are_granted [OF run this] run show ?thesis by blast
qed

end
