(* ===== verification/Control_Plane.thy ===== *)
theory Control_Plane
  imports Tool_Gate Policies Human_Gate
begin

text \<open>
  \<open>packages/tools/src/smorx_tools\<close>: the tool registry (\<open>tool.py\<close>), the audit trail (\<open>audit.py\<close>)
  and the policy-controlled gateway \<open>ControlPlane\<close> (\<open>control.py\<close>). A tool's handler is code
  outside the plane: a function from the request and the world to how it ends. \<open>ALLOW\<close> is the only
  decision that leads to execution; every decision and every execution is one audit record.
\<close>

section \<open>Tools\<close>

datatype tool_kind =
    REPOSITORY | FILE | COMMAND | TEST | SANDBOX | VERIFICATION_TOOL | MODEL | POLICY | CONTROL

datatype result_status =
    SUCCEEDED | FAILED | TIMEOUT | ERROR | DENIED | BLOCKED | PENDING_REVIEW | UNAVAILABLE

fun result_value :: "result_status \<Rightarrow> string" where
  "result_value SUCCEEDED = ''SUCCEEDED''"
| "result_value FAILED = ''FAILED''"
| "result_value TIMEOUT = ''TIMEOUT''"
| "result_value ERROR = ''ERROR''"
| "result_value DENIED = ''DENIED''"
| "result_value BLOCKED = ''BLOCKED''"
| "result_value PENDING_REVIEW = ''PENDING_REVIEW''"
| "result_value UNAVAILABLE = ''UNAVAILABLE''"

definition is_success :: "result_status \<Rightarrow> bool" where
  "is_success s \<longleftrightarrow> s = SUCCEEDED"

record tool_request =
  tq_request_id :: string
  tq_action_id :: string
  tq_agent_id :: string
  tq_task_id :: string
  tq_tool_name :: string
  tq_arguments :: "(string \<times> pyval) list"
  tq_capabilities :: "string list"
  tq_allowed_tools :: "string list"
  tq_phase :: string
  tq_environment :: string
  tq_timeout :: rat
  tq_sandbox_id :: string
  tq_created_at :: int

record tool_result =
  te_invocation_id :: string
  te_tool_name :: string
  te_request_id :: string
  te_status :: result_status
  te_started_at :: int
  te_finished_at :: int
  te_duration :: rat
  te_exit_code :: "int option"
  te_stdout :: string
  te_stderr :: string
  te_artifacts :: "(string \<times> pyval) list"
  te_error_classification :: string
  te_timeout :: rat
  te_sandbox_id :: string
  te_provenance :: string
  te_message :: string

text \<open>How \<open>asyncio.wait_for(handler(request), ...)\<close> ends; \<open>HRaised\<close> has the exception's type and text.\<close>

datatype handler_end = HReturned tool_result | HTimeout | HRaised string string

record tool_spec =
  tl_name :: string
  tl_kind :: tool_kind
  tl_capability :: string
  tl_risk :: string
  tl_timeout :: rat
  tl_requires_sandbox :: bool
  tl_mutates :: bool
  tl_requires_approval :: bool
  tl_handler :: "(tool_request \<Rightarrow> world \<Rightarrow> handler_end \<times> world) option"

text \<open>The registry: the specs by name, in registration order.\<close>

type_synonym tool_registry = "(string \<times> tool_spec) list"

definition register_tool :: "tool_spec \<Rightarrow> tool_registry \<Rightarrow> value_error + tool_registry" where
  "register_tool spec reg =
     (if tl_name spec \<in> fst ` set reg then Inl ValueError else Inr (reg @ [(tl_name spec, spec)]))"

definition tools_for_capability :: "string \<Rightarrow> tool_registry \<Rightarrow> tool_spec list" where
  "tools_for_capability capability reg =
     filter (\<lambda>spec. tl_capability spec = ''*'' \<or> tl_capability spec = capability) (map snd reg)"

section \<open>The audit trail\<close>

datatype audit_decision =
    A_ALLOWED | A_DENIED | A_REVIEW | A_BLOCKED | A_EXECUTED | A_FAILED | A_TIMEOUT | A_CANCELLED

record audit_record =
  au_id :: string
  au_recorded_at :: int
  au_invocation_id :: string
  au_request_id :: string
  au_action_id :: string
  au_agent_id :: string
  au_task_id :: string
  au_tool_name :: string
  au_decision :: audit_decision
  au_reasons :: "string list"
  au_risk_level :: string
  au_resource_kind :: string
  au_resource_ref :: string
  au_exit_code :: "int option"
  au_classification :: string
  au_status :: string
  au_result_summary :: string

definition has_invocation :: "string \<Rightarrow> audit_record list \<Rightarrow> bool" where
  "has_invocation i trail \<longleftrightarrow> list_ex (\<lambda>r. au_invocation_id r = i) trail"

definition has_action :: "string \<Rightarrow> string \<Rightarrow> audit_record list \<Rightarrow> bool" where
  "has_action action_id tool_name trail \<longleftrightarrow>
     list_ex (\<lambda>r. au_action_id r = action_id \<and> au_tool_name r = tool_name) trail"

definition trail_by_tool :: "string \<Rightarrow> audit_record list \<Rightarrow> audit_record list" where
  "trail_by_tool tool_name trail = filter (\<lambda>r. au_tool_name r = tool_name) trail"

definition trail_by_agent :: "string \<Rightarrow> audit_record list \<Rightarrow> audit_record list" where
  "trail_by_agent agent_id trail = filter (\<lambda>r. au_agent_id r = agent_id) trail"

section \<open>The control plane\<close>

text \<open>\<open>cp_format_g\<close> is the format \<open>:g\<close> of a float, used in the message of a timeout.\<close>

record control_plane =
  cp_registry :: tool_registry
  cp_engine :: policy_engine
  cp_audit :: "audit_record list"
  cp_human :: "human_plane option"
  cp_environment :: string
  cp_world :: world
  cp_format_g :: "rat \<Rightarrow> string"

record auth_view =
  av_request_id :: string
  av_action_id :: string
  av_agent_id :: string
  av_task_id :: string
  av_tool_name :: string
  av_arguments :: "(string \<times> pyval) list"
  av_capabilities :: "string list"
  av_allowed_tools :: "string list"
  av_environment :: string

text \<open>\<open>BadRisk\<close>: the \<open>ValueError\<close> of \<open>RiskLevel(spec.risk)\<close>; \<open>ToolExecutionError\<close> carries its text.\<close>

datatype control_raise = BadRisk string | ToolExecutionError string

definition plane_uuid :: "control_plane \<Rightarrow> string \<times> control_plane" where
  "plane_uuid p = (let (u, w) = uuid4 (cp_world p) in (u, p\<lparr>cp_world := w\<rparr>))"

definition plane_now :: "control_plane \<Rightarrow> int \<times> control_plane" where
  "plane_now p = (let (t, w) = now (cp_world p) in (t, p\<lparr>cp_world := w\<rparr>))"

fun resource_for_kind :: "tool_kind \<Rightarrow> resource_kind" where
  "resource_for_kind FILE = R_PATH"
| "resource_for_kind REPOSITORY = R_FILE"
| "resource_for_kind COMMAND = R_COMMAND"
| "resource_for_kind SANDBOX = R_SANDBOX"
| "resource_for_kind _ = R_TOOL"

fun first_string :: "string list \<Rightarrow> (string \<times> pyval) list \<Rightarrow> string" where
  "first_string [] args = []"
| "first_string (key # keys) args =
     (case map_of args key of
        Some (PStr s) \<Rightarrow> if s \<noteq> [] then s else first_string keys args
      | _ \<Rightarrow> first_string keys args)"

definition resource_ref :: "(string \<times> pyval) list \<Rightarrow> string" where
  "resource_ref args = first_string [''resource_ref'', ''path'', ''target'', ''command''] args"

text \<open>\<open>_record\<close>: \<open>audit_id\<close>, the instant and \<open>invocation_id\<close> are read in this order.\<close>

definition record_auth ::
    "auth_view \<Rightarrow> audit_decision \<Rightarrow> string \<Rightarrow> string \<Rightarrow> string \<Rightarrow> string \<Rightarrow> control_plane \<Rightarrow>
     audit_record \<times> control_plane" where
  "record_auth view decision reason risk kind ref p =
     (let (a, p1) = plane_uuid p; (t, p2) = plane_now p1; (i, p3) = plane_uuid p2;
          r = \<lparr>au_id = a, au_recorded_at = t, au_invocation_id = i, au_request_id = av_request_id view,
            au_action_id = av_action_id view, au_agent_id = av_agent_id view, au_task_id = av_task_id view,
            au_tool_name = av_tool_name view, au_decision = decision, au_reasons = [reason],
            au_risk_level = risk, au_resource_kind = kind, au_resource_ref = ref, au_exit_code = None,
            au_classification = [], au_status = [], au_result_summary = []\<rparr>
      in (r, p3\<lparr>cp_audit := cp_audit p3 @ [r]\<rparr>))"

definition denied ::
    "string \<Rightarrow> auth_view \<Rightarrow> tool_spec option \<Rightarrow> control_plane \<Rightarrow>
     (tool_authorization \<times> audit_record) \<times> control_plane" where
  "denied reason view spec p =
     (let (risk, kind, ref) = (case spec of
            None \<Rightarrow> (''low'', resource_value R_TOOL, [])
          | Some s \<Rightarrow> (tl_risk s, resource_value (resource_for_kind (tl_kind s)), resource_ref (av_arguments view)));
          (r, p') = record_auth view A_DENIED reason risk kind ref p
      in ((\<lparr>ta_decision = DENY, ta_reasons = [reason], ta_risk_level = risk\<rparr>, r), p'))"

definition authorized ::
    "tool_spec \<Rightarrow> auth_view \<Rightarrow> tool_decision \<Rightarrow> string \<Rightarrow> audit_decision \<Rightarrow> control_plane \<Rightarrow>
     (tool_authorization \<times> audit_record) \<times> control_plane" where
  "authorized spec view decision reason audit p =
     (let (r, p') = record_auth view audit reason (tl_risk spec)
            (resource_value (resource_for_kind (tl_kind spec))) (resource_ref (av_arguments view)) p
      in ((\<lparr>ta_decision = decision, ta_reasons = [reason], ta_risk_level = tl_risk spec\<rparr>, r), p'))"

text \<open>
  The review: the human plane is asked for an approval only while it runs, and the query prunes
  it. The boolean says whether the latest request is \<open>APPROVED\<close>.
\<close>

definition consult_human :: "string \<Rightarrow> string \<Rightarrow> control_plane \<Rightarrow> bool \<times> control_plane" where
  "consult_human action_id tool_name p =
     (case cp_human p of
        None \<Rightarrow> (False, p)
      | Some h \<Rightarrow>
          if is_paused h \<or> \<not> can_execute h then (False, p)
          else
            let (r, h', w') = approval_for action_id tool_name h (cp_world p)
            in (case r of None \<Rightarrow> False | Some a \<Rightarrow> ap_status a = APPROVED,
                p\<lparr>cp_human := Some h', cp_world := w'\<rparr>))"

definition resolve_review ::
    "tool_spec \<Rightarrow> auth_view \<Rightarrow> control_plane \<Rightarrow> (tool_authorization \<times> audit_record) \<times> control_plane" where
  "resolve_review spec view p =
     (let (approved, p') = consult_human (av_action_id view) (av_tool_name view) p
      in if approved then authorized spec view ALLOW ''human approved'' A_ALLOWED p'
         else authorized spec view REQUIRE_REVIEW ''policy requires review'' A_REVIEW p')"

definition latest_for :: "string \<Rightarrow> string \<Rightarrow> audit_record list \<Rightarrow> audit_record option" where
  "latest_for action_id tool_name trail =
     find (\<lambda>r. au_action_id r = action_id \<and> au_tool_name r = tool_name) (rev trail)"

definition policy_context :: "tool_spec \<Rightarrow> auth_view \<Rightarrow> control_raise + policy_context" where
  "policy_context spec view =
     (case parse_risk (tl_risk spec) of
        None \<Rightarrow> Inl (BadRisk (tl_risk spec))
      | Some risk \<Rightarrow> Inr \<lparr>pc_environment = av_environment view, pc_agent_id = av_agent_id view,
          pc_task_id = av_task_id view, pc_tool_name = av_tool_name view, pc_risk = risk,
          pc_resource = resource_for_kind (tl_kind spec), pc_resource_ref = resource_ref (av_arguments view),
          pc_extra = []\<rparr>)"

text \<open>\<open>allowed\<close> is the allowed-tools check of the assignment, or of the request's own list.\<close>

definition resolve ::
    "tool_spec option \<Rightarrow> auth_view \<Rightarrow> bool \<Rightarrow> control_plane \<Rightarrow>
     (control_raise + tool_authorization \<times> audit_record) \<times> control_plane" where
  "resolve spec view allowed p =
     (case spec of
        None \<Rightarrow> map_prod Inr id (denied ''unknown tool'' view None p)
      | Some s \<Rightarrow>
          if (case latest_for (av_action_id view) (av_tool_name view) (cp_audit p) of
                Some r \<Rightarrow> au_decision r = A_EXECUTED | None \<Rightarrow> False)
          then map_prod Inr id (denied ''duplicate invocation'' view spec p)
          else if tl_capability s \<noteq> ''*'' \<and> tl_capability s \<notin> set (av_capabilities view)
          then map_prod Inr id (denied ''capability mismatch'' view spec p)
          else if \<not> allowed
          then map_prod Inr id (denied ''not allowed for assignment'' view spec p)
          else (case policy_context s view of
              Inl e \<Rightarrow> (Inl e, p)
            | Inr ctx \<Rightarrow> map_prod Inr id
                (case evaluate (cp_engine p) ctx of
                   Block \<Rightarrow> authorized s view BLOCK ''blocked by policy'' A_BLOCKED p
                 | Deny \<Rightarrow> authorized s view DENY ''denied by policy'' A_DENIED p
                 | RequireReview \<Rightarrow> resolve_review s view p
                 | Allow \<Rightarrow> authorized s view ALLOW ''policy allows'' A_ALLOWED p)))"

section \<open>Execution\<close>

fun audit_decision_for :: "result_status \<Rightarrow> audit_decision" where
  "audit_decision_for SUCCEEDED = A_EXECUTED"
| "audit_decision_for FAILED = A_FAILED"
| "audit_decision_for TIMEOUT = A_TIMEOUT"
| "audit_decision_for ERROR = A_FAILED"
| "audit_decision_for DENIED = A_DENIED"
| "audit_decision_for BLOCKED = A_BLOCKED"
| "audit_decision_for UNAVAILABLE = A_CANCELLED"
| "audit_decision_for PENDING_REVIEW = A_REVIEW"

definition record_execution ::
    "tool_request \<Rightarrow> tool_spec \<Rightarrow> tool_result \<Rightarrow> control_plane \<Rightarrow> audit_record \<times> control_plane" where
  "record_execution rq spec res p =
     (let (a, p1) = plane_uuid p; (t, p2) = plane_now p1;
          r = \<lparr>au_id = a, au_recorded_at = t, au_invocation_id = te_invocation_id res,
            au_request_id = tq_request_id rq, au_action_id = tq_action_id rq, au_agent_id = tq_agent_id rq,
            au_task_id = tq_task_id rq, au_tool_name = te_tool_name res,
            au_decision = audit_decision_for (te_status res),
            au_reasons = [''status '' @ result_value (te_status res)], au_risk_level = tl_risk spec,
            au_resource_kind = resource_value (resource_for_kind (tl_kind spec)),
            au_resource_ref = resource_ref (tq_arguments rq), au_exit_code = te_exit_code res,
            au_classification = te_error_classification res, au_status = result_value (te_status res),
            au_result_summary = take 200 (if te_message res \<noteq> [] then te_message res else te_stdout res)\<rparr>
      in (r, p2\<lparr>cp_audit := cp_audit p2 @ [r]\<rparr>))"

definition raw_result ::
    "tool_request \<Rightarrow> result_status \<Rightarrow> string \<Rightarrow> string \<Rightarrow> int option \<Rightarrow> control_plane \<Rightarrow>
     tool_result \<times> control_plane" where
  "raw_result rq status cls message started p =
     (let (s, p1) = (case started of Some t \<Rightarrow> (t, p) | None \<Rightarrow> plane_now p);
          (f, p2) = plane_now p1; (i, p3) = plane_uuid p2
      in (\<lparr>te_invocation_id = i, te_tool_name = tq_tool_name rq, te_request_id = tq_request_id rq,
           te_status = status, te_started_at = s, te_finished_at = f, te_duration = seconds_between s f,
           te_exit_code = None, te_stdout = [], te_stderr = [], te_artifacts = [],
           te_error_classification = cls, te_timeout = tq_timeout rq, te_sandbox_id = tq_sandbox_id rq,
           te_provenance = [], te_message = message\<rparr>, p3))"

definition run_handler ::
    "(tool_request \<Rightarrow> world \<Rightarrow> handler_end \<times> world) \<Rightarrow> tool_request \<Rightarrow> tool_spec \<Rightarrow> control_plane \<Rightarrow>
     (control_raise + tool_result \<times> audit_record) \<times> control_plane" where
  "run_handler handler rq spec p =
     (let (started, p1) = plane_now p;
          (e, w) = handler rq (cp_world p1);
          p2 = p1\<lparr>cp_world := w\<rparr>
      in case e of
           HReturned res \<Rightarrow> (let (r, p3) = record_execution rq spec res p2 in (Inr (res, r), p3))
         | HTimeout \<Rightarrow>
             (let (res, p3) = raw_result rq TIMEOUT ''timeout''
                    (''tool timed out after '' @ cp_format_g p (tq_timeout rq) @ ''s'') (Some started) p2;
                  (r, p4) = record_execution rq spec res p3
              in (Inr (res, r), p4))
         | HRaised ty text \<Rightarrow>
             (let (res, p3) = raw_result rq ERROR ''tool failure'' (ty @ '': '' @ text) (Some started) p2;
                  (r, p4) = record_execution rq spec res p3
              in (Inl (ToolExecutionError (''tool '' @ repr_str (tq_tool_name rq) @ '' raised '' @ ty @ '': '' @ text)), p4)))"

definition execute_authorized ::
    "tool_request \<Rightarrow> tool_spec \<Rightarrow> control_plane \<Rightarrow> (control_raise + tool_result \<times> audit_record) \<times> control_plane" where
  "execute_authorized rq spec p =
     (if tl_requires_sandbox spec \<and> tq_sandbox_id rq = [] then
        let (res, p1) = raw_result rq UNAVAILABLE ''environment/dependency failure''
              ''requires a sandbox but no sandbox_id was provided'' None p;
            (r, p2) = record_execution rq spec res p1
        in (Inr (res, r), p2)
      else (case tl_handler spec of
          None \<Rightarrow>
            let (res, p1) = raw_result rq ERROR ''tool failure'' ''no handler registered'' None p;
                (r, p2) = record_execution rq spec res p1
            in (Inr (res, r), p2)
        | Some handler \<Rightarrow> run_handler handler rq spec p))"

definition or_else :: "string \<Rightarrow> string \<Rightarrow> string" where
  "or_else s d = (if s \<noteq> [] then s else d)"

fun outcome_payload :: "tool_result \<Rightarrow> result_status \<Rightarrow> (string \<times> pyval) list" where
  "outcome_payload res SUCCEEDED =
     (if te_artifacts res \<noteq> [] then te_artifacts res
      else [(''stdout'', PStr (te_stdout res)), (''stderr'', PStr (te_stderr res)),
            (''exit_code'', PInt (case te_exit_code res of None \<Rightarrow> 0 | Some c \<Rightarrow> c))])"
| "outcome_payload res FAILED =
     [(''status'', PStr ''FAILED''), (''message'', PStr (te_message res)),
      (''stdout'', PStr (te_stdout res)), (''stderr'', PStr (te_stderr res))]"
| "outcome_payload res TIMEOUT =
     [(''status'', PStr ''TIMEOUT''), (''timeout_seconds'', PFloat (te_timeout res)),
      (''message'', PStr (te_message res))]"
| "outcome_payload res s = [(''status'', PStr (result_value s)), (''message'', PStr (te_message res))]"

fun outcome_class :: "tool_result \<Rightarrow> result_status \<Rightarrow> string" where
  "outcome_class res FAILED = or_else (te_error_classification res) ''tool failure''"
| "outcome_class res TIMEOUT = ''timeout''"
| "outcome_class res UNAVAILABLE = ''environment/dependency failure''"
| "outcome_class res ERROR = or_else (te_error_classification res) ''tool failure''"
| "outcome_class res _ = []"

fun outcome_decision :: "result_status \<Rightarrow> tool_decision" where
  "outcome_decision DENIED = DENY"
| "outcome_decision BLOCKED = BLOCK"
| "outcome_decision PENDING_REVIEW = REQUIRE_REVIEW"
| "outcome_decision _ = ALLOW"

definition outcome_from_result :: "tool_result \<Rightarrow> tool_outcome" where
  "outcome_from_result res =
     (let s = te_status res; refused = (s \<in> {DENIED, BLOCKED, PENDING_REVIEW})
      in \<lparr>to_invocation_id = te_invocation_id res, to_allowed = (\<not> refused), to_decision = outcome_decision s,
          to_tool_name = te_tool_name res, to_result = outcome_payload res s,
          to_classification = outcome_class res s, to_reviewed = (s = PENDING_REVIEW), to_audit_ref = [],
          to_executed = (\<not> refused)\<rparr>)"

definition denied_outcome :: "tool_authorization \<Rightarrow> audit_record \<Rightarrow> string \<Rightarrow> tool_outcome" where
  "denied_outcome auth r tool_name =
     \<lparr>to_invocation_id = au_invocation_id r, to_allowed = False, to_decision = ta_decision auth,
      to_tool_name = tool_name,
      to_result = [(''reason'', PStr (or_else (join '' '' (ta_reasons auth)) ''denied by policy'')), (''errors'', PList [])],
      to_classification = (case ta_decision auth of
          BLOCK \<Rightarrow> ''safety/policy block'' | DENY \<Rightarrow> ''permission failure'' | _ \<Rightarrow> []),
      to_reviewed = (ta_decision auth = REQUIRE_REVIEW), to_audit_ref = au_id r, to_executed = False\<rparr>"

definition denied_result ::
    "tool_request \<Rightarrow> tool_authorization \<Rightarrow> audit_record \<Rightarrow> control_plane \<Rightarrow> tool_result \<times> control_plane" where
  "denied_result rq auth r p =
     (let (t, p1) = plane_now p
      in (\<lparr>te_invocation_id = au_invocation_id r, te_tool_name = tq_tool_name rq, te_request_id = tq_request_id rq,
           te_status = (case ta_decision auth of BLOCK \<Rightarrow> BLOCKED | DENY \<Rightarrow> DENIED | _ \<Rightarrow> PENDING_REVIEW),
           te_started_at = t, te_finished_at = t, te_duration = 0, te_exit_code = None, te_stdout = [],
           te_stderr = [], te_artifacts = [],
           te_error_classification = (case ta_decision auth of
             BLOCK \<Rightarrow> ''safety/policy block'' | DENY \<Rightarrow> ''permission failure'' | _ \<Rightarrow> []),
           te_timeout = tq_timeout rq, te_sandbox_id = tq_sandbox_id rq, te_provenance = [],
           te_message = join '' '' (ta_reasons auth)\<rparr>, p1))"

section \<open>The gateway\<close>

definition view_from_assignment ::
    "agent_assignment \<Rightarrow> string \<Rightarrow> (string \<times> pyval) list \<Rightarrow> string \<Rightarrow> control_plane \<Rightarrow> auth_view \<times> control_plane" where
  "view_from_assignment a tool_name args action_id p =
     (let (u, p1) = plane_uuid p
      in (\<lparr>av_request_id = u, av_action_id = action_id, av_agent_id = as_agent_id a, av_task_id = as_task_id a,
           av_tool_name = tool_name, av_arguments = args, av_capabilities = [capability_value (as_capability a)],
           av_allowed_tools = allowed_tools a, av_environment = cp_environment p\<rparr>, p1))"

definition build_request ::
    "agent_assignment \<Rightarrow> auth_view \<Rightarrow> rat \<Rightarrow> control_plane \<Rightarrow> tool_request \<times> control_plane" where
  "build_request a view timeout p =
     (let (t, p1) = plane_now p
      in (\<lparr>tq_request_id = av_request_id view, tq_action_id = av_action_id view, tq_agent_id = av_agent_id view,
           tq_task_id = av_task_id view, tq_tool_name = av_tool_name view, tq_arguments = av_arguments view,
           tq_capabilities = av_capabilities view, tq_allowed_tools = av_allowed_tools view,
           tq_phase = ctx_phase (as_context a), tq_environment = cp_environment p, tq_timeout = timeout,
           tq_sandbox_id = (case map_of (av_arguments view) ''sandbox_id'' of Some (PStr s) \<Rightarrow> s | _ \<Rightarrow> []),
           tq_created_at = t\<rparr>, p1))"

definition control_authorize ::
    "agent_assignment \<Rightarrow> string \<Rightarrow> (string \<times> pyval) list \<Rightarrow> string \<Rightarrow> control_plane \<Rightarrow>
     (control_raise + tool_authorization) \<times> control_plane" where
  "control_authorize a tool_name args action_id p =
     (let (view, p1) = view_from_assignment a tool_name args action_id p;
          (r, p2) = resolve (map_of (cp_registry p1) tool_name) view (assignment_allows_tool a tool_name) p1
      in (map_sum id fst r, p2))"

definition control_execute ::
    "agent_assignment \<Rightarrow> string \<Rightarrow> (string \<times> pyval) list \<Rightarrow> string \<Rightarrow> rat option \<Rightarrow> control_plane \<Rightarrow>
     (control_raise + tool_outcome) \<times> control_plane" where
  "control_execute a tool_name args action_id timeout p =
     (let (view, p1) = view_from_assignment a tool_name args action_id p;
          spec = map_of (cp_registry p1) tool_name
      in case resolve spec view (assignment_allows_tool a tool_name) p1 of
           (Inl e, p2) \<Rightarrow> (Inl e, p2)
         | (Inr (auth, r), p2) \<Rightarrow>
             (case spec of
                None \<Rightarrow> (Inr (denied_outcome auth r tool_name), p2)
              | Some s \<Rightarrow>
                  if ta_decision auth \<noteq> ALLOW then (Inr (denied_outcome auth r tool_name), p2)
                  else
                    let (rq, p3) = build_request a view (case timeout of Some t \<Rightarrow> t | None \<Rightarrow> tl_timeout s) p2
                    in (case execute_authorized rq s p3 of
                          (Inl e, p4) \<Rightarrow> (Inl e, p4)
                        | (Inr (res, r'), p4) \<Rightarrow>
                            (Inr ((outcome_from_result res)\<lparr>to_audit_ref := au_id r'\<rparr>), p4))))"

definition execute_request ::
    "tool_request \<Rightarrow> control_plane \<Rightarrow> (control_raise + tool_result) \<times> control_plane" where
  "execute_request rq p =
     (let spec = map_of (cp_registry p) (tq_tool_name rq);
          view = \<lparr>av_request_id = tq_request_id rq, av_action_id = tq_action_id rq, av_agent_id = tq_agent_id rq,
            av_task_id = tq_task_id rq, av_tool_name = tq_tool_name rq, av_arguments = tq_arguments rq,
            av_capabilities = tq_capabilities rq, av_allowed_tools = tq_allowed_tools rq,
            av_environment = tq_environment rq\<rparr>
      in case resolve spec view (allowed_by (tq_allowed_tools rq) (tq_tool_name rq)) p of
           (Inl e, p1) \<Rightarrow> (Inl e, p1)
         | (Inr (auth, r), p1) \<Rightarrow>
             (case spec of
                None \<Rightarrow> (let (res, p2) = denied_result rq auth r p1 in (Inr res, p2))
              | Some s \<Rightarrow>
                  if ta_decision auth \<noteq> ALLOW then (let (res, p2) = denied_result rq auth r p1 in (Inr res, p2))
                  else (case execute_authorized rq s p1 of
                          (Inl e, p2) \<Rightarrow> (Inl e, p2)
                        | (Inr (res, _), p2) \<Rightarrow> (Inr res, p2))))"

section \<open>Authorization\<close>

text \<open>The plane reading its clock or \<open>uuid4\<close> changes nothing but its world.\<close>

definition same_plane :: "control_plane \<Rightarrow> control_plane \<Rightarrow> bool" where
  "same_plane p p' \<longleftrightarrow> cp_registry p' = cp_registry p \<and> cp_engine p' = cp_engine p \<and>
     cp_audit p' = cp_audit p \<and> cp_human p' = cp_human p \<and> cp_environment p' = cp_environment p"

lemma plane_reads [simp]:
  "cp_registry (snd (plane_uuid p)) = cp_registry p" "cp_engine (snd (plane_uuid p)) = cp_engine p"
  "cp_audit (snd (plane_uuid p)) = cp_audit p" "cp_human (snd (plane_uuid p)) = cp_human p"
  "cp_environment (snd (plane_uuid p)) = cp_environment p"
  "cp_registry (snd (plane_now p)) = cp_registry p" "cp_engine (snd (plane_now p)) = cp_engine p"
  "cp_audit (snd (plane_now p)) = cp_audit p" "cp_human (snd (plane_now p)) = cp_human p"
  "cp_environment (snd (plane_now p)) = cp_environment p"
  by (simp_all add: plane_uuid_def plane_now_def case_prod_unfold Let_def)

lemma record_auth_effect:
  "cp_audit (snd (record_auth view d reason risk kind ref p)) =
    cp_audit p @ [fst (record_auth view d reason risk kind ref p)]"
  "au_decision (fst (record_auth view d reason risk kind ref p)) = d"
  "au_action_id (fst (record_auth view d reason risk kind ref p)) = av_action_id view"
  "au_tool_name (fst (record_auth view d reason risk kind ref p)) = av_tool_name view"
  by (simp_all add: record_auth_def case_prod_unfold Let_def)

lemma consult_human_audit [simp]: "cp_audit (snd (consult_human a n p)) = cp_audit p"
  by (simp add: consult_human_def case_prod_unfold Let_def split: option.splits)

lemma consult_human_True:
  assumes "fst (consult_human a n p)"
  obtains h r where "cp_human p = Some h" "can_execute h"
    "fst (approval_for a n h (cp_world p)) = Some r" "ap_status r = APPROVED"
  using assms that
  by (auto simp: consult_human_def case_prod_unfold Let_def split: option.splits if_splits)

text \<open>Whether the resolution ends in \<open>ALLOW\<close>.\<close>

definition passes_checks :: "tool_spec \<Rightarrow> auth_view \<Rightarrow> bool \<Rightarrow> control_plane \<Rightarrow> bool" where
  "passes_checks s view allowed p \<longleftrightarrow>
     (case latest_for (av_action_id view) (av_tool_name view) (cp_audit p) of
        Some r \<Rightarrow> au_decision r \<noteq> A_EXECUTED | None \<Rightarrow> True) \<and>
     (tl_capability s = ''*'' \<or> tl_capability s \<in> set (av_capabilities view)) \<and> allowed"

definition cleared :: "tool_spec \<Rightarrow> auth_view \<Rightarrow> bool \<Rightarrow> control_plane \<Rightarrow> bool" where
  "cleared s view allowed p \<longleftrightarrow> passes_checks s view allowed p \<and>
     (case policy_context s view of
        Inl _ \<Rightarrow> False
      | Inr ctx \<Rightarrow> evaluate (cp_engine p) ctx = Allow \<or>
          (evaluate (cp_engine p) ctx = RequireReview \<and> fst (consult_human (av_action_id view) (av_tool_name view) p)))"

lemma resolve_review_effect:
  "(ta_decision (fst (fst (resolve_review s view p))) = ALLOW) =
    fst (consult_human (av_action_id view) (av_tool_name view) p)"
  "cp_audit (snd (resolve_review s view p)) = cp_audit p @ [snd (fst (resolve_review s view p))]"
  by (simp_all add: resolve_review_def authorized_def record_auth_effect case_prod_unfold Let_def)

text \<open>One record per authorization; the resolution allows exactly what is cleared.\<close>

lemma resolve_effect:
  assumes "resolve spec view allowed p = (Inr (auth, r), p')"
  shows "cp_audit p' = cp_audit p @ [r]"
    and "ta_decision auth = ALLOW \<longleftrightarrow> (\<exists>s. spec = Some s \<and> cleared s view allowed p)"
proof -
  have "cp_audit p' = cp_audit p @ [r] \<and>
    (ta_decision auth = ALLOW \<longleftrightarrow> (\<exists>s. spec = Some s \<and> cleared s view allowed p))"
  proof (cases "\<exists>s. spec = Some s \<and> passes_checks s view allowed p")
    case True
    then obtain s where s: "spec = Some s" "passes_checks s view allowed p" by blast
    have r: "resolve spec view allowed p = (case policy_context s view of
              Inl e \<Rightarrow> (Inl e, p)
            | Inr ctx \<Rightarrow> map_prod Inr id
                (case evaluate (cp_engine p) ctx of
                   Block \<Rightarrow> authorized s view BLOCK ''blocked by policy'' A_BLOCKED p
                 | Deny \<Rightarrow> authorized s view DENY ''denied by policy'' A_DENIED p
                 | RequireReview \<Rightarrow> resolve_review s view p
                 | Allow \<Rightarrow> authorized s view ALLOW ''policy allows'' A_ALLOWED p))"
      using s(2) by (auto simp: resolve_def s(1) passes_checks_def split: option.splits)
    obtain ctx where ctx: "policy_context s view = Inr ctx"
      using assms r by (cases "policy_context s view") simp_all
    obtain a0 r0 p0 where rr: "resolve_review s view p = ((a0, r0), p0)" by (metis surj_pair)
    note rv = resolve_review_effect [of s view p, unfolded rr, simplified]
    show ?thesis
      using assms [unfolded r] s rr rv unfolding cleared_def
      by (cases "evaluate (cp_engine p) ctx")
        (auto simp: ctx authorized_def record_auth_effect case_prod_unfold Let_def)
  next
    case False
    then have "\<exists>reason. resolve spec view allowed p = map_prod Inr id (denied reason view spec p)"
      by (auto simp: resolve_def passes_checks_def split: option.splits)
    moreover have "\<not> (\<exists>s. spec = Some s \<and> cleared s view allowed p)"
      using False unfolding cleared_def by blast
    ultimately show ?thesis
      using assms by (auto simp: denied_def record_auth_effect case_prod_unfold Let_def)
  qed
  then show "cp_audit p' = cp_audit p @ [r]"
    and "ta_decision auth = ALLOW \<longleftrightarrow> (\<exists>s. spec = Some s \<and> cleared s view allowed p)" by blast+
qed

lemma resolve_action:
  assumes "resolve spec view allowed p = (Inr (auth, r), p')"
  shows "au_action_id r = av_action_id view"
proof -
  have "\<forall>auth r. fst (resolve spec view allowed p) = Inr (auth, r) \<longrightarrow> au_action_id r = av_action_id view"
    by (simp add: resolve_def denied_def authorized_def resolve_review_def record_auth_effect case_prod_unfold Let_def
        split: option.splits sum.splits policy_decision.splits)
  with assms show ?thesis by simp
qed

lemma resolve_raises: "fst (resolve spec view allowed p) = Inl e \<Longrightarrow> snd (resolve spec view allowed p) = p \<and>
    (\<exists>s. spec = Some s \<and> e = BadRisk (tl_risk s) \<and> parse_risk (tl_risk s) = None)"
  by (auto simp: resolve_def policy_context_def split: option.splits sum.splits if_splits)

section \<open>Execution is audited\<close>

lemma record_execution_effect:
  "cp_audit (snd (record_execution rq s res p)) = cp_audit p @ [fst (record_execution rq s res p)]"
  "au_decision (fst (record_execution rq s res p)) = audit_decision_for (te_status res)"
  "au_action_id (fst (record_execution rq s res p)) = tq_action_id rq"
  by (simp_all add: record_execution_def case_prod_unfold Let_def)

lemma raw_result_effect:
  "cp_audit (snd (raw_result rq st cls msg started p)) = cp_audit p"
  "te_status (fst (raw_result rq st cls msg started p)) = st"
  by (simp_all add: raw_result_def case_prod_unfold Let_def split: option.splits)

lemma execute_authorized_effect:
  "case execute_authorized rq s p of
     (Inl e, p') \<Rightarrow> \<exists>r text. e = ToolExecutionError text \<and> cp_audit p' = cp_audit p @ [r] \<and>
       au_decision r = A_FAILED \<and> au_action_id r = tq_action_id rq
   | (Inr (res, r), p') \<Rightarrow> cp_audit p' = cp_audit p @ [r] \<and>
       au_decision r = audit_decision_for (te_status res) \<and> au_action_id r = tq_action_id rq"
  by (simp add: execute_authorized_def run_handler_def record_execution_effect raw_result_effect case_prod_unfold Let_def
      split: option.splits handler_end.splits)

lemma view_fields:
  "av_action_id (fst (view_from_assignment a n args act p)) = act"
  "av_tool_name (fst (view_from_assignment a n args act p)) = n"
  "av_capabilities (fst (view_from_assignment a n args act p)) = [capability_value (as_capability a)]"
  "cp_registry (snd (view_from_assignment a n args act p)) = cp_registry p"
  "cp_engine (snd (view_from_assignment a n args act p)) = cp_engine p"
  "cp_audit (snd (view_from_assignment a n args act p)) = cp_audit p"
  "cp_human (snd (view_from_assignment a n args act p)) = cp_human p"
  by (simp_all add: view_from_assignment_def case_prod_unfold Let_def)

lemma build_request_fields:
  "tq_action_id (fst (build_request a view t p)) = av_action_id view"
  "cp_audit (snd (build_request a view t p)) = cp_audit p"
  by (simp_all add: build_request_def case_prod_unfold Let_def)

lemma outcome_flags:
  "to_executed (outcome_from_result res) = to_allowed (outcome_from_result res)"
  "to_allowed (outcome_from_result res) \<Longrightarrow> to_decision (outcome_from_result res) = ALLOW"
  by (cases "te_status res"; simp add: outcome_from_result_def Let_def)+

lemma run_outcome:
  assumes "(Inr out, p') = (case execute_authorized rq s p of
            (Inl e, p4) \<Rightarrow> (Inl e, p4)
          | (Inr (res, r'), p4) \<Rightarrow> (Inr ((outcome_from_result res)\<lparr>to_audit_ref := au_id r'\<rparr>), p4))"
  obtains res r where "execute_authorized rq s p = (Inr (res, r), p')"
    "out = (outcome_from_result res)\<lparr>to_audit_ref := au_id r\<rparr>"
  using assms that by (auto split: prod.splits sum.splits)

text \<open>A call is refused by the authorization, or authorized and executed.\<close>

lemma control_execute_cases:
  assumes "control_execute a n args act t p = (r, p')"
  obtains
    (bad_risk) s where "r = Inl (BadRisk (tl_risk s))" "map_of (cp_registry p) n = Some s"
        "parse_risk (tl_risk s) = None" "cp_audit p' = cp_audit p"
  | (refused) auth rec p1 view where
        "(view, p1) = view_from_assignment a n args act p"
        "resolve (map_of (cp_registry p) n) view (assignment_allows_tool a n) p1 = (Inr (auth, rec), p')"
        "ta_decision auth \<noteq> ALLOW" "r = Inr (denied_outcome auth rec n)"
  | (run) s auth rec p1 view p2 rq p3 where
        "(view, p1) = view_from_assignment a n args act p" "map_of (cp_registry p) n = Some s"
        "resolve (Some s) view (assignment_allows_tool a n) p1 = (Inr (auth, rec), p2)"
        "ta_decision auth = ALLOW"
        "(rq, p3) = build_request a view (case t of Some x \<Rightarrow> x | None \<Rightarrow> tl_timeout s) p2"
        "(r, p') = (case execute_authorized rq s p3 of
            (Inl e, p4) \<Rightarrow> (Inl e, p4)
          | (Inr (res, r'), p4) \<Rightarrow> (Inr ((outcome_from_result res)\<lparr>to_audit_ref := au_id r'\<rparr>), p4))"
proof -
  obtain view p1 where v: "(view, p1) = view_from_assignment a n args act p" by (metis surj_pair)
  have p1: "cp_registry p1 = cp_registry p" "cp_audit p1 = cp_audit p"
    using view_fields(4,6) [of a n args act p] by (simp_all add: v [symmetric])
  let ?res = "resolve (map_of (cp_registry p) n) view (assignment_allows_tool a n) p1"
  show thesis
  proof (cases "fst ?res")
    case (Inl e)
    then have "r = Inl e" "p' = snd ?res"
      using assms by (auto simp: control_execute_def v [symmetric] p1 Let_def case_prod_unfold)
    then show thesis using bad_risk resolve_raises [OF Inl] p1 by auto
  next
    case (Inr ar)
    obtain auth rec p2 where res: "?res = (Inr (auth, rec), p2)"
      using Inr by (cases ar) (metis prod.collapse)
    show thesis
    proof (cases "ta_decision auth = ALLOW")
      case False
      then have "r = Inr (denied_outcome auth rec n)" "p' = p2"
        using assms res by (auto simp: control_execute_def v [symmetric] p1 Let_def split: option.splits)
      then show thesis using refused [OF v] res False by simp
    next
      case True
      then obtain s where s: "map_of (cp_registry p) n = Some s" using resolve_effect(2) [OF res] by blast
      obtain rq p3 where b: "(rq, p3) = build_request a view (case t of Some x \<Rightarrow> x | None \<Rightarrow> tl_timeout s) p2"
        by (metis surj_pair)
      have "(r, p') = (case execute_authorized rq s p3 of
            (Inl e, p4) \<Rightarrow> (Inl e, p4)
          | (Inr (res, r'), p4) \<Rightarrow> (Inr ((outcome_from_result res)\<lparr>to_audit_ref := au_id r'\<rparr>), p4))"
        using assms res True s by (simp add: control_execute_def v [symmetric] p1 Let_def b [symmetric])
      then show thesis using run [OF v s _ True b] res s by simp
    qed
  qed
qed

section \<open>The gateway contract\<close>

lemma control_execute_allowed:
  assumes "fst (control_execute a n args act t p) = Inr out" "to_allowed out"
  obtains s auth rec p1 view p2 where "map_of (cp_registry p) n = Some s"
    "(view, p1) = view_from_assignment a n args act p"
    "resolve (Some s) view (assignment_allows_tool a n) p1 = (Inr (auth, rec), p2)"
    "ta_decision auth = ALLOW" "cleared s view (assignment_allows_tool a n) p1"
    "to_decision out = ALLOW"
proof -
  obtain p' where x: "control_execute a n args act t p = (Inr out, p')" using assms(1) by (metis prod.collapse)
  show thesis
    using x
  proof (cases rule: control_execute_cases)
    case (refused auth rec p1 view)
    then show thesis using assms(2) by (simp add: denied_outcome_def)
  next
    case (run s auth rec p1 view p2 rq p3)
    have c: "cleared s view (assignment_allows_tool a n) p1"
      using resolve_effect(2) [OF run(3)] run(4) by simp
    obtain res r' where "execute_authorized rq s p3 = (Inr (res, r'), p')"
        "out = (outcome_from_result res)\<lparr>to_audit_ref := au_id r'\<rparr>"
      by (rule run_outcome [OF run(6)])
    then have "to_decision out = ALLOW" using assms(2) outcome_flags(2) by simp
    with that [OF run(2,1,3,4) c] show thesis by blast
  qed simp
qed

lemma control_authorize_view:
  "(view, p1) = view_from_assignment a n args act p \<Longrightarrow>
    control_authorize a n args act p =
      (case resolve (map_of (cp_registry p) n) view (assignment_allows_tool a n) p1 of
         (r, p2) \<Rightarrow> (map_sum id fst r, p2))"
  using view_fields(4) [of a n args act p] by (simp add: control_authorize_def Let_def case_prod_unfold) (metis fst_conv snd_conv)

interpretation plane: capability_gateway control_authorize control_execute
proof
  fix a n args act t p out
  assume e: "fst (control_execute a n args act t p) = Inr out"
  show "to_allowed out" if "to_executed out"
  proof -
    obtain p' where x: "control_execute a n args act t p = (Inr out, p')" using e by (metis prod.collapse)
    show ?thesis
      using x
    proof (cases rule: control_execute_cases)
      case (run s auth rec p1 view p2 rq p3)
      obtain res r' where "execute_authorized rq s p3 = (Inr (res, r'), p')"
        "out = (outcome_from_result res)\<lparr>to_audit_ref := au_id r'\<rparr>"
        by (rule run_outcome [OF run(6)])
      with that show ?thesis using outcome_flags(1) by simp
    qed (use that in \<open>simp_all add: denied_outcome_def\<close>)
  qed
  show "to_decision out = ALLOW" if "to_allowed out"
    using control_execute_allowed [OF e that] by blast
  show "\<exists>auth. fst (control_authorize a n args act p) = Inr auth \<and> ta_decision auth = ALLOW" if al: "to_allowed out"
  proof -
    obtain s auth rec p1 view p2 where
      "map_of (cp_registry p) n = Some s" "(view, p1) = view_from_assignment a n args act p"
      "resolve (Some s) view (assignment_allows_tool a n) p1 = (Inr (auth, rec), p2)" "ta_decision auth = ALLOW"
      by (rule control_execute_allowed [OF e al])
    then show ?thesis by (simp add: control_authorize_view)
  qed
next
  fix a n args act p auth
  assume r: "fst (control_authorize a n args act p) = Inr auth" and d: "ta_decision auth = ALLOW"
  obtain view p1 where v: "(view, p1) = view_from_assignment a n args act p" by (metis surj_pair)
  obtain q p2 where q: "resolve (map_of (cp_registry p) n) view (assignment_allows_tool a n) p1 = (q, p2)"
    by (metis surj_pair)
  then have "map_sum id fst q = Inr auth" using r by (simp add: control_authorize_view [OF v])
  then obtain rec where "q = Inr (auth, rec)" by (cases q) auto
  with q have "resolve (map_of (cp_registry p) n) view (assignment_allows_tool a n) p1 = (Inr (auth, rec), p2)" by simp
  from resolve_effect(2) [OF this] d show "assignment_allows_tool a n"
    by (auto simp: cleared_def passes_checks_def)
qed

section \<open>Demonstration planes\<close>

text \<open>A high-risk tool under review, an approval for one action, and a handler that always succeeds.\<close>

definition demo_handler :: "tool_request \<Rightarrow> world \<Rightarrow> handler_end \<times> world" where
  "demo_handler rq w = (HReturned
     \<lparr>te_invocation_id = ''run'', te_tool_name = tq_tool_name rq, te_request_id = tq_request_id rq,
      te_status = SUCCEEDED, te_started_at = 0, te_finished_at = 1, te_duration = 0, te_exit_code = Some 0,
      te_stdout = ''ok'', te_stderr = [], te_artifacts = [], te_error_classification = [],
      te_timeout = tq_timeout rq, te_sandbox_id = [], te_provenance = [], te_message = []\<rparr>, w)"

definition demo_tool :: tool_spec where
  "demo_tool = \<lparr>tl_name = ''file.write'', tl_kind = FILE, tl_capability = ''CODING'', tl_risk = ''high'',
     tl_timeout = 30, tl_requires_sandbox = False, tl_mutates = True, tl_requires_approval = True,
     tl_handler = Some demo_handler\<rparr>"

definition approved_human :: human_plane where
  "approved_human = (new_human 300)\<lparr>hp_requests :=
     [\<lparr>ap_id = ''0'', ap_requested_at = 0, ap_action_id = ''act'', ap_tool_name = ''file.write'',
       ap_reason = [], ap_status = APPROVED, ap_expires_at = Some 300000000, ap_decided_at = Some 1,
       ap_decided_by = ''ada''\<rparr>]\<rparr>"

definition demo_plane :: control_plane where
  "demo_plane = \<lparr>cp_registry = [(''file.write'', demo_tool)], cp_engine = new_engine [] None True,
     cp_audit = [], cp_human = Some approved_human, cp_environment = ''development'',
     cp_world = \<lparr>clock_at = (\<lambda>n. int n), ticks = 0, uuid_at = digits, uuids = 0\<rparr>,
     cp_format_g = (\<lambda>_. [])\<rparr>"

definition demo_coder :: agent_assignment where
  "demo_coder = \<lparr>as_id = ''as'', as_task_id = ''t'', as_wave_id = ''w'', as_agent_id = ''coder'',
     as_objective = [], as_capability = CODING,
     as_context = \<lparr>ctx_run_id = [], ctx_phase = [], ctx_task_id = [], ctx_correlation_id = [],
       ctx_repository = [], ctx_change_id = [], ctx_environment = [], ctx_extra = []\<rparr>,
     as_inputs = [], as_constraints = [], allowed_tools = tools_of CODING, expected_artifact = [],
     as_timeout = 30, as_created_at = 0\<rparr>"

definition demo_call :: "control_plane \<Rightarrow> (control_raise + tool_outcome) \<times> control_plane" where
  "demo_call p = control_execute demo_coder ''file.write'' [] ''act'' None p"

definition ran_tool :: "(control_raise + tool_outcome) \<times> control_plane \<Rightarrow> bool" where
  "ran_tool x = (case fst x of Inr out \<Rightarrow> to_executed out | Inl _ \<Rightarrow> False)"

lemma demo_first: "ran_tool (demo_call demo_plane)"
  by code_simp

section \<open>Properties\<close>

text \<open>
  C2. A call is executed only when every gate has let it pass: the tool is registered, the latest
  audit record of its action is no execution, the assignment has the tool's capability and
  allows the tool, and the policy engine allows it in the context of this call (its environment, agent, task,
  tool, risk, resource and reference) or, where it requires review, a human plane
  that is running has an approved approval for that action and tool, unexpired at the time of the call.
\<close>
theorem execution_passes_every_gate:
  assumes "fst (control_execute a n args act t p) = Inr out" "to_executed out"
  shows "\<exists>s. map_of (cp_registry p) n = Some s \<and>
    (\<forall>r. latest_for act n (cp_audit p) = Some r \<longrightarrow> au_decision r \<noteq> A_EXECUTED) \<and>
    tl_capability s \<in> {''*'', capability_value (as_capability a)} \<and> assignment_allows_tool a n \<and>
    (\<exists>ctx. pc_tool_name ctx = n \<and> parse_risk (tl_risk s) = Some (pc_risk ctx) \<and>
      pc_environment ctx = cp_environment p \<and> pc_agent_id ctx = as_agent_id a \<and> pc_task_id ctx = as_task_id a \<and>
      pc_resource ctx = resource_for_kind (tl_kind s) \<and> pc_resource_ref ctx = resource_ref args \<and> pc_extra ctx = [] \<and>
      (evaluate (cp_engine p) ctx = Allow \<or>
       (evaluate (cp_engine p) ctx = RequireReview \<and>
        (\<exists>h r. cp_human p = Some h \<and> can_execute h \<and>
          fst (approval_for act n h (cp_world (snd (plane_uuid p)))) = Some r \<and> ap_status r = APPROVED))))"
proof -
  have "to_allowed out" by (rule plane.executed_allowed [OF assms])
  with assms(1) obtain s auth rec p1 view p2 where s: "map_of (cp_registry p) n = Some s"
    and v: "(view, p1) = view_from_assignment a n args act p"
    and c: "cleared s view (assignment_allows_tool a n) p1"
    by (rule control_execute_allowed) blast
  have f: "av_action_id view = act" "av_tool_name view = n"
    "av_capabilities view = [capability_value (as_capability a)]" "cp_engine p1 = cp_engine p"
    "cp_audit p1 = cp_audit p" "cp_human p1 = cp_human p"
    using view_fields [of a n args act p] by (simp_all add: v [symmetric])
  have g: "av_environment view = cp_environment p" "av_agent_id view = as_agent_id a" "av_task_id view = as_task_id a"
    "av_arguments view = args" "p1 = snd (plane_uuid p)"
    using v by (simp_all add: view_from_assignment_def case_prod_unfold Let_def)
  obtain ctx where ctx: "policy_context s view = Inr ctx" and
    e: "evaluate (cp_engine p) ctx = Allow \<or> (evaluate (cp_engine p) ctx = RequireReview \<and> fst (consult_human act n p1))"
    using c by (auto simp: cleared_def f split: sum.splits)
  have "parse_risk (tl_risk s) = Some (pc_risk ctx) \<and> pc_tool_name ctx = n \<and>
      pc_environment ctx = cp_environment p \<and> pc_agent_id ctx = as_agent_id a \<and> pc_task_id ctx = as_task_id a \<and>
      pc_resource ctx = resource_for_kind (tl_kind s) \<and> pc_resource_ref ctx = resource_ref args \<and> pc_extra ctx = []"
    using ctx by (auto simp: policy_context_def f g split: option.splits)
  moreover have "\<exists>h r. cp_human p = Some h \<and> can_execute h \<and>
      fst (approval_for act n h (cp_world (snd (plane_uuid p)))) = Some r \<and> ap_status r = APPROVED"
    if "fst (consult_human act n p1)"
    using that f(6) by (metis consult_human_True g(5))
  moreover have "passes_checks s view (assignment_allows_tool a n) p1" using c by (simp add: cleared_def)
  ultimately show ?thesis using s e by (auto simp: passes_checks_def f split: option.splits)
qed

text \<open>An execution is one record, with the action of the request; a handler that raises leaves a \<open>FAILED\<close> one.\<close>

lemma executed_is_audited:
  assumes "execute_authorized rq s p = (e, p')"
  obtains r1 where "cp_audit p' = cp_audit p @ [r1]"
    "case e of Inl err \<Rightarrow> (\<exists>msg. err = ToolExecutionError msg) \<and> au_decision r1 = A_FAILED
     | Inr (_, r) \<Rightarrow> r = r1 \<and> au_action_id r1 = tq_action_id rq"
proof (cases e)
  case (Inl err)
  obtain r1 msg where "err = ToolExecutionError msg" "cp_audit p' = cp_audit p @ [r1]" "au_decision r1 = A_FAILED"
    using execute_authorized_effect [where rq = rq and s = s and p = p] assms Inl by auto
  with Inl that show thesis by simp
next
  case (Inr rr)
  obtain res r1 where rr: "rr = (res, r1)" by (metis surj_pair)
  have "cp_audit p' = cp_audit p @ [r1]" "au_action_id r1 = tq_action_id rq"
    using execute_authorized_effect [where rq = rq and s = s and p = p] assms Inr rr by auto
  with Inr rr that show thesis by simp
qed

text \<open>The one way out of the audit: the registered risk of the tool is no risk level, and \<open>RiskLevel(spec.risk)\<close> raises.\<close>

definition bad_risk_tool :: "control_plane \<Rightarrow> string \<Rightarrow> string \<Rightarrow> bool" where
  "bad_risk_tool p n risk \<longleftrightarrow> (\<exists>s. map_of (cp_registry p) n = Some s \<and> tl_risk s = risk \<and> parse_risk risk = None)"

lemma authorize_audited:
  "\<exists>new. cp_audit (snd (control_authorize a n args act p)) = cp_audit p @ new \<and>
    (case fst (control_authorize a n args act p) of
       Inr _ \<Rightarrow> \<exists>rec. new = [rec] \<and> au_action_id rec = act
     | Inl e \<Rightarrow> new = [] \<and> (\<exists>risk. e = BadRisk risk \<and> bad_risk_tool p n risk))"
proof -
  obtain view p1 where v: "(view, p1) = view_from_assignment a n args act p" by (metis surj_pair)
  have p1: "cp_audit p1 = cp_audit p" "av_action_id view = act"
    using view_fields(1,6) [of a n args act p] by (simp_all add: v [symmetric])
  obtain x p2 where x: "resolve (map_of (cp_registry p) n) view (assignment_allows_tool a n) p1 = (x, p2)" by fastforce
  show ?thesis
  proof (cases x)
    case (Inl e)
    with resolve_raises [of "map_of (cp_registry p) n" view "assignment_allows_tool a n" p1 e] x p1 show ?thesis
      by (auto simp: control_authorize_view [OF v] bad_risk_tool_def)
  next
    case (Inr y)
    obtain auth rec where "y = (auth, rec)" by (metis surj_pair)
    with x Inr resolve_effect(1) [of _ view _ p1 auth rec p2] resolve_action [of _ view _ p1 auth rec p2] p1 show ?thesis
      by (auto simp: control_authorize_view [OF v])
  qed
qed

lemma execute_audited:
  "\<exists>new. cp_audit (snd (control_execute a n args act t p)) = cp_audit p @ new \<and>
    (case fst (control_execute a n args act t p) of
       Inr out \<Rightarrow> length new = (if fst (control_authorize a n args act p) \<in> {Inr x |x. ta_decision x = ALLOW} then 2 else 1) \<and>
         to_audit_ref out = au_id (last new) \<and> au_action_id (last new) = act
     | Inl (ToolExecutionError _) \<Rightarrow> length new = 2 \<and> au_decision (last new) = A_FAILED
     | Inl (BadRisk risk) \<Rightarrow> new = [] \<and> bad_risk_tool p n risk)"
proof -
  obtain r p' where x: "control_execute a n args act t p = (r, p')" by (metis surj_pair)
  show ?thesis
    using x
  proof (cases rule: control_execute_cases)
    case (bad_risk s)
    then show ?thesis unfolding x by (auto simp: bad_risk_tool_def)
  next
    case (refused auth rec p1 view)
    have "cp_audit p' = cp_audit p @ [rec]"
      using resolve_effect(1) [OF refused(2)] view_fields(6) [of a n args act p] by (simp add: refused(1) [symmetric])
    moreover have "au_action_id rec = act"
      using resolve_action [OF refused(2)] view_fields(1) [of a n args act p] by (simp add: refused(1) [symmetric])
    moreover have "fst (control_authorize a n args act p) = Inr auth"
      using refused(2) by (simp add: control_authorize_view [OF refused(1)])
    ultimately show ?thesis unfolding x using refused(3)
      by (intro exI [of _ "[rec]"]) (simp add: refused(4) denied_outcome_def)
  next
    case (run s auth rec p1 view p2 rq p3)
    have a2: "cp_audit p2 = cp_audit p @ [rec]"
      using resolve_effect(1) [OF run(3)] view_fields(6) [of a n args act p] by (simp add: run(1) [symmetric])
    have b: "cp_audit p3 = cp_audit p2" "tq_action_id rq = act"
      using build_request_fields [of a view _ p2] view_fields(1) [of a n args act p]
      by (metis fst_conv snd_conv run(1,5))+
    have au: "fst (control_authorize a n args act p) = Inr auth"
      using run(2,3) by (simp add: control_authorize_view [OF run(1)])
    obtain e p4 where ex: "execute_authorized rq s p3 = (e, p4)" by (metis surj_pair)
    obtain r1 where r1: "cp_audit p4 = cp_audit p3 @ [r1]"
      "case e of Inl err \<Rightarrow> (\<exists>msg. err = ToolExecutionError msg) \<and> au_decision r1 = A_FAILED
       | Inr (_, r) \<Rightarrow> r = r1 \<and> au_action_id r1 = tq_action_id rq" by (rule executed_is_audited [OF ex])
    show ?thesis unfolding x
      using run(4,6) ex r1 by (intro exI [of _ "[rec, r1]"]) (auto simp: a2 b au split: sum.splits)
  qed
qed

lemma request_audited:
  "\<exists>new. cp_audit (snd (execute_request rq p)) = cp_audit p @ new \<and>
    (case fst (execute_request rq p) of
       Inr res \<Rightarrow> list_all (\<lambda>rec. au_action_id rec = tq_action_id rq) new \<and>
         (length new = 1 \<and> te_status res \<in> {DENIED, BLOCKED, PENDING_REVIEW} \<or> length new = 2)
     | Inl (ToolExecutionError _) \<Rightarrow> length new = 2 \<and> au_decision (last new) = A_FAILED
     | Inl (BadRisk risk) \<Rightarrow> new = [] \<and> bad_risk_tool p (tq_tool_name rq) risk)"
proof -
  define view where "view = \<lparr>av_request_id = tq_request_id rq, av_action_id = tq_action_id rq, av_agent_id = tq_agent_id rq,
    av_task_id = tq_task_id rq, av_tool_name = tq_tool_name rq, av_arguments = tq_arguments rq,
    av_capabilities = tq_capabilities rq, av_allowed_tools = tq_allowed_tools rq, av_environment = tq_environment rq\<rparr>"
  define spec where "spec = map_of (cp_registry p) (tq_tool_name rq)"
  let ?allowed = "allowed_by (tq_allowed_tools rq) (tq_tool_name rq)"
  obtain x p1 where x: "resolve spec view ?allowed p = (x, p1)" by fastforce
  have run: "execute_request rq p = (case (x, p1) of
         (Inl e, p1) \<Rightarrow> (Inl e, p1)
       | (Inr (auth, r), p1) \<Rightarrow>
           (case spec of
              None \<Rightarrow> (let (res, p2) = denied_result rq auth r p1 in (Inr res, p2))
            | Some s \<Rightarrow>
                if ta_decision auth \<noteq> ALLOW then (let (res, p2) = denied_result rq auth r p1 in (Inr res, p2))
                else (case execute_authorized rq s p1 of
                        (Inl e, p2) \<Rightarrow> (Inl e, p2)
                      | (Inr (res, _), p2) \<Rightarrow> (Inr res, p2))))"
    unfolding execute_request_def Let_def x [symmetric] view_def spec_def ..
  show ?thesis
  proof (cases x)
    case (Inl e)
    with resolve_raises [of spec view ?allowed p e] x show ?thesis by (auto simp: run bad_risk_tool_def spec_def)
  next
    case (Inr y)
    obtain auth rec where y: "y = (auth, rec)" by (metis surj_pair)
    note res = resolve_effect [OF x [unfolded Inr y]] resolve_action [OF x [unfolded Inr y]]
    have act: "au_action_id rec = tq_action_id rq" using res(3) by (simp add: view_def)
    have den: "te_status (fst (denied_result rq auth rec p1)) \<in> {DENIED, BLOCKED, PENDING_REVIEW} \<and>
        cp_audit (snd (denied_result rq auth rec p1)) = cp_audit p1"
      by (simp add: denied_result_def case_prod_unfold Let_def split: tool_decision.split)
    show ?thesis
    proof (cases "ta_decision auth = ALLOW")
      case False
      then have "execute_request rq p = (Inr (fst (denied_result rq auth rec p1)), snd (denied_result rq auth rec p1))"
        by (simp add: run Inr y case_prod_unfold Let_def split: option.split)
      with den res(1) act show ?thesis by simp
    next
      case True
      with res(2) obtain s where s: "spec = Some s" by blast
      obtain e p2 where ex: "execute_authorized rq s p1 = (e, p2)" by fastforce
      obtain r1 where r1: "cp_audit p2 = cp_audit p1 @ [r1]"
        "case e of Inl err \<Rightarrow> (\<exists>msg. err = ToolExecutionError msg) \<and> au_decision r1 = A_FAILED
         | Inr (_, r) \<Rightarrow> r = r1 \<and> au_action_id r1 = tq_action_id rq" by (rule executed_is_audited [OF ex])
      show ?thesis using True r1 res(1) act
        by (intro exI [of _ "[rec, r1]"]) (auto simp: run Inr y s ex split: sum.splits)
    qed
  qed
qed

text \<open>
  C34. The audit trail only grows, and every call through the plane is recorded but for one defect, which the
  statement names: a tool registered with a risk that is no risk level raises \<open>ValueError\<close> in
  \<open>_policy_context\<close> and leaves no record, although the module says that every invocation records one. Any other
  authorization adds one record; a refused execution one as well; an execution that ran adds the
  authorization and the execution, and the \<open>audit_ref\<close> of its outcome is the id of the last record; a handler that
  raises leaves a \<open>FAILED\<close> record. The records are for the action of the call. This holds for
  \<open>authorize\<close>, \<open>execute\<close> and \<open>execute_request\<close>.
\<close>
theorem calls_are_audited:
  "(\<exists>new. cp_audit (snd (control_authorize a n args act p)) = cp_audit p @ new \<and>
    (case fst (control_authorize a n args act p) of
       Inr _ \<Rightarrow> \<exists>rec. new = [rec] \<and> au_action_id rec = act
     | Inl e \<Rightarrow> new = [] \<and> (\<exists>risk. e = BadRisk risk \<and> bad_risk_tool p n risk))) \<and>
  (\<exists>new. cp_audit (snd (control_execute a n args act t p)) = cp_audit p @ new \<and>
    (case fst (control_execute a n args act t p) of
       Inr out \<Rightarrow> length new = (if fst (control_authorize a n args act p) \<in> {Inr x |x. ta_decision x = ALLOW} then 2 else 1) \<and>
         to_audit_ref out = au_id (last new) \<and> au_action_id (last new) = act
     | Inl (ToolExecutionError _) \<Rightarrow> length new = 2 \<and> au_decision (last new) = A_FAILED
     | Inl (BadRisk risk) \<Rightarrow> new = [] \<and> bad_risk_tool p n risk)) \<and>
  (\<exists>new. cp_audit (snd (execute_request rq p)) = cp_audit p @ new \<and>
    (case fst (execute_request rq p) of
       Inr res \<Rightarrow> list_all (\<lambda>rec. au_action_id rec = tq_action_id rq) new \<and>
         (length new = 1 \<and> te_status res \<in> {DENIED, BLOCKED, PENDING_REVIEW} \<or> length new = 2)
     | Inl (ToolExecutionError _) \<Rightarrow> length new = 2 \<and> au_decision (last new) = A_FAILED
     | Inl (BadRisk risk) \<Rightarrow> new = [] \<and> bad_risk_tool p (tq_tool_name rq) risk))"
  by (intro conjI authorize_audited execute_audited request_audited)

text \<open>
  Sessions of calls through the control plane are disciplined: whatever was executed in any
  sequence of calls was within the allowed tools of the assignment it was called for, with
  decision \<open>ALLOW\<close>.
\<close>
theorem plane_sessions_disciplined:
  assumes "((a, n), Inr out) \<in> set (fst (plane.session calls p))" "to_executed out"
  shows "assignment_allows_tool a n \<and> to_decision out = ALLOW"
  by (rule plane.session_disciplined [OF assms])

text \<open>
  The duplicate guard forgets: of three identical calls the second is refused as a duplicate,
  but its own refusal hides the execution, so the third is executed again, and all on the one
  approval the human gave.
\<close>
theorem duplicate_guard_forgets:
  "let first = demo_call demo_plane; second = demo_call (snd first); third = demo_call (snd second)
   in ran_tool first \<and> \<not> ran_tool second \<and> ran_tool third \<and>
     map au_decision (cp_audit (snd third)) = [A_ALLOWED, A_EXECUTED, A_DENIED, A_ALLOWED, A_EXECUTED]"
  by code_simp

text \<open>
  A tool that needs a sandbox but gets none never runs its handler and is audited as
  \<open>CANCELLED\<close>, and yet its outcome says \<open>executed\<close>.
\<close>
theorem sandboxless_call_counts_as_executed:
  assumes "tl_requires_sandbox s" "tq_sandbox_id rq = []"
  shows "\<exists>res r p'. (\<forall>hd. execute_authorized rq (s\<lparr>tl_handler := hd\<rparr>) p = (Inr (res, r), p')) \<and>
    to_executed (outcome_from_result res) \<and> au_decision r = A_CANCELLED"
proof -
  let ?x = "execute_authorized rq s p"
  have same: "execute_authorized rq (s\<lparr>tl_handler := hd\<rparr>) p = ?x" for hd
    using assms by (simp add: execute_authorized_def record_execution_def)
  obtain res r p' where x: "?x = (Inr (res, r), p')" and u: "te_status res = UNAVAILABLE"
    using assms by (simp add: execute_authorized_def raw_result_effect case_prod_unfold Let_def)
  have "au_decision r = A_CANCELLED" using execute_authorized_effect [where rq = rq and s = s and p = p] x u by simp
  then show ?thesis using same x u by (auto simp: outcome_from_result_def)
qed

theorem execution_passes_every_gate_witness:
  "\<exists>out s. fst (demo_call demo_plane) = Inr out \<and> to_executed out \<and> map_of (cp_registry demo_plane) ''file.write'' = Some s \<and>
    assignment_allows_tool demo_coder ''file.write''"
proof -
  obtain out where "fst (demo_call demo_plane) = Inr out" "to_executed out"
    using demo_first by (auto simp: ran_tool_def split: sum.splits)
  with execution_passes_every_gate [OF this [unfolded demo_call_def]] show ?thesis by blast
qed

theorem plane_sessions_disciplined_witness:
  "\<exists>out. ((demo_coder, ''file.write''), Inr out) \<in> set (fst (plane.session [(demo_coder, ''file.write'', [], ''act'', None)] demo_plane)) \<and>
    to_decision out = ALLOW"
proof -
  obtain out where o: "fst (demo_call demo_plane) = Inr out" "to_executed out"
    using demo_first by (auto simp: ran_tool_def split: sum.splits)
  then have "((demo_coder, ''file.write''), Inr out) \<in>
      set (fst (plane.session [(demo_coder, ''file.write'', [], ''act'', None)] demo_plane))"
    by (simp add: case_prod_unfold Let_def demo_call_def)
  with plane_sessions_disciplined [OF this o(2)] show ?thesis by blast
qed

definition demo_request :: tool_request where
  "demo_request = \<lparr>tq_request_id = ''rq'', tq_action_id = ''act'', tq_agent_id = ''coder'', tq_task_id = ''t'',
     tq_tool_name = ''file.write'', tq_arguments = [], tq_capabilities = [], tq_allowed_tools = [],
     tq_phase = [], tq_environment = [], tq_timeout = 30, tq_sandbox_id = [], tq_created_at = 0\<rparr>"

theorem sandboxless_call_counts_as_executed_witness:
  "\<exists>res r p'. (\<forall>hd. execute_authorized demo_request (demo_tool\<lparr>tl_requires_sandbox := True, tl_handler := hd\<rparr>) demo_plane =
      (Inr (res, r), p')) \<and> to_executed (outcome_from_result res)"
proof -
  have "tl_requires_sandbox (demo_tool\<lparr>tl_requires_sandbox := True\<rparr>)" "tq_sandbox_id demo_request = []"
    by (simp_all add: demo_request_def)
  from sandboxless_call_counts_as_executed [OF this, of demo_plane] show ?thesis by auto
qed

end
