(* ===== verification/Workspace.thy ===== *)
theory Workspace
  imports Smorx_Prelude
begin

text \<open>
  The isolated working state of the coding agent: \<open>develop/sandbox.py\<close> (\<open>DevelopmentSandbox\<close>), the
  provider port it may delegate to (\<open>tools/sandbox.py\<close>) and the command runner of the local backend
  (\<open>tools/execution.py\<close>). Outside the code, and arguments of the model: the provider, the
  processes a command starts (which may change the working copy in any way), SHA-256, the UTF-8
  decoder with its replacement character, and the environment variables.

  A working copy is a tree without symbolic links: an association list from the components of a
  path below the root to a file with its bytes or a directory; the root is the entry of the empty
  path. Permissions, limits on names and a full disk are not modelled. Paths are POSIX paths.
\<close>

section \<open>Provider port (tools/sandbox.py)\<close>

datatype sandbox_status =
    SbUNAVAILABLE | SbCREATED | SbREADY | SbRUNNING | SbCHECKPOINTED | SbTERMINATED | SbERRORED

fun sandbox_status_value :: "sandbox_status \<Rightarrow> string" where
  "sandbox_status_value SbUNAVAILABLE = ''UNAVAILABLE''"
| "sandbox_status_value SbCREATED = ''CREATED''"
| "sandbox_status_value SbREADY = ''READY''"
| "sandbox_status_value SbRUNNING = ''RUNNING''"
| "sandbox_status_value SbCHECKPOINTED = ''CHECKPOINTED''"
| "sandbox_status_value SbTERMINATED = ''TERMINATED''"
| "sandbox_status_value SbERRORED = ''ERRORED''"

datatype sandbox_capability = CapEXECUTE | CapCHECKPOINT | CapROLLBACK | CapARTIFACTS | CapNETWORK

fun capability_name :: "sandbox_capability \<Rightarrow> string" where
  "capability_name CapEXECUTE = ''EXECUTE''"
| "capability_name CapCHECKPOINT = ''CHECKPOINT''"
| "capability_name CapROLLBACK = ''ROLLBACK''"
| "capability_name CapARTIFACTS = ''ARTIFACTS''"
| "capability_name CapNETWORK = ''NETWORK''"

record sandbox_result =
  so_status :: sandbox_status
  so_operation :: string
  so_sandbox_id :: string
  so_exit_code :: "int option"
  so_stdout :: string
  so_stderr :: string
  so_duration :: rat
  so_capabilities :: "sandbox_capability list"
  so_message :: string
  so_artifacts :: "(string \<times> pyval) list"

text \<open>
  A provider over its own state \<open>'p\<close>; an operation gives a result or raises (\<open>Inl\<close> the text).
\<close>

record 'p provider =
  pv_create :: "string \<Rightarrow> string \<Rightarrow> sandbox_capability list \<Rightarrow> 'p \<Rightarrow> (string + sandbox_result) \<times> 'p"
  pv_inspect :: "string \<Rightarrow> 'p \<Rightarrow> (string + sandbox_result) \<times> 'p"
  pv_execute :: "string \<Rightarrow> string list \<Rightarrow> rat \<Rightarrow> 'p \<Rightarrow> (string + sandbox_result) \<times> 'p"
  pv_checkpoint :: "string \<Rightarrow> string \<Rightarrow> 'p \<Rightarrow> (string + sandbox_result) \<times> 'p"
  pv_rollback :: "string \<Rightarrow> string \<Rightarrow> 'p \<Rightarrow> (string + sandbox_result) \<times> 'p"
  pv_destroy :: "string \<Rightarrow> 'p \<Rightarrow> (string + sandbox_result) \<times> 'p"
  pv_health :: "'p \<Rightarrow> (string + sandbox_result) \<times> 'p"

text \<open>\<open>SandboxControl\<close> is the provider bound to it, or none.\<close>

type_synonym 'p sandbox_control = "'p provider option"

definition is_available :: "'p sandbox_control \<Rightarrow> bool" where
  "is_available c \<longleftrightarrow> c \<noteq> None"

definition sc_unavailable :: "string \<Rightarrow> sandbox_result" where
  "sc_unavailable operation =
     \<lparr>so_status = SbUNAVAILABLE, so_operation = operation, so_sandbox_id = [], so_exit_code = None,
      so_stdout = [], so_stderr = [], so_duration = 0, so_capabilities = [],
      so_message = ''no sandbox provider bound'', so_artifacts = []\<rparr>"

definition sc_create ::
    "'p sandbox_control \<Rightarrow> string \<Rightarrow> string \<Rightarrow> sandbox_capability list \<Rightarrow> 'p \<Rightarrow> (string + sandbox_result) \<times> 'p" where
  "sc_create c request_id img caps p =
     (case c of None \<Rightarrow> (Inr (sc_unavailable ''create''), p) | Some v \<Rightarrow> pv_create v request_id img caps p)"

definition sc_inspect :: "'p sandbox_control \<Rightarrow> string \<Rightarrow> 'p \<Rightarrow> (string + sandbox_result) \<times> 'p" where
  "sc_inspect c sandbox p =
     (case c of None \<Rightarrow> (Inr (sc_unavailable ''inspect''), p) | Some v \<Rightarrow> pv_inspect v sandbox p)"

definition sc_execute ::
    "'p sandbox_control \<Rightarrow> string \<Rightarrow> string list \<Rightarrow> rat \<Rightarrow> 'p \<Rightarrow> (string + sandbox_result) \<times> 'p" where
  "sc_execute c sandbox command timeout p =
     (case c of None \<Rightarrow> (Inr (sc_unavailable ''execute''), p) | Some v \<Rightarrow> pv_execute v sandbox command timeout p)"

definition sc_checkpoint ::
    "'p sandbox_control \<Rightarrow> string \<Rightarrow> string \<Rightarrow> 'p \<Rightarrow> (string + sandbox_result) \<times> 'p" where
  "sc_checkpoint c sandbox label p =
     (case c of None \<Rightarrow> (Inr (sc_unavailable ''checkpoint''), p) | Some v \<Rightarrow> pv_checkpoint v sandbox label p)"

definition sc_rollback ::
    "'p sandbox_control \<Rightarrow> string \<Rightarrow> string \<Rightarrow> 'p \<Rightarrow> (string + sandbox_result) \<times> 'p" where
  "sc_rollback c sandbox ref p =
     (case c of None \<Rightarrow> (Inr (sc_unavailable ''rollback''), p) | Some v \<Rightarrow> pv_rollback v sandbox ref p)"

definition sc_destroy :: "'p sandbox_control \<Rightarrow> string \<Rightarrow> 'p \<Rightarrow> (string + sandbox_result) \<times> 'p" where
  "sc_destroy c sandbox p =
     (case c of None \<Rightarrow> (Inr (sc_unavailable ''destroy''), p) | Some v \<Rightarrow> pv_destroy v sandbox p)"

definition sc_health :: "'p sandbox_control \<Rightarrow> 'p \<Rightarrow> (string + sandbox_result) \<times> 'p" where
  "sc_health c p = (case c of None \<Rightarrow> (Inr (sc_unavailable ''health''), p) | Some v \<Rightarrow> pv_health v p)"

section \<open>Files\<close>

type_synonym bytes = string

datatype node = NFile bytes | NDir

type_synonym tree = "(string list \<times> node) list"

definition is_file :: "tree \<Rightarrow> string list \<Rightarrow> bool" where
  "is_file t p \<longleftrightarrow> (case map_of t p of Some (NFile _) \<Rightarrow> True | _ \<Rightarrow> False)"

text \<open>Splitting a path at its slashes; empty components and \<open>.\<close> say nothing.\<close>

fun split_path :: "string \<Rightarrow> string list" where
  "split_path [] = [[]]"
| "split_path (c # cs) =
     (if c = CHR ''/'' then [] # split_path cs
      else (case split_path cs of [] \<Rightarrow> [[c]] | p # ps \<Rightarrow> (c # p) # ps))"

definition path_parts :: "string \<Rightarrow> string list" where
  "path_parts s = filter (\<lambda>p. p \<noteq> [] \<and> p \<noteq> ''.'') (split_path s)"

text \<open>\<open>Path(s).name\<close>.\<close>

definition path_name :: "string \<Rightarrow> string" where
  "path_name s = (if path_parts s = [] then [] else last (path_parts s))"

text \<open>\<open>resolve\<close> where there are no links: \<open>..\<close> drops a component, and stays at the file system root.\<close>

definition resolve_step :: "string list \<Rightarrow> string \<Rightarrow> string list" where
  "resolve_step p c = (if c = ''..'' then butlast p else p @ [c])"

definition resolve_from :: "string list \<Rightarrow> string \<Rightarrow> string list" where
  "resolve_from base s =
     foldl resolve_step (if startswith s ''/'' then [] else base) (path_parts s)"

text \<open>The directories above a path, from the root down.\<close>

definition ancestors :: "string list \<Rightarrow> string list list" where
  "ancestors p = map (\<lambda>i. take i p) [0..<length p]"

datatype sandbox_error =
    SandboxUnavailable string
  | SbValueError string
  | SbOSError string
  | ExecutionError string
  | SbAssertionError
  | ProviderRaised string

text \<open>\<open>mkdir(parents=True, exist_ok=True)\<close> of the parent of \<open>p\<close>, and \<open>write_bytes\<close>.\<close>

definition make_parents :: "string list \<Rightarrow> tree \<Rightarrow> sandbox_error + tree" where
  "make_parents p t =
     (if \<exists>a \<in> set (ancestors p). is_file t a
      then Inl (SbOSError (if p \<noteq> [] \<and> is_file t (butlast p) then ''FileExistsError'' else ''NotADirectoryError''))
      else Inr (foldl (\<lambda>u a. AList.update a NDir u) t (ancestors p)))"

definition write_bytes :: "string list \<Rightarrow> bytes \<Rightarrow> tree \<Rightarrow> sandbox_error + tree" where
  "write_bytes p data t =
     (if map_of t p = Some NDir then Inl (SbOSError ''IsADirectoryError'')
      else Inr (AList.update p (NFile data) t))"

text \<open>\<open>str.encode("utf-8")\<close> on the code points below 256.\<close>

definition utf8 :: "string \<Rightarrow> bytes" where
  "utf8 s = concat (map (\<lambda>c. let n = (of_char c :: nat)
     in if n < 128 then [c] else [char_of (192 + n div 64), char_of (128 + n mod 64)]) s)"

text \<open>\<open>str\<close> of a \<open>UUID\<close>: the 32 hexadecimal digits in groups.\<close>

definition uuid_str :: "string \<Rightarrow> string" where
  "uuid_str h = take 8 h @ ''-'' @ take 4 (drop 8 h) @ ''-'' @ take 4 (drop 12 h) @ ''-'' @
     take 4 (drop 16 h) @ ''-'' @ drop 20 h"

section \<open>Running commands (tools/execution.py)\<close>

record command_result =
  cr_exit_code :: int
  cr_stdout :: string
  cr_stderr :: string
  cr_duration :: rat
  cr_timed_out :: bool
  cr_command_name :: string

text \<open>
  How a started process ends for the runner: its pipes close in time and it exits (its return code,
  if the event loop knows it) or lingers and is killed; or the pipes are still open at the timeout,
  and it is killed. Each carries the bytes read.
\<close>

datatype process_end =
    Exited "int option" bytes bytes
  | Lingered bytes bytes
  | TimedOut bytes bytes

record host_ports =
  ho_sha256 :: "bytes \<Rightarrow> string"
  ho_decode :: "bytes \<Rightarrow> string"
  ho_environ :: "(string \<times> string) list"
  ho_start :: "string list \<Rightarrow> (string \<times> string) list \<Rightarrow> string \<Rightarrow> tree \<Rightarrow> string option"
  ho_process :: "string list \<Rightarrow> (string \<times> string) list \<Rightarrow> string \<Rightarrow> rat \<Rightarrow> tree \<Rightarrow> world \<Rightarrow> process_end \<times> tree \<times> world"

definition MINIMAL_ENV_KEYS :: "string list" where
  "MINIMAL_ENV_KEYS = [''PATH'', ''SYSTEMROOT'', ''SystemRoot'', ''TEMP'', ''TMP'']"

definition copy_key :: "(string \<times> string) list \<Rightarrow> (string \<times> string) list \<Rightarrow> string \<Rightarrow> (string \<times> string) list" where
  "copy_key environ env key =
     (case map_of environ key of None \<Rightarrow> env | Some v \<Rightarrow> AList.update key v env)"

definition build_env :: "(string \<times> string) list \<Rightarrow> string list \<Rightarrow> (string \<times> string) list" where
  "build_env environ allowlist =
     (let env = foldl (copy_key environ) [] (if allowlist = [] then MINIMAL_ENV_KEYS else allowlist)
      in if map_of env ''PATH'' = None then copy_key environ env ''PATH'' else env)"

fun process_result :: "host_ports \<Rightarrow> process_end \<Rightarrow> int \<times> string \<times> string \<times> bool" where
  "process_result h (Exited code out err) =
     ((case code of None \<Rightarrow> 0 | Some c \<Rightarrow> c), ho_decode h out, ho_decode h err, False)"
| "process_result h (Lingered out err) = (-1, ho_decode h out, ho_decode h err, True)"
| "process_result h (TimedOut out err) = (-1, ho_decode h out, ho_decode h err, True)"

definition run_command ::
    "host_ports \<Rightarrow> string list \<Rightarrow> rat \<Rightarrow> string \<Rightarrow> string list \<Rightarrow> tree \<Rightarrow> world \<Rightarrow>
     (sandbox_error + command_result) \<times> tree \<times> world" where
  "run_command h args timeout cwd allowlist t w =
     (if args = [] then (Inl (ExecutionError ''command arguments must be non-empty''), t, w)
      else if timeout \<le> 0 then (Inl (ExecutionError ''timeout_seconds must be positive''), t, w)
      else
        let env = build_env (ho_environ h) allowlist in
        case ho_start h args env cwd t of
          Some e \<Rightarrow> (Inl (SbOSError e), t, w)
        | None \<Rightarrow>
            let (started, w1) = now w;
                (e, t', w2) = ho_process h args env cwd timeout t w1;
                (code, out, err, timed_out) = process_result h e;
                (finished, w3) = now w2
            in (Inr \<lparr>cr_exit_code = code, cr_stdout = out, cr_stderr = err,
                  cr_duration = seconds_between started finished, cr_timed_out = timed_out,
                  cr_command_name = path_name (hd args)\<rparr>, t', w3))"

section \<open>The development sandbox (develop/sandbox.py)\<close>

datatype backend = PROVIDER | LOCAL_WORKSPACE

record sandbox_identity =
  si_sandbox_id :: string
  si_backend :: backend
  si_origin :: string
  si_workspace_root :: string
  si_provider_sandbox_id :: string
  si_created_at :: int
  si_capabilities :: "string list"

datatype mutation_operation = WRITE | DELETE

record file_mutation =
  fm_mutation_id :: string
  fm_operation :: mutation_operation
  fm_path :: string
  fm_reason :: string
  fm_before :: string
  fm_after :: string
  fm_at :: int

type_synonym snapshot = "(string list \<times> bytes) list"

text \<open>
  A sandbox with what it works on: the tree below its workspace root, the state of its provider
  and the host. \<open>ds_control\<close> is \<open>None\<close> for \<open>control=None\<close> and \<open>Some None\<close> for an unbound control.
\<close>

record 'p dev_sandbox =
  ds_identity :: sandbox_identity
  ds_control :: "'p sandbox_control option"
  ds_mutations :: "file_mutation list"
  ds_checkpoints :: "(string \<times> snapshot) list"
  ds_destroyed :: bool
  ds_tree :: tree
  ds_provider :: 'p
  ds_world :: world

definition sb_uuid :: "'p dev_sandbox \<Rightarrow> string \<times> 'p dev_sandbox" where
  "sb_uuid sb = (let (u, w) = uuid4 (ds_world sb) in (uuid_str u, sb\<lparr>ds_world := w\<rparr>))"

definition sb_now :: "'p dev_sandbox \<Rightarrow> int \<times> 'p dev_sandbox" where
  "sb_now sb = (let (t, w) = now (ds_world sb) in (t, sb\<lparr>ds_world := w\<rparr>))"

definition is_local :: "'p dev_sandbox \<Rightarrow> bool" where
  "is_local sb \<longleftrightarrow> si_backend (ds_identity sb) = LOCAL_WORKSPACE"

text \<open>
  \<open>create\<close>: \<open>source\<close> is the tree below the resolved origin, or nothing when that is no directory;
  \<open>tempdir\<close> the fresh directory \<open>mkdtemp\<close> makes.
\<close>

definition create_provider ::
    "string \<Rightarrow> 'p sandbox_control \<Rightarrow> string \<Rightarrow> string option \<Rightarrow> 'p \<Rightarrow> world \<Rightarrow>
     (sandbox_error + 'p dev_sandbox) \<times> 'p \<times> world" where
  "create_provider origin c img request_id p w =
     (let (request, w1) = (case request_id of
             Some r \<Rightarrow> if r = [] then (let (u, w') = uuid4 w in (''develop-'' @ uuid_str u, w')) else (r, w)
           | None \<Rightarrow> (let (u, w') = uuid4 w in (''develop-'' @ uuid_str u, w')));
          (r, p1) = sc_create c request img [CapEXECUTE, CapCHECKPOINT, CapROLLBACK] p
      in case r of
           Inl e \<Rightarrow> (Inl (ProviderRaised e), p1, w1)
         | Inr res \<Rightarrow>
             (if so_status res \<notin> {SbCREATED, SbREADY} then
                (Inl (SandboxUnavailable (''provider sandbox creation failed: '' @
                   sandbox_status_value (so_status res) @ '' '' @ so_message res)), p1, w1)
              else
                let (u, w2) = uuid4 w1; (t, w3) = now w2
                in (Inr \<lparr>ds_identity = \<lparr>si_sandbox_id = ''sbx-'' @ uuid_str u, si_backend = PROVIDER,
                       si_origin = origin, si_workspace_root = [], si_provider_sandbox_id = so_sandbox_id res,
                       si_created_at = t, si_capabilities = map capability_name (so_capabilities res)\<rparr>,
                     ds_control = Some c, ds_mutations = [], ds_checkpoints = [], ds_destroyed = False,
                     ds_tree = [], ds_provider = p1, ds_world = w3\<rparr>, p1, w3)))"

definition create_local ::
    "string \<Rightarrow> tree \<Rightarrow> string \<Rightarrow> 'p \<Rightarrow> world \<Rightarrow> (sandbox_error + 'p dev_sandbox) \<times> 'p \<times> world" where
  "create_local origin source tempdir p w =
     (let (u, w1) = uuid4 w; (t, w2) = now w1
      in (Inr \<lparr>ds_identity = \<lparr>si_sandbox_id = ''local-'' @ uuid_str u, si_backend = LOCAL_WORKSPACE,
             si_origin = origin, si_workspace_root = tempdir, si_provider_sandbox_id = [],
             si_created_at = t, si_capabilities = [''EXECUTE'', ''CHECKPOINT'', ''ROLLBACK'', ''MUTATE'']\<rparr>,
           ds_control = None, ds_mutations = [], ds_checkpoints = [], ds_destroyed = False,
           ds_tree = AList.update [] NDir source, ds_provider = p, ds_world = w2\<rparr>, p, w2))"

definition create_sandbox ::
    "string \<Rightarrow> tree option \<Rightarrow> 'p sandbox_control option \<Rightarrow> bool \<Rightarrow> string \<Rightarrow> string option \<Rightarrow> string \<Rightarrow> 'p \<Rightarrow> world \<Rightarrow>
     (sandbox_error + 'p dev_sandbox) \<times> 'p \<times> world" where
  "create_sandbox origin source control allow_local img request_id tempdir p w =
     (case source of
        None \<Rightarrow> (Inl (SandboxUnavailable (''source root is not an existing directory: '' @ origin)), p, w)
      | Some files \<Rightarrow>
          (case control of
             Some c \<Rightarrow>
               (if is_available c then create_provider origin c img request_id p w
                else if \<not> allow_local then
                  (Inl (SandboxUnavailable (''no sandbox provider is bound and local workspaces are not '' @
                     ''permitted; refusing to fabricate an execution environment'')), p, w)
                else create_local origin files tempdir p w)
           | None \<Rightarrow>
               (if \<not> allow_local then
                  (Inl (SandboxUnavailable (''no sandbox provider is bound and local workspaces are not '' @
                     ''permitted; refusing to fabricate an execution environment'')), p, w)
                else create_local origin files tempdir p w)))"

definition workspace_path :: "'p dev_sandbox \<Rightarrow> sandbox_error + string list" where
  "workspace_path sb =
     (if is_local sb then Inr (path_parts (si_workspace_root (ds_identity sb)))
      else Inl (SandboxUnavailable ''workspace_path() is only valid for the LOCAL_WORKSPACE backend''))"

text \<open>The components below the root of the path a caller names, when it stays inside.\<close>

definition resolve_inside :: "string \<Rightarrow> 'p dev_sandbox \<Rightarrow> sandbox_error + string list" where
  "resolve_inside relative sb =
     (case workspace_path sb of
        Inl e \<Rightarrow> Inl e
      | Inr workspace \<Rightarrow>
          (let candidate = resolve_from workspace relative in
           if CHR 0x00 \<in> set relative then Inl (SbValueError ''embedded null byte'')
           else if take (length workspace) candidate = workspace then Inr (drop (length workspace) candidate)
           else Inl (SandboxUnavailable (''path escapes the sandbox workspace: '' @ repr_str relative))))"

datatype content = TextContent string | BytesContent bytes

fun content_bytes :: "content \<Rightarrow> bytes" where
  "content_bytes (TextContent s) = utf8 s"
| "content_bytes (BytesContent b) = b"

definition file_hash :: "host_ports \<Rightarrow> string list \<Rightarrow> tree \<Rightarrow> string" where
  "file_hash h p t = (case map_of t p of Some (NFile b) \<Rightarrow> ho_sha256 h b | _ \<Rightarrow> [])"

definition log_mutation ::
    "mutation_operation \<Rightarrow> string \<Rightarrow> string \<Rightarrow> string \<Rightarrow> string \<Rightarrow> 'p dev_sandbox \<Rightarrow>
     (sandbox_error + file_mutation) \<times> 'p dev_sandbox" where
  "log_mutation oper relative reason hash0 hash1 sb =
     (let (u, sb1) = sb_uuid sb; (t, sb2) = sb_now sb1;
          m = \<lparr>fm_mutation_id = ''mut-'' @ u, fm_operation = oper, fm_path = relative, fm_reason = reason,
               fm_before = hash0, fm_after = hash1, fm_at = t\<rparr>
      in (Inr m, sb2\<lparr>ds_mutations := ds_mutations sb2 @ [m]\<rparr>))"

definition write_file ::
    "host_ports \<Rightarrow> string \<Rightarrow> content \<Rightarrow> string \<Rightarrow> 'p dev_sandbox \<Rightarrow> (sandbox_error + file_mutation) \<times> 'p dev_sandbox" where
  "write_file h relative content reason sb =
     (case resolve_inside relative sb of
        Inl e \<Rightarrow> (Inl e, sb)
      | Inr target \<Rightarrow>
          (let hash0 = (if is_file (ds_tree sb) target then file_hash h target (ds_tree sb) else []);
               data = content_bytes content
           in case make_parents target (ds_tree sb) of
                Inl e \<Rightarrow> (Inl e, sb)
              | Inr t1 \<Rightarrow>
                  (case write_bytes target data t1 of
                     Inl e \<Rightarrow> (Inl e, sb\<lparr>ds_tree := t1\<rparr>)
                   | Inr t2 \<Rightarrow> log_mutation WRITE relative reason hash0 (ho_sha256 h data) (sb\<lparr>ds_tree := t2\<rparr>))))"

definition delete_file ::
    "host_ports \<Rightarrow> string \<Rightarrow> string \<Rightarrow> 'p dev_sandbox \<Rightarrow> (sandbox_error + file_mutation) \<times> 'p dev_sandbox" where
  "delete_file h relative reason sb =
     (case resolve_inside relative sb of
        Inl e \<Rightarrow> (Inl e, sb)
      | Inr target \<Rightarrow>
          (if \<not> is_file (ds_tree sb) target then
             (Inl (SandboxUnavailable (''cannot delete missing file: '' @ repr_str relative)), sb)
           else log_mutation DELETE relative reason (file_hash h target (ds_tree sb)) []
                  (sb\<lparr>ds_tree := AList.delete target (ds_tree sb)\<rparr>)))"

definition read_file :: "host_ports \<Rightarrow> string \<Rightarrow> 'p dev_sandbox \<Rightarrow> sandbox_error + string" where
  "read_file h relative sb =
     (case resolve_inside relative sb of
        Inl e \<Rightarrow> Inl e
      | Inr target \<Rightarrow>
          (case map_of (ds_tree sb) target of
             Some (NFile b) \<Rightarrow> Inr (ho_decode h b)
           | _ \<Rightarrow> Inl (SandboxUnavailable (''no such file in workspace: '' @ repr_str relative))))"

definition provider_command :: "sandbox_result \<Rightarrow> string list \<Rightarrow> command_result" where
  "provider_command res command =
     \<lparr>cr_exit_code = (case so_exit_code res of Some c \<Rightarrow> c | None \<Rightarrow> -1), cr_stdout = so_stdout res,
      cr_stderr = so_stderr res, cr_duration = so_duration res, cr_timed_out = False,
      cr_command_name = (case command of [] \<Rightarrow> [] | c # _ \<Rightarrow> path_name c)\<rparr>"

definition execute_in ::
    "host_ports \<Rightarrow> string list \<Rightarrow> rat \<Rightarrow> string list \<Rightarrow> 'p dev_sandbox \<Rightarrow> (sandbox_error + command_result) \<times> 'p dev_sandbox" where
  "execute_in h command timeout allowlist sb =
     (if ds_destroyed sb then (Inl (SandboxUnavailable ''sandbox has been destroyed''), sb)
      else if \<not> is_local sb then
        (case ds_control sb of
           None \<Rightarrow> (Inl SbAssertionError, sb)
         | Some c \<Rightarrow>
             (let (r, p) = sc_execute c (si_provider_sandbox_id (ds_identity sb)) command timeout (ds_provider sb)
              in (case r of Inl e \<Rightarrow> Inl (ProviderRaised e) | Inr res \<Rightarrow> Inr (provider_command res command),
                  sb\<lparr>ds_provider := p\<rparr>)))
      else
        let (r, t, w) = run_command h command timeout (si_workspace_root (ds_identity sb)) allowlist
              (ds_tree sb) (ds_world sb)
        in (r, sb\<lparr>ds_tree := t, ds_world := w\<rparr>))"

text \<open>The files a checkpoint captures, in the order of their paths.\<close>

definition captured :: "string list \<Rightarrow> string list \<Rightarrow> bool" where
  "captured workspace p \<longleftrightarrow> p \<noteq> [] \<and> ''__pycache__'' \<notin> set (workspace @ p)"

definition take_snapshot :: "string list \<Rightarrow> tree \<Rightarrow> snapshot" where
  "take_snapshot workspace t =
     List.map_filter (\<lambda>p. case map_of t p of Some (NFile b) \<Rightarrow> Some (p, b) | _ \<Rightarrow> None)
       (sort (filter (captured workspace) (dedup (map fst t))))"

definition checkpoint ::
    "string \<Rightarrow> 'p dev_sandbox \<Rightarrow> (sandbox_error + string) \<times> 'p dev_sandbox" where
  "checkpoint label sb =
     (case workspace_path sb of
        Inr workspace \<Rightarrow>
          (Inr label, sb\<lparr>ds_checkpoints := AList.update label (take_snapshot workspace (ds_tree sb)) (ds_checkpoints sb)\<rparr>)
      | Inl _ \<Rightarrow>
          (case ds_control sb of
             None \<Rightarrow> (Inl SbAssertionError, sb)
           | Some c \<Rightarrow>
               (let (r, p) = sc_checkpoint c (si_provider_sandbox_id (ds_identity sb)) label (ds_provider sb);
                    sb1 = sb\<lparr>ds_provider := p\<rparr>
                in case r of
                     Inl e \<Rightarrow> (Inl (ProviderRaised e), sb1)
                   | Inr res \<Rightarrow>
                       (if so_status res \<noteq> SbCHECKPOINTED then
                          (Inl (SandboxUnavailable (''provider checkpoint failed: '' @ so_message res)), sb1)
                        else (Inr (if so_sandbox_id res \<noteq> [] then so_sandbox_id res else label), sb1)))))"

text \<open>Writing the captured files back, one after the other; the first error ends it.\<close>

fun restore_files :: "snapshot \<Rightarrow> tree \<Rightarrow> (sandbox_error + unit) \<times> tree" where
  "restore_files [] t = (Inr (), t)"
| "restore_files ((p, data) # rest) t =
     (case make_parents p t of
        Inl e \<Rightarrow> (Inl e, t)
      | Inr t1 \<Rightarrow> (case write_bytes p data t1 of Inl e \<Rightarrow> (Inl e, t1) | Inr t2 \<Rightarrow> restore_files rest t2))"

definition remove_extra :: "snapshot \<Rightarrow> string list \<Rightarrow> tree \<Rightarrow> tree" where
  "remove_extra snap workspace t =
     fold AList.delete
       (sort_key (join ''/'')
         (filter (\<lambda>p. captured workspace p \<and> is_file t p \<and> p \<notin> set (map fst snap)) (dedup (map fst t)))) t"

definition rollback :: "string \<Rightarrow> 'p dev_sandbox \<Rightarrow> (sandbox_error + unit) \<times> 'p dev_sandbox" where
  "rollback ref sb =
     (case workspace_path sb of
        Inr workspace \<Rightarrow>
          (case map_of (ds_checkpoints sb) ref of
             None \<Rightarrow> (Inl (SandboxUnavailable (''unknown checkpoint: '' @ repr_str ref)), sb)
           | Some snap \<Rightarrow>
               (let (r, t) = restore_files snap (remove_extra snap workspace (ds_tree sb))
                in (r, sb\<lparr>ds_tree := t\<rparr>)))
      | Inl _ \<Rightarrow>
          (case ds_control sb of
             None \<Rightarrow> (Inl SbAssertionError, sb)
           | Some c \<Rightarrow>
               (let (r, p) = sc_rollback c (si_provider_sandbox_id (ds_identity sb)) ref (ds_provider sb);
                    sb1 = sb\<lparr>ds_provider := p\<rparr>
                in case r of
                     Inl e \<Rightarrow> (Inl (ProviderRaised e), sb1)
                   | Inr res \<Rightarrow>
                       (if so_status res = SbUNAVAILABLE then
                          (Inl (SandboxUnavailable (''provider rollback failed: '' @ so_message res)), sb1)
                        else (Inr (), sb1)))))"

definition destroy_sandbox :: "'p dev_sandbox \<Rightarrow> (sandbox_error + unit) \<times> 'p dev_sandbox" where
  "destroy_sandbox sb =
     (if ds_destroyed sb then (Inr (), sb)
      else if is_local sb then (Inr (), sb\<lparr>ds_tree := [], ds_destroyed := True\<rparr>)
      else (case ds_control sb of
          None \<Rightarrow> (Inl SbAssertionError, sb)
        | Some c \<Rightarrow>
            (let (r, p) = sc_destroy c (si_provider_sandbox_id (ds_identity sb)) (ds_provider sb);
                 sb1 = sb\<lparr>ds_provider := p\<rparr>
             in case r of Inl e \<Rightarrow> (Inl (ProviderRaised e), sb1)
                        | Inr _ \<Rightarrow> (Inr (), sb1\<lparr>ds_destroyed := True\<rparr>))))"

end
