(* ===== verification/Checkpoints.thy ===== *)
theory Checkpoints
  imports Workspace
begin

text \<open>
  What the development sandbox promises of its local working copy: a rollback brings back the
  captured files whatever happened in between, and the mutation log is an exact account of what
  was written and deleted. A session with a sandbox is a sequence of its operations.
\<close>

section \<open>Sessions\<close>

datatype sandbox_op =
    OpWrite string content string
  | OpDelete string string
  | OpExecute "string list" rat "string list"
  | OpCheckpoint string
  | OpRollback string
  | OpDestroy

fun sandbox_step :: "host_ports \<Rightarrow> sandbox_op \<Rightarrow> 'p dev_sandbox \<Rightarrow> 'p dev_sandbox" where
  "sandbox_step h (OpWrite path content reason) sb = snd (write_file h path content reason sb)"
| "sandbox_step h (OpDelete path reason) sb = snd (delete_file h path reason sb)"
| "sandbox_step h (OpExecute command timeout allowlist) sb = snd (execute_in h command timeout allowlist sb)"
| "sandbox_step h (OpCheckpoint label) sb = snd (checkpoint label sb)"
| "sandbox_step h (OpRollback ref) sb = snd (rollback ref sb)"
| "sandbox_step h OpDestroy sb = snd (destroy_sandbox sb)"

definition sandbox_run :: "host_ports \<Rightarrow> sandbox_op list \<Rightarrow> 'p dev_sandbox \<Rightarrow> 'p dev_sandbox" where
  "sandbox_run h ops sb = fold (sandbox_step h) ops sb"

section \<open>Trees\<close>

text \<open>What a path holds: the bytes of a file, or nothing.\<close>

definition content_at :: "tree \<Rightarrow> string list \<Rightarrow> bytes option" where
  "content_at t p = (case map_of t p of Some (NFile b) \<Rightarrow> Some b | _ \<Rightarrow> None)"

lemma is_file_content: "is_file t p \<longleftrightarrow> content_at t p \<noteq> None"
  by (simp add: is_file_def content_at_def split: option.splits node.splits)

lemma file_hash_content: "file_hash h p t = (case content_at t p of Some b \<Rightarrow> ho_sha256 h b | None \<Rightarrow> [])"
  by (simp add: file_hash_def content_at_def split: option.splits node.splits)

lemma content_update [simp]:
  "content_at (AList.update p (NFile b) t) = (content_at t)(p \<mapsto> b)"
  "content_at (AList.update p NDir t) = (content_at t)(p := None)"
  by (auto simp: content_at_def fun_eq_iff)

lemma content_delete [simp]: "content_at (AList.delete p t) = (content_at t)(p := None)"
  by (auto simp: content_at_def fun_eq_iff delete_conv)

lemma content_make_dirs:
  "\<forall>a \<in> set as. content_at t a = None \<Longrightarrow> content_at (foldl (\<lambda>u a. AList.update a NDir u) t as) = content_at t"
proof (induction as arbitrary: t)
  case (Cons a as)
  then have "content_at (AList.update a NDir t) = content_at t" by (simp add: fun_upd_idem)
  with Cons show ?case by simp
qed simp

lemma content_outside: "p \<notin> fst ` set t \<Longrightarrow> content_at t p = None"
  using map_of_eq_None_iff [of t p] by (simp add: content_at_def)

text \<open>Making the parents of a path changes no file; writing changes the one file.\<close>

lemma make_parents_content:
  assumes "make_parents p t = Inr t'"
  shows "content_at t' = content_at t"
proof -
  have "\<forall>a \<in> set (ancestors p). content_at t a = None"
    and "t' = foldl (\<lambda>u a. AList.update a NDir u) t (ancestors p)"
    using assms by (auto simp: make_parents_def is_file_content split: if_splits)
  then show ?thesis by (simp add: content_make_dirs)
qed

lemma write_bytes_content: "write_bytes p data t = Inr t' \<Longrightarrow> content_at t' = (content_at t)(p \<mapsto> data)"
  by (auto simp: write_bytes_def split: if_splits)

lemma write_bytes_Inl: "write_bytes p data t = Inl e \<Longrightarrow> content_at t p = None"
  by (simp add: write_bytes_def content_at_def split: if_splits)

section \<open>Snapshots\<close>

lemma snapshot_map_of:
  assumes "distinct ps"
  shows "map_of (List.map_filter (\<lambda>p. map_option (Pair p) (f p)) ps) p = (if p \<in> set ps then f p else None)"
  using assms by (induction ps) (auto simp: map_filter_simps split: option.splits)

lemma snapshot_content:
  "map_of (take_snapshot ws t) p = (if captured ws p then content_at t p else None)"
proof -
  let ?ps = "sort (filter (captured ws) (dedup (map fst t)))"
  have "(\<lambda>p. case map_of t p of Some (NFile b) \<Rightarrow> Some (p, b) | _ \<Rightarrow> None) =
      (\<lambda>p. map_option (Pair p) (content_at t p))"
    by (auto simp: content_at_def fun_eq_iff split: option.splits node.splits)
  then have "map_of (take_snapshot ws t) p = (if p \<in> set ?ps then content_at t p else None)"
    unfolding take_snapshot_def by (simp add: snapshot_map_of)
  then show ?thesis using content_outside [of p t] by auto
qed

lemma snapshot_distinct: "distinct (map fst (take_snapshot ws t))"
proof -
  have "map fst (List.map_filter (\<lambda>p. map_option (Pair p) (f p)) ps) = filter (\<lambda>p. f p \<noteq> None) ps"
    for f :: "string list \<Rightarrow> bytes option" and ps
    by (induction ps) (auto simp: map_filter_simps split: option.splits)
  moreover have "(\<lambda>p. case map_of t p of Some (NFile b) \<Rightarrow> Some (p, b) | _ \<Rightarrow> None) =
      (\<lambda>p. map_option (Pair p) (content_at t p))"
    by (auto simp: content_at_def fun_eq_iff split: option.splits node.splits)
  ultimately show ?thesis by (simp add: take_snapshot_def)
qed

lemma restore_content:
  "restore_files snap t = (Inr u, t') \<Longrightarrow> distinct (map fst snap) \<Longrightarrow>
    content_at t' p = (case map_of snap p of Some b \<Rightarrow> Some b | None \<Rightarrow> content_at t p)"
proof (induction snap t rule: restore_files.induct)
  case (2 q data rest t)
  then obtain t1 t2 where t: "make_parents q t = Inr t1" "write_bytes q data t1 = Inr t2"
    "restore_files rest t2 = (Inr u, t')"
    by (auto split: sum.splits)
  from 2 t have "content_at t' p = (case map_of rest p of Some b \<Rightarrow> Some b | None \<Rightarrow> content_at t2 p)" by simp
  moreover have "content_at t2 = (content_at t)(q \<mapsto> data)"
    using t make_parents_content write_bytes_content by metis
  moreover have "map_of rest q = None" using "2.prems"(2) by (simp add: map_of_eq_None_iff)
  ultimately show ?case by (cases "p = q") (auto split: option.split)
qed simp

lemma content_fold_delete: "content_at (fold AList.delete ps t) p = (if p \<in> set ps then None else content_at t p)"
  by (induction ps arbitrary: t) auto

lemma remove_extra_content:
  "content_at (remove_extra snap ws t) p =
     (if captured ws p \<and> p \<notin> fst ` set snap then None else content_at t p)"
proof -
  show ?thesis using content_outside [of p t] by (auto simp: remove_extra_def content_fold_delete is_file_content)
qed


section \<open>Operations\<close>

lemma sandbox_hosts [simp]:
  "ds_identity (snd (sb_uuid sb)) = ds_identity sb" "ds_identity (snd (sb_now sb)) = ds_identity sb"
  "ds_tree (snd (sb_uuid sb)) = ds_tree sb" "ds_tree (snd (sb_now sb)) = ds_tree sb"
  "ds_checkpoints (snd (sb_uuid sb)) = ds_checkpoints sb" "ds_checkpoints (snd (sb_now sb)) = ds_checkpoints sb"
  "ds_mutations (snd (sb_uuid sb)) = ds_mutations sb" "ds_mutations (snd (sb_now sb)) = ds_mutations sb"
  by (simp_all add: sb_uuid_def sb_now_def case_prod_unfold Let_def)

lemma log_mutation_effect:
  "ds_identity (snd (log_mutation oper path reason h0 h1 sb)) = ds_identity sb"
  "ds_tree (snd (log_mutation oper path reason h0 h1 sb)) = ds_tree sb"
  "ds_checkpoints (snd (log_mutation oper path reason h0 h1 sb)) = ds_checkpoints sb"
  "\<exists>m. fst (log_mutation oper path reason h0 h1 sb) = Inr m \<and> fm_path m = path \<and> fm_reason m = reason \<and>
     fm_operation m = oper \<and> fm_before m = h0 \<and> fm_after m = h1 \<and>
     ds_mutations (snd (log_mutation oper path reason h0 h1 sb)) = ds_mutations sb @ [m]"
  by (simp_all add: log_mutation_def case_prod_unfold Let_def)

text \<open>No operation changes the identity, and only a checkpoint under its label changes a checkpoint.\<close>

lemma step_identity: "ds_identity (sandbox_step h op sb) = ds_identity sb"
proof (cases op)
  case (OpWrite path content reason)
  then show ?thesis
    by (simp add: write_file_def log_mutation_effect Let_def split: sum.split)
next
  case (OpDelete path reason)
  then show ?thesis by (simp add: delete_file_def log_mutation_effect Let_def split: sum.split)
qed (simp_all add: execute_in_def checkpoint_def rollback_def destroy_sandbox_def case_prod_unfold Let_def
    split: sum.split option.split)

lemma step_checkpoints:
  assumes "op \<noteq> OpCheckpoint label"
  shows "map_of (ds_checkpoints (sandbox_step h op sb)) label = map_of (ds_checkpoints sb) label"
proof (cases op)
  case (OpWrite path content reason)
  then show ?thesis by (simp add: write_file_def log_mutation_effect Let_def split: sum.split)
next
  case (OpDelete path reason)
  then show ?thesis by (simp add: delete_file_def log_mutation_effect Let_def split: sum.split)
next
  case (OpCheckpoint other)
  with assms show ?thesis by (simp add: checkpoint_def case_prod_unfold Let_def split: sum.split option.split)
qed (simp_all add: execute_in_def rollback_def destroy_sandbox_def case_prod_unfold Let_def
    split: sum.split option.split)

lemma run_identity: "ds_identity (sandbox_run h ops sb) = ds_identity sb"
  unfolding sandbox_run_def by (induction ops arbitrary: sb) (simp_all add: step_identity)

lemma run_checkpoints:
  "OpCheckpoint label \<notin> set ops \<Longrightarrow>
    map_of (ds_checkpoints (sandbox_run h ops sb)) label = map_of (ds_checkpoints sb) label"
  unfolding sandbox_run_def by (induction ops arbitrary: sb) (auto simp: step_checkpoints)

lemma workspace_cong: "ds_identity sb' = ds_identity sb \<Longrightarrow> workspace_path sb' = workspace_path sb"
  by (simp add: workspace_path_def is_local_def)

lemma resolve_cong: "ds_identity sb' = ds_identity sb \<Longrightarrow> resolve_inside path sb' = resolve_inside path sb"
  using workspace_cong [of sb' sb] by (simp add: resolve_inside_def)

lemma rollback_content:
  assumes "workspace_path sb = Inr ws" and "map_of (ds_checkpoints sb) ref = Some (take_snapshot ws t)"
    and "rollback ref sb = (Inr (), sb')"
  shows "content_at (ds_tree sb') p = (if captured ws p then content_at t p else content_at (ds_tree sb) p)"
proof -
  obtain t' where r: "restore_files (take_snapshot ws t) (remove_extra (take_snapshot ws t) ws (ds_tree sb)) = (Inr (), t')"
    and t': "ds_tree sb' = t'"
    using assms by (auto simp: rollback_def case_prod_unfold Let_def prod_eq_iff)
  have "p \<in> fst ` set (take_snapshot ws t) \<longleftrightarrow> map_of (take_snapshot ws t) p \<noteq> None"
    by (simp add: map_of_eq_None_iff)
  then show ?thesis
    unfolding t' restore_content [OF r snapshot_distinct]
    by (simp add: remove_extra_content snapshot_content split: option.split)
qed

text \<open>
  A log accounts for the files of a tree: each entry names the hash its file had and the hash it
  has then (none for no file), and following the entries leads to the hashes of the tree.
\<close>

fun follow_log ::
    "(string \<Rightarrow> string list) \<Rightarrow> file_mutation list \<Rightarrow> (string list \<Rightarrow> string) \<Rightarrow> (string list \<Rightarrow> string) option" where
  "follow_log target [] hashes = Some hashes"
| "follow_log target (m # ms) hashes =
     (if fm_before m = hashes (target (fm_path m))
      then follow_log target ms (hashes(target (fm_path m) := fm_after m)) else None)"

lemma follow_log_append:
  "follow_log target (ms @ ms') hashes =
     (case follow_log target ms hashes of None \<Rightarrow> None | Some hashes' \<Rightarrow> follow_log target ms' hashes')"
  by (induction ms arbitrary: hashes) simp_all

definition hashes_of :: "host_ports \<Rightarrow> tree \<Rightarrow> string list \<Rightarrow> string" where
  "hashes_of h t p = file_hash h p t"

lemma hashes_cong: "content_at t = content_at t' \<Longrightarrow> hashes_of h t = hashes_of h t'"
  by (simp add: hashes_of_def file_hash_content fun_eq_iff)


lemma step_accounts:
  assumes "op \<in> {OpWrite path content reason, OpDelete path reason}"
    and target: "\<And>p. resolve_inside path sb = Inr p \<Longrightarrow> target path = p"
  shows "\<exists>ms. ds_mutations (sandbox_step h op sb) = ds_mutations sb @ ms \<and>
    follow_log target ms (hashes_of h (ds_tree sb)) = Some (hashes_of h (ds_tree (sandbox_step h op sb)))"
proof (cases "resolve_inside path sb")
  case (Inl e)
  with assms show ?thesis by (auto simp: write_file_def delete_file_def)
next
  case (Inr p)
  note tp = target [OF Inr]
  from assms(1) consider (w) "op = OpWrite path content reason" | (d) "op = OpDelete path reason" by auto
  then show ?thesis
  proof cases
    case w
    show ?thesis
    proof (cases "make_parents p (ds_tree sb)")
      case (Inl e)
      with w Inr show ?thesis by (simp add: write_file_def Let_def)
    next
      case parents: (Inr t1)
      note c1 = make_parents_content [OF parents]
      show ?thesis
      proof (cases "write_bytes p (content_bytes content) t1")
        case (Inl e)
        with w Inr parents show ?thesis by (simp add: write_file_def Let_def hashes_cong [OF c1])
      next
        case written: (Inr t2)
        have "hashes_of h t2 = (hashes_of h (ds_tree sb))(p := ho_sha256 h (content_bytes content))"
          using write_bytes_content [OF written] c1 by (simp add: hashes_of_def file_hash_content fun_eq_iff)
        moreover have "(if is_file (ds_tree sb) p then file_hash h p (ds_tree sb) else []) = hashes_of h (ds_tree sb) p"
          by (simp add: hashes_of_def is_file_content file_hash_content)
        moreover obtain m where "fm_path m = path" "fm_before m = hashes_of h (ds_tree sb) p"
          "fm_after m = ho_sha256 h (content_bytes content)"
          "ds_mutations (sandbox_step h op sb) = ds_mutations sb @ [m]" "ds_tree (sandbox_step h op sb) = t2"
          using w Inr parents written calculation(2)
            log_mutation_effect(4) [of WRITE path reason "hashes_of h (ds_tree sb) p"
              "ho_sha256 h (content_bytes content)" "sb\<lparr>ds_tree := t2\<rparr>"]
          by (auto simp: write_file_def log_mutation_effect Let_def)
        ultimately show ?thesis using tp by (intro exI [of _ "[m]"]) simp
      qed
    qed
  next
    case d
    show ?thesis
    proof (cases "is_file (ds_tree sb) p")
      case False
      with d Inr show ?thesis by (simp add: delete_file_def)
    next
      case True
      have "hashes_of h (AList.delete p (ds_tree sb)) = (hashes_of h (ds_tree sb))(p := [])"
        by (simp add: hashes_of_def file_hash_content fun_eq_iff)
      moreover obtain m where "fm_path m = path" "fm_before m = hashes_of h (ds_tree sb) p" "fm_after m = []"
        "ds_mutations (sandbox_step h op sb) = ds_mutations sb @ [m]"
        "ds_tree (sandbox_step h op sb) = AList.delete p (ds_tree sb)"
        using d Inr True
          log_mutation_effect(4) [of DELETE path reason "hashes_of h (ds_tree sb) p" "[]"
            "sb\<lparr>ds_tree := AList.delete p (ds_tree sb)\<rparr>"]
        by (auto simp: delete_file_def log_mutation_effect hashes_of_def)
      ultimately show ?thesis using tp by (intro exI [of _ "[m]"]) simp
    qed
  qed
qed


definition session_target :: "'p dev_sandbox \<Rightarrow> string \<Rightarrow> string list" where
  "session_target sb path = (case resolve_inside path sb of Inr p \<Rightarrow> p | Inl _ \<Rightarrow> [])"

text \<open>The operations that touch files by name only, and the checkpoints.\<close>

fun named_op :: "sandbox_op \<Rightarrow> bool" where
  "named_op (OpWrite _ _ _) = True"
| "named_op (OpDelete _ _) = True"
| "named_op (OpCheckpoint _) = True"
| "named_op _ = False"

lemma checkpoint_keeps:
  "ds_tree (snd (checkpoint label sb)) = ds_tree sb \<and> ds_mutations (snd (checkpoint label sb)) = ds_mutations sb"
  by (simp add: checkpoint_def case_prod_unfold Let_def split: sum.split option.split)

lemma named_step_accounts:
  assumes "named_op op" and "ds_identity sb = ds_identity sb0"
  shows "\<exists>ms. ds_mutations (sandbox_step h op sb) = ds_mutations sb @ ms \<and>
    follow_log (session_target sb0) ms (hashes_of h (ds_tree sb)) = Some (hashes_of h (ds_tree (sandbox_step h op sb)))"
proof -
  have target: "resolve_inside path sb = Inr p \<Longrightarrow> session_target sb0 path = p" for path p
    using resolve_cong [OF assms(2)] by (simp add: session_target_def)
  show ?thesis
  proof (cases op)
    case (OpWrite path content reason)
    then show ?thesis by (intro step_accounts [where path = path] target) auto
  next
    case (OpDelete path reason)
    then show ?thesis by (intro step_accounts [where path = path] target) auto
  next
    case (OpCheckpoint label)
    then show ?thesis by (intro exI [of _ "[]"]) (simp add: checkpoint_keeps)
  qed (use assms(1) in auto)
qed

lemma named_run_accounts:
  "list_all named_op ops \<Longrightarrow> ds_identity sb = ds_identity sb0 \<Longrightarrow>
    \<exists>ms. ds_mutations (sandbox_run h ops sb) = ds_mutations sb @ ms \<and>
      follow_log (session_target sb0) ms (hashes_of h (ds_tree sb)) = Some (hashes_of h (ds_tree (sandbox_run h ops sb)))"
proof (induction ops arbitrary: sb)
  case Nil
  then show ?case by (simp add: sandbox_run_def)
next
  case (Cons op ops)
  let ?sb = "sandbox_step h op sb"
  have rest: "sandbox_run h (op # ops) sb = sandbox_run h ops ?sb" by (simp add: sandbox_run_def)
  obtain ms where ms: "ds_mutations ?sb = ds_mutations sb @ ms"
    "follow_log (session_target sb0) ms (hashes_of h (ds_tree sb)) = Some (hashes_of h (ds_tree ?sb))"
    using named_step_accounts [of op sb sb0 h] Cons.prems by auto
  obtain ms' where "ds_mutations (sandbox_run h ops ?sb) = ds_mutations ?sb @ ms'"
    "follow_log (session_target sb0) ms' (hashes_of h (ds_tree ?sb)) = Some (hashes_of h (ds_tree (sandbox_run h ops ?sb)))"
    using Cons.IH [of ?sb] Cons.prems step_identity [of h op sb] by auto
  with ms show ?case unfolding rest by (intro exI [of _ "ms @ ms'"]) (simp add: follow_log_append)
qed

section \<open>A concrete workspace\<close>

definition demo_ports :: host_ports where
  "demo_ports = \<lparr>ho_sha256 = (\<lambda>b. ''h'' @ b), ho_decode = (\<lambda>b. b), ho_environ = [(''PATH'', ''/bin'')],
     ho_start = (\<lambda>_ _ _ _. None),
     ho_process = (\<lambda>args _ _ _ t w. (Exited (Some 0) [] [], AList.update [''log''] (NFile ''ran'') t, w))\<rparr>"

definition demo_sandbox :: "unit dev_sandbox" where
  "demo_sandbox =
     \<lparr>ds_identity = \<lparr>si_sandbox_id = ''local-1'', si_backend = LOCAL_WORKSPACE, si_origin = ''/src'',
        si_workspace_root = ''/tmp/w'', si_provider_sandbox_id = [], si_created_at = 0, si_capabilities = []\<rparr>,
      ds_control = None, ds_mutations = [], ds_checkpoints = [], ds_destroyed = False,
      ds_tree = [([], NDir), ([''a''], NFile ''one''), ([''b''], NFile ''two'')], ds_provider = (),
      ds_world = \<lparr>clock_at = int, ticks = 0, uuid_at = (\<lambda>_. ''0123456789abcdef0123456789abcdef''), uuids = 0\<rparr>\<rparr>"

definition demo_ops :: "sandbox_op list" where
  "demo_ops = [OpWrite ''x/../a'' (TextContent ''new'') ''edit'', OpDelete ''b'' ''cleanup'',
     OpExecute [''make''] 5 [], OpWrite ''../secret'' (TextContent ''no'') ''escape'']"

section \<open>Properties\<close>

text \<open>
  C26. A rollback brings back the checkpoint: whatever was written, deleted, executed, captured
  under other labels or rolled back in between, when a rollback to a checkpoint returns, every
  captured path holds what it held when the checkpoint was taken, and every path that is not
  captured (below \<open>__pycache__\<close>) holds what it held before the rollback.
\<close>
theorem rollback_restores:
  assumes "workspace_path sb = Inr ws"
    and "OpCheckpoint label \<notin> set ops"
    and "rollback label (sandbox_run h ops (snd (checkpoint label sb))) = (Inr (), sb')"
  shows "content_at (ds_tree sb') p =
    (if captured ws p then content_at (ds_tree sb) p
     else content_at (ds_tree (sandbox_run h ops (snd (checkpoint label sb)))) p)"
proof (rule rollback_content [OF _ _ assms(3)])
  have "ds_identity (snd (checkpoint label sb)) = ds_identity sb"
    using step_identity [of h "OpCheckpoint label"] by simp
  then show "workspace_path (sandbox_run h ops (snd (checkpoint label sb))) = Inr ws"
    using assms(1) workspace_cong run_identity by metis
  show "map_of (ds_checkpoints (sandbox_run h ops (snd (checkpoint label sb)))) label =
      Some (take_snapshot ws (ds_tree sb))"
    using assms(1) by (simp add: checkpoint_def run_checkpoints [OF assms(2)])
qed

text \<open>
  C27. The mutation log is an exact account: after any writes and deletes, refused ones included,
  the entries added to the log lead from the hashes of all files before to the hashes of all files
  after, each entry naming the hash its file had and the one it has then. Commands and rollbacks change files
  without an entry: the operations are those of \<open>named_op\<close>.
\<close>
theorem mutation_log_accounts:
  assumes "list_all named_op ops"
  shows "\<exists>ms. ds_mutations (sandbox_run h ops sb) = ds_mutations sb @ ms \<and>
    follow_log (session_target sb) ms (hashes_of h (ds_tree sb)) = Some (hashes_of h (ds_tree (sandbox_run h ops sb)))"
  using named_run_accounts [OF assms] by blast

text \<open>
  A rollback can fail and leave the working copy half restored: after the agent deletes the
  file \<open>a\<close>, writes \<open>a/c\<close> and changes \<open>b\<close>, all through the sandbox, the rollback raises
  \<open>IsADirectoryError\<close> (the directory \<open>a\<close> stays when \<open>a/c\<close> is removed); neither \<open>a\<close> nor \<open>b\<close> is
  restored.
\<close>
theorem rollback_half_restores:
  "(case rollback ''start'' (sandbox_run demo_ports
        [OpDelete ''a'' [], OpWrite ''a/c'' (TextContent ''x'') [], OpWrite ''b'' (TextContent ''changed'') []]
        (snd (checkpoint ''start'' demo_sandbox))) of
      (r, sb) \<Rightarrow> r = Inl (SbOSError ''IsADirectoryError'') \<and>
        content_at (ds_tree sb) [''a''] = None \<and> content_at (ds_tree sb) [''a'', ''c''] = None \<and>
        content_at (ds_tree sb) [''b''] = Some ''changed'')"
  by code_simp

theorem rollback_restores_witness:
  "content_at (ds_tree (snd (rollback ''start'' (sandbox_run demo_ports demo_ops (snd (checkpoint ''start'' demo_sandbox)))))) [''b''] =
     Some ''two''"
proof -
  have "rollback ''start'' (sandbox_run demo_ports demo_ops (snd (checkpoint ''start'' demo_sandbox))) =
      (Inr (), snd (rollback ''start'' (sandbox_run demo_ports demo_ops (snd (checkpoint ''start'' demo_sandbox)))))"
    by (rule prod_eqI, code_simp, simp)
  from rollback_restores [OF _ _ this, of "[''tmp'', ''w'']" "[''b'']"] show ?thesis by code_simp
qed

theorem mutation_log_accounts_witness:
  "\<exists>ms. ds_mutations (sandbox_run demo_ports [OpWrite ''a'' (TextContent ''new'') ''edit'', OpDelete ''zz'' []] demo_sandbox) =
      ds_mutations demo_sandbox @ ms \<and>
    follow_log (session_target demo_sandbox) ms (hashes_of demo_ports (ds_tree demo_sandbox)) =
      Some (hashes_of demo_ports (ds_tree (sandbox_run demo_ports [OpWrite ''a'' (TextContent ''new'') ''edit'', OpDelete ''zz'' []] demo_sandbox)))"
  by (rule mutation_log_accounts) simp

end
