(* ===== verification/Execution.thy ===== *)
theory Execution
  imports Workspace
begin

text \<open>
  Plans and executions of the coding agent: \<open>develop/plan.py\<close> (the validated development plan),
  \<open>develop/execution.py\<close> (the failure taxonomy F1 to F10 and the machine-authoritative record of
  one command), and the failure classifier of the tool layer (\<open>tools/execution.py\<close>).
\<close>

section \<open>Development plans (plan.py)\<close>

record development_plan =
  dp_interpretation :: string
  dp_affected_components :: "string list"
  dp_affected_files :: "string list"
  dp_implementation_strategy :: string
  dp_tests_to_run :: "string list"
  dp_completion_criteria :: "string list"
  dp_expected_risk :: string
  dp_expected_verification :: "string list"

datatype plan_error =
    EmptyField string
  | NoFiles
  | NoTests
  | NoCriteria
  | InvalidRisk string

definition VALID_RISKS :: "string list" where
  "VALID_RISKS = [''LOW'', ''MEDIUM'', ''HIGH'']"

definition require_non_empty :: "string \<Rightarrow> string \<Rightarrow> plan_error + string" where
  "require_non_empty v field_name =
     (let cleaned = strip v in if cleaned = [] then Inl (EmptyField field_name) else Inr cleaned)"

definition cleaned_items :: "string list \<Rightarrow> string list" where
  "cleaned_items xs = map strip (filter (\<lambda>x. strip x \<noteq> []) xs)"

definition build_development_plan ::
    "string \<Rightarrow> string list \<Rightarrow> string list \<Rightarrow> string \<Rightarrow> string list \<Rightarrow> string list \<Rightarrow> string \<Rightarrow> string list option \<Rightarrow>
     plan_error + development_plan" where
  "build_development_plan interpretation0 components files0 strategy tests0 criteria0 risk0 verification =
     (case require_non_empty interpretation0 ''interpretation'' of
        Inl e \<Rightarrow> Inl e
      | Inr cleaned_interpretation \<Rightarrow>
     (case require_non_empty strategy ''implementation_strategy'' of
        Inl e \<Rightarrow> Inl e
      | Inr cleaned_strategy \<Rightarrow>
          (let files = cleaned_items files0; tests = cleaned_items tests0; criteria = cleaned_items criteria0;
               risk = upper (strip risk0)
           in if files = [] then Inl NoFiles
              else if tests = [] then Inl NoTests
              else if criteria = [] then Inl NoCriteria
              else if risk \<notin> set VALID_RISKS then Inl (InvalidRisk risk0)
              else Inr \<lparr>dp_interpretation = cleaned_interpretation,
                dp_affected_components = cleaned_items components, dp_affected_files = files,
                dp_implementation_strategy = cleaned_strategy, dp_tests_to_run = tests,
                dp_completion_criteria = criteria, dp_expected_risk = risk,
                dp_expected_verification = cleaned_items (case verification of None \<Rightarrow> [] | Some v \<Rightarrow> v)\<rparr>)))"

section \<open>The failure taxonomy (execution.py)\<close>

datatype failure_code =
    F1_SYNTAX_BUILD
  | F2_UNIT_TEST
  | F3_INTEGRATION
  | F4_ENVIRONMENT_DEPENDENCY
  | F5_TIMEOUT
  | F6_PERMISSION
  | F7_TOOL
  | F8_AMBIGUOUS_RESULT
  | F9_ACCEPTANCE_CRITERION
  | F10_SAFETY_POLICY_BLOCK

fun failure_code_value :: "failure_code \<Rightarrow> string" where
  "failure_code_value F1_SYNTAX_BUILD = ''F1_SYNTAX_BUILD''"
| "failure_code_value F2_UNIT_TEST = ''F2_UNIT_TEST''"
| "failure_code_value F3_INTEGRATION = ''F3_INTEGRATION''"
| "failure_code_value F4_ENVIRONMENT_DEPENDENCY = ''F4_ENVIRONMENT_DEPENDENCY''"
| "failure_code_value F5_TIMEOUT = ''F5_TIMEOUT''"
| "failure_code_value F6_PERMISSION = ''F6_PERMISSION''"
| "failure_code_value F7_TOOL = ''F7_TOOL''"
| "failure_code_value F8_AMBIGUOUS_RESULT = ''F8_AMBIGUOUS_RESULT''"
| "failure_code_value F9_ACCEPTANCE_CRITERION = ''F9_ACCEPTANCE_CRITERION''"
| "failure_code_value F10_SAFETY_POLICY_BLOCK = ''F10_SAFETY_POLICY_BLOCK''"

definition BUILD_HINTS :: "string list" where
  "BUILD_HINTS = [''syntaxerror'', ''indentationerror'', ''compile error'', ''compilation failed'',
     ''build failed'', ''modulenotfounderror'', ''no module named'', ''typeerror:'', ''nameerror:'',
     ''unexpected token'', ''does not compile'']"

definition failure_code_for :: "string \<Rightarrow> failure_code" where
  "failure_code_for classification =
     (case map_of
        [(''syntax/build failure'', F1_SYNTAX_BUILD),
         (''unit test failure'', F2_UNIT_TEST),
         (''integration failure'', F3_INTEGRATION),
         (''environment/dependency failure'', F4_ENVIRONMENT_DEPENDENCY),
         (''timeout'', F5_TIMEOUT),
         (''permission failure'', F6_PERMISSION),
         (''tool failure'', F7_TOOL),
         (''safety/policy block'', F10_SAFETY_POLICY_BLOCK)] classification of
       Some c \<Rightarrow> c | None \<Rightarrow> F8_AMBIGUOUS_RESULT)"

text \<open>The empty string of the code is \<^term>\<open>None\<close>: nothing to classify.\<close>

definition classify_failure ::
    "int \<Rightarrow> string \<Rightarrow> string \<Rightarrow> string \<Rightarrow> bool \<Rightarrow> string \<Rightarrow> failure_code option" where
  "classify_failure exit_code stdout stderr kind timed_out status =
     (let err = lower stderr; out = lower stdout in
      if timed_out then Some F5_TIMEOUT
      else if contains ''permission denied'' err \<or> contains ''access denied'' err then Some F6_PERMISSION
      else if contains ''policy'' err \<and> contains ''block'' err then Some F10_SAFETY_POLICY_BLOCK
      else if status = ''DENIED'' then Some F6_PERMISSION
      else if status = ''BLOCKED'' then Some F10_SAFETY_POLICY_BLOCK
      else if status = ''UNAVAILABLE'' then Some F4_ENVIRONMENT_DEPENDENCY
      else if exit_code = 0 then None
      else if list_ex (\<lambda>hint. contains hint err) BUILD_HINTS then Some F1_SYNTAX_BUILD
      else if kind \<in> {''UNIT_TEST'', ''INTEGRATION_TEST'', ''TEST''} then
        Some (if contains '' failed'' out \<or> contains ''failed='' out
              then if kind = ''INTEGRATION_TEST'' then F3_INTEGRATION else F2_UNIT_TEST
              else F2_UNIT_TEST)
      else if kind \<in> {''BUILD'', ''LINT'', ''TYPECHECK''} then Some F1_SYNTAX_BUILD
      else if contains ''import'' err \<or> contains ''module'' err then Some F3_INTEGRATION
      else Some F8_AMBIGUOUS_RESULT)"

section \<open>The classifier of the tool layer (tools/execution.py)\<close>

definition TOOL_BUILD_HINTS :: "string list" where
  "TOOL_BUILD_HINTS = [''compile error'', ''compilation error'', ''syntaxerror'', ''indentationerror'',
     ''modulenotfounderror'', ''no module named'', ''fatal error'', ''build failed'', ''compile failed'']"

definition classify_signals :: "int option \<Rightarrow> string \<Rightarrow> bool \<Rightarrow> string \<Rightarrow> string" where
  "classify_signals exit_code stderr timed_out status =
     (if timed_out then ''timeout''
      else if status = ''DENIED'' then ''permission failure''
      else if status = ''BLOCKED'' then ''safety/policy block''
      else if status = ''UNAVAILABLE'' then ''environment/dependency failure''
      else
        let err = lower stderr in
        if exit_code \<in> {Some 2, Some 65} \<and> list_ex (\<lambda>hint. contains hint err) TOOL_BUILD_HINTS
        then ''syntax/build failure''
        else if exit_code \<noteq> None \<and> exit_code \<noteq> Some 0 then
          (if contains ''import'' err then ''integration failure'' else ''tool failure'')
        else [])"

section \<open>Execution records\<close>

record execution_record =
  er_execution_id :: string
  er_kind :: string
  er_command :: "string list"
  er_cwd :: string
  er_sandbox_id :: string
  er_sandbox_backend :: backend
  er_started_at :: int
  er_finished_at :: int
  er_duration :: rat
  er_exit_code :: int
  er_stdout :: string
  er_stderr :: string
  er_timed_out :: bool
  er_failure_code :: "failure_code option"
  er_artifacts :: "string list"
  er_notes :: string

definition passed :: "execution_record \<Rightarrow> bool" where
  "passed r \<longleftrightarrow> er_exit_code r = 0 \<and> \<not> er_timed_out r"

text \<open>
  \<open>ExecutionCapture\<close>: the identity it attributes to, and the records so far. One identifier is
  drawn for the record, then the clock is read for its start and for its end.
\<close>

record capture =
  ec_sandbox_id :: string
  ec_sandbox_backend :: backend
  ec_records :: "execution_record list"

definition capture_record ::
    "string \<Rightarrow> string list \<Rightarrow> command_result \<Rightarrow> string list \<Rightarrow> capture \<Rightarrow> world \<Rightarrow> execution_record \<times> capture \<times> world" where
  "capture_record kind command res artifacts c w =
     (let code = classify_failure (cr_exit_code res) (cr_stdout res) (cr_stderr res) kind (cr_timed_out res) [];
          (u, w1) = uuid4 w; (t1, w2) = now w1; (t2, w3) = now w2;
          r = \<lparr>er_execution_id = ''exec-'' @ take 12 u, er_kind = kind, er_command = command, er_cwd = [],
               er_sandbox_id = ec_sandbox_id c, er_sandbox_backend = ec_sandbox_backend c,
               er_started_at = t1 - timedelta_us (cr_duration res), er_finished_at = t2,
               er_duration = cr_duration res, er_exit_code = cr_exit_code res, er_stdout = cr_stdout res,
               er_stderr = cr_stderr res, er_timed_out = cr_timed_out res, er_failure_code = code,
               er_artifacts = artifacts, er_notes = []\<rparr>
      in (r, c\<lparr>ec_records := ec_records c @ [r]\<rparr>, w3))"

text \<open>\<open>ExecutionStats\<close>.\<close>

definition stats_total :: "execution_record list \<Rightarrow> nat" where
  "stats_total rs = length rs"

definition stats_passed :: "execution_record list \<Rightarrow> nat" where
  "stats_passed rs = length (filter passed rs)"

definition stats_failed :: "execution_record list \<Rightarrow> nat" where
  "stats_failed rs = stats_total rs - stats_passed rs"

definition stats_failure_codes :: "execution_record list \<Rightarrow> failure_code list" where
  "stats_failure_codes rs = List.map_filter er_failure_code rs"

definition code_str :: "failure_code option \<Rightarrow> string" where
  "code_str c = (case c of None \<Rightarrow> [] | Some f \<Rightarrow> failure_code_value f)"

section \<open>Lemmas\<close>

lemma cleaned_items_spec: "x \<in> set (cleaned_items xs) \<Longrightarrow> x \<noteq> []"
  by (auto simp: cleaned_items_def)

lemma require_non_empty_Inr: "require_non_empty v f = Inr c \<longleftrightarrow> c = strip v \<and> strip v \<noteq> []"
  by (auto simp: require_non_empty_def Let_def)

lemma plan_complete:
  assumes "build_development_plan i cs fs s ts qs r v = Inr plan"
  shows "dp_tests_to_run plan \<noteq> [] \<and> dp_affected_files plan \<noteq> [] \<and> dp_completion_criteria plan \<noteq> [] \<and>
    dp_interpretation plan \<noteq> [] \<and> dp_implementation_strategy plan \<noteq> [] \<and> [] \<notin> set (dp_tests_to_run plan) \<and>
    dp_expected_risk plan \<in> set VALID_RISKS"
  using assms by (auto simp: build_development_plan_def require_non_empty_Inr Let_def
      dest: cleaned_items_spec split: sum.splits if_splits)

text \<open>A run that did not pass is classified, whatever its kind.\<close>

lemma failed_is_classified:
  "code \<noteq> 0 \<or> timed_out \<Longrightarrow> classify_failure code out err kind timed_out status \<noteq> None"
  by (auto simp: classify_failure_def Let_def)

end
