(* ===== verification/Loop_Bounds.thy ===== *)
theory Loop_Bounds
  imports No_Progress
begin

text \<open>
  \<open>packages/develop/src/smorx_develop/bounds.py\<close>: the budget of the coding loop and the
  controller that checks it before every step. The controller interprets the no-progress contract
  of \<^theory_text>\<open>No_Progress\<close> with its window of recent signatures, as \<open>NoProgressDetector\<close> does with a
  counter. Messages of \<open>BoundsExhaustedError\<close> are built from the bound and its configured value.
\<close>

section \<open>The budget\<close>

record loop_bounds =
  lb_max_iterations :: int
  lb_max_runtime_seconds :: int
  lb_max_commands :: int
  lb_max_repair_attempts :: int
  lb_no_progress_threshold :: int
  lb_per_tool_timeout_seconds :: int
  lb_per_agent_timeout_seconds :: int

definition default_bounds :: loop_bounds where
  "default_bounds = \<lparr>lb_max_iterations = 5, lb_max_runtime_seconds = 600, lb_max_commands = 40,
     lb_max_repair_attempts = 3, lb_no_progress_threshold = 2, lb_per_tool_timeout_seconds = 60,
     lb_per_agent_timeout_seconds = 300\<rparr>"

definition bounds_dict :: "loop_bounds \<Rightarrow> (string \<times> pyval) list" where
  "bounds_dict b =
     [(''max_iterations'', PInt (lb_max_iterations b)),
      (''max_runtime_seconds'', PInt (lb_max_runtime_seconds b)),
      (''max_commands'', PInt (lb_max_commands b)),
      (''max_repair_attempts'', PInt (lb_max_repair_attempts b)),
      (''no_progress_threshold'', PInt (lb_no_progress_threshold b)),
      (''per_tool_timeout_seconds'', PInt (lb_per_tool_timeout_seconds b)),
      (''per_agent_timeout_seconds'', PInt (lb_per_agent_timeout_seconds b))]"

section \<open>The controller\<close>

record controller =
  lc_bounds :: loop_bounds
  lc_iteration :: int
  lc_commands :: int
  lc_repairs :: int
  lc_started_at :: int
  lc_recent_signatures :: "string list"

definition new_controller :: "loop_bounds \<Rightarrow> world \<Rightarrow> controller \<times> world" where
  "new_controller b w =
     (let (t, w') = now w
      in (\<lparr>lc_bounds = b, lc_iteration = 0, lc_commands = 0, lc_repairs = 0, lc_started_at = t,
           lc_recent_signatures = []\<rparr>, w'))"

datatype bounds_exhausted = BoundsExhausted (be_message: string) (be_bound: string)

text \<open>The first exhausted bound is raised; the clock is read only after the iteration check.\<close>

definition check_bounds :: "controller \<Rightarrow> world \<Rightarrow> (bounds_exhausted + unit) \<times> world" where
  "check_bounds c w =
     (let b = lc_bounds c in
      if lc_iteration c \<ge> lb_max_iterations b then
        (Inl (BoundsExhausted (''maximum iterations reached ('' @ str_int (lb_max_iterations b) @ '')'')
          ''max_iterations''), w)
      else
        let (t, w') = now w; elapsed = seconds_between (lc_started_at c) t in
        if elapsed \<ge> of_int (lb_max_runtime_seconds b) then
          (Inl (BoundsExhausted (''maximum runtime reached ('' @ str_int (lb_max_runtime_seconds b) @ ''s)'')
            ''max_runtime_seconds''), w')
        else if lc_commands c \<ge> lb_max_commands b then
          (Inl (BoundsExhausted (''maximum commands reached ('' @ str_int (lb_max_commands b) @ '')'')
            ''max_commands''), w')
        else if lc_repairs c \<ge> lb_max_repair_attempts b then
          (Inl (BoundsExhausted (''maximum repair attempts reached ('' @ str_int (lb_max_repair_attempts b) @ '')'')
            ''max_repair_attempts''), w')
        else (Inr (), w'))"

definition bump_iteration :: "controller \<Rightarrow> controller" where
  "bump_iteration c = c\<lparr>lc_iteration := lc_iteration c + 1\<rparr>"

definition bump_commands :: "controller \<Rightarrow> controller" where
  "bump_commands c = c\<lparr>lc_commands := lc_commands c + 1\<rparr>"

definition bump_repairs :: "controller \<Rightarrow> controller" where
  "bump_repairs c = c\<lparr>lc_repairs := lc_repairs c + 1\<rparr>"

text \<open>The last \<open>threshold\<close> signatures, when there are that many, and whether they are one value.\<close>

definition record_execution_signature :: "string \<Rightarrow> controller \<Rightarrow> bool \<times> controller" where
  "record_execution_signature signature c =
     (let recents = lc_recent_signatures c @ [signature];
          threshold = nat (max 1 (lb_no_progress_threshold (lc_bounds c)));
          window = drop (length recents - threshold) recents
      in if length recents \<ge> threshold \<and> length (dedup window) = 1
         then (True, c\<lparr>lc_recent_signatures := []\<rparr>)
         else (False, c\<lparr>lc_recent_signatures := recents\<rparr>))"

definition controller_elapsed :: "controller \<Rightarrow> world \<Rightarrow> rat \<times> world" where
  "controller_elapsed c w = (let (t, w') = now w in (seconds_between (lc_started_at c) t, w'))"

text \<open>\<open>round(x, 3)\<close> of a float: to the nearest thousandth, ties to even.\<close>

definition round3 :: "rat \<Rightarrow> rat" where
  "round3 x =
     (let y = x * 1000; f = \<lfloor>y\<rfloor>; d = y - of_int f
      in of_int (if d < 1 / 2 \<or> (d = 1 / 2 \<and> even f) then f else f + 1) / 1000)"

definition controller_dict :: "controller \<Rightarrow> world \<Rightarrow> (string \<times> pyval) list \<times> world" where
  "controller_dict c w =
     (let (elapsed, w') = controller_elapsed c w; b = lc_bounds c
      in ([(''bounds'', PDict [
             (''max_iterations'', PInt (lb_max_iterations b)),
             (''max_runtime_seconds'', PInt (lb_max_runtime_seconds b)),
             (''max_commands'', PInt (lb_max_commands b)),
             (''max_repair_attempts'', PInt (lb_max_repair_attempts b)),
             (''no_progress_threshold'', PInt (lb_no_progress_threshold b))]),
           (''used'', PDict [
             (''iterations'', PInt (lc_iteration c)),
             (''commands'', PInt (lc_commands c)),
             (''repairs'', PInt (lc_repairs c)),
             (''elapsed_seconds'', PFloat (round3 elapsed))])], w'))"

section \<open>Lemmas\<close>

lemma check_bounds_Inr:
  assumes "fst (check_bounds c w) = Inr u"
  shows "lc_iteration c < lb_max_iterations (lc_bounds c) \<and> lc_commands c < lb_max_commands (lc_bounds c) \<and>
    lc_repairs c < lb_max_repair_attempts (lc_bounds c)"
  using assms by (simp add: check_bounds_def case_prod_unfold Let_def not_le split: if_splits)

lemma signature_fields [simp]:
  "lc_bounds (snd (record_execution_signature s c)) = lc_bounds c"
  "lc_iteration (snd (record_execution_signature s c)) = lc_iteration c"
  "lc_commands (snd (record_execution_signature s c)) = lc_commands c"
  "lc_repairs (snd (record_execution_signature s c)) = lc_repairs c"
  by (simp_all add: record_execution_signature_def Let_def)

lemma bump_fields [simp]:
  "lc_bounds (bump_iteration c) = lc_bounds c" "lc_iteration (bump_iteration c) = lc_iteration c + 1"
  "lc_commands (bump_iteration c) = lc_commands c" "lc_repairs (bump_iteration c) = lc_repairs c"
  "lc_bounds (bump_commands c) = lc_bounds c" "lc_iteration (bump_commands c) = lc_iteration c"
  "lc_commands (bump_commands c) = lc_commands c + 1" "lc_repairs (bump_commands c) = lc_repairs c"
  "lc_bounds (bump_repairs c) = lc_bounds c" "lc_iteration (bump_repairs c) = lc_iteration c"
  "lc_commands (bump_repairs c) = lc_commands c" "lc_repairs (bump_repairs c) = lc_repairs c + 1"
  by (simp_all add: bump_iteration_def bump_commands_def bump_repairs_def)

text \<open>One distinct value in a non-empty window: every entry equals the last.\<close>

lemma one_value_iff:
  assumes "xs \<noteq> []"
  shows "length (dedup xs) = 1 \<longleftrightarrow> (\<forall>y \<in> set xs. y = last xs)"
proof
  assume "length (dedup xs) = 1"
  then obtain v where "dedup xs = [v]" by (metis One_nat_def length_0_conv length_Suc_conv)
  then have "set xs = {v}" by (metis set_dedup list.set(1) list.simps(15))
  then show "\<forall>y \<in> set xs. y = last xs" using assms last_in_set by fastforce
next
  assume all: "\<forall>y \<in> set xs. y = last xs"
  then have "set (dedup xs) = {last xs}" using assms by (auto intro: last_in_set)
  then have "card (set (dedup xs)) = 1" by simp
  then show "length (dedup xs) = 1" using distinct_card [OF distinct_dedup [of xs]] by simp
qed

text \<open>The controller keeps the signatures recorded since it last reported.\<close>

definition windows :: "int \<Rightarrow> controller \<Rightarrow> string list \<Rightarrow> bool" where
  "windows threshold c xs \<longleftrightarrow>
     lb_no_progress_threshold (lc_bounds c) = threshold \<and> lc_recent_signatures c = xs"

lemma window_reports:
  "windows threshold c xs \<Longrightarrow>
    fst (record_execution_signature x c) \<longleftrightarrow> nat (max 1 threshold) \<le> tail_run (xs @ [x])"
proof -
  assume w: "windows threshold c xs"
  let ?k = "nat (max 1 threshold)" and ?xs = "xs @ [x]"
  have ne: "drop (length ?xs - ?k) ?xs \<noteq> []" by simp
  have last: "last (drop (length ?xs - ?k) ?xs) = x"
    using ne by (metis last_drop last_snoc length_drop length_greater_0_conv zero_less_diff)
  have "fst (record_execution_signature x c) \<longleftrightarrow>
      ?k \<le> length ?xs \<and> length (dedup (drop (length ?xs - ?k) ?xs)) = 1"
    using w by (simp add: record_execution_signature_def windows_def Let_def)
  also have "\<dots> \<longleftrightarrow> ?k \<le> length ?xs \<and> (\<forall>y \<in> set (drop (length ?xs - ?k) ?xs). y = last ?xs)"
    using one_value_iff [OF ne] last by simp
  finally show ?thesis using tail_run_window [of ?k ?xs] by blast
qed

interpretation window: no_progress "nat (max 1 threshold)"
    "\<lparr>lc_bounds = b\<lparr>lb_no_progress_threshold := threshold\<rparr>, lc_iteration = i, lc_commands = n,
      lc_repairs = r, lc_started_at = t, lc_recent_signatures = []\<rparr>"
    record_execution_signature "windows threshold"
  for threshold :: int and b :: loop_bounds and i n r t :: int
proof unfold_locales
  show "windows threshold \<lparr>lc_bounds = b\<lparr>lb_no_progress_threshold := threshold\<rparr>, lc_iteration = i,
      lc_commands = n, lc_repairs = r, lc_started_at = t, lc_recent_signatures = []\<rparr> []"
    by (simp add: windows_def)
next
  fix c xs x
  assume w: "windows threshold c xs"
  show "fst (record_execution_signature x c) \<longleftrightarrow> nat (max 1 threshold) \<le> tail_run (xs @ [x])"
    by (rule window_reports [OF w])
  assume "\<not> fst (record_execution_signature x c)"
  then show "windows threshold (snd (record_execution_signature x c)) (xs @ [x])"
    using w by (simp add: windows_def record_execution_signature_def Let_def split: if_splits)
qed

end
