(* ===== verification/Coding_Loop.thy ===== *)
theory Coding_Loop
  imports Execution Loop_Bounds
begin

text \<open>
  \<open>develop/agent.py\<close>: the bounded loop of the coding agent. A run executes the tests of the plan
  in the sandbox, asks a decider what to do about the failures, repairs and executes again. The
  decider is an argument: any function of the view and of a state of its own, which may raise; so
  is the verdict of the execution barrier. Where the code hands out dictionaries (\<open>as_dict\<close>), the
  model hands out the records they are made from. The loop's host is the world of its sandbox. The
  loop is written with a number of turns; \<open>run_coding\<close> gives it one more than the iterations the
  bounds allow.
\<close>

section \<open>Splitting a command line\<close>

text \<open>
  \<open>shlex.split\<close>: POSIX rules, no comments. The states of the lexer: between tokens, in a word, in
  quotes, after a backslash (in a word, or in double quotes); with the token so far and whether
  it had a quoted part.
\<close>

datatype lex_state = LxSpace | LxWord | LxQuote char | LxEscape "char option"

definition lex_white :: "char \<Rightarrow> bool" where
  "lex_white c \<longleftrightarrow> c \<in> {CHR '' '', CHR 0x09, CHR 0x0D, CHR 0x0A}"

definition emit :: "string \<Rightarrow> bool \<Rightarrow> string list" where
  "emit tok quoted = (if tok \<noteq> [] \<or> quoted then [tok] else [])"

fun lex :: "lex_state \<Rightarrow> string \<Rightarrow> bool \<Rightarrow> string \<Rightarrow> string + string list" where
  "lex LxSpace tok quoted [] = Inr []"
| "lex LxWord tok quoted [] = Inr (emit tok quoted)"
| "lex (LxQuote q) tok quoted [] = Inl ''No closing quotation''"
| "lex (LxEscape e) tok quoted [] = Inl ''No escaped character''"
| "lex LxSpace tok quoted (c # cs) =
     (if lex_white c then lex LxSpace [] False cs
      else if c = CHR 0x5C then lex (LxEscape None) [] False cs
      else if c \<in> {CHR 0x27, CHR 0x22} then lex (LxQuote c) [] False cs
      else lex LxWord [c] False cs)"
| "lex LxWord tok quoted (c # cs) =
     (if lex_white c then map_sum id ((@) (emit tok quoted)) (lex LxSpace [] False cs)
      else if c \<in> {CHR 0x27, CHR 0x22} then lex (LxQuote c) tok quoted cs
      else if c = CHR 0x5C then lex (LxEscape None) tok quoted cs
      else lex LxWord (tok @ [c]) quoted cs)"
| "lex (LxQuote q) tok quoted (c # cs) =
     (if c = q then lex LxWord tok True cs
      else if c = CHR 0x5C \<and> q = CHR 0x22 then lex (LxEscape (Some q)) tok True cs
      else lex (LxQuote q) (tok @ [c]) True cs)"
| "lex (LxEscape None) tok quoted (c # cs) = lex LxWord (tok @ [c]) quoted cs"
| "lex (LxEscape (Some q)) tok quoted (c # cs) =
     lex (LxQuote q) (if c \<noteq> CHR 0x5C \<and> c \<noteq> q then tok @ [CHR 0x5C, c] else tok @ [c]) quoted cs"

definition shlex_split :: "string \<Rightarrow> string + string list" where
  "shlex_split s = lex LxSpace [] False s"

section \<open>Decisions\<close>

record diagnosis =
  dg_failure_codes :: "string list"
  dg_observed :: string
  dg_probable_cause :: string
  dg_next_action :: string

record mutation_directive =
  md_path :: string
  md_content :: string
  md_reason :: string

record directive =
  dd_action :: string
  dd_rationale :: string
  dd_diagnosis :: "diagnosis option"
  dd_mutation :: "mutation_directive option"

datatype policy_state = ALLOWED | DENIED_BY_POLICY

record decision =
  de_decision_id :: string
  de_iteration :: int
  de_action :: string
  de_rationale :: string
  de_diagnosis :: "diagnosis option"
  de_mutation_path :: string
  de_authorized :: bool
  de_policy_state :: policy_state
  de_policy_reason :: string

datatype termination_kind = SUCCESS_EVIDENCED | BOUNDS_EXHAUSTED | NO_PROGRESS | POLICY_STOP | STOP_REQUESTED

datatype final_state = CANDIDATE_PASSED | CANDIDATE_FAILED | BLOCKED

record loop_view =
  lv_iteration :: int
  lv_plan :: development_plan
  lv_failing :: "execution_record list"
  lv_bounds_usage :: "(string \<times> pyval) list"

record loop_result =
  lr_loop_id :: string
  lr_final_state :: final_state
  lr_kind :: termination_kind
  lr_detail :: string
  lr_iterations :: int
  lr_decisions :: "decision list"
  lr_executions :: "execution_record list"
  lr_mutations :: "file_mutation list"
  lr_checkpoints :: "string list"

datatype loop_error =
    LoopBounds bounds_exhausted
  | LoopSandbox sandbox_error
  | ShlexError string
  | CodingAgentError string
  | DeciderRaised string
  | OutOfTurns

type_synonym 'd decider = "loop_view \<Rightarrow> 'd \<Rightarrow> (string + directive) \<times> 'd"

definition command_kind :: "string \<Rightarrow> string" where
  "command_kind command =
     (let s = lower command in
      if contains ''integration'' s then ''INTEGRATION_TEST''
      else if contains ''pytest'' s \<or> contains '' test'' ('' '' @ s) \<or> startswith s ''test'' then ''UNIT_TEST''
      else if contains ''mypy'' s \<or> contains ''typecheck'' s \<or> contains ''tsc'' s then ''TYPECHECK''
      else if contains ''ruff'' s \<or> contains ''lint'' s \<or> contains ''eslint'' s then ''LINT''
      else if contains ''build'' s \<or> contains ''compile'' s then ''BUILD''
      else ''COMMAND'')"

text \<open>\<open>str\<close> of a tuple: a single element is followed by a comma.\<close>

definition tuple_str :: "string list \<Rightarrow> string" where
  "tuple_str xs =
     (case xs of [x] \<Rightarrow> ''('' @ x @ '',)'' | _ \<Rightarrow> ''('' @ join '', '' xs @ '')'')"

definition no_progress_signature :: "execution_record list \<Rightarrow> string" where
  "no_progress_signature rs =
     tuple_str (map (\<lambda>r. repr_str (code_str (er_failure_code r))) rs) @ ''|'' @
     tuple_str (map (\<lambda>r. str_int (er_exit_code r)) rs)"

section \<open>The loop object\<close>

record ('p, 'd) coding_loop =
  cl_sandbox :: "'p dev_sandbox"
  cl_controller :: controller
  cl_capture :: capture
  cl_decisions :: "decision list"
  cl_mutations :: "file_mutation list"
  cl_checkpoints :: "string list"
  cl_loop_id :: string
  cl_decider_state :: 'd

definition loop_world :: "('p, 'd) coding_loop \<Rightarrow> world" where
  "loop_world m = ds_world (cl_sandbox m)"

definition set_world :: "world \<Rightarrow> ('p, 'd) coding_loop \<Rightarrow> ('p, 'd) coding_loop" where
  "set_world w m = m\<lparr>cl_sandbox := (cl_sandbox m)\<lparr>ds_world := w\<rparr>\<rparr>"

definition new_loop :: "'p dev_sandbox \<Rightarrow> loop_bounds \<Rightarrow> 'd \<Rightarrow> ('p, 'd) coding_loop" where
  "new_loop sb b d =
     (let (c, w1) = new_controller b (ds_world sb); (u, w2) = uuid4 w1
      in \<lparr>cl_sandbox = sb\<lparr>ds_world := w2\<rparr>, cl_controller = c,
          cl_capture = \<lparr>ec_sandbox_id = si_sandbox_id (ds_identity sb),
            ec_sandbox_backend = si_backend (ds_identity sb), ec_records = []\<rparr>,
          cl_decisions = [], cl_mutations = [], cl_checkpoints = [],
          cl_loop_id = ''loop-'' @ take 12 u, cl_decider_state = d\<rparr>)"

definition loop_check :: "('p, 'd) coding_loop \<Rightarrow> (bounds_exhausted + unit) \<times> ('p, 'd) coding_loop" where
  "loop_check m =
     (let (r, w) = check_bounds (cl_controller m) (loop_world m) in (r, set_world w m))"

text \<open>\<open>execute_command\<close> on a command line: check, count, split, run, capture.\<close>

definition execute_command ::
    "host_ports \<Rightarrow> string \<Rightarrow> string \<Rightarrow> ('p, 'd) coding_loop \<Rightarrow> (loop_error + execution_record) \<times> ('p, 'd) coding_loop" where
  "execute_command h kind command m =
     (let (r, m1) = loop_check m in
      case r of
        Inl e \<Rightarrow> (Inl (LoopBounds e), m1)
      | Inr _ \<Rightarrow>
          (let m2 = m1\<lparr>cl_controller := bump_commands (cl_controller m1)\<rparr> in
           case shlex_split command of
             Inl e \<Rightarrow> (Inl (ShlexError e), m2)
           | Inr args \<Rightarrow>
               (let timeout = of_int (lb_per_tool_timeout_seconds (lc_bounds (cl_controller m2)));
                    (res, sb) = execute_in h args timeout [] (cl_sandbox m2);
                    m3 = m2\<lparr>cl_sandbox := sb\<rparr>
                in case res of
                     Inl e \<Rightarrow> (Inl (LoopSandbox e), m3)
                   | Inr cr \<Rightarrow>
                       (let (rec, c, w) = capture_record kind args cr [] (cl_capture m3) (loop_world m3)
                        in (Inr rec, set_world w (m3\<lparr>cl_capture := c\<rparr>))))))"

definition mutate_file ::
    "host_ports \<Rightarrow> mutation_directive \<Rightarrow> ('p, 'd) coding_loop \<Rightarrow> (loop_error + unit) \<times> ('p, 'd) coding_loop" where
  "mutate_file h d m =
     (let (r, sb) = write_file h (md_path d) (TextContent (md_content d)) (md_reason d) (cl_sandbox m);
          m1 = m\<lparr>cl_sandbox := sb\<rparr>
      in case r of
           Inl e \<Rightarrow> (Inl (LoopSandbox e), m1)
         | Inr mutation \<Rightarrow> (Inr (), m1\<lparr>cl_mutations := cl_mutations m1 @ [mutation]\<rparr>))"

definition loop_checkpoint ::
    "string \<Rightarrow> ('p, 'd) coding_loop \<Rightarrow> (loop_error + unit) \<times> ('p, 'd) coding_loop" where
  "loop_checkpoint label m =
     (let (r, sb) = checkpoint label (cl_sandbox m); m1 = m\<lparr>cl_sandbox := sb\<rparr>
      in case r of
           Inl e \<Rightarrow> (Inl (LoopSandbox e), m1)
         | Inr ref \<Rightarrow> (Inr (), m1\<lparr>cl_checkpoints := cl_checkpoints m1 @ [ref]\<rparr>))"

section \<open>The decision policy\<close>

text \<open>The arrow of the message for a missing diagnosis is written with two ASCII characters.\<close>

definition directive_fault :: "directive \<Rightarrow> string option" where
  "directive_fault d =
     (if dd_action d \<notin> {''REPAIR'', ''STOP''} then Some (''unknown directive action '' @ repr_str (dd_action d))
      else if dd_action d = ''REPAIR'' then
        (case dd_diagnosis d of
           None \<Rightarrow> Some (''repair decision requires a diagnosis record '' @
             ''(observed failure '' @ [CHR 0x2D, CHR 0x3E] @ '' probable cause '' @ [CHR 0x2D, CHR 0x3E] @ '' next action)'')
         | Some g \<Rightarrow>
             (if strip (dg_observed g) = [] \<or> strip (dg_next_action g) = []
              then Some ''diagnosis must state the observed failure and next action'' else None))
      else None)"

definition decide_directive ::
    "directive \<Rightarrow> bool \<Rightarrow> ('p, 'd) coding_loop \<Rightarrow> (loop_error + decision) \<times> ('p, 'd) coding_loop" where
  "decide_directive d authorized m =
     (case directive_fault d of
        Some e \<Rightarrow> (Inl (CodingAgentError e), m)
      | None \<Rightarrow>
          (let (u, w) = uuid4 (loop_world m); denied = (dd_action d = ''REPAIR'' \<and> \<not> authorized);
               decision = \<lparr>de_decision_id = ''dec-'' @ take 12 u, de_iteration = lc_iteration (cl_controller m),
                 de_action = dd_action d, de_rationale = dd_rationale d, de_diagnosis = dd_diagnosis d,
                 de_mutation_path = (case dd_mutation d of None \<Rightarrow> [] | Some g \<Rightarrow> md_path g),
                 de_authorized = \<not> denied, de_policy_state = (if denied then DENIED_BY_POLICY else ALLOWED),
                 de_policy_reason = (if denied then
                   ''unauthorized repair; an explicit authorization flag is required'' else [])\<rparr>
           in (Inr decision, set_world w (m\<lparr>cl_decisions := cl_decisions m @ [decision]\<rparr>))))"

section \<open>Running\<close>

fun execute_plan ::
    "host_ports \<Rightarrow> string list \<Rightarrow> ('p, 'd) coding_loop \<Rightarrow> (loop_error + execution_record list) \<times> ('p, 'd) coding_loop" where
  "execute_plan h [] m = (Inr [], m)"
| "execute_plan h (command # commands) m =
     (let (r, m1) = execute_command h (command_kind command) command m in
      case r of
        Inl e \<Rightarrow> (Inl e, m1)
      | Inr rec \<Rightarrow>
          (let (rs, m2) = execute_plan h commands m1
           in (case rs of Inl e \<Rightarrow> Inl e | Inr recs \<Rightarrow> Inr (rec # recs), m2)))"

definition failing :: "execution_record list \<Rightarrow> execution_record list" where
  "failing rs = filter (\<lambda>r. \<not> passed r) rs"

definition loop_result_of :: "final_state \<Rightarrow> termination_kind \<Rightarrow> string \<Rightarrow> ('p, 'd) coding_loop \<Rightarrow> loop_result" where
  "loop_result_of s kind detail m =
     \<lparr>lr_loop_id = cl_loop_id m, lr_final_state = s, lr_kind = kind, lr_detail = detail,
      lr_iterations = lc_iteration (cl_controller m), lr_decisions = cl_decisions m,
      lr_executions = ec_records (cl_capture m), lr_mutations = cl_mutations m,
      lr_checkpoints = cl_checkpoints m\<rparr>"


text \<open>What one turn of \<open>while True\<close> leads to: a returned result, or the next turn.\<close>

datatype loop_turn = Return loop_result | NextTurn "execution_record list"

text \<open>The decider's view, read from the loop and the clock.\<close>

definition make_view ::
    "development_plan \<Rightarrow> execution_record list \<Rightarrow> ('p, 'd) coding_loop \<Rightarrow> loop_view \<times> ('p, 'd) coding_loop" where
  "make_view plan records m =
     (let (usage, w) = controller_dict (cl_controller m) (loop_world m)
      in (\<lparr>lv_iteration = lc_iteration (cl_controller m), lv_plan = plan, lv_failing = failing records,
           lv_bounds_usage = usage\<rparr>, set_world w m))"

text \<open>The repair path: count, mutate, execute the plan again, and judge what came of it.\<close>

definition repair_turn ::
    "host_ports \<Rightarrow> development_plan \<Rightarrow> directive \<Rightarrow> decision \<Rightarrow> ('p, 'd) coding_loop \<Rightarrow>
     (loop_error + loop_turn) \<times> ('p, 'd) coding_loop" where
  "repair_turn h plan d decision m =
     (let m1 = m\<lparr>cl_controller := bump_repairs (cl_controller m)\<rparr>;
          (r, m2) = (case dd_mutation d of None \<Rightarrow> (Inr (), m1) | Some g \<Rightarrow> mutate_file h g m1)
      in case r of
           Inl e \<Rightarrow> (Inl e, m2)
         | Inr _ \<Rightarrow>
             (let (rs, m3) = execute_plan h (dp_tests_to_run plan) m2 in
              case rs of
                Inl e \<Rightarrow> (Inl e, m3)
              | Inr records \<Rightarrow>
                  (let m4 = m3\<lparr>cl_controller := bump_iteration (cl_controller m3)\<rparr> in
                   if failing records = [] then
                     (Inr (Return (loop_result_of CANDIDATE_PASSED SUCCESS_EVIDENCED
                        (''all '' @ str_int (int (length records)) @ '' plan executions passed after repair (decision '' @
                         de_decision_id decision @ '')'') m4)), m4)
                   else
                     let (stuck, c) = record_execution_signature (no_progress_signature (failing records)) (cl_controller m4);
                         m5 = m4\<lparr>cl_controller := c\<rparr>
                     in if stuck then
                          (Inr (Return (loop_result_of BLOCKED NO_PROGRESS
                             (''no-progress threshold reached: materially equivalent '' @
                              ''failures repeated without measurable progress'') m5)), m5)
                        else (Inr (NextTurn records), m5))))"

definition coding_turn ::
    "host_ports \<Rightarrow> development_plan \<Rightarrow> bool \<Rightarrow> 'd decider \<Rightarrow> execution_record list \<Rightarrow> ('p, 'd) coding_loop \<Rightarrow>
     (loop_error + loop_turn) \<times> ('p, 'd) coding_loop" where
  "coding_turn h plan authorized decider records m =
     (let (r, m1) = loop_check m in
      case r of
        Inl e \<Rightarrow>
          (Inr (Return (loop_result_of BLOCKED BOUNDS_EXHAUSTED (be_bound e @ '': '' @ be_message e) m1)), m1)
      | Inr _ \<Rightarrow>
          (let (view, m2) = make_view plan records m1;
               (answer, ds) = decider view (cl_decider_state m2);
               m3 = m2\<lparr>cl_decider_state := ds\<rparr>
           in case answer of
                Inl e \<Rightarrow> (Inl (DeciderRaised e), m3)
              | Inr d \<Rightarrow>
                  (let (decided, m4) = decide_directive d authorized m3 in
                   case decided of
                     Inl e \<Rightarrow> (Inl e, m4)
                   | Inr decision \<Rightarrow>
                       (if de_policy_state decision = DENIED_BY_POLICY then
                          (Inr (Return (loop_result_of BLOCKED POLICY_STOP
                             (''decision '' @ de_decision_id decision @ '' denied by policy: '' @
                              de_policy_reason decision) m4)), m4)
                        else if dd_action d = ''STOP'' then
                          (Inr (Return (loop_result_of CANDIDATE_FAILED STOP_REQUESTED
                             (''decider requested stop: '' @ dd_rationale d) m4)), m4)
                        else repair_turn h plan d decision m4))))"

fun repair_loop ::
    "nat \<Rightarrow> host_ports \<Rightarrow> development_plan \<Rightarrow> bool \<Rightarrow> 'd decider \<Rightarrow> execution_record list \<Rightarrow> ('p, 'd) coding_loop \<Rightarrow>
     (loop_error + loop_result) \<times> ('p, 'd) coding_loop" where
  "repair_loop 0 h plan authorized decider records m = (Inl OutOfTurns, m)"
| "repair_loop (Suc n) h plan authorized decider records m =
     (case coding_turn h plan authorized decider records m of
        (Inl e, m') \<Rightarrow> (Inl e, m')
      | (Inr (Return res), m') \<Rightarrow> (Inr res, m')
      | (Inr (NextTurn records'), m') \<Rightarrow> repair_loop n h plan authorized decider records' m')"

text \<open>\<open>run\<close>: \<open>failed\<close> are the failed conditions of the barrier's verdict, none when it allows the run.\<close>

definition run_coding ::
    "host_ports \<Rightarrow> development_plan \<Rightarrow> string list \<Rightarrow> bool \<Rightarrow> 'd decider \<Rightarrow> ('p, 'd) coding_loop \<Rightarrow>
     (loop_error + loop_result) \<times> ('p, 'd) coding_loop" where
  "run_coding h plan failed authorized decider m =
     (if failed \<noteq> [] then
        (Inr (loop_result_of BLOCKED POLICY_STOP (''execution barrier BLOCKED: '' @ join ''; '' failed) m), m)
      else
        let (r, m1) = loop_checkpoint ''pre-candidate'' m in
        case r of
          Inl e \<Rightarrow> (Inl e, m1)
        | Inr _ \<Rightarrow>
            (let (rs, m2) = execute_plan h (dp_tests_to_run plan) m1 in
             case rs of
               Inl e \<Rightarrow> (Inl e, m2)
             | Inr records \<Rightarrow>
                 (let m3 = m2\<lparr>cl_controller := bump_iteration (cl_controller m2)\<rparr> in
                  if failing records = [] then
                    (Inr (loop_result_of CANDIDATE_PASSED SUCCESS_EVIDENCED
                       (''all '' @ str_int (int (length records)) @
                        '' plan executions passed (exit code 0, machine-captured)'') m3), m3)
                  else repair_loop (Suc (nat (lb_max_iterations (lc_bounds (cl_controller m3))))) h plan authorized
                         decider records m3)))"

end
