(* ===== verification/Coding_Proofs.thy ===== *)
theory Coding_Proofs
  imports Coding_Loop
begin

text \<open>
  What a run of the coding loop guarantees. One lemma per operation says what it changes; the
  invariant of the loop collects the budget, the records and the decisions; the run lemmas carry
  it through the turns, and the properties read it off the end of a run.
\<close>

section \<open>Lookups\<close>

lemma set_world_fields [simp]:
  "cl_controller (set_world w m) = cl_controller m" "cl_capture (set_world w m) = cl_capture m"
  "cl_decisions (set_world w m) = cl_decisions m" "cl_mutations (set_world w m) = cl_mutations m"
  "cl_decider_state (set_world w m) = cl_decider_state m" "cl_loop_id (set_world w m) = cl_loop_id m"
  "cl_checkpoints (set_world w m) = cl_checkpoints m"
  by (simp_all add: set_world_def)

lemma loop_check_fields [simp]:
  "cl_controller (snd (loop_check m)) = cl_controller m" "cl_capture (snd (loop_check m)) = cl_capture m"
  "cl_decisions (snd (loop_check m)) = cl_decisions m" "cl_mutations (snd (loop_check m)) = cl_mutations m"
  by (simp_all add: loop_check_def case_prod_unfold Let_def)

lemma loop_check_Inr:
  assumes "fst (loop_check m) = Inr u"
  shows "lc_iteration (cl_controller m) < lb_max_iterations (lc_bounds (cl_controller m)) \<and>
    lc_commands (cl_controller m) < lb_max_commands (lc_bounds (cl_controller m)) \<and>
    lc_repairs (cl_controller m) < lb_max_repair_attempts (lc_bounds (cl_controller m))"
  using assms check_bounds_Inr by (auto simp: loop_check_def case_prod_unfold Let_def)

abbreviation records_of :: "('p, 'd) coding_loop \<Rightarrow> execution_record list" where
  "records_of m \<equiv> ec_records (cl_capture m)"

section \<open>Effects\<close>

text \<open>
  \<open>spends n m m'\<close>: from \<open>m\<close> to \<open>m'\<close> some commands were executed, \<open>n\<close> of them recorded, and
  nothing was decided, mutated or counted besides.
\<close>

definition spends :: "execution_record list \<Rightarrow> ('p, 'd) coding_loop \<Rightarrow> ('p, 'd) coding_loop \<Rightarrow> bool" where
  "spends rs m m' \<longleftrightarrow>
     lc_bounds (cl_controller m') = lc_bounds (cl_controller m) \<and>
     lc_iteration (cl_controller m') = lc_iteration (cl_controller m) \<and>
     lc_repairs (cl_controller m') = lc_repairs (cl_controller m) \<and>
     cl_decisions m' = cl_decisions m \<and> cl_mutations m' = cl_mutations m \<and>
     records_of m' = records_of m @ rs \<and>
     lc_commands (cl_controller m) + int (length rs) \<le> lc_commands (cl_controller m') \<and>
     lc_commands (cl_controller m') \<le>
       max (lc_commands (cl_controller m)) (lb_max_commands (lc_bounds (cl_controller m)))"

lemma spends_refl: "spends [] m m"
  by (simp add: spends_def)

lemma spends_trans: "spends rs m m' \<Longrightarrow> spends rs' m' m'' \<Longrightarrow> spends (rs @ rs') m m''"
  by (simp add: spends_def max_def split: if_splits)

text \<open>The record of a command: what was split, how it is called, and where it ran.\<close>

definition executed_as :: "string \<Rightarrow> execution_record \<Rightarrow> bool" where
  "executed_as command r \<longleftrightarrow>
     shlex_split command = Inr (er_command r) \<and> er_kind r = command_kind command"

lemma capture_record_effect:
  "fst (capture_record kind command res arts c w) =
     \<lparr>er_execution_id = er_execution_id (fst (capture_record kind command res arts c w)), er_kind = kind,
      er_command = command, er_cwd = [], er_sandbox_id = ec_sandbox_id c,
      er_sandbox_backend = ec_sandbox_backend c,
      er_started_at = er_started_at (fst (capture_record kind command res arts c w)),
      er_finished_at = er_finished_at (fst (capture_record kind command res arts c w)),
      er_duration = cr_duration res, er_exit_code = cr_exit_code res, er_stdout = cr_stdout res,
      er_stderr = cr_stderr res, er_timed_out = cr_timed_out res,
      er_failure_code = er_failure_code (fst (capture_record kind command res arts c w)),
      er_artifacts = arts, er_notes = []\<rparr>"
  "fst (snd (capture_record kind command res arts c w)) =
     c\<lparr>ec_records := ec_records c @ [fst (capture_record kind command res arts c w)]\<rparr>"
  by (simp_all add: capture_record_def case_prod_unfold Let_def)

lemma capture_record_reads [simp]:
  "er_command (fst (capture_record kind command res arts c w)) = command"
  "er_kind (fst (capture_record kind command res arts c w)) = kind"
  by (simp_all add: capture_record_def case_prod_unfold Let_def)

lemma execute_command_effect:
  assumes "execute_command h (command_kind command) command m = (r, m')"
  shows "case r of
      Inl e \<Rightarrow> e \<noteq> OutOfTurns \<and> spends [] m m'
    | Inr rec \<Rightarrow> executed_as command rec \<and> spends [rec] m m' \<and>
        lc_repairs (cl_controller m) < lb_max_repair_attempts (lc_bounds (cl_controller m))"
proof (cases "fst (loop_check m)")
  case (Inl e)
  with assms show ?thesis
    by (auto simp: execute_command_def case_prod_unfold Let_def spends_def)
next
  case ok: (Inr u)
  note room = loop_check_Inr [OF ok]
  let ?m1 = "snd (loop_check m)"
  let ?m2 = "?m1\<lparr>cl_controller := bump_commands (cl_controller ?m1)\<rparr>"
  show ?thesis
  proof (cases "shlex_split command")
    case (Inl e)
    with assms ok room show ?thesis
      by (auto simp: execute_command_def case_prod_unfold Let_def spends_def)
  next
    case args: (Inr args)
    let ?x = "execute_in h args (of_int (lb_per_tool_timeout_seconds (lc_bounds (cl_controller m)))) [] (cl_sandbox ?m2)"
    show ?thesis
    proof (cases "fst ?x")
      case (Inl e)
      with assms ok room args show ?thesis
        by (auto simp: execute_command_def case_prod_unfold Let_def spends_def)
    next
      case (Inr res)
      with assms ok room args show ?thesis
        by (auto simp: execute_command_def case_prod_unfold Let_def spends_def capture_record_effect(2) executed_as_def)
    qed
  qed
qed

lemma execute_plan_effect:
  "execute_plan h commands m = (r, m') \<Longrightarrow>
    case r of
      Inl e \<Rightarrow> e \<noteq> OutOfTurns \<and> (\<exists>rs. spends rs m m')
    | Inr rs \<Rightarrow> list_all2 executed_as commands rs \<and> spends rs m m' \<and>
        (commands = [] \<or> lc_repairs (cl_controller m) < lb_max_repair_attempts (lc_bounds (cl_controller m)))"
proof (induction commands arbitrary: m r m')
  case Nil
  then show ?case by (auto simp: spends_refl)
next
  case (Cons command commands)
  obtain r1 m1 where first: "execute_command h (command_kind command) command m = (r1, m1)" by fastforce
  note eff = execute_command_effect [OF first]
  show ?case
  proof (cases r1)
    case (Inl e)
    with Cons.prems first eff show ?thesis by auto
  next
    case (Inr rec)
    obtain rs m2 where rest: "execute_plan h commands m1 = (rs, m2)" by fastforce
    from Cons.prems first Inr rest have r: "r = (case rs of Inl e \<Rightarrow> Inl e | Inr recs \<Rightarrow> Inr (rec # recs))" "m' = m2"
      by auto
    note ih = Cons.IH [OF rest]
    show ?thesis
    proof (cases rs)
      case (Inl e)
      with ih eff Inr r show ?thesis by (auto intro: spends_trans)
    next
      case later: (Inr recs)
      have "spends (rec # recs) m m2"
        using spends_trans [of "[rec]" m m1 recs m2] later ih eff Inr by simp
      with later ih eff Inr r show ?thesis by auto
    qed
  qed
qed

section \<open>The invariant of the loop\<close>

definition is_repair :: "decision \<Rightarrow> bool" where
  "is_repair d \<longleftrightarrow> de_action d = ''REPAIR'' \<and> de_policy_state d = ALLOWED"

text \<open>A repair that was let through was authorized, and says what was observed and what comes next.\<close>

definition disciplined :: "bool \<Rightarrow> decision \<Rightarrow> bool" where
  "disciplined authorized d \<longleftrightarrow>
     (is_repair d \<longrightarrow> authorized \<and>
       (case de_diagnosis d of None \<Rightarrow> False
        | Some g \<Rightarrow> strip (dg_observed g) \<noteq> [] \<and> strip (dg_next_action g) \<noteq> []))"

definition loop_ok :: "bool \<Rightarrow> ('p, 'd) coding_loop \<Rightarrow> bool" where
  "loop_ok authorized m \<longleftrightarrow>
     lc_repairs (cl_controller m) = int (length (filter is_repair (cl_decisions m))) \<and>
     int (length (cl_mutations m)) \<le> lc_repairs (cl_controller m) \<and>
     list_all (disciplined authorized) (cl_decisions m) \<and>
     int (length (records_of m)) \<le> lc_commands (cl_controller m) \<and>
     lc_commands (cl_controller m) \<le> max 0 (lb_max_commands (lc_bounds (cl_controller m))) \<and>
     lc_repairs (cl_controller m) \<le> max 0 (lb_max_repair_attempts (lc_bounds (cl_controller m))) \<and>
     lc_iteration (cl_controller m) \<le> max 1 (lb_max_iterations (lc_bounds (cl_controller m)))"

text \<open>The repairs stay strictly below their bound wherever the loop goes on or returns.\<close>

definition below_repairs :: "('p, 'd) coding_loop \<Rightarrow> bool" where
  "below_repairs m \<longleftrightarrow> lc_repairs (cl_controller m) < max 1 (lb_max_repair_attempts (lc_bounds (cl_controller m)))"

definition reports :: "loop_result \<Rightarrow> ('p, 'd) coding_loop \<Rightarrow> bool" where
  "reports res m \<longleftrightarrow> lr_executions res = records_of m \<and> lr_decisions res = cl_decisions m \<and>
     lr_mutations res = cl_mutations m \<and> lr_iterations res = lc_iteration (cl_controller m)"

text \<open>The last executions of a candidate that passed: one per test of the plan, each of them passed.\<close>

definition evidenced :: "development_plan \<Rightarrow> execution_record list \<Rightarrow> bool" where
  "evidenced plan rs \<longleftrightarrow>
     (\<exists>earlier es. rs = earlier @ es \<and> list_all2 executed_as (dp_tests_to_run plan) es \<and> list_all passed es)"

lemma reports_result_of [simp]: "reports (loop_result_of s kind detail m) m"
  by (simp add: reports_def loop_result_of_def)

lemma result_of_state [simp]: "lr_final_state (loop_result_of s kind detail m) = s"
  by (simp add: loop_result_of_def)

lemma failing_Nil: "failing rs = [] \<longleftrightarrow> list_all passed rs"
  by (simp add: failing_def list_all_iff filter_empty_conv)

lemma loop_ok_cong:
  assumes "cl_controller m' = cl_controller m" "cl_capture m' = cl_capture m"
    "cl_decisions m' = cl_decisions m" "cl_mutations m' = cl_mutations m"
  shows "loop_ok a m' = loop_ok a m" "below_repairs m' = below_repairs m"
  using assms by (simp_all add: loop_ok_def below_repairs_def)

lemma spends_ok:
  assumes "spends rs m m'"
  shows "loop_ok a m \<Longrightarrow> loop_ok a m'" "below_repairs m' = below_repairs m"
  using assms by (auto simp: spends_def loop_ok_def below_repairs_def max_def split: if_splits)

lemma bump_iteration_ok:
  assumes "loop_ok a m" "lc_iteration (cl_controller m) < max 1 (lb_max_iterations (lc_bounds (cl_controller m)))"
  shows "loop_ok a (m\<lparr>cl_controller := bump_iteration (cl_controller m)\<rparr>)"
  using assms by (simp add: loop_ok_def)

lemma decide_directive_effect:
  assumes "decide_directive d authorized m = (r, m')"
  shows "case r of
      Inl e \<Rightarrow> e \<noteq> OutOfTurns \<and> m' = m
    | Inr decision \<Rightarrow>
        cl_controller m' = cl_controller m \<and> cl_capture m' = cl_capture m \<and> cl_mutations m' = cl_mutations m \<and>
        cl_decisions m' = cl_decisions m @ [decision] \<and> disciplined authorized decision \<and>
        (is_repair decision \<longleftrightarrow> de_policy_state decision \<noteq> DENIED_BY_POLICY \<and> dd_action d \<noteq> ''STOP'')"
proof (cases "directive_fault d")
  case None
  then have fault: "dd_action d = ''REPAIR'' \<or> dd_action d = ''STOP''"
    "dd_action d = ''REPAIR'' \<Longrightarrow> \<exists>g. dd_diagnosis d = Some g \<and> strip (dg_observed g) \<noteq> [] \<and> strip (dg_next_action g) \<noteq> []"
    by (auto simp: directive_fault_def split: if_splits option.splits)
  show ?thesis
  proof (cases "dd_action d = ''REPAIR''")
    case True
    with fault(2) obtain g where "dd_diagnosis d = Some g" "strip (dg_observed g) \<noteq> []" "strip (dg_next_action g) \<noteq> []"
      by blast
    with True None assms show ?thesis
      by (cases authorized)
        (auto simp: decide_directive_def case_prod_unfold Let_def disciplined_def is_repair_def)
  next
    case False
    with fault(1) None assms show ?thesis
      by (auto simp: decide_directive_def case_prod_unfold Let_def disciplined_def is_repair_def)
  qed
qed (use assms in \<open>auto simp: decide_directive_def\<close>)

lemma mutate_file_effect:
  assumes "mutate_file h d m = (r, m')"
  shows "cl_controller m' = cl_controller m" "cl_capture m' = cl_capture m" "cl_decisions m' = cl_decisions m"
    "length (cl_mutations m') \<le> Suc (length (cl_mutations m))" "r \<noteq> Inl OutOfTurns"
  using assms by (auto simp: mutate_file_def case_prod_unfold Let_def split: sum.splits)

section \<open>Turns\<close>

text \<open>What a turn, and a run of turns, leaves behind.\<close>

definition turn_ok ::
    "development_plan \<Rightarrow> bool \<Rightarrow> ('p, 'd) coding_loop \<Rightarrow> loop_error + loop_turn \<Rightarrow> ('p, 'd) coding_loop \<Rightarrow> bool" where
  "turn_ok plan a m r m' \<longleftrightarrow>
     loop_ok a m' \<and> lc_bounds (cl_controller m') = lc_bounds (cl_controller m) \<and>
     (case r of
        Inl e \<Rightarrow> e \<noteq> OutOfTurns
      | Inr (Return res) \<Rightarrow> below_repairs m' \<and> reports res m' \<and>
          (lr_final_state res = CANDIDATE_PASSED \<longrightarrow> evidenced plan (records_of m'))
      | Inr (NextTurn records) \<Rightarrow> below_repairs m' \<and>
          lc_iteration (cl_controller m') = lc_iteration (cl_controller m) + 1)"

lemma executions_evidence:
  "list_all2 executed_as (dp_tests_to_run plan) rs \<Longrightarrow> spends rs m m' \<Longrightarrow> failing rs = [] \<Longrightarrow>
    evidenced plan (records_of m')"
  unfolding evidenced_def failing_Nil spends_def by blast

lemma judge_turn:
  assumes plan: "list_all2 executed_as (dp_tests_to_run plan) records" "spends records m2 m3"
    and ok: "loop_ok a m3" "below_repairs m3"
    and iter: "lc_iteration (cl_controller m3) = lc_iteration (cl_controller m)"
      "lc_bounds (cl_controller m3) = lc_bounds (cl_controller m)"
      "lc_iteration (cl_controller m) < lb_max_iterations (lc_bounds (cl_controller m))"
    and m4: "m4 = m3\<lparr>cl_controller := bump_iteration (cl_controller m3)\<rparr>"
    and good: "failing records = [] \<Longrightarrow>
      \<exists>detail. r = Inr (Return (loop_result_of CANDIDATE_PASSED SUCCESS_EVIDENCED detail m4)) \<and> m' = m4"
    and bad: "failing records \<noteq> [] \<Longrightarrow>
      m' = m4\<lparr>cl_controller := snd (record_execution_signature sig (cl_controller m4))\<rparr> \<and>
      (r = Inr (NextTurn records) \<or> (\<exists>detail. r = Inr (Return (loop_result_of BLOCKED NO_PROGRESS detail m'))))"
  shows "turn_ok plan a m r m'"
proof -
  have ok4: "loop_ok a m4" unfolding m4 using ok iter by (intro bump_iteration_ok) auto
  have below4: "below_repairs m4" using ok(2) unfolding m4 by (simp add: below_repairs_def)
  show ?thesis
  proof (cases "failing records = []")
    case True
    have "evidenced plan (records_of m3)" by (rule executions_evidence [OF plan True])
    with good [OF True] ok4 below4 iter show ?thesis by (auto simp: turn_ok_def) (simp_all add: m4)
  next
    case False
    define c where "c = snd (record_execution_signature sig (cl_controller m4))"
    have c: "lc_bounds c = lc_bounds (cl_controller m4)" "lc_iteration c = lc_iteration (cl_controller m4)"
      "lc_commands c = lc_commands (cl_controller m4)" "lc_repairs c = lc_repairs (cl_controller m4)"
      by (simp_all add: c_def)
    have ok5: "loop_ok a (m4\<lparr>cl_controller := c\<rparr>)" "below_repairs (m4\<lparr>cl_controller := c\<rparr>)"
      using ok4 below4 c by (simp_all add: loop_ok_def below_repairs_def)
    have "lc_iteration c = lc_iteration (cl_controller m) + 1" "lc_bounds c = lc_bounds (cl_controller m)"
      using c iter by (simp_all add: m4)
    with bad [OF False] ok5 show ?thesis by (auto simp: turn_ok_def simp flip: c_def)
  qed
qed

lemma repair_turn_effect:
  assumes turn: "repair_turn h plan d decision m = (r, m')"
    and ok: "loop_ok a (m\<lparr>cl_controller := bump_repairs (cl_controller m)\<rparr>)"
    and slack: "int (length (cl_mutations m)) \<le> lc_repairs (cl_controller m)"
    and room: "lc_iteration (cl_controller m) < lb_max_iterations (lc_bounds (cl_controller m))"
    and tests: "dp_tests_to_run plan \<noteq> []"
  shows "turn_ok plan a m r m'"
proof -
  define m1 where "m1 = m\<lparr>cl_controller := bump_repairs (cl_controller m)\<rparr>"
  obtain x m2 where mutate: "(case dd_mutation d of None \<Rightarrow> (Inr (), m1) | Some g \<Rightarrow> mutate_file h g m1) = (x, m2)"
    by fastforce
  have m2: "cl_controller m2 = cl_controller m1" "cl_capture m2 = cl_capture m1" "cl_decisions m2 = cl_decisions m1"
    "length (cl_mutations m2) \<le> Suc (length (cl_mutations m1))" "x \<noteq> Inl OutOfTurns"
    using mutate mutate_file_effect [of h _ m1 x m2] by (auto split: option.splits)
  have ok2: "loop_ok a m2"
    using ok slack m2 unfolding m1_def loop_ok_def by simp
  show ?thesis
  proof (cases x)
    case (Inl e)
    with turn mutate have "r = Inl e" "m' = m2" by (simp_all add: repair_turn_def Let_def flip: m1_def)
    with Inl m2 ok2 show ?thesis by (auto simp: turn_ok_def m1_def)
  next
    case (Inr u)
    obtain rs m3 where run: "execute_plan h (dp_tests_to_run plan) m2 = (rs, m3)" by fastforce
    note eff = execute_plan_effect [OF run]
    show ?thesis
    proof (cases rs)
      case failed: (Inl e)
      with Inr turn mutate run have "r = Inl e" "m' = m3" by (simp_all add: repair_turn_def Let_def flip: m1_def)
      moreover obtain recs where "spends recs m2 m3" using eff failed by auto
      ultimately show ?thesis using eff failed ok2 m2 spends_ok(1) [of recs m2 m3 a]
        by (auto simp: turn_ok_def m1_def spends_def)
    next
      case ran: (Inr records)
      have plan: "list_all2 executed_as (dp_tests_to_run plan) records" "spends records m2 m3"
        and repairs: "lc_repairs (cl_controller m2) < lb_max_repair_attempts (lc_bounds (cl_controller m2))"
        using eff ran tests by auto
      have ok3: "loop_ok a m3" "below_repairs m3"
        using spends_ok [OF plan(2)] ok2 repairs by (auto simp: below_repairs_def)
      have "lc_iteration (cl_controller m3) = lc_iteration (cl_controller m)"
        "lc_bounds (cl_controller m3) = lc_bounds (cl_controller m)"
        using plan(2) m2 by (simp_all add: spends_def m1_def)
      moreover define m4 where "m4 = m3\<lparr>cl_controller := bump_iteration (cl_controller m3)\<rparr>"
      moreover have "failing records = [] \<Longrightarrow>
          \<exists>detail. r = Inr (Return (loop_result_of CANDIDATE_PASSED SUCCESS_EVIDENCED detail m4)) \<and> m' = m4"
        and "failing records \<noteq> [] \<Longrightarrow>
          m' = m4\<lparr>cl_controller := snd (record_execution_signature (no_progress_signature (failing records)) (cl_controller m4))\<rparr> \<and>
          (r = Inr (NextTurn records) \<or> (\<exists>detail. r = Inr (Return (loop_result_of BLOCKED NO_PROGRESS detail m'))))"
        using turn mutate Inr run ran
        by (auto simp: repair_turn_def Let_def case_prod_unfold simp flip: m1_def m4_def split: if_splits)
      ultimately show ?thesis by (rule judge_turn [OF plan ok3 _ _ room])
    qed
  qed
qed

text \<open>A whole turn: the bounds are checked, the decider asked, its directive judged and carried out.\<close>

lemma make_view_fields [simp]:
  "cl_controller (snd (make_view plan rs m)) = cl_controller m" "cl_capture (snd (make_view plan rs m)) = cl_capture m"
  "cl_decisions (snd (make_view plan rs m)) = cl_decisions m" "cl_mutations (snd (make_view plan rs m)) = cl_mutations m"
  by (simp_all add: make_view_def case_prod_unfold Let_def)

lemma turn_ok_Return:
  assumes "cl_controller m' = cl_controller m" "loop_ok a m'" "below_repairs m'" "s \<noteq> CANDIDATE_PASSED"
  shows "turn_ok plan a m (Inr (Return (loop_result_of s kind detail m'))) m'"
  using assms by (simp add: turn_ok_def)

lemma decided_ok:
  assumes ok: "loop_ok a m" "below_repairs m"
    and same: "cl_controller m4 = cl_controller m" "cl_capture m4 = cl_capture m" "cl_mutations m4 = cl_mutations m"
      "cl_decisions m4 = cl_decisions m @ [decision]" "disciplined a decision"
  shows "\<not> is_repair decision \<Longrightarrow> loop_ok a m4 \<and> below_repairs m4"
    "is_repair decision \<Longrightarrow> lc_repairs (cl_controller m) < lb_max_repair_attempts (lc_bounds (cl_controller m)) \<Longrightarrow>
      loop_ok a (m4\<lparr>cl_controller := bump_repairs (cl_controller m4)\<rparr>) \<and>
      int (length (cl_mutations m4)) \<le> lc_repairs (cl_controller m4)"
  using assms by (simp_all add: loop_ok_def below_repairs_def)

lemma coding_turn_effect:
  assumes turn: "coding_turn h plan a decider records m = (r, m')"
    and ok: "loop_ok a m" "below_repairs m" and tests: "dp_tests_to_run plan \<noteq> []"
  shows "turn_ok plan a m r m'"
proof (cases "fst (loop_check m)")
  case (Inl e)
  with turn have r: "r = Inr (Return (loop_result_of BLOCKED BOUNDS_EXHAUSTED (be_bound e @ '': '' @ be_message e) (snd (loop_check m))))"
    "m' = snd (loop_check m)"
    by (auto simp: coding_turn_def case_prod_unfold Let_def)
  show ?thesis unfolding r
    by (rule turn_ok_Return) (use ok in \<open>auto simp: loop_ok_def below_repairs_def\<close>)
next
  case (Inr u)
  note room = loop_check_Inr [OF Inr]
  define m2 where "m2 = snd (make_view plan records (snd (loop_check m)))"
  define answer where "answer = decider (fst (make_view plan records (snd (loop_check m)))) (cl_decider_state m2)"
  define m3 where "m3 = m2\<lparr>cl_decider_state := snd answer\<rparr>"
  have m3: "cl_controller m3 = cl_controller m" "cl_capture m3 = cl_capture m"
    "cl_decisions m3 = cl_decisions m" "cl_mutations m3 = cl_mutations m"
    by (simp_all add: m3_def m2_def)
  have ok3: "loop_ok a m3" "below_repairs m3" using loop_ok_cong [OF m3] ok by simp_all
  have step: "coding_turn h plan a decider records m =
      (case fst answer of
         Inl e \<Rightarrow> (Inl (DeciderRaised e), m3)
       | Inr d \<Rightarrow>
           (let (decided, m4) = decide_directive d a m3 in
            case decided of
              Inl e \<Rightarrow> (Inl e, m4)
            | Inr decision \<Rightarrow>
                (if de_policy_state decision = DENIED_BY_POLICY then
                   (Inr (Return (loop_result_of BLOCKED POLICY_STOP
                      (''decision '' @ de_decision_id decision @ '' denied by policy: '' @
                       de_policy_reason decision) m4)), m4)
                 else if dd_action d = ''STOP'' then
                   (Inr (Return (loop_result_of CANDIDATE_FAILED STOP_REQUESTED
                      (''decider requested stop: '' @ dd_rationale d) m4)), m4)
                 else repair_turn h plan d decision m4)))"
    unfolding coding_turn_def m3_def answer_def m2_def using Inr by (simp add: case_prod_unfold Let_def)
  show ?thesis
  proof (cases "fst answer")
    case (Inl e)
    with turn step have "r = Inl (DeciderRaised e)" "m' = m3" by simp_all
    then show ?thesis using ok3 m3 by (simp add: turn_ok_def)
  next
    case answer: (Inr d)
    obtain decided m4 where decide: "decide_directive d a m3 = (decided, m4)" by fastforce
    note eff = decide_directive_effect [OF decide]
    show ?thesis
    proof (cases decided)
      case (Inl e)
      with turn step answer decide have "r = Inl e" "m' = m4" by simp_all
      then show ?thesis using eff Inl ok3 m3 by (simp add: turn_ok_def)
    next
      case decided: (Inr decision)
      from eff decided have same: "cl_controller m4 = cl_controller m3" "cl_capture m4 = cl_capture m3"
        "cl_mutations m4 = cl_mutations m3" "cl_decisions m4 = cl_decisions m3 @ [decision]" "disciplined a decision"
        and repair: "is_repair decision \<longleftrightarrow> de_policy_state decision \<noteq> DENIED_BY_POLICY \<and> dd_action d \<noteq> ''STOP''"
        by simp_all
      note kept = decided_ok [OF ok3 same]
      show ?thesis
      proof (cases "is_repair decision")
        case False
        with kept(1) have "loop_ok a m4" "below_repairs m4" by simp_all
        then have "turn_ok plan a m (Inr (Return (loop_result_of s kind detail m4))) m4"
          if "s \<noteq> CANDIDATE_PASSED" for s kind detail
          using that same m3 by (intro turn_ok_Return) simp_all
        with turn step answer decide decided False repair show ?thesis by (auto split: if_splits)
      next
        case True
        with kept(2) room m3 have "loop_ok a (m4\<lparr>cl_controller := bump_repairs (cl_controller m4)\<rparr>)"
          "int (length (cl_mutations m4)) \<le> lc_repairs (cl_controller m4)" by simp_all
        moreover have "repair_turn h plan d decision m4 = (r, m')"
          using turn step answer decide decided True repair by simp
        ultimately have "turn_ok plan a m4 r m'"
          using room same m3 tests by (intro repair_turn_effect) simp_all
        then show ?thesis unfolding turn_ok_def same(1) m3(1) .
      qed
    qed
  qed
qed

section \<open>Runs\<close>

definition run_ok ::
    "development_plan \<Rightarrow> bool \<Rightarrow> loop_error + loop_result \<Rightarrow> ('p, 'd) coding_loop \<Rightarrow> bool" where
  "run_ok plan a r m' \<longleftrightarrow>
     loop_ok a m' \<and>
     (case r of
        Inl e \<Rightarrow> e \<noteq> OutOfTurns
      | Inr res \<Rightarrow> below_repairs m' \<and> reports res m' \<and>
          (lr_final_state res = CANDIDATE_PASSED \<longrightarrow> evidenced plan (records_of m')))"

text \<open>
  Enough turns: each turn that goes on has counted an iteration, and a turn with none left
  returns.
\<close>

lemma repair_loop_effect:
  "repair_loop n h plan a decider records m = (r, m') \<Longrightarrow> loop_ok a m \<Longrightarrow> below_repairs m \<Longrightarrow>
    dp_tests_to_run plan \<noteq> [] \<Longrightarrow>
    lb_max_iterations (lc_bounds (cl_controller m)) - lc_iteration (cl_controller m) < int n \<Longrightarrow> 0 < n \<Longrightarrow>
    run_ok plan a r m' \<and> lc_bounds (cl_controller m') = lc_bounds (cl_controller m)"
proof (induction n arbitrary: records m)
  case (Suc n)
  obtain t m1 where turn: "coding_turn h plan a decider records m = (t, m1)" by fastforce
  note eff = coding_turn_effect [OF turn Suc.prems(2-4), unfolded turn_ok_def]
  show ?case
  proof (cases t)
    case (Inl e)
    with Suc.prems(1) turn have "r = Inl e" "m' = m1" by simp_all
    with eff Inl show ?thesis by (simp add: run_ok_def)
  next
    case (Inr x)
    show ?thesis
    proof (cases x)
      case (Return res)
      with Suc.prems(1) turn Inr have "r = Inr res" "m' = m1" by simp_all
      with eff Inr Return show ?thesis by (simp add: run_ok_def)
    next
      case (NextTurn records')
      with Suc.prems(1) turn Inr have rest: "repair_loop n h plan a decider records' m1 = (r, m')" by simp
      from eff Inr NextTurn have going: "loop_ok a m1" "below_repairs m1"
        "lc_bounds (cl_controller m1) = lc_bounds (cl_controller m)"
        "lc_iteration (cl_controller m1) = lc_iteration (cl_controller m) + 1" by simp_all
      have "n \<noteq> 0"
      proof
        assume "n = 0"
        with Suc.prems(5) have "lb_max_iterations (lc_bounds (cl_controller m)) \<le> lc_iteration (cl_controller m)" by simp
        then have "fst (loop_check m) = Inl (BoundsExhausted (''maximum iterations reached ('' @
            str_int (lb_max_iterations (lc_bounds (cl_controller m))) @ '')'') ''max_iterations'')"
          by (simp add: loop_check_def check_bounds_def)
        with turn Inr NextTurn show False by (simp add: coding_turn_def case_prod_unfold Let_def)
      qed
      with Suc.IH [OF rest going(1,2) Suc.prems(4)] Suc.prems(5) going(3,4) show ?thesis by simp
    qed
  qed
qed simp

text \<open>A loop that has not run yet.\<close>

definition fresh_loop :: "('p, 'd) coding_loop \<Rightarrow> bool" where
  "fresh_loop m \<longleftrightarrow>
     lc_iteration (cl_controller m) = 0 \<and> lc_commands (cl_controller m) = 0 \<and> lc_repairs (cl_controller m) = 0 \<and>
     records_of m = [] \<and> cl_decisions m = [] \<and> cl_mutations m = []"

lemma new_loop_fresh: "fresh_loop (new_loop sb b d)" "lc_bounds (cl_controller (new_loop sb b d)) = b"
  by (simp_all add: fresh_loop_def new_loop_def new_controller_def case_prod_unfold Let_def)

lemma fresh_ok: "fresh_loop m \<Longrightarrow> loop_ok a m \<and> below_repairs m"
  by (simp add: fresh_loop_def loop_ok_def below_repairs_def max_def)

lemma loop_checkpoint_fields:
  assumes "loop_checkpoint label m = (r, m')"
  shows "cl_controller m' = cl_controller m" "cl_capture m' = cl_capture m"
    "cl_decisions m' = cl_decisions m" "cl_mutations m' = cl_mutations m" "r \<noteq> Inl OutOfTurns"
  using assms by (auto simp: loop_checkpoint_def case_prod_unfold Let_def split: sum.splits)

lemma run_coding_effect:
  assumes run: "run_coding h plan failed a decider m = (r, m')" and fresh: "fresh_loop m"
  shows "run_ok plan a r m' \<and> lc_bounds (cl_controller m') = lc_bounds (cl_controller m) \<and>
    (failed = [] \<or> (\<forall>res. r = Inr res \<longrightarrow> lr_final_state res = BLOCKED))"
proof (cases "failed = []")
  case False
  with run have "r = Inr (loop_result_of BLOCKED POLICY_STOP (''execution barrier BLOCKED: '' @ join ''; '' failed) m)"
    "m' = m" by (auto simp: run_coding_def)
  then show ?thesis using fresh_ok [OF fresh, of a] by (auto simp: run_ok_def)
next
  case allowed: True
  obtain x m1 where cp: "loop_checkpoint ''pre-candidate'' m = (x, m1)" by fastforce
  note m1 = loop_checkpoint_fields [OF cp]
  have ok1: "loop_ok a m1" "below_repairs m1" using loop_ok_cong [OF m1(1-4)] fresh_ok [OF fresh] by simp_all
  obtain rs m2 where exec: "execute_plan h (dp_tests_to_run plan) m1 = (rs, m2)" by fastforce
  note eff = execute_plan_effect [OF exec]
  show ?thesis
  proof (cases x)
    case (Inl e)
    with run allowed cp have "r = Inl e" "m' = m1" by (simp_all add: run_coding_def)
    then show ?thesis using Inl m1 ok1 allowed by (auto simp: run_ok_def)
  next
    case (Inr u)
    show ?thesis
    proof (cases rs)
      case failed: (Inl e)
      with run allowed cp Inr exec have "r = Inl e" "m' = m2" by (simp_all add: run_coding_def)
      moreover obtain recs where "spends recs m1 m2" using eff failed by auto
      ultimately show ?thesis using eff failed ok1 m1 allowed spends_ok(1) [of recs m1 m2 a]
        by (auto simp: run_ok_def spends_def)
    next
      case ran: (Inr records)
      have sp: "spends records m1 m2" and as: "list_all2 executed_as (dp_tests_to_run plan) records"
        using eff ran by auto
      define m3 where "m3 = m2\<lparr>cl_controller := bump_iteration (cl_controller m2)\<rparr>"
      have it: "lc_iteration (cl_controller m2) = 0" "lc_bounds (cl_controller m2) = lc_bounds (cl_controller m)"
        using sp m1 fresh by (simp_all add: spends_def fresh_loop_def)
      have ok3: "loop_ok a m3" "below_repairs m3"
        using bump_iteration_ok [OF spends_ok(1) [OF sp ok1(1)]] it spends_ok(2) [OF sp] ok1(2)
        by (simp_all add: m3_def below_repairs_def)
      show ?thesis
      proof (cases "failing records = []")
        case True
        have "evidenced plan (records_of m3)" using executions_evidence [OF as sp True] by (simp add: m3_def)
        moreover have "\<exists>detail. r = Inr (loop_result_of CANDIDATE_PASSED SUCCESS_EVIDENCED detail m3) \<and> m' = m3"
          using run allowed cp Inr exec ran True by (auto simp: run_coding_def simp flip: m3_def)
        ultimately show ?thesis using ok3 allowed it by (auto simp: run_ok_def) (simp_all add: m3_def)
      next
        case False
        then have tests: "dp_tests_to_run plan \<noteq> []" using as by (auto simp: failing_def)
        have "repair_loop (Suc (nat (lb_max_iterations (lc_bounds (cl_controller m3))))) h plan a decider records m3 = (r, m')"
          using run allowed cp Inr exec ran False by (simp add: run_coding_def flip: m3_def)
        from repair_loop_effect [OF this ok3 tests] allowed it show ?thesis by (simp add: m3_def)
      qed
    qed
  qed
qed

section \<open>A concrete run\<close>

text \<open>The one test passes as soon as the file \<open>fixed\<close> is there; the decider writes it.\<close>

definition demo_host :: host_ports where
  "demo_host = \<lparr>ho_sha256 = (\<lambda>b. b), ho_decode = (\<lambda>b. b), ho_environ = [(''PATH'', ''/bin'')],
     ho_start = (\<lambda>_ _ _ _. None),
     ho_process = (\<lambda>args env cwd timeout t w.
       (Exited (Some (if is_file t [''fixed''] then 0 else 1)) [] ''1 failed'', t, w))\<rparr>"

definition demo_workspace :: "unit dev_sandbox" where
  "demo_workspace =
     \<lparr>ds_identity = \<lparr>si_sandbox_id = ''local-1'', si_backend = LOCAL_WORKSPACE, si_origin = ''/src'',
        si_workspace_root = ''/tmp/w'', si_provider_sandbox_id = [], si_created_at = 0, si_capabilities = []\<rparr>,
      ds_control = None, ds_mutations = [], ds_checkpoints = [], ds_destroyed = False,
      ds_tree = [([], NDir)], ds_provider = (),
      ds_world = \<lparr>clock_at = int, ticks = 0, uuid_at = (\<lambda>_. ''0123456789abcdef0123456789abcdef''), uuids = 0\<rparr>\<rparr>"

definition demo_plan :: development_plan where
  "demo_plan = \<lparr>dp_interpretation = ''i'', dp_affected_components = [], dp_affected_files = [''fixed''],
     dp_implementation_strategy = ''s'', dp_tests_to_run = [''pytest -k \"a b\"''], dp_completion_criteria = [''c''],
     dp_expected_risk = ''LOW'', dp_expected_verification = []\<rparr>"

definition demo_decider :: "unit decider" where
  "demo_decider view d =
     (Inr \<lparr>dd_action = ''REPAIR'', dd_rationale = ''r'',
        dd_diagnosis = Some \<lparr>dg_failure_codes = [], dg_observed = ''o'', dg_probable_cause = ''p'', dg_next_action = ''n''\<rparr>,
        dd_mutation = Some \<lparr>md_path = ''fixed'', md_content = ''x'', md_reason = ''fix''\<rparr>\<rparr>, d)"

definition demo_coding :: "loop_bounds \<Rightarrow> (loop_error + loop_result) \<times> (unit, unit) coding_loop" where
  "demo_coding b = run_coding demo_host demo_plan [] True demo_decider (new_loop demo_workspace b ())"

lemma demo_coding_passes:
  "(case fst (demo_coding default_bounds) of
      Inr res \<Rightarrow> lr_final_state res = CANDIDATE_PASSED \<and> length (lr_executions res) = 2 \<and> length (lr_mutations res) = 1
    | Inl _ \<Rightarrow> False)"
  by code_simp

lemma demo_coding_obtains:
  obtains res m' where "run_coding demo_host demo_plan [] True demo_decider (new_loop demo_workspace default_bounds ()) = (Inr res, m')"
    "lr_final_state res = CANDIDATE_PASSED" "length (lr_mutations res) = 1"
  using demo_coding_passes unfolding demo_coding_def
  by (cases "run_coding demo_host demo_plan [] True demo_decider (new_loop demo_workspace default_bounds ())")
    (auto split: sum.splits)

section \<open>Properties\<close>

text \<open>
  C19. A candidate passes on machine evidence only: when a run is reported \<open>CANDIDATE_PASSED\<close>, the
  barrier let it start, and its last executions are one for each test of the plan, in order, each
  the split command line of its test, with exit code 0 and not timed out. What the decider says
  does not count.
\<close>
theorem passed_on_machine_evidence:
  assumes "run_coding h plan failed a decider (new_loop sb b d) = (Inr res, m')"
    and "lr_final_state res = CANDIDATE_PASSED"
  shows "failed = [] \<and> (\<exists>earlier es. lr_executions res = earlier @ es \<and>
    list_all2 (\<lambda>test e. shlex_split test = Inr (er_command e) \<and> er_kind e = command_kind test \<and>
      er_exit_code e = 0 \<and> \<not> er_timed_out e) (dp_tests_to_run plan) es)"
proof -
  note eff = run_coding_effect [OF assms(1) new_loop_fresh(1)]
  from eff assms(2) have "failed = []" by auto
  moreover from eff assms(2) have "evidenced plan (lr_executions res)" by (auto simp: run_ok_def reports_def)
  then obtain earlier es where es: "lr_executions res = earlier @ es"
    "list_all2 executed_as (dp_tests_to_run plan) es" "list_all passed es"
    by (auto simp: evidenced_def)
  from es(2,3) have "list_all2 (\<lambda>test e. shlex_split test = Inr (er_command e) \<and> er_kind e = command_kind test \<and>
      er_exit_code e = 0 \<and> \<not> er_timed_out e) (dp_tests_to_run plan) es"
    by (auto simp: list_all2_conv_all_nth list_all_length executed_as_def passed_def)
  ultimately show ?thesis using es(1) by blast
qed

text \<open>
  C20. A run is bounded, however it ends: it never runs out of its turns, executes no more commands
  than \<open>max_commands\<close>, counts no more iterations than \<open>max_iterations\<close> (the first execution is
  always one) and makes no more repairs and mutations than \<open>max_repair_attempts\<close>.
\<close>
theorem coding_run_bounded:
  assumes "run_coding h plan failed a decider (new_loop sb b d) = (r, m')"
  shows "r \<noteq> Inl OutOfTurns \<and>
    int (length (ec_records (cl_capture m'))) \<le> max 0 (lb_max_commands b) \<and>
    lc_iteration (cl_controller m') \<le> max 1 (lb_max_iterations b) \<and>
    int (length (filter is_repair (cl_decisions m'))) \<le> max 0 (lb_max_repair_attempts b) \<and>
    int (length (cl_mutations m')) \<le> max 0 (lb_max_repair_attempts b)"
  using run_coding_effect [OF assms new_loop_fresh(1)] new_loop_fresh(2) [of sb b d]
  by (auto simp: run_ok_def loop_ok_def)

text \<open>
  The last repair never counts: a run that returns a result has carried out strictly fewer
  repairs than \<open>max_repair_attempts\<close> (or none). The budget is checked before every command, so the
  execution after the last allowed repair always raises \<open>BoundsExhaustedError\<close> out of \<open>run\<close>
  instead of reporting \<open>BLOCKED\<close>.
\<close>
theorem last_repair_never_returns:
  assumes "run_coding h plan failed a decider (new_loop sb b d) = (Inr res, m')"
  shows "int (length (filter is_repair (lr_decisions res))) < max 1 (lb_max_repair_attempts b)"
  using run_coding_effect [OF assms new_loop_fresh(1)] new_loop_fresh(2) [of sb b d]
  by (auto simp: run_ok_def loop_ok_def below_repairs_def reports_def)

theorem passed_on_machine_evidence_witness:
  "\<exists>res m'. run_coding demo_host demo_plan [] True demo_decider (new_loop demo_workspace default_bounds ()) = (Inr res, m') \<and>
    (\<exists>earlier es. lr_executions res = earlier @ es \<and>
      list_all2 (\<lambda>test e. shlex_split test = Inr (er_command e) \<and> er_kind e = command_kind test \<and>
        er_exit_code e = 0 \<and> \<not> er_timed_out e) (dp_tests_to_run demo_plan) es)"
proof (rule demo_coding_obtains)
  fix res m'
  assume run: "run_coding demo_host demo_plan [] True demo_decider (new_loop demo_workspace default_bounds ()) = (Inr res, m')"
    and "lr_final_state res = CANDIDATE_PASSED"
  with passed_on_machine_evidence [OF this] show ?thesis by blast
qed

theorem coding_run_bounded_witness:
  "int (length (ec_records (cl_capture (snd (demo_coding default_bounds))))) \<le> 40"
proof -
  have "run_coding demo_host demo_plan [] True demo_decider (new_loop demo_workspace default_bounds ()) =
      (fst (demo_coding default_bounds), snd (demo_coding default_bounds))"
    by (simp add: demo_coding_def)
  from coding_run_bounded [OF this] show ?thesis by (simp add: default_bounds_def)
qed

theorem last_repair_never_returns_witness:
  "\<exists>res m'. run_coding demo_host demo_plan [] True demo_decider (new_loop demo_workspace default_bounds ()) = (Inr res, m') \<and>
    int (length (filter is_repair (lr_decisions res))) < 3"
proof (rule demo_coding_obtains)
  fix res m'
  assume run: "run_coding demo_host demo_plan [] True demo_decider (new_loop demo_workspace default_bounds ()) = (Inr res, m')"
  from last_repair_never_returns [OF run] run show ?thesis by (simp add: default_bounds_def)
qed

end
