(* ===== verification/Candidates.thy ===== *)
theory Candidates
  imports Coding_Loop "HOL-Library.Multiset"
begin

text \<open>
  \<open>develop/candidates.py\<close>: candidate patches and their comparison by machine evidence, and
  \<open>develop/trace.py\<close>: the hash-chained trace of a run. SHA-256, \<open>json.dumps\<close> with sorted keys and
  \<open>isoformat\<close> are arguments of the trace.
\<close>

section \<open>Dictionaries of the loop's values\<close>

definition diagnosis_dict :: "diagnosis \<Rightarrow> pyval" where
  "diagnosis_dict g = PDict [
     (''failure_codes'', py_strs (dg_failure_codes g)), (''observed'', PStr (dg_observed g)),
     (''probable_cause'', PStr (dg_probable_cause g)), (''next_action'', PStr (dg_next_action g))]"

fun policy_state_value :: "policy_state \<Rightarrow> string" where
  "policy_state_value ALLOWED = ''ALLOWED''"
| "policy_state_value DENIED_BY_POLICY = ''DENIED_BY_POLICY''"

definition decision_dict :: "decision \<Rightarrow> (string \<times> pyval) list" where
  "decision_dict d =
     [(''decision_id'', PStr (de_decision_id d)), (''iteration'', PInt (de_iteration d)),
      (''action'', PStr (de_action d)), (''rationale'', PStr (de_rationale d)),
      (''diagnosis'', case de_diagnosis d of None \<Rightarrow> PNone | Some g \<Rightarrow> diagnosis_dict g),
      (''mutation_path'', PStr (de_mutation_path d)), (''authorized'', PBool (de_authorized d)),
      (''policy_state'', PStr (policy_state_value (de_policy_state d))),
      (''policy_reason'', PStr (de_policy_reason d))]"

fun termination_value :: "termination_kind \<Rightarrow> string" where
  "termination_value SUCCESS_EVIDENCED = ''SUCCESS_EVIDENCED''"
| "termination_value BOUNDS_EXHAUSTED = ''BOUNDS_EXHAUSTED''"
| "termination_value NO_PROGRESS = ''NO_PROGRESS''"
| "termination_value POLICY_STOP = ''POLICY_STOP''"
| "termination_value STOP_REQUESTED = ''STOP_REQUESTED''"

fun final_state_value :: "final_state \<Rightarrow> string" where
  "final_state_value CANDIDATE_PASSED = ''CANDIDATE_PASSED''"
| "final_state_value CANDIDATE_FAILED = ''CANDIDATE_FAILED''"
| "final_state_value BLOCKED = ''BLOCKED''"

definition termination_dict :: "loop_result \<Rightarrow> pyval" where
  "termination_dict r =
     PDict [(''kind'', PStr (termination_value (lr_kind r))), (''detail'', PStr (lr_detail r))]"

definition stats_dict :: "execution_record list \<Rightarrow> pyval" where
  "stats_dict rs = PDict [
     (''total'', PInt (int (stats_total rs))), (''passed'', PInt (int (stats_passed rs))),
     (''failed'', PInt (int (stats_failed rs))),
     (''failure_codes'', py_strs (map failure_code_value (stats_failure_codes rs)))]"

fun operation_value :: "mutation_operation \<Rightarrow> string" where
  "operation_value WRITE = ''WRITE''"
| "operation_value DELETE = ''DELETE''"

definition mutation_dict :: "(int \<Rightarrow> string) \<Rightarrow> file_mutation \<Rightarrow> (string \<times> pyval) list" where
  "mutation_dict isoformat m =
     [(''mutation_id'', PStr (fm_mutation_id m)), (''operation'', PStr (operation_value (fm_operation m))),
      (''path'', PStr (fm_path m)), (''reason'', PStr (fm_reason m)),
      (''before_sha256'', PStr (fm_before m)), (''after_sha256'', PStr (fm_after m)),
      (''at'', PStr (isoformat (fm_at m)))]"

section \<open>Candidates (candidates.py)\<close>

record candidate =
  ca_candidate_id :: string
  ca_index :: int
  ca_label :: string
  ca_loop_id :: string
  ca_sandbox_id :: string
  ca_sandbox_backend :: string
  ca_final_state :: final_state
  ca_result :: loop_result
  ca_evidence :: "(string \<times> pyval) list"

definition candidate_passed :: "candidate \<Rightarrow> bool" where
  "candidate_passed c \<longleftrightarrow> ca_final_state c = CANDIDATE_PASSED"

datatype candidate_error = IndexTooSmall

definition build_candidate ::
    "int \<Rightarrow> string \<Rightarrow> loop_result \<Rightarrow> string \<Rightarrow> string \<Rightarrow> (string \<times> pyval) list option \<Rightarrow> world \<Rightarrow>
     (candidate_error + candidate) \<times> world" where
  "build_candidate index label result sandbox backend evidence w =
     (if index < 1 then (Inl IndexTooSmall, w)
      else
        let (u, w') = uuid4 w
        in (Inr \<lparr>ca_candidate_id = ''cand-'' @ take 12 u, ca_index = index, ca_label = label,
              ca_loop_id = lr_loop_id result, ca_sandbox_id = sandbox, ca_sandbox_backend = backend,
              ca_final_state = lr_final_state result, ca_result = result,
              ca_evidence = fold (\<lambda>(k, v). AList.update k v) (case evidence of None \<Rightarrow> [] | Some e \<Rightarrow> e)
                [(''execution_stats'', stats_dict (lr_executions result))]\<rparr>, w'))"

datatype comparison_outcome = SELECTED | ALL_FAILED | NO_CANDIDATES

record comparison =
  co_selected :: "string option"
  co_outcome :: comparison_outcome
  co_detail :: string
  co_ranked :: "candidate list"

text \<open>Tuples compare lexicographically.\<close>

definition rank_key :: "candidate \<Rightarrow> int \<times> int \<times> rat \<times> int \<times> int" where
  "rank_key c =
     (let rs = lr_executions (ca_result c)
      in (if candidate_passed c then 0 else 1, int (stats_failed rs), sum_list (map er_duration rs),
          - int (stats_passed rs), ca_index c))"

text \<open>The ranked view of the code lists the ranked candidates by their fields; the model lists them.\<close>

definition compare_candidates :: "candidate list \<Rightarrow> comparison" where
  "compare_candidates cs =
     (if cs = [] then
        \<lparr>co_selected = None, co_outcome = NO_CANDIDATES, co_detail = ''no candidates were produced'', co_ranked = []\<rparr>
      else
        let ranked = sort_key rank_key cs; best = hd ranked in
        if \<not> candidate_passed best then
          \<lparr>co_selected = None, co_outcome = ALL_FAILED,
           co_detail = ''every candidate failed; no selection is made (evidence-based rule)'', co_ranked = ranked\<rparr>
        else
          \<lparr>co_selected = Some (ca_candidate_id best), co_outcome = SELECTED,
           co_detail = ''candidate '' @ str_int (ca_index best) @ '' ('' @ ca_label best @ '') selected: '' @
             final_state_value (ca_final_state best) @ '' with machine-captured passing executions'',
           co_ranked = ranked\<rparr>)"

section \<open>The trace (trace.py)\<close>

datatype entry_kind = TASK | DECISION | TOOL_INVOCATION | EXECUTION_RESULT | MUTATION

record trace_entry =
  te_sequence :: int
  te_kind :: entry_kind
  te_at :: string
  te_payload :: "(string \<times> pyval) list"
  te_previous_hash :: string
  te_entry_hash :: string

record execution_trace =
  tr_trace_id :: string
  tr_task_id :: string
  tr_loop_id :: string
  tr_entries :: "trace_entry list"

record trace_host =
  th_sha256 :: "string \<Rightarrow> string"
  th_dumps :: "(string \<times> pyval) list \<Rightarrow> string"
  th_isoformat :: "int \<Rightarrow> string"

definition hash_payload :: "trace_host \<Rightarrow> int \<Rightarrow> string \<Rightarrow> (string \<times> pyval) list \<Rightarrow> string" where
  "hash_payload h sequence previous payload =
     th_sha256 h (str_int sequence @ ''|'' @ previous @ ''|'' @ th_dumps h payload)"

definition make_entry ::
    "trace_host \<Rightarrow> int \<Rightarrow> string \<Rightarrow> entry_kind \<Rightarrow> string \<Rightarrow> (string \<times> pyval) list \<Rightarrow> trace_entry" where
  "make_entry h sequence previous kind time payload =
     \<lparr>te_sequence = sequence, te_kind = kind, te_at = time, te_payload = payload,
      te_previous_hash = previous, te_entry_hash = hash_payload h sequence previous payload\<rparr>"

text \<open>Appending the drafts one after the other, with the running sequence number and hash.\<close>

fun chain_entries ::
    "trace_host \<Rightarrow> int \<Rightarrow> string \<Rightarrow> (entry_kind \<times> (string \<times> pyval) list) list \<Rightarrow> trace_entry list" where
  "chain_entries h sequence previous [] = []"
| "chain_entries h sequence previous ((kind, payload) # drafts) =
     (let e = make_entry h (sequence + 1) previous kind [] payload
      in e # chain_entries h (sequence + 1) (te_entry_hash e) drafts)"

definition execution_payload :: "execution_record \<Rightarrow> (string \<times> pyval) list" where
  "execution_payload r =
     [(''execution_id'', PStr (er_execution_id r)), (''kind'', PStr (er_kind r)),
      (''command'', py_strs (er_command r)), (''exit_code'', PInt (er_exit_code r)),
      (''failure_code'', PStr (code_str (er_failure_code r))), (''duration_seconds'', PFloat (er_duration r)),
      (''timed_out'', PBool (er_timed_out r)), (''passed'', PBool (passed r))]"

definition trace_drafts ::
    "trace_host \<Rightarrow> string \<Rightarrow> string \<Rightarrow> loop_result \<Rightarrow> candidate option \<Rightarrow> (entry_kind \<times> (string \<times> pyval) list) list" where
  "trace_drafts h task handoff result cand =
     [(TASK, [(''task_id'', PStr task), (''handoff_id'', PStr handoff), (''loop_id'', PStr (lr_loop_id result)),
        (''sandbox_id'', PStr (case cand of None \<Rightarrow> [] | Some c \<Rightarrow> ca_sandbox_id c))])] @
     map (\<lambda>d. (DECISION, decision_dict d)) (lr_decisions result) @
     map (\<lambda>m. (MUTATION, mutation_dict (th_isoformat h) m)) (lr_mutations result) @
     map (\<lambda>r. (EXECUTION_RESULT, execution_payload r)) (lr_executions result) @
     [(TOOL_INVOCATION, [(''tool'', PStr ''develop.loop''), (''loop_id'', PStr (lr_loop_id result)),
        (''final_state'', PStr (final_state_value (lr_final_state result))),
        (''termination'', termination_dict result), (''execution_stats'', stats_dict (lr_executions result))])] @
     (case cand of None \<Rightarrow> [] | Some c \<Rightarrow>
        [(TOOL_INVOCATION, [(''tool'', PStr ''develop.candidate''), (''candidate_id'', PStr (ca_candidate_id c)),
           (''candidate_index'', PInt (ca_index c)),
           (''final_state'', PStr (final_state_value (ca_final_state c))),
           (''note'', PStr ''candidate is NOT certified (I7)'')])])"

definition build_trace ::
    "trace_host \<Rightarrow> string \<Rightarrow> string \<Rightarrow> loop_result \<Rightarrow> candidate option \<Rightarrow> world \<Rightarrow> execution_trace \<times> world" where
  "build_trace h task handoff result cand w =
     (let entries = chain_entries h 0 ''GENESIS'' (trace_drafts h task handoff result cand); (u, w') = uuid4 w
      in (\<lparr>tr_trace_id = ''trace-'' @ take 12 u, tr_task_id = task, tr_loop_id = lr_loop_id result,
           tr_entries = entries\<rparr>, w'))"

datatype trace_fault = PayloadMismatch int string string | Reordered int

fun verify_entries :: "trace_host \<Rightarrow> string \<Rightarrow> trace_entry list \<Rightarrow> trace_fault option" where
  "verify_entries h previous [] = None"
| "verify_entries h previous (e # es) =
     (let expected = hash_payload h (te_sequence e) previous (te_payload e) in
      if te_entry_hash e \<noteq> expected then Some (PayloadMismatch (te_sequence e) (te_entry_hash e) expected)
      else if te_previous_hash e \<noteq> previous then Some (Reordered (te_sequence e))
      else verify_entries h (te_entry_hash e) es)"

definition verify_trace_integrity :: "trace_host \<Rightarrow> execution_trace \<Rightarrow> bool \<times> string" where
  "verify_trace_integrity h t =
     (case verify_entries h ''GENESIS'' (tr_entries t) of
        None \<Rightarrow> (True, ''chain intact across '' @ str_int (int (length (tr_entries t))) @ '' entries'')
      | Some (PayloadMismatch n got expected) \<Rightarrow>
          (False, ''entry '' @ str_int n @ '' payload/hash mismatch: chain broken at '' @ got @
             '' (expected '' @ expected @ '')'')
      | Some (Reordered n) \<Rightarrow> (False, ''entry '' @ str_int n @ '' previous_hash mismatch: chain reordered''))"

section \<open>Lemmas\<close>

lemma chain_verifies: "verify_entries h previous (chain_entries h n previous drafts) = None"
  by (induction h n previous drafts rule: chain_entries.induct) (simp_all add: make_entry_def Let_def)

text \<open>Two drafts of a hashed line are the same when the lines are: the fields before the bars hold none.\<close>

text \<open>
  What a hash of an entry commits to: not to its kind and not to its time, which the hashed line leaves out, and to
  its payload as it is serialized.
\<close>

definition commits :: "trace_host \<Rightarrow> trace_entry \<Rightarrow> int \<times> string \<times> string \<times> string" where
  "commits h e = (te_sequence e, te_previous_hash e, th_dumps h (te_payload e), te_entry_hash e)"

definition sound_hash :: "trace_host \<Rightarrow> bool" where
  "sound_hash h \<longleftrightarrow> inj (th_sha256 h) \<and> (\<forall>s. CHR ''|'' \<notin> set (th_sha256 h s) \<and> th_sha256 h s \<noteq> ''GENESIS'')"

lemma hash_payload_inj:
  assumes "sound_hash h" and "hash_payload h n p x = hash_payload h m q y"
    and "CHR ''|'' \<notin> set p" "CHR ''|'' \<notin> set q"
  shows "n = m \<and> p = q \<and> th_dumps h x = th_dumps h y"
proof -
  have "str_int n @ CHR ''|'' # p @ CHR ''|'' # th_dumps h x = str_int m @ CHR ''|'' # q @ CHR ''|'' # th_dumps h y"
    using assms(1,2) by (simp add: hash_payload_def sound_hash_def inj_eq)
  from split_at_bar [OF this str_int_no_bar str_int_no_bar]
  have "n = m" and rest: "p @ CHR ''|'' # th_dumps h x = q @ CHR ''|'' # th_dumps h y" by (simp_all add: str_int_inj)
  with split_at_bar [OF rest assms(3,4)] show ?thesis by simp
qed

text \<open>The entries that verify, read from the last one back.\<close>

lemma verify_snoc:
  "verify_entries h p (es @ [e]) = None \<longleftrightarrow>
    verify_entries h p es = None \<and>
    te_previous_hash e = (if es = [] then p else te_entry_hash (last es)) \<and>
    te_entry_hash e = hash_payload h (te_sequence e) (te_previous_hash e) (te_payload e)"
  by (induction es arbitrary: p) (auto simp: Let_def)

lemma verified_previous:
  assumes "sound_hash h" "verify_entries h ''GENESIS'' es = None" "es \<noteq> []"
  shows "\<exists>s. te_entry_hash (last es) = th_sha256 h s"
  using assms by (cases es rule: rev_cases) (auto simp: verify_snoc hash_payload_def)

lemma verified_commits:
  assumes h: "sound_hash h"
  shows "verify_entries h ''GENESIS'' es = None \<Longrightarrow> verify_entries h ''GENESIS'' es' = None \<Longrightarrow>
    es \<noteq> [] \<Longrightarrow> es' \<noteq> [] \<Longrightarrow> te_entry_hash (last es) = te_entry_hash (last es') \<Longrightarrow>
    map (commits h) es = map (commits h) es'"
proof (induction es arbitrary: es' rule: rev_induct)
  case (snoc e es)
  from snoc.prems(4) obtain fs f where es': "es' = fs @ [f]" by (cases es' rule: rev_cases) auto
  have bar: "CHR ''|'' \<notin> set (if xs = [] then ''GENESIS'' else te_entry_hash (last xs))"
    if "verify_entries h ''GENESIS'' xs = None" for xs
    using verified_previous [OF h that] h by (cases "xs = []") (auto simp: sound_hash_def)
  from snoc.prems es' have v: "verify_entries h ''GENESIS'' es = None" "verify_entries h ''GENESIS'' fs = None"
    and prev: "te_previous_hash e = (if es = [] then ''GENESIS'' else te_entry_hash (last es))"
      "te_previous_hash f = (if fs = [] then ''GENESIS'' else te_entry_hash (last fs))"
    and hash: "te_entry_hash e = hash_payload h (te_sequence e) (te_previous_hash e) (te_payload e)"
      "te_entry_hash f = hash_payload h (te_sequence f) (te_previous_hash f) (te_payload f)"
      "te_entry_hash e = te_entry_hash f"
    by (simp_all add: verify_snoc)
  have same: "te_sequence e = te_sequence f \<and> te_previous_hash e = te_previous_hash f \<and>
      th_dumps h (te_payload e) = th_dumps h (te_payload f)"
    using hash bar [OF v(1)] bar [OF v(2)] prev by (intro hash_payload_inj [OF h]) simp_all
  then have c: "commits h e = commits h f" using hash(3) by (simp add: commits_def)
  have gen: "te_entry_hash (last xs) \<noteq> ''GENESIS''"
    if "verify_entries h ''GENESIS'' xs = None" "xs \<noteq> []" for xs
    using verified_previous [OF h that] h by (auto simp: sound_hash_def)
  have "map (commits h) es = map (commits h) fs"
  proof (cases "es = []")
    case True
    then show ?thesis using same prev gen [OF v(2)] by (cases "fs = []") simp_all
  next
    case False
    then have "fs \<noteq> []" "te_entry_hash (last es) = te_entry_hash (last fs)"
      using same prev gen [OF v(1)] by (auto split: if_splits)
    with snoc.IH [OF v] False show ?thesis by simp
  qed
  with c es' show ?case by simp
qed simp

text \<open>Whether entries verify depends on what their hashes commit to.\<close>

lemma commits_verify:
  "map (commits h) es = map (commits h) es' \<Longrightarrow> verify_entries h p es = None \<longleftrightarrow> verify_entries h p es' = None"
proof (induction es arbitrary: es' p)
  case (Cons e es)
  then obtain f fs where es': "es' = f # fs" "commits h e = commits h f" "map (commits h) es = map (commits h) fs" by auto
  then have "te_sequence e = te_sequence f" "te_previous_hash e = te_previous_hash f" "te_entry_hash e = te_entry_hash f"
      "hash_payload h (te_sequence e) p (te_payload e) = hash_payload h (te_sequence f) p (te_payload f)"
    by (simp_all add: commits_def hash_payload_def)
  with es' Cons.IH show ?case by (auto simp: Let_def)
qed simp

lemma verified_trace: "fst (verify_trace_integrity h t) \<longleftrightarrow> verify_entries h ''GENESIS'' (tr_entries t) = None"
  by (simp add: verify_trace_integrity_def split: option.split trace_fault.split)

lemma built_entries:
  "tr_entries (fst (build_trace h task handoff result cand w)) =
     chain_entries h 0 ''GENESIS'' (trace_drafts h task handoff result cand)"
  by (simp add: build_trace_def case_prod_unfold Let_def)

lemma built_verifies:
  "verify_entries h ''GENESIS'' (tr_entries (fst (build_trace h task handoff result cand w))) = None"
  "tr_entries (fst (build_trace h task handoff result cand w)) \<noteq> []"
  unfolding built_entries by (rule chain_verifies) (simp add: trace_drafts_def Let_def)

section \<open>A hash\<close>

text \<open>An injective function that meets what the properties ask of SHA-256: every character in unary.\<close>

definition unary_hash :: "string \<Rightarrow> string" where
  "unary_hash s = concat (map (\<lambda>c. replicate (of_char c) CHR ''a'' @ ''b'') s)"

lemma replicate_split: "replicate n a @ b # xs = replicate m a @ b # ys \<Longrightarrow> a \<noteq> b \<Longrightarrow> n = m \<and> xs = ys"
proof (induction n arbitrary: m)
  case 0
  then show ?case by (cases m) auto
next
  case (Suc n)
  then show ?case by (cases m) auto
qed

lemma unary_hash_inj: "unary_hash s = unary_hash t \<Longrightarrow> s = t"
proof (induction s arbitrary: t)
  case Nil
  then show ?case by (cases t) (auto simp: unary_hash_def)
next
  case (Cons c s)
  then obtain d t' where t: "t = d # t'" by (cases t) (auto simp: unary_hash_def)
  with Cons.prems have "replicate (of_char c) CHR ''a'' @ CHR ''b'' # unary_hash s =
      replicate (of_char d) CHR ''a'' @ CHR ''b'' # unary_hash t'"
    by (simp add: unary_hash_def)
  from replicate_split [OF this] have "(of_char c :: nat) = of_char d" "unary_hash s = unary_hash t'" by simp_all
  with Cons.IH t show ?case by simp
qed

lemma unary_hash_chars: "set (unary_hash s) \<subseteq> {CHR ''a'', CHR ''b''}"
  by (induction s) (auto simp: unary_hash_def)

definition demo_trace_host :: trace_host where
  "demo_trace_host = \<lparr>th_sha256 = unary_hash, th_dumps = (\<lambda>p. concat (map fst p)), th_isoformat = (\<lambda>_. [])\<rparr>"

lemma demo_hash_sound: "sound_hash demo_trace_host"
proof -
  have "CHR ''|'' \<notin> set (unary_hash s) \<and> unary_hash s \<noteq> ''GENESIS''" for s
    using unary_hash_chars [of s] by auto
  then show ?thesis using unary_hash_inj by (auto simp: sound_hash_def demo_trace_host_def inj_def)
qed

section \<open>Selection\<close>

lemma sort_key_hd_min:
  assumes "xs \<noteq> []" "x \<in> set xs"
  shows "hd (sort_key f xs) \<in> set xs \<and> f (hd (sort_key f xs)) \<le> f x"
proof -
  have ne: "sort_key f xs \<noteq> []" using assms by (metis length_0_conv length_sort)
  then have "hd (sort_key f xs) \<in> set xs" using hd_in_set [OF ne] by (simp only: set_sort)
  moreover have "\<forall>y \<in> set (sort_key f xs). f (hd (sort_key f xs)) \<le> f y"
    using sorted_sort_key [of f xs] ne by (cases "sort_key f xs") auto
  ultimately show ?thesis using assms(2) by simp
qed

lemma rank_passed: "rank_key b \<le> rank_key c \<Longrightarrow> candidate_passed c \<Longrightarrow> candidate_passed b"
  by (auto simp: rank_key_def Let_def split: if_splits)

section \<open>A concrete comparison\<close>

definition demo_world :: world where
  "demo_world = \<lparr>clock_at = int, ticks = 0, uuid_at = (\<lambda>_. ''0123456789abcdef''), uuids = 0\<rparr>"

definition demo_candidate :: "int \<Rightarrow> final_state \<Rightarrow> candidate" where
  "demo_candidate i s =
     \<lparr>ca_candidate_id = ''cand-'' @ str_int i, ca_index = i, ca_label = ''l'', ca_loop_id = [], ca_sandbox_id = [],
      ca_sandbox_backend = [], ca_final_state = s,
      ca_result = \<lparr>lr_loop_id = ''loop-1'', lr_final_state = s, lr_kind = SUCCESS_EVIDENCED, lr_detail = [],
        lr_iterations = 1, lr_decisions = [], lr_executions = [], lr_mutations = [], lr_checkpoints = []\<rparr>,
      ca_evidence = []\<rparr>"

section \<open>Properties\<close>

text \<open>
  C33. What the hash chain of a trace protects, exactly: the trace \<open>build_trace\<close> makes verifies, and another trace
  with entries verifies and ends in the same hash exactly when it has as many entries with the same sequence
  numbers, previous hashes, hashes and serialized payloads. Nothing else is protected: the kinds and the times of
  the entries may differ, since \<open>_hash_payload\<close> leaves them out; in the witness all of them do. SHA-256 enters as
  an injective function whose values hold no bar and are not the word \<open>GENESIS\<close>.
\<close>
theorem trace_is_tamper_evident:
  assumes "sound_hash h" and "tr_entries t' \<noteq> []"
  shows "fst (verify_trace_integrity h (fst (build_trace h task handoff result cand w))) \<and>
    (fst (verify_trace_integrity h t') \<and>
       te_entry_hash (last (tr_entries t')) =
         te_entry_hash (last (tr_entries (fst (build_trace h task handoff result cand w)))) \<longleftrightarrow>
     map (commits h) (tr_entries t') = map (commits h) (tr_entries (fst (build_trace h task handoff result cand w))))"
proof -
  let ?t = "fst (build_trace h task handoff result cand w)"
  have t: "verify_entries h ''GENESIS'' (tr_entries ?t) = None" and ne: "tr_entries ?t \<noteq> []"
    by (rule built_verifies)+
  have "te_entry_hash (last (tr_entries t')) = te_entry_hash (last (tr_entries ?t))"
    if "map (commits h) (tr_entries t') = map (commits h) (tr_entries ?t)"
    using arg_cong [OF that, of last] assms(2) ne by (simp add: last_map commits_def)
  with verified_commits [OF assms(1) _ t assms(2) ne] commits_verify [of h "tr_entries t'" "tr_entries ?t"] t
  show ?thesis by (auto simp: verified_trace)
qed

text \<open>
  The chain does not cover what kind an entry is: relabelling the entries of a trace, so that
  decisions read as execution results, changes nothing for \<open>verify_trace_integrity\<close>.
\<close>
theorem trace_kinds_not_covered:
  "verify_trace_integrity h (t\<lparr>tr_entries := map (\<lambda>e. e\<lparr>te_kind := relabel (te_kind e)\<rparr>) (tr_entries t)\<rparr>) =
    verify_trace_integrity h t"
proof -
  have "verify_entries h p (map (\<lambda>e. e\<lparr>te_kind := relabel (te_kind e)\<rparr>) es) = verify_entries h p es" for p es
    by (induction es arbitrary: p) (simp_all add: Let_def)
  then show ?thesis by (simp add: verify_trace_integrity_def split: option.split trace_fault.split)
qed

text \<open>
  Candidates are selected by evidence: a candidate is selected exactly when some candidate
  passed; the selected one passed, and no candidate that passed ranks before it by failures,
  duration, passes and index.
\<close>
theorem selection_is_evidence_based:
  "case co_selected (compare_candidates cs) of
     None \<Rightarrow> filter candidate_passed cs = []
   | Some i \<Rightarrow> \<exists>b. b \<in> set cs \<and> ca_candidate_id b = i \<and> candidate_passed b \<and>
       {c \<in> set cs. candidate_passed c} \<subseteq> {c. rank_key b \<le> rank_key c}"
proof (cases "cs = []")
  case False
  let ?b = "hd (sort_key rank_key cs)"
  have b: "?b \<in> set cs" "\<And>c. c \<in> set cs \<Longrightarrow> rank_key ?b \<le> rank_key c"
    using sort_key_hd_min [OF False] by (metis hd_in_set False)+
  show ?thesis
  proof (cases "candidate_passed ?b")
    case True
    with b False show ?thesis by (auto simp: compare_candidates_def Let_def intro!: exI [of _ ?b])
  next
    case no: False
    then have "filter candidate_passed cs = []"
      using b(2) rank_passed by (auto simp: filter_empty_conv)
    with no False show ?thesis by (simp add: compare_candidates_def Let_def)
  qed
qed (simp add: compare_candidates_def)

text \<open>
  The comparison does not depend on the order the candidates come in, when their indices
  differ.
\<close>
theorem selection_is_order_independent:
  assumes "mset cs = mset cs'" and "inj_on ca_index (set cs)"
  shows "compare_candidates cs = compare_candidates cs'"
proof -
  have "sort_key rank_key cs = sort_key rank_key cs'"
  proof (rule sort_key_inj_key_eq)
    show "mset cs = mset (sort_key rank_key cs')" using assms(1) by simp
    show "inj_on rank_key (set cs)" using assms(2) by (auto simp: inj_on_def rank_key_def Let_def)
  qed simp
  moreover have "cs = [] \<longleftrightarrow> cs' = []" using assms(1) by auto
  ultimately show ?thesis by (simp add: compare_candidates_def)
qed

text \<open>The entries of a trace, all relabelled and moved in time, verify with the same last hash.\<close>

theorem trace_is_tamper_evident_witness:
  "let t = fst (build_trace demo_trace_host ''t'' ''h'' (ca_result (demo_candidate 1 CANDIDATE_PASSED)) None demo_world);
       t' = t\<lparr>tr_entries := map (\<lambda>e. e\<lparr>te_kind := DECISION, te_at := ''later''\<rparr>) (tr_entries t)\<rparr>
   in fst (verify_trace_integrity demo_trace_host t) \<and> fst (verify_trace_integrity demo_trace_host t') \<and>
     te_entry_hash (last (tr_entries t')) = te_entry_hash (last (tr_entries t)) \<and> tr_entries t' \<noteq> tr_entries t"
proof -
  let ?t = "fst (build_trace demo_trace_host ''t'' ''h'' (ca_result (demo_candidate 1 CANDIDATE_PASSED)) None demo_world)"
  let ?f = "\<lambda>e. e\<lparr>te_kind := DECISION, te_at := ''later''\<rparr>"
  let ?t' = "?t\<lparr>tr_entries := map ?f (tr_entries ?t)\<rparr>"
  have ne: "tr_entries ?t' \<noteq> []" using built_verifies(2) by simp
  have same: "map (commits demo_trace_host) (tr_entries ?t') = map (commits demo_trace_host) (tr_entries ?t)"
    by (simp add: commits_def)
  have "te_kind (hd (tr_entries ?t)) = TASK"
    by (simp add: built_entries trace_drafts_def Let_def make_entry_def)
  then have "te_kind (hd (tr_entries ?t')) \<noteq> te_kind (hd (tr_entries ?t))" using ne by (simp add: hd_map)
  then have "tr_entries ?t' \<noteq> tr_entries ?t" by metis
  with trace_is_tamper_evident [OF demo_hash_sound ne, of "''t''" "''h''" "ca_result (demo_candidate 1 CANDIDATE_PASSED)" None demo_world] same
  show ?thesis unfolding Let_def by blast
qed

theorem selection_is_order_independent_witness:
  "co_selected (compare_candidates [demo_candidate 2 CANDIDATE_PASSED, demo_candidate 1 CANDIDATE_PASSED]) = Some ''cand-1''"
proof -
  have swap: "compare_candidates [demo_candidate 2 CANDIDATE_PASSED, demo_candidate 1 CANDIDATE_PASSED] =
      compare_candidates [demo_candidate 1 CANDIDATE_PASSED, demo_candidate 2 CANDIDATE_PASSED]"
    by (rule selection_is_order_independent) (simp_all add: demo_candidate_def)
  show ?thesis unfolding swap by code_simp
qed

end
