(* ===== verification/Registry.thy ===== *)
theory Registry
  imports Smorx_Prelude
begin

text \<open>
  The contract of the tables that are written with \<open>get_or_create\<close> (\<open>repo/base.py\<close>) or by content hash: a row
  whose key is known is returned as it is, a new one is stored, and what is stored stays. Its clients may repeat
  a registration, or a whole batch of them, at any later time.
\<close>

locale registry =
  fixes key :: "'r \<Rightarrow> 'k"
    and lookup :: "'d \<Rightarrow> 'k \<Rightarrow> 'r option"
    and register :: "'r \<Rightarrow> 'd \<Rightarrow> 'r \<times> 'd"
  assumes register_known: "lookup d (key r) = Some old \<Longrightarrow> register r d = (old, d)"
    and register_new: "lookup d (key r) = None \<Longrightarrow> register r d = (row, D) \<Longrightarrow> lookup D (key r) = Some row"
    and register_keeps: "lookup d k = Some x \<Longrightarrow> register r d = (row, D) \<Longrightarrow> lookup D k = Some x"
begin

lemma registered: "register r d = (row, D) \<Longrightarrow> lookup D (key r) = Some row"
proof (cases "lookup d (key r)")
  case None
  assume "register r d = (row, D)"
  with None show ?thesis by (rule register_new)
next
  case (Some old)
  assume "register r d = (row, D)"
  with Some show ?thesis by (simp add: register_known)
qed

lemma registered_again:
  "register r d = (row, D) \<Longrightarrow> (\<And>k x. lookup D k = Some x \<Longrightarrow> lookup E k = Some x) \<Longrightarrow> key r' = key r \<Longrightarrow>
   register r' E = (row, E)"
  using registered [of r d row D] register_known [of E r' row] by simp

lemma register_twice: "register r d = (row, D) \<Longrightarrow> register r D = (row, D)"
  by (rule registered_again) auto

text \<open>A batch of registrations.\<close>

fun register_all :: "'r list \<Rightarrow> 'd \<Rightarrow> 'r list \<times> 'd" where
  "register_all [] d = ([], d)"
| "register_all (r # rs) d =
     (let (row, d') = register r d; (rows, d'') = register_all rs d' in (row # rows, d''))"

lemma register_all_keeps: "lookup d k = Some x \<Longrightarrow> register_all rs d = (rows, D) \<Longrightarrow> lookup D k = Some x"
proof (induction rs arbitrary: d rows)
  case (Cons r rs)
  obtain row d1 where r: "register r d = (row, d1)" by (cases "register r d")
  obtain rows' where rs: "register_all rs d1 = (rows', D)"
    using Cons.prems(2) r by (auto split: prod.splits)
  from register_keeps [OF Cons.prems(1) r] rs show ?case by (rule Cons.IH)
qed simp

lemma register_all_later:
  assumes "register_all rs d = (rows, D)" "\<And>k x. lookup D k = Some x \<Longrightarrow> lookup E k = Some x"
  shows "register_all rs E = (rows, E)"
  using assms
proof (induction rs arbitrary: d rows)
  case (Cons r rs)
  obtain row d1 where r: "register r d = (row, d1)" by (cases "register r d")
  obtain rows' where rs: "register_all rs d1 = (rows', D)" "rows = row # rows'"
    using Cons.prems(1) r by (auto split: prod.splits)
  have "lookup E k = Some x" if "lookup d1 k = Some x" for k x
    using register_all_keeps [OF that rs(1)] by (rule Cons.prems(2))
  then have "register r E = (row, E)" by (rule registered_again [OF r _ refl])
  with Cons.IH [OF rs(1) Cons.prems(2)] rs(2) show ?case by simp
qed simp

text \<open>Registering a batch again returns the same rows and changes nothing.\<close>

lemma register_all_twice: "register_all rs d = (rows, D) \<Longrightarrow> register_all rs D = (rows, D)"
  by (rule register_all_later) auto

end

end
