(* ===== verification/Store.thy ===== *)
theory Store
  imports Registry
begin

text \<open>
  The rows the certification and workflow packages read and write (\<open>smorx_behavior/models\<close>), and the
  persistence helpers they share (\<open>smorx_behavior/repo/base.py\<close>, \<open>evidence/service.py\<close>). A table is
  the list of its rows in the order of insertion, which is the order a \<open>SELECT\<close> without \<open>ORDER BY\<close>
  returns them in; a record keeps the columns the modelled code touches. An ORM object is named by the
  primary key of its row: \<open>session.get\<close> finds it, an assignment to an attribute updates the row.
  An identifier is the canonical text of its UUID. \<open>created_at\<close> is read from the clock at the insert.
\<close>

section \<open>What the code asks of the platform\<close>

text \<open>
  SHA-256, \<open>json.dumps\<close> (sorted keys, compact separators), \<open>datetime.isoformat\<close>, \<open>uuid5\<close> in the seed
  namespace, \<open>uuid.UUID\<close> of a text and \<open>repr\<close> of a float.
\<close>

record platform =
  sha256 :: "string \<Rightarrow> string"
  dumps :: "pyval \<Rightarrow> string"
  isoformat :: "int \<Rightarrow> string"
  uuid5 :: "string \<Rightarrow> string"
  parse_uuid :: "string \<Rightarrow> string option"
  float_repr :: "rat \<Rightarrow> string"

type_synonym json = "(string \<times> pyval) list"

definition digest :: "platform \<Rightarrow> string list \<Rightarrow> string" where
  "digest p parts = sha256 p (join ''|'' parts)"

section \<open>Rows\<close>

record task_row =
  ts_id :: string
  ts_project :: string
  ts_repository :: "string option"
  ts_change :: "string option"
  ts_status :: string

record change_row =
  ch_id :: string
  ch_external_id :: "string option"
  ch_commit_sha :: "string option"
  ch_title :: string
  ch_status :: string

record claim_row =
  cl_id :: string
  cl_task :: "string option"
  cl_statement :: string
  cl_status :: string
  cl_created :: int

record run_row =
  rn_id :: string
  rn_task :: string
  rn_kind :: string
  rn_status :: string
  rn_started :: "int option"
  rn_finished :: "int option"
  rn_environment :: json

record patch_row =
  cp_id :: string
  cp_change :: string
  cp_task :: string
  cp_index :: int
  cp_status :: string
  cp_patch_ref :: "string option"
  cp_summary :: "string option"
  cp_created :: int

record behavior_row =
  bh_id :: string
  bh_name :: string
  bh_category :: "string option"
  bh_protected :: bool
  bh_signature :: "string option"

record execution_row =
  ex_id :: string
  ex_run :: string
  ex_kind :: string
  ex_status :: string
  ex_exit_code :: "int option"
  ex_sandbox :: "string option"
  ex_machine_result :: json
  ex_command :: "string option"
  ex_started :: "int option"
  ex_finished :: "int option"

record failure_row =
  fl_id :: string
  fl_execution :: "string option"
  fl_task :: "string option"
  fl_run :: "string option"
  fl_evidence :: "string option"
  fl_classification :: string
  fl_message :: string
  fl_probable_cause :: "string option"
  fl_next_action :: "string option"
  fl_severity :: string
  fl_iteration :: int
  fl_resolved :: bool
  fl_occurred :: "int option"
  fl_created :: int

record evidence_row =
  en_id :: string
  en_task :: "string option"
  en_run :: "string option"
  en_execution :: "string option"
  en_claim :: "string option"
  en_case :: "string option"
  en_type :: string
  en_occurred :: "int option"
  en_source :: "string option"
  en_provenance :: "string option"
  en_artifact :: "string option"
  en_machine_result :: json
  en_hash :: string
  en_created :: int

record delta_row =
  bd_id :: string
  bd_task :: "string option"
  bd_behavior :: "string option"
  bd_evidence :: "string option"
  bd_certificate :: "string option"
  bd_metric :: "string option"
  bd_direction :: string
  bd_category :: string
  bd_observed :: bool
  bd_created :: int

record intent_row =
  ii_id :: string
  ii_task :: "string option"
  ii_statement :: string
  ii_kind :: string
  ii_authorized :: bool

record alignment_row =
  ia_id :: string
  ia_item :: string
  ia_task :: "string option"
  ia_status :: string

record repair_row =
  rp_id :: string
  rp_task :: "string option"
  rp_failure :: "string option"
  rp_patch :: "string option"
  rp_evidence :: "string option"
  rp_attempt :: int
  rp_iteration :: int
  rp_description :: "string option"
  rp_patch_ref :: "string option"
  rp_status :: string
  rp_started :: "int option"
  rp_finished :: "int option"
  rp_created :: int

record certificate_row =
  ct_id :: string
  ct_task :: "string option"
  ct_project :: "string option"
  ct_claim :: "string option"
  ct_key :: string
  ct_status :: string
  ct_owner_scope :: string
  ct_evidence_hash :: "string option"
  ct_payload :: json
  ct_issued :: "int option"

record memory_row =
  mu_id :: string
  mu_project :: string
  mu_certificate :: "string option"
  mu_task :: "string option"
  mu_evidence :: "string option"
  mu_kind :: string
  mu_summary :: "string option"
  mu_content :: json
  mu_applied :: bool
  mu_created_by :: "string option"
  mu_ref :: "string option"
  mu_created :: int

record event_row =
  ce_id :: string
  ce_entity_type :: string
  ce_entity_id :: string
  ce_event_type :: string
  ce_occurred :: "int option"
  ce_actor :: "string option"
  ce_payload :: json
  ce_provenance :: "string option"
  ce_task :: "string option"
  ce_run :: "string option"
  ce_sequence :: int
  ce_hash :: "string option"
  ce_created :: int

record db =
  host :: world
  projects :: "string list"
  repositories :: "string list"
  tasks :: "task_row list"
  changes :: "change_row list"
  claims :: "claim_row list"
  run_rows :: "run_row list"
  patches :: "patch_row list"
  behaviors :: "behavior_row list"
  ghosts :: "string list"
  executions :: "execution_row list"
  failures :: "failure_row list"
  evidence :: "evidence_row list"
  deltas :: "delta_row list"
  intents :: "intent_row list"
  alignments :: "alignment_row list"
  repairs :: "repair_row list"
  certificates :: "certificate_row list"
  memories :: "memory_row list"
  events :: "event_row list"

text \<open>The clock and the identifiers of the host of a session.\<close>

definition db_now :: "db \<Rightarrow> int \<times> db" where
  "db_now d = (let (t, w) = now (host d) in (t, d\<lparr>host := w\<rparr>))"

definition db_uuid :: "db \<Rightarrow> string \<times> db" where
  "db_uuid d = (let (u, w) = uuid4 (host d) in (u, d\<lparr>host := w\<rparr>))"

section \<open>Looking rows up\<close>

definition get_task :: "db \<Rightarrow> string \<Rightarrow> task_row option" where
  "get_task d k = find (\<lambda>r. ts_id r = k) (tasks d)"

definition get_change :: "db \<Rightarrow> string \<Rightarrow> change_row option" where
  "get_change d k = find (\<lambda>r. ch_id r = k) (changes d)"

definition get_claim :: "db \<Rightarrow> string \<Rightarrow> claim_row option" where
  "get_claim d k = find (\<lambda>r. cl_id r = k) (claims d)"

definition get_run :: "db \<Rightarrow> string \<Rightarrow> run_row option" where
  "get_run d k = find (\<lambda>r. rn_id r = k) (run_rows d)"

definition get_patch :: "db \<Rightarrow> string \<Rightarrow> patch_row option" where
  "get_patch d k = find (\<lambda>r. cp_id r = k) (patches d)"

definition get_behavior :: "db \<Rightarrow> string \<Rightarrow> behavior_row option" where
  "get_behavior d k = find (\<lambda>r. bh_id r = k) (behaviors d)"

definition get_failure :: "db \<Rightarrow> string \<Rightarrow> failure_row option" where
  "get_failure d k = find (\<lambda>r. fl_id r = k) (failures d)"

definition get_evidence :: "db \<Rightarrow> string \<Rightarrow> evidence_row option" where
  "get_evidence d k = find (\<lambda>r. en_id r = k) (evidence d)"

definition get_certificate :: "db \<Rightarrow> string \<Rightarrow> certificate_row option" where
  "get_certificate d k = find (\<lambda>r. ct_id r = k) (certificates d)"

definition get_execution :: "db \<Rightarrow> string \<Rightarrow> execution_row option" where
  "get_execution d k = find (\<lambda>r. ex_id r = k) (executions d)"

definition get_event :: "db \<Rightarrow> string \<Rightarrow> event_row option" where
  "get_event d k = find (\<lambda>r. ce_id r = k) (events d)"

text \<open>\<open>payload.get(key)\<close>.\<close>

definition get_key :: "json \<Rightarrow> string \<Rightarrow> pyval" where
  "get_key j k = (case map_of j k of None \<Rightarrow> PNone | Some v \<Rightarrow> v)"

text \<open>\<open>str(x) if x is not None else None\<close>.\<close>

definition opt_str :: "string option \<Rightarrow> pyval" where
  "opt_str x = (case x of None \<Rightarrow> PNone | Some s \<Rightarrow> PStr s)"

section \<open>Evidence\<close>

definition evidence_by_hash :: "db \<Rightarrow> string \<Rightarrow> evidence_row option" where
  "evidence_by_hash d h = find (\<lambda>r. en_hash r = h) (evidence d)"

text \<open>
  Both recorders insert a row as the caller describes it, with a fresh key and creation time, unless a
  row has its hash. The \<open>default\<close> of \<open>machine_result\<close> and the explicit \<open>machine_result or {}\<close> agree.
\<close>

definition insert_evidence :: "evidence_row \<Rightarrow> db \<Rightarrow> evidence_row \<times> db" where
  "insert_evidence r d =
     (case evidence_by_hash d (en_hash r) of
        Some old \<Rightarrow> (old, d)
      | None \<Rightarrow>
          let (u, d1) = db_uuid d; (t, d2) = db_now d1; row = r\<lparr>en_id := u, en_created := t\<rparr>
          in (row, d2\<lparr>evidence := evidence d2 @ [row]\<rparr>))"

definition ensure_evidence :: "evidence_row \<Rightarrow> db \<Rightarrow> evidence_row \<times> db" where
  "ensure_evidence r d = insert_evidence r d"

definition compute_content_hash ::
    "platform \<Rightarrow> string \<Rightarrow> int option \<Rightarrow> string option \<Rightarrow> string option \<Rightarrow> string option \<Rightarrow> json option \<Rightarrow> string" where
  "compute_content_hash p kind occurred source prov art result =
     sha256 p (dumps p (PDict
       [(''type'', PStr kind), (''occurred_at'', opt_str (map_option (isoformat p) occurred)),
        (''source'', opt_str source), (''provenance'', opt_str prov), (''artifact'', opt_str art),
        (''machine_result'', case result of None \<Rightarrow> PNone | Some j \<Rightarrow> PDict j)]))"

definition record_evidence ::
    "platform \<Rightarrow> string option \<Rightarrow> json option \<Rightarrow> evidence_row \<Rightarrow> db \<Rightarrow> evidence_row \<times> db" where
  "record_evidence p content_hash result r d =
     (let h = (case content_hash of
           Some h \<Rightarrow> h
         | None \<Rightarrow> compute_content_hash p (en_type r) (en_occurred r) (en_source r) (en_provenance r)
                     (en_artifact r) result)
      in insert_evidence (r\<lparr>en_hash := h,
           en_machine_result := (case result of None \<Rightarrow> [] | Some j \<Rightarrow> j)\<rparr>) d)"

definition eligibility :: "evidence_row \<Rightarrow> bool \<times> string list" where
  "eligibility r =
     (let reasons =
        (if get_key (en_machine_result r) ''exit_code'' = PNone then [''machine_result has no exit_code''] else [])
        @ (if strip (case en_provenance r of None \<Rightarrow> [] | Some s \<Rightarrow> s) = [] then [''provenance is empty''] else [])
        @ (if en_claim r = None \<and> en_case r = None then [''no claim_id or verification_case_id binding''] else [])
      in (reasons = [], reasons))"

text \<open>\<open>ORDER BY created_at, id\<close>.\<close>

definition ordered_evidence :: "evidence_row list \<Rightarrow> evidence_row list" where
  "ordered_evidence rs = sort_key (\<lambda>r. (en_created r, en_id r)) rs"

definition evidence_for_claim :: "db \<Rightarrow> string \<Rightarrow> evidence_row list" where
  "evidence_for_claim d c = ordered_evidence (filter (\<lambda>r. en_claim r = Some c) (evidence d))"

definition evidence_for_task :: "db \<Rightarrow> string \<Rightarrow> evidence_row list" where
  "evidence_for_task d t = ordered_evidence (filter (\<lambda>r. en_task r = Some t) (evidence d))"

text \<open>A database without rows, and a host for concrete runs.\<close>

definition empty_db :: "world \<Rightarrow> db" where
  "empty_db w =
     \<lparr>host = w, projects = [], repositories = [], tasks = [], changes = [], claims = [], run_rows = [], patches = [], behaviors = [], ghosts = [],
      executions = [], failures = [], evidence = [], deltas = [], intents = [], alignments = [], repairs = [],
      certificates = [], memories = [], events = []\<rparr>"

definition demo_host :: world where
  "demo_host = \<lparr>clock_at = int, ticks = 0, uuid_at = digits, uuids = 0\<rparr>"

section \<open>Facts about lookups\<close>

lemma find_keyed: "find P xs = Some x \<Longrightarrow> x \<in> set xs \<and> P x"
  by (induction xs) (auto split: if_splits)

lemma find_snoc: "find P xs = None \<Longrightarrow> P x \<Longrightarrow> find P (xs @ [x]) = Some x"
  by (induction xs) (auto split: if_splits)

lemma db_now_fields [simp]: "snd (db_now d) = d\<lparr>host := snd (now (host d))\<rparr>"
  by (simp add: db_now_def case_prod_unfold Let_def)

lemma db_uuid_fields [simp]: "snd (db_uuid d) = d\<lparr>host := snd (uuid4 (host d))\<rparr>"
  by (simp add: db_uuid_def case_prod_unfold Let_def)

lemma find_stays: "find P xs = Some x \<Longrightarrow> find P (xs @ ys) = Some x"
  by (induction xs) (auto split: if_splits)

text \<open>The evidence by its content hash is a registry: recording the same evidence again returns the row of the first time.\<close>

lemma insert_evidence_effect:
  assumes "insert_evidence r d = (row, d')"
  obtains w xs where "d' = d\<lparr>host := w, evidence := evidence d @ xs\<rparr>" "evidence_by_hash d' (en_hash r) = Some row"
proof (cases "evidence_by_hash d (en_hash r)")
  case None
  let ?row = "r\<lparr>en_id := fst (db_uuid d), en_created := fst (db_now (snd (db_uuid d)))\<rparr>"
  from None assms have *: "d' = (snd (db_now (snd (db_uuid d))))\<lparr>evidence := evidence d @ [?row]\<rparr>" "row = ?row"
    by (auto simp: insert_evidence_def case_prod_unfold Let_def)
  from None have "find (\<lambda>x. en_hash x = en_hash r) (evidence d @ [?row]) = Some ?row"
    by (simp add: evidence_by_hash_def find_snoc)
  with * show thesis by (intro that [where w = "snd (now (snd (uuid4 (host d))))" and xs = "[?row]"]) (simp_all add: evidence_by_hash_def)
next
  case (Some old)
  with assms have "d' = d" "row = old" by (simp_all add: insert_evidence_def)
  with Some that [where w = "host d" and xs = "[]"] show thesis by (cases d) simp
qed

interpretation evidence_table: registry en_hash evidence_by_hash insert_evidence
proof
  show "insert_evidence r d = (old, d)" if "evidence_by_hash d (en_hash r) = Some old" for d r old
    using that by (simp add: insert_evidence_def)
  show "evidence_by_hash D (en_hash r) = Some row" if "insert_evidence r d = (row, D)" for d r row D
    using that by (rule insert_evidence_effect)
  show "evidence_by_hash D k = Some x" if "evidence_by_hash d k = Some x" "insert_evidence r d = (row, D)" for d k x r row D
  proof -
    from that(2) obtain w xs where "D = d\<lparr>host := w, evidence := evidence d @ xs\<rparr>" by (rule insert_evidence_effect)
    with that(1) show ?thesis by (simp add: evidence_by_hash_def find_stays)
  qed
qed

end
