(* ===== verification/Journal.thy ===== *)
theory Journal
  imports Store
begin

text \<open>
  \<open>workflow/chaining.py\<close>: the digest and the sequence of an event; \<open>workflow/orchestrate.py\<close>: the phases
  of a workflow and the recorder of its events; \<open>workflow/replay.py\<close>: the replay of a run or a task from
  its stored events. A run's recorded events are \<^emph>\<open>chained\<close>: numbered from 1 and each with the digest of
  its own content. The lemmas show that recording keeps this, that a chained journal replays as valid, what
  the digest protects and what it does not.
\<close>

section \<open>Event kinds and phases\<close>

datatype event_kind =
    TASK_RECEIVED | REPOSITORY_INSPECTED | PLAN_GENERATED | SANDBOX_CREATED | ACTION_EXECUTED
  | RESULT_OBSERVED | FAILURE_CLASSIFIED | PATCH_GENERATED | EVIDENCE_RECORDED | VERIFICATION_RUN
  | BEHAVIORAL_DELTA | INTENT_ALIGNMENT | REPAIR | REVERIFICATION | CERTIFICATION | MEMORY_UPDATE
  | MERGE | BLOCKED

fun event_kind_value :: "event_kind \<Rightarrow> string" where
  "event_kind_value TASK_RECEIVED = ''TASK_RECEIVED''"
| "event_kind_value REPOSITORY_INSPECTED = ''REPOSITORY_INSPECTED''"
| "event_kind_value PLAN_GENERATED = ''PLAN_GENERATED''"
| "event_kind_value SANDBOX_CREATED = ''SANDBOX_CREATED''"
| "event_kind_value ACTION_EXECUTED = ''ACTION_EXECUTED''"
| "event_kind_value RESULT_OBSERVED = ''RESULT_OBSERVED''"
| "event_kind_value FAILURE_CLASSIFIED = ''FAILURE_CLASSIFIED''"
| "event_kind_value PATCH_GENERATED = ''PATCH_GENERATED''"
| "event_kind_value EVIDENCE_RECORDED = ''EVIDENCE_RECORDED''"
| "event_kind_value VERIFICATION_RUN = ''VERIFICATION_RUN''"
| "event_kind_value BEHAVIORAL_DELTA = ''BEHAVIORAL_DELTA''"
| "event_kind_value INTENT_ALIGNMENT = ''INTENT_ALIGNMENT''"
| "event_kind_value REPAIR = ''REPAIR''"
| "event_kind_value REVERIFICATION = ''REVERIFICATION''"
| "event_kind_value CERTIFICATION = ''CERTIFICATION''"
| "event_kind_value MEMORY_UPDATE = ''MEMORY_UPDATE''"
| "event_kind_value MERGE = ''MERGE''"
| "event_kind_value BLOCKED = ''BLOCKED''"

definition DEFAULT_PHASES :: "string list" where
  "DEFAULT_PHASES =
     [''discover'', ''govern'', ''define'', ''analyze'', ''lock'', ''develop'', ''verify'', ''decide'',
      ''reverify'', ''certify'', ''merge'', ''memory'']"

definition STAGE_ORDER :: "event_kind list" where
  "STAGE_ORDER =
     [TASK_RECEIVED, REPOSITORY_INSPECTED, PLAN_GENERATED, SANDBOX_CREATED, ACTION_EXECUTED,
      FAILURE_CLASSIFIED, PATCH_GENERATED, EVIDENCE_RECORDED, REVERIFICATION, VERIFICATION_RUN,
      BEHAVIORAL_DELTA, INTENT_ALIGNMENT, REPAIR, CERTIFICATION, MERGE, MEMORY_UPDATE, BLOCKED]"

text \<open>\<open>list.index\<close>; the length of the list when the value is absent.\<close>

fun index_of :: "'a list \<Rightarrow> 'a \<Rightarrow> nat" where
  "index_of [] y = 0"
| "index_of (x # xs) y = (if x = y then 0 else Suc (index_of xs y))"

definition stage_key :: "string \<Rightarrow> nat" where
  "stage_key t = index_of (map event_kind_value STAGE_ORDER) t"

definition phase_position :: "string \<Rightarrow> nat" where
  "phase_position f = index_of DEFAULT_PHASES f"

section \<open>Chaining (chaining.py)\<close>

definition canonical_payload :: "platform \<Rightarrow> json \<Rightarrow> string" where
  "canonical_payload p j = dumps p (PDict j)"

definition event_digest :: "platform \<Rightarrow> event_row \<Rightarrow> string" where
  "event_digest p e =
     digest p [ce_entity_type e, ce_entity_id e, ce_event_type e, str_int (ce_sequence e),
               canonical_payload p (ce_payload e)]"

datatype journal_error = NoScope | PhaseNotHashable | NoTaskOrRun

definition next_sequence :: "db \<Rightarrow> string option \<Rightarrow> string option \<Rightarrow> journal_error + int" where
  "next_sequence d run task =
     (case (run, task) of
        (Some r, None) \<Rightarrow> Inr (int (length (filter (\<lambda>e. ce_run e = Some r) (events d))) + 1)
      | (None, Some t) \<Rightarrow> Inr (int (length (filter (\<lambda>e. ce_task e = Some t) (events d))) + 1)
      | _ \<Rightarrow> Inl NoScope)"

section \<open>Recording (orchestrate.py and the recorders of the certification package)\<close>

text \<open>What a caller says of an event.\<close>

record event_draft =
  dr_entity_type :: string
  dr_entity_id :: string
  dr_kind :: event_kind
  dr_task :: string
  dr_actor :: string
  dr_payload :: json

text \<open>The row of a draft, before \<open>flush\<close> gives it its key.\<close>

definition event_of :: "event_draft \<Rightarrow> string option \<Rightarrow> int \<Rightarrow> int \<Rightarrow> event_row" where
  "event_of f run seq t =
     \<lparr>ce_id = [], ce_entity_type = dr_entity_type f, ce_entity_id = dr_entity_id f,
      ce_event_type = event_kind_value (dr_kind f), ce_occurred = Some t, ce_actor = Some (dr_actor f),
      ce_payload = dr_payload f, ce_provenance = None, ce_task = Some (dr_task f), ce_run = run,
      ce_sequence = seq, ce_hash = None, ce_created = 0\<rparr>"

definition add_event :: "event_row \<Rightarrow> db \<Rightarrow> db" where
  "add_event e d =
     (let (u, d1) = db_uuid d; (t, d2) = db_now d1
      in d2\<lparr>events := events d2 @ [e\<lparr>ce_id := u, ce_created := t\<rparr>]\<rparr>)"

text \<open>
  The recorder of the certification package (\<open>_record_event\<close> of \<open>reverify\<close>, \<open>certificate\<close>, \<open>memory\<close> and
  \<open>archaeology\<close>, \<open>_record_merge_event\<close>): bound to the task only, numbered by the events of the task so
  far, without a hash.
\<close>

definition task_events :: "db \<Rightarrow> string \<Rightarrow> event_row list" where
  "task_events d t = filter (\<lambda>e. ce_task e = Some t) (events d)"

definition run_events :: "db \<Rightarrow> string \<Rightarrow> event_row list" where
  "run_events d r = filter (\<lambda>e. ce_run e = Some r) (events d)"

definition record_task_event :: "event_draft \<Rightarrow> db \<Rightarrow> db" where
  "record_task_event f d =
     (let (t, d1) = db_now d
      in add_event (event_of f None (int (length (task_events d (dr_task f)))) t) d1)"

text \<open>The recorder of the workflow: chained when it is given a run.\<close>

definition record_run_event :: "platform \<Rightarrow> event_draft \<Rightarrow> string \<Rightarrow> db \<Rightarrow> db" where
  "record_run_event p f r d =
     (let (t, d1) = db_now d; e = event_of f (Some r) (int (length (run_events d r)) + 1) t
      in add_event (e\<lparr>ce_hash := Some (event_digest p e)\<rparr>) d1)"

definition record_event :: "platform \<Rightarrow> event_draft \<Rightarrow> string option \<Rightarrow> db \<Rightarrow> db" where
  "record_event p f run d =
     (case run of Some r \<Rightarrow> record_run_event p f r d | None \<Rightarrow> record_task_event f d)"

section \<open>Replay (replay.py)\<close>

text \<open>\<open>asc().nullslast()\<close>.\<close>

definition nulls_last :: "int option \<Rightarrow> bool \<times> int" where
  "nulls_last x = (case x of None \<Rightarrow> (True, 0) | Some t \<Rightarrow> (False, t))"

definition ordered_events :: "db \<Rightarrow> string \<Rightarrow> event_row list" where
  "ordered_events d r =
     sort_key (\<lambda>e. (ce_sequence e, nulls_last (ce_occurred e), ce_id e)) (run_events d r)"

definition task_ordered_events :: "db \<Rightarrow> string \<Rightarrow> event_row list" where
  "task_ordered_events d t =
     sort_key (\<lambda>e. (nulls_last (ce_occurred e), ce_sequence e, ce_id e)) (task_events d t)"

record replay_event =
  re_event_id :: string
  re_entity_type :: string
  re_entity_id :: string
  re_event_type :: string
  re_occurred :: "int option"
  re_actor :: "string option"
  re_payload :: json
  re_provenance :: "string option"

definition replay_event_of :: "event_row \<Rightarrow> replay_event" where
  "replay_event_of e =
     \<lparr>re_event_id = ce_id e, re_entity_type = ce_entity_type e, re_entity_id = ce_entity_id e,
      re_event_type = ce_event_type e, re_occurred = ce_occurred e, re_actor = ce_actor e,
      re_payload = ce_payload e, re_provenance = ce_provenance e\<rparr>"

text \<open>The stages by type in the order of their first event, then sorted by the canonical order.\<close>

definition collect_stage ::
    "event_row \<Rightarrow> (string \<times> replay_event list) list \<Rightarrow> (string \<times> replay_event list) list" where
  "collect_stage e stages =
     AList.update (ce_event_type e)
       ((case map_of stages (ce_event_type e) of None \<Rightarrow> [] | Some es \<Rightarrow> es) @ [replay_event_of e]) stages"

definition replay_stages :: "event_row list \<Rightarrow> (string \<times> replay_event list) list" where
  "replay_stages es = sort_key (\<lambda>s. stage_key (fst s)) (fold collect_stage es [])"

definition blocked_label :: "platform \<Rightarrow> event_row \<Rightarrow> string" where
  "blocked_label p e =
     ce_event_type e @ '':'' @
     (case map_of (ce_payload e) ''reason'' of None \<Rightarrow> ''unknown'' | Some v \<Rightarrow> py_str (float_repr p) v)"

definition blocked_stages :: "platform \<Rightarrow> event_row list \<Rightarrow> string list" where
  "blocked_stages p es =
     dedup (map (blocked_label p) (filter (\<lambda>e. ce_event_type e = event_kind_value BLOCKED) es))"

text \<open>The check of the chain: \<open>None\<close> when it is valid, the first mismatch otherwise.\<close>

datatype chain_fault = MissingHash | DigestMismatch int | OrderViolated int

fun chain_check :: "platform \<Rightarrow> int option \<Rightarrow> event_row list \<Rightarrow> chain_fault option" where
  "chain_check p prev [] = None"
| "chain_check p prev (e # es) =
     (if ce_hash e = None \<or> ce_hash e = Some [] then Some MissingHash
      else if ce_hash e \<noteq> Some (event_digest p e) then Some (DigestMismatch (ce_sequence e))
      else if (case prev of None \<Rightarrow> False | Some s \<Rightarrow> ce_sequence e \<le> s) then Some (OrderViolated (ce_sequence e))
      else chain_check p (Some (ce_sequence e)) es)"

fun fault_text :: "chain_fault \<Rightarrow> string" where
  "fault_text MissingHash = ''missing stored hash''"
| "fault_text (DigestMismatch n) = ''stored/recomputed mismatch at sequence '' @ str_int n"
| "fault_text (OrderViolated n) = ''sequence ordering violated at sequence '' @ str_int n"

text \<open>\<open>phase in _PHASE_SET\<close> hashes the phase: a list or a dictionary raises \<open>TypeError\<close>.\<close>

fun hashable :: "pyval \<Rightarrow> bool" where
  "hashable (PList xs) = False"
| "hashable (PDict kvs) = False"
| "hashable v = True"

definition phase_in :: "json \<Rightarrow> string option" where
  "phase_in j =
     (case get_key j ''phase'' of PStr s \<Rightarrow> if s \<in> set DEFAULT_PHASES then Some s else None | _ \<Rightarrow> None)"

definition phases_of :: "event_row list \<Rightarrow> journal_error + string list" where
  "phases_of es =
     (if list_all (\<lambda>e. hashable (get_key (ce_payload e) ''phase'')) es
      then Inr (sort_key phase_position (List.map_filter (\<lambda>e. phase_in (ce_payload e)) es))
      else Inl PhaseNotHashable)"

record blocked_event =
  be_event_type :: string
  be_sequence :: int
  be_phase :: pyval
  be_payload :: json
  be_reason :: pyval

definition blocked_events :: "event_row list \<Rightarrow> blocked_event list" where
  "blocked_events es =
     map (\<lambda>e. \<lparr>be_event_type = ce_event_type e, be_sequence = ce_sequence e,
                be_phase = get_key (ce_payload e) ''phase'', be_payload = ce_payload e,
                be_reason = get_key (ce_payload e) ''reason''\<rparr>)
       (filter (\<lambda>e. get_key (ce_payload e) ''blocked'' = PBool True \<or>
                     ce_event_type e = event_kind_value BLOCKED) es)"

record replay_result =
  rr_task :: string
  rr_stages :: "(string \<times> replay_event list) list"
  rr_evidence_count :: nat
  rr_event_count :: nat
  rr_replayable :: bool
  rr_blocked_stages :: "string list"
  rr_chain_valid :: bool
  rr_first_mismatch :: "string option"
  rr_phases :: "string list"
  rr_evidence_hashes :: "string list"
  rr_blocked :: "blocked_event list"
  rr_blocked_reason :: pyval

text \<open>\<open>sorted({ev.hash for ev in rows if ev.hash})\<close>.\<close>

definition hashes_of :: "evidence_row list \<Rightarrow> string list" where
  "hashes_of rs = sort (dedup (filter (\<lambda>h. h \<noteq> []) (map en_hash rs)))"

definition first_mismatch ::
    "platform \<Rightarrow> event_row list \<Rightarrow> string list option \<Rightarrow> string list \<Rightarrow> string option" where
  "first_mismatch p chain expected hashes =
     (let m = (if chain = [] then Some ''no chained events'' else map_option fault_text (chain_check p None chain))
      in if m = None \<and> expected \<noteq> None \<and> expected \<noteq> Some hashes then Some ''evidence digest mismatch'' else m)"

definition replay_of ::
    "platform \<Rightarrow> db \<Rightarrow> string \<Rightarrow> event_row list \<Rightarrow> string list option \<Rightarrow> journal_error + replay_result" where
  "replay_of p d task display expected =
     (let rows = evidence_for_task d task;
          chain = filter (\<lambda>e. 0 < ce_sequence e) display;
          valid = (chain_check p None chain = None);
          hashes = hashes_of rows;
          blocked = blocked_events chain
      in case phases_of chain of
           Inl err \<Rightarrow> Inl err
         | Inr phases \<Rightarrow> Inr
             \<lparr>rr_task = task, rr_stages = replay_stages display, rr_evidence_count = length rows,
              rr_event_count = length display,
              rr_replayable = (valid \<and> (expected = None \<or> expected = Some hashes) \<and> chain \<noteq> []),
              rr_blocked_stages = blocked_stages p display, rr_chain_valid = valid,
              rr_first_mismatch = first_mismatch p chain expected hashes, rr_phases = phases,
              rr_evidence_hashes = hashes, rr_blocked = blocked,
              rr_blocked_reason = (if blocked = [] then PNone else be_reason (last blocked))\<rparr>)"

text \<open>The replay of a run (given as its row), or of a task.\<close>

definition replay_from_evidence_graph ::
    "platform \<Rightarrow> db \<Rightarrow> run_row option \<Rightarrow> string option \<Rightarrow> string list option \<Rightarrow> journal_error + replay_result" where
  "replay_from_evidence_graph p d run task expected =
     (case run of
        Some r \<Rightarrow> replay_of p d (rn_task r) (ordered_events d (rn_id r)) expected
      | None \<Rightarrow> (case task of
          None \<Rightarrow> Inl NoTaskOrRun
        | Some t \<Rightarrow> replay_of p d t (task_ordered_events d t) expected))"

section \<open>Chained journals\<close>

definition chained_event :: "platform \<Rightarrow> nat \<Rightarrow> event_row \<Rightarrow> bool" where
  "chained_event p n e \<longleftrightarrow> ce_sequence e = int n + 1 \<and> ce_hash e = Some (event_digest p e)"

definition chained :: "platform \<Rightarrow> event_row list \<Rightarrow> bool" where
  "chained p es \<longleftrightarrow> (\<forall>i < length es. chained_event p i (es ! i))"

lemma journal_snoc: "chained p (es @ [e]) \<longleftrightarrow> chained p es \<and> chained_event p (length es) e"
  by (auto simp: chained_def nth_append less_Suc_eq)

lemma chained_Nil [simp]: "chained p []"
  by (simp add: chained_def)

text \<open>The digest reads neither key nor time nor the hash itself.\<close>

lemma event_digest_cong [simp]:
  "event_digest p (e\<lparr>ce_hash := h\<rparr>) = event_digest p e"
  "event_digest p (e\<lparr>ce_id := u\<rparr>) = event_digest p e"
  "event_digest p (e\<lparr>ce_created := t\<rparr>) = event_digest p e"
  by (simp_all add: event_digest_def)

lemma add_event_events:
  "\<exists>u t. events (add_event e d) = events d @ [e\<lparr>ce_id := u, ce_created := t\<rparr>]"
  by (auto simp: add_event_def case_prod_unfold Let_def)

lemma event_of_fields [simp]:
  "ce_run (event_of f run n t) = run" "ce_task (event_of f run n t) = Some (dr_task f)"
  "ce_sequence (event_of f run n t) = n" "ce_payload (event_of f run n t) = dr_payload f"
  "ce_hash (event_of f run n t) = None"
  by (simp_all add: event_of_def)

lemma record_task_event_runs [simp]: "run_events (record_task_event f d) r = run_events d r"
proof -
  let ?e = "event_of f None (int (length (task_events d (dr_task f)))) (fst (db_now d))"
  obtain u t where "events (add_event ?e (snd (db_now d))) = events d @ [?e\<lparr>ce_id := u, ce_created := t\<rparr>]"
    using add_event_events [of ?e "snd (db_now d)"] by auto
  then show ?thesis by (simp add: run_events_def record_task_event_def case_prod_unfold Let_def)
qed

text \<open>What a recorded event of a run adds to the journal of the run.\<close>

lemma record_run_event_effect:
  obtains e where "events (record_run_event p f r d) = events d @ [e]" "ce_run e = Some r"
    "ce_payload e = dr_payload f" "chained_event p (length (run_events d r)) e"
proof -
  let ?e = "event_of f (Some r) (int (length (run_events d r)) + 1) (fst (db_now d))"
  let ?h = "?e\<lparr>ce_hash := Some (event_digest p ?e)\<rparr>"
  obtain u t where e: "events (add_event ?h (snd (db_now d))) = events d @ [?h\<lparr>ce_id := u, ce_created := t\<rparr>]"
    using add_event_events [of ?h "snd (db_now d)"] by auto
  show thesis
    by (rule that [of "?h\<lparr>ce_id := u, ce_created := t\<rparr>"])
      (use e in \<open>simp_all add: record_run_event_def case_prod_unfold Let_def chained_event_def\<close>)
qed

lemma record_run_event_other: "r' \<noteq> r \<Longrightarrow> run_events (record_run_event p f r d) r' = run_events d r'"
  by (rule record_run_event_effect [of p f r d]) (simp add: run_events_def)

lemma record_run_event_chained:
  assumes "chained p (run_events d r')"
  shows "chained p (run_events (record_run_event p f r d) r')"
proof (cases "r' = r")
  case True
  obtain e where "events (record_run_event p f r d) = events d @ [e]" "ce_run e = Some r"
      "chained_event p (length (run_events d r)) e"
    by (rule record_run_event_effect [of p f r d]) blast
  with True assms show ?thesis by (simp add: run_events_def journal_snoc)
qed (use assms in \<open>simp add: record_run_event_other\<close>)

lemma record_event_chained:
  "chained p (run_events d r') \<Longrightarrow> chained p (run_events (record_event p f run d) r')"
  by (cases run) (simp_all add: record_event_def record_run_event_chained)

lemma record_event_payloads:
  "map ce_payload (run_events (record_event p f run d) r) =
     map ce_payload (run_events d r) @ (if run = Some r then [dr_payload f] else [])"
proof (cases run)
  case None
  then show ?thesis by (simp add: record_event_def)
next
  case (Some r')
  obtain e where "events (record_run_event p f r' d) = events d @ [e]" "ce_run e = Some r'"
      "ce_payload e = dr_payload f"
    by (rule record_run_event_effect [of p f r' d]) blast
  with Some show ?thesis by (simp add: record_event_def run_events_def)
qed

text \<open>A chained journal is in order, and its check finds no fault.\<close>

lemma sorted_stays: "sorted (map f xs) \<Longrightarrow> sort_key f xs = xs"
proof (induction xs)
  case (Cons x xs)
  then have "\<And>ys. \<forall>y \<in> set ys. f x \<le> f y \<Longrightarrow> insort_key f x ys = x # ys"
    by (rename_tac ys) (case_tac ys; simp)
  with Cons show ?case by simp
qed simp

lemma chained_sequences: "chained p es \<Longrightarrow> map ce_sequence es = map (\<lambda>i. int i + 1) [0..<length es]"
  by (intro nth_equalityI) (simp_all add: chained_def chained_event_def)

lemma chained_sorted:
  assumes "chained p es"
  shows "sorted (map (\<lambda>e. (ce_sequence e, g e)) es)"
proof (unfold sorted_wrt_iff_nth_less, intro allI impI)
  fix i j assume "i < j" "j < length (map (\<lambda>e. (ce_sequence e, g e)) es)"
  moreover from this assms have "ce_sequence (es ! i) = int i + 1" "ce_sequence (es ! j) = int j + 1"
    by (simp_all add: chained_def chained_event_def)
  ultimately show "map (\<lambda>e. (ce_sequence e, g e)) es ! i \<le> map (\<lambda>e. (ce_sequence e, g e)) es ! j"
    by (simp add: less_eq_prod_def)
qed

lemma ordered_chained: "chained p (run_events d r) \<Longrightarrow> ordered_events d r = run_events d r"
  by (simp add: ordered_events_def sorted_stays chained_sorted)

text \<open>The check of a journal, event by event.\<close>

definition intact :: "platform \<Rightarrow> event_row \<Rightarrow> bool" where
  "intact p e \<longleftrightarrow> ce_hash e = Some (event_digest p e) \<and> ce_hash e \<noteq> Some []"

lemma chain_check_Cons:
  "chain_check p prev (e # es) = None \<longleftrightarrow>
     intact p e \<and> (\<forall>s. prev = Some s \<longrightarrow> s < ce_sequence e) \<and> chain_check p (Some (ce_sequence e)) es = None"
  by (cases prev) (auto simp: intact_def)

lemma chain_check_iff:
  "chain_check p prev es = None \<longleftrightarrow>
     list_all (intact p) es \<and> sorted_wrt (<) (map ce_sequence es) \<and>
     (\<forall>s. prev = Some s \<longrightarrow> (\<forall>e \<in> set es. s < ce_sequence e))"
proof (induction es arbitrary: prev)
  case (Cons e es)
  show ?case
    unfolding chain_check_Cons Cons.IH [of "Some (ce_sequence e)"] by (auto intro: order.strict_trans)
qed simp

lemma chained_intact:
  assumes "chained p es" "\<forall>s. sha256 p s \<noteq> []"
  shows "chain_check p None es = None"
proof -
  have "sorted_wrt (<) (map ce_sequence es)"
    using assms(1) by (simp add: chained_sequences sorted_wrt_map sorted_wrt_iff_nth_less)
  moreover have "list_all (intact p) es"
    using assms by (auto simp: chained_def chained_event_def intact_def list_all_length event_digest_def digest_def)
  ultimately show ?thesis by (simp add: chain_check_iff)
qed

section \<open>What replay detects\<close>

lemma filtered_chain: "chain_check p None es = None \<Longrightarrow> chain_check p None (filter P es) = None"
  by (auto simp: chain_check_iff list_all_iff filter_map [symmetric] sorted_wrt_map intro: sorted_wrt_filter)

text \<open>The events of a run the check of its chain reads, in order.\<close>

definition run_chain :: "db \<Rightarrow> string \<Rightarrow> event_row list" where
  "run_chain d r = filter (\<lambda>e. 0 < ce_sequence e) (ordered_events d r)"

lemma run_chain_filter:
  "run_chain (d\<lparr>events := filter P (events d)\<rparr>) r = filter P (run_chain d r)"
proof -
  have "run_events (d\<lparr>events := filter P (events d)\<rparr>) r = filter P (run_events d r)"
    by (auto simp: run_events_def intro: filter_cong)
  then have "ordered_events (d\<lparr>events := filter P (events d)\<rparr>) r = filter P (ordered_events d r)"
    by (simp add: ordered_events_def filter_sort)
  then show ?thesis by (auto simp: run_chain_def intro: filter_cong)
qed

lemma replay_of_run:
  "replay_from_evidence_graph p d (Some r) task expected = Inr res \<longleftrightarrow>
     replay_of p d (rn_task r) (ordered_events d (rn_id r)) expected = Inr res"
  by (simp add: replay_from_evidence_graph_def)

lemma replay_of_fields:
  assumes "replay_of p d t (ordered_events d r) expected = Inr res"
  shows "rr_chain_valid res \<longleftrightarrow> chain_check p None (run_chain d r) = None"
    and "rr_replayable res \<longleftrightarrow> chain_check p None (run_chain d r) = None \<and>
      (expected = None \<or> expected = Some (hashes_of (evidence_for_task d t))) \<and> run_chain d r \<noteq> []"
    and "phases_of (run_chain d r) = Inr (rr_phases res)"
    and "rr_evidence_hashes res = hashes_of (evidence_for_task d t)"
  using assms by (auto simp: replay_of_def run_chain_def Let_def split: sum.splits)

lemma replay_of_total:
  "phases_of (run_chain d r) = Inr fs \<Longrightarrow> \<exists>res. replay_of p d t (ordered_events d r) expected = Inr res"
  by (simp add: replay_of_def run_chain_def Let_def)

lemma phases_of_Inr: "(\<exists>fs. phases_of es = Inr fs) \<longleftrightarrow> list_all (\<lambda>e. hashable (get_key (ce_payload e) ''phase'')) es"
  by (simp add: phases_of_def)

text \<open>What the digest of an event commits to.\<close>

definition commitment :: "platform \<Rightarrow> event_row \<Rightarrow> string \<times> string \<times> string \<times> int \<times> string" where
  "commitment p e =
     (ce_entity_type e, ce_entity_id e, ce_event_type e, ce_sequence e, canonical_payload p (ce_payload e))"

definition plain_event :: "event_row \<Rightarrow> bool" where
  "plain_event e \<longleftrightarrow>
     CHR ''|'' \<notin> set (ce_entity_type e) \<and> CHR ''|'' \<notin> set (ce_entity_id e) \<and> CHR ''|'' \<notin> set (ce_event_type e)"

lemma event_digest_inj:
  assumes "inj (sha256 p)" "plain_event e" "plain_event f" "event_digest p e = event_digest p f"
  shows "commitment p e = commitment p f"
proof -
  have *: "ce_entity_type e @ CHR ''|'' # ce_entity_id e @ CHR ''|'' # ce_event_type e @ CHR ''|'' #
        str_int (ce_sequence e) @ CHR ''|'' # canonical_payload p (ce_payload e) =
      ce_entity_type f @ CHR ''|'' # ce_entity_id f @ CHR ''|'' # ce_event_type f @ CHR ''|'' #
        str_int (ce_sequence f) @ CHR ''|'' # canonical_payload p (ce_payload f)"
    using assms(1,4) by (simp add: event_digest_def digest_def inj_eq)
  have bars: "CHR ''|'' \<notin> set (ce_entity_type e)" "CHR ''|'' \<notin> set (ce_entity_type f)"
      "CHR ''|'' \<notin> set (ce_entity_id e)" "CHR ''|'' \<notin> set (ce_entity_id f)"
      "CHR ''|'' \<notin> set (ce_event_type e)" "CHR ''|'' \<notin> set (ce_event_type f)"
    using assms(2,3) by (simp_all add: plain_event_def)
  note s1 = split_at_bar [OF * bars(1,2)]
  note s2 = split_at_bar [OF conjunct2 [OF s1] bars(3,4)]
  note s3 = split_at_bar [OF conjunct2 [OF s2] bars(5,6)]
  note s4 = split_at_bar [OF conjunct2 [OF s3] str_int_no_bar str_int_no_bar]
  from s1 s2 s3 s4 show ?thesis by (simp add: commitment_def str_int_inj)
qed

text \<open>Recordings of a session, for runs or for tasks only.\<close>

definition record_all :: "platform \<Rightarrow> (event_draft \<times> string option) list \<Rightarrow> db \<Rightarrow> db" where
  "record_all p fs d = fold (\<lambda>(f, run). record_event p f run) fs d"

lemma record_all_journal:
  "chained p (run_events d r) \<Longrightarrow>
     chained p (run_events (record_all p fs d) r) \<and>
     map ce_payload (run_events (record_all p fs d) r) =
       map ce_payload (run_events d r) @ map (\<lambda>(f, _). dr_payload f) (filter (\<lambda>(_, run). run = Some r) fs)"
proof (induction fs arbitrary: d)
  case (Cons fr fs)
  obtain f run where fr: "fr = (f, run)" by fastforce
  have "record_all p (fr # fs) d = record_all p fs (record_event p f run d)"
    by (simp add: record_all_def fr)
  with Cons.IH [OF record_event_chained [OF Cons.prems]] show ?case
    by (auto simp: fr record_event_payloads)
qed (simp add: record_all_def)

lemma chained_run_chain:
  assumes "chained p (run_events d r)"
  shows "run_chain d r = run_events d r"
proof -
  have "\<forall>e \<in> set (run_events d r). 0 < ce_sequence e"
    using assms by (auto simp: chained_def chained_event_def in_set_conv_nth)
  then show ?thesis by (simp add: run_chain_def ordered_chained [OF assms] filter_id_conv)
qed

lemma record_all_chain:
  assumes "run_events d r = []"
  shows "chained p (run_events (record_all p fs d) r)"
    and "run_chain (record_all p fs d) r = run_events (record_all p fs d) r"
    and "map ce_payload (run_chain (record_all p fs d) r) = map (\<lambda>(f, _). dr_payload f) (filter (\<lambda>(_, run). run = Some r) fs)"
proof -
  have *: "chained p (run_events (record_all p fs d) r) \<and>
      map ce_payload (run_events (record_all p fs d) r) = map (\<lambda>(f, _). dr_payload f) (filter (\<lambda>(_, run). run = Some r) fs)"
    using record_all_journal [of p d r fs] by (simp add: assms)
  then show "chained p (run_events (record_all p fs d) r)" ..
  with * show "run_chain (record_all p fs d) r = run_events (record_all p fs d) r"
    and "map ce_payload (run_chain (record_all p fs d) r) = map (\<lambda>(f, _). dr_payload f) (filter (\<lambda>(_, run). run = Some r) fs)"
    by (simp_all add: chained_run_chain)
qed

lemma phases_of_payloads:
  "phases_of es =
     (if list_all (\<lambda>j. hashable (get_key j ''phase'')) (map ce_payload es)
      then Inr (sort_key phase_position (List.map_filter phase_in (map ce_payload es))) else Inl PhaseNotHashable)"
  by (simp add: phases_of_def list_all_iff map_filter_def filter_map o_def)

section \<open>A small journal\<close>

definition demo_platform :: platform where
  "demo_platform =
     \<lparr>sha256 = (\<lambda>s. CHR ''h'' # s), dumps = py_repr (\<lambda>_. ''0.0''), isoformat = str_int, uuid5 = (\<lambda>s. ''u5-'' @ s),
      parse_uuid = Some, float_repr = (\<lambda>_. ''0.0'')\<rparr>"

definition demo_run :: run_row where
  "demo_run =
     \<lparr>rn_id = ''r'', rn_task = ''t'', rn_kind = ''AGENT'', rn_status = ''RUNNING'', rn_started = None,
      rn_finished = None, rn_environment = []\<rparr>"

definition demo_draft :: "string \<Rightarrow> event_draft" where
  "demo_draft f =
     \<lparr>dr_entity_type = ''Task'', dr_entity_id = ''t'', dr_kind = TASK_RECEIVED, dr_task = ''t'',
      dr_actor = ''workflow'', dr_payload = [(''phase'', PStr f), (''blocked'', PBool False)]\<rparr>"

definition demo_steps :: "(event_draft \<times> string option) list" where
  "demo_steps = [(demo_draft ''discover'', Some ''r''), (demo_draft ''govern'', Some ''r''), (demo_draft ''lock'', None)]"

definition demo_journal :: "world \<Rightarrow> db" where
  "demo_journal w = record_all demo_platform demo_steps (empty_db w)"

text \<open>The same host an hour later.\<close>

definition later_host :: world where
  "later_host = demo_host\<lparr>clock_at := \<lambda>n. int n + 3600000000\<rparr>"

lemma demo_platform_hash: "inj (sha256 demo_platform)" "\<forall>s. sha256 demo_platform s \<noteq> []"
  by (auto simp: demo_platform_def inj_def)

lemma empty_db_run: "run_events (empty_db w) r = []"
  by (simp add: run_events_def empty_db_def)

lemma demo_draft_hashable: "\<forall>(f, run) \<in> set demo_steps. hashable (get_key (dr_payload f) ''phase'')"
  by (simp add: demo_steps_def demo_draft_def get_key_def)

lemma demo_journal_hashes:
  "map ce_hash (run_events (demo_journal demo_host) ''r'') = map ce_hash (run_events (demo_journal later_host) ''r'')"
  "list_all plain_event (run_events (demo_journal demo_host) ''r'') \<and>
   list_all plain_event (run_events (demo_journal later_host) ''r'')"
  by code_simp+

section \<open>Properties\<close>

text \<open>
  C7. What the workflow records replays: whatever sequence of events is recorded for runs or for tasks
  only, the replay of a run that had no event before finds its chain valid, calls it replayable exactly
  when an event was recorded for it, and lists the phases its payloads name, in the canonical order.
\<close>
theorem recorded_journal_replays:
  assumes "run_events d (rn_id r) = []" and "\<forall>s. sha256 p s \<noteq> []"
    and "\<forall>(f, run) \<in> set fs. hashable (get_key (dr_payload f) ''phase'')"
  shows "\<exists>res. replay_from_evidence_graph p (record_all p fs d) (Some r) task None = Inr res \<and>
    rr_chain_valid res \<and> (rr_replayable res \<longleftrightarrow> (\<exists>f. (f, Some (rn_id r)) \<in> set fs)) \<and>
    rr_phases res = sort_key phase_position
      (List.map_filter (\<lambda>(f, run). if run = Some (rn_id r) then phase_in (dr_payload f) else None) fs)"
proof -
  let ?d = "record_all p fs d" and ?mine = "filter (\<lambda>(_, run). run = Some (rn_id r)) fs"
  note chain = record_all_chain [OF assms(1), of p fs] and j = record_all_chain(3) [OF assms(1), of p fs]
  have valid: "chain_check p None (run_chain ?d (rn_id r)) = None"
    using chained_intact [OF chain(1) assms(2)] by (simp add: chain(2))
  have "list_all (\<lambda>j. hashable (get_key j ''phase'')) (map ce_payload (run_chain ?d (rn_id r)))"
    unfolding j using assms(3) by (auto simp: list_all_iff)
  then have ph: "phases_of (run_chain ?d (rn_id r)) = Inr (sort_key phase_position (List.map_filter phase_in (map (\<lambda>(f, _). dr_payload f) ?mine)))"
    by (simp add: phases_of_payloads j)
  then obtain res where res: "replay_of p ?d (rn_task r) (ordered_events ?d (rn_id r)) None = Inr res"
    using replay_of_total by blast
  have "run_chain ?d (rn_id r) = [] \<longleftrightarrow> ?mine = []" using j by (metis map_is_Nil_conv)
  then have "rr_replayable res \<longleftrightarrow> (\<exists>f. (f, Some (rn_id r)) \<in> set fs)"
    using replay_of_fields(2) [OF res] valid by (auto simp: filter_empty_conv)
  moreover have "List.map_filter phase_in (map (\<lambda>(f, _). dr_payload f) ?mine) =
      List.map_filter (\<lambda>(f, run). if run = Some (rn_id r) then phase_in (dr_payload f) else None) fs"
    by (induction fs) (auto simp: List.map_filter_simps split: option.splits if_splits)
  ultimately show ?thesis
    using res valid replay_of_fields(1,3) [OF res] ph by (auto simp: replay_of_run)
qed

text \<open>
  C22. Replay protects what the events say: two journals of a run that both replay as valid and store the
  same hashes in the same order agree on the entity, the type, the sequence and the serialized payload of
  every event. SHA-256 enters as an injective function; the entity types and identifiers hold no bar.
\<close>
theorem replay_protects_content:
  assumes "inj (sha256 p)"
    and "replay_from_evidence_graph p d (Some r) task None = Inr res" "rr_chain_valid res"
    and "replay_from_evidence_graph p d' (Some r) task None = Inr res'" "rr_chain_valid res'"
    and "map ce_hash (run_chain d (rn_id r)) = map ce_hash (run_chain d' (rn_id r))"
    and "list_all plain_event (run_chain d (rn_id r)) \<and> list_all plain_event (run_chain d' (rn_id r))"
  shows "map (commitment p) (run_chain d (rn_id r)) = map (commitment p) (run_chain d' (rn_id r))"
proof -
  let ?es = "run_chain d (rn_id r)" and ?fs = "run_chain d' (rn_id r)"
  have valid: "list_all (intact p) ?es" "list_all (intact p) ?fs"
    using assms(2-5) replay_of_fields(1) by (auto simp: replay_of_run chain_check_iff)
  have len: "length ?es = length ?fs" using assms(6) by (metis length_map)
  show ?thesis
  proof (rule nth_equalityI)
    fix i assume "i < length (map (commitment p) ?es)"
    then have i: "i < length ?es" "i < length ?fs" using len by simp_all
    then have "ce_hash (?es ! i) = ce_hash (?fs ! i)" using assms(6) by (metis nth_map)
    moreover have "intact p (?es ! i)" "intact p (?fs ! i)" "plain_event (?es ! i)" "plain_event (?fs ! i)"
      using valid assms(7) i by (simp_all add: list_all_length)
    ultimately have "commitment p (?es ! i) = commitment p (?fs ! i)"
      by (intro event_digest_inj [OF assms(1)]) (simp_all add: intact_def)
    with i show "map (commitment p) ?es ! i = map (commitment p) ?fs ! i" by simp
  qed (simp add: len)
qed

text \<open>
  Replay does not notice deleted events: the digest of an event does not cover the event before it
  and a gap in the sequence is not a fault, so after any deletions a run that replayed as valid still
  does, and it is still replayable as long as one of the events the check reads is left.
\<close>
theorem deletions_pass_replay:
  assumes "replay_from_evidence_graph p d (Some r) task expected = Inr res" and "rr_replayable res"
    and "filter keep (run_chain d (rn_id r)) \<noteq> []"
  shows "\<exists>res'. replay_from_evidence_graph p (d\<lparr>events := filter keep (events d)\<rparr>) (Some r) task expected = Inr res' \<and>
    rr_chain_valid res' \<and> rr_replayable res'"
proof -
  let ?d = "d\<lparr>events := filter keep (events d)\<rparr>"
  have res: "replay_of p d (rn_task r) (ordered_events d (rn_id r)) expected = Inr res"
    using assms(1) by (simp add: replay_of_run)
  have "list_all (\<lambda>e. hashable (get_key (ce_payload e) ''phase'')) (run_chain d (rn_id r))"
    using replay_of_fields(3) [OF res] phases_of_Inr by blast
  then obtain fs where "phases_of (run_chain ?d (rn_id r)) = Inr fs"
    using phases_of_Inr [of "run_chain ?d (rn_id r)"] by (auto simp: run_chain_filter list_all_iff)
  then obtain res' where res': "replay_of p ?d (rn_task r) (ordered_events ?d (rn_id r)) expected = Inr res'"
    using replay_of_total by blast
  have "evidence_for_task ?d (rn_task r) = evidence_for_task d (rn_task r)" by (simp add: evidence_for_task_def)
  with assms(2,3) replay_of_fields(1,2) [OF res'] replay_of_fields(2) [OF res]
  have "rr_chain_valid res' \<and> rr_replayable res'" by (auto simp: run_chain_filter filtered_chain)
  with res' show ?thesis by (auto simp: replay_of_run)
qed

section \<open>Witnesses\<close>

theorem recorded_journal_replays_witness:
  "\<exists>res. replay_from_evidence_graph demo_platform (demo_journal demo_host) (Some demo_run) None None = Inr res \<and>
     rr_chain_valid res \<and> rr_replayable res \<and> rr_phases res = [''discover'', ''govern'']"
proof -
  obtain res where "replay_from_evidence_graph demo_platform (demo_journal demo_host) (Some demo_run) None None = Inr res"
      "rr_chain_valid res" "rr_replayable res \<longleftrightarrow> (\<exists>f. (f, Some (rn_id demo_run)) \<in> set demo_steps)"
      "rr_phases res = sort_key phase_position
        (List.map_filter (\<lambda>(f, run). if run = Some (rn_id demo_run) then phase_in (dr_payload f) else None) demo_steps)"
    using recorded_journal_replays [OF empty_db_run demo_platform_hash(2) demo_draft_hashable, of demo_host demo_run None]
    by (auto simp: demo_journal_def)
  then show ?thesis
    by (intro exI [of _ res])
      (auto simp: demo_steps_def demo_run_def demo_draft_def phase_in_def get_key_def DEFAULT_PHASES_def
        phase_position_def List.map_filter_simps)
qed

lemma demo_replays:
  "\<exists>res. replay_from_evidence_graph demo_platform (demo_journal w) (Some demo_run) None None = Inr res \<and>
     rr_chain_valid res \<and> rr_replayable res"
proof -
  note chain = record_all_chain [OF empty_db_run, of demo_platform demo_steps w "''r''", folded demo_journal_def]
  have ph: "phases_of (run_chain (demo_journal w) ''r'') = Inr [''discover'', ''govern'']"
    by (simp add: phases_of_payloads chain(3) demo_steps_def demo_draft_def phase_in_def get_key_def
        DEFAULT_PHASES_def phase_position_def List.map_filter_simps)
  then obtain res where res: "replay_of demo_platform (demo_journal w) ''t'' (ordered_events (demo_journal w) ''r'') None = Inr res"
    using replay_of_total by blast
  have "run_chain (demo_journal w) ''r'' \<noteq> []"
    using chain(3) by (auto simp: demo_steps_def)
  then have "rr_chain_valid res \<and> rr_replayable res"
    using replay_of_fields(1,2) [OF res] chained_intact [OF chain(1) demo_platform_hash(2)] chain(2) by simp
  with res show ?thesis by (auto simp: replay_from_evidence_graph_def demo_run_def)
qed

theorem replay_protects_content_witness:
  "map (commitment demo_platform) (run_chain (demo_journal demo_host) ''r'') =
     map (commitment demo_platform) (run_chain (demo_journal later_host) ''r'')"
proof -
  have run: "rn_id demo_run = ''r''" by (simp add: demo_run_def)
  have same: "run_chain (demo_journal w) ''r'' = run_events (demo_journal w) ''r''" for w
    using record_all_chain(2) [OF empty_db_run] by (simp add: demo_journal_def)
  obtain res res' where "replay_from_evidence_graph demo_platform (demo_journal demo_host) (Some demo_run) None None = Inr res"
      "rr_chain_valid res" "replay_from_evidence_graph demo_platform (demo_journal later_host) (Some demo_run) None None = Inr res'"
      "rr_chain_valid res'"
    using demo_replays [of demo_host] demo_replays [of later_host] by blast
  from replay_protects_content [OF demo_platform_hash(1) this, unfolded run same] demo_journal_hashes
  show ?thesis by (simp add: same)
qed

text \<open>Of the two events of the run only the second is left.\<close>

theorem deletions_pass_replay_witness:
  "\<exists>res. replay_from_evidence_graph demo_platform
       ((demo_journal demo_host)\<lparr>events := filter (\<lambda>e. ce_sequence e = 2) (events (demo_journal demo_host))\<rparr>)
       (Some demo_run) None None = Inr res \<and> rr_chain_valid res \<and> rr_replayable res"
proof -
  have run: "rn_id demo_run = ''r''" by (simp add: demo_run_def)
  obtain res where res: "replay_from_evidence_graph demo_platform (demo_journal demo_host) (Some demo_run) None None = Inr res"
      "rr_replayable res"
    using demo_replays [of demo_host] by blast
  have "map ce_sequence (run_chain (demo_journal demo_host) ''r'') = [1, 2]" by code_simp
  then have "filter (\<lambda>e. ce_sequence e = 2) (run_chain (demo_journal demo_host) ''r'') \<noteq> []"
    by (auto simp: filter_empty_conv Cons_eq_map_conv map_eq_Cons_conv)
  then show ?thesis by (intro deletions_pass_replay [OF res]) (simp add: run)
qed

end
