(* ===== verification/Certificates.thy ===== *)
theory Certificates
  imports Journal
begin

text \<open>
  The certificate of a change: \<open>evidence/provenance.py\<close> (the traversal of what a certificate binds),
  \<open>certification/integrity.py\<close> (the canonical payload, its hash and the verification) and
  \<open>certification/certificate.py\<close> (the construction). A mapped object passed to a function is its row, a
  write goes to the row of its key. The lemmas show that a certificate just built verifies, and what a
  later change of the bound rows does to it.
\<close>

section \<open>What a certificate binds (provenance.py)\<close>

definition certificate_deltas :: "db \<Rightarrow> string \<Rightarrow> delta_row list" where
  "certificate_deltas d c =
     sort_key (\<lambda>r. (bd_created r, bd_id r)) (filter (\<lambda>r. bd_certificate r = Some c) (deltas d))"

definition certificate_memories :: "db \<Rightarrow> string \<Rightarrow> memory_row list" where
  "certificate_memories d c =
     sort_key (\<lambda>r. (mu_created r, mu_id r)) (filter (\<lambda>r. mu_certificate r = Some c) (memories d))"

definition linked_evidence :: "db \<Rightarrow> string option \<Rightarrow> evidence_row list" where
  "linked_evidence d k = (case k of None \<Rightarrow> [] | Some i \<Rightarrow> (case get_evidence d i of None \<Rightarrow> [] | Some r \<Rightarrow> [r]))"

text \<open>The rows by their key, the later of two with one key winning in the place of the first.\<close>

definition by_id :: "evidence_row list \<Rightarrow> evidence_row list" where
  "by_id rs = map snd (fold (\<lambda>r. AList.update (en_id r) r) rs [])"

definition claim_items :: "db \<Rightarrow> string option \<Rightarrow> evidence_row list" where
  "claim_items d c =
     (case c of None \<Rightarrow> []
      | Some k \<Rightarrow> if get_claim d k = None then [] else filter (\<lambda>r. en_claim r = Some k) (evidence d))"

definition traversal_evidence :: "db \<Rightarrow> certificate_row \<Rightarrow> evidence_row list" where
  "traversal_evidence d c =
     ordered_evidence (by_id
       (concat (map (\<lambda>r. linked_evidence d (bd_evidence r)) (certificate_deltas d (ct_id c)))
        @ claim_items d (ct_claim c)
        @ concat (map (\<lambda>r. linked_evidence d (mu_evidence r)) (certificate_memories d (ct_id c)))))"

definition claim_dict :: "db \<Rightarrow> string option \<Rightarrow> pyval" where
  "claim_dict d k =
     (case k of None \<Rightarrow> PNone | Some i \<Rightarrow> (case get_claim d i of
        None \<Rightarrow> PNone
      | Some r \<Rightarrow> PDict [(''id'', PStr (cl_id r)), (''statement'', PStr (cl_statement r)), (''status'', PStr (cl_status r))]))"

definition evidence_dict :: "evidence_row \<Rightarrow> pyval" where
  "evidence_dict r = PDict
     [(''id'', PStr (en_id r)), (''type'', PStr (en_type r)), (''source'', opt_str (en_source r)),
      (''artifact'', opt_str (en_artifact r)), (''provenance'', opt_str (en_provenance r)),
      (''hash'', PStr (en_hash r)), (''claim_id'', opt_str (en_claim r)),
      (''verification_case_id'', opt_str (en_case r)), (''machine_result'', PDict (en_machine_result r))]"

definition memory_dict :: "memory_row \<Rightarrow> pyval" where
  "memory_dict r = PDict
     [(''id'', PStr (mu_id r)), (''kind'', PStr (mu_kind r)), (''summary'', opt_str (mu_summary r)),
      (''applied'', PBool (mu_applied r)), (''evidence_id'', opt_str (mu_evidence r))]"

definition delta_dict :: "delta_row \<Rightarrow> json" where
  "delta_dict r =
     [(''id'', PStr (bd_id r)), (''metric'', opt_str (bd_metric r)), (''direction'', PStr (bd_direction r)),
      (''category'', PStr (bd_category r)), (''observed'', PBool (bd_observed r)),
      (''evidence_id'', opt_str (bd_evidence r))]"

definition certificate_traversal :: "platform \<Rightarrow> db \<Rightarrow> certificate_row \<Rightarrow> json" where
  "certificate_traversal p d c =
     [(''certificate'', PDict
        [(''id'', PStr (ct_id c)), (''certificate_key'', PStr (ct_key c)), (''status'', PStr (ct_status c)),
         (''owner_scope'', PStr (ct_owner_scope c)), (''evidence_hash'', opt_str (ct_evidence_hash c)),
         (''issued_at'', opt_str (map_option (isoformat p) (ct_issued c)))]),
      (''claim'', claim_dict d (ct_claim c)),
      (''deltas'', PList (map (\<lambda>r. PDict (delta_dict r)) (certificate_deltas d (ct_id c)))),
      (''evidence'', PList (map evidence_dict (traversal_evidence d c))),
      (''memory_updates'', PList (map memory_dict (certificate_memories d (ct_id c))))]"

section \<open>The canonical payload (integrity.py)\<close>

text \<open>The protected behaviors of the deltas, each behavior once, in the order of the deltas.\<close>

fun protected_behaviors :: "db \<Rightarrow> string list \<Rightarrow> delta_row list \<Rightarrow> behavior_row list" where
  "protected_behaviors d seen [] = []"
| "protected_behaviors d seen (r # rs) =
     (case bd_behavior r of
        None \<Rightarrow> protected_behaviors d seen rs
      | Some k \<Rightarrow>
          if k \<in> set seen then protected_behaviors d seen rs
          else (case get_behavior d k of
                  Some b \<Rightarrow> (if bh_protected b then [b] else [])
                | None \<Rightarrow> []) @ protected_behaviors d (seen @ [k]) rs)"

definition task_intents :: "db \<Rightarrow> string option \<Rightarrow> intent_row list" where
  "task_intents d t =
     (if t = None then [] else filter (\<lambda>r. ii_task r = t \<and> ii_authorized r) (intents d))"

definition task_patches :: "db \<Rightarrow> string option \<Rightarrow> patch_row list" where
  "task_patches d t =
     (case t of None \<Rightarrow> []
      | Some k \<Rightarrow> sort_key (\<lambda>r. (cp_index r, cp_created r)) (filter (\<lambda>r. cp_task r = k) (patches d)))"

definition certificate_change :: "db \<Rightarrow> certificate_row \<Rightarrow> change_row option" where
  "certificate_change d c =
     (case ct_task c of None \<Rightarrow> None | Some t \<Rightarrow>
        (case get_task d t of None \<Rightarrow> None | Some r \<Rightarrow>
           (case ts_change r of None \<Rightarrow> None | Some k \<Rightarrow> get_change d k)))"

definition change_dict :: "change_row option \<Rightarrow> pyval" where
  "change_dict x =
     (case x of None \<Rightarrow> PNone
      | Some r \<Rightarrow> PDict
          [(''id'', PStr (ch_id r)), (''external_id'', opt_str (ch_external_id r)),
           (''commit_sha'', opt_str (ch_commit_sha r)), (''title'', PStr (ch_title r)), (''status'', PStr (ch_status r))])"

definition intent_dict :: "intent_row \<Rightarrow> pyval" where
  "intent_dict r = PDict [(''id'', PStr (ii_id r)), (''statement'', PStr (ii_statement r)), (''kind'', PStr (ii_kind r))]"

definition behavior_dict :: "behavior_row \<Rightarrow> pyval" where
  "behavior_dict b = PDict
     [(''id'', PStr (bh_id b)), (''name'', PStr (bh_name b)), (''category'', opt_str (bh_category b)),
      (''signature'', opt_str (bh_signature b))]"

definition patch_dict :: "patch_row \<Rightarrow> pyval" where
  "patch_dict r = PDict
     [(''id'', PStr (cp_id r)), (''candidate_index'', PInt (cp_index r)), (''status'', PStr (cp_status r)),
      (''patch_ref'', opt_str (cp_patch_ref r)), (''summary'', opt_str (cp_summary r))]"

definition canonical_certificate_payload :: "platform \<Rightarrow> db \<Rightarrow> certificate_row \<Rightarrow> json" where
  "canonical_certificate_payload p d c =
     [(''certificate'', PDict
        [(''id'', PStr (ct_id c)), (''certificate_key'', PStr (ct_key c)), (''status'', PStr (ct_status c)),
         (''owner_scope'', PStr (ct_owner_scope c))]),
      (''claim'', claim_dict d (ct_claim c)),
      (''change'', change_dict (certificate_change d c)),
      (''deltas'', PList (map (\<lambda>r. PDict (delta_dict r @ [(''behavior_id'', opt_str (bd_behavior r))]))
         (certificate_deltas d (ct_id c)))),
      (''intent'', PList (map intent_dict (task_intents d (ct_task c)))),
      (''protected_behaviors'', PList (map behavior_dict (protected_behaviors d [] (certificate_deltas d (ct_id c))))),
      (''candidate_implementations'', PList (map patch_dict (task_patches d (ct_task c)))),
      (''evidence'', PList (map evidence_dict (traversal_evidence d c))),
      (''memory_updates'', PList (map memory_dict (certificate_memories d (ct_id c))))]"

definition compute_integrity_hash :: "platform \<Rightarrow> json \<Rightarrow> string" where
  "compute_integrity_hash p payload = sha256 p (dumps p (PDict payload))"

definition db_chunk_keys :: "string list" where
  "db_chunk_keys =
     [''claim'', ''change'', ''deltas'', ''intent'', ''protected_behaviors'', ''candidate_implementations'', ''evidence'']"

definition db_chunks_match :: "json \<Rightarrow> json \<Rightarrow> bool" where
  "db_chunks_match canonical stored \<longleftrightarrow>
     list_all (\<lambda>k. py_eq (get_key canonical k) (get_key stored k)) db_chunk_keys"

definition certificate_key_for :: "platform \<Rightarrow> string \<Rightarrow> string \<Rightarrow> string" where
  "certificate_key_for p t c = take 64 (digest p [''certificate'', t, c])"

definition derive_certificate_key :: "platform \<Rightarrow> certificate_row \<Rightarrow> string" where
  "derive_certificate_key p c =
     certificate_key_for p (case ct_task c of None \<Rightarrow> [] | Some t \<Rightarrow> t) (case ct_claim c of None \<Rightarrow> [] | Some k \<Rightarrow> k)"

fun evidence_ref_resolves :: "platform \<Rightarrow> db \<Rightarrow> pyval \<Rightarrow> bool" where
  "evidence_ref_resolves p d (PDict entry) =
     (case parse_uuid p (py_str (float_repr p) (get_key entry ''id'')) of
        None \<Rightarrow> False
      | Some u \<Rightarrow> (case get_evidence d u of
          None \<Rightarrow> False
        | Some r \<Rightarrow> get_key entry ''hash'' = PNone \<or> get_key entry ''hash'' = PStr (en_hash r)))"
| "evidence_ref_resolves p d v = False"

text \<open>\<open>None\<close> is the \<open>TypeError\<close> of an \<open>evidence\<close> entry that cannot be iterated.\<close>

definition resolve_evidence_refs :: "platform \<Rightarrow> db \<Rightarrow> json \<Rightarrow> bool option" where
  "resolve_evidence_refs p d payload =
     (let v = get_key payload ''evidence'' in
      if \<not> truthy v then Some True else map_option (list_all (evidence_ref_resolves p d)) (py_iter v))"

datatype integrity_error = NoCertificate | DetachedCertificate | NoPayload | EvidenceNotIterable

record integrity_details =
  id_key :: string
  id_hash_valid :: bool
  id_key_valid :: bool
  id_chunks_valid :: bool
  id_evidence_valid :: bool

definition all_valid :: "integrity_details \<Rightarrow> bool" where
  "all_valid x \<longleftrightarrow> id_hash_valid x \<and> id_key_valid x \<and> id_chunks_valid x \<and> id_evidence_valid x"

definition verify_certificate_integrity ::
    "platform \<Rightarrow> db \<Rightarrow> certificate_row option \<Rightarrow> integrity_error + integrity_details" where
  "verify_certificate_integrity p d certificate =
     (case certificate of None \<Rightarrow> Inl NoCertificate | Some c \<Rightarrow>
       (case get_certificate d (ct_id c) of None \<Rightarrow> Inl DetachedCertificate | Some row \<Rightarrow>
         if ct_payload row = [] then Inl NoPayload else
         (case resolve_evidence_refs p d (ct_payload row) of
            None \<Rightarrow> Inl EvidenceNotIterable
          | Some resolved \<Rightarrow> Inr
              \<lparr>id_key = ct_key row,
               id_hash_valid = (ct_evidence_hash row = Some (compute_integrity_hash p (ct_payload row))),
               id_key_valid = (ct_key row = derive_certificate_key p row),
               id_chunks_valid = db_chunks_match (canonical_certificate_payload p d row) (ct_payload row),
               id_evidence_valid = resolved\<rparr>)))"

section \<open>Building a certificate (certificate.py)\<close>

datatype build_error = TaskMissing | ClaimMissing | PatchMissing

record certificate_record =
  cr_certificate_id :: string
  cr_key :: string
  cr_status :: string
  cr_evidence_hash :: "string option"
  cr_issued :: "int option"

record certificate_bundle =
  bu_certificate :: certificate_record
  bu_binding :: json

definition bundle_of :: "certificate_row \<Rightarrow> certificate_bundle" where
  "bundle_of c =
     \<lparr>bu_certificate = \<lparr>cr_certificate_id = ct_id c, cr_key = ct_key c, cr_status = ct_status c,
        cr_evidence_hash = ct_evidence_hash c, cr_issued = ct_issued c\<rparr>, bu_binding = ct_payload c\<rparr>"

definition certificate_by_key :: "db \<Rightarrow> string \<Rightarrow> certificate_row option" where
  "certificate_by_key d k = find (\<lambda>r. ct_key r = k) (certificates d)"

text \<open>Every observed delta of the task is bound to the certificate.\<close>

definition bind_deltas :: "string \<Rightarrow> string \<Rightarrow> db \<Rightarrow> db" where
  "bind_deltas t c d =
     d\<lparr>deltas := map (\<lambda>r. if bd_task r = Some t \<and> bd_observed r then r\<lparr>bd_certificate := Some c\<rparr> else r) (deltas d)\<rparr>"

definition put_certificate :: "certificate_row \<Rightarrow> db \<Rightarrow> db" where
  "put_certificate c d = d\<lparr>certificates := map (\<lambda>r. if ct_id r = ct_id c then c else r) (certificates d)\<rparr>"

text \<open>The evidence that a certificate was bound.\<close>

definition binding_evidence ::
    "platform \<Rightarrow> string \<Rightarrow> task_row \<Rightarrow> change_row option \<Rightarrow> claim_row \<Rightarrow> bool \<Rightarrow> evidence_row list \<Rightarrow> int \<Rightarrow> db \<Rightarrow> db" where
  "binding_evidence p key task change claim certifiable rows t d =
     snd (record_evidence p (Some (digest p [''certificate-binding'', key]))
       (Some [(''certificate_key'', PStr key), (''status'', PStr (if certifiable then ''CERTIFIED'' else ''DRAFT'')),
              (''bound_evidence'', PList (map (\<lambda>r. PStr (en_id r)) rows))])
       \<lparr>en_id = [], en_task = Some (ts_id task), en_run = None, en_execution = None, en_claim = Some (cl_id claim),
        en_case = None, en_type = ''CERTIFICATE_BINDING'', en_occurred = Some t, en_source = Some ''certification'',
        en_provenance = Some (''certify://'' @ key @ '' <- change '' @
          (case change of None \<Rightarrow> ''n/a'' | Some c \<Rightarrow> ch_id c) @ '' + claim '' @ cl_id claim @ '' + delta''),
        en_artifact = Some (''artifacts/certificates/'' @ take 16 key @ ''/binding.json''),
        en_machine_result = [], en_hash = [], en_created = 0\<rparr> d)"

text \<open>\<open>issued_at or datetime.now(UTC)\<close>.\<close>

definition instant_or_now :: "int option \<Rightarrow> db \<Rightarrow> int \<times> db" where
  "instant_or_now x d = (case x of Some t \<Rightarrow> (t, d) | None \<Rightarrow> db_now d)"

text \<open>\<open>payload[k] = dict(v)\<close> when \<open>v\<close> is given and not empty.\<close>

definition with_extra :: "string \<Rightarrow> json option \<Rightarrow> json \<Rightarrow> json" where
  "with_extra k v j = (case v of None \<Rightarrow> j | Some x \<Rightarrow> if x = [] then j else AList.update k (PDict x) j)"

definition certificate_event :: "certificate_row \<Rightarrow> task_row \<Rightarrow> event_draft" where
  "certificate_event c task =
     \<lparr>dr_entity_type = ''Certificate'', dr_entity_id = ct_id c, dr_kind = CERTIFICATION, dr_task = ts_id task,
      dr_actor = ''certification'', dr_payload = [(''certificate_key'', PStr (ct_key c)),
        (''status'', PStr (ct_status c)), (''evidence_hash'', opt_str (ct_evidence_hash c))]\<rparr>"

definition fresh_certificate :: "string \<Rightarrow> string \<Rightarrow> task_row \<Rightarrow> claim_row \<Rightarrow> certificate_row" where
  "fresh_certificate u key task claim =
     \<lparr>ct_id = u, ct_task = Some (ts_id task), ct_project = Some (ts_project task), ct_claim = Some (cl_id claim),
      ct_key = key, ct_status = ''DRAFT'', ct_owner_scope = ''CERTIFICATION'', ct_evidence_hash = None,
      ct_payload = [], ct_issued = None\<rparr>"

definition build_certificate ::
    "platform \<Rightarrow> task_row option \<Rightarrow> change_row option \<Rightarrow> claim_row option \<Rightarrow> patch_row option \<Rightarrow> bool \<Rightarrow>
     evidence_row list \<Rightarrow> json option \<Rightarrow> json option \<Rightarrow> int option \<Rightarrow> db \<Rightarrow>
     (build_error + certificate_bundle) \<times> db" where
  "build_certificate p task change claim patch aligned rows environment dependency issued d =
     (case task of None \<Rightarrow> (Inl TaskMissing, d) | Some t \<Rightarrow>
      (case claim of None \<Rightarrow> (Inl ClaimMissing, d) | Some k \<Rightarrow>
       (case patch of None \<Rightarrow> (Inl PatchMissing, d) | Some _ \<Rightarrow>
        let certifiable = (aligned \<and> rows \<noteq> []); key = certificate_key_for p (ts_id t) (cl_id k) in
        (case certificate_by_key d key of
           Some old \<Rightarrow> (Inr (bundle_of old), d)
         | None \<Rightarrow>
            let (u, d1) = db_uuid d;
                draft = fresh_certificate u key t k;
                d2 = bind_deltas (ts_id t) u (d1\<lparr>certificates := certificates d1 @ [draft]\<rparr>);
                (t1, d3) = instant_or_now issued d2;
                d4 = binding_evidence p key t change k certifiable rows t1 d3;
                (t2, d5) = instant_or_now issued d4;
                cert = draft\<lparr>ct_status := if certifiable then ''CERTIFIED'' else ''DRAFT'', ct_issued := Some t2\<rparr>;
                d6 = put_certificate cert d5;
                payload = with_extra ''dependency_state'' dependency
                  (with_extra ''environment'' environment (canonical_certificate_payload p d6 cert));
                final = cert\<lparr>ct_payload := payload, ct_evidence_hash := Some (compute_integrity_hash p payload)\<rparr>;
                d7 = put_certificate final d6
            in (Inr (bundle_of final), record_task_event (certificate_event final t) d7)))))"

section \<open>What a verification reads\<close>

text \<open>The canonical payload depends on the bound tables and on the identity and status of the certificate.\<close>

lemma canonical_cong:
  assumes "claims d' = claims d" "tasks d' = tasks d" "changes d' = changes d" "deltas d' = deltas d"
    and "behaviors d' = behaviors d" "intents d' = intents d" "patches d' = patches d" "evidence d' = evidence d"
    and "memories d' = memories d"
    and "ct_id c' = ct_id c" "ct_key c' = ct_key c" "ct_status c' = ct_status c" "ct_owner_scope c' = ct_owner_scope c"
    and "ct_claim c' = ct_claim c" "ct_task c' = ct_task c"
  shows "canonical_certificate_payload p d' c' = canonical_certificate_payload p d c"
proof -
  have gets: "get_claim d' = get_claim d" "get_change d' = get_change d" "get_task d' = get_task d"
      "get_behavior d' = get_behavior d" "get_evidence d' = get_evidence d"
    by (simp_all add: fun_eq_iff get_claim_def get_change_def get_task_def get_behavior_def get_evidence_def assms)
  have lists: "certificate_deltas d' = certificate_deltas d" "certificate_memories d' = certificate_memories d"
      "task_intents d' = task_intents d" "task_patches d' = task_patches d" "linked_evidence d' = linked_evidence d"
      "claim_dict d' = claim_dict d" "claim_items d' = claim_items d"
    by (simp_all add: fun_eq_iff certificate_deltas_def certificate_memories_def task_intents_def task_patches_def
        linked_evidence_def claim_dict_def claim_items_def gets assms cong: option.case_cong if_cong)
  have "protected_behaviors d' seen rs = protected_behaviors d seen rs" for seen rs
    by (induction rs arbitrary: seen) (simp_all add: gets split: option.split)
  moreover have "certificate_change d' c' = certificate_change d c"
    by (simp add: certificate_change_def gets assms cong: option.case_cong)
  moreover have "traversal_evidence d' c' = traversal_evidence d c"
    by (simp add: traversal_evidence_def lists gets assms cong: option.case_cong)
  ultimately show ?thesis
    by (simp add: canonical_certificate_payload_def lists assms)
qed

text \<open>The chunks of a payload are not touched by the extra entries.\<close>

lemma get_key_extra: "k' \<noteq> k \<Longrightarrow> get_key (with_extra k v j) k' = get_key j k'"
  by (simp add: with_extra_def get_key_def split: option.split)

lemma evidence_key_canonical:
  "get_key (canonical_certificate_payload p d c) ''evidence'' = PList (map evidence_dict (traversal_evidence d c))"
  by (simp add: canonical_certificate_payload_def get_key_def)

lemma set_by_id: "set (by_id rs) \<subseteq> set rs"
proof -
  have "snd ` set (fold (\<lambda>r. AList.update (en_id r) r) rs al) \<subseteq> set rs \<union> snd ` set al" for al
  proof (induction rs arbitrary: al)
    case (Cons r rs)
    have "snd ` set (AList.update (en_id r) r al) \<subseteq> insert r (snd ` set al)"
      by (induction al) auto
    with Cons [of "AList.update (en_id r) r al"] show ?case by auto
  qed simp
  from this [of "[]"] show ?thesis by (simp add: by_id_def)
qed

lemma set_traversal_evidence: "set (traversal_evidence d c) \<subseteq> set (evidence d)"
proof -
  have "set (linked_evidence d k) \<subseteq> set (evidence d)" for k
    by (auto simp: linked_evidence_def get_evidence_def split: option.splits dest: find_keyed find_keyed [OF sym])
  then show ?thesis
    using set_by_id by (fastforce simp: traversal_evidence_def ordered_evidence_def claim_items_def split: option.splits if_splits)
qed

text \<open>Stored evidence: keys are distinct canonical identifiers, results have no key twice.\<close>

definition wf_evidence :: "platform \<Rightarrow> evidence_row list \<Rightarrow> bool" where
  "wf_evidence p rs \<longleftrightarrow>
     distinct (map en_id rs) \<and>
     list_all (\<lambda>r. parse_uuid p (en_id r) = Some (en_id r) \<and> json_wf (PDict (en_machine_result r))) rs"

lemma find_distinct: "distinct (map f xs) \<Longrightarrow> x \<in> set xs \<Longrightarrow> find (\<lambda>y. f y = f x) xs = Some x"
  by (induction xs) (auto intro: rev_image_eqI)

lemma resolves_traversal:
  assumes "wf_evidence p (evidence d)" and "get_key payload ''evidence'' = PList (map evidence_dict (traversal_evidence d c))"
  shows "resolve_evidence_refs p d payload = Some True"
proof -
  have "evidence_ref_resolves p d (evidence_dict r)" if "r \<in> set (traversal_evidence d c)" for r
  proof -
    have r: "r \<in> set (evidence d)" using that set_traversal_evidence by blast
    then have "get_evidence d (en_id r) = Some r"
      using assms(1) by (simp add: get_evidence_def wf_evidence_def find_distinct)
    moreover have "parse_uuid p (en_id r) = Some (en_id r)"
      using assms(1) r by (simp add: wf_evidence_def list_all_iff)
    ultimately show ?thesis by (simp add: evidence_dict_def get_key_def)
  qed
  then show ?thesis by (simp add: resolve_evidence_refs_def assms(2) list_all_iff)
qed

text \<open>Every chunk the verification compares is a value that equals itself.\<close>

lemma json_wf_opt_str [simp]: "json_wf (opt_str x)"
  by (simp add: opt_str_def split: option.split)

lemma json_wf_canonical:
  assumes "wf_evidence p (evidence d)" "k \<in> set db_chunk_keys"
  shows "json_wf (get_key (canonical_certificate_payload p d c) k)"
proof -
  have "json_wf (evidence_dict r)" if "r \<in> set (traversal_evidence d c)" for r
    using that set_traversal_evidence assms(1) by (fastforce simp: evidence_dict_def wf_evidence_def list_all_iff)
  with assms(2) show ?thesis
    by (auto simp: db_chunk_keys_def get_key_def canonical_certificate_payload_def list_all_iff claim_dict_def
        change_dict_def delta_dict_def intent_dict_def behavior_dict_def patch_dict_def split: option.split)
qed

section \<open>A certificate just built\<close>

lemma insert_evidence_rows:
  "(\<exists>t. snd (insert_evidence r d) =
     d\<lparr>host := snd (now (snd (uuid4 (host d)))), evidence := evidence d @ [r\<lparr>en_id := fst (db_uuid d), en_created := t\<rparr>]\<rparr>)
   \<or> snd (insert_evidence r d) = d"
  by (auto simp: insert_evidence_def case_prod_unfold Let_def split: option.split)

text \<open>The identifiers the host hands out from now on are new to the tables they go to.\<close>

definition fresh_ids :: "platform \<Rightarrow> db \<Rightarrow> bool" where
  "fresh_ids p d \<longleftrightarrow>
     (\<forall>n. uuids (host d) \<le> n \<longrightarrow>
        uuid_at (host d) n \<notin> ct_id ` set (certificates d) \<and> uuid_at (host d) n \<notin> en_id ` set (evidence d) \<and>
        parse_uuid p (uuid_at (host d) n) = Some (uuid_at (host d) n))"

lemma fresh_ids_uuid:
  assumes "fresh_ids p d"
  shows "fst (db_uuid d) \<notin> ct_id ` set (certificates d)"
    and "fst (db_uuid d) \<notin> en_id ` set (evidence d)"
    and "parse_uuid p (fst (db_uuid d)) = Some (fst (db_uuid d))"
    and "fresh_ids p (snd (db_uuid d))"
  using assms by (simp_all add: fresh_ids_def db_uuid_def uuid4_def)

lemma fresh_ids_cong:
  "fresh_ids p d \<Longrightarrow> uuids (host d') = uuids (host d) \<Longrightarrow> uuid_at (host d') = uuid_at (host d) \<Longrightarrow>
   evidence d' = evidence d \<Longrightarrow> certificates d' = certificates d \<Longrightarrow> fresh_ids p d'"
  by (simp add: fresh_ids_def)

lemma insert_evidence_wf:
  assumes "wf_evidence p (evidence d)" and "fst (db_uuid d) \<notin> en_id ` set (evidence d)"
    and "parse_uuid p (fst (db_uuid d)) = Some (fst (db_uuid d))" and "json_wf (PDict (en_machine_result r))"
  shows "wf_evidence p (evidence (snd (insert_evidence r d)))"
  using insert_evidence_rows [of r d] assms by (auto simp: wf_evidence_def)

lemma instant_or_now_fields: "\<exists>w. snd (instant_or_now x d) = d\<lparr>host := w\<rparr> \<and> uuids w = uuids (host d) \<and> uuid_at w = uuid_at (host d)"
  by (cases x) (auto simp: instant_or_now_def now_def intro: exI [of _ "host d"])

lemma binding_evidence_effect:
  assumes "wf_evidence p (evidence d)" and "fst (db_uuid d) \<notin> en_id ` set (evidence d)"
    and "parse_uuid p (fst (db_uuid d)) = Some (fst (db_uuid d))"
  obtains w es where "binding_evidence p key task change claim c rows t d = d\<lparr>host := w, evidence := es\<rparr>" "wf_evidence p es"
proof -
  have "\<exists>r. binding_evidence p key task change claim c rows t d = snd (insert_evidence r d) \<and>
      json_wf (PDict (en_machine_result r))"
    unfolding binding_evidence_def record_evidence_def Let_def
    by (intro exI conjI, rule refl) (simp add: list_all_iff)
  then obtain r where b: "binding_evidence p key task change claim c rows t d = snd (insert_evidence r d)"
      and "json_wf (PDict (en_machine_result r))" by blast
  then have wf: "wf_evidence p (evidence (snd (insert_evidence r d)))"
    using assms insert_evidence_wf by blast
  have "\<exists>w es. snd (insert_evidence r d) = d\<lparr>host := w, evidence := es\<rparr>"
    using insert_evidence_rows [of r d] by (metis db.surjective db.update_convs(1,13))
  with b wf that show thesis by fastforce
qed

lemma put_last:
  assumes "ct_id c = u" "u \<notin> ct_id ` set cs" "certificates d = cs @ [c']" "ct_id c' = u"
  shows "certificates (put_certificate c d) = cs @ [c]"
proof -
  have "map (\<lambda>r. if ct_id r = u then c else r) cs = cs"
    by (rule map_idI) (use assms(2) in force)
  with assms show ?thesis by (simp add: put_certificate_def)
qed

lemma add_event_fields:
  "\<exists>w es. add_event e d = d\<lparr>host := w, events := es\<rparr>"
  by (auto simp: add_event_def case_prod_unfold Let_def)

lemma record_task_event_fields:
  "\<exists>w es. record_task_event f d = d\<lparr>host := w, events := es\<rparr>"
proof -
  obtain e where "record_task_event f d = add_event e (snd (db_now d))"
    by (simp add: record_task_event_def case_prod_unfold Let_def)
  with add_event_fields [of e "snd (db_now d)"] show ?thesis by auto
qed

lemma built_certificate:
  assumes "certificate_by_key d (certificate_key_for p (ts_id t) (cl_id k)) = None"
    and "fresh_ids p d" and "wf_evidence p (evidence d)"
  obtains c D where
    "build_certificate p (Some t) ch (Some k) (Some cp) aligned rows env dep issued d = (Inr (bundle_of c), D)"
    "certificates D = certificates d @ [c]" "ct_id c \<notin> ct_id ` set (certificates d)" "wf_evidence p (evidence D)"
    "ct_payload c = with_extra ''dependency_state'' dep (with_extra ''environment'' env (canonical_certificate_payload p D c))"
    "ct_evidence_hash c = Some (compute_integrity_hash p (ct_payload c))"
    "ct_key c = certificate_key_for p (ts_id t) (cl_id k)" "ct_task c = Some (ts_id t)" "ct_claim c = Some (cl_id k)"
    "ct_status c = (if aligned \<and> rows \<noteq> [] then ''CERTIFIED'' else ''DRAFT'')"
    "tasks D = tasks d" "changes D = changes d" "patches D = patches d"
proof -
  define key where "key = certificate_key_for p (ts_id t) (cl_id k)"
  define certifiable where "certifiable \<longleftrightarrow> aligned \<and> rows \<noteq> []"
  define u where "u = fst (db_uuid d)"
  define d1 where "d1 = snd (db_uuid d)"
  define draft where "draft = fresh_certificate u key t k"
  define d2 where "d2 = bind_deltas (ts_id t) u (d1\<lparr>certificates := certificates d1 @ [draft]\<rparr>)"
  define t1 where "t1 = fst (instant_or_now issued d2)"
  define d3 where "d3 = snd (instant_or_now issued d2)"
  define d4 where "d4 = binding_evidence p key t ch k certifiable rows t1 d3"
  define t2 where "t2 = fst (instant_or_now issued d4)"
  define d5 where "d5 = snd (instant_or_now issued d4)"
  define cert where "cert = draft\<lparr>ct_status := if certifiable then ''CERTIFIED'' else ''DRAFT'', ct_issued := Some t2\<rparr>"
  define d6 where "d6 = put_certificate cert d5"
  define payload where "payload = with_extra ''dependency_state'' dep
    (with_extra ''environment'' env (canonical_certificate_payload p d6 cert))"
  define final where "final = cert\<lparr>ct_payload := payload, ct_evidence_hash := Some (compute_integrity_hash p payload)\<rparr>"
  define d7 where "d7 = put_certificate final d6"
  define D where "D = record_task_event (certificate_event final t) d7"
  note names = key_def certifiable_def u_def d1_def draft_def d2_def t1_def d3_def d4_def t2_def d5_def cert_def
    d6_def payload_def final_def d7_def D_def
  have run: "build_certificate p (Some t) ch (Some k) (Some cp) aligned rows env dep issued d = (Inr (bundle_of final), D)"
    using assms(1) by (simp add: build_certificate_def Let_def case_prod_unfold del: db_uuid_fields split del: if_split flip: names)
  note fresh = fresh_ids_uuid [OF assms(2), folded u_def d1_def]
  have d1: "certificates d1 = certificates d" "evidence d1 = evidence d" by (simp_all add: d1_def)
  note fresh1 = fresh_ids_uuid [OF fresh(4)]
  obtain w3 where d3: "d3 = d2\<lparr>host := w3\<rparr>" "uuids w3 = uuids (host d1)" "uuid_at w3 = uuid_at (host d1)"
    using instant_or_now_fields [of issued d2] by (auto simp: d3_def d2_def bind_deltas_def)
  have ev3: "evidence d3 = evidence d" by (simp add: d3 d2_def bind_deltas_def d1)
  have u3: "fst (db_uuid d3) = fst (db_uuid d1)" by (simp add: db_uuid_def uuid4_def d3)
  obtain w4 es where d4: "d4 = d3\<lparr>host := w4, evidence := es\<rparr>" and es: "wf_evidence p es"
    using binding_evidence_effect [of p d3 key t ch k certifiable rows t1] assms(3) fresh1(2,3)
    by (metis d4_def ev3 u3 d1(2))
  obtain w5 where d5: "d5 = d4\<lparr>host := w5\<rparr>"
    using instant_or_now_fields [of issued d4] by (auto simp: d5_def)
  have "certificates d5 = certificates d @ [draft]" by (simp add: d5 d4 d3 d2_def bind_deltas_def d1)
  then have c6: "certificates d6 = certificates d @ [cert]"
    unfolding d6_def using fresh(1) by (intro put_last) (simp_all add: cert_def draft_def fresh_certificate_def)
  then have c7: "certificates d7 = certificates d @ [final]"
    unfolding d7_def using fresh(1)
    by (intro put_last) (simp_all add: final_def cert_def draft_def fresh_certificate_def)
  obtain w es' where D: "D = d7\<lparr>host := w, events := es'\<rparr>"
    using record_task_event_fields by (metis D_def)
  have same: "canonical_certificate_payload p D final = canonical_certificate_payload p d6 cert"
    by (rule canonical_cong) (simp_all add: D d7_def put_certificate_def final_def)
  show thesis
  proof (rule that [OF run])
    show "certificates D = certificates d @ [final]" by (simp add: D c7)
    show "wf_evidence p (evidence D)" using es by (simp add: D d7_def put_certificate_def d6_def d5 d4)
    show "ct_payload final = with_extra ''dependency_state'' dep
        (with_extra ''environment'' env (canonical_certificate_payload p D final))"
      unfolding same by (simp add: final_def payload_def)
    show "tasks D = tasks d" "changes D = changes d" "patches D = patches d"
      by (simp_all add: D d7_def put_certificate_def d6_def d5 d4 d3 d2_def bind_deltas_def d1_def)
  qed (use fresh(1) in \<open>simp_all add: final_def cert_def draft_def fresh_certificate_def key_def certifiable_def\<close>)
qed

text \<open>The row appended last is found by its key.\<close>

lemma find_appended: "P x \<Longrightarrow> \<forall>y \<in> set xs. \<not> P y \<Longrightarrow> find P (xs @ [x]) = Some x"
  by (induction xs) auto

lemma with_extra_not_Nil: "j \<noteq> [] \<Longrightarrow> with_extra k v j \<noteq> []"
  by (cases j) (auto simp: with_extra_def split: option.split)

lemma intact_certificate:
  assumes "get_certificate D (ct_id c) = Some c" "wf_evidence p (evidence D)"
    and "ct_payload c = with_extra ''dependency_state'' dep (with_extra ''environment'' env (canonical_certificate_payload p D c))"
    and "ct_evidence_hash c = Some (compute_integrity_hash p (ct_payload c))" "ct_key c = derive_certificate_key p c"
  shows "\<exists>x. verify_certificate_integrity p D (Some c) = Inr x \<and> all_valid x"
proof -
  have keys: "get_key (ct_payload c) k = get_key (canonical_certificate_payload p D c) k" if "k \<in> set db_chunk_keys" for k
    using that by (auto simp: assms(3) get_key_extra db_chunk_keys_def)
  then have "db_chunks_match (canonical_certificate_payload p D c) (ct_payload c)"
    using json_wf_canonical [OF assms(2)] by (simp add: db_chunks_match_def list_all_iff py_eq_refl)
  moreover have "resolve_evidence_refs p D (ct_payload c) = Some True"
    using keys [of "''evidence''"] assms(2)
    by (intro resolves_traversal [where c = c]) (simp_all add: evidence_key_canonical db_chunk_keys_def)
  moreover have "ct_payload c \<noteq> []"
    unfolding assms(3) by (intro with_extra_not_Nil) (simp add: canonical_certificate_payload_def)
  ultimately show ?thesis
    using assms(1,4,5) by (simp add: verify_certificate_integrity_def all_valid_def)
qed

section \<open>A small database\<close>

definition demo_task :: "string \<Rightarrow> string \<Rightarrow> task_row" where
  "demo_task t c = \<lparr>ts_id = t, ts_project = ''pr'', ts_repository = Some ''re'', ts_change = Some c, ts_status = ''VERIFYING''\<rparr>"

definition demo_change :: "string \<Rightarrow> change_row" where
  "demo_change c = \<lparr>ch_id = c, ch_external_id = None, ch_commit_sha = None, ch_title = ''title'', ch_status = ''OPEN''\<rparr>"

definition demo_patch :: "string \<Rightarrow> string \<Rightarrow> string \<Rightarrow> patch_row" where
  "demo_patch k t c =
     \<lparr>cp_id = k, cp_change = c, cp_task = t, cp_index = 1, cp_status = ''VERIFIED'', cp_patch_ref = None,
      cp_summary = None, cp_created = 0\<rparr>"

definition demo_claim :: claim_row where
  "demo_claim = \<lparr>cl_id = ''k'', cl_task = Some ''t'', cl_statement = ''holds'', cl_status = ''OPEN'', cl_created = 0\<rparr>"

definition demo_evidence :: evidence_row where
  "demo_evidence =
     \<lparr>en_id = ''ev'', en_task = Some ''t'', en_run = None, en_execution = None, en_claim = Some ''k'', en_case = None,
      en_type = ''TEST_RESULT'', en_occurred = None, en_source = None, en_provenance = Some ''pytest'',
      en_artifact = None, en_machine_result = [(''exit_code'', PInt 0)], en_hash = ''h-ev'', en_created = 0\<rparr>"

definition demo_db :: db where
  "demo_db = (empty_db demo_host)
     \<lparr>tasks := [demo_task ''t'' ''c'', demo_task ''t2'' ''c2''], changes := [demo_change ''c'', demo_change ''c2''],
      claims := [demo_claim], patches := [demo_patch ''p'' ''t'' ''c'', demo_patch ''p2'' ''t2'' ''c2''],
      evidence := [demo_evidence]\<rparr>"

lemma demo_db_ready:
  "certificate_by_key demo_db key = None" "fresh_ids demo_platform demo_db" "wf_evidence demo_platform (evidence demo_db)"
proof -
  have "digits n \<noteq> ''ev''" for n
    using digit_no [of "CHR ''e''" n] by (auto dest: sym)
  then show "fresh_ids demo_platform demo_db"
    by (auto simp: fresh_ids_def demo_db_def empty_db_def demo_host_def demo_platform_def demo_evidence_def)
qed (simp_all add: demo_db_def empty_db_def certificate_by_key_def wf_evidence_def demo_platform_def demo_evidence_def)

section \<open>Properties\<close>

text \<open>
  C6. A certificate just built verifies: for a task and a claim that have no certificate,
  \<open>build_certificate\<close> returns a certificate that is CERTIFIED exactly when the alignment holds and there is
  verification evidence, and verifying it right after finds hash, key, bound rows and evidence valid,
  whatever environment and dependency state it carries.
\<close>
theorem built_certificate_verifies:
  assumes "certificate_by_key d (certificate_key_for p (ts_id t) (cl_id k)) = None"
    and "fresh_ids p d" and "wf_evidence p (evidence d)"
  shows "\<exists>c D x. build_certificate p (Some t) ch (Some k) (Some cp) aligned rows env dep issued d = (Inr (bundle_of c), D) \<and>
    (ct_status c = ''CERTIFIED'' \<longleftrightarrow> aligned \<and> rows \<noteq> []) \<and>
    verify_certificate_integrity p D (Some c) = Inr x \<and> all_valid x"
proof -
  obtain c D where b: "build_certificate p (Some t) ch (Some k) (Some cp) aligned rows env dep issued d = (Inr (bundle_of c), D)"
      and c: "certificates D = certificates d @ [c]" "ct_id c \<notin> ct_id ` set (certificates d)" "wf_evidence p (evidence D)"
        "ct_payload c = with_extra ''dependency_state'' dep (with_extra ''environment'' env (canonical_certificate_payload p D c))"
        "ct_evidence_hash c = Some (compute_integrity_hash p (ct_payload c))"
        "ct_key c = certificate_key_for p (ts_id t) (cl_id k)" "ct_task c = Some (ts_id t)" "ct_claim c = Some (cl_id k)"
        "ct_status c = (if aligned \<and> rows \<noteq> [] then ''CERTIFIED'' else ''DRAFT'')"
    by (rule built_certificate [OF assms]) blast
  have "get_certificate D (ct_id c) = Some c"
    unfolding get_certificate_def c(1) by (rule find_appended) (use c(2) in \<open>auto simp: image_iff\<close>)
  moreover have "ct_key c = derive_certificate_key p c"
    using c(6-8) by (simp add: derive_certificate_key_def)
  ultimately have "\<exists>x. verify_certificate_integrity p D (Some c) = Inr x \<and> all_valid x"
    by (intro intact_certificate [OF _ c(3-5)])
  moreover have "ct_status c = ''CERTIFIED'' \<longleftrightarrow> aligned \<and> rows \<noteq> []" by (simp add: c(9))
  ultimately show ?thesis using b by blast
qed

text \<open>
  A certificate drafted too early stays a draft: once \<open>build_certificate\<close> has run without an aligned
  verdict or without evidence, running it again for the same task and claim, now with both, returns the
  DRAFT certificate and changes nothing.
\<close>
theorem draft_is_permanent:
  assumes "certificate_by_key d (certificate_key_for p (ts_id t) (cl_id k)) = None"
    and "fresh_ids p d" and "wf_evidence p (evidence d)" and "\<not> aligned \<or> rows = []"
  shows "\<exists>b D. build_certificate p (Some t) ch (Some k) (Some cp) aligned rows env dep issued d = (Inr b, D) \<and>
    cr_status (bu_certificate b) = ''DRAFT'' \<and>
    build_certificate p (Some t) ch' (Some k) (Some cp') True (e # es) env' dep' issued' D = (Inr b, D)"
proof -
  obtain c D where b: "build_certificate p (Some t) ch (Some k) (Some cp) aligned rows env dep issued d = (Inr (bundle_of c), D)"
      and c: "certificates D = certificates d @ [c]" "ct_key c = certificate_key_for p (ts_id t) (cl_id k)"
        "ct_status c = (if aligned \<and> rows \<noteq> [] then ''CERTIFIED'' else ''DRAFT'')"
    by (rule built_certificate [OF assms(1-3)]) blast
  have "certificate_by_key D (certificate_key_for p (ts_id t) (cl_id k)) = Some c"
    unfolding certificate_by_key_def c(1)
    by (rule find_appended) (use c(2) assms(1) in \<open>auto simp: certificate_by_key_def find_None_iff\<close>)
  with b c(3) assms(4) show ?thesis
    by (auto simp: build_certificate_def Let_def bundle_of_def)
qed

section \<open>Witnesses\<close>

theorem built_certificate_verifies_witness:
  "\<exists>c D x. build_certificate demo_platform (Some (demo_task ''t'' ''c'')) None (Some demo_claim)
       (Some (demo_patch ''p'' ''t'' ''c'')) True [demo_evidence] None None (Some 7) demo_db = (Inr (bundle_of c), D) \<and>
     ct_status c = ''CERTIFIED'' \<and> verify_certificate_integrity demo_platform D (Some c) = Inr x \<and> all_valid x"
  using built_certificate_verifies [OF demo_db_ready, where t = "demo_task ''t'' ''c''" and k = demo_claim and ch = None
      and cp = "demo_patch ''p'' ''t'' ''c''" and aligned = True and rows = "[demo_evidence]" and env = None and dep = None
      and issued = "Some 7"]
  by auto

theorem draft_is_permanent_witness:
  "\<exists>b D. build_certificate demo_platform (Some (demo_task ''t'' ''c'')) None (Some demo_claim)
       (Some (demo_patch ''p'' ''t'' ''c'')) False [] None None None demo_db = (Inr b, D) \<and>
     cr_status (bu_certificate b) = ''DRAFT'' \<and>
     build_certificate demo_platform (Some (demo_task ''t'' ''c'')) None (Some demo_claim)
       (Some (demo_patch ''p'' ''t'' ''c'')) True [demo_evidence] None None None D = (Inr b, D)"
  by (rule draft_is_permanent [OF demo_db_ready]) simp

end
