(* ===== verification/Merge_Gate.thy ===== *)
theory Merge_Gate
  imports Certificates
begin

text \<open>
  \<open>certification/alignment.py\<close> (the final intent alignment), \<open>certification/reverify.py\<close> (the independent
  re-verification of a candidate patch) and \<open>certification/merge_gate.py\<close> (the merge authorization). The
  lemmas show when each of the three passes and what it writes; the last ones what the gate does not check.
\<close>

section \<open>Final intent alignment (alignment.py)\<close>

definition SECURITY_CATEGORIES :: "string list" where
  "SECURITY_CATEGORIES = [''SECURITY'', ''AUTHORIZATION'', ''AUTH'', ''IDENTITY'', ''PRIVACY'', ''INTEGRITY'']"

definition SECURITY_TOKENS :: "string list" where
  "SECURITY_TOKENS =
     [''token'', ''auth'', ''tenant'', ''permission'', ''password'', ''secret'', ''signing'', ''signature'',
      ''rotation'', ''forged'', ''refresh'', ''session'', ''credential'']"

record alignment_verdict =
  av_aligned :: bool
  av_status :: string
  av_unexplained :: nat
  av_critical :: nat
  av_protected :: "string list"
  av_reasons :: "string list"

definition spaced :: "string \<Rightarrow> string" where
  "spaced s = map (\<lambda>c. if c = CHR ''_'' \<or> c = CHR ''-'' then CHR '' '' else c) s"

definition metric_tokens :: "string option \<Rightarrow> string list" where
  "metric_tokens m =
     (case m of None \<Rightarrow> []
      | Some s \<Rightarrow> map lower (filter (\<lambda>w. 3 \<le> length w) (words_from [] (spaced s))))"

definition is_security_relevant :: "delta_row \<Rightarrow> bool \<Rightarrow> bool" where
  "is_security_relevant r behavior_protected \<longleftrightarrow>
     upper (bd_category r) \<in> set SECURITY_CATEGORIES \<or> behavior_protected \<or>
     list_ex (\<lambda>w. w \<in> set SECURITY_TOKENS) (metric_tokens (bd_metric r))"

definition metric_lower :: "delta_row \<Rightarrow> string" where
  "metric_lower r = lower (case bd_metric r of None \<Rightarrow> [] | Some m \<Rightarrow> m)"

definition explained_by :: "string \<Rightarrow> string \<Rightarrow> bool" where
  "explained_by metric statement \<longleftrightarrow>
     metric \<noteq> [] \<and>
     (3 \<le> length metric \<and> contains metric (lower statement) \<or>
      list_ex (\<lambda>w. 3 \<le> length w \<and> contains w (lower statement)) (words_from [] (spaced metric)))"

definition delta_explained_by_intent :: "delta_row \<Rightarrow> string list \<Rightarrow> bool" where
  "delta_explained_by_intent r statements \<longleftrightarrow> list_ex (explained_by (metric_lower r)) statements"

definition is_protected_delta :: "db \<Rightarrow> delta_row \<Rightarrow> bool" where
  "is_protected_delta d r \<longleftrightarrow>
     (case bd_behavior r of None \<Rightarrow> False | Some k \<Rightarrow>
        (case get_behavior d k of None \<Rightarrow> False | Some b \<Rightarrow> bh_protected b))"

definition metric_repr :: "delta_row \<Rightarrow> string" where
  "metric_repr r = (case bd_metric r of None \<Rightarrow> ''None'' | Some m \<Rightarrow> repr_str m)"

definition delta_reasons :: "db \<Rightarrow> string list \<Rightarrow> delta_row \<Rightarrow> string list" where
  "delta_reasons d statements r =
     (let head = ''delta '' @ bd_id r @ '' metric='' @ metric_repr r;
          covered = delta_explained_by_intent r statements
      in (if covered then [] else [head @ '' not covered by any authorized intent''])
         @ (if \<not> covered \<and> is_security_relevant r (is_protected_delta d r)
            then [head @ '' is security-critical and unauthorized''] else []))"

definition task_deltas :: "db \<Rightarrow> string \<Rightarrow> delta_row list" where
  "task_deltas d t = filter (\<lambda>r. bd_task r = Some t \<and> bd_observed r) (deltas d)"

definition evaluate_alignment ::
    "db \<Rightarrow> task_row option \<Rightarrow> delta_row list option \<Rightarrow> intent_row list option \<Rightarrow> alignment_verdict" where
  "evaluate_alignment d task given_deltas given_items =
     (case task of
        None \<Rightarrow> \<lparr>av_aligned = False, av_status = ''NON_CERTIFIABLE'', av_unexplained = 0, av_critical = 0,
                  av_protected = [], av_reasons = [''task is None; alignment cannot be evaluated'']\<rparr>
      | Some t \<Rightarrow>
          let rows = (case given_deltas of None \<Rightarrow> task_deltas d (ts_id t) | Some rs \<Rightarrow> filter bd_observed rs);
              items = (case given_items of None \<Rightarrow> task_intents d (Some (ts_id t)) | Some is \<Rightarrow> filter ii_authorized is);
              statements = filter (\<lambda>s. s \<noteq> []) (map ii_statement items);
              uncovered = filter (\<lambda>r. \<not> delta_explained_by_intent r statements) rows;
              critical = filter (\<lambda>r. is_security_relevant r (is_protected_delta d r)) uncovered;
              aligned = (uncovered = [] \<and> critical = [])
          in \<lparr>av_aligned = aligned, av_status = (if aligned then ''CERTIFIABLE'' else ''NON_CERTIFIABLE''),
              av_unexplained = length uncovered, av_critical = length critical,
              av_protected = map (\<lambda>r. case bd_behavior r of None \<Rightarrow> [] | Some k \<Rightarrow> k) (filter (is_protected_delta d) rows),
              av_reasons = concat (map (delta_reasons d statements) rows)
                @ (if list_ex (\<lambda>a. ia_task a = Some (ts_id t) \<and> ia_status a = ''ALIGNED'') (alignments d)
                   then [''existing ALIGNED intent alignment found for this task''] else [])\<rparr>)"

section \<open>Independent re-verification (reverify.py)\<close>

record reverification_result =
  rv_evidence_id :: string
  rv_exit_code :: pyval
  rv_passed :: bool
  rv_eligible :: bool
  rv_detail :: string

record reverification_report =
  rt_patch_id :: string
  rt_before :: string
  rt_after :: string
  rt_passed :: bool
  rt_blocked_reason :: "string option"
  rt_results :: "reverification_result list"
  rt_evidence_ids :: "string list"

datatype reverify_error = NoPatch | NoReader

text \<open>
  The evidence reader is a port. \<open>None\<close> is a reader that returned nothing or raised \<open>TypeError\<close> on each
  of the three ways the code calls it.
\<close>

type_synonym reader = "patch_row \<Rightarrow> db \<Rightarrow> evidence_row list option"

definition invoke_reader :: "reader \<Rightarrow> patch_row \<Rightarrow> db \<Rightarrow> evidence_row list" where
  "invoke_reader reader patch d = (case reader patch d of None \<Rightarrow> [] | Some rs \<Rightarrow> rs)"

definition check_evidence :: "platform \<Rightarrow> evidence_row \<Rightarrow> reverification_result" where
  "check_evidence p r =
     (let code = get_key (en_machine_result r) ''exit_code'' in
      if code = PNone then
        \<lparr>rv_evidence_id = en_id r, rv_exit_code = PNone, rv_passed = False, rv_eligible = False,
         rv_detail = ''evidence '' @ en_id r @ '': no exit_code in machine_result (ineligible)''\<rparr>
      else
        \<lparr>rv_evidence_id = en_id r, rv_exit_code = code, rv_passed = py_eq code (PInt 0), rv_eligible = True,
         rv_detail = ''evidence '' @ en_id r @ '': exit_code='' @ py_str (float_repr p) code\<rparr>)"

definition reverify_draft :: "patch_row \<Rightarrow> string \<Rightarrow> json \<Rightarrow> event_draft" where
  "reverify_draft cp t payload =
     \<lparr>dr_entity_type = ''CandidatePatch'', dr_entity_id = cp_id cp, dr_kind = REVERIFICATION, dr_task = t,
      dr_actor = ''re-verification'', dr_payload = payload\<rparr>"

text \<open>The event is recorded when the patch has a task.\<close>

definition record_reverify :: "patch_row \<Rightarrow> json \<Rightarrow> db \<Rightarrow> db" where
  "record_reverify cp payload d =
     (case get_task d (cp_task cp) of
        None \<Rightarrow> d
      | Some t \<Rightarrow> record_task_event (reverify_draft cp (ts_id t) payload) d)"

definition set_patch_status :: "string \<Rightarrow> string \<Rightarrow> db \<Rightarrow> db" where
  "set_patch_status k s d = d\<lparr>patches := map (\<lambda>r. if cp_id r = k then r\<lparr>cp_status := s\<rparr> else r) (patches d)\<rparr>"

definition run_reverification ::
    "platform \<Rightarrow> patch_row option \<Rightarrow> reader option \<Rightarrow> db \<Rightarrow> (reverify_error + reverification_report) \<times> db" where
  "run_reverification p patch reader d =
     (case patch of None \<Rightarrow> (Inl NoPatch, d) | Some cp \<Rightarrow>
      (case reader of None \<Rightarrow> (Inl NoReader, d) | Some rd \<Rightarrow>
        let rows = invoke_reader rd cp d; previous = cp_status cp in
        if rows = [] then
          (Inr \<lparr>rt_patch_id = cp_id cp, rt_before = previous, rt_after = previous, rt_passed = False,
             rt_blocked_reason = Some (''re-verification blocked: evidence_reader returned no evidence rows '' @
               ''(verification modules not landed or no eligible evidence produced)''),
             rt_results = [], rt_evidence_ids = []\<rparr>,
           record_reverify cp [(''before_status'', PStr previous), (''after_status'', PStr previous),
             (''passed'', PBool False), (''blocked'', PBool True)] d)
        else
          let results = map (check_evidence p) rows;
              eligible = filter rv_eligible results;
              passed = (eligible \<noteq> [] \<and> list_all rv_passed eligible);
              following = (if passed then ''VERIFIED''
                else if list_ex (\<lambda>r. \<not> rv_passed r) eligible then ''FAILED'' else previous)
          in (Inr \<lparr>rt_patch_id = cp_id cp, rt_before = previous, rt_after = following, rt_passed = passed,
                rt_blocked_reason = None, rt_results = results, rt_evidence_ids = map en_id rows\<rparr>,
              record_reverify cp [(''before_status'', PStr previous), (''after_status'', PStr following),
                (''passed'', PBool passed), (''eligible_count'', PInt (int (length eligible))),
                (''total_count'', PInt (int (length results)))]
                (set_patch_status (cp_id cp) following d))))"

section \<open>The merge gate (merge_gate.py)\<close>

record gate_verdict =
  gv_allowed :: bool
  gv_reason :: string
  gv_checks :: "(string \<times> bool) list"

datatype gate_error = PatchNotLinked

definition GATE_CHECKS :: "string list" where
  "GATE_CHECKS =
     [''certificate_certified'', ''alignment_certifiable'', ''candidate_verified'', ''integrity_intact'',
      ''protected_authorized'']"

text \<open>\<open>None\<close>: each of the three calls raised \<open>TypeError\<close>; any other exception counts as tampered.\<close>

definition integrity_result :: "platform \<Rightarrow> db \<Rightarrow> certificate_row \<Rightarrow> bool option" where
  "integrity_result p d c =
     (case verify_certificate_integrity p d (Some c) of
        Inr x \<Rightarrow> Some (all_valid x)
      | Inl EvidenceNotIterable \<Rightarrow> None
      | Inl _ \<Rightarrow> Some False)"

definition authorized_alignment_exists :: "db \<Rightarrow> certificate_row \<Rightarrow> bool" where
  "authorized_alignment_exists d c \<longleftrightarrow>
     (case ct_task c of None \<Rightarrow> False
      | Some t \<Rightarrow> list_ex (\<lambda>a. ia_task a = Some t \<and> ia_status a = ''ALIGNED'' \<and>
            list_ex (\<lambda>i. ii_id i = ia_item a \<and> ii_authorized i) (intents d)) (alignments d))"

definition protected_behaviors_authorized ::
    "db \<Rightarrow> certificate_row \<Rightarrow> alignment_verdict option \<Rightarrow> string list \<Rightarrow> bool" where
  "protected_behaviors_authorized d c verdict requested =
     (let covered = (case verdict of None \<Rightarrow> [] | Some v \<Rightarrow> av_protected v);
          bs = (if requested \<noteq> [] then requested else covered)
      in list_all (\<lambda>b. (covered = [] \<or> b \<in> set covered) \<and> authorized_alignment_exists d c) bs)"

definition merge_draft :: "task_row \<Rightarrow> certificate_row \<Rightarrow> change_row \<Rightarrow> event_draft" where
  "merge_draft t c ch =
     \<lparr>dr_entity_type = ''Task'', dr_entity_id = ts_id t, dr_kind = MERGE, dr_task = ts_id t,
      dr_actor = ''merge-gate'', dr_payload = [(''certificate_key'', PStr (ct_key c)),
        (''task_id'', PStr (ts_id t)), (''change_id'', PStr (ch_id ch)), (''change_status'', PStr ''MERGED'')]\<rparr>"

definition set_task_status :: "string \<Rightarrow> string \<Rightarrow> db \<Rightarrow> db" where
  "set_task_status k s d = d\<lparr>tasks := map (\<lambda>r. if ts_id r = k then r\<lparr>ts_status := s\<rparr> else r) (tasks d)\<rparr>"

definition set_change_status :: "string \<Rightarrow> string \<Rightarrow> db \<Rightarrow> db" where
  "set_change_status k s d = d\<lparr>changes := map (\<lambda>r. if ch_id r = k then r\<lparr>ch_status := s\<rparr> else r) (changes d)\<rparr>"

definition merge_transition :: "task_row \<Rightarrow> certificate_row \<Rightarrow> change_row \<Rightarrow> db \<Rightarrow> db" where
  "merge_transition t c ch d =
     record_task_event (merge_draft t c ch) (set_change_status (ch_id ch) ''MERGED'' (set_task_status (ts_id t) ''MERGED'' d))"

definition deny_reason :: "(string \<times> bool) list \<Rightarrow> string" where
  "deny_reason checks =
     (let failed = join '', '' (map fst (filter (\<lambda>(_, ok). \<not> ok) checks))
      in if failed \<noteq> [] then ''merge gate blocked: '' @ failed @ '' failed'' else ''merge gate blocked'')"

definition certified_check :: "certificate_row \<Rightarrow> bool" where
  "certified_check c \<longleftrightarrow> ct_status c = ''CERTIFIED''"

definition certifiable_check :: "alignment_verdict option \<Rightarrow> bool" where
  "certifiable_check v \<longleftrightarrow> (case v of None \<Rightarrow> False | Some x \<Rightarrow> av_aligned x \<and> av_status x = ''CERTIFIABLE'')"

definition evaluate_merge_gate ::
    "platform \<Rightarrow> certificate_row option \<Rightarrow> alignment_verdict option \<Rightarrow> patch_row option \<Rightarrow> string list \<Rightarrow> db \<Rightarrow>
     (gate_error + gate_verdict) \<times> db" where
  "evaluate_merge_gate p certificate verdict patch requested d =
     (let untouched = map (\<lambda>n. (n, False)) GATE_CHECKS in
      case certificate of
        None \<Rightarrow> (Inr \<lparr>gv_allowed = False, gv_reason = ''no certificate'', gv_checks = untouched\<rparr>, d)
      | Some c \<Rightarrow> (case patch of
          None \<Rightarrow> (Inr \<lparr>gv_allowed = False, gv_reason = ''no candidate patch'', gv_checks = untouched\<rparr>, d)
        | Some cp \<Rightarrow>
            let early = [certified_check c, certifiable_check verdict, cp_status cp = ''VERIFIED''] in
            (case integrity_result p d c of
               None \<Rightarrow> (Inr \<lparr>gv_allowed = False, gv_reason = ''certification modules unavailable'',
                          gv_checks = zip GATE_CHECKS (early @ [False, False])\<rparr>, d)
             | Some sound \<Rightarrow>
                 let checks = zip GATE_CHECKS (early @ [sound, protected_behaviors_authorized d c verdict requested]) in
                 if \<not> list_all snd checks then
                   (Inr \<lparr>gv_allowed = False, gv_reason = deny_reason checks, gv_checks = checks\<rparr>, d)
                 else (case (get_task d (cp_task cp), get_change d (cp_change cp)) of
                   (Some t, Some ch) \<Rightarrow>
                     (Inr \<lparr>gv_allowed = True,
                        gv_reason = ''certificate CERTIFIED, intent alignment CERTIFIABLE, candidate re-verified, '' @
                          ''integrity intact, protected behaviors authorized'', gv_checks = checks\<rparr>,
                      merge_transition t c ch d)
                 | _ \<Rightarrow> (Inl PatchNotLinked, d)))))"

section \<open>Lemmas\<close>

text \<open>What the five checks of the gate mean.\<close>

definition merge_authorized ::
    "platform \<Rightarrow> db \<Rightarrow> certificate_row \<Rightarrow> alignment_verdict option \<Rightarrow> patch_row \<Rightarrow> string list \<Rightarrow> bool" where
  "merge_authorized p d c verdict cp requested \<longleftrightarrow>
     ct_status c = ''CERTIFIED'' \<and> (\<exists>v. verdict = Some v \<and> av_aligned v \<and> av_status v = ''CERTIFIABLE'') \<and>
     cp_status cp = ''VERIFIED'' \<and> (\<exists>x. verify_certificate_integrity p d (Some c) = Inr x \<and> all_valid x) \<and>
     protected_behaviors_authorized d c verdict requested"

lemma integrity_result_True:
  "integrity_result p d c = Some True \<longleftrightarrow> (\<exists>x. verify_certificate_integrity p d (Some c) = Inr x \<and> all_valid x)"
  by (simp add: integrity_result_def split: sum.split integrity_error.split)

lemma gate_authorized:
  assumes "merge_authorized p d c verdict cp requested"
    and "get_task d (cp_task cp) = Some t" "get_change d (cp_change cp) = Some ch"
  shows "\<exists>v. evaluate_merge_gate p (Some c) verdict (Some cp) requested d = (Inr v, merge_transition t c ch d) \<and>
    gv_allowed v \<and> list_all snd (gv_checks v)"
proof -
  have "integrity_result p d c = Some True" using assms(1) by (simp add: merge_authorized_def integrity_result_True)
  moreover have "certified_check c" "certifiable_check verdict"
    using assms(1) by (auto simp: merge_authorized_def certified_check_def certifiable_check_def)
  ultimately show ?thesis
    using assms by (simp add: evaluate_merge_gate_def merge_authorized_def GATE_CHECKS_def Let_def)
qed

lemma gate_cases:
  assumes "evaluate_merge_gate p (Some c) verdict (Some cp) requested d = (r, D)"
  shows "(D = d \<and> (\<forall>v. r = Inr v \<longrightarrow> \<not> gv_allowed v) \<and>
           (merge_authorized p d c verdict cp requested \<longrightarrow> r = Inl PatchNotLinked)) \<or>
    (merge_authorized p d c verdict cp requested \<and>
      (\<exists>t ch v. get_task d (cp_task cp) = Some t \<and> get_change d (cp_change cp) = Some ch \<and>
        r = Inr v \<and> gv_allowed v \<and> D = merge_transition t c ch d))"
proof (cases "merge_authorized p d c verdict cp requested")
  case True
  then have "integrity_result p d c = Some True" "certified_check c" "certifiable_check verdict"
    by (auto simp: merge_authorized_def integrity_result_True certified_check_def certifiable_check_def)
  then have run: "evaluate_merge_gate p (Some c) verdict (Some cp) requested d = (case (get_task d (cp_task cp), get_change d (cp_change cp)) of
      (Some t, Some ch) \<Rightarrow> (fst (evaluate_merge_gate p (Some c) verdict (Some cp) requested d), merge_transition t c ch d)
    | _ \<Rightarrow> (Inl PatchNotLinked, d))"
    using True gate_authorized [OF True]
    by (auto simp: evaluate_merge_gate_def merge_authorized_def GATE_CHECKS_def Let_def split: option.split)
  show ?thesis
  proof (cases "get_task d (cp_task cp) = None \<or> get_change d (cp_change cp) = None")
    case True
    with run assms show ?thesis by (auto split: option.splits)
  next
    case False
    then obtain t ch where tc: "get_task d (cp_task cp) = Some t" "get_change d (cp_change cp) = Some ch" by auto
    with gate_authorized [OF True tc] True assms show ?thesis by auto
  qed
next
  case False
  then have no: "\<not> (integrity_result p d c = Some True \<and> certified_check c \<and> certifiable_check verdict \<and>
      cp_status cp = ''VERIFIED'' \<and> protected_behaviors_authorized d c verdict requested)"
    by (auto simp: merge_authorized_def integrity_result_True certified_check_def certifiable_check_def
        split: option.splits)
  have "\<exists>v. evaluate_merge_gate p (Some c) verdict (Some cp) requested d = (Inr v, d) \<and> \<not> gv_allowed v"
  proof (cases "integrity_result p d c")
    case None
    then show ?thesis by (simp add: evaluate_merge_gate_def Let_def)
  next
    case (Some b)
    with no have "\<not> list_all snd (zip GATE_CHECKS ([certified_check c, certifiable_check verdict, cp_status cp = ''VERIFIED''] @
        [b, protected_behaviors_authorized d c verdict requested]))"
      by (simp add: GATE_CHECKS_def)
    with Some show ?thesis unfolding evaluate_merge_gate_def Let_def by simp
  qed
  with False assms show ?thesis by auto
qed

lemma find_map_keyed:
  assumes "\<And>r. P (f r) \<longleftrightarrow> P r"
  shows "find P (map f xs) = map_option f (find P xs)"
  using assms by (induction xs) auto

lemma merge_transition_fields:
  "\<exists>w es. merge_transition t c ch d =
     (set_change_status (ch_id ch) ''MERGED'' (set_task_status (ts_id t) ''MERGED'' d))\<lparr>host := w, events := es\<rparr>"
  using record_task_event_fields by (simp add: merge_transition_def)

lemma merge_transition_task:
  "get_task (merge_transition t c ch d) k =
     map_option (\<lambda>r. if ts_id r = ts_id t then r\<lparr>ts_status := ''MERGED''\<rparr> else r) (get_task d k)"
proof -
  obtain w es where "merge_transition t c ch d =
      (set_change_status (ch_id ch) ''MERGED'' (set_task_status (ts_id t) ''MERGED'' d))\<lparr>host := w, events := es\<rparr>"
    using merge_transition_fields by blast
  then have "tasks (merge_transition t c ch d) = map (\<lambda>r. if ts_id r = ts_id t then r\<lparr>ts_status := ''MERGED''\<rparr> else r) (tasks d)"
    by (simp add: set_change_status_def set_task_status_def)
  then show ?thesis by (simp add: get_task_def find_map_keyed)
qed

lemma merge_transition_change:
  "get_change (merge_transition t c ch d) k =
     map_option (\<lambda>r. if ch_id r = ch_id ch then r\<lparr>ch_status := ''MERGED''\<rparr> else r) (get_change d k)"
proof -
  obtain w es where "merge_transition t c ch d =
      (set_change_status (ch_id ch) ''MERGED'' (set_task_status (ts_id t) ''MERGED'' d))\<lparr>host := w, events := es\<rparr>"
    using merge_transition_fields by blast
  then have "changes (merge_transition t c ch d) = map (\<lambda>r. if ch_id r = ch_id ch then r\<lparr>ch_status := ''MERGED''\<rparr> else r) (changes d)"
    by (simp add: set_change_status_def set_task_status_def)
  then show ?thesis by (simp add: get_change_def find_map_keyed)
qed

lemma get_task_id: "get_task d k = Some t \<Longrightarrow> ts_id t = k"
  by (auto simp: get_task_def dest: find_keyed)

lemma get_change_id: "get_change d k = Some t \<Longrightarrow> ch_id t = k"
  by (auto simp: get_change_def dest: find_keyed)

text \<open>The status of the bound change is part of what a verification compares.\<close>

lemma chunk_change_status:
  assumes "db_chunks_match (canonical_certificate_payload p d c) stored" "certificate_change d c = Some ch"
  obtains ys where "get_key stored ''change'' = PDict ys" "map_of ys ''status'' = Some (PStr (ch_status ch))"
proof -
  have eq: "py_eq (change_dict (Some ch)) (get_key stored ''change'')"
    using assms by (simp add: db_chunks_match_def db_chunk_keys_def canonical_certificate_payload_def get_key_def)
  then obtain ys where ys: "get_key stored ''change'' = PDict ys"
    by (cases "get_key stored ''change''") (auto simp: change_dict_def)
  with eq show thesis
    by (intro that [OF ys]) (auto simp: change_dict_def split: option.splits)
qed

lemma verified_row:
  assumes "verify_certificate_integrity p d (Some c) = Inr x"
  obtains row where "get_certificate d (ct_id c) = Some row" "ct_payload row \<noteq> []"
    "id_chunks_valid x \<longleftrightarrow> db_chunks_match (canonical_certificate_payload p d row) (ct_payload row)"
  using assms by (auto simp: verify_certificate_integrity_def split: option.splits if_splits)

text \<open>The eligible results of a re-verification are those of the exit codes.\<close>

lemma eligible_codes:
  "map rv_exit_code (filter rv_eligible (map (check_evidence p) rs)) =
     filter (\<lambda>v. v \<noteq> PNone) (map (\<lambda>r. get_key (en_machine_result r) ''exit_code'') rs)"
  "map rv_passed (filter rv_eligible (map (check_evidence p) rs)) =
     map (\<lambda>v. py_eq v (PInt 0)) (filter (\<lambda>v. v \<noteq> PNone) (map (\<lambda>r. get_key (en_machine_result r) ''exit_code'') rs))"
  by (induction rs) (simp_all add: check_evidence_def Let_def)

lemma record_reverify_patches: "patches (record_reverify cp j d) = patches d"
proof (cases "get_task d (cp_task cp)")
  case (Some t)
  obtain w es where "record_task_event (reverify_draft cp (ts_id t) j) d = d\<lparr>host := w, events := es\<rparr>"
    using record_task_event_fields by blast
  with Some show ?thesis by (simp add: record_reverify_def)
qed (simp add: record_reverify_def)

section \<open>A small merge\<close>

definition demo_verdict :: alignment_verdict where
  "demo_verdict = \<lparr>av_aligned = True, av_status = ''CERTIFIABLE'', av_unexplained = 0, av_critical = 0,
     av_protected = [], av_reasons = []\<rparr>"

text \<open>The certificate of the task \<open>t\<close>, and the gate on the patches of \<open>t\<close> and of \<open>t2\<close>.\<close>

lemma demo_certificate:
  obtains c D where "get_certificate D (ct_id c) = Some c" "ct_task c = Some ''t''"
    "tasks D = tasks demo_db" "changes D = changes demo_db"
    "merge_authorized demo_platform D c (Some demo_verdict) (demo_patch k t ch) []"
proof -
  let ?t = "demo_task ''t'' ''c''"
  obtain c D where c: "certificates D = certificates demo_db @ [c]" "ct_id c \<notin> ct_id ` set (certificates demo_db)"
      "wf_evidence demo_platform (evidence D)"
      "ct_payload c = with_extra ''dependency_state'' None (with_extra ''environment'' None (canonical_certificate_payload demo_platform D c))"
      "ct_evidence_hash c = Some (compute_integrity_hash demo_platform (ct_payload c))"
      "ct_key c = certificate_key_for demo_platform (ts_id ?t) (cl_id demo_claim)" "ct_task c = Some (ts_id ?t)"
      "ct_claim c = Some (cl_id demo_claim)"
      "ct_status c = (if True \<and> [demo_evidence] \<noteq> [] then ''CERTIFIED'' else ''DRAFT'')"
      "tasks D = tasks demo_db" "changes D = changes demo_db"
    by (rule built_certificate [OF demo_db_ready, where t = ?t and k = demo_claim and ch = None and
        cp = "demo_patch k t ch" and aligned = True and rows = "[demo_evidence]" and env = None and dep = None and issued = None]) blast
  have row: "get_certificate D (ct_id c) = Some c"
    unfolding get_certificate_def c(1) by (rule find_appended) (use c(2) in \<open>auto simp: image_iff\<close>)
  have "ct_key c = derive_certificate_key demo_platform c"
    using c(6-8) by (simp add: derive_certificate_key_def)
  then have "\<exists>x. verify_certificate_integrity demo_platform D (Some c) = Inr x \<and> all_valid x"
    by (rule intact_certificate [OF row c(3-5)])
  with c(7,9) have "merge_authorized demo_platform D c (Some demo_verdict) (demo_patch k t ch) []"
    by (simp add: merge_authorized_def demo_verdict_def demo_patch_def protected_behaviors_authorized_def)
  with row c(7,10,11) show thesis by (intro that [of D c]) (simp_all add: demo_task_def)
qed

section \<open>Properties\<close>

text \<open>
  C3. The gate lets a merge pass exactly when the certificate is CERTIFIED, the final alignment is aligned
  and CERTIFIABLE, the candidate is VERIFIED, the integrity of the certificate verifies and the protected behaviors are
  authorized; when it refuses it changes nothing, and when it passes it leaves the task and the change of
  the candidate MERGED.
\<close>
theorem merge_gate_exact:
  assumes "evaluate_merge_gate p (Some c) verdict (Some cp) requested d = (Inr v, D)"
  shows "(gv_allowed v \<longleftrightarrow> merge_authorized p d c verdict cp requested) \<and>
    (\<not> gv_allowed v \<longrightarrow> D = d) \<and>
    (gv_allowed v \<longrightarrow>
      (\<exists>t ch. get_task D (cp_task cp) = Some t \<and> ts_status t = ''MERGED'' \<and>
        get_change D (cp_change cp) = Some ch \<and> ch_status ch = ''MERGED''))"
  using gate_cases [OF assms] get_task_id get_change_id
  by (fastforce simp: merge_transition_task merge_transition_change)

text \<open>
  The gate does not look at which task a certificate certifies: whenever it lets one candidate pass with
  a certificate, it lets any other VERIFIED candidate pass with the same certificate, of whatever task, and
  merges that task.
\<close>
theorem gate_ignores_the_task:
  assumes "evaluate_merge_gate p (Some c) verdict (Some cp) requested d = (Inr v, D)" and "gv_allowed v"
    and "cp_status cp' = ''VERIFIED''" and "get_task d (cp_task cp') = Some t" and "get_change d (cp_change cp') = Some ch"
  shows "\<exists>v' D' t'. evaluate_merge_gate p (Some c) verdict (Some cp') requested d = (Inr v', D') \<and> gv_allowed v' \<and>
    get_task D' (cp_task cp') = Some t' \<and> ts_status t' = ''MERGED''"
proof -
  have "merge_authorized p d c verdict cp' requested"
    using gate_cases [OF assms(1)] assms(2,3) by (auto simp: merge_authorized_def)
  from gate_authorized [OF this assms(4,5)] obtain v' where
    "evaluate_merge_gate p (Some c) verdict (Some cp') requested d = (Inr v', merge_transition t c ch d)" "gv_allowed v'"
    by blast
  with assms(4) get_task_id [OF assms(4)] show ?thesis by (auto simp: merge_transition_task)
qed

text \<open>
  C39. A merge spoils the certificate it was authorized by: when the gate lets the candidate of the
  certificate's own change pass and that change was not MERGED yet, verifying the certificate afterwards
  fails, since the status of the change is among the rows the certificate is bound to.
\<close>
theorem merge_spoils_certificate:
  assumes "evaluate_merge_gate p (Some c) verdict (Some cp) requested d = (Inr v, D)" and "gv_allowed v"
    and "get_certificate d (ct_id c) = Some c"
    and "certificate_change d c = Some ch" and "ch_id ch = cp_change cp" and "ch_status ch \<noteq> ''MERGED''"
  shows "\<not> (\<exists>x. verify_certificate_integrity p D (Some c) = Inr x \<and> all_valid x)"
proof
  assume "\<exists>x. verify_certificate_integrity p D (Some c) = Inr x \<and> all_valid x"
  then obtain y where y: "verify_certificate_integrity p D (Some c) = Inr y" "id_chunks_valid y" by (auto simp: all_valid_def)
  obtain t chg where auth: "merge_authorized p d c verdict cp requested" and t: "get_task d (cp_task cp) = Some t"
      and chg: "get_change d (cp_change cp) = Some chg" and D: "D = merge_transition t c chg d"
    using gate_cases [OF assms(1)] assms(2) by auto
  obtain x where x: "verify_certificate_integrity p d (Some c) = Inr x" "id_chunks_valid x"
    using auth by (auto simp: merge_authorized_def all_valid_def)
  have certs: "get_certificate D (ct_id c) = Some c"
    using assms(3) merge_transition_fields [of t c chg d]
    by (auto simp: D get_certificate_def set_change_status_def set_task_status_def)
  obtain k tr i where k: "ct_task c = Some k" "get_task d k = Some tr" "ts_change tr = Some i" "get_change d i = Some ch"
    using assms(4) by (auto simp: certificate_change_def split: option.splits)
  then have i: "i = cp_change cp" "ch = chg" using assms(5) chg get_change_id [OF k(4)] by simp_all
  have "certificate_change D c = Some (ch\<lparr>ch_status := ''MERGED''\<rparr>)"
    using k i by (simp add: certificate_change_def D merge_transition_task merge_transition_change)
  then have new: "map_of ys ''status'' = Some (PStr ''MERGED'')" if "get_key (ct_payload c) ''change'' = PDict ys" for ys
    using y certs that by (auto elim!: verified_row elim: chunk_change_status)
  obtain ys where "get_key (ct_payload c) ''change'' = PDict ys" "map_of ys ''status'' = Some (PStr (ch_status ch))"
    using x assms(3,4) by (auto elim!: verified_row elim: chunk_change_status)
  with new assms(6) show False by simp
qed

text \<open>
  A candidate passes re-verification exactly when some evidence the reader returned carries an exit
  code and every exit code equals 0; then, and only then, the re-verification leaves it VERIFIED unless it
  was VERIFIED already and no exit code came; a failing exit code leaves it FAILED.
\<close>
theorem reverification_on_evidence:
  assumes "run_reverification p (Some cp) (Some reader) d = (Inr rep, D)"
  shows "let codes = filter (\<lambda>v. v \<noteq> PNone) (map (\<lambda>r. get_key (en_machine_result r) ''exit_code'') (invoke_reader reader cp d)) in
    (rt_passed rep \<longleftrightarrow> codes \<noteq> [] \<and> list_all (\<lambda>v. py_eq v (PInt 0)) codes) \<and>
    rt_after rep = (if rt_passed rep then ''VERIFIED'' else if codes = [] then cp_status cp else ''FAILED'') \<and>
    (invoke_reader reader cp d \<noteq> [] \<longrightarrow> (\<forall>r \<in> set (patches D). cp_id r = cp_id cp \<longrightarrow> cp_status r = rt_after rep))"
proof (cases "invoke_reader reader cp d = []")
  case True
  with assms show ?thesis by (auto simp: run_reverification_def Let_def)
next
  case False
  let ?rows = "invoke_reader reader cp d"
  define codes where "codes = filter (\<lambda>v. v \<noteq> PNone) (map (\<lambda>r. get_key (en_machine_result r) ''exit_code'') ?rows)"
  define results where "results = map (check_evidence p) ?rows"
  define eligible where "eligible = filter rv_eligible results"
  have codes: "map rv_exit_code eligible = codes" and ok: "map rv_passed eligible = map (\<lambda>v. py_eq v (PInt 0)) codes"
    unfolding eligible_def codes_def results_def by (rule eligible_codes)+
  have passed: "list_all rv_passed eligible \<longleftrightarrow> list_all (\<lambda>v. py_eq v (PInt 0)) codes"
    using arg_cong [OF ok, of "list_all id"] by (simp add: list_all_iff)
  have none: "eligible = [] \<longleftrightarrow> codes = []" using codes by (metis map_is_Nil_conv)
  obtain j where rep: "rt_passed rep \<longleftrightarrow> eligible \<noteq> [] \<and> list_all rv_passed eligible"
      "rt_after rep = (if rt_passed rep then ''VERIFIED'' else if list_ex (\<lambda>r. \<not> rv_passed r) eligible then ''FAILED'' else cp_status cp)"
      and D: "D = record_reverify cp j (set_patch_status (cp_id cp) (rt_after rep) d)"
    using assms False by (auto simp: run_reverification_def Let_def simp flip: results_def eligible_def)
  have "list_ex (\<lambda>r. \<not> rv_passed r) eligible \<longleftrightarrow> \<not> list_all rv_passed eligible"
    by (auto simp: list_ex_iff list_all_iff)
  with rep none have "rt_after rep = (if rt_passed rep then ''VERIFIED'' else if codes = [] then cp_status cp else ''FAILED'')"
    by auto
  moreover have "\<forall>r \<in> set (patches D). cp_id r = cp_id cp \<longrightarrow> cp_status r = rt_after rep"
    by (auto simp: D record_reverify_patches set_patch_status_def)
  ultimately show ?thesis using rep(1) passed none by (simp flip: codes_def)
qed

text \<open>
  The final alignment passes exactly when an authorized intent explains every observed delta of the
  task; its verdict is then CERTIFIABLE with no critical change, and never more changes are critical than
  unexplained.
\<close>
theorem alignment_exact:
  "let v = evaluate_alignment d (Some t) None None in
   (av_aligned v \<longleftrightarrow>
     (\<forall>r \<in> set (deltas d). bd_task r = Some (ts_id t) \<and> bd_observed r \<longrightarrow>
       (\<exists>i \<in> set (intents d). ii_task i = Some (ts_id t) \<and> ii_authorized i \<and> ii_statement i \<noteq> [] \<and>
          explained_by (metric_lower r) (ii_statement i)))) \<and>
   (certifiable_check (Some v) \<longleftrightarrow> av_aligned v) \<and> (av_aligned v \<longleftrightarrow> av_unexplained v = 0) \<and>
   av_critical v \<le> av_unexplained v"
proof -
  define statements where "statements = filter (\<lambda>s. s \<noteq> []) (map ii_statement (task_intents d (Some (ts_id t))))"
  define uncovered where "uncovered = filter (\<lambda>r. \<not> delta_explained_by_intent r statements) (task_deltas d (ts_id t))"
  define critical where "critical = filter (\<lambda>r. is_security_relevant r (is_protected_delta d r)) uncovered"
  have "critical = []" if "uncovered = []" using that by (simp add: critical_def)
  then have v: "av_aligned (evaluate_alignment d (Some t) None None) \<longleftrightarrow> uncovered = []"
      "av_unexplained (evaluate_alignment d (Some t) None None) = length uncovered"
      "av_critical (evaluate_alignment d (Some t) None None) = length critical"
      "certifiable_check (Some (evaluate_alignment d (Some t) None None)) \<longleftrightarrow> uncovered = []"
    by (auto simp: evaluate_alignment_def Let_def certifiable_check_def simp del: filter_filter
        simp flip: statements_def uncovered_def critical_def)
  have "uncovered = [] \<longleftrightarrow> (\<forall>r \<in> set (deltas d). bd_task r = Some (ts_id t) \<and> bd_observed r \<longrightarrow>
      (\<exists>i \<in> set (intents d). ii_task i = Some (ts_id t) \<and> ii_authorized i \<and> ii_statement i \<noteq> [] \<and>
          explained_by (metric_lower r) (ii_statement i)))"
    by (auto simp: uncovered_def filter_empty_conv task_deltas_def delta_explained_by_intent_def list_ex_iff
        statements_def task_intents_def)
  moreover have "length critical \<le> length uncovered" by (simp add: critical_def)
  ultimately show ?thesis by (simp add: Let_def v)
qed

section \<open>Witnesses\<close>

lemma demo_rows:
  "tasks D = tasks demo_db \<Longrightarrow> get_task D ''t'' = Some (demo_task ''t'' ''c'')"
  "tasks D = tasks demo_db \<Longrightarrow> get_task D ''t2'' = Some (demo_task ''t2'' ''c2'')"
  "changes D = changes demo_db \<Longrightarrow> get_change D ''c'' = Some (demo_change ''c'')"
  "changes D = changes demo_db \<Longrightarrow> get_change D ''c2'' = Some (demo_change ''c2'')"
  by (simp_all add: get_task_def get_change_def demo_db_def demo_task_def demo_change_def)

lemma demo_merge:
  obtains c D v D' where "get_certificate D (ct_id c) = Some c" "ct_task c = Some ''t''" "tasks D = tasks demo_db"
    "changes D = changes demo_db"
    "evaluate_merge_gate demo_platform (Some c) (Some demo_verdict) (Some (demo_patch ''p'' ''t'' ''c'')) [] D = (Inr v, D')"
    "gv_allowed v"
proof -
  let ?cp = "demo_patch ''p'' ''t'' ''c''"
  obtain c D where d: "get_certificate D (ct_id c) = Some c" "ct_task c = Some ''t''" "tasks D = tasks demo_db"
      "changes D = changes demo_db" "merge_authorized demo_platform D c (Some demo_verdict) ?cp []"
    by (rule demo_certificate)
  have "get_task D (cp_task ?cp) = Some (demo_task ''t'' ''c'')" "get_change D (cp_change ?cp) = Some (demo_change ''c'')"
    using d demo_rows by (simp_all add: demo_patch_def)
  from gate_authorized [OF d(5) this] obtain v where
    "evaluate_merge_gate demo_platform (Some c) (Some demo_verdict) (Some ?cp) [] D =
       (Inr v, merge_transition (demo_task ''t'' ''c'') c (demo_change ''c'') D)" "gv_allowed v" by blast
  from that [OF d(1-4) this] show thesis .
qed

theorem merge_gate_exact_witness:
  "\<exists>D c v D'. evaluate_merge_gate demo_platform (Some c) (Some demo_verdict) (Some (demo_patch ''p'' ''t'' ''c'')) [] D = (Inr v, D') \<and>
     gv_allowed v \<and> (\<exists>t. get_task D' ''t'' = Some t \<and> ts_status t = ''MERGED'')"
proof -
  have cp: "cp_task (demo_patch ''p'' ''t'' ''c'') = ''t''" by (simp add: demo_patch_def)
  obtain c D v D' where v: "evaluate_merge_gate demo_platform (Some c) (Some demo_verdict) (Some (demo_patch ''p'' ''t'' ''c'')) [] D = (Inr v, D')"
      "gv_allowed v"
    by (rule demo_merge)
  with merge_gate_exact [OF v(1)] show ?thesis unfolding cp by blast
qed

text \<open>The certificate of the task \<open>t\<close> merges the task \<open>t2\<close>.\<close>

theorem gate_ignores_the_task_witness:
  "\<exists>D c v D' t2. ct_task c = Some ''t'' \<and>
     evaluate_merge_gate demo_platform (Some c) (Some demo_verdict) (Some (demo_patch ''p2'' ''t2'' ''c2'')) [] D = (Inr v, D') \<and>
     gv_allowed v \<and> get_task D' ''t2'' = Some t2 \<and> ts_status t2 = ''MERGED''"
proof -
  let ?other = "demo_patch ''p2'' ''t2'' ''c2''"
  have other: "cp_task ?other = ''t2''" "cp_change ?other = ''c2''" "cp_status ?other = ''VERIFIED''"
    by (simp_all add: demo_patch_def)
  obtain c D v D' where d: "ct_task c = Some ''t''" "tasks D = tasks demo_db" "changes D = changes demo_db" and
      v: "evaluate_merge_gate demo_platform (Some c) (Some demo_verdict) (Some (demo_patch ''p'' ''t'' ''c'')) [] D = (Inr v, D')"
      "gv_allowed v"
    by (rule demo_merge)
  have rows: "get_task D (cp_task ?other) = Some (demo_task ''t2'' ''c2'')" "get_change D (cp_change ?other) = Some (demo_change ''c2'')"
    unfolding other using d demo_rows by simp_all
  from gate_ignores_the_task [OF v other(3) rows] d(1) show ?thesis unfolding other by blast
qed

theorem merge_spoils_certificate_witness:
  "\<exists>D c v D'. evaluate_merge_gate demo_platform (Some c) (Some demo_verdict) (Some (demo_patch ''p'' ''t'' ''c'')) [] D = (Inr v, D') \<and>
     gv_allowed v \<and> \<not> (\<exists>x. verify_certificate_integrity demo_platform D' (Some c) = Inr x \<and> all_valid x)"
proof -
  obtain c D v D' where d: "get_certificate D (ct_id c) = Some c" "ct_task c = Some ''t''" "tasks D = tasks demo_db"
      "changes D = changes demo_db" and
      v: "evaluate_merge_gate demo_platform (Some c) (Some demo_verdict) (Some (demo_patch ''p'' ''t'' ''c'')) [] D = (Inr v, D')"
      "gv_allowed v"
    by (rule demo_merge)
  have "certificate_change D c = Some (demo_change ''c'')"
    using d demo_rows by (simp add: certificate_change_def) (simp add: demo_task_def)
  from merge_spoils_certificate [OF v d(1) this] v show ?thesis by (auto simp: demo_change_def demo_patch_def)
qed

text \<open>Evidence without an exit code is passed over; the one with \<open>0\<close> decides.\<close>

theorem reverification_on_evidence_witness:
  "\<exists>rep D. run_reverification demo_platform (Some (demo_patch ''p'' ''t'' ''c''))
       (Some (\<lambda>_ _. Some [demo_evidence\<lparr>en_machine_result := []\<rparr>, demo_evidence])) demo_db = (Inr rep, D) \<and> rt_passed rep"
proof -
  let ?rd = "\<lambda>(_ :: patch_row) (_ :: db). Some [demo_evidence\<lparr>en_machine_result := []\<rparr>, demo_evidence]"
  obtain rep D where run: "run_reverification demo_platform (Some (demo_patch ''p'' ''t'' ''c'')) (Some ?rd) demo_db = (Inr rep, D)"
    by (simp add: run_reverification_def Let_def invoke_reader_def)
  from reverification_on_evidence [OF run] have "rt_passed rep"
    by (simp add: Let_def invoke_reader_def demo_evidence_def get_key_def)
  with run show ?thesis by blast
qed

end
