(* ===== verification/Memory.thy ===== *)
theory Memory
  imports Certificates
begin

text \<open>
  \<open>certification/archaeology.py\<close> (the preserved history of a failure) and \<open>certification/memory.py\<close> (the
  memory a certified change leaves). The lemmas show that memory is written only under a CERTIFIED
  certificate, that the pipeline is idempotent, and that archaeology reports every reference it was given
  as resolved or as a gap and changes nothing but events and one unapplied memory row.
\<close>

section \<open>The code of a failure\<close>

text \<open>\<open>\w\<close> on the code points below 256.\<close>

definition is_word :: "char \<Rightarrow> bool" where
  "is_word c \<longleftrightarrow>
     (let n = (of_char c :: nat) in
      (48 \<le> n \<and> n \<le> 57) \<or> (65 \<le> n \<and> n \<le> 90) \<or> n = 95 \<or> (97 \<le> n \<and> n \<le> 122) \<or>
      n \<in> {170, 178, 179, 181, 185, 186, 188, 189, 190} \<or> (192 \<le> n \<and> n \<noteq> 215 \<and> n \<noteq> 247))"

text \<open>
  The search for \<open>\b(F-\d{1,6})\b\<close>: at a boundary, \<open>F-\<close> and a run of one to six digits that no word
  character follows (a shorter match would end inside the run). The flag says whether a word character
  stands before the position.
\<close>

definition code_here :: "string \<Rightarrow> string option" where
  "code_here s =
     (if startswith s ''F-'' then
        let run = takeWhile is_digit (drop 2 s); rest = dropWhile is_digit (drop 2 s) in
        if 1 \<le> length run \<and> length run \<le> 6 \<and> (rest = [] \<or> \<not> is_word (hd rest)) then Some (''F-'' @ run) else None
      else None)"

fun find_code :: "bool \<Rightarrow> string \<Rightarrow> string option" where
  "find_code inside [] = None"
| "find_code inside (c # cs) =
     (case (if inside then None else code_here (c # cs)) of
        Some code \<Rightarrow> Some code
      | None \<Rightarrow> find_code (is_word c) cs)"

definition derive_failure_code :: "string \<Rightarrow> string" where
  "derive_failure_code message = (case find_code False message of Some code \<Rightarrow> code | None \<Rightarrow> ''UNKNOWN'')"

section \<open>Archaeology (archaeology.py)\<close>

text \<open>
  What a caller may pass as a reference: nothing, a row of the right table, a UUID, a text, or an object
  with an identifier of some other kind.
\<close>

datatype reference = RefNone | RefRow string | RefUuid string | RefText string | RefOther string

fun as_id_str :: "reference \<Rightarrow> string" where
  "as_id_str RefNone = ''None''"
| "as_id_str (RefRow k) = k"
| "as_id_str (RefUuid k) = k"
| "as_id_str (RefText s) = s"
| "as_id_str (RefOther k) = k"

text \<open>The key a reference leads to, when a row of the table has it.\<close>

definition resolve_ref :: "platform \<Rightarrow> string list \<Rightarrow> reference \<Rightarrow> string option" where
  "resolve_ref p keys r =
     (case (case r of RefRow k \<Rightarrow> Some k | RefUuid k \<Rightarrow> Some k | RefText s \<Rightarrow> parse_uuid p s | _ \<Rightarrow> None) of
        None \<Rightarrow> None
      | Some k \<Rightarrow> if k \<in> set keys then Some k else None)"

definition resolved :: "platform \<Rightarrow> string list \<Rightarrow> reference list \<Rightarrow> string list" where
  "resolved p keys refs = List.map_filter (resolve_ref p keys) refs"

definition gaps_of :: "platform \<Rightarrow> string list \<Rightarrow> reference list \<Rightarrow> string list" where
  "gaps_of p keys refs = map as_id_str (filter (\<lambda>r. resolve_ref p keys r = None) refs)"

record archaeology_record =
  ar_failure_id :: string
  ar_code :: string
  ar_classification :: string
  ar_message :: string
  ar_probable_cause :: string
  ar_next_action :: string
  ar_severity :: string
  ar_ghosts :: "string list"
  ar_claims :: "string list"
  ar_repairs :: "string list"
  ar_evidence :: "string list"
  ar_resolved :: bool
  ar_verified :: "string list"
  ar_gaps :: "(string \<times> string list) list"

definition or_empty :: "string option \<Rightarrow> string" where
  "or_empty x = (case x of None \<Rightarrow> [] | Some s \<Rightarrow> s)"

definition archaeology_dict :: "archaeology_record \<Rightarrow> json" where
  "archaeology_dict a =
     [(''failure_id'', PStr (ar_failure_id a)), (''failure_code'', PStr (ar_code a)),
      (''classification'', PStr (ar_classification a)), (''message'', PStr (ar_message a)),
      (''probable_cause'', PStr (ar_probable_cause a)), (''next_action'', PStr (ar_next_action a)),
      (''severity'', PStr (ar_severity a)), (''ghost_ids'', py_strs (ar_ghosts a)),
      (''claim_ids'', py_strs (ar_claims a)), (''repair_package_ids'', py_strs (ar_repairs a)),
      (''evidence_ids'', py_strs (ar_evidence a)), (''resolved'', PBool (ar_resolved a)),
      (''verification_evidence_ids'', py_strs (ar_verified a)),
      (''gaps'', PDict (map (\<lambda>(k, vs). (k, py_strs vs)) (ar_gaps a)))]"

definition archaeology_memory_key :: "platform \<Rightarrow> archaeology_record \<Rightarrow> string" where
  "archaeology_memory_key p a =
     take 32 (digest p [ar_failure_id a, ''FAILURE_ARCHAEOLOGY'', ar_code a, join '','' (ar_ghosts a)])"

datatype archaeology_error = TaskRequired | FailureRequired | FailureUnresolved

definition failure_event :: "archaeology_record \<Rightarrow> task_row \<Rightarrow> event_kind \<Rightarrow> json \<Rightarrow> event_draft" where
  "failure_event a t kind payload =
     \<lparr>dr_entity_type = ''Failure'', dr_entity_id = ar_failure_id a, dr_kind = kind, dr_task = ts_id t,
      dr_actor = ''failure-archaeology'', dr_payload = payload\<rparr>"

definition insert_memory :: "memory_row \<Rightarrow> db \<Rightarrow> memory_row \<times> db" where
  "insert_memory r d =
     (let (u, d1) = db_uuid d; (t, d2) = db_now d1; row = r\<lparr>mu_id := u, mu_created := t\<rparr>
      in (row, d2\<lparr>memories := memories d2 @ [row]\<rparr>))"

definition memory_by_ref :: "db \<Rightarrow> string \<Rightarrow> memory_row option" where
  "memory_by_ref d k = find (\<lambda>r. mu_ref r = Some k) (memories d)"

text \<open>The evidence of the failure first, then what the caller passes that is not there yet.\<close>

definition bound_evidence :: "platform \<Rightarrow> db \<Rightarrow> failure_row \<Rightarrow> reference list \<Rightarrow> string list" where
  "bound_evidence p d f refs =
     dedup ((case fl_evidence f of None \<Rightarrow> [] | Some k \<Rightarrow> if get_evidence d k = None then [] else [k])
            @ resolved p (map en_id (evidence d)) refs)"

definition verified_evidence :: "db \<Rightarrow> string \<Rightarrow> string list \<Rightarrow> string list" where
  "verified_evidence d t claim_keys =
     dedup (concat (map (\<lambda>k. map en_id (evidence_for_claim d k)) claim_keys)
            @ map en_id (filter (\<lambda>r. en_task r = Some t \<and> en_case r \<noteq> None) (evidence d)))"

definition gap_entry :: "string \<Rightarrow> string list \<Rightarrow> (string \<times> string list) list" where
  "gap_entry k vs = (if vs = [] then [] else [(k, vs)])"

definition archaeology_of ::
    "platform \<Rightarrow> db \<Rightarrow> task_row \<Rightarrow> failure_row \<Rightarrow> reference list \<Rightarrow> reference list \<Rightarrow> reference list \<Rightarrow>
     reference list \<Rightarrow> archaeology_record" where
  "archaeology_of p d t f ghost_refs claim_refs repair_refs evidence_refs =
     (let claim_keys = resolved p (map cl_id (claims d)) claim_refs in
      \<lparr>ar_failure_id = fl_id f, ar_code = derive_failure_code (fl_message f),
       ar_classification = fl_classification f, ar_message = fl_message f,
       ar_probable_cause = or_empty (fl_probable_cause f), ar_next_action = or_empty (fl_next_action f),
       ar_severity = fl_severity f, ar_ghosts = resolved p (ghosts d) ghost_refs, ar_claims = claim_keys,
       ar_repairs = resolved p (map rp_id (repairs d)) repair_refs,
       ar_evidence = bound_evidence p d f evidence_refs, ar_resolved = fl_resolved f,
       ar_verified = verified_evidence d (ts_id t) claim_keys,
       ar_gaps = gap_entry ''ghost_ids'' (gaps_of p (ghosts d) ghost_refs)
         @ gap_entry ''claim_ids'' (gaps_of p (map cl_id (claims d)) claim_refs)
         @ gap_entry ''repair_package_ids'' (gaps_of p (map rp_id (repairs d)) repair_refs)
         @ gap_entry ''evidence_ids'' (gaps_of p (map en_id (evidence d)) evidence_refs)\<rparr>)"

definition archaeology_events :: "archaeology_record \<Rightarrow> task_row \<Rightarrow> db \<Rightarrow> db" where
  "archaeology_events a t d =
     (let d1 = record_task_event (failure_event a t FAILURE_CLASSIFIED
                 [(''failure_code'', PStr (ar_code a)), (''classification'', PStr (ar_classification a))]) d;
          d2 = (if ar_repairs a = [] then d1 else record_task_event (failure_event a t REPAIR
                 [(''repair_package_ids'', py_strs (ar_repairs a))]) d1)
      in if ar_verified a = [] then d2 else record_task_event (failure_event a t REVERIFICATION
           [(''verification_evidence_ids'', py_strs (ar_verified a))]) d2)"

definition archaeology_summary :: "platform \<Rightarrow> archaeology_record \<Rightarrow> task_row \<Rightarrow> db \<Rightarrow> db" where
  "archaeology_summary p a t d =
     (if memory_by_ref d (archaeology_memory_key p a) = None then
        snd (insert_memory
          \<lparr>mu_id = [], mu_project = ts_project t, mu_certificate = None, mu_task = Some (ts_id t), mu_evidence = None,
           mu_kind = ''FAILURE_ARCHAEOLOGY'',
           mu_summary = Some (''Preserved failure archaeology for '' @ ar_code a @ '': '' @ ar_message a),
           mu_content = archaeology_dict a, mu_applied = False, mu_created_by = Some ''failure-archaeology'',
           mu_ref = Some (archaeology_memory_key p a), mu_created = 0\<rparr> d)
      else d)"

definition persist_archaeology ::
    "platform \<Rightarrow> task_row option \<Rightarrow> reference \<Rightarrow> reference list \<Rightarrow> reference list \<Rightarrow> reference list \<Rightarrow>
     reference list \<Rightarrow> bool \<Rightarrow> db \<Rightarrow> (archaeology_error + archaeology_record) \<times> db" where
  "persist_archaeology p task failure ghost_refs claim_refs repair_refs evidence_refs persist_summary d =
     (case task of None \<Rightarrow> (Inl TaskRequired, d) | Some t \<Rightarrow>
      if failure = RefNone then (Inl FailureRequired, d) else
      (case resolve_ref p (map fl_id (failures d)) failure of None \<Rightarrow> (Inl FailureUnresolved, d) | Some k \<Rightarrow>
       (case get_failure d k of None \<Rightarrow> (Inl FailureUnresolved, d) | Some f \<Rightarrow>
         let a = archaeology_of p d t f ghost_refs claim_refs repair_refs evidence_refs;
             d1 = archaeology_events a t d
         in (Inr a, if persist_summary then archaeology_summary p a t d1 else d1))))"

section \<open>The memory pipeline (memory.py)\<close>

record memory_record =
  mr_ids :: "string list"
  mr_applied :: bool
  mr_certificate :: string
  mr_summary :: string

datatype memory_error = CertificateRequired | MemoryTaskRequired | ArchaeologyRequired

fun update_first :: "('a \<Rightarrow> bool) \<Rightarrow> ('a \<Rightarrow> 'a) \<Rightarrow> 'a list \<Rightarrow> 'a list" where
  "update_first P f [] = []"
| "update_first P f (x # xs) = (if P x then f x # xs else x # update_first P f xs)"

definition get_or_create_memory :: "string \<Rightarrow> memory_row \<Rightarrow> db \<Rightarrow> memory_row \<times> db" where
  "get_or_create_memory k r d =
     (case memory_by_ref d k of
        Some old \<Rightarrow> (old\<lparr>mu_applied := True\<rparr>,
          d\<lparr>memories := update_first (\<lambda>r. mu_ref r = Some k) (\<lambda>r. r\<lparr>mu_applied := True\<rparr>) (memories d)\<rparr>)
      | None \<Rightarrow> insert_memory r d)"

text \<open>The evidence of the binding, or the first one of the traversal.\<close>

definition certificate_evidence :: "platform \<Rightarrow> db \<Rightarrow> evidence_row list \<Rightarrow> evidence_row option" where
  "certificate_evidence p d rows =
     (case (case find (\<lambda>r. en_type r = ''CERTIFICATE_BINDING'') rows of
              Some r \<Rightarrow> Some r
            | None \<Rightarrow> (if rows = [] then None else Some (hd rows))) of
        None \<Rightarrow> None
      | Some r \<Rightarrow> (case parse_uuid p (en_id r) of None \<Rightarrow> None | Some u \<Rightarrow> get_evidence d u))"

definition or_na :: "string option \<Rightarrow> string" where
  "or_na x = (case x of None \<Rightarrow> ''n/a'' | Some s \<Rightarrow> if s = [] then ''n/a'' else s)"

definition memory_event :: "memory_row \<Rightarrow> task_row \<Rightarrow> event_draft" where
  "memory_event m t =
     \<lparr>dr_entity_type = ''MemoryUpdate'', dr_entity_id = mu_id m, dr_kind = MEMORY_UPDATE, dr_task = ts_id t,
      dr_actor = ''memory-evolution'', dr_payload = [(''memory_ref'', opt_str (mu_ref m)),
        (''applied'', PBool (mu_applied m)), (''kind'', PStr (mu_kind m))]\<rparr>"

definition memory_row_of ::
    "string \<Rightarrow> string \<Rightarrow> string \<Rightarrow> json \<Rightarrow> certificate_row \<Rightarrow> task_row \<Rightarrow> evidence_row option \<Rightarrow> memory_row" where
  "memory_row_of k kind summary content c t e =
     \<lparr>mu_id = [], mu_project = ts_project t, mu_certificate = Some (ct_id c), mu_task = Some (ts_id t),
      mu_evidence = map_option en_id e, mu_kind = kind, mu_summary = Some summary, mu_content = content,
      mu_applied = True, mu_created_by = Some ''memory-evolution'', mu_ref = Some k, mu_created = 0\<rparr>"

definition certification_ref :: "platform \<Rightarrow> certificate_row \<Rightarrow> task_row \<Rightarrow> archaeology_record \<Rightarrow> string" where
  "certification_ref p c t a = take 32 (digest p [ct_key c, ''CERTIFICATION'', ts_id t, ar_code a])"

definition delta_fields :: "delta_row list \<Rightarrow> string option \<times> string option" where
  "delta_fields rs = (if rs = [] then (None, None) else (bd_metric (hd rs), Some (bd_direction (hd rs))))"

definition delta_fields_dict :: "string option \<times> string option \<Rightarrow> pyval" where
  "delta_fields_dict x = PDict [(''metric'', opt_str (fst x)), (''direction'', opt_str (snd x))]"

definition ghost_summary :: "archaeology_record \<Rightarrow> string" where
  "ghost_summary a = (let s = join '', '' (ar_ghosts a) in if s = [] then ''n/a'' else s)"

definition future_context :: "certificate_row \<Rightarrow> archaeology_record \<Rightarrow> string option \<times> string option \<Rightarrow> string" where
  "future_context c a x =
     ''Future changes must preserve the certified behavior of '' @ ct_key c @ '' and keep '' @ ar_code a @
     '' (ghost '' @ ghost_summary a @ '') closed; delta '' @ or_na (fst x) @ '' -> '' @ or_na (snd x) @ ''.''"

definition certification_summary ::
    "certificate_row \<Rightarrow> task_row \<Rightarrow> archaeology_record \<Rightarrow> string option \<times> string option \<Rightarrow> string" where
  "certification_summary c t a x =
     ''Certified task '' @ ts_id t @ '': '' @ ct_key c @ '' is CERTIFIED with failure '' @ ar_code a @
     '' preserved, ghost '' @ ghost_summary a @ '', delta '' @ or_na (fst x) @ '' '' @ or_na (snd x) @ ''.''"

definition certification_content ::
    "certificate_row \<Rightarrow> task_row \<Rightarrow> change_row option \<Rightarrow> archaeology_record \<Rightarrow> string option \<times> string option \<Rightarrow> json" where
  "certification_content c t ch a x =
     [(''change'', opt_str (map_option ch_id ch)), (''task'', PStr (ts_id t)), (''certificate_key'', PStr (ct_key c)),
      (''certificate_status'', PStr (ct_status c)), (''failure_code'', PStr (ar_code a)),
      (''ghost_replay'', py_strs (ar_ghosts a)), (''delta'', delta_fields_dict x),
      (''future_context'', PStr (future_context c a x))]"

definition archaeology_content ::
    "certificate_row \<Rightarrow> archaeology_record \<Rightarrow> string option \<times> string option \<Rightarrow> json" where
  "archaeology_content c a x =
     archaeology_dict a @ [(''certificate_key'', PStr (ct_key c)), (''delta'', delta_fields_dict x),
       (''future_context'', PStr (future_context c a x))]"

definition applied_summary :: "certificate_row \<Rightarrow> archaeology_record \<Rightarrow> string" where
  "applied_summary c a = ''Applied preserved failure archaeology '' @ ar_code a @ '' under '' @ ct_key c @ ''.''"

text \<open>The two memory rows of a run, as they are created when no row has their reference.\<close>

definition certification_memory ::
    "platform \<Rightarrow> certificate_row \<Rightarrow> task_row \<Rightarrow> change_row option \<Rightarrow> archaeology_record \<Rightarrow> db \<Rightarrow> memory_row" where
  "certification_memory p c t ch a d =
     (let x = delta_fields (certificate_deltas d (ct_id c))
      in memory_row_of (certification_ref p c t a) ''CERTIFICATION'' (certification_summary c t a x)
           (certification_content c t ch a x) c t (certificate_evidence p d (traversal_evidence d c)))"

definition archaeology_memory ::
    "platform \<Rightarrow> certificate_row \<Rightarrow> task_row \<Rightarrow> archaeology_record \<Rightarrow> db \<Rightarrow> memory_row" where
  "archaeology_memory p c t a d =
     memory_row_of (archaeology_memory_key p a) ''FAILURE_ARCHAEOLOGY'' (applied_summary c a)
       (archaeology_content c a (delta_fields (certificate_deltas d (ct_id c)))) c t
       (certificate_evidence p d (traversal_evidence d c))"

definition run_memory_pipeline ::
    "platform \<Rightarrow> certificate_row option \<Rightarrow> task_row option \<Rightarrow> change_row option \<Rightarrow> archaeology_record option \<Rightarrow> db \<Rightarrow>
     (memory_error + memory_record) \<times> db" where
  "run_memory_pipeline p certificate task change archaeology d =
     (case certificate of None \<Rightarrow> (Inl CertificateRequired, d) | Some c \<Rightarrow>
      (case task of None \<Rightarrow> (Inl MemoryTaskRequired, d) | Some t \<Rightarrow>
      (case archaeology of None \<Rightarrow> (Inl ArchaeologyRequired, d) | Some a \<Rightarrow>
        if ct_status c \<noteq> ''CERTIFIED'' then
          (Inr \<lparr>mr_ids = [], mr_applied = False, mr_certificate = ct_id c,
             mr_summary = ''memory pipeline blocked: certificate '' @ ct_key c @ '' has status '' @ ct_status c @
               ''; memory is written only after CERTIFIED''\<rparr>, d)
        else
          let (m1, d1) = get_or_create_memory (certification_ref p c t a) (certification_memory p c t change a d) d;
              (m2, d2) = get_or_create_memory (archaeology_memory_key p a) (archaeology_memory p c t a d) d1;
              d3 = record_task_event (memory_event m2 t) (record_task_event (memory_event m1 t) d2)
          in (Inr \<lparr>mr_ids = [mu_id m1, mu_id m2], mr_applied = True, mr_certificate = ct_id c,
                mr_summary = certification_summary c t a (delta_fields (certificate_deltas d (ct_id c)))\<rparr>, d3))))"

definition memory_for_task :: "db \<Rightarrow> task_row \<Rightarrow> memory_row list" where
  "memory_for_task d t =
     sort_key (\<lambda>r. (mu_created r, mu_id r)) (filter (\<lambda>r. mu_task r = Some (ts_id t)) (memories d))"

section \<open>Lemmas\<close>

lemma map_update_first: "(\<And>x. g (f x) = g x) \<Longrightarrow> map g (update_first P f xs) = map g xs"
  by (induction xs) auto

lemma find_update_first: "(\<And>x. P (f x) \<longleftrightarrow> P x) \<Longrightarrow> find P (update_first P f xs) = map_option f (find P xs)"
  by (induction xs) auto

lemma find_update_other:
  "(\<And>x. Q (f x) \<longleftrightarrow> Q x) \<Longrightarrow> find Q xs = Some y \<Longrightarrow> \<exists>z. find Q (update_first P f xs) = Some z \<and> (z = y \<or> z = f y)"
  by (induction xs) auto

lemma update_first_id: "find P xs = Some y \<Longrightarrow> f y = y \<Longrightarrow> update_first P f xs = xs"
  by (induction xs) (auto split: if_splits)

lemma find_snoc_Some: "find P xs = Some y \<Longrightarrow> find P (xs @ [x]) = Some y"
  by (induction xs) auto

text \<open>The row of a reference after it was got or created: present and applied, with the key returned.\<close>

definition remembered :: "db \<Rightarrow> string \<Rightarrow> string \<Rightarrow> bool" where
  "remembered d k i \<longleftrightarrow> (\<exists>m. memory_by_ref d k = Some m \<and> mu_applied m \<and> mu_id m = i)"

lemma insert_memory_rows:
  "fst (insert_memory r d) = r\<lparr>mu_id := fst (db_uuid d), mu_created := fst (db_now (snd (db_uuid d)))\<rparr> \<and>
   memories (snd (insert_memory r d)) = memories d @ [fst (insert_memory r d)]"
  by (simp add: insert_memory_def case_prod_unfold Let_def)

lemma get_or_create_remembers:
  assumes "get_or_create_memory k r d = (m, D)" "mu_ref r = Some k" "mu_applied r"
  shows "remembered D k (mu_id m) \<and> mu_applied m"
proof (cases "memory_by_ref d k")
  case None
  with assms(1) have "insert_memory r d = (m, D)" by (simp add: get_or_create_memory_def)
  with insert_memory_rows [of r d] assms(2,3) None show ?thesis
    by (auto simp: remembered_def memory_by_ref_def find_snoc)
next
  case (Some old)
  with assms(1) show ?thesis
    by (auto simp: get_or_create_memory_def remembered_def memory_by_ref_def find_update_first)
qed

lemma get_or_create_keeps:
  assumes "remembered d k' i" "get_or_create_memory k r d = (m, D)"
  shows "remembered D k' i"
proof (cases "memory_by_ref d k")
  case None
  with assms(2) have "memories D = memories d @ [m]"
    using insert_memory_rows [of r d] by (simp add: get_or_create_memory_def)
  with assms(1) show ?thesis by (auto simp: remembered_def memory_by_ref_def find_snoc_Some)
next
  case (Some old)
  let ?f = "\<lambda>r. r\<lparr>mu_applied := True\<rparr>"
  obtain y where y: "find (\<lambda>r. mu_ref r = Some k') (memories d) = Some y" "mu_applied y" "mu_id y = i"
    using assms(1) by (auto simp: remembered_def memory_by_ref_def)
  have "memories D = update_first (\<lambda>r. mu_ref r = Some k) ?f (memories d)"
    using Some assms(2) by (auto simp: get_or_create_memory_def)
  moreover obtain z where "find (\<lambda>r. mu_ref r = Some k') (update_first (\<lambda>r. mu_ref r = Some k) ?f (memories d)) = Some z"
      "z = y \<or> z = ?f y"
    using find_update_other [where Q = "\<lambda>r. mu_ref r = Some k'" and f = ?f, OF _ y(1)] by auto
  ultimately show ?thesis using y by (auto simp: remembered_def memory_by_ref_def)
qed

text \<open>Getting a row that is there and applied changes nothing.\<close>

lemma get_or_create_again:
  assumes "remembered d k i"
  shows "\<exists>m. get_or_create_memory k r d = (m, d) \<and> mu_id m = i \<and> mu_applied m"
proof -
  obtain m where m: "memory_by_ref d k = Some m" "mu_applied m" "mu_id m = i" using assms by (auto simp: remembered_def)
  have "m\<lparr>mu_applied := True\<rparr> = m" using m(2) by (cases m) simp
  moreover from this have "update_first (\<lambda>r. mu_ref r = Some k) (\<lambda>r. r\<lparr>mu_applied := True\<rparr>) (memories d) = memories d"
    using m(1) by (intro update_first_id [of _ _ m]) (simp_all add: memory_by_ref_def)
  ultimately show ?thesis using m by (simp add: get_or_create_memory_def)
qed

lemma record_task_event_memories: "memories (record_task_event f d) = memories d"
  using record_task_event_fields [of f d] by auto

lemma remembered_cong: "memories d' = memories d \<Longrightarrow> remembered d' k i = remembered d k i"
  by (simp add: remembered_def memory_by_ref_def)

text \<open>What a run of the pipeline under a certificate leaves.\<close>

lemma pipeline_run:
  assumes "ct_status c = ''CERTIFIED''"
    and "get_or_create_memory (certification_ref p c t a) (certification_memory p c t ch a d) d = (m1, d1)"
    and "get_or_create_memory (archaeology_memory_key p a) (archaeology_memory p c t a d) d1 = (m2, d2)"
  shows "run_memory_pipeline p (Some c) (Some t) ch (Some a) d =
    (Inr \<lparr>mr_ids = [mu_id m1, mu_id m2], mr_applied = True, mr_certificate = ct_id c,
        mr_summary = certification_summary c t a (delta_fields (certificate_deltas d (ct_id c)))\<rparr>,
     record_task_event (memory_event m2 t) (record_task_event (memory_event m1 t) d2))"
  using assms by (simp add: run_memory_pipeline_def)

lemma pipeline_returns:
  assumes "ct_status c = ''CERTIFIED''"
  obtains r D where "run_memory_pipeline p (Some c) (Some t) ch (Some a) d = (Inr r, D)"
proof -
  obtain m1 d1 where m1: "get_or_create_memory (certification_ref p c t a) (certification_memory p c t ch a d) d = (m1, d1)"
    by fastforce
  obtain m2 d2 where "get_or_create_memory (archaeology_memory_key p a) (archaeology_memory p c t a d) d1 = (m2, d2)"
    by fastforce
  from that [OF pipeline_run [OF assms m1 this]] show thesis .
qed

lemma pipeline_effect:
  assumes "ct_status c = ''CERTIFIED''" "run_memory_pipeline p (Some c) (Some t) ch (Some a) d = (Inr r, D)"
  obtains i j where "mr_ids r = [i, j]" "mr_applied r" "remembered D (certification_ref p c t a) i"
    "remembered D (archaeology_memory_key p a) j"
proof -
  obtain m1 d1 where m1: "get_or_create_memory (certification_ref p c t a) (certification_memory p c t ch a d) d = (m1, d1)"
    by fastforce
  obtain m2 d2 where m2: "get_or_create_memory (archaeology_memory_key p a) (archaeology_memory p c t a d) d1 = (m2, d2)"
    by fastforce
  have rem: "remembered d2 (certification_ref p c t a) (mu_id m1)" "remembered d2 (archaeology_memory_key p a) (mu_id m2)"
    using get_or_create_remembers [OF m1] get_or_create_remembers [OF m2] get_or_create_keeps [OF _ m2]
    by (simp_all add: certification_memory_def archaeology_memory_def memory_row_of_def Let_def)
  have "memories D = memories d2 \<and> mr_ids r = [mu_id m1, mu_id m2] \<and> mr_applied r"
    using pipeline_run [OF assms(1) m1 m2] unfolding assms(2) by (simp add: record_task_event_memories)
  with rem show thesis by (intro that) (simp_all add: remembered_cong [of D d2])
qed

lemma pipeline_again:
  assumes "ct_status c = ''CERTIFIED''" "remembered d (certification_ref p c t a) i" "remembered d (archaeology_memory_key p a) j"
  shows "\<exists>r D. run_memory_pipeline p (Some c) (Some t) ch (Some a) d = (Inr r, D) \<and> mr_ids r = [i, j] \<and> memories D = memories d"
proof -
  obtain m1 m2 where m: "get_or_create_memory (certification_ref p c t a) (certification_memory p c t ch a d) d = (m1, d)" "mu_id m1 = i"
      "get_or_create_memory (archaeology_memory_key p a) (archaeology_memory p c t a d) d = (m2, d)" "mu_id m2 = j"
    using get_or_create_again [OF assms(2)] get_or_create_again [OF assms(3)] by blast
  show ?thesis
    by (simp add: pipeline_run [OF assms(1) m(1,3)] record_task_event_memories m)
qed

section \<open>Properties\<close>

text \<open>
  C25. Memory is written only under a CERTIFIED certificate and only once: a run of the pipeline under any
  other certificate changes nothing; under a CERTIFIED one it returns the keys of two applied memory rows,
  and running it again, for whatever change, returns the same keys and adds and changes no memory row; the two
  events of a run are recorded again.
\<close>
theorem memory_certified_and_idempotent:
  assumes "run_memory_pipeline p (Some c) (Some t) ch (Some a) d = (Inr r, D)"
  shows "(ct_status c \<noteq> ''CERTIFIED'' \<longrightarrow> D = d \<and> \<not> mr_applied r) \<and>
    (ct_status c = ''CERTIFIED'' \<longrightarrow> mr_applied r \<and>
      (\<exists>m m'. m \<in> set (memories D) \<and> mu_applied m \<and> m' \<in> set (memories D) \<and> mu_applied m' \<and> mr_ids r = [mu_id m, mu_id m']) \<and>
      (\<exists>r' D'. run_memory_pipeline p (Some c) (Some t) ch' (Some a) D = (Inr r', D') \<and>
         mr_ids r' = mr_ids r \<and> memories D' = memories D))"
proof (cases "ct_status c = ''CERTIFIED''")
  case False
  with assms show ?thesis by (auto simp: run_memory_pipeline_def)
next
  case True
  obtain i j where *: "mr_ids r = [i, j]" "mr_applied r" "remembered D (certification_ref p c t a) i"
      "remembered D (archaeology_memory_key p a) j"
    by (rule pipeline_effect [OF True assms])
  then obtain m m' where "m \<in> set (memories D)" "mu_applied m" "mu_id m = i" "m' \<in> set (memories D)" "mu_applied m'" "mu_id m' = j"
    unfolding remembered_def memory_by_ref_def by (metis find_keyed)
  with * pipeline_again [OF True *(3,4)] True show ?thesis by auto
qed

text \<open>
  Archaeology loses no reference: each one is resolved or reported as a gap, and the rows it reads stay
  as they are.
\<close>

lemma refs_accounted: "length (resolved p keys refs) + length (gaps_of p keys refs) = length refs"
  by (induction refs) (auto simp: resolved_def gaps_of_def List.map_filter_simps split: option.splits)

definition demo_archaeology :: archaeology_record where
  "demo_archaeology =
     \<lparr>ar_failure_id = ''f'', ar_code = ''F-183'', ar_classification = ''F2_UNIT_TEST'', ar_message = ''F-183: stale token'',
      ar_probable_cause = [], ar_next_action = [], ar_severity = ''HIGH'', ar_ghosts = [''g''], ar_claims = [], ar_repairs = [],
      ar_evidence = [], ar_resolved = False, ar_verified = [], ar_gaps = []\<rparr>"

lemma demo_failure_code:
  "derive_failure_code ''see F-183: stale'' = ''F-183''" "derive_failure_code ''XF-183'' = ''UNKNOWN''"
  "derive_failure_code ''F-1234567 F-12_ F-7'' = ''F-7''"
  by code_simp+

theorem memory_certified_and_idempotent_witness:
  "let c = (fresh_certificate ''u'' ''key'' (demo_task ''t'' ''c'') demo_claim)\<lparr>ct_status := ''CERTIFIED''\<rparr> in
   \<exists>r D r' D'. run_memory_pipeline demo_platform (Some c) (Some (demo_task ''t'' ''c'')) None (Some demo_archaeology) demo_db = (Inr r, D) \<and>
     mr_applied r \<and>
     run_memory_pipeline demo_platform (Some c) (Some (demo_task ''t'' ''c'')) None (Some demo_archaeology) D = (Inr r', D') \<and>
     mr_ids r' = mr_ids r \<and> memories D' = memories D"
proof -
  let ?c = "(fresh_certificate ''u'' ''key'' (demo_task ''t'' ''c'') demo_claim)\<lparr>ct_status := ''CERTIFIED''\<rparr>"
  have certified: "ct_status ?c = ''CERTIFIED''" by simp
  obtain r D where run: "run_memory_pipeline demo_platform (Some ?c) (Some (demo_task ''t'' ''c'')) None (Some demo_archaeology) demo_db = (Inr r, D)"
    by (rule pipeline_returns [OF certified])
  from memory_certified_and_idempotent [OF run, of None] run certified show ?thesis
    unfolding Let_def by blast
qed

end
