(* ===== verification/Workflow.thy ===== *)
theory Workflow
  imports Merge_Gate Memory
begin

text \<open>
  \<open>workflow/orchestrate.py\<close>: the end-to-end journey of a change over the certification modules. A segment
  of phases runs against a scenario; each phase records an event of the run and may stop the journey with
  an honest BLOCKED result. The lemmas show what every journey leaves: a journal of its run that replays,
  and tasks that only the merge gate has changed.
\<close>

section \<open>Phases, scenario, result\<close>

definition phase_event_kind :: "string \<Rightarrow> event_kind" where
  "phase_event_kind f =
     (case map_of
        [(''discover'', TASK_RECEIVED), (''govern'', PLAN_GENERATED), (''define'', ACTION_EXECUTED),
         (''analyze'', EVIDENCE_RECORDED), (''lock'', PATCH_GENERATED), (''develop'', RESULT_OBSERVED),
         (''verify'', VERIFICATION_RUN), (''decide'', BEHAVIORAL_DELTA), (''reverify'', REVERIFICATION),
         (''certify'', CERTIFICATION), (''merge'', MERGE), (''memory'', MEMORY_UPDATE)] f of
        Some k \<Rightarrow> k | None \<Rightarrow> ACTION_EXECUTED)"

definition workflow_id :: "platform \<Rightarrow> string \<Rightarrow> string" where
  "workflow_id p token = uuid5 p token"

record scenario =
  sc_scenario :: string
  sc_task :: task_row
  sc_change :: change_row
  sc_patch :: string
  sc_ghost :: string
  sc_failure :: failure_row
  sc_claim :: claim_row
  sc_repair :: string
  sc_run_token :: string
  sc_evidence :: "evidence_row list"

datatype workflow_error =
    NoPhases | UnknownPhase string | PhasesNotOrdered | NotAtDiscover | ScenarioMissing | RoleRowsMissing
  | ArchaeologyRowsMissing | ReverifyError reverify_error | BuildError build_error | GateError gate_error
  | ArchaeologyError archaeology_error | MemoryError memory_error

record workflow_result =
  wr_scenario :: string
  wr_task :: string
  wr_status :: string
  wr_steps :: "(string \<times> string) list list"
  wr_events_written :: nat
  wr_certificate_key :: "string option"
  wr_certificate_status :: "string option"
  wr_merged :: bool
  wr_memory_applied :: bool
  wr_blocked_reason :: "string option"
  wr_state :: string
  wr_completed :: "string list"
  wr_replayable :: bool
  wr_evidence_hashes :: "string list"

definition VERIFICATION_EVIDENCE_TYPES :: "string list" where
  "VERIFICATION_EVIDENCE_TYPES =
     [''STATIC_ANALYSIS'', ''DIFFERENTIAL_EXECUTION'', ''HISTORICAL_GHOST_REPLAY'', ''METAMORPHIC_CHECK'',
      ''ADVERSARIAL_SCENARIO'', ''MUTATION_TEST'', ''TEST_RESULT'']"

definition verification_evidence :: "db \<Rightarrow> string \<Rightarrow> evidence_row list" where
  "verification_evidence d t = filter (\<lambda>r. en_type r \<in> set VERIFICATION_EVIDENCE_TYPES) (evidence_for_task d t)"

definition first_row :: "'a list \<Rightarrow> 'a option" where
  "first_row xs = (if xs = [] then None else Some (hd xs))"

text \<open>The scenario of the rows that are there; \<open>seed\<close> materializes the demo data set.\<close>

definition demo_claim_row :: "db \<Rightarrow> task_row \<Rightarrow> claim_row option" where
  "demo_claim_row d t = first_row (sort_key cl_created (filter (\<lambda>r. cl_task r = Some (ts_id t)) (claims d)))"

definition demo_failure_row :: "db \<Rightarrow> task_row \<Rightarrow> failure_row option" where
  "demo_failure_row d t = first_row (sort_key fl_created (filter (\<lambda>r. fl_task r = Some (ts_id t)) (failures d)))"

definition demo_repair_row :: "db \<Rightarrow> task_row \<Rightarrow> repair_row option" where
  "demo_repair_row d t = first_row (sort_key rp_created (filter (\<lambda>r. rp_task r = Some (ts_id t)) (repairs d)))"

definition demo_patch_row :: "db \<Rightarrow> task_row \<Rightarrow> patch_row option" where
  "demo_patch_row d t =
     first_row (sort_key (\<lambda>r. - cp_index r) (filter (\<lambda>r. cp_task r = ts_id t \<and> cp_status r = ''VERIFIED'') (patches d)))"

definition scenario_of :: "platform \<Rightarrow> db \<Rightarrow> string \<Rightarrow> task_row \<Rightarrow> workflow_error + scenario" where
  "scenario_of p d name t =
     (let project = (ts_project t \<in> set (projects d));
          repository = (case ts_repository t of None \<Rightarrow> False | Some k \<Rightarrow> k \<in> set (repositories d));
          change = (case ts_change t of None \<Rightarrow> None | Some k \<Rightarrow> get_change d k);
          ghost = workflow_id p ''demo/ghost/221''
      in case (project \<and> repository, change, demo_claim_row d t) of
           (True, Some ch, Some c) \<Rightarrow>
             (case (ghost \<in> set (ghosts d), demo_failure_row d t, demo_repair_row d t, demo_patch_row d t) of
                (True, Some f, Some r, Some cp) \<Rightarrow> Inr
                  \<lparr>sc_scenario = name, sc_task = t, sc_change = ch, sc_patch = cp_id cp, sc_ghost = ghost,
                   sc_failure = f, sc_claim = c, sc_repair = rp_id r, sc_run_token = ''e2e/run/AUTH-017'',
                   sc_evidence = verification_evidence d (ts_id t)\<rparr>
              | _ \<Rightarrow> Inl ArchaeologyRowsMissing)
         | _ \<Rightarrow> Inl RoleRowsMissing)"

definition build_demo_scenario ::
    "platform \<Rightarrow> (db \<Rightarrow> db) \<Rightarrow> bool \<Rightarrow> string \<Rightarrow> db \<Rightarrow> (workflow_error + scenario) \<times> db" where
  "build_demo_scenario p seeder seed name d =
     (let k = workflow_id p ''demo/task/AUTH-017'';
          d' = (if get_task d k = None \<and> seed then seeder d else d)
      in (case get_task d' k of None \<Rightarrow> Inl ScenarioMissing | Some t \<Rightarrow> scenario_of p d' name t, d'))"

definition is_certifiable :: "bool \<Rightarrow> string \<Rightarrow> bool" where
  "is_certifiable aligned status \<longleftrightarrow> aligned \<and> status = ''CERTIFIABLE''"

text \<open>Known phases in strictly rising positions.\<close>

fun check_phases :: "nat option \<Rightarrow> string list \<Rightarrow> workflow_error option" where
  "check_phases prev [] = None"
| "check_phases prev (f # fs) =
     (if f \<notin> set DEFAULT_PHASES then Some (UnknownPhase f)
      else if (case prev of None \<Rightarrow> False | Some n \<Rightarrow> phase_position f \<le> n) then Some PhasesNotOrdered
      else check_phases (Some (phase_position f)) fs)"

definition validate_phases :: "string list \<Rightarrow> workflow_error option" where
  "validate_phases fs = (if fs = [] then Some NoPhases else check_phases None fs)"

definition task_evidence_hashes :: "db \<Rightarrow> string \<Rightarrow> string list" where
  "task_evidence_hashes d t = hashes_of (evidence_for_task d t)"

section \<open>The deterministic evidence cache\<close>

definition cache_rows :: "platform \<Rightarrow> db \<Rightarrow> string \<Rightarrow> event_row list" where
  "cache_rows p d k =
     filter (\<lambda>e. ce_entity_type e = ''CACHE'' \<and> ce_entity_id e = workflow_id p (''cache/'' @ k)) (events d)"

definition canonical_value :: "platform \<Rightarrow> pyval \<Rightarrow> string" where
  "canonical_value p v = dumps p (if truthy v then v else PDict [])"

definition cache_event :: "platform \<Rightarrow> string \<Rightarrow> pyval \<Rightarrow> string \<Rightarrow> int \<Rightarrow> event_row" where
  "cache_event p k v h t =
     \<lparr>ce_id = [], ce_entity_type = ''CACHE'', ce_entity_id = workflow_id p (''cache/'' @ k),
      ce_event_type = event_kind_value EVIDENCE_RECORDED, ce_occurred = Some t, ce_actor = Some ''workflow'',
      ce_payload = [(''key'', PStr k), (''digest'', PStr h), (''data'', v)], ce_provenance = None,
      ce_task = None, ce_run = None, ce_sequence = 0, ce_hash = Some h, ce_created = 0\<rparr>"

definition cache_deterministic_evidence :: "platform \<Rightarrow> string \<Rightarrow> pyval \<Rightarrow> db \<Rightarrow> (string \<times> bool) \<times> db" where
  "cache_deterministic_evidence p k v d =
     (let h = digest p [''deterministic-evidence'', k, canonical_value p v];
          stored = (case first_row (cache_rows p d k) of None \<Rightarrow> False | Some e \<Rightarrow> ce_hash e = Some h)
      in if stored then ((h, False), d)
         else let (t, d1) = db_now d in ((h, True), add_event (cache_event p k v h t) d1))"

text \<open>The newest row of the key.\<close>

definition read_cached_deterministic_evidence :: "platform \<Rightarrow> db \<Rightarrow> string \<Rightarrow> pyval" where
  "read_cached_deterministic_evidence p d k =
     (let rows = sort_key (\<lambda>e. (ce_created e, ce_id e)) (cache_rows p d k)
      in if rows = [] then PNone else get_key (ce_payload (last rows)) ''data'')"

section \<open>A segment of phases\<close>

record segment =
  sg_db :: db
  sg_steps :: "(string \<times> string) list list"
  sg_completed :: "string list"
  sg_verdict :: "alignment_verdict option"
  sg_bundle :: "certificate_bundle option"
  sg_certificate :: "certificate_row option"
  sg_merge :: "gate_verdict option"
  sg_memory :: bool

fun py_bool :: "bool \<Rightarrow> string" where
  "py_bool True = ''True''"
| "py_bool False = ''False''"

definition phase_draft :: "scenario \<Rightarrow> string \<Rightarrow> string \<Rightarrow> event_kind \<Rightarrow> json \<Rightarrow> event_draft" where
  "phase_draft sc entity k kind payload =
     \<lparr>dr_entity_type = entity, dr_entity_id = k, dr_kind = kind, dr_task = ts_id (sc_task sc),
      dr_actor = ''workflow'', dr_payload = payload\<rparr>"

text \<open>What a phase leaves: it raises, blocks the journey with a reason, or goes on.\<close>

datatype phase_outcome = Raise workflow_error | Block string | Proceed

text \<open>An event of the run, a step, and the phase in the list of completed ones.\<close>

definition finish_phase ::
    "platform \<Rightarrow> string \<Rightarrow> event_draft \<Rightarrow> string \<Rightarrow> (string \<times> string) list \<Rightarrow> segment \<Rightarrow> segment" where
  "finish_phase p run draft phase entry s =
     s\<lparr>sg_db := record_run_event p draft run (sg_db s), sg_steps := sg_steps s @ [entry],
       sg_completed := sg_completed s @ [phase]\<rparr>"

text \<open>The live row of a candidate patch.\<close>

definition reverify_phase :: "platform \<Rightarrow> scenario \<Rightarrow> string \<Rightarrow> reader \<Rightarrow> segment \<Rightarrow> phase_outcome \<times> segment" where
  "reverify_phase p sc run reader s =
     (case run_reverification p (get_patch (sg_db s) (sc_patch sc)) (Some reader) (sg_db s) of
        (Inl e, d) \<Rightarrow> (Raise (ReverifyError e), s\<lparr>sg_db := d\<rparr>)
      | (Inr rep, d) \<Rightarrow>
          (case rt_blocked_reason rep of None \<Rightarrow> Proceed | Some reason \<Rightarrow> Block reason,
           finish_phase p run
             (phase_draft sc ''CandidatePatch'' (sc_patch sc) REVERIFICATION
               [(''phase'', PStr ''reverify''), (''passed'', PBool (rt_passed rep)),
                (''blocked'', PBool (rt_blocked_reason rep \<noteq> None))])
             ''reverify'' [(''kind'', ''verification_run''), (''phase'', ''reverify''), (''passed'', py_bool (rt_passed rep))]
             (s\<lparr>sg_db := d\<rparr>)))"

definition disabled_reason :: string where
  "disabled_reason = ''require_certification=False; certification/merge/memory stages explicitly disabled''"

definition decide_phase :: "platform \<Rightarrow> scenario \<Rightarrow> string \<Rightarrow> bool \<Rightarrow> segment \<Rightarrow> phase_outcome \<times> segment" where
  "decide_phase p sc run require s =
     (let v = evaluate_alignment (sg_db s) (Some (sc_task sc)) None None
      in (if \<not> require then Block disabled_reason
          else if \<not> is_certifiable (av_aligned v) (av_status v)
            then Block (''intent alignment not certifiable (aligned='' @ py_bool (av_aligned v) @ '', unexplained='' @
                        str_int (int (av_unexplained v)) @ '')'')
          else Proceed,
          finish_phase p run
            (phase_draft sc ''Task'' (ts_id (sc_task sc)) BEHAVIORAL_DELTA
              [(''phase'', PStr ''decide''), (''status'', PStr (av_status v)), (''aligned'', PBool (av_aligned v)),
               (''unexplained_changes'', PInt (int (av_unexplained v)))])
            ''decide'' [(''kind'', ''intent_alignment''), (''phase'', ''decide''), (''status'', av_status v)]
            (s\<lparr>sg_verdict := Some v\<rparr>)))"

definition certify_phase :: "platform \<Rightarrow> scenario \<Rightarrow> string \<Rightarrow> segment \<Rightarrow> phase_outcome \<times> segment" where
  "certify_phase p sc run s =
     (case build_certificate p (Some (sc_task sc)) (Some (sc_change sc)) (Some (sc_claim sc)) (get_patch (sg_db s) (sc_patch sc))
             (case sg_verdict s of None \<Rightarrow> False | Some v \<Rightarrow> av_aligned v) (sc_evidence sc)
             (Some [(''provider'', PStr ''nebius''), (''sandbox'', PStr ''token-factory'')])
             (Some [(''token_refresh'', PStr ''hardened'')]) None (sg_db s) of
        (Inl e, d) \<Rightarrow> (Raise (BuildError e), s\<lparr>sg_db := d\<rparr>)
      | (Inr b, d) \<Rightarrow>
          (let key = cr_key (bu_certificate b); status = cr_status (bu_certificate b) in
           (if status \<noteq> ''CERTIFIED'' then Block (''certificate did not reach CERTIFIED (status='' @ status @ '')'') else Proceed,
            finish_phase p run
              (phase_draft sc ''Certificate'' (cl_id (sc_claim sc)) CERTIFICATION
                [(''phase'', PStr ''certify''), (''certificate_key'', PStr key), (''status'', PStr status)])
              ''certify'' [(''kind'', ''certification''), (''phase'', ''certify''), (''status'', status), (''certificate_key'', key)]
              (s\<lparr>sg_db := d, sg_bundle := Some b, sg_certificate := certificate_by_key d key\<rparr>))))"

definition merge_phase :: "platform \<Rightarrow> scenario \<Rightarrow> string \<Rightarrow> segment \<Rightarrow> phase_outcome \<times> segment" where
  "merge_phase p sc run s =
     (case evaluate_merge_gate p (sg_certificate s) (sg_verdict s) (get_patch (sg_db s) (sc_patch sc))
             (case sg_verdict s of None \<Rightarrow> [] | Some v \<Rightarrow> av_protected v) (sg_db s) of
        (Inl e, d) \<Rightarrow> (Raise (GateError e), s\<lparr>sg_db := d\<rparr>)
      | (Inr v, d) \<Rightarrow>
          (if gv_allowed v then Proceed else Block (''merge gate blocked: '' @ gv_reason v),
           finish_phase p run
             (phase_draft sc ''Task'' (ts_id (sc_task sc)) MERGE
               [(''phase'', PStr ''merge''), (''allowed'', PBool (gv_allowed v)), (''reason'', PStr (gv_reason v))])
             ''merge'' [(''kind'', ''merge''), (''phase'', ''merge''), (''allowed'', py_bool (gv_allowed v))]
             (s\<lparr>sg_db := d, sg_merge := Some v\<rparr>)))"

definition failure_evidence_ref :: "db \<Rightarrow> failure_row \<Rightarrow> reference" where
  "failure_evidence_ref d f =
     (case fl_evidence f of None \<Rightarrow> RefNone
      | Some k \<Rightarrow> (case get_evidence d k of None \<Rightarrow> RefNone | Some r \<Rightarrow> RefRow (en_id r)))"

definition memory_phase :: "platform \<Rightarrow> scenario \<Rightarrow> string \<Rightarrow> segment \<Rightarrow> phase_outcome \<times> segment" where
  "memory_phase p sc run s =
     (case persist_archaeology p (Some (sc_task sc)) (RefRow (fl_id (sc_failure sc))) [RefRow (sc_ghost sc)]
             [RefRow (cl_id (sc_claim sc))] [RefRow (sc_repair sc)] [failure_evidence_ref (sg_db s) (sc_failure sc)] True (sg_db s) of
        (Inl e, d) \<Rightarrow> (Raise (ArchaeologyError e), s\<lparr>sg_db := d\<rparr>)
      | (Inr a, d) \<Rightarrow>
         (case run_memory_pipeline p (sg_certificate s) (Some (sc_task sc)) (Some (sc_change sc)) (Some a) d of
            (Inl e, d') \<Rightarrow> (Raise (MemoryError e), s\<lparr>sg_db := d'\<rparr>)
          | (Inr m, d') \<Rightarrow>
              (Proceed,
               finish_phase p run
                 (phase_draft sc ''MemoryUpdate'' (ts_id (sc_task sc)) MEMORY_UPDATE
                   [(''phase'', PStr ''memory''), (''applied'', PBool (mr_applied m)), (''summary'', PStr (mr_summary m))])
                 ''memory'' [(''kind'', ''memory_update''), (''phase'', ''memory''), (''applied'', py_bool (mr_applied m))]
                 (s\<lparr>sg_db := d', sg_memory := mr_applied m\<rparr>))))"

definition plain_phase :: "platform \<Rightarrow> scenario \<Rightarrow> string \<Rightarrow> string \<Rightarrow> segment \<Rightarrow> phase_outcome \<times> segment" where
  "plain_phase p sc run f s =
     (Proceed, finish_phase p run
        (phase_draft sc ''Task'' (ts_id (sc_task sc)) (phase_event_kind f) [(''phase'', PStr f), (''blocked'', PBool False)])
        f [(''kind'', f), (''status'', ''ok'')] s)"

definition run_phase ::
    "platform \<Rightarrow> scenario \<Rightarrow> string \<Rightarrow> reader \<Rightarrow> bool \<Rightarrow> string \<Rightarrow> segment \<Rightarrow> phase_outcome \<times> segment" where
  "run_phase p sc run reader require f s =
     (if f = ''reverify'' then reverify_phase p sc run reader s
      else if f = ''decide'' then decide_phase p sc run require s
      else if f = ''certify'' then certify_phase p sc run s
      else if f = ''merge'' then merge_phase p sc run s
      else if f = ''memory'' then memory_phase p sc run s
      else plain_phase p sc run f s)"

fun run_segment_from ::
    "platform \<Rightarrow> scenario \<Rightarrow> string \<Rightarrow> reader \<Rightarrow> bool \<Rightarrow> string list \<Rightarrow> segment \<Rightarrow> phase_outcome \<times> segment" where
  "run_segment_from p sc run reader require [] s = (Proceed, s)"
| "run_segment_from p sc run reader require (f # fs) s =
     (case run_phase p sc run reader require f s of
        (Proceed, s') \<Rightarrow> run_segment_from p sc run reader require fs s'
      | stopped \<Rightarrow> stopped)"

definition blocked_result :: "platform \<Rightarrow> scenario \<Rightarrow> string option \<Rightarrow> string \<Rightarrow> segment \<Rightarrow> workflow_result \<times> db" where
  "blocked_result p sc run reason s =
     (let d = record_event p (phase_draft sc ''Task'' (ts_id (sc_task sc)) BLOCKED
                [(''phase'', PStr ''blocked''), (''blocked'', PBool True), (''reason'', PStr reason)]) run (sg_db s)
      in (\<lparr>wr_scenario = sc_scenario sc, wr_task = ts_id (sc_task sc), wr_status = ''BLOCKED'',
            wr_steps = sg_steps s @ [[(''kind'', ''blocked''), (''status'', reason)]], wr_events_written = 0,
            wr_certificate_key = None, wr_certificate_status = None, wr_merged = False, wr_memory_applied = False,
            wr_blocked_reason = Some reason, wr_state = ''BLOCKED'', wr_completed = sg_completed s,
            wr_replayable = True, wr_evidence_hashes = task_evidence_hashes d (ts_id (sc_task sc))\<rparr>, d))"

definition complete_result :: "scenario \<Rightarrow> segment \<Rightarrow> workflow_result" where
  "complete_result sc s =
     \<lparr>wr_scenario = sc_scenario sc, wr_task = ts_id (sc_task sc), wr_status = ''COMPLETE'', wr_steps = sg_steps s,
      wr_events_written = length (task_events (sg_db s) (ts_id (sc_task sc))),
      wr_certificate_key = map_option (\<lambda>b. cr_key (bu_certificate b)) (sg_bundle s),
      wr_certificate_status = map_option (\<lambda>b. cr_status (bu_certificate b)) (sg_bundle s),
      wr_merged = (case sg_merge s of None \<Rightarrow> False | Some v \<Rightarrow> gv_allowed v), wr_memory_applied = sg_memory s,
      wr_blocked_reason = None,
      wr_state = (if ''certify'' \<in> set (sg_completed s) \<and> ''merge'' \<notin> set (sg_completed s) then ''CERTIFIED'' else ''COMPLETED''),
      wr_completed = sg_completed s, wr_replayable = True,
      wr_evidence_hashes = task_evidence_hashes (sg_db s) (ts_id (sc_task sc))\<rparr>"

definition start_segment :: "db \<Rightarrow> segment" where
  "start_segment d =
     \<lparr>sg_db = d, sg_steps = [], sg_completed = [], sg_verdict = None, sg_bundle = None, sg_certificate = None,
      sg_merge = None, sg_memory = False\<rparr>"

definition run_segment ::
    "platform \<Rightarrow> scenario \<Rightarrow> string \<Rightarrow> reader \<Rightarrow> bool \<Rightarrow> string list \<Rightarrow> db \<Rightarrow> (workflow_error + workflow_result) \<times> db" where
  "run_segment p sc run reader require fs d =
     (case run_segment_from p sc run reader require fs (start_segment d) of
        (Raise e, s) \<Rightarrow> (Inl e, sg_db s)
      | (Block reason, s) \<Rightarrow> (let (r, d') = blocked_result p sc (Some run) reason s in (Inr r, d'))
      | (Proceed, s) \<Rightarrow> (Inr (complete_result sc s), sg_db s))"

section \<open>The journey\<close>

definition get_or_create_run :: "run_row \<Rightarrow> db \<Rightarrow> run_row \<times> db" where
  "get_or_create_run r d =
     (case get_run d (rn_id r) of Some old \<Rightarrow> (old, d) | None \<Rightarrow> (r, d\<lparr>run_rows := run_rows d @ [r]\<rparr>))"

definition e2e_run :: "platform \<Rightarrow> scenario \<Rightarrow> run_row" where
  "e2e_run p sc =
     \<lparr>rn_id = workflow_id p (sc_run_token sc), rn_task = ts_id (sc_task sc), rn_kind = ''AGENT'', rn_status = ''RUNNING'',
      rn_started = None, rn_finished = None,
      rn_environment = [(''provider'', PStr ''LOCAL''), (''runtime'', PStr ''e2e-demo''), (''scenario'', PStr (sc_scenario sc))]\<rparr>"

definition end_run :: "string \<Rightarrow> string \<Rightarrow> db \<Rightarrow> db" where
  "end_run k status d =
     (let (t, d1) = db_now d
      in d1\<lparr>run_rows := map (\<lambda>r. if rn_id r = k then r\<lparr>rn_status := status, rn_finished := Some t\<rparr> else r) (run_rows d1)\<rparr>)"

definition default_reader :: "scenario \<Rightarrow> reader" where
  "default_reader sc = (\<lambda>_ _. Some (sc_evidence sc))"

definition run_e2e_workflow ::
    "platform \<Rightarrow> (db \<Rightarrow> db) \<Rightarrow> scenario option \<Rightarrow> string list \<Rightarrow> bool \<Rightarrow> reader option \<Rightarrow> bool \<Rightarrow> db \<Rightarrow>
     (workflow_error + workflow_result) \<times> db" where
  "run_e2e_workflow p seeder given fs seed reader require d =
     (case validate_phases fs of
        Some e \<Rightarrow> (Inl e, d)
      | None \<Rightarrow>
         if hd fs \<noteq> ''discover'' then (Inl NotAtDiscover, d) else
         (case (case given of Some sc \<Rightarrow> (Inr sc, d)
                | None \<Rightarrow> build_demo_scenario p seeder seed ''payments-api/AUTH-017'' d) of
            (Inl e, d0) \<Rightarrow> (Inl e, d0)
          | (Inr sc, d0) \<Rightarrow>
              (let (run, d1) = get_or_create_run (e2e_run p sc) d0;
                   rd = (case reader of Some rd \<Rightarrow> rd | None \<Rightarrow> default_reader sc)
               in case run_segment p sc (rn_id run) rd require fs d1 of
                    (Inl e, d2) \<Rightarrow> (Inl e, d2)
                  | (Inr r, d2) \<Rightarrow>
                      (Inr r, if wr_status r = ''COMPLETE'' then end_run (rn_id run) ''COMPLETED'' d2
                              else if wr_status r = ''BLOCKED'' then end_run (rn_id run) ''BLOCKED'' d2 else d2))))"

text \<open>A segment over an existing run, recorded only.\<close>

definition run_phases_draft :: "run_row \<Rightarrow> string \<Rightarrow> event_draft" where
  "run_phases_draft run f =
     \<lparr>dr_entity_type = ''Task'', dr_entity_id = rn_task run, dr_kind = phase_event_kind f, dr_task = rn_task run,
      dr_actor = ''workflow'', dr_payload = [(''phase'', PStr f), (''blocked'', PBool False)]\<rparr>"

definition run_phases :: "platform \<Rightarrow> run_row \<Rightarrow> string list \<Rightarrow> db \<Rightarrow> (workflow_error + workflow_result) \<times> db" where
  "run_phases p run fs d =
     (case validate_phases fs of
        Some e \<Rightarrow> (Inl e, d)
      | None \<Rightarrow>
         let d' = record_all p (map (\<lambda>f. (run_phases_draft run f, Some (rn_id run))) fs) d
         in (Inr \<lparr>wr_scenario = ''payments-api/AUTH-017'', wr_task = rn_task run, wr_status = ''IN_PROGRESS'',
               wr_steps = map (\<lambda>f. [(''kind'', f), (''status'', ''ok'')]) fs,
               wr_events_written = length (task_events d' (rn_task run)), wr_certificate_key = None,
               wr_certificate_status = None, wr_merged = False, wr_memory_applied = False, wr_blocked_reason = None,
               wr_state = ''IN_PROGRESS'', wr_completed = fs, wr_replayable = True,
               wr_evidence_hashes = task_evidence_hashes d' (rn_task run)\<rparr>, d'))"

end
