(* ===== verification/Faults.thy ===== *)
theory Faults
  imports Workflow
begin

text \<open>
  \<open>workflow/failure_inject.py\<close>: a failure of a chosen class is injected into a run as rows of executions,
  evidence and failures and one event of the run. Every row has a key derived from run, mode and phase. The
  lemmas show that injecting twice changes nothing but the clock, and that the run's journal stays chained.
\<close>

section \<open>Modes\<close>

datatype injection_mode =
    SYNTAX_BUILD | UNIT_TEST | INTEGRATION | TIMEOUT | TOOL_FAILURE | POLICY_BLOCK | AMBIGUOUS_RESULT
  | NO_PROGRESS | TEST_FAILURE | CONFLICTING_EVIDENCE

fun mode_value :: "injection_mode \<Rightarrow> string" where
  "mode_value SYNTAX_BUILD = ''SYNTAX_BUILD''"
| "mode_value UNIT_TEST = ''UNIT_TEST''"
| "mode_value INTEGRATION = ''INTEGRATION''"
| "mode_value TIMEOUT = ''TIMEOUT''"
| "mode_value TOOL_FAILURE = ''TOOL_FAILURE''"
| "mode_value POLICY_BLOCK = ''POLICY_BLOCK''"
| "mode_value AMBIGUOUS_RESULT = ''AMBIGUOUS_RESULT''"
| "mode_value NO_PROGRESS = ''NO_PROGRESS''"
| "mode_value TEST_FAILURE = ''TEST_FAILURE''"
| "mode_value CONFLICTING_EVIDENCE = ''CONFLICTING_EVIDENCE''"

definition INJECTION_MODES :: "injection_mode list" where
  "INJECTION_MODES =
     [SYNTAX_BUILD, UNIT_TEST, INTEGRATION, TIMEOUT, TOOL_FAILURE, POLICY_BLOCK, AMBIGUOUS_RESULT,
      NO_PROGRESS, TEST_FAILURE, CONFLICTING_EVIDENCE]"

text \<open>\<open>FailureInjectionMode(mode)\<close> of a text.\<close>

definition parse_mode :: "string \<Rightarrow> injection_mode option" where
  "parse_mode s = find (\<lambda>m. mode_value m = s) INJECTION_MODES"

fun mode_kind :: "injection_mode \<Rightarrow> string" where
  "mode_kind SYNTAX_BUILD = ''F1_SYNTAX_BUILD''"
| "mode_kind UNIT_TEST = ''F2_UNIT_TEST''"
| "mode_kind TEST_FAILURE = ''F2_UNIT_TEST''"
| "mode_kind INTEGRATION = ''F3_INTEGRATION''"
| "mode_kind TIMEOUT = ''F5_TIMEOUT''"
| "mode_kind TOOL_FAILURE = ''F7_TOOL''"
| "mode_kind POLICY_BLOCK = ''F10_SAFETY_POLICY_BLOCK''"
| "mode_kind AMBIGUOUS_RESULT = ''F8_AMBIGUOUS_RESULT''"
| "mode_kind CONFLICTING_EVIDENCE = ''F8_AMBIGUOUS_RESULT''"
| "mode_kind NO_PROGRESS = ''F8_AMBIGUOUS_RESULT''"

record injection_result =
  ir_mode :: string
  ir_classified :: string
  ir_message :: string
  ir_phase :: "string option"
  ir_evidence_count :: nat
  ir_failure_count :: nat
  ir_blocked :: bool

datatype injection_error = UnknownMode | NoScopeGiven

text \<open>What the caller passes besides task, run and mode; the case is an object that may have no id.\<close>

record injection =
  in_phase :: "string option"
  in_case :: "string option option"
  in_detail :: "string option"

text \<open>\<open>x or default\<close>.\<close>

definition text_or :: "string option \<Rightarrow> string \<Rightarrow> string" where
  "text_or x s = (case x of None \<Rightarrow> s | Some t \<Rightarrow> if t = [] then s else t)"

section \<open>Rows under deterministic keys (repo/base.py, get_or_create)\<close>

definition get_or_create_execution :: "execution_row \<Rightarrow> db \<Rightarrow> execution_row \<times> db" where
  "get_or_create_execution r d =
     (case get_execution d (ex_id r) of
        Some old \<Rightarrow> (old, d)
      | None \<Rightarrow> (r, d\<lparr>executions := executions d @ [r]\<rparr>))"

definition get_or_create_failure :: "failure_row \<Rightarrow> db \<Rightarrow> failure_row \<times> db" where
  "get_or_create_failure r d =
     (case get_failure d (fl_id r) of
        Some old \<Rightarrow> (old, d)
      | None \<Rightarrow>
          let (t, d1) = db_now d; row = r\<lparr>fl_created := t\<rparr>
          in (row, d1\<lparr>failures := failures d1 @ [row]\<rparr>))"

section \<open>The run of an injection\<close>

text \<open>\<open>started_at DESC\<close>; SQLite takes a missing start as the smallest.\<close>

definition newest_first :: "int option \<Rightarrow> bool \<times> int" where
  "newest_first x = (case x of None \<Rightarrow> (True, 0) | Some t \<Rightarrow> (False, - t))"

definition most_recent_run :: "db \<Rightarrow> string \<Rightarrow> run_row option" where
  "most_recent_run d t =
     first_row (sort_key (\<lambda>r. newest_first (rn_started r)) (filter (\<lambda>r. rn_task r = t) (run_rows d)))"

definition fault_run :: "platform \<Rightarrow> task_row \<Rightarrow> run_row" where
  "fault_run p t =
     \<lparr>rn_id = workflow_id p (''fault-run/'' @ ts_id t), rn_task = ts_id t, rn_kind = ''AGENT'', rn_status = ''QUEUED'',
      rn_started = None, rn_finished = None,
      rn_environment = [(''provider'', PStr ''LOCAL''), (''runtime'', PStr ''in-memory-sqlite'')]\<rparr>"

definition resolve_fault_run ::
    "platform \<Rightarrow> task_row option \<Rightarrow> run_row option \<Rightarrow> db \<Rightarrow> (injection_error + run_row) \<times> db" where
  "resolve_fault_run p task run d =
     (case run of
        Some r \<Rightarrow> (Inr r, d)
      | None \<Rightarrow> (case task of
          None \<Rightarrow> (Inl NoScopeGiven, d)
        | Some t \<Rightarrow> (case most_recent_run d (ts_id t) of
            Some r \<Rightarrow> (Inr r, d)
          | None \<Rightarrow> (let (r, d') = get_or_create_run (fault_run p t) d in (Inr r, d')))))"

section \<open>The event of an injection\<close>

definition fault_token :: "run_row \<Rightarrow> injection_mode \<Rightarrow> string option \<Rightarrow> string" where
  "fault_token r m phase = ''fault/'' @ rn_id r @ ''/'' @ mode_value m @ ''/'' @ text_or phase ''n/a''"

definition fault_event ::
    "platform \<Rightarrow> string \<Rightarrow> run_row \<Rightarrow> event_kind \<Rightarrow> json \<Rightarrow> int \<Rightarrow> int \<Rightarrow> int \<Rightarrow> event_row" where
  "fault_event p token r kind payload seq t created =
     (let k = workflow_id p (''event/'' @ token);
          e = \<lparr>ce_id = k, ce_entity_type = ''Run'', ce_entity_id = k, ce_event_type = event_kind_value kind,
               ce_occurred = Some t, ce_actor = Some ''failure-injection'', ce_payload = payload, ce_provenance = None,
               ce_task = Some (rn_task r), ce_run = Some (rn_id r), ce_sequence = seq, ce_hash = None, ce_created = created\<rparr>
      in e\<lparr>ce_hash := Some (event_digest p e)\<rparr>)"

definition record_fault_event ::
    "platform \<Rightarrow> string \<Rightarrow> run_row \<Rightarrow> event_kind \<Rightarrow> json \<Rightarrow> db \<Rightarrow> db" where
  "record_fault_event p token r kind payload d =
     (let (t, d1) = db_now d; seq = int (length (run_events d1 (rn_id r))) + 1 in
      case get_event d1 (workflow_id p (''event/'' @ token)) of
        Some _ \<Rightarrow> d1
      | None \<Rightarrow>
          let (c, d2) = db_now d1
          in d2\<lparr>events := events d2 @ [fault_event p token r kind payload seq t c]\<rparr>)"

definition case_entry :: "injection \<Rightarrow> json" where
  "case_entry i = (case in_case i of Some (Some k) \<Rightarrow> [(''verification_case'', PStr k)] | _ \<Rightarrow> [])"

definition classified_payload :: "injection_mode \<Rightarrow> injection \<Rightarrow> json" where
  "classified_payload m i =
     [(''classification'', PStr (mode_kind m)), (''mode'', PStr (mode_value m)), (''injected'', PBool True),
      (''blocked'', PBool False), (''phase'', opt_str (in_phase i))] @ case_entry i"

definition blocked_payload :: "injection_mode \<Rightarrow> string \<Rightarrow> injection \<Rightarrow> json" where
  "blocked_payload m reason i =
     [(''blocked'', PBool True), (''reason'', PStr reason), (''classification'', PStr (mode_kind m)),
      (''mode'', PStr (mode_value m)), (''phase'', opt_str (in_phase i))] @ case_entry i"

section \<open>Injections\<close>

definition fault_failure ::
    "platform \<Rightarrow> string \<Rightarrow> run_row \<Rightarrow> injection_mode \<Rightarrow> injection \<Rightarrow> string option \<Rightarrow> string option \<Rightarrow> int \<Rightarrow> failure_row" where
  "fault_failure p token r m i ex ev t =
     \<lparr>fl_id = workflow_id p (''failure/'' @ token), fl_execution = ex, fl_task = Some (rn_task r),
      fl_run = Some (rn_id r), fl_evidence = ev, fl_classification = mode_kind m,
      fl_message = text_or (in_detail i) (''injected '' @ mode_value m), fl_probable_cause = None, fl_next_action = None,
      fl_severity = ''HIGH'', fl_iteration = 1, fl_resolved = False, fl_occurred = Some t, fl_created = 0\<rparr>"

definition fault_evidence ::
    "run_row \<Rightarrow> string option \<Rightarrow> string option \<Rightarrow> json \<Rightarrow> string \<Rightarrow> int \<Rightarrow> evidence_row" where
  "fault_evidence r ex vcase result h t =
     \<lparr>en_id = [], en_task = Some (rn_task r), en_run = Some (rn_id r), en_execution = ex, en_claim = None,
      en_case = vcase, en_type = ''TEST_RESULT'', en_occurred = Some t, en_source = Some ''failure-injection'',
      en_provenance = None, en_artifact = None, en_machine_result = result, en_hash = h, en_created = 0\<rparr>"

definition fault_execution ::
    "platform \<Rightarrow> string \<Rightarrow> run_row \<Rightarrow> string \<Rightarrow> int option \<Rightarrow> string \<Rightarrow> json \<Rightarrow> string \<Rightarrow> int \<Rightarrow> execution_row" where
  "fault_execution p token r status code sandbox result command t =
     \<lparr>ex_id = workflow_id p (''exec/'' @ token), ex_run = rn_id r, ex_kind = ''TEST'', ex_status = status,
      ex_exit_code = code, ex_sandbox = Some sandbox, ex_machine_result = result, ex_command = Some command,
      ex_started = Some t, ex_finished = Some t\<rparr>"

definition failed_machine_result :: json where
  "failed_machine_result = [(''passed'', PBool False), (''exit_code'', PInt 1)]"

definition fault_result :: "injection_mode \<Rightarrow> injection \<Rightarrow> string \<Rightarrow> nat \<Rightarrow> nat \<Rightarrow> bool \<Rightarrow> injection_result" where
  "fault_result m i message evidence_n failure_n blocked =
     \<lparr>ir_mode = mode_value m, ir_classified = mode_kind m, ir_message = message, ir_phase = in_phase i,
      ir_evidence_count = evidence_n, ir_failure_count = failure_n, ir_blocked = blocked\<rparr>"

text \<open>A failed test with its evidence.\<close>

definition test_execution ::
    "platform \<Rightarrow> injection_mode \<Rightarrow> injection \<Rightarrow> run_row \<Rightarrow> string \<Rightarrow> int \<Rightarrow> execution_row" where
  "test_execution p m i r token t =
     fault_execution p token r ''FAILED'' (Some 1)
       (''sandbox-'' @ mode_value m @ ''-'' @ (case in_phase i of None \<Rightarrow> ''None'' | Some f \<Rightarrow> f))
       [(''exit_code'', PInt 1), (''passed'', PBool False)] (''pytest '' @ text_or (in_phase i) ''test'') t"

definition inject_test ::
    "platform \<Rightarrow> injection_mode \<Rightarrow> injection \<Rightarrow> run_row \<Rightarrow> string \<Rightarrow> int \<Rightarrow> db \<Rightarrow> injection_result \<times> db" where
  "inject_test p m i r token t d =
     (let (ex, d1) = get_or_create_execution (test_execution p m i r token t) d;
          (ev, d2) = ensure_evidence (fault_evidence r (Some (ex_id ex)) None failed_machine_result
             (digest p [''injected-failure'', token]) t) d1;
          (f, d3) = get_or_create_failure (fault_failure p token r m i (Some (ex_id ex)) (Some (en_id ev)) t) d2
      in (fault_result m i (fl_message f) 1 1 False,
          record_fault_event p token r FAILURE_CLASSIFIED (classified_payload m i) d3))"

definition timeout_execution :: "platform \<Rightarrow> injection \<Rightarrow> run_row \<Rightarrow> string \<Rightarrow> int \<Rightarrow> execution_row" where
  "timeout_execution p i r token t =
     fault_execution p token r ''BLOCKED'' None (''sandbox-'' @ mode_value TIMEOUT) [(''timeout'', PBool True)]
       (text_or (in_phase i) ''test'' @ '' step exceeded its time budget'') t"

definition inject_timeout ::
    "platform \<Rightarrow> injection \<Rightarrow> run_row \<Rightarrow> string \<Rightarrow> int \<Rightarrow> db \<Rightarrow> injection_result \<times> db" where
  "inject_timeout p i r token t d =
     (let (ex, d1) = get_or_create_execution (timeout_execution p i r token t) d;
          (f, d2) = get_or_create_failure (fault_failure p token r TIMEOUT i (Some (ex_id ex)) None t) d1
      in (fault_result TIMEOUT i (fl_message f) 0 1 False,
          record_fault_event p token r FAILURE_CLASSIFIED (classified_payload TIMEOUT i) d2))"

definition inject_policy_block ::
    "platform \<Rightarrow> injection \<Rightarrow> run_row \<Rightarrow> string \<Rightarrow> db \<Rightarrow> injection_result \<times> db" where
  "inject_policy_block p i r token d =
     (let reason = ''injected POLICY_BLOCK at '' @ text_or (in_phase i) ''n/a''
      in (fault_result POLICY_BLOCK i reason 0 0 True,
          record_fault_event p token r BLOCKED (blocked_payload POLICY_BLOCK reason i) d))"

definition inject_conflict ::
    "platform \<Rightarrow> injection \<Rightarrow> run_row \<Rightarrow> string \<Rightarrow> int \<Rightarrow> db \<Rightarrow> injection_result \<times> db" where
  "inject_conflict p i r token t d =
     (let vcase = (case in_case i of Some (Some k) \<Rightarrow> Some k | _ \<Rightarrow> None);
          (_, d1) = ensure_evidence (fault_evidence r None vcase [(''passed'', PBool True), (''exit_code'', PInt 0)]
             (digest p [''injected-failure'', token, ''passed'']) t) d;
          (ev, d2) = ensure_evidence (fault_evidence r None vcase failed_machine_result
             (digest p [''injected-failure'', token, ''failed'']) t) d1;
          (f, d3) = get_or_create_failure (fault_failure p token r CONFLICTING_EVIDENCE i None (Some (en_id ev)) t) d2
      in (fault_result CONFLICTING_EVIDENCE i (fl_message f) 2 1 False,
          record_fault_event p token r FAILURE_CLASSIFIED (classified_payload CONFLICTING_EVIDENCE i) d3))"

definition inject_ambiguous ::
    "platform \<Rightarrow> injection \<Rightarrow> run_row \<Rightarrow> string \<Rightarrow> int \<Rightarrow> db \<Rightarrow> injection_result \<times> db" where
  "inject_ambiguous p i r token t d =
     (let (ev, d1) = ensure_evidence (fault_evidence r None None [(''result'', PStr ''ambiguous''), (''exit_code'', PNone)]
             (digest p [''injected-failure'', token]) t) d;
          (f, d2) = get_or_create_failure (fault_failure p token r AMBIGUOUS_RESULT i None (Some (en_id ev)) t) d1
      in (fault_result AMBIGUOUS_RESULT i (fl_message f) 1 1 False,
          record_fault_event p token r FAILURE_CLASSIFIED (classified_payload AMBIGUOUS_RESULT i) d2))"

definition no_progress_failure :: "platform \<Rightarrow> string \<Rightarrow> run_row \<Rightarrow> injection \<Rightarrow> int \<Rightarrow> int \<Rightarrow> failure_row" where
  "no_progress_failure p token r i t n =
     (fault_failure p token r NO_PROGRESS i None None t)
       \<lparr>fl_id := workflow_id p (''failure/'' @ token @ ''/'' @ str_int n), fl_iteration := n,
        fl_message := text_or (in_detail i) ''no-progress''\<rparr>"

definition inject_no_progress ::
    "platform \<Rightarrow> injection \<Rightarrow> run_row \<Rightarrow> string \<Rightarrow> int \<Rightarrow> db \<Rightarrow> injection_result \<times> db" where
  "inject_no_progress p i r token t d =
     (let d1 = fold (\<lambda>n d. snd (get_or_create_failure (no_progress_failure p token r i t n) d)) [1, 2, 3] d;
          reason = ''no-progress detected: 3 consecutive equivalent failures''
      in (fault_result NO_PROGRESS i reason 0 3 True,
          record_fault_event p token r BLOCKED (blocked_payload NO_PROGRESS reason i) d1))"

definition inject_mode ::
    "platform \<Rightarrow> injection_mode \<Rightarrow> injection \<Rightarrow> run_row \<Rightarrow> string \<Rightarrow> int \<Rightarrow> db \<Rightarrow> injection_result \<times> db" where
  "inject_mode p m i r token t d =
     (case m of
        TIMEOUT \<Rightarrow> inject_timeout p i r token t d
      | POLICY_BLOCK \<Rightarrow> inject_policy_block p i r token d
      | CONFLICTING_EVIDENCE \<Rightarrow> inject_conflict p i r token t d
      | AMBIGUOUS_RESULT \<Rightarrow> inject_ambiguous p i r token t d
      | NO_PROGRESS \<Rightarrow> inject_no_progress p i r token t d
      | _ \<Rightarrow> inject_test p m i r token t d)"

definition inject_failure ::
    "platform \<Rightarrow> task_row option \<Rightarrow> run_row option \<Rightarrow> string \<Rightarrow> injection \<Rightarrow> db \<Rightarrow>
     (injection_error + injection_result) \<times> db" where
  "inject_failure p task run mode i d =
     (case parse_mode mode of
        None \<Rightarrow> (Inl UnknownMode, d)
      | Some m \<Rightarrow>
         (case resolve_fault_run p task run d of
            (Inl e, d1) \<Rightarrow> (Inl e, d1)
          | (Inr r, d1) \<Rightarrow>
              (let (t, d2) = db_now d1; (res, d3) = inject_mode p m i r (fault_token r m (in_phase i)) t d2
               in (Inr res, d3))))"

section \<open>What a key already there does\<close>

lemma get_or_create_execution_effect:
  assumes "get_or_create_execution r d = (row, d')"
  obtains xs where "d' = d\<lparr>executions := executions d @ xs\<rparr>" "get_execution d' (ex_id r) = Some row"
proof (cases "get_execution d (ex_id r)")
  case None
  with assms have "d' = d\<lparr>executions := executions d @ [r]\<rparr>" "row = r" by (auto simp: get_or_create_execution_def)
  with None that show thesis by (simp add: get_execution_def find_snoc)
next
  case (Some old)
  with assms have "d' = d" "row = old" by (simp_all add: get_or_create_execution_def)
  with Some that [of "[]"] show thesis by (cases d) simp
qed

lemma get_or_create_failure_effect:
  assumes "get_or_create_failure r d = (row, d')"
  obtains w xs where "d' = d\<lparr>host := w, failures := failures d @ xs\<rparr>" "get_failure d' (fl_id r) = Some row"
proof (cases "get_failure d (fl_id r)")
  case None
  let ?row = "r\<lparr>fl_created := fst (db_now d)\<rparr>"
  from None assms have *: "d' = (snd (db_now d))\<lparr>failures := failures d @ [?row]\<rparr>" "row = ?row"
    by (auto simp: get_or_create_failure_def case_prod_unfold Let_def)
  from None have "find (\<lambda>x. fl_id x = fl_id r) (failures d @ [?row]) = Some ?row"
    by (simp add: get_failure_def find_snoc)
  with * show thesis by (intro that [where w = "snd (now (host d))" and xs = "[?row]"]) (simp_all add: get_failure_def)
next
  case (Some old)
  with assms have "d' = d" "row = old" by (simp_all add: get_or_create_failure_def)
  with Some that [where w = "host d" and xs = "[]"] show thesis by (cases d) simp
qed

lemma ensure_evidence_effect:
  assumes "ensure_evidence r d = (row, d')"
  obtains w xs where "d' = d\<lparr>host := w, evidence := evidence d @ xs\<rparr>" "evidence_by_hash d' (en_hash r) = Some row"
  using assms unfolding ensure_evidence_def by (rule insert_evidence_effect)

lemma record_fault_event_effect:
  obtains w es where "record_fault_event p token r kind j d = d\<lparr>host := w, events := events d @ es\<rparr>"
    "get_event (record_fault_event p token r kind j d) (workflow_id p (''event/'' @ token)) \<noteq> None"
    "es = [] \<or> (\<exists>t c. es = [fault_event p token r kind j (int (length (run_events d (rn_id r))) + 1) t c])"
proof (cases "get_event (snd (db_now d)) (workflow_id p (''event/'' @ token))")
  case None
  let ?d1 = "snd (db_now d)"
  let ?e = "fault_event p token r kind j (int (length (run_events d (rn_id r))) + 1) (fst (db_now d)) (fst (db_now ?d1))"
  have run: "run_events ?d1 (rn_id r) = run_events d (rn_id r)" by (simp add: run_events_def)
  from None have *: "record_fault_event p token r kind j d = (snd (db_now ?d1))\<lparr>events := events d @ [?e]\<rparr>"
    by (simp add: record_fault_event_def case_prod_unfold Let_def run del: db_now_fields) simp
  have "find (\<lambda>x. ce_id x = workflow_id p (''event/'' @ token)) (events d @ [?e]) = Some ?e"
    using None by (simp add: get_event_def find_snoc fault_event_def Let_def)
  with * show thesis by (intro that [where w = "snd (now (snd (now (host d))))" and es = "[?e]"]) (auto simp: get_event_def)
next
  case (Some old)
  then have *: "record_fault_event p token r kind j d = snd (db_now d)"
    by (simp add: record_fault_event_def case_prod_unfold Let_def)
  show thesis
    by (rule that [where w = "snd (now (host d))" and es = "[]"]) (use Some in \<open>simp_all add: * get_event_def\<close>)
qed

text \<open>Executions and failures by their identifiers are registries.\<close>

interpretation execution_table: registry ex_id get_execution get_or_create_execution
proof
  show "get_or_create_execution r d = (old, d)" if "get_execution d (ex_id r) = Some old" for d r old
    using that by (simp add: get_or_create_execution_def)
  show "get_execution D (ex_id r) = Some row" if "get_or_create_execution r d = (row, D)" for d r row D
    using that by (rule get_or_create_execution_effect)
  show "get_execution D k = Some x" if "get_execution d k = Some x" "get_or_create_execution r d = (row, D)" for d k x r row D
  proof -
    from that(2) obtain xs where "D = d\<lparr>executions := executions d @ xs\<rparr>" by (rule get_or_create_execution_effect)
    with that(1) show ?thesis by (simp add: get_execution_def find_stays)
  qed
qed

interpretation failure_table: registry fl_id get_failure get_or_create_failure
proof
  show "get_or_create_failure r d = (old, d)" if "get_failure d (fl_id r) = Some old" for d r old
    using that by (simp add: get_or_create_failure_def)
  show "get_failure D (fl_id r) = Some row" if "get_or_create_failure r d = (row, D)" for d r row D
    using that by (rule get_or_create_failure_effect)
  show "get_failure D k = Some x" if "get_failure d k = Some x" "get_or_create_failure r d = (row, D)" for d k x r row D
  proof -
    from that(2) obtain w xs where "D = d\<lparr>host := w, failures := failures d @ xs\<rparr>" by (rule get_or_create_failure_effect)
    with that(1) show ?thesis by (simp add: get_failure_def find_stays)
  qed
qed

text \<open>A later database still finds every row by its key.\<close>

definition later :: "db \<Rightarrow> db \<Rightarrow> bool" where
  "later d d' \<longleftrightarrow>
     (\<forall>k x. get_execution d k = Some x \<longrightarrow> get_execution d' k = Some x) \<and>
     (\<forall>h x. evidence_by_hash d h = Some x \<longrightarrow> evidence_by_hash d' h = Some x) \<and>
     (\<forall>k x. get_failure d k = Some x \<longrightarrow> get_failure d' k = Some x) \<and>
     (\<forall>k. get_event d k \<noteq> None \<longrightarrow> get_event d' k \<noteq> None)"

lemma later_trans: "later d d' \<Longrightarrow> later d' d'' \<Longrightarrow> later d d''"
  by (simp add: later_def)

lemma later_host: "later d (d\<lparr>host := w\<rparr>)"
  by (simp add: later_def get_execution_def evidence_by_hash_def get_failure_def get_event_def)

lemma later_rows:
  "later d (d\<lparr>executions := executions d @ xs\<rparr>)"
  "later d (d\<lparr>host := w, failures := failures d @ fs\<rparr>)"
  "later d (d\<lparr>host := w, evidence := evidence d @ vs\<rparr>)"
  "later d (d\<lparr>host := w, events := events d @ es\<rparr>)"
  by (auto simp: later_def get_execution_def evidence_by_hash_def get_failure_def get_event_def dest: find_stays)

text \<open>Each recorder leaves a later database, in which it does nothing any more.\<close>

lemma execution_again:
  assumes "get_or_create_execution r d = (row, d')"
  shows "later d d'" "later d' D \<Longrightarrow> ex_id r' = ex_id r \<Longrightarrow> get_or_create_execution r' D = (row, D)"
proof -
  obtain xs where "d' = d\<lparr>executions := executions d @ xs\<rparr>"
    by (rule get_or_create_execution_effect [OF assms])
  then show "later d d'" by (simp add: later_rows)
qed (rule execution_table.registered_again [OF assms], simp_all add: later_def)

lemma failure_again:
  assumes "get_or_create_failure r d = (row, d')"
  shows "later d d'" "later d' D \<Longrightarrow> fl_id r' = fl_id r \<Longrightarrow> get_or_create_failure r' D = (row, D)"
proof -
  obtain w xs where "d' = d\<lparr>host := w, failures := failures d @ xs\<rparr>"
    by (rule get_or_create_failure_effect [OF assms])
  then show "later d d'" by (simp add: later_rows)
qed (rule failure_table.registered_again [OF assms], simp_all add: later_def)

lemma evidence_again:
  assumes "ensure_evidence r d = (row, d')"
  shows "later d d'" "later d' D \<Longrightarrow> en_hash r' = en_hash r \<Longrightarrow> ensure_evidence r' D = (row, D)"
proof -
  obtain w xs where "d' = d\<lparr>host := w, evidence := evidence d @ xs\<rparr>"
    by (rule ensure_evidence_effect [OF assms])
  then show "later d d'" by (simp add: later_rows)
qed (unfold ensure_evidence_def, rule evidence_table.registered_again [OF assms [unfolded ensure_evidence_def]],
    simp_all add: later_def)

lemma fault_event_again:
  shows "later d (record_fault_event p token r kind j d)"
    and "later (record_fault_event p token r kind j d) D \<Longrightarrow> \<exists>w. record_fault_event p token r kind' j' D = D\<lparr>host := w\<rparr>"
proof -
  obtain w es where *: "record_fault_event p token r kind j d = d\<lparr>host := w, events := events d @ es\<rparr>"
      "get_event (record_fault_event p token r kind j d) (workflow_id p (''event/'' @ token)) \<noteq> None"
    by (rule record_fault_event_effect)
  then show "later d (record_fault_event p token r kind j d)" by (simp add: later_rows)
  assume "later (record_fault_event p token r kind j d) D"
  with *(2) have "get_event D (workflow_id p (''event/'' @ token)) \<noteq> None" by (simp add: later_def)
  then show "\<exists>w. record_fault_event p token r kind' j' D = D\<lparr>host := w\<rparr>"
    by (auto simp: record_fault_event_def case_prod_unfold Let_def get_event_def)
qed

section \<open>Injecting twice\<close>

text \<open>An injection settles: at any later database it gives the same result and only reads the clock.\<close>

definition settles :: "(int \<Rightarrow> db \<Rightarrow> injection_result \<times> db) \<Rightarrow> bool" where
  "settles f \<longleftrightarrow> (\<forall>t d res D t' D'. f t d = (res, D) \<longrightarrow> later D D' \<longrightarrow> (\<exists>w. f t' D' = (res, D'\<lparr>host := w\<rparr>)))"

lemma fault_keys [simp]:
  "ex_id (fault_execution p token r st c sb j cmd t) = workflow_id p (''exec/'' @ token)"
  "fl_id (fault_failure p token r m i x y t) = workflow_id p (''failure/'' @ token)"
  "en_hash (fault_evidence r x vc j h t) = h"
  "fl_id (no_progress_failure p token r i t n) = workflow_id p (''failure/'' @ token @ ''/'' @ str_int n)"
  "ex_id (test_execution p m i r token t) = workflow_id p (''exec/'' @ token)"
  "ex_id (timeout_execution p i r token t) = workflow_id p (''exec/'' @ token)"
  by (simp_all add: fault_execution_def fault_failure_def fault_evidence_def no_progress_failure_def test_execution_def
      timeout_execution_def)

lemma settles_test: "settles (inject_test p m i r token)"
  unfolding settles_def
proof (intro allI impI)
  fix t d res D t' D'
  assume run: "inject_test p m i r token t d = (res, D)" and D': "later D D'"
  obtain ex d1 where e: "get_or_create_execution (test_execution p m i r token t) d = (ex, d1)" by fastforce
  obtain ev d2 where v: "ensure_evidence (fault_evidence r (Some (ex_id ex)) None failed_machine_result (digest p [''injected-failure'', token]) t) d1 = (ev, d2)"
    by fastforce
  obtain f d3 where f: "get_or_create_failure (fault_failure p token r m i (Some (ex_id ex)) (Some (en_id ev)) t) d2 = (f, d3)" by fastforce
  have D: "res = fault_result m i (fl_message f) 1 1 False" "D = record_fault_event p token r FAILURE_CLASSIFIED (classified_payload m i) d3"
    using run e v f by (simp_all add: inject_test_def)
  note l3 = later_trans [OF fault_event_again(1) D' [unfolded D(2)]]
  note l2 = later_trans [OF failure_again(1) [OF f] l3]
  note l1 = later_trans [OF evidence_again(1) [OF v] l2]
  obtain w where "record_fault_event p token r FAILURE_CLASSIFIED (classified_payload m i) D' = D'\<lparr>host := w\<rparr>"
    using fault_event_again(2) [OF D' [unfolded D(2)]] by blast
  moreover have "get_or_create_execution (test_execution p m i r token t') D' = (ex, D')"
    by (rule execution_again(2) [OF e l1]) simp
  ultimately show "\<exists>w. inject_test p m i r token t' D' = (res, D'\<lparr>host := w\<rparr>)"
    by (intro exI [of _ w]) (simp add: inject_test_def evidence_again(2) [OF v l2] failure_again(2) [OF f l3] D(1))
qed

lemma settles_timeout: "settles (inject_timeout p i r token)"
  unfolding settles_def
proof (intro allI impI)
  fix t d res D t' D'
  assume run: "inject_timeout p i r token t d = (res, D)" and D': "later D D'"
  obtain ex d1 where e: "get_or_create_execution (timeout_execution p i r token t) d = (ex, d1)" by fastforce
  obtain f d2 where f: "get_or_create_failure (fault_failure p token r TIMEOUT i (Some (ex_id ex)) None t) d1 = (f, d2)" by fastforce
  have D: "res = fault_result TIMEOUT i (fl_message f) 0 1 False"
      "D = record_fault_event p token r FAILURE_CLASSIFIED (classified_payload TIMEOUT i) d2"
    using run e f by (simp_all add: inject_timeout_def)
  note l2 = later_trans [OF fault_event_again(1) D' [unfolded D(2)]]
  note l1 = later_trans [OF failure_again(1) [OF f] l2]
  obtain w where "record_fault_event p token r FAILURE_CLASSIFIED (classified_payload TIMEOUT i) D' = D'\<lparr>host := w\<rparr>"
    using fault_event_again(2) [OF D' [unfolded D(2)]] by blast
  moreover have "get_or_create_execution (timeout_execution p i r token t') D' = (ex, D')"
    by (rule execution_again(2) [OF e l1]) simp
  ultimately show "\<exists>w. inject_timeout p i r token t' D' = (res, D'\<lparr>host := w\<rparr>)"
    by (intro exI [of _ w]) (simp add: inject_timeout_def failure_again(2) [OF f l2] D(1))
qed

lemma settles_policy_block: "settles (\<lambda>t. inject_policy_block p i r token)"
  unfolding settles_def
proof (intro allI impI)
  fix d res D D'
  assume run: "inject_policy_block p i r token d = (res, D)" and D': "later D D'"
  obtain reason where reason: "\<And>d. inject_policy_block p i r token d = (fault_result POLICY_BLOCK i reason 0 0 True,
      record_fault_event p token r BLOCKED (blocked_payload POLICY_BLOCK reason i) d)"
    by (simp add: inject_policy_block_def Let_def)
  with run have D: "res = fault_result POLICY_BLOCK i reason 0 0 True"
      "D = record_fault_event p token r BLOCKED (blocked_payload POLICY_BLOCK reason i) d" by simp_all
  obtain w where "record_fault_event p token r BLOCKED (blocked_payload POLICY_BLOCK reason i) D' = D'\<lparr>host := w\<rparr>"
    using fault_event_again(2) [OF D' [unfolded D(2)]] by blast
  then show "\<exists>w. inject_policy_block p i r token D' = (res, D'\<lparr>host := w\<rparr>)"
    by (intro exI [of _ w]) (simp add: reason D(1))
qed

lemma settles_conflict: "settles (inject_conflict p i r token)"
  unfolding settles_def
proof (intro allI impI)
  fix t d res D t' D'
  assume run: "inject_conflict p i r token t d = (res, D)" and D': "later D D'"
  let ?vc = "case in_case i of Some (Some k) \<Rightarrow> Some k | _ \<Rightarrow> None"
  obtain e0 d1 where e: "ensure_evidence (fault_evidence r None ?vc [(''passed'', PBool True), (''exit_code'', PInt 0)]
      (digest p [''injected-failure'', token, ''passed'']) t) d = (e0, d1)" by fastforce
  obtain ev d2 where v: "ensure_evidence (fault_evidence r None ?vc failed_machine_result
      (digest p [''injected-failure'', token, ''failed'']) t) d1 = (ev, d2)" by fastforce
  obtain f d3 where f: "get_or_create_failure (fault_failure p token r CONFLICTING_EVIDENCE i None (Some (en_id ev)) t) d2 = (f, d3)"
    by fastforce
  have D: "res = fault_result CONFLICTING_EVIDENCE i (fl_message f) 2 1 False"
      "D = record_fault_event p token r FAILURE_CLASSIFIED (classified_payload CONFLICTING_EVIDENCE i) d3"
    using run e v f by (simp_all add: inject_conflict_def)
  note l3 = later_trans [OF fault_event_again(1) D' [unfolded D(2)]]
  note l2 = later_trans [OF failure_again(1) [OF f] l3]
  note l1 = later_trans [OF evidence_again(1) [OF v] l2]
  obtain w where "record_fault_event p token r FAILURE_CLASSIFIED (classified_payload CONFLICTING_EVIDENCE i) D' = D'\<lparr>host := w\<rparr>"
    using fault_event_again(2) [OF D' [unfolded D(2)]] by blast
  then show "\<exists>w. inject_conflict p i r token t' D' = (res, D'\<lparr>host := w\<rparr>)"
    by (intro exI [of _ w]) (simp add: inject_conflict_def evidence_again(2) [OF e l1] evidence_again(2) [OF v l2] failure_again(2) [OF f l3] D(1))
qed

lemma settles_ambiguous: "settles (inject_ambiguous p i r token)"
  unfolding settles_def
proof (intro allI impI)
  fix t d res D t' D'
  assume run: "inject_ambiguous p i r token t d = (res, D)" and D': "later D D'"
  obtain ev d1 where v: "ensure_evidence (fault_evidence r None None [(''result'', PStr ''ambiguous''), (''exit_code'', PNone)]
      (digest p [''injected-failure'', token]) t) d = (ev, d1)" by fastforce
  obtain f d2 where f: "get_or_create_failure (fault_failure p token r AMBIGUOUS_RESULT i None (Some (en_id ev)) t) d1 = (f, d2)"
    by fastforce
  have D: "res = fault_result AMBIGUOUS_RESULT i (fl_message f) 1 1 False"
      "D = record_fault_event p token r FAILURE_CLASSIFIED (classified_payload AMBIGUOUS_RESULT i) d2"
    using run v f by (simp_all add: inject_ambiguous_def)
  note l2 = later_trans [OF fault_event_again(1) D' [unfolded D(2)]]
  note l1 = later_trans [OF failure_again(1) [OF f] l2]
  obtain w where "record_fault_event p token r FAILURE_CLASSIFIED (classified_payload AMBIGUOUS_RESULT i) D' = D'\<lparr>host := w\<rparr>"
    using fault_event_again(2) [OF D' [unfolded D(2)]] by blast
  then show "\<exists>w. inject_ambiguous p i r token t' D' = (res, D'\<lparr>host := w\<rparr>)"
    by (intro exI [of _ w]) (simp add: inject_ambiguous_def evidence_again(2) [OF v l1] failure_again(2) [OF f l2] D(1))
qed

lemma settles_no_progress: "settles (inject_no_progress p i r token)"
  unfolding settles_def
proof (intro allI impI)
  fix t d res D t' D'
  assume run: "inject_no_progress p i r token t d = (res, D)" and D': "later D D'"
  let ?row = "no_progress_failure p token r i"
  obtain reason where reason: "\<And>t d. inject_no_progress p i r token t d = (fault_result NO_PROGRESS i reason 0 3 True,
      record_fault_event p token r BLOCKED (blocked_payload NO_PROGRESS reason i)
        (snd (get_or_create_failure (?row t 3) (snd (get_or_create_failure (?row t 2) (snd (get_or_create_failure (?row t 1) d)))))))"
    by (simp add: inject_no_progress_def Let_def)
  obtain f1 d1 where f1: "get_or_create_failure (?row t 1) d = (f1, d1)" by fastforce
  obtain f2 d2 where f2: "get_or_create_failure (?row t 2) d1 = (f2, d2)" by fastforce
  obtain f3 d3 where f3: "get_or_create_failure (?row t 3) d2 = (f3, d3)" by fastforce
  have D: "res = fault_result NO_PROGRESS i reason 0 3 True"
      "D = record_fault_event p token r BLOCKED (blocked_payload NO_PROGRESS reason i) d3"
    using run by (simp_all add: reason f1 f2 f3)
  note l3 = later_trans [OF fault_event_again(1) D' [unfolded D(2)]]
  note l2 = later_trans [OF failure_again(1) [OF f3] l3]
  note l1 = later_trans [OF failure_again(1) [OF f2] l2]
  obtain w where "record_fault_event p token r BLOCKED (blocked_payload NO_PROGRESS reason i) D' = D'\<lparr>host := w\<rparr>"
    using fault_event_again(2) [OF D' [unfolded D(2)]] by blast
  then show "\<exists>w. inject_no_progress p i r token t' D' = (res, D'\<lparr>host := w\<rparr>)"
    by (intro exI [of _ w]) (simp add: reason failure_again(2) [OF f1 l1] failure_again(2) [OF f2 l2] failure_again(2) [OF f3 l3] D(1))
qed

lemma settles_mode: "settles (inject_mode p m i r token)"
  using settles_test settles_timeout settles_policy_block settles_conflict settles_ambiguous settles_no_progress
  by (cases m) (simp_all add: inject_mode_def [abs_def])

section \<open>What an injection writes\<close>

lemma recorder_fields [simp]:
  "events (snd (get_or_create_execution r d)) = events d" "run_rows (snd (get_or_create_execution r d)) = run_rows d"
  "evidence (snd (get_or_create_execution r d)) = evidence d"
  "events (snd (get_or_create_failure f d)) = events d" "run_rows (snd (get_or_create_failure f d)) = run_rows d"
  "evidence (snd (get_or_create_failure f d)) = evidence d" "executions (snd (get_or_create_failure f d)) = executions d"
  "events (snd (ensure_evidence v d)) = events d" "run_rows (snd (ensure_evidence v d)) = run_rows d"
  by (simp_all add: get_or_create_execution_def get_or_create_failure_def ensure_evidence_def insert_evidence_def
      case_prod_unfold Let_def split: option.split)

lemma record_fault_event_fields [simp]:
  "run_rows (record_fault_event p token r kind j d) = run_rows d"
  "evidence (record_fault_event p token r kind j d) = evidence d"
  "executions (record_fault_event p token r kind j d) = executions d"
  by (simp_all add: record_fault_event_def case_prod_unfold Let_def split: option.split)

text \<open>Every mode records its rows first, and then its event.\<close>

definition blocking :: "injection_mode \<Rightarrow> bool" where
  "blocking m \<longleftrightarrow> m = POLICY_BLOCK \<or> m = NO_PROGRESS"

lemma inject_mode_records:
  obtains d1 kind j where "snd (inject_mode p m i r token t d) = record_fault_event p token r kind j d1"
    "events d1 = events d" "run_rows d1 = run_rows d" "get_key j ''phase'' = opt_str (in_phase i)"
    "get_key j ''classification'' = PStr (mode_kind m)" "get_key j ''blocked'' = PBool (blocking m)"
    "blocking m \<longrightarrow> executions d1 = executions d \<and> evidence d1 = evidence d"
    "ir_blocked (fst (inject_mode p m i r token t d)) \<longleftrightarrow> blocking m"
proof -
  have c: "get_key (classified_payload m i) ''phase'' = opt_str (in_phase i)"
      "get_key (classified_payload m i) ''classification'' = PStr (mode_kind m)"
      "get_key (classified_payload m i) ''blocked'' = PBool False" for m
    by (simp_all add: classified_payload_def get_key_def)
  have b: "get_key (blocked_payload m reason i) ''phase'' = opt_str (in_phase i)"
      "get_key (blocked_payload m reason i) ''classification'' = PStr (mode_kind m)"
      "get_key (blocked_payload m reason i) ''blocked'' = PBool True" for m reason
    by (simp_all add: blocked_payload_def get_key_def)
  note step = inject_mode_def inject_test_def inject_timeout_def inject_policy_block_def inject_conflict_def
    inject_ambiguous_def inject_no_progress_def
  show thesis
    by (cases m)
      ((rule that, simp add: step case_prod_unfold Let_def,
        simp_all add: step case_prod_unfold Let_def fault_result_def blocking_def b c)[1])+
qed

lemma fault_event_chained:
  assumes "chained p (run_events d k)"
  shows "chained p (run_events (record_fault_event p token r kind j d) k)"
proof -
  obtain w es where *: "record_fault_event p token r kind j d = d\<lparr>host := w, events := events d @ es\<rparr>"
      "es = [] \<or> (\<exists>t c. es = [fault_event p token r kind j (int (length (run_events d (rn_id r))) + 1) t c])"
    by (rule record_fault_event_effect)
  have "chained_event p n (fault_event p token r kind j (int n + 1) t c) \<and> ce_run (fault_event p token r kind j (int n + 1) t c) = Some (rn_id r)" for n t c
    by (simp add: fault_event_def chained_event_def Let_def event_digest_def)
  with *(2) assms show ?thesis by (auto simp: *(1) run_events_def journal_snoc)
qed

lemma resolve_again:
  assumes "resolve_fault_run p task run d = (Inr r, d1)"
  shows "events d1 = events d" "executions d1 = executions d" "evidence d1 = evidence d"
    "run_rows D = run_rows d1 \<Longrightarrow> resolve_fault_run p task run D = (Inr r, D)"
proof -
  show "events d1 = events d" "executions d1 = executions d" "evidence d1 = evidence d"
    using assms by (auto simp: resolve_fault_run_def get_or_create_run_def split: option.splits)
  assume D: "run_rows D = run_rows d1"
  show "resolve_fault_run p task run D = (Inr r, D)"
  proof (cases run)
    case Some
    with assms show ?thesis by (simp add: resolve_fault_run_def)
  next
    case None
    with assms obtain t where t: "task = Some t" by (cases task) (simp_all add: resolve_fault_run_def)
    have none: "most_recent_run d k = None \<longleftrightarrow> filter (\<lambda>r. rn_task r = k) (run_rows d) = []" for d k
      using set_sort [of "\<lambda>r. newest_first (rn_started r)" "filter (\<lambda>r. rn_task r = k) (run_rows d)"]
      by (auto simp: most_recent_run_def first_row_def simp del: set_sort)
    show ?thesis
    proof (cases "most_recent_run d (ts_id t)")
      case (Some x)
      with assms None t D show ?thesis by (auto simp: resolve_fault_run_def most_recent_run_def)
    next
      case no: None
      show ?thesis
      proof (cases "get_run d (rn_id (fault_run p t))")
        case (Some old)
        with assms None t no D show ?thesis
          by (auto simp: resolve_fault_run_def most_recent_run_def get_or_create_run_def get_run_def)
      next
        case new: None
        then have d1: "r = fault_run p t" "run_rows d1 = run_rows d @ [fault_run p t]"
          using assms None t no by (auto simp: resolve_fault_run_def get_or_create_run_def)
        then have "most_recent_run D (ts_id t) = Some (fault_run p t)"
          using no none [of d "ts_id t"] D by (simp add: most_recent_run_def first_row_def fault_run_def)
        with None t d1 show ?thesis by (simp add: resolve_fault_run_def)
      qed
    qed
  qed
qed

section \<open>Properties\<close>

text \<open>
  An injection happens once: whatever failure was injected, injecting it again, at any later time,
  returns the same result and leaves every table as it was. An injection keeps the journals of all runs
  chained, and it reports itself as blocking exactly for POLICY_BLOCK and NO_PROGRESS, which write neither
  executions nor evidence.
\<close>
theorem injection_happens_once:
  assumes "inject_failure p task run mode i d = (Inr res, D)"
  shows "(\<exists>w. inject_failure p task run mode i (D\<lparr>host := w0\<rparr>) = (Inr res, D\<lparr>host := w\<rparr>)) \<and>
    (\<forall>k. chained p (run_events d k) \<longrightarrow> chained p (run_events D k)) \<and>
    (ir_blocked res \<longleftrightarrow> mode \<in> {''POLICY_BLOCK'', ''NO_PROGRESS''}) \<and>
    (ir_blocked res \<longrightarrow> executions D = executions d \<and> evidence D = evidence d)"
proof -
  obtain m where m: "parse_mode mode = Some m"
    using assms by (cases "parse_mode mode") (simp_all add: inject_failure_def)
  then have "mode_value m = mode" by (auto simp: parse_mode_def dest: find_keyed)
  then have modes: "blocking m \<longleftrightarrow> mode \<in> {''POLICY_BLOCK'', ''NO_PROGRESS''}"
    by (cases m) (auto simp: blocking_def)
  obtain r d1 where r: "resolve_fault_run p task run d = (Inr r, d1)"
    using assms m by (cases "resolve_fault_run p task run d"; cases "fst (resolve_fault_run p task run d)") (auto simp: inject_failure_def)
  let ?token = "fault_token r m (in_phase i)" and ?t = "fst (db_now d1)" and ?d2 = "snd (db_now d1)"
  have run: "inject_mode p m i r ?token ?t ?d2 = (res, D)"
    using assms m r by (simp add: inject_failure_def case_prod_unfold Let_def prod_eq_iff)
  obtain d3 kind j where rec: "D = record_fault_event p ?token r kind j d3" "events d3 = events d" "run_rows d3 = run_rows d1"
      "blocking m \<longrightarrow> executions d3 = executions d \<and> evidence d3 = evidence d" "ir_blocked res \<longleftrightarrow> blocking m"
    by (rule inject_mode_records [of p m i r ?token ?t ?d2]) (use run resolve_again(1-3) [OF r] in simp)
  have rows: "run_rows (D\<lparr>host := w0\<rparr>) = run_rows d1" using rec by simp
  obtain t' w1 where now: "db_now (D\<lparr>host := w0\<rparr>) = (t', D\<lparr>host := w1\<rparr>)"
    by (simp add: db_now_def case_prod_unfold Let_def)
  obtain w where "inject_mode p m i r ?token t' (D\<lparr>host := w1\<rparr>) = (res, (D\<lparr>host := w1\<rparr>)\<lparr>host := w\<rparr>)"
    using settles_mode run later_host unfolding settles_def by blast
  then have again: "inject_failure p task run mode i (D\<lparr>host := w0\<rparr>) = (Inr res, D\<lparr>host := w\<rparr>)"
    by (simp add: inject_failure_def m resolve_again(4) [OF r rows] now)
  have "chained p (run_events D k)" if "chained p (run_events d k)" for k
    unfolding rec(1) using that rec(2) by (intro fault_event_chained) (simp add: run_events_def)
  with again rec modes show ?thesis by auto
qed

text \<open>The second injection of a test failure, for a task without runs.\<close>

theorem injection_happens_once_witness:
  "\<exists>res D w. inject_failure demo_platform (Some (demo_task ''t'' ''c'')) None ''UNIT_TEST''
       \<lparr>in_phase = Some ''verify'', in_case = None, in_detail = None\<rparr> demo_db = (Inr res, D) \<and>
     inject_failure demo_platform (Some (demo_task ''t'' ''c'')) None ''UNIT_TEST''
       \<lparr>in_phase = Some ''verify'', in_case = None, in_detail = None\<rparr> (D\<lparr>host := later_host\<rparr>) = (Inr res, D\<lparr>host := w\<rparr>) \<and>
     chained demo_platform (run_events D (workflow_id demo_platform ''fault-run/t''))"
proof -
  let ?i = "\<lparr>in_phase = Some ''verify'', in_case = None, in_detail = None\<rparr>"
  have "parse_mode ''UNIT_TEST'' = Some UNIT_TEST" by code_simp
  moreover have "\<exists>r d1. resolve_fault_run demo_platform (Some (demo_task ''t'' ''c'')) None demo_db = (Inr r, d1)"
    by (simp add: resolve_fault_run_def case_prod_unfold Let_def split: option.split)
  ultimately obtain res D where run: "inject_failure demo_platform (Some (demo_task ''t'' ''c'')) None ''UNIT_TEST'' ?i demo_db = (Inr res, D)"
    by (auto simp: inject_failure_def case_prod_unfold Let_def)
  have "chained demo_platform (run_events demo_db (workflow_id demo_platform ''fault-run/t''))"
    by (simp add: run_events_def demo_db_def empty_db_def)
  with injection_happens_once [OF run, of later_host] run show ?thesis by blast
qed

end
