(* ===== verification/Workflow_Proofs.thy ===== *)
theory Workflow_Proofs
  imports Workflow
begin

text \<open>
  What the journey of \<open>Workflow\<close> guarantees. The first lemmas show what the certification modules leave of
  a run's journal and of the tasks; the invariant of a segment follows its phases.
\<close>

section \<open>What the modules leave alone\<close>

text \<open>Neither the events of runs nor the tasks are touched, nor which patch is of which task.\<close>

definition patch_tasks :: "db \<Rightarrow> (string \<times> string) list" where
  "patch_tasks d = map (\<lambda>c. (cp_id c, cp_task c)) (patches d)"

definition quiet :: "db \<Rightarrow> db \<Rightarrow> bool" where
  "quiet d d' \<longleftrightarrow> (\<forall>r. run_events d' r = run_events d r) \<and> tasks d' = tasks d \<and> patch_tasks d' = patch_tasks d"

lemma quiet_refl [simp]: "quiet d d"
  by (simp add: quiet_def)

text \<open>Besides, no candidate and no failure changes at all.\<close>

definition calm :: "db \<Rightarrow> db \<Rightarrow> bool" where
  "calm d d' \<longleftrightarrow> quiet d d' \<and> patches d' = patches d \<and> failures d' = failures d"

lemma calm_quiet: "calm d d' \<Longrightarrow> quiet d d'"
  by (simp add: calm_def)

lemma calm_refl [simp]: "calm d d"
  by (simp add: calm_def)

lemma quiet_trans: "quiet d d' \<Longrightarrow> quiet d' d'' \<Longrightarrow> quiet d d''"
  by (simp add: quiet_def)

lemma calm_trans: "calm d d' \<Longrightarrow> calm d' d'' \<Longrightarrow> calm d d''"
  using quiet_trans by (auto simp: calm_def)

lemma calm_same: "events d' = events d \<Longrightarrow> tasks d' = tasks d \<Longrightarrow> patches d' = patches d \<Longrightarrow>
    failures d' = failures d \<Longrightarrow> calm d d'"
  by (simp add: calm_def quiet_def run_events_def patch_tasks_def)

lemma calm_record_task: "calm d d' \<Longrightarrow> calm d (record_task_event f d')"
  using record_task_event_fields [of f d'] by (auto simp: calm_def quiet_def patch_tasks_def)

lemma quiet_record_task: "quiet d d' \<Longrightarrow> quiet d (record_task_event f d')"
  using quiet_trans [OF _ calm_quiet [OF calm_record_task [OF calm_refl]]] by blast

lemma calm_insert_evidence: "calm d (snd (insert_evidence r d))"
  using insert_evidence_rows [of r d] by (auto intro: calm_same)

lemma calm_instant: "calm d (snd (instant_or_now x d))"
  using instant_or_now_fields [of x d] by (auto intro: calm_same)

lemma quiet_reverification:
  assumes "run_reverification p cp rd d = (r, D)"
  shows "quiet d D"
proof -
  have rec: "quiet d (record_reverify cp j d')" if "quiet d d'" for cp j d'
    using that by (auto simp: record_reverify_def quiet_record_task split: option.split)
  have "quiet d (set_patch_status k st d)" for k st
    by (simp add: quiet_def run_events_def patch_tasks_def set_patch_status_def cong: if_cong)
  with rec assms show ?thesis
    by (auto simp: run_reverification_def Let_def split: option.splits if_splits)
qed

lemma calm_put: "calm d d' \<Longrightarrow> calm d (put_certificate c d')"
  by (erule calm_trans) (simp add: calm_same put_certificate_def)

lemma calm_build:
  assumes "build_certificate p t ch k cp aligned rows env dep issued d = (r, D)"
  shows "calm d D"
proof -
  have bind: "calm d (bind_deltas t u (snd (db_uuid d)\<lparr>certificates := cs\<rparr>))" for t u cs
    by (rule calm_same) (simp_all add: bind_deltas_def)
  have evid: "calm d' (binding_evidence p key t ch k c rows i d')" for key t k c i d'
    unfolding binding_evidence_def record_evidence_def Let_def by (rule calm_insert_evidence)
  have "\<exists>ev cert c' d'. D = d \<or> D = record_task_event ev (put_certificate cert (put_certificate c' (snd (instant_or_now issued d')))) \<and> calm d d'"
  proof (cases t)
    case (Some task)
    show ?thesis
    proof (cases k)
      case (Some claim)
      let ?key = "certificate_key_for p (ts_id task) (cl_id claim)"
      let ?d2 = "bind_deltas (ts_id task) (fst (db_uuid d)) (snd (db_uuid d)\<lparr>certificates := certificates (snd (db_uuid d)) @
          [fresh_certificate (fst (db_uuid d)) ?key task claim]\<rparr>)"
      let ?d4 = "binding_evidence p ?key task ch claim (aligned \<and> rows \<noteq> []) rows (fst (instant_or_now issued ?d2)) (snd (instant_or_now issued ?d2))"
      have "calm d ?d4" by (rule calm_trans [OF calm_trans [OF bind calm_instant] evid])
      then show ?thesis
        using assms \<open>t = Some task\<close> Some
        by (auto simp: build_certificate_def Let_def case_prod_unfold simp del: db_uuid_fields split: option.splits split del: if_split)
    qed (use assms \<open>t = Some task\<close> in \<open>simp add: build_certificate_def\<close>)
  qed (use assms in \<open>simp add: build_certificate_def\<close>)
  then show ?thesis using calm_record_task calm_put calm_trans calm_instant calm_refl by metis
qed

lemma calm_get_or_create:
  assumes "get_or_create_memory k r d = (m, D)"
  shows "calm d D"
  using assms by (auto simp: get_or_create_memory_def insert_memory_def case_prod_unfold Let_def split: option.splits intro!: calm_same)

lemma calm_memory:
  assumes "run_memory_pipeline p c t ch a d = (r, D)"
  shows "calm d D"
proof (cases "D = d")
  case False
  with assms obtain c' t' a' where args: "c = Some c'" "t = Some t'" "a = Some a'" "ct_status c' = ''CERTIFIED''"
    by (auto simp: run_memory_pipeline_def split: option.splits if_splits)
  obtain m1 d1 where m1: "get_or_create_memory (certification_ref p c' t' a') (certification_memory p c' t' ch a' d) d = (m1, d1)"
    by fastforce
  obtain m2 d2 where m2: "get_or_create_memory (archaeology_memory_key p a') (archaeology_memory p c' t' a' d) d1 = (m2, d2)"
    by fastforce
  have "D = record_task_event (memory_event m2 t') (record_task_event (memory_event m1 t') d2)"
    using pipeline_run [OF args(4) m1 m2] assms args by simp
  then show ?thesis
    using calm_get_or_create [OF m1] calm_get_or_create [OF m2] calm_record_task calm_trans by metis
qed simp

lemma calm_archaeology:
  assumes "persist_archaeology p t f gs cs rs es b d = (r, D)"
  shows "calm d D"
proof -
  have ev: "calm d' (archaeology_events a task d')" for a task d'
    by (simp add: archaeology_events_def Let_def calm_record_task)
  have su: "calm d' (archaeology_summary p a task d')" for a task d'
    by (auto simp: archaeology_summary_def insert_memory_def case_prod_unfold Let_def intro: calm_same)
  show ?thesis
    using assms ev
    by (auto simp: persist_archaeology_def Let_def split: option.splits if_splits intro: calm_trans [OF ev su])
qed

text \<open>Memory leaves the certificates.\<close>

lemma task_event_certificates [simp]: "certificates (record_task_event f d) = certificates d"
  using record_task_event_fields [of f d] by auto

lemma memory_certificates:
  "persist_archaeology p t f gs cs rs es b d = (x, D) \<Longrightarrow> certificates D = certificates d"
  "run_memory_pipeline p c t ch a d = (y, D) \<Longrightarrow> certificates D = certificates d"
proof -
  have get: "get_or_create_memory k r d = (m, D) \<Longrightarrow> certificates D = certificates d" for k r d m D
    by (auto simp: get_or_create_memory_def insert_memory_def case_prod_unfold Let_def split: option.splits)
  show "persist_archaeology p t f gs cs rs es b d = (x, D) \<Longrightarrow> certificates D = certificates d"
    by (auto simp: persist_archaeology_def archaeology_events_def archaeology_summary_def insert_memory_def case_prod_unfold Let_def
        split: option.splits if_splits)
  show "run_memory_pipeline p c t ch a d = (y, D) \<Longrightarrow> certificates D = certificates d"
    by (auto simp: run_memory_pipeline_def Let_def split: option.splits if_splits prod.splits dest!: get)
qed

lemmas quiet_build = calm_build [THEN calm_quiet]
lemmas quiet_memory = calm_memory [THEN calm_quiet]
lemmas quiet_archaeology = calm_archaeology [THEN calm_quiet]

text \<open>The merge gate keeps quiet, or lets the merge of the patch's task pass.\<close>

lemma merge_transition_quiet:
  "run_events (merge_transition t c ch d) run = run_events d run"
  "tasks (merge_transition t c ch d) = tasks (set_task_status (ts_id t) ''MERGED'' d)"
  "patches (merge_transition t c ch d) = patches d"
proof -
  show "run_events (merge_transition t c ch d) run = run_events d run"
    by (simp add: merge_transition_def set_change_status_def set_task_status_def) (simp add: run_events_def)
  obtain w es where "merge_transition t c ch d =
      (set_change_status (ch_id ch) ''MERGED'' (set_task_status (ts_id t) ''MERGED'' d))\<lparr>host := w, events := es\<rparr>"
    using merge_transition_fields by blast
  then show "tasks (merge_transition t c ch d) = tasks (set_task_status (ts_id t) ''MERGED'' d)"
    "patches (merge_transition t c ch d) = patches d"
    by (simp_all add: set_change_status_def set_task_status_def)
qed

lemma gate_effect:
  assumes "evaluate_merge_gate p c v cp requested d = (r, D)"
  shows "(calm d D \<and> (\<forall>x. r = Inr x \<longrightarrow> \<not> gv_allowed x)) \<or>
    (\<exists>c' v' cp' x. c = Some c' \<and> v = Some v' \<and> cp = Some cp' \<and> r = Inr x \<and> gv_allowed x \<and>
      merge_authorized p d c' v cp' requested \<and> (\<forall>run. run_events D run = run_events d run) \<and> patches D = patches d \<and>
      tasks D = tasks (set_task_status (cp_task cp') ''MERGED'' d))"
proof (cases "c = None \<or> cp = None")
  case True
  with assms show ?thesis by (auto simp: evaluate_merge_gate_def Let_def split: option.splits)
next
  case False
  then obtain c' cp' where args: "c = Some c'" "cp = Some cp'" by auto
  from gate_cases [OF assms [unfolded args]] consider
      "D = d" "\<forall>x. r = Inr x \<longrightarrow> \<not> gv_allowed x"
    | t ch x v' where "v = Some v'" "merge_authorized p d c' v cp' requested" "get_task d (cp_task cp') = Some t" "r = Inr x"
        "gv_allowed x" "D = merge_transition t c' ch d"
    by (fastforce simp: merge_authorized_def)
  then show ?thesis
    by cases (simp_all add: args merge_transition_quiet get_task_id)
qed

lemma gate_runs:
  assumes "evaluate_merge_gate p c v cp requested d = (r, D)"
  shows "\<forall>run. run_events D run = run_events d run"
  using gate_effect [OF assms] by (auto simp: calm_def quiet_def)

text \<open>The alignment depends on four tables.\<close>

lemma alignment_cong:
  assumes "deltas d' = deltas d" "behaviors d' = behaviors d" "intents d' = intents d" "alignments d' = alignments d"
  shows "evaluate_alignment d' t rs is = evaluate_alignment d t rs is"
proof -
  have "get_behavior d' = get_behavior d" by (simp add: fun_eq_iff get_behavior_def assms)
  then have p: "is_protected_delta d' = is_protected_delta d"
    by (simp add: fun_eq_iff is_protected_delta_def cong: option.case_cong)
  have r: "delta_reasons d' = delta_reasons d" by (simp add: fun_eq_iff delta_reasons_def p)
  have rows: "task_deltas d' = task_deltas d" "task_intents d' = task_intents d"
    by (simp_all add: fun_eq_iff task_deltas_def task_intents_def assms)
  show ?thesis unfolding evaluate_alignment_def p r rows assms(4) ..
qed

section \<open>The journal of a segment\<close>

text \<open>
  The events of the run are chained, their phases are the completed ones in order, and each payload can be
  looked at.
\<close>

definition journal_ok :: "platform \<Rightarrow> string \<Rightarrow> segment \<Rightarrow> bool" where
  "journal_ok p run s \<longleftrightarrow>
     chained p (run_events (sg_db s) run) \<and>
     map (\<lambda>e. get_key (ce_payload e) ''phase'') (run_events (sg_db s) run) = map PStr (sg_completed s)"

lemma record_run_event_tasks:
  "tasks (record_run_event p f r d) = tasks d" "patches (record_run_event p f r d) = patches d"
  by (simp_all add: record_run_event_def add_event_def case_prod_unfold Let_def)

lemma record_run_event_payloads:
  "map ce_payload (run_events (record_run_event p f r d) r) = map ce_payload (run_events d r) @ [dr_payload f]"
  using record_event_payloads [of p f "Some r" d r] by (simp add: record_event_def)

lemma record_run_event_phases:
  "map (\<lambda>e. get_key (ce_payload e) k) (run_events (record_run_event p f r d) r) =
     map (\<lambda>e. get_key (ce_payload e) k) (run_events d r) @ [get_key (dr_payload f) k]"
  using arg_cong [OF record_run_event_payloads, of "map (\<lambda>j. get_key j k)" p f r d] by (simp add: o_def)

lemma finish_phase_journal:
  assumes "journal_ok p run s" "quiet (sg_db s) (sg_db s')" "sg_completed s' = sg_completed s"
    and "get_key (dr_payload f) ''phase'' = PStr phase"
  shows "journal_ok p run (finish_phase p run f phase entry s')"
  using assms by (simp add: journal_ok_def finish_phase_def quiet_def record_run_event_chained record_run_event_phases)

lemma finish_phase_fields [simp]:
  "sg_completed (finish_phase p run f phase entry s) = sg_completed s @ [phase]"
  "sg_verdict (finish_phase p run f phase entry s) = sg_verdict s"
  "sg_bundle (finish_phase p run f phase entry s) = sg_bundle s"
  "sg_certificate (finish_phase p run f phase entry s) = sg_certificate s"
  "sg_merge (finish_phase p run f phase entry s) = sg_merge s"
  "tasks (sg_db (finish_phase p run f phase entry s)) = tasks (sg_db s)"
  "patch_tasks (sg_db (finish_phase p run f phase entry s)) = patch_tasks (sg_db s)"
  by (simp_all add: finish_phase_def record_run_event_tasks patch_tasks_def)

lemma phase_draft_payload [simp]: "dr_payload (phase_draft sc e k kind j) = j"
  by (simp add: phase_draft_def)

text \<open>Whatever a phase does before it finishes keeps quiet about the run.\<close>

lemma run_phase_journal:
  assumes "run_phase p sc run rd require f s = (out, s')" "journal_ok p run s" "\<forall>e. out \<noteq> Raise e"
  shows "journal_ok p run s' \<and> sg_completed s' = sg_completed s @ [f]"
proof -
  have plain: "get_key ((''phase'', PStr f) # j) ''phase'' = PStr f" for f j by (simp add: get_key_def)
  have keep: "journal_ok p run (finish_phase p run g f e s2)"
    if "\<forall>r. run_events (sg_db s2) r = run_events (sg_db s) r" "sg_completed s2 = sg_completed s"
      "get_key (dr_payload g) ''phase'' = PStr f" for g e s2 f
    using assms(2) that by (simp add: journal_ok_def finish_phase_def record_run_event_chained record_run_event_phases)
  show ?thesis
  proof (cases "f \<in> {''reverify'', ''decide'', ''certify'', ''merge'', ''memory''}")
    case False
    then have "run_phase p sc run rd require f s = plain_phase p sc run f s" by (simp add: run_phase_def)
    with assms(1) have "s' = finish_phase p run
        (phase_draft sc ''Task'' (ts_id (sc_task sc)) (phase_event_kind f) [(''phase'', PStr f), (''blocked'', PBool False)])
        f [(''kind'', f), (''status'', ''ok'')] s"
      by (simp add: plain_phase_def)
    then show ?thesis by (simp add: keep plain)
  next
    case True
    then have "f = ''reverify'' \<or> f = ''decide'' \<or> f = ''certify'' \<or> f = ''merge'' \<or> f = ''memory''"
      by (simp only: insert_iff empty_iff simp_thms)
    then show ?thesis
    proof (elim disjE)
      assume "f = ''reverify''"
      then show ?thesis using assms(1,3)
        by (auto simp: run_phase_def reverify_phase_def plain split: prod.splits sum.splits
            dest!: quiet_reverification intro!: keep simp: quiet_def)
    next
      assume "f = ''decide''"
      then show ?thesis using assms(1,3)
        by (auto simp: run_phase_def decide_phase_def plain Let_def intro!: keep)
    next
      assume "f = ''certify''"
      then show ?thesis using assms(1,3)
        by (auto simp: run_phase_def certify_phase_def plain Let_def split: prod.splits sum.splits
            dest!: quiet_build intro!: keep simp: quiet_def)
    next
      assume "f = ''merge''"
      then show ?thesis using assms(1,3)
        by (auto simp: run_phase_def merge_phase_def plain split: prod.splits sum.splits
            dest!: gate_runs intro!: keep)
    next
      assume "f = ''memory''"
      then show ?thesis using assms(1,3)
        by (auto simp: run_phase_def memory_phase_def plain split: prod.splits sum.splits
            dest!: quiet_memory quiet_archaeology intro!: keep simp: quiet_def)
    qed
  qed
qed

lemma segment_journal:
  assumes "run_segment_from p sc run rd require fs s = (out, s')" "journal_ok p run s" "\<forall>e. out \<noteq> Raise e"
  obtains xs ys where "journal_ok p run s'" "fs = xs @ ys" "sg_completed s' = sg_completed s @ xs"
    "out = Proceed \<longrightarrow> ys = []" "fs \<noteq> [] \<longrightarrow> xs \<noteq> []"
proof -
  have "\<exists>xs ys. journal_ok p run s' \<and> fs = xs @ ys \<and> sg_completed s' = sg_completed s @ xs \<and>
      (out = Proceed \<longrightarrow> ys = []) \<and> (fs \<noteq> [] \<longrightarrow> xs \<noteq> [])"
    using assms
  proof (induction fs arbitrary: s)
    case (Cons f fs)
    obtain o1 s1 where one: "run_phase p sc run rd require f s = (o1, s1)" by fastforce
    show ?case
    proof (cases "o1 = Proceed")
      case True
      with run_phase_journal [OF one Cons.prems(2)] have j: "journal_ok p run s1" "sg_completed s1 = sg_completed s @ [f]"
        by simp_all
      from one True Cons.prems(1) have "run_segment_from p sc run rd require fs s1 = (out, s')" by simp
      from Cons.IH [OF this j(1) Cons.prems(3)] obtain xs ys where "journal_ok p run s'" "fs = xs @ ys"
        "sg_completed s' = sg_completed s1 @ xs" "out = Proceed \<longrightarrow> ys = []" by blast
      with j show ?thesis by (intro exI [of _ "f # xs"] exI [of _ ys]) simp
    next
      case False
      with one Cons.prems(1) have "out = o1" "s' = s1" by (cases o1; simp)+
      with run_phase_journal [OF one Cons.prems(2)] Cons.prems(3) False show ?thesis
        by (intro exI [of _ "[f]"] exI [of _ fs]) simp
    qed
  qed simp
  with that show thesis by blast
qed

lemma end_run_events: "events (end_run k st d) = events d"
  by (simp add: end_run_def case_prod_unfold Let_def)

lemma end_run_rows: "tasks (end_run k st d) = tasks d" "patches (end_run k st d) = patches d"
  "certificates (end_run k st d) = certificates d" "memories (end_run k st d) = memories d"
  by (simp_all add: end_run_def case_prod_unfold Let_def)

lemma get_or_create_run_fields:
  "rn_id (fst (get_or_create_run r d)) = rn_id r" "events (snd (get_or_create_run r d)) = events d"
  "tasks (snd (get_or_create_run r d)) = tasks d" "patches (snd (get_or_create_run r d)) = patches d"
  "deltas (snd (get_or_create_run r d)) = deltas d" "behaviors (snd (get_or_create_run r d)) = behaviors d"
  "intents (snd (get_or_create_run r d)) = intents d" "alignments (snd (get_or_create_run r d)) = alignments d"
  by (auto simp: get_or_create_run_def get_run_def split: option.split dest: find_keyed)

text \<open>The reader of a journey: the given one, or the scenario's evidence.\<close>

definition journey_reader :: "scenario \<Rightarrow> reader option \<Rightarrow> reader" where
  "journey_reader sc reader = (case reader of Some rd \<Rightarrow> rd | None \<Rightarrow> default_reader sc)"

text \<open>A journey that returned: the segment that ran, and where its result and database come from.\<close>

lemma e2e_result:
  assumes "run_e2e_workflow p seeder (Some sc) fs seed reader require d = (Inr res, D)"
  obtains d1 out s where "events d1 = events d" "tasks d1 = tasks d" "patches d1 = patches d"
    "evaluate_alignment d1 = evaluate_alignment d" "validate_phases fs = None"
    "run_segment_from p sc (workflow_id p (sc_run_token sc)) (journey_reader sc reader) require fs (start_segment d1) = (out, s)"
    "(out = Proceed \<and> res = complete_result sc s \<and> events D = events (sg_db s) \<and> tasks D = tasks (sg_db s) \<and>
        patches D = patches (sg_db s)) \<or>
     (\<exists>reason r d2. out = Block reason \<and> blocked_result p sc (Some (workflow_id p (sc_run_token sc))) reason s = (res, d2) \<and>
        events D = events d2 \<and> tasks D = tasks d2)"
proof -
  let ?run = "fst (get_or_create_run (e2e_run p sc) d)" and ?d1 = "snd (get_or_create_run (e2e_run p sc) d)"
  let ?rd = "journey_reader sc reader"
  have id: "rn_id ?run = workflow_id p (sc_run_token sc)" by (simp add: get_or_create_run_fields e2e_run_def)
  obtain out s where seg: "run_segment_from p sc (workflow_id p (sc_run_token sc)) ?rd require fs (start_segment ?d1) = (out, s)"
    by fastforce
  have val: "validate_phases fs = None"
    using assms by (auto simp: run_e2e_workflow_def split: option.splits)
  obtain rs d2 where run: "run_segment p sc (workflow_id p (sc_run_token sc)) ?rd require fs ?d1 = (rs, d2)" by fastforce
  with assms val have D: "rs = Inr res" "events D = events d2" "tasks D = tasks d2" "patches D = patches d2"
    by (auto simp: journey_reader_def run_e2e_workflow_def case_prod_unfold Let_def id end_run_events end_run_rows split: if_splits sum.splits)
  show thesis
  proof (rule that [OF _ _ _ _ val seg])
    show "events ?d1 = events d" "tasks ?d1 = tasks d" "patches ?d1 = patches d" by (simp_all add: get_or_create_run_fields)
    show "evaluate_alignment ?d1 = evaluate_alignment d" by (intro ext alignment_cong) (simp_all add: get_or_create_run_fields)
    show "(out = Proceed \<and> res = complete_result sc s \<and> events D = events (sg_db s) \<and> tasks D = tasks (sg_db s) \<and>
        patches D = patches (sg_db s)) \<or>
     (\<exists>reason r d2. out = Block reason \<and> blocked_result p sc (Some (workflow_id p (sc_run_token sc))) reason s = (res, d2) \<and>
        events D = events d2 \<and> tasks D = tasks d2)"
      using run D by (cases out) (auto simp: run_segment_def seg case_prod_unfold Let_def prod_eq_iff)
  qed
qed

end
