(* ===== verification/Journey.thy ===== *)
theory Journey
  imports Workflow_Proofs
begin

text \<open>
  The journey of \<open>run_e2e_workflow\<close> as a whole: its journal replays to what it reports, and tasks change
  only by a merge the gate has let pass.
\<close>

section \<open>Phases in order\<close>

lemma check_phases_sorted:
  "check_phases prev fs = None \<Longrightarrow>
     set fs \<subseteq> set DEFAULT_PHASES \<and> sorted_wrt (<) (map phase_position fs) \<and>
     (\<forall>n. prev = Some n \<longrightarrow> (\<forall>f \<in> set fs. n < phase_position f))"
proof (induction fs arbitrary: prev)
  case (Cons f fs)
  then have f: "f \<in> set DEFAULT_PHASES" "check_phases (Some (phase_position f)) fs = None"
      "\<forall>n. prev = Some n \<longrightarrow> n < phase_position f"
    by (auto split: if_splits option.splits)
  from Cons.IH [OF this(2)] f show ?case by (auto intro: order.strict_trans)
qed simp

lemma validated_phases:
  "validate_phases fs = None \<Longrightarrow> fs \<noteq> [] \<and> check_phases None fs = None"
  by (simp add: validate_phases_def split: if_splits)

lemma phases_of_named:
  assumes "map (\<lambda>e. get_key (ce_payload e) ''phase'') es = map PStr ns"
  shows "phases_of es = Inr (sort_key phase_position (filter (\<lambda>n. n \<in> set DEFAULT_PHASES) ns))"
proof -
  have "list_all (\<lambda>e. hashable (get_key (ce_payload e) ''phase'')) es \<and>
      List.map_filter (\<lambda>e. phase_in (ce_payload e)) es = filter (\<lambda>n. n \<in> set DEFAULT_PHASES) ns"
    using assms
    by (induction es arbitrary: ns) (auto simp: phase_in_def List.map_filter_simps Cons_eq_map_conv)
  then show ?thesis by (simp add: phases_of_def)
qed

lemma blocked_no_phase: "''blocked'' \<notin> set DEFAULT_PHASES"
  by (simp add: DEFAULT_PHASES_def)

section \<open>The journal of a journey\<close>

lemma start_segment_fields [simp]:
  "sg_db (start_segment d) = d" "sg_completed (start_segment d) = []" "sg_verdict (start_segment d) = None"
  "sg_bundle (start_segment d) = None" "sg_certificate (start_segment d) = None" "sg_merge (start_segment d) = None"
  by (simp_all add: start_segment_def)

lemma complete_result_fields [simp]:
  "wr_status (complete_result sc s) = ''COMPLETE''" "wr_completed (complete_result sc s) = sg_completed s"
  "wr_certificate_status (complete_result sc s) = map_option (\<lambda>b. cr_status (bu_certificate b)) (sg_bundle s)"
  "wr_merged (complete_result sc s) = (case sg_merge s of None \<Rightarrow> False | Some v \<Rightarrow> gv_allowed v)"
  by (simp_all add: complete_result_def)

lemma blocked_result_fields:
  assumes "blocked_result p sc (Some run) reason s = (res, d)"
  shows "wr_status res = ''BLOCKED''" "wr_completed res = sg_completed s" "\<not> wr_merged res"
    "tasks d = tasks (sg_db s)"
    "\<exists>f. d = record_run_event p f run (sg_db s) \<and> get_key (dr_payload f) ''phase'' = PStr ''blocked''"
  using assms
  by (auto simp: blocked_result_def Let_def record_event_def record_run_event_tasks get_key_def
      intro!: exI [of _ "phase_draft sc ''Task'' (ts_id (sc_task sc)) BLOCKED
        [(''phase'', PStr ''blocked''), (''blocked'', PBool True), (''reason'', PStr reason)]"])

lemma journey_journal:
  assumes "run_e2e_workflow p seeder (Some sc) fs seed reader require d = (Inr res, D)"
    and "run_events d (workflow_id p (sc_run_token sc)) = []"
  obtains ys rest where "fs = wr_completed res @ ys" "wr_status res = ''COMPLETE'' \<longrightarrow> ys = []" "wr_completed res \<noteq> []"
    "rest = [] \<or> rest = [''blocked'']" "chained p (run_events D (workflow_id p (sc_run_token sc)))"
    "map (\<lambda>e. get_key (ce_payload e) ''phase'') (run_events D (workflow_id p (sc_run_token sc))) =
       map PStr (wr_completed res @ rest)" "check_phases None fs = None"
proof -
  let ?run = "workflow_id p (sc_run_token sc)"
  obtain d1 out s where d1: "events d1 = events d" "tasks d1 = tasks d" "patches d1 = patches d" "evaluate_alignment d1 = evaluate_alignment d" and val: "validate_phases fs = None" and
      seg: "run_segment_from p sc ?run (journey_reader sc reader) require fs (start_segment d1) = (out, s)" and
      cases: "(out = Proceed \<and> res = complete_result sc s \<and> events D = events (sg_db s) \<and> tasks D = tasks (sg_db s) \<and>
          patches D = patches (sg_db s)) \<or>
        (\<exists>reason r d2. out = Block reason \<and> blocked_result p sc (Some ?run) reason s = (res, d2) \<and>
          events D = events d2 \<and> tasks D = tasks d2)"
    by (rule e2e_result [OF assms(1)])
  have ok0: "journal_ok p ?run (start_segment d1)" using assms(2) d1 by (simp add: journal_ok_def run_events_def)
  have returned: "\<forall>e. out \<noteq> Raise e" using cases by auto
  obtain xs ys where ok: "journal_ok p ?run s" and xs: "fs = xs @ ys" "sg_completed s = sg_completed (start_segment d1) @ xs"
      "out = Proceed \<longrightarrow> ys = []" "fs \<noteq> [] \<longrightarrow> xs \<noteq> []"
    by (rule segment_journal [OF seg ok0 returned])
  note fs = validated_phases [OF val]
  from cases show thesis
  proof
    assume *: "out = Proceed \<and> res = complete_result sc s \<and> events D = events (sg_db s) \<and> tasks D = tasks (sg_db s) \<and>
        patches D = patches (sg_db s)"
    then have "run_events D ?run = run_events (sg_db s) ?run" by (simp add: run_events_def)
    with * ok xs fs show thesis by (intro that [of ys "[]"]) (simp_all add: journal_ok_def)
  next
    assume "\<exists>reason r d2. out = Block reason \<and> blocked_result p sc (Some ?run) reason s = (res, d2) \<and>
          events D = events d2 \<and> tasks D = tasks d2"
    then obtain reason d2 where b: "blocked_result p sc (Some ?run) reason s = (res, d2)" "events D = events d2" by blast
    note f = blocked_result_fields [OF b(1)]
    obtain g where g: "d2 = record_run_event p g ?run (sg_db s)" "get_key (dr_payload g) ''phase'' = PStr ''blocked''"
      using f(5) by blast
    have "run_events D ?run = run_events (record_run_event p g ?run (sg_db s)) ?run" using b(2) g by (simp add: run_events_def)
    with ok g(2) f(1,2) xs fs show thesis
      by (intro that [of ys "[''blocked'']"]) (simp_all add: journal_ok_def record_run_event_chained record_run_event_phases)
  qed
qed

section \<open>Merges of a journey\<close>

lemma finish_phase_rows [simp]:
  "patches (sg_db (finish_phase p run g f e s)) = patches (sg_db s)"
  "get_patch (sg_db (finish_phase p run g f e s)) = get_patch (sg_db s)"
  "evaluate_alignment (sg_db (finish_phase p run g f e s)) = evaluate_alignment (sg_db s)"
proof -
  have rows: "patches (record_run_event p g run d) = patches d" "deltas (record_run_event p g run d) = deltas d"
      "behaviors (record_run_event p g run d) = behaviors d" "intents (record_run_event p g run d) = intents d"
      "alignments (record_run_event p g run d) = alignments d" for d
    by (simp_all add: record_run_event_def add_event_def case_prod_unfold Let_def)
  then show "patches (sg_db (finish_phase p run g f e s)) = patches (sg_db s)"
    "get_patch (sg_db (finish_phase p run g f e s)) = get_patch (sg_db s)"
    by (simp_all add: finish_phase_def get_patch_def fun_eq_iff)
  show "evaluate_alignment (sg_db (finish_phase p run g f e s)) = evaluate_alignment (sg_db s)"
    by (intro ext alignment_cong) (simp_all add: finish_phase_def rows)
qed

lemma map_of_patch_tasks: "map_of (patch_tasks d) k = map_option cp_task (get_patch d k)"
proof -
  have "map_of (map (\<lambda>c. (cp_id c, cp_task c)) cs) k = map_option cp_task (find (\<lambda>r. cp_id r = k) cs)" for cs
    by (induction cs) auto
  then show ?thesis by (simp add: patch_tasks_def get_patch_def)
qed

text \<open>
  What a segment has established: the verdict and the certificate it holds, and the tasks as they were, or
  the patch's task merged by the gate.
\<close>

definition merged_ok :: "scenario \<Rightarrow> bool \<Rightarrow> db \<Rightarrow> segment \<Rightarrow> bool" where
  "merged_ok sc require d s \<longleftrightarrow>
     patch_tasks (sg_db s) = patch_tasks d \<and>
     (sg_verdict s \<noteq> None \<longrightarrow> ''decide'' \<in> set (sg_completed s) \<and> require) \<and>
     (sg_certificate s \<noteq> None \<longrightarrow> ''certify'' \<in> set (sg_completed s) \<and>
       map_option (\<lambda>b. cr_status (bu_certificate b)) (sg_bundle s) = Some ''CERTIFIED'') \<and>
     (case sg_merge s of
        None \<Rightarrow> ''merge'' \<notin> set (sg_completed s) \<and> tasks (sg_db s) = tasks d
      | Some v \<Rightarrow> gv_allowed v \<and> ''merge'' \<in> set (sg_completed s) \<and> sg_verdict s \<noteq> None \<and> sg_certificate s \<noteq> None \<and>
          (\<exists>k. map_of (patch_tasks d) (sc_patch sc) = Some k \<and> tasks (sg_db s) = tasks (set_task_status k ''MERGED'' d)))"

lemma merged_ok_keep:
  assumes "merged_ok sc require d s" "quiet (sg_db s) (sg_db s1)" "f \<noteq> ''merge''"
    and "sg_completed s1 = sg_completed s" "sg_verdict s1 = sg_verdict s" "sg_bundle s1 = sg_bundle s"
    and "sg_certificate s1 = sg_certificate s" "sg_merge s1 = sg_merge s"
  shows "merged_ok sc require d (finish_phase p run g f e s1)"
  using assms by (auto simp: merged_ok_def quiet_def split: option.splits)

text \<open>A phase that goes on keeps this; one that blocks before the merge leaves the tasks.\<close>

definition phase_keeps :: "scenario \<Rightarrow> bool \<Rightarrow> db \<Rightarrow> phase_outcome \<times> segment \<Rightarrow> bool" where
  "phase_keeps sc require d r \<longleftrightarrow>
     (fst r = Proceed \<longrightarrow> merged_ok sc require d (snd r)) \<and> (\<forall>x. fst r = Block x \<longrightarrow> tasks (sg_db (snd r)) = tasks d)"

lemma merged_ok_tasks: "merged_ok sc require d s \<Longrightarrow> sg_merge s = None \<Longrightarrow> tasks (sg_db s) = tasks d"
  by (simp add: merged_ok_def)

lemma certify_keeps:
  assumes "merged_ok sc require d s" "sg_merge s = None"
  shows "phase_keeps sc require d (certify_phase p sc run s)"
proof -
  obtain r D where b: "build_certificate p (Some (sc_task sc)) (Some (sc_change sc)) (Some (sc_claim sc)) (get_patch (sg_db s) (sc_patch sc))
      (case sg_verdict s of None \<Rightarrow> False | Some v \<Rightarrow> av_aligned v) (sc_evidence sc)
      (Some [(''provider'', PStr ''nebius''), (''sandbox'', PStr ''token-factory'')])
      (Some [(''token_refresh'', PStr ''hardened'')]) None (sg_db s) = (r, D)" by fastforce
  from quiet_build [OF b] assms show ?thesis
    by (cases r) (auto simp: certify_phase_def b phase_keeps_def merged_ok_def quiet_def Let_def)
qed

lemma merge_keeps:
  assumes "merged_ok sc require d s" "sg_merge s = None"
  shows "phase_keeps sc require d (merge_phase p sc run s)"
proof -
  obtain r D where g: "evaluate_merge_gate p (sg_certificate s) (sg_verdict s) (get_patch (sg_db s) (sc_patch sc))
      (case sg_verdict s of None \<Rightarrow> [] | Some v \<Rightarrow> av_protected v) (sg_db s) = (r, D)" by fastforce
  have k: "map_of (patch_tasks d) (sc_patch sc) = Some (cp_task cp)" if "get_patch (sg_db s) (sc_patch sc) = Some cp" for cp
    using that assms(1) map_of_patch_tasks [of "sg_db s" "sc_patch sc"] by (simp add: merged_ok_def)
  have same: "tasks (set_task_status k st (sg_db s)) = tasks (set_task_status k st d)" for k st
    using merged_ok_tasks [OF assms] by (simp add: set_task_status_def)
  from gate_effect [OF g] assms k same show ?thesis
    by (cases r) (auto simp: merge_phase_def g phase_keeps_def merged_ok_def calm_def quiet_def patch_tasks_def)
qed

lemma run_phase_keeps:
  assumes "merged_ok sc require d s" "sg_merge s = None \<or> f = ''memory''"
  shows "phase_keeps sc require d (run_phase p sc run rd require f s)"
proof (cases "sg_merge s = None \<and> f \<in> {''reverify'', ''decide'', ''certify'', ''merge''}")
  case True
  then consider "f = ''reverify''" | "f = ''decide''" | "f = ''certify''" | "f = ''merge''" by auto
  then show ?thesis
  proof cases
    case 1
    obtain r D where v: "run_reverification p (get_patch (sg_db s) (sc_patch sc)) (Some rd) (sg_db s) = (r, D)" by fastforce
    note q = quiet_reverification [OF v]
    with merged_ok_tasks [OF assms(1)] True 1 show ?thesis
      by (cases r) (auto simp: run_phase_def reverify_phase_def v phase_keeps_def quiet_def [of "sg_db s"]
          intro!: merged_ok_keep [OF assms(1)])
  next
    case 2
    then show ?thesis using assms(1) True
      by (auto simp: run_phase_def decide_phase_def phase_keeps_def merged_ok_def Let_def)
  next
    case 3
    then show ?thesis using certify_keeps [OF assms(1)] True by (simp add: run_phase_def)
  next
    case 4
    then show ?thesis using merge_keeps [OF assms(1)] True by (simp add: run_phase_def)
  qed
next
  case False
  show ?thesis
  proof (cases "f = ''memory''")
    case True
    then show ?thesis
      by (auto simp: run_phase_def memory_phase_def phase_keeps_def split: prod.splits sum.splits
          dest!: quiet_memory quiet_archaeology intro!: merged_ok_keep [OF assms(1)] intro: quiet_trans)
  next
    case no: False
    then show ?thesis using False assms
      by (auto simp: run_phase_def plain_phase_def phase_keeps_def intro!: merged_ok_keep [OF assms(1)])
  qed
qed

text \<open>After the merge only the memory phase is left.\<close>

lemma after_merge: "f \<in> set DEFAULT_PHASES \<Longrightarrow> phase_position ''merge'' < phase_position f \<Longrightarrow> f = ''memory''"
  by (auto simp: DEFAULT_PHASES_def phase_position_def split: if_splits)

lemma run_phase_merge:
  assumes "run_phase p sc run rd require f s = (Proceed, s')" "sg_merge s' \<noteq> None"
  shows "sg_merge s \<noteq> None \<or> f = ''merge''"
  using assms
  by (auto simp: run_phase_def reverify_phase_def decide_phase_def certify_phase_def memory_phase_def plain_phase_def Let_def
      split: if_splits prod.splits sum.splits)

lemma run_phase_completed:
  "run_phase p sc run rd require f s = (Proceed, s') \<Longrightarrow> sg_completed s' = sg_completed s @ [f]"
  by (auto simp: run_phase_def reverify_phase_def decide_phase_def certify_phase_def merge_phase_def memory_phase_def
      plain_phase_def Let_def split: if_splits prod.splits sum.splits)

lemma segment_completed:
  "run_segment_from p sc run rd require fs s = (Proceed, s') \<Longrightarrow> sg_completed s' = sg_completed s @ fs"
  by (induction fs arbitrary: s) (auto dest!: run_phase_completed split: prod.splits phase_outcome.splits)

lemma segment_keeps:
  assumes "merged_ok sc require d s" "check_phases prev fs = None"
    and "sg_merge s \<noteq> None \<longrightarrow> (\<exists>n. prev = Some n \<and> phase_position ''merge'' \<le> n)"
  shows "phase_keeps sc require d (run_segment_from p sc run rd require fs s)"
  using assms
proof (induction fs arbitrary: s prev)
  case (Cons f fs)
  obtain out s' where one: "run_phase p sc run rd require f s = (out, s')" by fastforce
  have rest: "f \<in> set DEFAULT_PHASES" "check_phases (Some (phase_position f)) fs = None"
      "\<forall>n. prev = Some n \<longrightarrow> n < phase_position f"
    using Cons.prems(2) by (auto split: if_splits option.splits)
  have "sg_merge s = None \<or> f = ''memory''"
    using Cons.prems(3) rest(1,3) after_merge by fastforce
  from run_phase_keeps [OF Cons.prems(1) this, of p run rd] one
  have keeps: "phase_keeps sc require d (out, s')" by simp
  show ?case
  proof (cases "out = Proceed")
    case True
    have "sg_merge s' \<noteq> None \<longrightarrow> phase_position ''merge'' \<le> phase_position f"
      using run_phase_merge [OF one [unfolded True]] Cons.prems(3) rest(3) by fastforce
    with Cons.IH [of s' "Some (phase_position f)"] keeps rest(2) one True show ?thesis
      by (simp add: phase_keeps_def)
  next
    case False
    with one keeps show ?thesis by (cases out) simp_all
  qed
qed (simp add: phase_keeps_def)

section \<open>What stands behind a merge\<close>

text \<open>
  Evidence rows under which a re-verification leaves a candidate VERIFIED: every row with an exit code has 0, and
  there is one such row unless the candidate was VERIFIED before.
\<close>

definition reverified :: "platform \<Rightarrow> patch_row \<Rightarrow> evidence_row list \<Rightarrow> bool" where
  "reverified p cp rows \<longleftrightarrow>
     (let rs = filter rv_eligible (map (check_evidence p) rows) in
      rows \<noteq> [] \<and> list_all rv_passed rs \<and> (rs \<noteq> [] \<or> cp_status cp = ''VERIFIED''))"

lemma record_reverify_fields: "\<exists>w es. record_reverify cp j d = d\<lparr>host := w, events := es\<rparr>"
proof (cases "get_task d (cp_task cp)")
  case None
  then show ?thesis by (intro exI [of _ "host d"] exI [of _ "events d"]) (simp add: record_reverify_def)
next
  case (Some t)
  then show ?thesis using record_task_event_fields by (simp add: record_reverify_def)
qed

lemma reverification_verifies:
  assumes "run_reverification p (Some cp) (Some rd) d = (Inr rep, D)" "rt_blocked_reason rep = None" "get_patch d k = Some cp"
  shows "\<exists>cp'. get_patch D k = Some cp' \<and> (cp_status cp' = ''VERIFIED'' \<longrightarrow> reverified p cp (invoke_reader rd cp d))"
    "evaluate_alignment D = evaluate_alignment d"
proof -
  let ?rs = "filter rv_eligible (map (check_evidence p) (invoke_reader rd cp d))"
  let ?st = "if ?rs \<noteq> [] \<and> list_all rv_passed ?rs then ''VERIFIED''
    else if list_ex (\<lambda>r. \<not> rv_passed r) ?rs then ''FAILED'' else cp_status cp"
  obtain j where D: "D = record_reverify cp j (set_patch_status (cp_id cp) ?st d)" and rows: "invoke_reader rd cp d \<noteq> []"
    using assms(1,2) unfolding run_reverification_def Let_def by (auto split: if_splits)
  obtain w es where D': "D = (set_patch_status (cp_id cp) ?st d)\<lparr>host := w, events := es\<rparr>"
    using record_reverify_fields D by blast
  have id: "cp_id cp = k" using assms(3) by (auto simp: get_patch_def dest: find_keyed)
  have "get_patch D k = map_option (\<lambda>r. if cp_id r = cp_id cp then r\<lparr>cp_status := ?st\<rparr> else r) (get_patch d k)"
    unfolding D' get_patch_def set_patch_status_def by (simp add: find_map_keyed)
  then have "get_patch D k = Some (cp\<lparr>cp_status := ?st\<rparr>)" using assms(3) by simp
  moreover have "?st = ''VERIFIED'' \<longrightarrow> reverified p cp (invoke_reader rd cp d)"
    using rows by (auto simp: reverified_def Let_def list_all_iff list_ex_iff split: if_splits)
  ultimately show "\<exists>cp'. get_patch D k = Some cp' \<and> (cp_status cp' = ''VERIFIED'' \<longrightarrow> reverified p cp (invoke_reader rd cp d))"
    by (intro exI [of _ "cp\<lparr>cp_status := ?st\<rparr>"]) simp
  show "evaluate_alignment D = evaluate_alignment d"
    by (intro ext alignment_cong) (simp_all add: D' set_patch_status_def)
qed

text \<open>
  The evidence a segment carries: its verdict is the alignment of the database it started from, its candidate is
  untouched or was re-verified, and a merge had a certifiable verdict and a VERIFIED candidate.
\<close>

definition candidate_ok :: "platform \<Rightarrow> scenario \<Rightarrow> reader \<Rightarrow> db \<Rightarrow> segment \<Rightarrow> bool" where
  "candidate_ok p sc rd d s \<longleftrightarrow>
     (if ''reverify'' \<in> set (sg_completed s)
      then \<exists>cp cp' d0. get_patch d (sc_patch sc) = Some cp \<and> get_patch (sg_db s) (sc_patch sc) = Some cp' \<and>
        (cp_status cp' = ''VERIFIED'' \<longrightarrow> reverified p cp (invoke_reader rd cp d0))
      else patches (sg_db s) = patches d)"

definition judged :: "platform \<Rightarrow> scenario \<Rightarrow> reader \<Rightarrow> db \<Rightarrow> segment \<Rightarrow> bool" where
  "judged p sc rd d s \<longleftrightarrow>
     (set (sg_completed s) \<inter> {''certify'', ''merge'', ''memory''} = {} \<longrightarrow> evaluate_alignment (sg_db s) = evaluate_alignment d) \<and>
     (\<forall>v. sg_verdict s = Some v \<longrightarrow> v = evaluate_alignment d (Some (sc_task sc)) None None) \<and>
     candidate_ok p sc rd d s \<and>
     (sg_merge s \<noteq> None \<longrightarrow> (\<exists>v. sg_verdict s = Some v \<and> av_aligned v \<and> av_status v = ''CERTIFIABLE'') \<and>
        (\<exists>cp'. get_patch (sg_db s) (sc_patch sc) = Some cp' \<and> cp_status cp' = ''VERIFIED''))"

text \<open>A phase that leaves the candidates and the verdict, and the alignment unless certification is over.\<close>

lemma judged_keep:
  assumes "judged p sc rd d s" "patches (sg_db s') = patches (sg_db s)" "f \<noteq> ''reverify''"
    and "f \<in> {''certify'', ''merge'', ''memory''} \<or> evaluate_alignment (sg_db s') = evaluate_alignment (sg_db s)"
    and "sg_completed s' = sg_completed s @ [f]" "sg_verdict s' = sg_verdict s" "sg_merge s' = sg_merge s"
  shows "judged p sc rd d s'"
proof -
  have same: "get_patch (sg_db s') = get_patch (sg_db s)" using assms(2) by (simp add: get_patch_def fun_eq_iff)
  have mem: "''reverify'' \<in> set (sg_completed s') \<longleftrightarrow> ''reverify'' \<in> set (sg_completed s)" using assms(3,5) by auto
  have "candidate_ok p sc rd d s'"
    using assms(1) unfolding judged_def candidate_ok_def mem assms(2) same by (elim conjE)
  moreover have "set (sg_completed s') \<inter> {''certify'', ''merge'', ''memory''} = {} \<longrightarrow> evaluate_alignment (sg_db s') = evaluate_alignment d"
    using assms(1,4,5) unfolding judged_def by (simp only: set_append) auto
  ultimately show ?thesis using assms(1) unfolding judged_def assms(6,7) same by blast
qed

lemma run_phase_judged:
  assumes "judged p sc rd d s" "run_phase p sc run rd require f s = (Proceed, s')" "sg_merge s = None \<or> f = ''memory''"
    and "f \<in> {''decide'', ''reverify''} \<longrightarrow> set (sg_completed s) \<inter> {''reverify'', ''certify'', ''merge'', ''memory''} \<subseteq> (if f = ''decide'' then {''reverify''} else {})"
  shows "judged p sc rd d s'"
proof -
  note done1 = run_phase_completed [OF assms(2)]
  consider "f = ''reverify''" | "f = ''decide''" | "f = ''certify''" | "f = ''merge''" | "f = ''memory''"
    | "f \<notin> {''reverify'', ''decide'', ''certify'', ''merge'', ''memory''}" by blast
  then show ?thesis
  proof cases
    case 1
    then obtain rep D g e where run: "run_reverification p (get_patch (sg_db s) (sc_patch sc)) (Some rd) (sg_db s) = (Inr rep, D)"
        "rt_blocked_reason rep = None" and s': "s' = finish_phase p run g f e (s\<lparr>sg_db := D\<rparr>)"
      using assms(2) by (auto simp: run_phase_def reverify_phase_def split: prod.splits sum.splits option.splits)
    obtain cp where cp: "get_patch (sg_db s) (sc_patch sc) = Some cp"
      using run(1) by (cases "get_patch (sg_db s) (sc_patch sc)") (simp_all add: run_reverification_def)
    note v = reverification_verifies [OF run(1) [unfolded cp] run(2) cp]
    have "patches (sg_db s) = patches d" using assms(1,4) 1 by (auto simp: judged_def candidate_ok_def split: if_splits)
    then have "get_patch d (sc_patch sc) = Some cp" using cp by (simp add: get_patch_def)
    then have "candidate_ok p sc rd d s'" using v(1) 1 by (auto simp: candidate_ok_def s')
    then show ?thesis using assms(1,3) 1 v(2) by (auto simp: judged_def s')
  next
    case 2
    let ?v = "evaluate_alignment (sg_db s) (Some (sc_task sc)) None None"
    obtain g e where s': "s' = finish_phase p run g f e (s\<lparr>sg_verdict := Some ?v\<rparr>)"
      using assms(2) 2 by (auto simp: run_phase_def decide_phase_def Let_def split: if_splits)
    have "evaluate_alignment (sg_db s) = evaluate_alignment d" using assms(1,4) 2 by (auto simp: judged_def)
    then show ?thesis using assms(1,3) 2 by (auto simp: judged_def candidate_ok_def s')
  next
    case 3
    then obtain b D g e where b: "build_certificate p (Some (sc_task sc)) (Some (sc_change sc)) (Some (sc_claim sc)) (get_patch (sg_db s) (sc_patch sc))
        (case sg_verdict s of None \<Rightarrow> False | Some v \<Rightarrow> av_aligned v) (sc_evidence sc)
        (Some [(''provider'', PStr ''nebius''), (''sandbox'', PStr ''token-factory'')])
        (Some [(''token_refresh'', PStr ''hardened'')]) None (sg_db s) = (Inr b, D)"
      and s': "s' = finish_phase p run g f e (s\<lparr>sg_db := D, sg_bundle := Some b,
          sg_certificate := certificate_by_key D (cr_key (bu_certificate b))\<rparr>)"
      using assms(2) by (auto simp: run_phase_def certify_phase_def Let_def split: prod.splits sum.splits if_splits)
    have "patches D = patches (sg_db s)" using calm_build [OF b] by (simp add: calm_def)
    then show ?thesis by (intro judged_keep [OF assms(1) _ _ _ done1]) (use 3 in \<open>simp_all add: s'\<close>)
  next
    case 4
    then obtain w D g e where gate: "evaluate_merge_gate p (sg_certificate s) (sg_verdict s) (get_patch (sg_db s) (sc_patch sc))
        (case sg_verdict s of None \<Rightarrow> [] | Some v \<Rightarrow> av_protected v) (sg_db s) = (Inr w, D)" "gv_allowed w"
      and s': "s' = finish_phase p run g f e (s\<lparr>sg_db := D, sg_merge := Some w\<rparr>)"
      using assms(2) by (auto simp: run_phase_def merge_phase_def split: prod.splits sum.splits if_splits)
    from gate_effect [OF gate(1)] gate(2) obtain c v cp where g: "sg_certificate s = Some c" "sg_verdict s = Some v"
        "get_patch (sg_db s) (sc_patch sc) = Some cp" "patches D = patches (sg_db s)"
        "merge_authorized p (sg_db s) c (sg_verdict s) cp (case sg_verdict s of None \<Rightarrow> [] | Some v \<Rightarrow> av_protected v)"
      by auto
    then show ?thesis using assms(1) 4
      by (auto simp: judged_def candidate_ok_def s' merge_authorized_def get_patch_def)
  next
    case 5
    then have "patches (sg_db s') = patches (sg_db s)" "sg_verdict s' = sg_verdict s" "sg_merge s' = sg_merge s"
      using assms(2)
      by (auto simp: run_phase_def memory_phase_def calm_def split: prod.splits sum.splits dest!: calm_memory calm_archaeology)
    then show ?thesis by (intro judged_keep [OF assms(1) _ _ _ done1]) (use 5 in simp_all)
  next
    case 6
    then obtain g e where s': "s' = finish_phase p run g f e s"
      using assms(2) by (auto simp: run_phase_def plain_phase_def)
    show ?thesis by (intro judged_keep [OF assms(1) _ _ _ done1]) (use 6 in \<open>simp_all add: s'\<close>)
  qed
qed

lemma segment_judged:
  assumes "run_segment_from p sc run rd require fs s = (Proceed, s')" "judged p sc rd d s" "check_phases prev fs = None"
    and "\<forall>g \<in> set (sg_completed s). \<exists>n. prev = Some n \<and> phase_position g \<le> n"
    and "sg_merge s \<noteq> None \<longrightarrow> ''merge'' \<in> set (sg_completed s)"
  shows "judged p sc rd d s'"
  using assms
proof (induction fs arbitrary: s prev)
  case (Cons f fs)
  from Cons.prems(1) obtain s1 where one: "run_phase p sc run rd require f s = (Proceed, s1)"
      and seg: "run_segment_from p sc run rd require fs s1 = (Proceed, s')"
    by (auto split: prod.splits phase_outcome.splits)
  have f: "f \<in> set DEFAULT_PHASES" "check_phases (Some (phase_position f)) fs = None" "\<forall>n. prev = Some n \<longrightarrow> n < phase_position f"
    using Cons.prems(3) by (auto split: if_splits option.splits)
  have before: "phase_position g < phase_position f" if "g \<in> set (sg_completed s)" for g
    using Cons.prems(4) f(3) that by fastforce
  have done1: "sg_completed s1 = sg_completed s @ [f]" by (rule run_phase_completed [OF one])
  have merge: "sg_merge s = None \<or> f = ''memory''"
    using Cons.prems(5) before [of "''merge''"] after_merge [OF f(1)] by blast
  have order: "f \<in> {''decide'', ''reverify''} \<longrightarrow> set (sg_completed s) \<inter> {''reverify'', ''certify'', ''merge'', ''memory''} \<subseteq> (if f = ''decide'' then {''reverify''} else {})"
    using before by (fastforce simp: phase_position_def DEFAULT_PHASES_def)
  have "sg_merge s1 \<noteq> None \<longrightarrow> ''merge'' \<in> set (sg_completed s1)"
    using run_phase_merge [OF one] Cons.prems(5) done1 by auto
  moreover have "\<forall>g \<in> set (sg_completed s1). \<exists>n. Some (phase_position f) = Some n \<and> phase_position g \<le> n"
    using before by (auto simp: done1 intro: less_imp_le)
  ultimately show ?case
    using Cons.IH [OF seg run_phase_judged [OF Cons.prems(2) one merge order] f(2)] by blast
qed simp

lemma journey_merges:
  assumes "run_e2e_workflow p seeder (Some sc) fs seed reader require d = (Inr res, D)"
    and "v = evaluate_alignment d (Some (sc_task sc)) None None"
  shows "(wr_merged res \<longleftrightarrow> wr_status res = ''COMPLETE'' \<and> ''merge'' \<in> set fs) \<and>
    (if wr_merged res
     then require \<and> ''decide'' \<in> set fs \<and> ''certify'' \<in> set fs \<and> wr_certificate_status res = Some ''CERTIFIED'' \<and>
       av_aligned v \<and> av_status v = ''CERTIFIABLE'' \<and>
       (\<exists>cp cp'. get_patch d (sc_patch sc) = Some cp \<and> get_patch D (sc_patch sc) = Some cp' \<and> cp_status cp' = ''VERIFIED'' \<and>
          (if ''reverify'' \<in> set fs then \<exists>d0. reverified p cp (invoke_reader (journey_reader sc reader) cp d0)
           else cp_status cp = ''VERIFIED'') \<and>
          tasks D = tasks (set_task_status (cp_task cp) ''MERGED'' d))
     else tasks D = tasks d)"
proof -
  let ?run = "workflow_id p (sc_run_token sc)"
  obtain d1 out s where d1: "events d1 = events d" "tasks d1 = tasks d" "patches d1 = patches d" "evaluate_alignment d1 = evaluate_alignment d" and val: "validate_phases fs = None" and
      seg: "run_segment_from p sc ?run (journey_reader sc reader) require fs (start_segment d1) = (out, s)" and
      cases: "(out = Proceed \<and> res = complete_result sc s \<and> events D = events (sg_db s) \<and> tasks D = tasks (sg_db s) \<and>
          patches D = patches (sg_db s)) \<or>
        (\<exists>reason r d2. out = Block reason \<and> blocked_result p sc (Some ?run) reason s = (res, d2) \<and>
          events D = events d2 \<and> tasks D = tasks d2)"
    by (rule e2e_result [OF assms(1)])
  have "merged_ok sc require d (start_segment d1)"
    using d1 by (simp add: merged_ok_def patch_tasks_def)
  from segment_keeps [OF this conjunct2 [OF validated_phases [OF val]], of p ?run "journey_reader sc reader"] seg
  have keeps: "phase_keeps sc require d (out, s)" by simp
  from cases show ?thesis
  proof
    assume *: "out = Proceed \<and> res = complete_result sc s \<and> events D = events (sg_db s) \<and> tasks D = tasks (sg_db s) \<and>
        patches D = patches (sg_db s)"
    then have ok: "merged_ok sc require d s" using keeps by (simp add: phase_keeps_def)
    have "sg_completed s = fs"
      using * segment_completed [of p sc ?run "journey_reader sc reader" require fs "start_segment d1" s] seg by simp
    have j0: "judged p sc (journey_reader sc reader) d (start_segment d1)"
      using d1 by (simp add: judged_def candidate_ok_def)
    have "judged p sc (journey_reader sc reader) d s"
      using segment_judged [OF _ j0 conjunct2 [OF validated_phases [OF val]]] seg * by simp
    with * ok \<open>sg_completed s = fs\<close> assms(2) show ?thesis
      by (cases "sg_merge s")
        (auto simp: merged_ok_def map_of_patch_tasks judged_def candidate_ok_def get_patch_def split: if_splits)
  next
    assume "\<exists>reason r d2. out = Block reason \<and> blocked_result p sc (Some ?run) reason s = (res, d2) \<and>
          events D = events d2 \<and> tasks D = tasks d2"
    then obtain reason d2 where b: "out = Block reason" "blocked_result p sc (Some ?run) reason s = (res, d2)" "tasks D = tasks d2"
      by blast
    with keeps blocked_result_fields [OF b(2)] show ?thesis by (simp add: phase_keeps_def)
  qed
qed

section \<open>Properties\<close>

text \<open>
  C24. The journey journals what it did: when \<open>run_e2e_workflow\<close> returns over a run without events, complete
  or blocked, the run replays with a valid chain, and the phases the replay finds are exactly those the
  result reports as completed, a prefix of the requested ones, all of them when it is complete.
\<close>
theorem workflow_journey_replays:
  assumes "run_e2e_workflow p seeder (Some sc) fs seed reader require d = (Inr res, D)"
    and "run_events d (rn_id r) = []" and "rn_id r = workflow_id p (sc_run_token sc)"
    and "\<forall>s. sha256 p s \<noteq> []"
  shows "\<exists>rep. replay_from_evidence_graph p D (Some r) task None = Inr rep \<and> rr_chain_valid rep \<and> rr_replayable rep \<and>
    rr_phases rep = wr_completed res \<and>
    (\<exists>ys. fs = wr_completed res @ ys \<and> (wr_status res = ''COMPLETE'' \<longrightarrow> ys = []))"
proof -
  obtain ys rest where fs: "fs = wr_completed res @ ys" "wr_status res = ''COMPLETE'' \<longrightarrow> ys = []" and
      ne: "wr_completed res \<noteq> []" and rest: "rest = [] \<or> rest = [''blocked'']" and
      chain: "chained p (run_events D (rn_id r))" and
      names: "map (\<lambda>e. get_key (ce_payload e) ''phase'') (run_events D (rn_id r)) = map PStr (wr_completed res @ rest)" and
      ok: "check_phases None fs = None"
    by (rule journey_journal [OF assms(1) assms(2) [unfolded assms(3)], folded assms(3)])
  note same = chained_run_chain [OF chain]
  have sorted: "set (wr_completed res) \<subseteq> set DEFAULT_PHASES" "sorted_wrt (<) (map phase_position (wr_completed res))"
    using check_phases_sorted [OF ok] fs(1) by (auto simp: sorted_wrt_append)
  have "filter (\<lambda>n. n \<in> set DEFAULT_PHASES) (wr_completed res @ rest) = wr_completed res"
    using sorted(1) rest blocked_no_phase by (auto simp: filter_id_conv)
  moreover have "sort_key phase_position (wr_completed res) = wr_completed res"
    using sorted(2) by (intro sorted_stays strict_sorted_imp_sorted)
  ultimately have ph: "phases_of (run_chain D (rn_id r)) = Inr (wr_completed res)"
    using phases_of_named [OF names] by (simp add: same)
  then obtain rep where rep: "replay_of p D (rn_task r) (ordered_events D (rn_id r)) None = Inr rep"
    using replay_of_total by blast
  have "run_events D (rn_id r) \<noteq> []" using names ne by auto
  with replay_of_fields(1-3) [OF rep] chained_intact [OF chain assms(4)] ph same
  have "rr_chain_valid rep \<and> rr_replayable rep \<and> rr_phases rep = wr_completed res" by simp
  with rep fs show ?thesis by (auto simp: replay_of_run)
qed

text \<open>
  C4. The journey merges through the gate only: it reports a merge exactly when it completed with a merge
  phase; then certification was required, the alignment of the database it started from is aligned and
  CERTIFIABLE, a certificate reached CERTIFIED in the same journey, the candidate is VERIFIED in the end, by
  evidence of the re-verification without a failed exit code or, in a journey without that phase, from the start,
  and the task of the scenario's patch, as the database gave it, is MERGED; in every other journey that returns,
  blocked ones included, the tasks are what they were.
\<close>
theorem journey_merges_through_the_gate:
  assumes "run_e2e_workflow p seeder (Some sc) fs seed reader require d = (Inr res, D)"
    and "v = evaluate_alignment d (Some (sc_task sc)) None None"
  shows "(wr_merged res \<longleftrightarrow> wr_status res = ''COMPLETE'' \<and> ''merge'' \<in> set fs) \<and>
    (if wr_merged res
     then require \<and> ''decide'' \<in> set fs \<and> ''certify'' \<in> set fs \<and> wr_certificate_status res = Some ''CERTIFIED'' \<and>
       av_aligned v \<and> av_status v = ''CERTIFIABLE'' \<and>
       (\<exists>cp cp'. get_patch d (sc_patch sc) = Some cp \<and> get_patch D (sc_patch sc) = Some cp' \<and> cp_status cp' = ''VERIFIED'' \<and>
          (if ''reverify'' \<in> set fs then \<exists>d0. reverified p cp (invoke_reader (journey_reader sc reader) cp d0)
           else cp_status cp = ''VERIFIED'') \<and>
          tasks D = tasks (set_task_status (cp_task cp) ''MERGED'' d))
     else tasks D = tasks d)"
  by (rule journey_merges [OF assms])

end
