(* ===== verification/Progress.thy ===== *)
theory Progress
  imports Journey
begin

text \<open>
  Progress of the journey: over a database that can be certified, the phases from discovery to the
  memory run through. Each phase gets a lemma that says from which state it goes on and what it leaves.
\<close>

section \<open>Databases that differ in their log\<close>

definition logged :: "db \<Rightarrow> db \<Rightarrow> bool" where
  "logged d d' \<longleftrightarrow>
     (\<exists>w es. d' = d\<lparr>host := w, events := es\<rparr> \<and> uuid_at w = uuid_at (host d) \<and> uuids (host d) \<le> uuids w)"

lemma logged_refl [simp]: "logged d d"
  unfolding logged_def by (cases d) (intro exI [of _ "host d"] exI [of _ "events d"], simp)

lemma logged_trans: "logged d d' \<Longrightarrow> logged d' d'' \<Longrightarrow> logged d d''"
  by (fastforce simp: logged_def)

lemma logged_now: "logged d (snd (db_now d))"
  unfolding logged_def
  by (intro exI [of _ "snd (now (host d))"] exI [of _ "events d"]) (simp add: now_def)

lemma logged_add_event: "logged d (add_event e d)"
proof -
  obtain es where "add_event e d = (snd (db_now (snd (db_uuid d))))\<lparr>events := es\<rparr>"
    by (simp add: add_event_def case_prod_unfold Let_def)
  then show ?thesis
    by (auto simp: logged_def now_def uuid4_def intro!: exI [of _ "snd (now (snd (uuid4 (host d))))"] exI [of _ es])
qed

lemma logged_run_event: "logged d (record_run_event p f r d)"
  using logged_trans [OF logged_now logged_add_event] by (simp add: record_run_event_def case_prod_unfold Let_def del: db_now_fields)

lemma logged_task_event: "logged d (record_task_event f d)"
  using logged_trans [OF logged_now logged_add_event] by (simp add: record_task_event_def case_prod_unfold Let_def del: db_now_fields)

lemma logged_fresh:
  assumes "logged d d'" "fresh_ids p d"
  shows "fresh_ids p d'"
  unfolding fresh_ids_def
proof (intro allI impI)
  obtain w es where d': "d' = d\<lparr>host := w, events := es\<rparr>" "uuid_at w = uuid_at (host d)" "uuids (host d) \<le> uuids w"
    using assms(1) by (auto simp: logged_def)
  fix n assume "uuids (host d') \<le> n"
  with d'(1,3) have "uuids (host d) \<le> n" by simp
  with assms(2) d'(1,2)
  show "uuid_at (host d') n \<notin> ct_id ` set (certificates d') \<and> uuid_at (host d') n \<notin> en_id ` set (evidence d') \<and>
      parse_uuid p (uuid_at (host d') n) = Some (uuid_at (host d') n)"
    by (simp add: fresh_ids_def)
qed

lemma logged_rows:
  assumes "logged d d'"
  shows "tasks d' = tasks d" "changes d' = changes d" "patches d' = patches d" "certificates d' = certificates d"
    "evidence d' = evidence d" "get_task d' = get_task d" "get_change d' = get_change d" "get_patch d' = get_patch d"
    "get_certificate d' = get_certificate d" "certificate_by_key d' = certificate_by_key d" "failures d' = failures d"
    "evaluate_alignment d' = evaluate_alignment d" "canonical_certificate_payload p d' c = canonical_certificate_payload p d c"
proof -
  obtain w es where d': "d' = d\<lparr>host := w, events := es\<rparr>" using assms by (auto simp: logged_def)
  show "canonical_certificate_payload p d' c = canonical_certificate_payload p d c"
    by (rule canonical_cong) (simp_all add: d')
  show "evaluate_alignment d' = evaluate_alignment d"
    by (intro ext alignment_cong) (simp_all add: d')
qed (use assms in \<open>auto simp: logged_def fun_eq_iff get_task_def get_change_def get_patch_def get_certificate_def
  certificate_by_key_def\<close>)

section \<open>What the phases go on from\<close>

lemma finish_phase_logged: "logged (sg_db s) (sg_db (finish_phase p run g f e s))"
  by (simp add: finish_phase_def logged_run_event)

text \<open>A segment that only logged.\<close>

definition moved :: "segment \<Rightarrow> segment \<Rightarrow> bool" where
  "moved s s' \<longleftrightarrow> logged (sg_db s) (sg_db s') \<and> sg_verdict s' = sg_verdict s"

lemma plain_run:
  assumes "set fs \<inter> {''reverify'', ''decide'', ''certify'', ''merge'', ''memory''} = {}"
  obtains s' where "run_segment_from p sc run rd require fs s = (Proceed, s')" "moved s s'"
proof -
  have "\<exists>s'. run_segment_from p sc run rd require fs s = (Proceed, s') \<and> moved s s'"
    using assms
  proof (induction fs arbitrary: s)
    case (Cons f fs)
    let ?s = "snd (plain_phase p sc run f s)"
    have "moved s ?s" by (simp add: moved_def plain_phase_def finish_phase_logged)
    moreover obtain s' where "run_segment_from p sc run rd require fs ?s = (Proceed, s')" "moved ?s s'"
      using Cons.IH [of ?s] Cons.prems by auto
    moreover have "run_phase p sc run rd require f s = (Proceed, ?s)"
      using Cons.prems by (auto simp: run_phase_def plain_phase_def)
    ultimately show ?case using logged_trans by (auto simp: moved_def)
  qed (simp add: moved_def)
  with that show thesis by blast
qed

lemma run_segment_append:
  "run_segment_from p sc run rd require xs s = (Proceed, s1) \<Longrightarrow>
   run_segment_from p sc run rd require (xs @ ys) s = run_segment_from p sc run rd require ys s1"
  by (induction xs arbitrary: s) (auto split: prod.splits phase_outcome.splits)

lemma aligned_status:
  "av_status (evaluate_alignment d (Some t) rs is) =
    (if av_aligned (evaluate_alignment d (Some t) rs is) then ''CERTIFIABLE'' else ''NON_CERTIFIABLE'')"
  by (simp only: evaluate_alignment_def Let_def option.case alignment_verdict.select_convs)

lemma decide_goes_on:
  assumes "av_aligned (evaluate_alignment (sg_db s) (Some (sc_task sc)) None None)"
  obtains s' where "run_phase p sc run rd True ''decide'' s = (Proceed, s')" "logged (sg_db s) (sg_db s')"
    "sg_verdict s' = Some (evaluate_alignment (sg_db s) (Some (sc_task sc)) None None)"
proof -
  let ?v = "evaluate_alignment (sg_db s) (Some (sc_task sc)) None None"
  have "is_certifiable (av_aligned ?v) (av_status ?v)"
    using assms by (simp add: aligned_status is_certifiable_def)
  then show thesis
    using finish_phase_logged [of "s\<lparr>sg_verdict := Some ?v\<rparr>"]
    by (intro that) (auto simp: run_phase_def decide_phase_def Let_def)
qed

lemma reverify_goes_on:
  assumes "get_patch (sg_db s) (sc_patch sc) = Some cp" and "\<And>d c. invoke_reader rd c d = rows"
    and "rows \<noteq> []" and "\<forall>r \<in> set rows. get_key (en_machine_result r) ''exit_code'' = PInt 0"
  obtains s' where "run_phase p sc run rd require ''reverify'' s = (Proceed, s')"
    "logged (set_patch_status (cp_id cp) ''VERIFIED'' (sg_db s)) (sg_db s')" "sg_verdict s' = sg_verdict s"
proof -
  have checks: "\<forall>r \<in> set rows. rv_eligible (check_evidence p r) \<and> rv_passed (check_evidence p r)"
    using assms(4) by (simp add: check_evidence_def)
  then have el: "filter rv_eligible (map (check_evidence p) rows) = map (check_evidence p) rows"
    by (auto simp: filter_id_conv)
  have "\<exists>rep j. run_reverification p (Some cp) (Some rd) (sg_db s) =
      (Inr rep, record_reverify cp j (set_patch_status (cp_id cp) ''VERIFIED'' (sg_db s))) \<and> rt_blocked_reason rep = None"
    using checks assms(2,3) by (auto simp: run_reverification_def Let_def el list_all_iff)
  then obtain rep j where run: "run_reverification p (Some cp) (Some rd) (sg_db s) =
      (Inr rep, record_reverify cp j (set_patch_status (cp_id cp) ''VERIFIED'' (sg_db s)))" "rt_blocked_reason rep = None"
    by blast
  have "logged (set_patch_status (cp_id cp) ''VERIFIED'' (sg_db s)) (record_reverify cp j (set_patch_status (cp_id cp) ''VERIFIED'' (sg_db s)))"
    by (simp add: record_reverify_def logged_task_event split: option.split)
  moreover have "logged (record_reverify cp j (set_patch_status (cp_id cp) ''VERIFIED'' (sg_db s))) (sg_db (finish_phase p run g f e
      (s\<lparr>sg_db := record_reverify cp j (set_patch_status (cp_id cp) ''VERIFIED'' (sg_db s))\<rparr>)))" for g f e
    using finish_phase_logged [of "s\<lparr>sg_db := record_reverify cp j (set_patch_status (cp_id cp) ''VERIFIED'' (sg_db s))\<rparr>"] by simp
  ultimately have log: "logged (set_patch_status (cp_id cp) ''VERIFIED'' (sg_db s)) (sg_db (finish_phase p run g f e
      (s\<lparr>sg_db := record_reverify cp j (set_patch_status (cp_id cp) ''VERIFIED'' (sg_db s))\<rparr>)))" for g f e
    by (rule logged_trans)
  obtain g e where step: "run_phase p sc run rd require ''reverify'' s = (Proceed, finish_phase p run g ''reverify'' e
      (s\<lparr>sg_db := record_reverify cp j (set_patch_status (cp_id cp) ''VERIFIED'' (sg_db s))\<rparr>))"
    by (simp add: run_phase_def reverify_phase_def assms(1) run)
  from that [OF step log] show thesis by simp
qed

lemma certify_goes_on:
  assumes "sg_verdict s = Some v" "av_aligned v" "get_patch (sg_db s) (sc_patch sc) = Some cp" "sc_evidence sc \<noteq> []"
    and "certificate_by_key (sg_db s) (certificate_key_for p (ts_id (sc_task sc)) (cl_id (sc_claim sc))) = None"
    and "fresh_ids p (sg_db s)" "wf_evidence p (evidence (sg_db s))"
  obtains s' c x where "run_phase p sc run rd require ''certify'' s = (Proceed, s')" "sg_certificate s' = Some c"
    "sg_verdict s' = Some v" "ct_status c = ''CERTIFIED''"
    "verify_certificate_integrity p (sg_db s') (Some c) = Inr x" "all_valid x"
    "tasks (sg_db s') = tasks (sg_db s)" "changes (sg_db s') = changes (sg_db s)" "patches (sg_db s') = patches (sg_db s)"
    "failures (sg_db s') = failures (sg_db s)" "ct_task c = Some (ts_id (sc_task sc))"
    "certificate_by_key (sg_db s') (certificate_key_for p (ts_id (sc_task sc)) (cl_id (sc_claim sc))) = Some c"
proof -
  let ?env = "Some [(''provider'', PStr ''nebius''), (''sandbox'', PStr ''token-factory'')]"
  let ?dep = "Some [(''token_refresh'', PStr ''hardened'')]"
  obtain c D where b: "build_certificate p (Some (sc_task sc)) (Some (sc_change sc)) (Some (sc_claim sc)) (Some cp) True
        (sc_evidence sc) ?env ?dep None (sg_db s) = (Inr (bundle_of c), D)" and
      c: "certificates D = certificates (sg_db s) @ [c]" "ct_id c \<notin> ct_id ` set (certificates (sg_db s))"
        "wf_evidence p (evidence D)"
        "ct_payload c = with_extra ''dependency_state'' ?dep (with_extra ''environment'' ?env (canonical_certificate_payload p D c))"
        "ct_evidence_hash c = Some (compute_integrity_hash p (ct_payload c))"
        "ct_key c = certificate_key_for p (ts_id (sc_task sc)) (cl_id (sc_claim sc))"
        "ct_task c = Some (ts_id (sc_task sc))" "ct_claim c = Some (cl_id (sc_claim sc))"
        "ct_status c = (if True \<and> sc_evidence sc \<noteq> [] then ''CERTIFIED'' else ''DRAFT'')" and
      same: "tasks D = tasks (sg_db s)" "changes D = changes (sg_db s)" "patches D = patches (sg_db s)"
    by (rule built_certificate [OF assms(5-7), where ch = "Some (sc_change sc)" and cp = cp and aligned = True
          and rows = "sc_evidence sc" and env = ?env and dep = ?dep and issued = None])
  have status: "ct_status c = ''CERTIFIED''" using c(9) assms(4) by simp
  have found: "certificate_by_key D (ct_key c) = Some c"
    unfolding certificate_by_key_def c(1)
    by (rule find_appended) (use assms(5) in \<open>auto simp: c(6) certificate_by_key_def find_None_iff\<close>)
  have summary: "cr_key (bu_certificate (bundle_of c)) = ct_key c" "cr_status (bu_certificate (bundle_of c)) = ct_status c"
    by (simp_all add: bundle_of_def)
  let ?s = "s\<lparr>sg_db := D, sg_bundle := Some (bundle_of c), sg_certificate := Some c\<rparr>"
  obtain g e where run: "run_phase p sc run rd require ''certify'' s = (Proceed, finish_phase p run g ''certify'' e ?s)"
    using found by (simp add: run_phase_def certify_phase_def assms(1-3) b summary status Let_def)
  let ?s' = "finish_phase p run g ''certify'' e ?s"
  have log: "logged D (sg_db ?s')" using finish_phase_logged [of ?s] by simp
  note rows = logged_rows [OF log]
  have row: "get_certificate (sg_db ?s') (ct_id c) = Some c"
    unfolding rows(9) get_certificate_def c(1) by (rule find_appended) (use c(2) in \<open>auto simp: image_iff\<close>)
  have "ct_key c = derive_certificate_key p c"
    using c(6-8) by (simp add: derive_certificate_key_def)
  then obtain x where "verify_certificate_integrity p (sg_db ?s') (Some c) = Inr x" "all_valid x"
    using intact_certificate [OF row, of p ?dep ?env] c(3-5) by (auto simp: rows)
  moreover have "failures D = failures (sg_db s)" using calm_build [OF b] by (simp add: calm_def)
  ultimately show thesis using run status rows same assms(1) found c(6,7) by (intro that [of ?s']) simp_all
qed

lemma merge_goes_on:
  assumes "sg_verdict s = Some v" "av_aligned v" "av_status v = ''CERTIFIABLE''" "av_protected v = []"
    and "sg_certificate s = Some c" "ct_status c = ''CERTIFIED''"
    and "verify_certificate_integrity p (sg_db s) (Some c) = Inr x" "all_valid x"
    and "get_patch (sg_db s) (sc_patch sc) = Some cp" "cp_status cp = ''VERIFIED''"
    and "get_task (sg_db s) (cp_task cp) = Some t" "get_change (sg_db s) (cp_change cp) = Some ch"
  obtains s' w where "run_phase p sc run rd require ''merge'' s = (Proceed, s')" "sg_merge s' = Some w" "gv_allowed w"
    "sg_certificate s' = Some c" "certificate_by_key (sg_db s') = certificate_by_key (sg_db s)" "failures (sg_db s') = failures (sg_db s)"
proof -
  have "merge_authorized p (sg_db s) c (Some v) cp []"
    using assms by (auto simp: merge_authorized_def protected_behaviors_authorized_def)
  from gate_authorized [OF this assms(11,12)] obtain w where
    "evaluate_merge_gate p (Some c) (Some v) (Some cp) [] (sg_db s) = (Inr w, merge_transition t c ch (sg_db s))" "gv_allowed w"
    by blast
  then obtain g e where step: "run_phase p sc run rd require ''merge'' s = (Proceed, finish_phase p run g ''merge'' e
      (s\<lparr>sg_db := merge_transition t c ch (sg_db s), sg_merge := Some w\<rparr>))" and w: "gv_allowed w"
    using assms(1,4,5,9) by (auto simp: run_phase_def merge_phase_def)
  obtain h es where m: "merge_transition t c ch (sg_db s) =
      (set_change_status (ch_id ch) ''MERGED'' (set_task_status (ts_id t) ''MERGED'' (sg_db s)))\<lparr>host := h, events := es\<rparr>"
    using merge_transition_fields by blast
  have "logged (merge_transition t c ch (sg_db s)) (sg_db (finish_phase p run g ''merge'' e
      (s\<lparr>sg_db := merge_transition t c ch (sg_db s), sg_merge := Some w\<rparr>)))"
    using finish_phase_logged [of "s\<lparr>sg_db := merge_transition t c ch (sg_db s), sg_merge := Some w\<rparr>"] by simp
  note rows = logged_rows [OF this]
  show thesis
    by (rule that [OF step, where w = w]) (simp_all add: w assms(5) rows, simp_all add: m set_change_status_def set_task_status_def
        certificate_by_key_def fun_eq_iff)
qed

lemma memory_goes_on:
  assumes "get_failure (sg_db s) (fl_id (sc_failure sc)) \<noteq> None" "sg_certificate s = Some c" "ct_status c = ''CERTIFIED''"
  obtains s' a i j where "run_phase p sc run rd require ''memory'' s = (Proceed, s')" "sg_memory s'"
    "certificate_by_key (sg_db s') = certificate_by_key (sg_db s)" "ar_failure_id a = fl_id (sc_failure sc)"
    "remembered (sg_db s') (certification_ref p c (sc_task sc) a) i" "remembered (sg_db s') (archaeology_memory_key p a) j"
proof -
  let ?k = "fl_id (sc_failure sc)"
  obtain f where f: "get_failure (sg_db s) ?k = Some f" "fl_id f = ?k" "f \<in> set (failures (sg_db s))"
    using assms(1) by (auto simp: get_failure_def dest: find_keyed)
  then have "?k \<in> set (map fl_id (failures (sg_db s)))" by (metis image_eqI list.set_map)
  then have "resolve_ref p (map fl_id (failures (sg_db s))) (RefRow ?k) = Some ?k" by (simp add: resolve_ref_def)
  then obtain a d1 where a: "persist_archaeology p (Some (sc_task sc)) (RefRow ?k) [RefRow (sc_ghost sc)] [RefRow (cl_id (sc_claim sc))]
      [RefRow (sc_repair sc)] [failure_evidence_ref (sg_db s) (sc_failure sc)] True (sg_db s) = (Inr a, d1)" "ar_failure_id a = ?k"
    using f by (simp add: persist_archaeology_def Let_def archaeology_of_def)
  obtain m d2 where m: "run_memory_pipeline p (Some c) (Some (sc_task sc)) (Some (sc_change sc)) (Some a) d1 = (Inr m, d2)"
    by (rule pipeline_returns [OF assms(3)])
  obtain i j where ij: "mr_applied m" "remembered d2 (certification_ref p c (sc_task sc) a) i" "remembered d2 (archaeology_memory_key p a) j"
    by (rule pipeline_effect [OF assms(3) m])
  let ?s = "s\<lparr>sg_db := d2, sg_memory := mr_applied m\<rparr>"
  obtain g e where step: "run_phase p sc run rd require ''memory'' s = (Proceed, finish_phase p run g ''memory'' e ?s)"
    by (simp add: run_phase_def memory_phase_def a(1) m assms(2))
  have same: "memories (record_run_event p g run d2) = memories d2" "certificates (record_run_event p g run d2) = certificates d2"
    by (simp_all add: record_run_event_def add_event_def case_prod_unfold Let_def)
  have "certificate_by_key (record_run_event p g run d2) = certificate_by_key (sg_db s)"
    using memory_certificates(1) [OF a(1)] memory_certificates(2) [OF m] by (simp add: certificate_by_key_def same fun_eq_iff)
  with step ij a(2) show thesis
    by (intro that [of "finish_phase p run g ''memory'' e ?s"]) (simp_all add: finish_phase_def remembered_cong [OF same(1)])
qed

section \<open>The certifiable journey\<close>

text \<open>A database from which the scenario's change can be certified and merged.\<close>

definition certifiable_db :: "platform \<Rightarrow> scenario \<Rightarrow> db \<Rightarrow> patch_row \<Rightarrow> bool" where
  "certifiable_db p sc d cp \<longleftrightarrow>
     av_aligned (evaluate_alignment d (Some (sc_task sc)) None None) \<and>
     av_protected (evaluate_alignment d (Some (sc_task sc)) None None) = [] \<and>
     get_patch d (sc_patch sc) = Some cp \<and> get_task d (cp_task cp) \<noteq> None \<and> get_change d (cp_change cp) \<noteq> None \<and>
     certificate_by_key d (certificate_key_for p (ts_id (sc_task sc)) (cl_id (sc_claim sc))) = None \<and>
     get_failure d (fl_id (sc_failure sc)) \<noteq> None \<and>
     fresh_ids p d \<and> wf_evidence p (evidence d) \<and> sc_evidence sc \<noteq> [] \<and>
     (\<forall>r \<in> set (sc_evidence sc). get_key (en_machine_result r) ''exit_code'' = PInt 0)"

lemma patch_verified:
  assumes "get_patch d k = Some cp"
  shows "get_patch (set_patch_status (cp_id cp) ''VERIFIED'' d) k = Some (cp\<lparr>cp_status := ''VERIFIED''\<rparr>)"
proof -
  have "cp_id cp = k" using assms by (auto simp: get_patch_def dest: find_keyed)
  with assms show ?thesis
    by (auto simp: get_patch_def set_patch_status_def find_map_keyed)
qed

lemma set_patch_status_rows:
  "evaluate_alignment (set_patch_status k st d) = evaluate_alignment d"
  "fresh_ids p (set_patch_status k st d) = fresh_ids p d" "evidence (set_patch_status k st d) = evidence d"
  "get_task (set_patch_status k st d) = get_task d" "get_change (set_patch_status k st d) = get_change d"
  "certificate_by_key (set_patch_status k st d) = certificate_by_key d" "failures (set_patch_status k st d) = failures d"
proof -
  show "evaluate_alignment (set_patch_status k st d) = evaluate_alignment d"
    by (intro ext alignment_cong) (simp_all add: set_patch_status_def)
qed (simp_all add: set_patch_status_def fresh_ids_def fun_eq_iff get_task_def get_change_def certificate_by_key_def)

text \<open>What the journey leaves: the certificate of the claim, and the two memory rows of the failure under it.\<close>

definition certified_memory :: "platform \<Rightarrow> scenario \<Rightarrow> db \<Rightarrow> bool" where
  "certified_memory p sc d \<longleftrightarrow>
     (\<exists>c a i j. certificate_by_key d (certificate_key_for p (ts_id (sc_task sc)) (cl_id (sc_claim sc))) = Some c \<and>
        ct_status c = ''CERTIFIED'' \<and> ct_task c = Some (ts_id (sc_task sc)) \<and> ar_failure_id a = fl_id (sc_failure sc) \<and>
        remembered d (certification_ref p c (sc_task sc) a) i \<and> remembered d (archaeology_memory_key p a) j)"

lemma certified_segment:
  assumes "certifiable_db p sc d cp"
  obtains s w where "run_segment_from p sc run (default_reader sc) True DEFAULT_PHASES (start_segment d) = (Proceed, s)"
    "sg_merge s = Some w" "gv_allowed w" "sg_memory s" "certified_memory p sc (sg_db s)"
proof -
  note D = assms [unfolded certifiable_db_def]
  define v where "v = evaluate_alignment d (Some (sc_task sc)) None None"
  have v: "av_aligned v" "av_status v = ''CERTIFIABLE''" "av_protected v = []"
    using D by (simp_all add: v_def evaluate_alignment_def Let_def)
  let ?plain = "[''discover'', ''govern'', ''define'', ''analyze'', ''lock'', ''develop'', ''verify'']"
  let ?run = "run_segment_from p sc run (default_reader sc) True"
  obtain s1 where s1: "?run ?plain (start_segment d) = (Proceed, s1)" "moved (start_segment d) s1"
    by (rule plain_run [of ?plain p sc run "default_reader sc" True "start_segment d"]) simp_all
  then have l1: "logged d (sg_db s1)" by (simp add: moved_def)
  note r1 = logged_rows [OF l1]
  obtain s2 where s2: "run_phase p sc run (default_reader sc) True ''decide'' s1 = (Proceed, s2)"
      "logged (sg_db s1) (sg_db s2)" "sg_verdict s2 = Some v"
    by (rule decide_goes_on [of s1 sc p run "default_reader sc"]) (use D in \<open>simp_all add: r1 v_def\<close>)
  note l2 = logged_trans [OF l1 s2(2)]
  note r2 = logged_rows [OF l2]
  have p2: "get_patch (sg_db s2) (sc_patch sc) = Some cp" using D by (simp add: r2)
  obtain s3 where s3: "run_phase p sc run (default_reader sc) True ''reverify'' s2 = (Proceed, s3)"
      "logged (set_patch_status (cp_id cp) ''VERIFIED'' (sg_db s2)) (sg_db s3)" "sg_verdict s3 = sg_verdict s2"
    by (rule reverify_goes_on [OF p2, of "default_reader sc" "sc_evidence sc" p run True])
      (use D in \<open>simp_all add: invoke_reader_def default_reader_def\<close>)
  note r3 = logged_rows [OF s3(2)]
  let ?cp = "cp\<lparr>cp_status := ''VERIFIED''\<rparr>"
  have p3: "get_patch (sg_db s3) (sc_patch sc) = Some ?cp" using patch_verified [OF p2] by (simp add: r3)
  have fresh: "fresh_ids p (sg_db s3)"
    using D by (intro logged_fresh [OF s3(2)]) (simp add: set_patch_status_rows logged_fresh [OF l2])
  obtain s4 c x where s4: "run_phase p sc run (default_reader sc) True ''certify'' s3 = (Proceed, s4)"
      "sg_certificate s4 = Some c" "sg_verdict s4 = Some v" "ct_status c = ''CERTIFIED''"
      "verify_certificate_integrity p (sg_db s4) (Some c) = Inr x" "all_valid x"
      and c4: "ct_task c = Some (ts_id (sc_task sc))"
        "certificate_by_key (sg_db s4) (certificate_key_for p (ts_id (sc_task sc)) (cl_id (sc_claim sc))) = Some c"
      and r4: "tasks (sg_db s4) = tasks (sg_db s3)" "changes (sg_db s4) = changes (sg_db s3)" "patches (sg_db s4) = patches (sg_db s3)"
        "failures (sg_db s4) = failures (sg_db s3)"
    by (rule certify_goes_on [of s3 v sc ?cp p run "default_reader sc" True])
      (use D v p3 fresh s2(3) s3(3) in \<open>simp_all add: r3 r2 set_patch_status_rows\<close>)
  have "get_task (sg_db s4) (cp_task ?cp) \<noteq> None" "get_change (sg_db s4) (cp_change ?cp) \<noteq> None"
    using D logged_rows(6,7) [OF s3(2)] r2(6,7) by (simp_all add: set_patch_status_rows get_task_def get_change_def r4 fun_eq_iff)
  then obtain t ch where tc: "get_task (sg_db s4) (cp_task ?cp) = Some t" "get_change (sg_db s4) (cp_change ?cp) = Some ch" by auto
  have p4: "get_patch (sg_db s4) (sc_patch sc) = Some ?cp" using p3 by (simp add: get_patch_def r4)
  obtain s5 w where s5: "run_phase p sc run (default_reader sc) True ''merge'' s4 = (Proceed, s5)" "sg_merge s5 = Some w" "gv_allowed w"
      and r5: "sg_certificate s5 = Some c" "certificate_by_key (sg_db s5) = certificate_by_key (sg_db s4)"
        "failures (sg_db s5) = failures (sg_db s4)"
    by (rule merge_goes_on [OF s4(3) v s4(2,4,5,6) p4 _ tc]) simp_all
  have "failures (sg_db s5) = failures d" by (simp add: r5 r4 r3 r2 set_patch_status_rows)
  then have f5: "get_failure (sg_db s5) (fl_id (sc_failure sc)) \<noteq> None" using D by (simp add: get_failure_def)
  obtain s6 a i j where s6: "run_phase p sc run (default_reader sc) True ''memory'' s5 = (Proceed, s6)" "sg_memory s6"
      "certificate_by_key (sg_db s6) = certificate_by_key (sg_db s5)" "ar_failure_id a = fl_id (sc_failure sc)"
      "remembered (sg_db s6) (certification_ref p c (sc_task sc) a) i" "remembered (sg_db s6) (archaeology_memory_key p a) j"
    by (rule memory_goes_on [OF f5 r5(1) s4(4)])
  have "sg_merge s6 = sg_merge s5"
    using s6(1) by (auto simp: run_phase_def memory_phase_def split: prod.splits sum.splits)
  moreover have "?run (?plain @ [''decide'', ''reverify'', ''certify'', ''merge'', ''memory'']) (start_segment d) = (Proceed, s6)"
    unfolding run_segment_append [OF s1(1)] by (simp add: s2 s3 s4 s5 s6)
  moreover have "certified_memory p sc (sg_db s6)"
    unfolding certified_memory_def s6(3) r5(2) using c4 s4(4) s6(4-6) by blast
  ultimately show thesis using s5 s6(2) by (intro that) (simp_all add: DEFAULT_PHASES_def)
qed

lemma get_or_create_run_rows: "\<exists>rs. snd (get_or_create_run r d) = d\<lparr>run_rows := rs\<rparr>"
proof -
  have "\<exists>rs. d = d\<lparr>run_rows := rs\<rparr>" by (cases d) auto
  then show ?thesis by (auto simp: get_or_create_run_def split: option.split)
qed

lemma certified_journey:
  assumes "certifiable_db p sc d cp"
  obtains res D where "run_e2e_workflow p seeder (Some sc) DEFAULT_PHASES seed None True d = (Inr res, D)"
    "wr_status res = ''COMPLETE''" "wr_merged res" "wr_completed res = DEFAULT_PHASES" "wr_memory_applied res"
    "certified_memory p sc D"
proof -
  let ?run = "fst (get_or_create_run (e2e_run p sc) d)" and ?d1 = "snd (get_or_create_run (e2e_run p sc) d)"
  have d1: "certifiable_db p sc ?d1 cp"
  proof -
    obtain rs where "?d1 = d\<lparr>run_rows := rs\<rparr>" using get_or_create_run_rows by blast
    then show ?thesis using assms alignment_cong [of ?d1 d]
      by (simp add: certifiable_db_def get_patch_def get_task_def get_change_def certificate_by_key_def fresh_ids_def get_failure_def)
  qed
  obtain s w where s: "run_segment_from p sc (rn_id ?run) (default_reader sc) True DEFAULT_PHASES (start_segment ?d1) = (Proceed, s)"
      "sg_merge s = Some w" "gv_allowed w" "sg_memory s" "certified_memory p sc (sg_db s)"
    by (rule certified_segment [OF d1])
  have "validate_phases DEFAULT_PHASES = None" "hd DEFAULT_PHASES = ''discover''"
    by code_simp+
  then have "run_e2e_workflow p seeder (Some sc) DEFAULT_PHASES seed None True d =
      (Inr (complete_result sc s), end_run (rn_id ?run) ''COMPLETED'' (sg_db s))"
    using s by (simp add: run_e2e_workflow_def run_segment_def case_prod_unfold Let_def)
  moreover have "certified_memory p sc (end_run (rn_id ?run) ''COMPLETED'' (sg_db s))"
    using s(5) by (simp add: certified_memory_def remembered_def memory_by_ref_def certificate_by_key_def end_run_rows)
  moreover have "wr_memory_applied (complete_result sc s)" using s(4) by (simp add: complete_result_def)
  ultimately show thesis using s segment_completed [OF s(1)] by (intro that) auto
qed

section \<open>Properties\<close>

text \<open>
  C23. A change that can be certified gets merged, certified and remembered: over any database with a linked
  candidate, no observed delta outside the authorized intents, evidence of passed executions, the scenario's
  failure and no certificate of the claim yet, the journey through all phases returns complete, reports the
  merge, the certificate as CERTIFIED and the memory as applied, and leaves the candidate's task MERGED, a
  CERTIFIED certificate of the claim for the scenario's task and, under its key, applied memory rows for the
  certification and for the archaeology of the failure; whatever status the candidate had before.
\<close>
theorem certifiable_change_merges:
  assumes "certifiable_db p sc d cp"
  shows "\<exists>res D t. run_e2e_workflow p seeder (Some sc) DEFAULT_PHASES seed None True d = (Inr res, D) \<and>
    wr_status res = ''COMPLETE'' \<and> wr_merged res \<and> wr_completed res = DEFAULT_PHASES \<and>
    wr_certificate_status res = Some ''CERTIFIED'' \<and> wr_memory_applied res \<and> certified_memory p sc D \<and>
    get_task D (cp_task cp) = Some t \<and> ts_status t = ''MERGED''"
proof -
  obtain res D where r: "run_e2e_workflow p seeder (Some sc) DEFAULT_PHASES seed None True d = (Inr res, D)"
      "wr_status res = ''COMPLETE''" "wr_merged res" "wr_completed res = DEFAULT_PHASES" "wr_memory_applied res"
      "certified_memory p sc D"
    by (rule certified_journey [OF assms])
  have cp: "get_patch d (sc_patch sc) = Some cp" "get_task d (cp_task cp) \<noteq> None"
    using assms by (simp_all add: certifiable_db_def)
  with journey_merges [OF r(1) refl] r(3) have "tasks D = tasks (set_task_status (cp_task cp) ''MERGED'' d)"
    and cert: "wr_certificate_status res = Some ''CERTIFIED''" by auto
  then have "get_task D (cp_task cp) = map_option (\<lambda>r. if ts_id r = cp_task cp then r\<lparr>ts_status := ''MERGED''\<rparr> else r) (get_task d (cp_task cp))"
    by (simp add: get_task_def set_task_status_def find_map_keyed)
  moreover obtain t where "get_task d (cp_task cp) = Some t" using cp(2) by blast
  ultimately have "get_task D (cp_task cp) = Some (t\<lparr>ts_status := ''MERGED''\<rparr>)" by (simp add: get_task_id)
  then have "\<exists>t. get_task D (cp_task cp) = Some t \<and> ts_status t = ''MERGED''" by simp
  with r cert show ?thesis by blast
qed

section \<open>Witnesses\<close>

definition demo_scenario :: scenario where
  "demo_scenario =
     \<lparr>sc_scenario = ''demo'', sc_task = demo_task ''t'' ''c'', sc_change = demo_change ''c'', sc_patch = ''p'', sc_ghost = ''g'',
      sc_failure = \<lparr>fl_id = ''f'', fl_execution = None, fl_task = Some ''t'', fl_run = None, fl_evidence = None,
        fl_classification = ''F2_UNIT_TEST'', fl_message = [], fl_probable_cause = None, fl_next_action = None,
        fl_severity = ''HIGH'', fl_iteration = 1, fl_resolved = False, fl_occurred = None, fl_created = 0\<rparr>,
      sc_claim = demo_claim, sc_repair = ''r'', sc_run_token = ''run'', sc_evidence = [demo_evidence]\<rparr>"

text \<open>The candidate \<open>p\<close> of the small database, failed before; and the failure.\<close>

definition failed_db :: db where
  "failed_db = (set_patch_status ''p'' ''FAILED'' demo_db)\<lparr>failures := [sc_failure demo_scenario]\<rparr>"

lemma failed_db_rows:
  "evaluate_alignment failed_db = evaluate_alignment demo_db" "fresh_ids p failed_db = fresh_ids p demo_db"
  "evidence failed_db = evidence demo_db" "get_task failed_db = get_task demo_db" "get_change failed_db = get_change demo_db"
  "certificate_by_key failed_db = certificate_by_key demo_db" "get_failure failed_db ''f'' \<noteq> None"
proof -
  show "evaluate_alignment failed_db = evaluate_alignment demo_db"
    by (intro ext alignment_cong) (simp_all add: failed_db_def set_patch_status_def)
qed (simp_all add: failed_db_def set_patch_status_def fresh_ids_def fun_eq_iff get_task_def get_change_def
  certificate_by_key_def get_failure_def demo_scenario_def)

lemma failed_db_certifiable:
  "certifiable_db demo_platform demo_scenario failed_db (demo_patch ''p'' ''t'' ''c''\<lparr>cp_status := ''FAILED''\<rparr>)"
proof -
  have "evaluate_alignment demo_db (Some (demo_task ''t'' ''c'')) None None =
      \<lparr>av_aligned = True, av_status = ''CERTIFIABLE'', av_unexplained = 0, av_critical = 0, av_protected = [], av_reasons = []\<rparr>"
    by (simp add: evaluate_alignment_def Let_def demo_db_def empty_db_def task_deltas_def)
  moreover have "get_patch failed_db ''p'' = Some (demo_patch ''p'' ''t'' ''c''\<lparr>cp_status := ''FAILED''\<rparr>)"
    by (simp add: failed_db_def get_patch_def set_patch_status_def demo_db_def demo_patch_def)
  ultimately show ?thesis
    using demo_db_ready demo_rows [of demo_db]
    by (simp add: certifiable_db_def failed_db_rows demo_scenario_def)
      (simp add: demo_patch_def demo_evidence_def get_key_def)
qed

theorem certifiable_change_merges_witness:
  "\<exists>res D t. run_e2e_workflow demo_platform id (Some demo_scenario) DEFAULT_PHASES False None True failed_db = (Inr res, D) \<and>
     wr_merged res \<and> get_task D ''t'' = Some t \<and> ts_status t = ''MERGED''"
  using certifiable_change_merges [OF failed_db_certifiable, of id False] by (auto simp: demo_patch_def)

theorem workflow_journey_replays_witness:
  "\<exists>res D rep. run_e2e_workflow demo_platform id (Some demo_scenario) DEFAULT_PHASES False None True failed_db = (Inr res, D) \<and>
     replay_from_evidence_graph demo_platform D (Some (e2e_run demo_platform demo_scenario)) None None = Inr rep \<and>
     rr_chain_valid rep \<and> rr_phases rep = DEFAULT_PHASES"
proof -
  obtain res D where r: "run_e2e_workflow demo_platform id (Some demo_scenario) DEFAULT_PHASES False None True failed_db = (Inr res, D)"
      "wr_completed res = DEFAULT_PHASES"
    using certified_journey [OF failed_db_certifiable] by metis
  have "run_events failed_db (rn_id (e2e_run demo_platform demo_scenario)) = []"
    by (simp add: run_events_def failed_db_def set_patch_status_def demo_db_def empty_db_def)
  from workflow_journey_replays [OF r(1) this _ demo_platform_hash(2), of None] r show ?thesis
    by (auto simp: e2e_run_def)
qed

theorem journey_merges_through_the_gate_witness:
  "\<exists>res D. run_e2e_workflow demo_platform id (Some demo_scenario) DEFAULT_PHASES False None True failed_db = (Inr res, D) \<and>
     wr_merged res \<and> wr_certificate_status res = Some ''CERTIFIED''"
proof -
  obtain res D where r: "run_e2e_workflow demo_platform id (Some demo_scenario) DEFAULT_PHASES False None True failed_db = (Inr res, D)"
      "wr_merged res"
    using certified_journey [OF failed_db_certifiable] by metis
  with journey_merges_through_the_gate [OF r(1)] show ?thesis by simp
qed

end
