(* ===== verification/Reliability.thy ===== *)
theory Reliability
  imports Faults Progress
begin

text \<open>
  \<open>workflow/reliability.py\<close>: resuming a blocked journey, resetting a run, the idempotency guard and the
  clean-up of stale sandboxes. Runs and tasks are passed by their keys. The database is the default one,
  SQLite: a missing start sorts first, and deleting a row clears the references an ORM relationship mirrors
  (\<open>Execution.evidence_items\<close>, \<open>Execution.failures\<close>) and leaves the other ones dangling.
\<close>

record reliability_report =
  rb_task :: string
  rb_operation :: string
  rb_applied :: bool
  rb_detail :: string
  rb_removed :: "string list"
  rb_resumed :: bool
  rb_resume_point :: "string option"
  rb_idempotent :: bool
  rb_reset :: bool
  rb_reason :: "string option"
  rb_cleaned :: "(string \<times> nat) list"

datatype reliability_error =
    NoRunOrTask | RunNotFound | TaskNotFound | PhaseUnknown string | Journal journal_error | Journey workflow_error

definition empty_report :: "string \<Rightarrow> string \<Rightarrow> bool \<Rightarrow> string \<Rightarrow> reliability_report" where
  "empty_report task operation applied detail =
     \<lparr>rb_task = task, rb_operation = operation, rb_applied = applied, rb_detail = detail, rb_removed = [],
      rb_resumed = False, rb_resume_point = None, rb_idempotent = False, rb_reset = False, rb_reason = None,
      rb_cleaned = []\<rparr>"

definition refused :: "string \<Rightarrow> string \<Rightarrow> string \<Rightarrow> string \<Rightarrow> reliability_report" where
  "refused task operation detail reason = (empty_report task operation False detail)\<lparr>rb_reason := Some reason\<rparr>"

text \<open>Chained whatever it is bound to.\<close>

definition record_reliability_event :: "platform \<Rightarrow> event_draft \<Rightarrow> string option \<Rightarrow> db \<Rightarrow> db" where
  "record_reliability_event p f run d =
     (let seq = int (length (case run of Some r \<Rightarrow> run_events d r | None \<Rightarrow> task_events d (dr_task f))) + 1;
          (t, d1) = db_now d;
          e = event_of f run seq t
      in add_event (e\<lparr>ce_hash := Some (event_digest p e)\<rparr>) d1)"

section \<open>Reading a run\<close>

fun cannot_resume :: "chain_fault \<Rightarrow> string" where
  "cannot_resume MissingHash = ''cannot resume: missing stored hash in run chain''"
| "cannot_resume (DigestMismatch n) = ''cannot resume: stored/recomputed mismatch at sequence '' @ str_int n"
| "cannot_resume (OrderViolated n) = ''cannot resume: sequence ordering violated at sequence '' @ str_int n"

definition validate_run_scoped_chain :: "platform \<Rightarrow> db \<Rightarrow> string \<Rightarrow> string option" where
  "validate_run_scoped_chain p d r =
     map_option cannot_resume (chain_check p None (filter (\<lambda>e. 0 < ce_sequence e) (ordered_events d r)))"

definition resume_point :: "db \<Rightarrow> string \<Rightarrow> journal_error + string option" where
  "resume_point d r =
     (let es = ordered_events d r;
          seen = List.map_filter (\<lambda>e. phase_in (ce_payload e)) es
      in if list_all (\<lambda>e. hashable (get_key (ce_payload e) ''phase'')) es
         then Inr (find (\<lambda>f. f \<notin> set seen) DEFAULT_PHASES) else Inl PhaseNotHashable)"

definition idempotency_guard :: "platform \<Rightarrow> db \<Rightarrow> string \<Rightarrow> string \<Rightarrow> reliability_error + bool" where
  "idempotency_guard p d task phase =
     (if phase \<notin> set DEFAULT_PHASES then Inl (PhaseUnknown phase)
      else Inr (list_ex (\<lambda>e. ce_event_type e = event_kind_value MERGE \<or>
             py_str (float_repr p) (get_key (ce_payload e) ''phase'') = phase \<and>
             get_key (ce_payload e) ''blocked'' \<noteq> PBool True) (task_events d task)))"

text \<open>\<open>started_at ASC\<close>.\<close>

definition oldest_first :: "int option \<Rightarrow> bool \<times> int" where
  "oldest_first x = (case x of None \<Rightarrow> (False, 0) | Some t \<Rightarrow> (True, t))"

definition earliest_run :: "db \<Rightarrow> string \<Rightarrow> run_row option" where
  "earliest_run d t =
     first_row (sort_key (\<lambda>r. oldest_first (rn_started r)) (filter (\<lambda>r. rn_task r = t) (run_rows d)))"

definition resolve_run :: "db \<Rightarrow> string option \<Rightarrow> string option \<Rightarrow> reliability_error + run_row" where
  "resolve_run d run task =
     (case (run, task) of
        (None, None) \<Rightarrow> Inl NoRunOrTask
      | (Some k, _) \<Rightarrow> (case get_run d k of None \<Rightarrow> Inl RunNotFound | Some r \<Rightarrow> Inr r)
      | (None, Some t) \<Rightarrow> (case earliest_run d t of None \<Rightarrow> Inl RunNotFound | Some r \<Rightarrow> Inr r))"

section \<open>Stale sandboxes\<close>

definition hour :: int where
  "hour = 3600000000"

definition stale_run :: "int \<Rightarrow> run_row \<Rightarrow> bool" where
  "stale_run cutoff r \<longleftrightarrow>
     rn_status r \<in> {''BLOCKED'', ''FAILED'', ''COMPLETED''} \<and>
     (case rn_finished r of None \<Rightarrow> False | Some t \<Rightarrow> t \<le> cutoff)"

definition stale_executions :: "int \<Rightarrow> db \<Rightarrow> execution_row list" where
  "stale_executions cutoff d =
     filter (\<lambda>x. ex_sandbox x \<noteq> None \<and> (case get_run d (ex_run x) of None \<Rightarrow> False | Some r \<Rightarrow> stale_run cutoff r))
       (executions d)"

text \<open>Deleting executions clears the references of their evidence and failures.\<close>

definition clear_reference :: "string set \<Rightarrow> string option \<Rightarrow> string option" where
  "clear_reference ks x = (case x of None \<Rightarrow> None | Some k \<Rightarrow> if k \<in> ks then None else Some k)"

definition delete_executions :: "execution_row list \<Rightarrow> db \<Rightarrow> db" where
  "delete_executions xs d =
     (let ks = set (map ex_id xs)
      in d\<lparr>executions := filter (\<lambda>x. ex_id x \<notin> ks) (executions d),
           evidence := map (\<lambda>r. r\<lparr>en_execution := clear_reference ks (en_execution r)\<rparr>) (evidence d),
           failures := map (\<lambda>r. r\<lparr>fl_execution := clear_reference ks (fl_execution r)\<rparr>) (failures d)\<rparr>)"

definition marker_counts :: "execution_row list \<Rightarrow> (string \<times> nat) list" where
  "marker_counts xs =
     [(''stale_runs'', length (dedup (map ex_run xs))), (''stale_sandbox_markers'', length xs)]"

definition cleanup_stale_sandboxes :: "int \<Rightarrow> bool \<Rightarrow> db \<Rightarrow> reliability_report \<times> db" where
  "cleanup_stale_sandboxes hours dry_run d =
     (let (t, d1) = db_now d;
          xs = stale_executions (t - hours * hour) d1;
          keys = sort (dedup (map ex_run xs));
          (u, d2) = db_uuid d1;
          task = (if keys = [] then u else (case get_run d2 (hd keys) of None \<Rightarrow> u | Some r \<Rightarrow> rn_task r));
          n = str_int (int (length xs));
          detail = (if dry_run then ''dry run: '' @ n @ '' stale sandbox markers flagged, none removed''
                    else ''removed '' @ n @ '' stale sandbox markers from '' @ str_int (int (length keys)) @ '' stale runs'')
      in ((empty_report task ''cleanup_stale_sandboxes'' (\<not> dry_run) detail)
            \<lparr>rb_reason := Some detail, rb_cleaned := marker_counts xs\<rparr>,
          if dry_run then d2 else delete_executions xs d2))"

section \<open>Resuming\<close>

text \<open>\<open>str(exc)\<close> of what a journey raises; all but a \<open>MergeGateError\<close> are caught by the resume.\<close>

fun build_text :: "build_error \<Rightarrow> string" where
  "build_text TaskMissing = ''build_certificate requires a Task; task is None''"
| "build_text ClaimMissing = ''build_certificate requires a Claim; claim is None''"
| "build_text PatchMissing = ''build_certificate requires a CandidatePatch; candidate_patch is None''"

fun archaeology_text :: "archaeology_error \<Rightarrow> string" where
  "archaeology_text TaskRequired = ''persist_archaeology requires a Task; task is None''"
| "archaeology_text FailureRequired = ''persist_archaeology requires a preserved Failure row; failure_row is None''"
| "archaeology_text FailureUnresolved = ''failure_row does not resolve to a persisted Failure row''"

fun memory_text :: "memory_error \<Rightarrow> string" where
  "memory_text CertificateRequired = ''run_memory_pipeline requires a real Certificate; certificate is None''"
| "memory_text MemoryTaskRequired = ''run_memory_pipeline requires a real Task; task is None''"
| "memory_text ArchaeologyRequired = ''run_memory_pipeline requires an ArchaeologyRecord; archaeology is None''"

fun reverify_text :: "reverify_error \<Rightarrow> string" where
  "reverify_text NoPatch = ''run_reverification requires a candidate_patch; candidate_patch is None''"
| "reverify_text NoReader = ''run_reverification requires an evidence_reader port; evidence_reader is None''"

fun caught_text :: "workflow_error \<Rightarrow> string option" where
  "caught_text NoPhases = Some ''phases must not be empty''"
| "caught_text (UnknownPhase f) = Some (''unknown phase: '' @ f)"
| "caught_text PhasesNotOrdered = Some ''ordered, non-repeating phase sequence required''"
| "caught_text NotAtDiscover = Some ''must begin at the discover phase''"
| "caught_text ScenarioMissing = Some (''demo scenario payments-api/AUTH-017 is not present and seeding '' @
     ''produced none; call build_seed(session) or pass an existing database'')"
| "caught_text RoleRowsMissing = Some ''demo scenario is missing required role rows''"
| "caught_text ArchaeologyRowsMissing =
     Some ''demo scenario is missing archaeology rows (ghost/failure/repair/candidate)''"
| "caught_text (ReverifyError e) = Some (reverify_text e)"
| "caught_text (BuildError e) = Some (build_text e)"
| "caught_text (GateError e) = None"
| "caught_text (ArchaeologyError e) = Some (archaeology_text e)"
| "caught_text (MemoryError e) = Some (memory_text e)"

definition resume_draft :: "string \<Rightarrow> string \<Rightarrow> event_draft" where
  "resume_draft task intent =
     \<lparr>dr_entity_type = ''Task'', dr_entity_id = task, dr_kind = REVERIFICATION, dr_task = task,
      dr_actor = ''reliability'', dr_payload = [(''operation'', PStr ''resume''), (''intent'', PStr intent)]\<rparr>"

definition opt_text :: "string option \<Rightarrow> string" where
  "opt_text x = (case x of None \<Rightarrow> ''None'' | Some s \<Rightarrow> s)"

text \<open>The journey of a resume, and what follows when it completes.\<close>

definition resume_journey ::
    "platform \<Rightarrow> (db \<Rightarrow> db) \<Rightarrow> run_row \<Rightarrow> string \<Rightarrow> string list option \<Rightarrow> string option \<Rightarrow> db \<Rightarrow>
     (reliability_error + reliability_report) \<times> db" where
  "resume_journey p seeder r intent phases point d =
     (case build_demo_scenario p seeder False ''payments-api/AUTH-017'' d of
        (Inl e, d1) \<Rightarrow> (Inl (Journey e), d1)
      | (Inr sc, d1) \<Rightarrow>
         (let fs = (case phases of None \<Rightarrow> DEFAULT_PHASES | Some fs \<Rightarrow> if fs = [] then DEFAULT_PHASES else fs)
          in case run_e2e_workflow p seeder (Some sc) fs False None True d1 of
            (Inl e, d2) \<Rightarrow>
              (case caught_text e of
                 None \<Rightarrow> (Inl (Journey e), d2)
               | Some s \<Rightarrow> (Inr (refused (rn_task r) ''resume'' s s), d2))
          | (Inr res, d2) \<Rightarrow>
              if wr_status res \<noteq> ''COMPLETE'' then
                (let s = ''workflow blocked during resume: '' @ opt_text (wr_blocked_reason res)
                 in (Inr (refused (rn_task r) ''resume'' s s), d2))
              else
                (Inr ((empty_report (rn_task r) ''resume'' True (''resumed workflow from '' @ opt_text point))
                   \<lparr>rb_resumed := True, rb_resume_point := point\<rparr>),
                 record_reliability_event p (resume_draft (rn_task r) intent) (Some (rn_id r))
                   (set_task_status (rn_task r) ''MERGED'' d2))))"

definition resume_workflow ::
    "platform \<Rightarrow> (db \<Rightarrow> db) \<Rightarrow> string option \<Rightarrow> string option \<Rightarrow> string \<Rightarrow> string list option \<Rightarrow> db \<Rightarrow>
     (reliability_error + reliability_report) \<times> db" where
  "resume_workflow p seeder run task intent phases d =
     (case resolve_run d run task of
        Inl e \<Rightarrow> (Inl e, d)
      | Inr r \<Rightarrow>
       (case get_task d (rn_task r) of
          None \<Rightarrow> (Inl TaskNotFound, d)
        | Some t \<Rightarrow>
         if rn_status r = ''COMPLETED'' \<or> ts_status t = ''MERGED'' then
           (Inr ((refused (rn_task r) ''resume'' ''already recorded: workflow completed or task already merged'' ''already recorded'')
              \<lparr>rb_idempotent := True\<rparr>), d)
         else (case validate_run_scoped_chain p d (rn_id r) of
            Some s \<Rightarrow> (Inr (refused (rn_task r) ''resume'' s s), d)
          | None \<Rightarrow>
           (case resume_point d (rn_id r) of
              Inl e \<Rightarrow> (Inl (Journal e), d)
            | Inr point \<Rightarrow>
               if (case (phases, point) of (Some fs, Some f) \<Rightarrow> f \<notin> set fs | _ \<Rightarrow> False) then
                 (Inr (refused (rn_task r) ''resume'' (''not within the requested phase segment: '' @ opt_text point)
                    ''not within the requested phase segment''), d)
               else resume_journey p seeder r intent phases point d))))"

section \<open>Resetting\<close>

definition reset_draft :: "string \<Rightarrow> event_draft" where
  "reset_draft task =
     \<lparr>dr_entity_type = ''Task'', dr_entity_id = task, dr_kind = BLOCKED, dr_task = task, dr_actor = ''reliability'',
      dr_payload = [(''operation'', PStr ''reset''), (''detail'', PStr ''run-scoped state reset for re-execution'')]\<rparr>"

definition run_failures :: "db \<Rightarrow> string \<Rightarrow> failure_row list" where
  "run_failures d r = filter (\<lambda>f. fl_run f = Some r) (failures d)"

definition run_evidence :: "db \<Rightarrow> string \<Rightarrow> evidence_row list" where
  "run_evidence d r = filter (\<lambda>v. en_run v = Some r) (evidence d)"

definition run_executions :: "db \<Rightarrow> string \<Rightarrow> execution_row list" where
  "run_executions d r = filter (\<lambda>x. ex_run x = r) (executions d)"

text \<open>Events, failures, evidence and executions of the run, in this order; then the run is queued again.\<close>

definition clear_run :: "string \<Rightarrow> db \<Rightarrow> db" where
  "clear_run k d =
     (let d1 = d\<lparr>events := filter (\<lambda>e. ce_run e \<noteq> Some k) (events d)\<rparr>;
          d2 = d1\<lparr>failures := filter (\<lambda>f. fl_run f \<noteq> Some k) (failures d1)\<rparr>;
          d3 = d2\<lparr>evidence := filter (\<lambda>v. en_run v \<noteq> Some k) (evidence d2)\<rparr>
      in delete_executions (run_executions d3 k) d3)"

definition requeue_run :: "string \<Rightarrow> db \<Rightarrow> db" where
  "requeue_run k d =
     d\<lparr>run_rows := map (\<lambda>r. if rn_id r = k then r\<lparr>rn_status := ''QUEUED'', rn_finished := None,
          rn_environment := AList.update ''demo_reset'' (PBool True) (rn_environment r)\<rparr> else r) (run_rows d)\<rparr>"

definition reset_workflow ::
    "platform \<Rightarrow> string option \<Rightarrow> string option \<Rightarrow> bool \<Rightarrow> bool \<Rightarrow> db \<Rightarrow> (reliability_error + reliability_report) \<times> db" where
  "reset_workflow p run task allow_destructive demo_only d =
     (case resolve_run d run task of
        Inl e \<Rightarrow> (Inl e, d)
      | Inr r \<Rightarrow>
          if \<not> allow_destructive then
            (Inr (refused (rn_task r) ''reset'' ''reset blocked: allow_destructive must be True''
               ''reset blocked: allow_destructive must be True''), d)
          else if \<not> demo_only then
            (Inr (refused (rn_task r) ''reset'' ''reset blocked: only demo-scoped resets are supported (demo_only=True)''
               ''reset blocked: only demo-scoped resets are supported (demo_only=True)''), d)
          else
            (Inr ((empty_report (rn_task r) ''reset'' True ''removed run-scoped state; historical rows preserved'')
               \<lparr>rb_reset := True, rb_removed := map ce_id (run_events d (rn_id r)),
                rb_cleaned := [(''events'', length (run_events d (rn_id r))), (''evidence'', length (run_evidence d (rn_id r))),
                  (''failures'', length (run_failures d (rn_id r))), (''executions'', length (run_executions d (rn_id r)))]\<rparr>),
             record_reliability_event p (reset_draft (rn_task r)) None (requeue_run (rn_id r) (clear_run (rn_id r) d))))"

section \<open>Lemmas\<close>

lemma record_reliability_event_fields:
  "\<exists>w e. record_reliability_event p f run d = d\<lparr>host := w, events := events d @ [e]\<rparr> \<and> ce_run e = run"
proof -
  define e where "e = event_of f run (int (length (case run of Some r \<Rightarrow> run_events d r | None \<Rightarrow> task_events d (dr_task f))) + 1)
    (fst (db_now d))"
  have "record_reliability_event p f run d = add_event (e\<lparr>ce_hash := Some (event_digest p e)\<rparr>) (snd (db_now d))"
    by (simp add: record_reliability_event_def case_prod_unfold Let_def e_def)
  moreover have "ce_run e = run" by (simp add: e_def)
  ultimately show ?thesis
    by (auto simp: add_event_def case_prod_unfold Let_def intro!: exI [of _ "snd (now (snd (uuid4 (snd (now (host d))))))"])
qed

text \<open>A journey that only discovers completes and leaves tasks and certificates alone.\<close>

lemma discovery_completes:
  obtains res D where "run_e2e_workflow p seeder (Some sc) [''discover''] seed None True d = (Inr res, D)"
    "wr_status res = ''COMPLETE''" "tasks D = tasks d" "certificates D = certificates d"
proof -
  let ?run = "fst (get_or_create_run (e2e_run p sc) d)" and ?d1 = "snd (get_or_create_run (e2e_run p sc) d)"
  obtain rs where d1: "?d1 = d\<lparr>run_rows := rs\<rparr>" using get_or_create_run_rows by blast
  obtain s where s: "run_segment_from p sc (rn_id ?run) (default_reader sc) True [''discover''] (start_segment ?d1) = (Proceed, s)"
      "moved (start_segment ?d1) s"
    by (rule plain_run [of "[''discover'']"]) simp_all
  have val: "validate_phases [''discover''] = None" by code_simp
  have run: "run_e2e_workflow p seeder (Some sc) [''discover''] seed None True d =
      (Inr (complete_result sc s), end_run (rn_id ?run) ''COMPLETED'' (sg_db s))"
    by (simp only: run_e2e_workflow_def val option.case list.sel simp_thms if_False prod.case sum.case case_prod_unfold Let_def
        run_segment_def s phase_outcome.case complete_result_fields if_True fst_conv snd_conv)
  have "logged ?d1 (sg_db s)" using s(2) by (simp add: moved_def)
  note rows = logged_rows [OF this]
  with rows d1 show thesis by (intro that [OF run]) (simp_all add: end_run_rows)
qed

lemma get_task_merged:
  "get_task d k = Some t \<Longrightarrow> get_task (set_task_status k ''MERGED'' d) k = Some (t\<lparr>ts_status := ''MERGED''\<rparr>)"
  using get_task_id [of d k t] by (simp add: get_task_def set_task_status_def find_map_keyed)

section \<open>Properties\<close>

text \<open>
  C38. Resuming merges without the gate: for any run that has recorded nothing, of any unmerged task, a resume
  of the segment \<open>discover\<close> alone returns as applied and leaves the task of the run MERGED, although no
  certificate was built; the journey it ran is that of the demo scenario, whatever the run's task is.
\<close>
theorem resume_merges_without_gate:
  assumes "get_run d k = Some r" and "rn_status r \<noteq> ''COMPLETED''" and "get_task d (rn_task r) = Some t"
    and "ts_status t \<noteq> ''MERGED''" and "run_events d k = []"
    and "build_demo_scenario p seeder False ''payments-api/AUTH-017'' d = (Inr sc, d)"
  shows "\<exists>rep D t'. resume_workflow p seeder (Some k) task intent (Some [''discover'']) d = (Inr rep, D) \<and> rb_applied rep \<and>
    certificates D = certificates d \<and> get_task D (rn_task r) = Some t' \<and> ts_status t' = ''MERGED''"
proof -
  have id: "rn_id r = k" using assms(1) by (auto simp: get_run_def dest: find_keyed)
  have none: "ordered_events d k = []" using assms(5) by (simp add: ordered_events_def)
  have point: "resume_point d k = Inr (Some ''discover'')"
    by (simp add: resume_point_def none List.map_filter_simps DEFAULT_PHASES_def)
  have chain: "validate_run_scoped_chain p d k = None" by (simp add: validate_run_scoped_chain_def none)
  obtain res d2 where j: "run_e2e_workflow p seeder (Some sc) [''discover''] False None True d = (Inr res, d2)"
      "wr_status res = ''COMPLETE''" "tasks d2 = tasks d" "certificates d2 = certificates d"
    by (rule discovery_completes)
  let ?D = "record_reliability_event p (resume_draft (rn_task r) intent) (Some (rn_id r)) (set_task_status (rn_task r) ''MERGED'' d2)"
  have "\<exists>rep. resume_workflow p seeder (Some k) task intent (Some [''discover'']) d = (Inr rep, ?D) \<and> rb_applied rep"
    using assms(1-4) by (simp add: resume_workflow_def resolve_run_def id chain point resume_journey_def assms(6) j(1,2) empty_report_def)
  moreover obtain w e where D: "?D = (set_task_status (rn_task r) ''MERGED'' d2)\<lparr>host := w, events := events (set_task_status (rn_task r) ''MERGED'' d2) @ [e]\<rparr>"
    using record_reliability_event_fields by blast
  moreover have "get_task d2 (rn_task r) = Some t" using assms(3) j(3) by (simp add: get_task_def)
  then have "get_task ?D (rn_task r) = Some (t\<lparr>ts_status := ''MERGED''\<rparr>)"
    using get_task_merged [of d2] by (simp add: D get_task_def)
  moreover have "certificates ?D = certificates d"
    unfolding D by (simp add: set_task_status_def j(4))
  ultimately show ?thesis by fastforce
qed

text \<open>
  A reset clears the run and nothing else: when it is applied, no event, failure, evidence or execution
  of the run is left; the journals of the other runs, the tasks, certificates and memories are what they
  were, and the evidence of the other runs is kept but for its references to the executions removed; a
  second reset finds nothing to remove.
\<close>
theorem reset_clears_the_run_only:
  assumes "reset_workflow p (Some k) task allow_destructive demo_only d = (Inr rep, D)" and "rb_applied rep"
  shows "run_events D k = [] \<and> run_failures D k = [] \<and> run_evidence D k = [] \<and> run_executions D k = [] \<and>
    (\<forall>k'. k' \<noteq> k \<longrightarrow> run_events D k' = run_events d k' \<and> map en_hash (run_evidence D k') = map en_hash (run_evidence d k')) \<and>
    tasks D = tasks d \<and> certificates D = certificates d \<and> memories D = memories d \<and>
    (\<exists>rep' D'. reset_workflow p (Some k) task True True D = (Inr rep', D') \<and> rb_removed rep' = [] \<and>
       list_all (\<lambda>c. snd c = 0) (rb_cleaned rep'))"
proof -
  obtain r where r: "get_run d k = Some r"
    using assms(1) by (cases "get_run d k") (simp_all add: reset_workflow_def resolve_run_def)
  then have id: "rn_id r = k" by (auto simp: get_run_def dest: find_keyed)
  let ?D0 = "requeue_run k (clear_run k d)"
  have flags: "allow_destructive" "demo_only" and D: "D = record_reliability_event p (reset_draft (rn_task r)) None ?D0"
    using assms by (auto simp: reset_workflow_def resolve_run_def r id refused_def empty_report_def split: if_splits)
  obtain w e where De: "D = ?D0\<lparr>host := w, events := events ?D0 @ [e]\<rparr>" "ce_run e = None"
    using record_reliability_event_fields unfolding D by blast
  note defs = De requeue_run_def clear_run_def delete_executions_def Let_def
  have ev: "run_events D k' = (if k' = k then [] else run_events d k')" for k'
    by (auto simp: run_events_def defs intro: filter_cong)
  have gone: "run_failures D k = []" "run_evidence D k = []" "run_executions D k = []"
    by (auto simp: run_failures_def run_evidence_def run_executions_def defs filter_empty_conv)
  have kept: "map en_hash (run_evidence D k') = map en_hash (run_evidence d k')" if "k' \<noteq> k" for k'
    using that by (simp add: run_evidence_def defs filter_map o_def) (metis (mono_tags, lifting) filter_cong option.inject)
  have "get_run D k = map_option (\<lambda>r. if rn_id r = k then r\<lparr>rn_status := ''QUEUED'', rn_finished := None,
          rn_environment := AList.update ''demo_reset'' (PBool True) (rn_environment r)\<rparr> else r) (get_run d k)"
    unfolding get_run_def De by (simp add: requeue_run_def clear_run_def delete_executions_def Let_def find_map_keyed)
  then obtain r' where r': "get_run D k = Some r'" "rn_id r' = k" using r id by auto
  have "\<exists>rep' D'. reset_workflow p (Some k) task True True D = (Inr rep', D') \<and> rb_removed rep' = [] \<and>
       list_all (\<lambda>c. snd c = 0) (rb_cleaned rep')"
    by (simp add: reset_workflow_def resolve_run_def r' ev gone)
  moreover have "tasks D = tasks d" "certificates D = certificates d" "memories D = memories d"
    by (simp_all add: defs)
  ultimately show ?thesis using ev gone kept by simp
qed

text \<open>
  An injected failure counts as a completed phase: after injecting a failure of any mode in a known phase
  of a run without events, the resume point of the run is the first phase other than it, so a failure
  injected in \<open>discover\<close> makes a resume start from \<open>govern\<close>.
\<close>
theorem injected_failure_counts_as_completed:
  assumes "run_events d (rn_id r) = []" and "in_phase i = Some f" and "f \<in> set DEFAULT_PHASES"
    and "inject_failure p task (Some r) mode i d = (Inr res, D)"
    and "\<forall>m. get_event d (workflow_id p (''event/'' @ fault_token r m (Some f))) = None"
  shows "resume_point D (rn_id r) = Inr (find (\<lambda>g. g \<noteq> f) DEFAULT_PHASES)"
proof -
  obtain m where m: "parse_mode mode = Some m"
    using assms(4) by (cases "parse_mode mode") (simp_all add: inject_failure_def)
  let ?token = "fault_token r m (Some f)"
  have run: "snd (inject_mode p m i r ?token (fst (db_now d)) (snd (db_now d))) = D"
    using assms(2,4) m by (simp add: inject_failure_def resolve_fault_run_def case_prod_unfold Let_def)
  obtain d1 kind j where D': "record_fault_event p ?token r kind j d1 = D" "events d1 = events d"
      "get_key j ''phase'' = opt_str (in_phase i)"
    by (rule inject_mode_records [of p m i r ?token "fst (db_now d)" "snd (db_now d)"]) (use run in simp)
  note D = D'(1) [symmetric] D'(2,3)
  have new: "get_event d1 (workflow_id p (''event/'' @ ?token)) = None" using assms(5) D(2) by (simp add: get_event_def)
  have none: "run_events d1 (rn_id r) = []" using assms(1) D(2) by (simp add: run_events_def)
  obtain w es where es: "D = d1\<lparr>host := w, events := events d1 @ es\<rparr>" "get_event D (workflow_id p (''event/'' @ ?token)) \<noteq> None"
      "es = [] \<or> (\<exists>t c. es = [fault_event p ?token r kind j (int (length (run_events d1 (rn_id r))) + 1) t c])"
    unfolding D(1) by (rule record_fault_event_effect)
  have "es \<noteq> []" using es(1,2) new by (auto simp: get_event_def)
  then obtain t c where "es = [fault_event p ?token r kind j 1 t c]" using es(3) none by auto
  then have "run_events D (rn_id r) = [fault_event p ?token r kind j 1 t c]"
    using none by (simp add: es(1) run_events_def fault_event_def Let_def)
  then have "ordered_events D (rn_id r) = [fault_event p ?token r kind j 1 t c]" by (simp add: ordered_events_def)
  moreover have "get_key (ce_payload (fault_event p ?token r kind j 1 t c)) ''phase'' = PStr f"
    using D(3) assms(2) by (simp add: fault_event_def Let_def opt_str_def)
  ultimately show ?thesis
    using assms(3) by (simp add: resume_point_def phase_in_def List.map_filter_simps)
qed

section \<open>Witnesses\<close>

text \<open>The demo data set, and a run \<open>r\<close> of another task.\<close>

definition seeded_task :: task_row where
  "seeded_task = \<lparr>ts_id = workflow_id demo_platform ''demo/task/AUTH-017'', ts_project = ''pr'', ts_repository = Some ''re'',
     ts_change = Some ''c'', ts_status = ''VERIFYING''\<rparr>"

definition seeded_db :: db where
  "seeded_db = (empty_db demo_host)
     \<lparr>projects := [''pr''], repositories := [''re''], tasks := [demo_task ''t'' ''c2'', seeded_task],
      changes := [demo_change ''c'', demo_change ''c2''],
      claims := [\<lparr>cl_id = ''k'', cl_task = Some (ts_id seeded_task), cl_statement = ''holds'', cl_status = ''OPEN'', cl_created = 0\<rparr>],
      ghosts := [workflow_id demo_platform ''demo/ghost/221''],
      failures := [\<lparr>fl_id = ''f'', fl_execution = None, fl_task = Some (ts_id seeded_task), fl_run = None, fl_evidence = None,
        fl_classification = ''F2_UNIT_TEST'', fl_message = [], fl_probable_cause = None, fl_next_action = None,
        fl_severity = ''HIGH'', fl_iteration = 1, fl_resolved = False, fl_occurred = None, fl_created = 0\<rparr>],
      repairs := [\<lparr>rp_id = ''x'', rp_task = Some (ts_id seeded_task), rp_failure = None, rp_patch = None, rp_evidence = None,
        rp_attempt = 1, rp_iteration = 1, rp_description = None, rp_patch_ref = None, rp_status = ''CREATED'',
        rp_started = None, rp_finished = None, rp_created = 0\<rparr>],
      patches := [demo_patch ''p'' (ts_id seeded_task) ''c''], run_rows := [demo_run]\<rparr>"

lemma seeded_scenario:
  "\<exists>sc. build_demo_scenario demo_platform id False name seeded_db = (Inr sc, seeded_db)"
proof -
  have rows: "get_task seeded_db (ts_id seeded_task) = Some seeded_task" "get_change seeded_db ''c'' = Some (demo_change ''c'')"
    by (simp_all add: seeded_db_def get_task_def get_change_def demo_task_def demo_change_def seeded_task_def workflow_id_def demo_platform_def)
  have firsts: "demo_claim_row seeded_db seeded_task \<noteq> None" "demo_failure_row seeded_db seeded_task \<noteq> None"
      "demo_repair_row seeded_db seeded_task \<noteq> None" "demo_patch_row seeded_db seeded_task \<noteq> None"
    by (simp_all add: demo_claim_row_def demo_failure_row_def demo_repair_row_def demo_patch_row_def first_row_def
        seeded_db_def demo_patch_def)
  have id: "workflow_id demo_platform ''demo/task/AUTH-017'' = ts_id seeded_task" by (simp add: seeded_task_def)
  have "ts_change seeded_task = Some ''c''" "ts_project seeded_task \<in> set (projects seeded_db)" "ts_repository seeded_task = Some ''re''"
      "''re'' \<in> set (repositories seeded_db)" "workflow_id demo_platform ''demo/ghost/221'' \<in> set (ghosts seeded_db)"
    by (simp_all add: seeded_task_def seeded_db_def)
  with rows firsts show ?thesis
    unfolding build_demo_scenario_def id scenario_of_def Let_def by auto
qed

theorem resume_merges_without_gate_witness:
  "\<exists>rep D t'. resume_workflow demo_platform id (Some ''r'') None ''CONTINUE'' (Some [''discover'']) seeded_db = (Inr rep, D) \<and>
     rb_applied rep \<and> certificates D = [] \<and> get_task D ''t'' = Some t' \<and> ts_status t' = ''MERGED''"
proof -
  obtain sc where sc: "build_demo_scenario demo_platform id False ''payments-api/AUTH-017'' seeded_db = (Inr sc, seeded_db)"
    using seeded_scenario by blast
  have "get_run seeded_db ''r'' = Some demo_run" "rn_status demo_run \<noteq> ''COMPLETED''"
      "get_task seeded_db (rn_task demo_run) = Some (demo_task ''t'' ''c2'')" "ts_status (demo_task ''t'' ''c2'') \<noteq> ''MERGED''"
      "run_events seeded_db ''r'' = []"
    by (simp_all add: seeded_db_def get_run_def get_task_def demo_run_def demo_task_def run_events_def empty_db_def)
  from resume_merges_without_gate [OF this sc, of None "''CONTINUE''"] show ?thesis
    by (simp add: seeded_db_def empty_db_def demo_run_def)
qed

theorem reset_clears_the_run_only_witness:
  "\<exists>rep D. reset_workflow demo_platform (Some ''r'') None True True ((demo_journal demo_host)\<lparr>run_rows := [demo_run]\<rparr>) = (Inr rep, D) \<and>
     rb_removed rep \<noteq> [] \<and> run_events D ''r'' = []"
proof -
  let ?d = "(demo_journal demo_host)\<lparr>run_rows := [demo_run]\<rparr>"
  have "length (run_events (demo_journal demo_host) ''r'') = 2" by code_simp
  then have two: "run_events ?d ''r'' \<noteq> []" by (auto simp: run_events_def)
  have run: "get_run ?d ''r'' = Some demo_run" "rn_id demo_run = ''r''" by (simp_all add: get_run_def demo_run_def)
  obtain rep D where r: "reset_workflow demo_platform (Some ''r'') None True True ?d = (Inr rep, D)" "rb_applied rep"
      "rb_removed rep = map ce_id (run_events ?d ''r'')"
    by (simp add: reset_workflow_def resolve_run_def run empty_report_def)
  from reset_clears_the_run_only [OF r(1,2)] r two show ?thesis by auto
qed

theorem injected_failure_counts_as_completed_witness:
  "\<exists>res D. inject_failure demo_platform None (Some demo_run) ''UNIT_TEST''
       \<lparr>in_phase = Some ''discover'', in_case = None, in_detail = None\<rparr> demo_db = (Inr res, D) \<and>
     resume_point D ''r'' = Inr (Some ''govern'')"
proof -
  let ?i = "\<lparr>in_phase = Some ''discover'', in_case = None, in_detail = None\<rparr>"
  have "parse_mode ''UNIT_TEST'' = Some UNIT_TEST" by code_simp
  then obtain res D where run: "inject_failure demo_platform None (Some demo_run) ''UNIT_TEST'' ?i demo_db = (Inr res, D)"
    by (auto simp: inject_failure_def resolve_fault_run_def case_prod_unfold Let_def)
  have "run_events demo_db (rn_id demo_run) = []"
      "\<forall>m. get_event demo_db (workflow_id demo_platform (''event/'' @ fault_token demo_run m (Some ''discover''))) = None"
    by (simp_all add: run_events_def get_event_def demo_db_def empty_db_def)
  from injected_failure_counts_as_completed [OF this(1) _ _ run this(2)] run show ?thesis
    by (auto simp: DEFAULT_PHASES_def demo_run_def)
qed

end
