(* ===== verification/Verification_Wave.thy ===== *)
theory Verification_Wave
  imports Verification Journal "HOL-Library.Multiset"
begin

text \<open>
  The runner of a verification wave (\<open>runner.py\<close>) and the read model of its result
  (\<open>control_center.py\<close>). The modules run concurrently over one collector: every module gives the emissions it
  makes, and a schedule says whose emission comes next. What the wave concludes is shown to depend on the
  emissions only: neither on the schedule nor on what the database already holds.
\<close>

section \<open>The wave (runner.py)\<close>

record run_config =
  rc_plan :: string
  rc_plan_version :: int
  rc_change :: string
  rc_task :: "string option"
  rc_actor :: verification_actor
  rc_candidate :: string
  rc_baseline :: "string option"
  rc_run :: "string option"
  rc_claims :: "string list"
  rc_modules :: "module_type list"
  rc_settings :: json

definition ALL_MODULES :: "module_type list" where
  "ALL_MODULES =
     [STATIC_ANALYSIS, DIFFERENTIAL_EXECUTION, HISTORICAL_GHOST_REPLAY, METAMORPHIC_CHECK, ADVERSARIAL_SCENARIO, MUTATION_TEST]"

fun run_module :: "platform \<Rightarrow> module_context \<Rightarrow> lab \<Rightarrow> module_type \<Rightarrow> module_run option" where
  "run_module p ctx l STATIC_ANALYSIS = run_static_analysis l ctx"
| "run_module p ctx l DIFFERENTIAL_EXECUTION = run_differential_execution p l ctx"
| "run_module p ctx l HISTORICAL_GHOST_REPLAY = run_historical_ghost_replay p l ctx"
| "run_module p ctx l METAMORPHIC_CHECK = run_metamorphic_checks p l ctx"
| "run_module p ctx l ADVERSARIAL_SCENARIO = run_adversarial_scenarios ctx"
| "run_module p ctx l MUTATION_TEST = run_mutation_testing p l ctx"

definition module_context_of :: "run_config \<Rightarrow> module_context" where
  "module_context_of c =
     \<lparr>cx_actor = rc_actor c, cx_claims = rc_claims c, cx_candidate = rc_candidate c, cx_case = rc_plan c,
      cx_baseline = rc_baseline c, cx_settings = rc_settings c\<rparr>"

text \<open>\<open>asyncio.gather\<close>: the results in the order of the modules; the exception of one is that of the wave.\<close>

fun gather :: "'a option list \<Rightarrow> 'a list option" where
  "gather [] = Some []"
| "gather (None # xs) = None"
| "gather (Some x # xs) = map_option ((#) x) (gather xs)"

definition run_modules :: "platform \<Rightarrow> (nat \<Rightarrow> lab) \<Rightarrow> run_config \<Rightarrow> module_run list option" where
  "run_modules p labs c =
     gather (map (\<lambda>(i, m). run_module p (module_context_of c) (labs i) m) (enumerate 0 (rc_modules c)))"

text \<open>
  The order in which the emissions reach the collector: the schedule names the module that emits next; what it
  leaves comes module by module.
\<close>

fun interleave :: "nat list \<Rightarrow> 'a list list \<Rightarrow> 'a list" where
  "interleave [] qs = concat qs"
| "interleave (i # s) qs =
     (if i < length qs \<and> qs ! i \<noteq> [] then hd (qs ! i) # interleave s (qs[i := tl (qs ! i)]) else interleave s qs)"

definition emission_queues :: "module_run list \<Rightarrow> (nat \<times> emission) list list" where
  "emission_queues ms = map (\<lambda>(i, m). map (Pair i) (md_emissions m)) (enumerate 0 ms)"

fun emit_all :: "platform \<Rightarrow> string \<Rightarrow> (nat \<times> emission) list \<Rightarrow> db \<Rightarrow> (nat \<times> evidence_record) list \<times> db" where
  "emit_all p run [] d = ([], d)"
| "emit_all p run ((i, e) # es) d =
     (let (r, d1) = collector_emit p run e d; (rs, d2) = emit_all p run es d1 in ((i, r) # rs, d2))"

definition outcome_of :: "(nat \<times> evidence_record) list \<Rightarrow> nat \<times> module_type \<times> module_run \<Rightarrow> module_outcome" where
  "outcome_of rs = (\<lambda>(i, m, r).
     \<lparr>mo_type = m, mo_status = md_status r, mo_summary = md_summary r,
      mo_evidence = map snd (filter (\<lambda>(j, _). j = i) rs), mo_findings = md_findings r\<rparr>)"

definition overall_state :: "module_outcome list \<Rightarrow> nat \<Rightarrow> string" where
  "overall_state ms n =
     (if list_ex (\<lambda>m. mo_status m = MBlocked) ms then ''BLOCKED''
      else if n = 0 then ''INSUFFICIENT_EVIDENCE'' else ''COMPLETED'')"

definition wave_run_id :: "run_config \<Rightarrow> db \<Rightarrow> string \<times> db" where
  "wave_run_id c d =
     (case rc_run c of Some (x # xs) \<Rightarrow> (x # xs, d) | _ \<Rightarrow> let (u, d') = db_uuid d in (''verif-'' @ u, d'))"

definition wave_summary :: "string \<Rightarrow> string \<Rightarrow> nat \<Rightarrow> module_outcome list \<Rightarrow> string" where
  "wave_summary run st n ms =
     ''verification run '' @ run @ '': '' @ st @ ''; '' @ str_int (int n) @ '' evidence record(s); '' @
     join '', '' (map (\<lambda>m. module_value (mo_type m) @ ''='' @ status_value (mo_status m)) ms)"

definition wave_task :: "run_config \<Rightarrow> db \<Rightarrow> string \<times> db" where
  "wave_task c d = (case rc_task c of Some t \<Rightarrow> (t, d) | None \<Rightarrow> db_uuid d)"

text \<open>None: a module raised.\<close>

definition run_verification_wave ::
    "platform \<Rightarrow> (nat \<Rightarrow> lab) \<Rightarrow> nat list \<Rightarrow> run_config \<Rightarrow> db \<Rightarrow> (verification_result \<times> db) option" where
  "run_verification_wave p labs schedule c d =
     (let (run, d0) = wave_run_id c d in
      case run_modules p labs c of None \<Rightarrow> None
      | Some ms \<Rightarrow>
          let (tagged, d1) = emit_all p run (interleave schedule (emission_queues ms)) d0;
              rs = map snd tagged;
              outcomes = map (outcome_of tagged) (enumerate 0 (zip (rc_modules c) ms));
              (verdicts, _, contradictions) = fuse_claim_evidence rs (rc_claims c);
              st = overall_state outcomes (length rs);
              (task, d2) = wave_task c d1; (t, d3) = db_now d2
          in Some (\<lparr>vf_candidate = rc_candidate c, vf_plan = rc_plan c, vf_plan_version = rc_plan_version c,
               vf_run = run, vf_change = rc_change c, vf_task = task, vf_modules = outcomes, vf_evidence = rs,
               vf_claims = verdicts, vf_contradictions = contradictions, vf_state = st,
               vf_summary = wave_summary run st (length rs) outcomes, vf_timestamp = t\<rparr>, d3))"

section \<open>The control center (control_center.py)\<close>

record control_center =
  cc_result :: verification_result
  cc_overall_passed :: bool

definition build_control_center :: "verification_result \<Rightarrow> control_center" where
  "build_control_center r = \<lparr>cc_result = r, cc_overall_passed = (vf_state r = ''COMPLETED'')\<rparr>"

text \<open>A dictionary by module: of two outcomes of one module the last one counts.\<close>

definition module_states :: "control_center \<Rightarrow> (string \<times> string) list" where
  "module_states k =
     fold (\<lambda>m. AList.update (module_value (mo_type m)) (status_value (mo_status m))) (vf_modules (cc_result k)) []"

definition claim_verdicts :: "control_center \<Rightarrow> (string \<times> string) list" where
  "claim_verdicts k = map (\<lambda>(c, v). (c, assessment_value v)) (vf_claims (cc_result k))"

definition trust_boundary :: "control_center \<Rightarrow> string" where
  "trust_boundary k = (if cc_overall_passed k then ''VERIFIER_INDEPENDENT'' else ''VERIFICATION_INCOMPLETE'')"

section \<open>Lemmas\<close>

text \<open>A schedule permutes the emissions and keeps the order of each module.\<close>

lemma concat_pick:
  assumes "i < length qs" "qs ! i = x # xs"
  shows "mset (concat qs) = add_mset x (mset (concat (qs[i := xs])))"
proof -
  have "concat qs = concat (take i qs) @ (x # xs) @ concat (drop (Suc i) qs)"
    using assms by (metis concat.simps(2) concat_append id_take_nth_drop)
  moreover have "concat (qs[i := xs]) = concat (take i qs) @ xs @ concat (drop (Suc i) qs)"
    using assms by (simp add: upd_conv_take_nth_drop)
  ultimately show ?thesis by simp
qed

lemma interleave_mset: "mset (interleave s qs) = mset (concat qs)"
proof (induction s qs rule: interleave.induct)
  case (2 i s qs)
  then show ?case by (cases "qs ! i") (auto simp: concat_pick)
qed simp

text \<open>The tests of the registry that run when the module is imported pass.\<close>

lemma registry_valid: "validate_registry ADVERSARIAL_CASES"
  by code_simp

text \<open>What a record says to the fusion is in its emission: whether the row is eligible does not matter.\<close>

definition emission_supports :: "emission \<Rightarrow> bool" where
  "emission_supports e \<longleftrightarrow> em_exit e = 0 \<and> em_severity e \<notin> set HIGH_SEVERITIES"

lemma never_unbound: "module_status_text (eligibility row) \<noteq> ''INELIGIBLE:NO_CLAIM_BINDING''"
  by (simp add: module_status_text_def eligibility_def Let_def)

lemma emitted_record:
  "vr_claim (fst (collector_emit p run e d)) = em_claim e \<and>
   vr_type (fst (collector_emit p run e d)) = module_value (em_type e) \<and>
   fst (classify_signal (fst (collector_emit p run e d))) = emission_supports e"
  using never_unbound
  by (auto simp: collector_emit_def Let_def case_prod_unfold classify_signal_def emission_supports_def)

lemma emit_all_signals:
  "map (\<lambda>(i, r). (i, vr_type r, vr_claim r, fst (classify_signal r))) (fst (emit_all p run es d)) =
   map (\<lambda>(i, e). (i, module_value (em_type e), em_claim e, emission_supports e)) es"
proof (induction p run es d rule: emit_all.induct)
  case (2 p run i e es d)
  then show ?case using emitted_record [of p run e d]
    by (cases "collector_emit p run e d"; cases "emit_all p run es (snd (collector_emit p run e d))") auto
qed simp

lemma emit_all_length: "length (fst (emit_all p run es d)) = length es"
  using arg_cong [OF emit_all_signals [of p run es d], of length] by simp

text \<open>Every module speaks of the first claim, and only when there is one.\<close>

lemma module_claims:
  assumes "run_module p ctx l m = Some r" "e \<in> set (md_emissions r)"
  shows "cx_claims ctx \<noteq> [] \<and> em_claim e = hd (cx_claims ctx)"
  using assms
  by (cases m)
    (auto simp: run_static_analysis_def run_differential_execution_def run_historical_ghost_replay_def
      run_metamorphic_checks_def run_adversarial_scenarios_def run_mutation_testing_def mutation_testing_def
      settled_def Let_def compile_emission_def scan_emission_def probe_emission_def ghost_emission_def
      check_emission_def case_emission_def mutant_emission_def
      split: list.splits option.splits if_splits prod.splits)


lemma gather_Some [simp]: "gather xs = Some ys \<longleftrightarrow> xs = map Some ys"
proof (induction xs arbitrary: ys rule: gather.induct)
  case (3 x xs)
  then show ?case by (cases ys) auto
qed auto

lemma run_modules_claims:
  assumes "run_modules p labs c = Some ms" "e \<in> set (concat (map md_emissions ms))"
  shows "rc_claims c \<noteq> [] \<and> em_claim e = hd (rc_claims c)"
proof -
  from assms(2) obtain m where m: "m \<in> set ms" "e \<in> set (md_emissions m)" by auto
  with assms(1) have "Some m \<in> set (map (\<lambda>(i, k). run_module p (module_context_of c) (labs i) k) (enumerate 0 (rc_modules c)))"
    by (simp add: run_modules_def)
  then obtain i k where "run_module p (module_context_of c) (labs i) k = Some m" by auto
  from module_claims [OF this m(2)] show ?thesis by (simp add: module_context_of_def)
qed

text \<open>What the fusion concludes for a claim, from what each record says.\<close>

definition signals :: "evidence_record list \<Rightarrow> (string \<times> bool) list" where
  "signals rs = map (\<lambda>r. (vr_claim r, fst (classify_signal r))) rs"

lemma club_signals:
  "club_verdict (club rs k) = classify_claim (length (filter (\<lambda>(c, b). c = k \<and> b) (signals rs)))
     (length (filter (\<lambda>(c, b). c = k \<and> \<not> b) (signals rs))) 0"
proof -
  have "length (supporters (club rs k)) = length (filter (\<lambda>(c, b). c = k \<and> b) (signals rs))"
    by (induction rs) (auto simp: club_def supporters_def signals_def address_def)
  moreover have "length (opponents (club rs k)) = length (filter (\<lambda>(c, b). c = k \<and> \<not> b) (signals rs))"
    by (induction rs) (auto simp: club_def opponents_def signals_def address_def)
  ultimately show ?thesis by (simp add: club_verdict_def)
qed

lemma emitted_signals:
  "signals (map snd (fst (emit_all p run es d))) = map (\<lambda>(i, e). (em_claim e, emission_supports e)) es"
proof -
  have "map (\<lambda>(i, t, x). x) (map (\<lambda>(i, r). (i, vr_type r, vr_claim r, fst (classify_signal r))) (fst (emit_all p run es d))) =
      map (\<lambda>(i, t, x). x) (map (\<lambda>(i, e). (i, module_value (em_type e), em_claim e, emission_supports e)) es)"
    by (simp only: emit_all_signals)
  then show ?thesis by (simp add: signals_def o_def case_prod_unfold)
qed

text \<open>The judgement of the evidence of a wave.\<close>

definition judgement :: "emission set \<Rightarrow> claim_assessment" where
  "judgement E =
     (if E = {} then Insufficient else if \<forall>e\<in>E. emission_supports e then Supporting
      else if \<forall>e\<in>E. \<not> emission_supports e then Contradicting else Conflicting)"

lemma length_filter_0: "length (filter P xs) = 0 \<longleftrightarrow> (\<forall>x\<in>set xs. \<not> P x)"
  by (simp add: filter_empty_conv)

lemma judged_signals:
  assumes "signals rs = map (\<lambda>(i, e). (em_claim e, emission_supports e)) es"
    and "\<And>i e. (i, e) \<in> set es \<Longrightarrow> em_claim e = a"
  shows "club_verdict (club rs k) = (if k = a then judgement (snd ` set es) else Insufficient)"
proof -
  define E where "E = snd ` set es"
  let ?s = "length (filter (\<lambda>(c, b). c = k \<and> b) (signals rs))"
    and ?o = "length (filter (\<lambda>(c, b). c = k \<and> \<not> b) (signals rs))"
  have s: "?s = 0 \<longleftrightarrow> k \<noteq> a \<or> (\<forall>e\<in>E. \<not> emission_supports e)"
    unfolding length_filter_0 E_def using assms by (fastforce simp: image_iff)
  have o: "?o = 0 \<longleftrightarrow> k \<noteq> a \<or> (\<forall>e\<in>E. emission_supports e)"
    unfolding length_filter_0 E_def using assms by (fastforce simp: image_iff)
  show ?thesis unfolding club_signals classify_claim_def s o judgement_def E_def [symmetric] by auto
qed

lemma filter_dedup_known:
  "(\<And>x. x \<in> set xs \<Longrightarrow> x \<in> set ids \<or> \<not> P x) \<Longrightarrow> filter P (dedup (ids @ xs)) = filter P (dedup ids)"
proof (induction ids arbitrary: P)
  case (Cons a ids)
  have "filter (\<lambda>y. P y \<and> y \<noteq> a) (dedup (ids @ xs)) = filter (\<lambda>y. P y \<and> y \<noteq> a) (dedup ids)"
    using Cons.prems by (intro Cons.IH) auto
  then show ?case by (simp add: conj_commute)
qed (auto simp: filter_empty_conv)

lemma dedup_known: "set xs \<subseteq> set ids \<Longrightarrow> dedup (ids @ xs) = dedup ids"
  using filter_dedup_known [of xs ids "\<lambda>_. True"] by auto

lemma map_enumerate: "map (\<lambda>x. f (snd x)) (enumerate n xs) = map f xs"
  using map_map [of f snd "enumerate n xs"] by (simp add: o_def)

lemma queued_emissions: "map snd (concat (emission_queues ms)) = concat (map md_emissions ms)"
  by (simp add: emission_queues_def map_concat o_def case_prod_unfold map_enumerate)

lemma outcome_statuses:
  assumes "length mods = length ms"
  shows "map mo_status (map (outcome_of rs) (enumerate n (zip mods ms))) = map md_status ms"
proof -
  have "map mo_status (map (outcome_of rs) (enumerate n (zip mods ms))) = map (\<lambda>x. md_status (snd (snd x))) (enumerate n (zip mods ms))"
    by (simp add: outcome_of_def case_prod_unfold)
  also have "\<dots> = map md_status (map snd (zip mods ms))"
    using map_enumerate [of "\<lambda>x. md_status (snd x)" n "zip mods ms"] by (simp add: o_def)
  finally show ?thesis using assms by simp
qed

lemma list_ex_eq: "list_ex (\<lambda>m. f m = x) xs \<longleftrightarrow> x \<in> set (map f xs)"
  by (auto simp: list_ex_iff)

lemma outcome_evidence: "\<forall>m\<in>set (map (outcome_of rs) xs). set (mo_evidence m) \<subseteq> set (map snd rs)"
  by (auto simp: outcome_of_def)

definition wave_emissions :: "module_run list \<Rightarrow> emission list" where
  "wave_emissions ms = concat (map md_emissions ms)"

definition wave_state :: "module_run list \<Rightarrow> string" where
  "wave_state ms =
     (if MBlocked \<in> set (map md_status ms) then ''BLOCKED''
      else if wave_emissions ms = [] then ''INSUFFICIENT_EVIDENCE'' else ''COMPLETED'')"

text \<open>A wave, taken apart: its modules, the order of their emissions and the records made of them.\<close>

lemma wave_parts:
  assumes "run_verification_wave p labs schedule c d = Some (r, D)"
  obtains ms es run d0 where
    "run_modules p labs c = Some ms" "mset (map snd es) = mset (wave_emissions ms)"
    "vf_evidence r = map snd (fst (emit_all p run es d0))"
    "map mo_status (vf_modules r) = map md_status ms"
    "\<forall>m\<in>set (vf_modules r). set (mo_evidence m) \<subseteq> set (vf_evidence r)"
    "vf_state r = wave_state ms"
    "vf_claims r = map (\<lambda>k. (k, club_verdict (club (vf_evidence r) k))) (club_keys (vf_evidence r) (rc_claims c))"
    "vf_run r = run"
proof -
  obtain run d0 where run: "wave_run_id c d = (run, d0)" by (cases "wave_run_id c d")
  from assms run obtain ms where ms: "run_modules p labs c = Some ms"
    by (auto simp: run_verification_wave_def split: option.splits)
  define es where "es = interleave schedule (emission_queues ms)"
  obtain tagged d1 where t: "emit_all p run es d0 = (tagged, d1)" by (cases "emit_all p run es d0")
  have len: "length (rc_modules c) = length ms"
    using ms unfolding run_modules_def gather_Some by (metis length_map length_enumerate)
  have "mset (map snd es) = mset (map snd (concat (emission_queues ms)))"
    by (simp add: es_def interleave_mset)
  then have es: "mset (map snd es) = mset (wave_emissions ms)"
    by (simp only: queued_emissions wave_emissions_def)
  let ?out = "map (outcome_of tagged) (enumerate 0 (zip (rc_modules c) ms))"
  have r: "vf_evidence r = map snd tagged" "vf_modules r = ?out" "vf_run r = run"
      "vf_state r = overall_state ?out (length tagged)"
      "vf_claims r = map (\<lambda>k. (k, club_verdict (club (map snd tagged) k))) (club_keys (map snd tagged) (rc_claims c))"
    using assms run ms t
    by (auto simp: run_verification_wave_def es_def [symmetric] fuse_claim_evidence_def Let_def case_prod_unfold)
  have n: "tagged = [] \<longleftrightarrow> wave_emissions ms = []"
  proof -
    have "length tagged = length es" using emit_all_length [of p run es d0] t by simp
    also have "\<dots> = length (wave_emissions ms)" using arg_cong [OF es, of size] by simp
    finally show ?thesis by auto
  qed
  have "MBlocked \<in> set (map md_status ms) \<longleftrightarrow> list_ex (\<lambda>m. mo_status m = MBlocked) ?out"
    unfolding outcome_statuses [OF len, of tagged 0, symmetric] by (rule list_ex_eq [symmetric])
  with n r(4) have "vf_state r = wave_state ms"
    by (simp add: wave_state_def overall_state_def)
  then show thesis
    using that [OF ms es, of run d0] r t outcome_statuses [OF len] outcome_evidence [of tagged] by simp
qed

lemma wave_judged:
  assumes "run_verification_wave p labs schedule c d = Some (r, D)"
  shows "\<exists>ms. run_modules p labs c = Some ms \<and>
    vf_claims r = map (\<lambda>k. (k, if k = hd (rc_claims c) then judgement (set (wave_emissions ms)) else Insufficient))
      (dedup (rc_claims c)) \<and>
    map mo_status (vf_modules r) = map md_status ms \<and> vf_state r = wave_state ms"
proof -
  obtain ms es run d0 where w:
      "run_modules p labs c = Some ms" "mset (map snd es) = mset (wave_emissions ms)"
      "vf_evidence r = map snd (fst (emit_all p run es d0))"
      "map mo_status (vf_modules r) = map md_status ms"
      "\<forall>m\<in>set (vf_modules r). set (mo_evidence m) \<subseteq> set (vf_evidence r)" "vf_state r = wave_state ms"
      "vf_claims r = map (\<lambda>k. (k, club_verdict (club (vf_evidence r) k))) (club_keys (vf_evidence r) (rc_claims c))"
      "vf_run r = run"
    by (rule wave_parts [OF assms])
  have set: "snd ` set es = set (wave_emissions ms)" using w(2) by (metis set_map set_mset_mset)
  have claim: "em_claim e = hd (rc_claims c)" "rc_claims c \<noteq> []" if "(i, e) \<in> set es" for i e
  proof -
    from that have "e \<in> set (wave_emissions ms)" unfolding set [symmetric] by force
    with run_modules_claims [OF w(1)] show "em_claim e = hd (rc_claims c)" "rc_claims c \<noteq> []"
      by (auto simp: wave_emissions_def)
  qed
  have "club_verdict (club (vf_evidence r) k) = (if k = hd (rc_claims c) then judgement (set (wave_emissions ms)) else Insufficient)" for k
    unfolding set [symmetric] w(3) by (rule judged_signals [OF emitted_signals claim(1)])
  moreover have "club_keys (vf_evidence r) (rc_claims c) = dedup (rc_claims c)"
  proof -
    have "map vr_claim (vf_evidence r) = map fst (signals (vf_evidence r))" by (simp add: signals_def)
    also have "\<dots> = map (\<lambda>(i, e). em_claim e) es" unfolding w(3) emitted_signals by (simp add: case_prod_unfold)
    finally have "set (map vr_claim (vf_evidence r)) \<subseteq> set (rc_claims c)" using claim by fastforce
    then show ?thesis unfolding club_keys_def by (rule dedup_known)
  qed
  ultimately show ?thesis using w by simp
qed


text \<open>
  C21. A wave judges the evidence its modules produced and nothing else: whatever the order in which the modules
  reach the collector and whatever the database already holds, the first claim gets the judgement of all
  emissions, every other claim is INSUFFICIENT, the modules keep their statuses, and the wave is BLOCKED when a
  module is, lacks evidence when there were no emissions and is COMPLETED otherwise.
\<close>

theorem wave_judges_the_evidence:
  assumes "run_verification_wave p labs schedule c d = Some (r, D)"
  shows "\<exists>ms. run_modules p labs c = Some ms \<and>
    vf_claims r = map (\<lambda>k. (k, if k = hd (rc_claims c) then judgement (set (wave_emissions ms)) else Insufficient))
      (dedup (rc_claims c)) \<and>
    map mo_status (vf_modules r) = map md_status ms \<and> vf_state r = wave_state ms"
  by (rule wave_judged [OF assms])
text \<open>
  Where a mutation may write: at its target, seen from the temporary directory. What else changes a file is a
  command: \<open>changed_by_run\<close> says that the run of a target in the temporary directory leaves another file there.
\<close>

definition mutation_paths :: "lab \<Rightarrow> mutation list \<Rightarrow> string set" where
  "mutation_paths l ms = {la_path l [la_temp l, t] | t. PStr t \<in> mx_target ` set ms}"

definition below :: "string \<Rightarrow> string \<Rightarrow> bool" where
  "below dir path \<longleftrightarrow> startswith path (dir @ ''/'')"

definition changed_by_run :: "lab \<Rightarrow> mutation list \<Rightarrow> string \<Rightarrow> bool" where
  "changed_by_run l ms path \<longleftrightarrow>
     (\<exists>n t fs out. PStr t \<in> mx_target ` set ms \<and> la_run l n [la_python l, t] (la_temp l) fs = Some out \<and>
        la_leaves l n [la_python l, t] (la_temp l) fs path \<noteq> fs path)"

lemma mutations_cons:
  "path \<notin> mutation_paths l (m # ms) \<Longrightarrow> path \<notin> mutation_paths l ms"
  "\<not> changed_by_run l (m # ms) path \<Longrightarrow> \<not> changed_by_run l ms path"
  by (auto simp: mutation_paths_def changed_by_run_def)

lemma run_mutations_paths:
  "run_mutations l expected n ms fs = Some (rs, fs') \<Longrightarrow> path \<notin> mutation_paths l ms \<Longrightarrow> \<not> changed_by_run l ms path \<Longrightarrow>
     fs' path = fs path"
proof (induction l expected n ms fs arbitrary: rs rule: run_mutations.induct)
  case (2 l expected n m ms fs)
  note rest = mutations_cons(1) [OF "2.prems"(2)] mutations_cons(2) [OF "2.prems"(3)]
  from "2.prems"(1) obtain target where t: "mx_target m = PStr target" by (auto split: pyval.splits)
  with "2.prems"(2) have other: "path \<noteq> la_path l [la_temp l, target]" by (force simp: mutation_paths_def)
  show ?case
  proof (cases "fs (la_path l [la_temp l, target])")
    case None
    with "2.prems"(1) t obtain rs' where "run_mutations l expected n ms fs = Some (rs', fs')" by (auto simp: Let_def)
    then show ?thesis using 2(1) [OF t refl None _ rest] by simp
  next
    case (Some x)
    with "2.prems"(1) t obtain fs1 out rs' where s:
        "apply_mutation (la_path l [la_temp l, target]) m fs = Some fs1"
        "la_run l n [la_python l, target] (la_temp l) fs1 = Some out"
        "run_mutations l expected (n + 1) ms (la_leaves l n [la_python l, target] (la_temp l) fs1) = Some (rs', fs')"
      by (auto simp: Let_def split: option.splits)
    have "fs' path = la_leaves l n [la_python l, target] (la_temp l) fs1 path" using 2(2) [OF t refl _ s(1,2,3) rest] Some by simp
    also have "\<dots> = fs1 path" using "2.prems"(3) s(2) t unfolding changed_by_run_def by (metis imageI list.set_intros(1))
    also have "\<dots> = fs path" using s(1) other by (auto simp: apply_mutation_def split: option.splits)
    finally show ?thesis .
  qed
qed simp

text \<open>
  C28. Whatever file differs after mutation testing, the module wrote it below its temporary directory or at the
  target of a mutation, or a run of a mutated target, in the temporary directory, changed it: the module itself
  writes nowhere else, given that copying the candidate writes below the temporary directory only. The docstring
  of mutation.py promises more, that the candidate itself is never mutated: a target is joined to the temporary
  directory without a check, so one that is absolute names a file outside of the copy, and it is rewritten there.
  The witness rewrites the candidate that way, and its probe leaves a file of its own.
\<close>

theorem mutations_touch_targets_only:
  assumes "mutation_testing p l ctx = Some (r, fs)" "scope (cx_settings ctx) ''mutation'' = Some j"
    and "collect_mutations l (cx_candidate ctx) j = Some ms"
    and "\<And>fs0 fs1 path. la_copy l (cx_candidate ctx) (la_temp l) fs0 = Some fs1 \<Longrightarrow> \<not> below (la_temp l) path \<Longrightarrow>
      fs1 path = fs0 path"
  shows "\<forall>path. fs path = la_files l path \<or> below (la_temp l) path \<or> path \<in> mutation_paths l ms \<or> changed_by_run l ms path"
proof (intro allI)
  fix path
  show "fs path = la_files l path \<or> below (la_temp l) path \<or> path \<in> mutation_paths l ms \<or> changed_by_run l ms path"
  proof (cases "cx_claims ctx")
    case Nil
    with assms(1) show ?thesis by (auto simp: mutation_testing_def settled_def)
  next
    case (Cons k ks)
    with assms(1-3) obtain fs0 expected rs where "la_copy l (cx_candidate ctx) (la_temp l) (la_files l) = Some fs0"
        "run_mutations l expected 0 ms fs0 = Some (rs, fs)"
      by (auto simp: mutation_testing_def Let_def split: option.splits)
    then show ?thesis using assms(4) run_mutations_paths by metis
  qed
qed

section \<open>Concrete waves\<close>

definition demo_output :: "string \<Rightarrow> probe_output" where
  "demo_output s = \<lparr>po_exit = 0, po_stdout = s, po_stderr = [], po_timed_out = False, po_seconds = PInt 0\<rparr>"

text \<open>
  A candidate of one file; its probe prints 42 and, in the copy, 7 once it is mutated. Run in the copy it also
  leaves a log outside of it.
\<close>

definition demo_lab :: lab where
  "demo_lab =
     \<lparr>la_dir = (\<lambda>_. True), la_path = (\<lambda>parts. if startswith (last parts) ''/'' then last parts else join ''/'' parts),
      la_python = ''/usr/bin/python'', la_script = ''/tmp/check.py'', la_sources = (\<lambda>_. [(''ghost_probe.py'', Some ''return 42'')]),
      la_run = (\<lambda>n args cwd fs. Some (demo_output
        (if cwd = ''/tmp/copy'' \<and> fs ''/tmp/copy/ghost_probe.py'' = Some (Some ''return 7'') then ''7'' else ''42''))),
      la_leaves = (\<lambda>n args cwd fs. if cwd = ''/tmp/copy'' then fs(''/var/probe.log'' := Some (Some ''ran'')) else fs),
      la_files = (\<lambda>path. if path = ''/cand/ghost_probe.py'' then Some (Some ''return 42'') else None),
      la_temp = ''/tmp/copy'',
      la_copy = (\<lambda>dir tmp fs. Some (\<lambda>path. if path = tmp @ ''/ghost_probe.py'' then fs (dir @ ''/ghost_probe.py'') else fs path))\<rparr>"

definition demo_config :: "string list \<Rightarrow> run_config" where
  "demo_config ks =
     \<lparr>rc_plan = ''plan'', rc_plan_version = 1, rc_change = ''change'', rc_task = Some ''task'',
      rc_actor = \<lparr>va_run = ''verifier'', va_role = ''INDEPENDENT_VERIFIER'', va_source = Some ''coder''\<rparr>,
      rc_candidate = ''/cand'', rc_baseline = Some ''/base'', rc_run = None, rc_claims = ks, rc_modules = ALL_MODULES, rc_settings = []\<rparr>"

lemma wave_returns:
  "run_modules p labs c = Some ms \<Longrightarrow> \<exists>r D. run_verification_wave p labs schedule c d = Some (r, D)"
  by (auto simp: run_verification_wave_def Let_def case_prod_unfold)

lemma demo_modules:
  "map_option (\<lambda>ms. (map md_status ms, length (wave_emissions ms), list_all emission_supports (wave_emissions ms)))
     (run_modules demo_platform (\<lambda>_. demo_lab) (demo_config [''k1'', ''k2''])) =
   Some ([MPassed, MPassed, MSkipped, MSkipped, MPassed, MPassed], 25, True)"
  by code_simp

lemma demo_wave:
  obtains ms r D where "run_modules demo_platform (\<lambda>_. demo_lab) (demo_config [''k1'', ''k2'']) = Some ms"
    "run_verification_wave demo_platform (\<lambda>_. demo_lab) [4, 0, 4] (demo_config [''k1'', ''k2'']) d = Some (r, D)"
    "judgement (set (wave_emissions ms)) = Supporting" "wave_state ms = ''COMPLETED''"
    "map md_status ms = [MPassed, MPassed, MSkipped, MSkipped, MPassed, MPassed]"
proof -
  from demo_modules obtain ms where ms: "run_modules demo_platform (\<lambda>_. demo_lab) (demo_config [''k1'', ''k2'']) = Some ms"
      "map md_status ms = [MPassed, MPassed, MSkipped, MSkipped, MPassed, MPassed]" "length (wave_emissions ms) = 25"
      "list_all emission_supports (wave_emissions ms)"
    by auto
  then have "judgement (set (wave_emissions ms)) = Supporting" "wave_state ms = ''COMPLETED''"
    by (auto simp: judgement_def wave_state_def list_all_iff)
  moreover obtain r D where
      "run_verification_wave demo_platform (\<lambda>_. demo_lab) [4, 0, 4] (demo_config [''k1'', ''k2'']) d = Some (r, D)"
    using wave_returns [OF ms(1)] by metis
  ultimately show thesis using ms(2) by (intro that [OF ms(1)])
qed

theorem wave_judges_the_evidence_witness:
  "\<exists>r D. run_verification_wave demo_platform (\<lambda>_. demo_lab) [4, 0, 4] (demo_config [''k1'', ''k2'']) (empty_db demo_host) = Some (r, D) \<and>
     vf_claims r = [(''k1'', Supporting), (''k2'', Insufficient)] \<and> vf_state r = ''COMPLETED''"
proof -
  obtain ms r D where w: "run_modules demo_platform (\<lambda>_. demo_lab) (demo_config [''k1'', ''k2'']) = Some ms"
    "run_verification_wave demo_platform (\<lambda>_. demo_lab) [4, 0, 4] (demo_config [''k1'', ''k2'']) (empty_db demo_host) = Some (r, D)"
    "judgement (set (wave_emissions ms)) = Supporting" "wave_state ms = ''COMPLETED''"
    "map md_status ms = [MPassed, MPassed, MSkipped, MSkipped, MPassed, MPassed]"
    by (rule demo_wave)
  have "dedup [''k1'', ''k2''] = [''k1'', ''k2'']" by simp
  with wave_judges_the_evidence [OF w(2)] w show ?thesis by (auto simp: demo_config_def)
qed

definition demo_mutation :: module_context where
  "demo_mutation =
     (module_context_of (demo_config [''k1'']))\<lparr>cx_settings := [(''mutation'', PDict [(''mutations'', PList [PDict
        [(''mutation_id'', PStr ''m1''), (''target'', PStr ''/cand/ghost_probe.py''), (''old'', PStr ''42''), (''new'', PStr ''7'')]])])]\<rparr>"

lemma demo_mutation_runs:
  "map_option (\<lambda>(r, fs). (fs ''/cand/ghost_probe.py'', fs ''/var/probe.log'')) (mutation_testing demo_platform demo_lab demo_mutation) =
     Some (Some (Some ''return 7''), Some (Some ''ran''))"
  "la_files demo_lab ''/cand/ghost_probe.py'' = Some (Some ''return 42'')" "la_files demo_lab ''/var/probe.log'' = None"
  by code_simp+

text \<open>The mutation names the candidate itself; the log is the run's, not the module's.\<close>

theorem mutations_touch_targets_only_witness:
  "\<exists>r fs ms. mutation_testing demo_platform demo_lab demo_mutation = Some (r, fs) \<and>
     fs ''/cand/ghost_probe.py'' = Some (Some ''return 7'') \<and> la_files demo_lab ''/cand/ghost_probe.py'' = Some (Some ''return 42'') \<and>
     ''/cand/ghost_probe.py'' \<in> mutation_paths demo_lab ms \<and> fs ''/var/probe.log'' = Some (Some ''ran'') \<and>
     changed_by_run demo_lab ms ''/var/probe.log''"
proof -
  define j where "j = [(''mutations'', PList [PDict
     [(''mutation_id'', PStr ''m1''), (''target'', PStr ''/cand/ghost_probe.py''), (''old'', PStr ''42''), (''new'', PStr ''7'')]])]"
  have s: "scope (cx_settings demo_mutation) ''mutation'' = Some j"
    by (simp add: demo_mutation_def scope_def j_def)
  obtain r fs where r: "mutation_testing demo_platform demo_lab demo_mutation = Some (r, fs)"
      "fs ''/cand/ghost_probe.py'' = Some (Some ''return 7'')" "fs ''/var/probe.log'' = Some (Some ''ran'')"
    using demo_mutation_runs(1) by auto
  obtain ms where m: "collect_mutations demo_lab (cx_candidate demo_mutation) j = Some ms"
      "mx_target ` set ms = {PStr ''/cand/ghost_probe.py''}"
    by (simp add: collect_mutations_def j_def List.map_filter_def mutation_of_def text_field_def)
  have frame: "\<forall>path. fs path = la_files demo_lab path \<or> below (la_temp demo_lab) path \<or> path \<in> mutation_paths demo_lab ms \<or>
      changed_by_run demo_lab ms path"
    by (rule mutations_touch_targets_only [OF r(1) s m(1)]) (auto simp: demo_lab_def below_def startswith_def split: if_splits)
  have outside: "\<not> below (la_temp demo_lab) ''/cand/ghost_probe.py''" "\<not> below (la_temp demo_lab) ''/var/probe.log''"
    by (simp_all add: below_def demo_lab_def startswith_def)
  have paths: "mutation_paths demo_lab ms = {''/cand/ghost_probe.py''}"
    by (simp add: mutation_paths_def m(2) demo_lab_def startswith_def)
  from frame outside(2) r(3) demo_mutation_runs(3) have "changed_by_run demo_lab ms ''/var/probe.log''"
    unfolding paths by force
  then show ?thesis using r demo_mutation_runs(2) paths by blast
qed

end
