(* ===== verification/Delta.thy ===== *)
theory Delta
  imports Verification_Wave
begin

text \<open>
  From a verification wave to a decision (\<open>smorx_delta\<close>): the behavioral deltas of the claims
  (\<open>deltas.py\<close>), their alignment with the locked intent (\<open>intent.py\<close>), the decision (\<open>decision.py\<close>) and the
  barrier in front of it (\<open>handoff.py\<close>). The last section takes a candidate through all of it and says exactly
  when it may be merged.
\<close>

section \<open>Deltas (deltas.py)\<close>

record delta_record =
  bx_id :: string
  bx_change :: string
  bx_patch :: string
  bx_class :: string
  bx_claim :: string
  bx_alignment :: string
  bx_authorized :: "bool option"
  bx_observed :: int
  bx_version :: string
  bx_evidence :: "string list"

definition CRITICAL_SEVERITIES :: "string list" where
  "CRITICAL_SEVERITIES = [''HIGH'', ''CRITICAL'']"

definition CONTRADICTING_ASSESSMENTS :: "claim_assessment list" where
  "CONTRADICTING_ASSESSMENTS = [Contradicting, Conflicting]"

text \<open>The records of a claim, a dictionary by their identifiers.\<close>

definition claim_evidence :: "verification_result \<Rightarrow> string \<Rightarrow> evidence_record list" where
  "claim_evidence r k =
     map snd (fold (\<lambda>x. AList.update (vr_id x) x)
       (filter (\<lambda>x. vr_claim x = k) (vf_evidence r @ concat (map mo_evidence (vf_modules r)))) [])"

definition evidence_ids :: "evidence_record list \<Rightarrow> string list" where
  "evidence_ids rs = sort (map vr_id rs)"

definition claim_assessment_of :: "verification_result \<Rightarrow> string \<Rightarrow> claim_assessment option" where
  "claim_assessment_of r k = map_of (vf_claims r) k"

definition is_contradicting :: "verification_result \<Rightarrow> string \<Rightarrow> evidence_record list \<Rightarrow> bool" where
  "is_contradicting r k rs \<longleftrightarrow>
     list_ex (\<lambda>x. upper (vr_severity x) \<in> set CRITICAL_SEVERITIES \<or> vr_exit x \<noteq> 0) rs \<or>
     (case claim_assessment_of r k of None \<Rightarrow> False | Some a \<Rightarrow> a \<in> set CONTRADICTING_ASSESSMENTS)"

definition classify_delta ::
    "verification_result \<Rightarrow> string list \<Rightarrow> string list \<Rightarrow> string \<Rightarrow> string \<times> string list" where
  "classify_delta r baseline candidates k =
     (let rs = claim_evidence r k in
      if rs = [] then (''UNEXPLAINED'', [])
      else if is_contradicting r k rs then (''ALTERED'', evidence_ids rs)
      else if k \<in> set candidates \<and> k \<notin> set baseline then (''ADDED'', evidence_ids rs)
      else if k \<in> set baseline \<and> k \<notin> set candidates then (''REMOVED'', evidence_ids rs)
      else (''UNCHANGED'', evidence_ids rs))"

text \<open>
  \<open>uuid.uuid5\<close> of a namespace, itself named by a text under \<open>NAMESPACE_URL\<close>, is the argument \<open>u5\<close> of what follows.
\<close>

type_synonym named_uuid = "string \<Rightarrow> string \<Rightarrow> string"

definition delta_id :: "named_uuid \<Rightarrow> string \<Rightarrow> string \<Rightarrow> string \<Rightarrow> string \<Rightarrow> string" where
  "delta_id u5 change patch k cls = u5 ''smorx:behavioral-delta'' (join ''|'' [change, patch, k, cls])"

definition delta_of ::
    "named_uuid \<Rightarrow> string \<Rightarrow> string \<Rightarrow> verification_result \<Rightarrow> string list \<Rightarrow> string list \<Rightarrow> int \<Rightarrow> string \<Rightarrow> delta_record" where
  "delta_of u5 change patch r baseline candidates t k =
     (let (cls, ids) = classify_delta r baseline candidates k in
      \<lparr>bx_id = delta_id u5 change patch k cls, bx_change = change, bx_patch = patch, bx_class = cls, bx_claim = k,
       bx_alignment = ''PENDING'', bx_authorized = None, bx_observed = t, bx_version = ''1.0.0'', bx_evidence = ids\<rparr>)"

definition compute_behavioral_deltas ::
    "named_uuid \<Rightarrow> string \<Rightarrow> string \<Rightarrow> string list \<Rightarrow> verification_result \<Rightarrow> string list \<Rightarrow> string list \<Rightarrow> world \<Rightarrow>
     delta_record list \<times> world" where
  "compute_behavioral_deltas u5 change patch ids r baseline candidates w =
     (let (t, w') = now w in (map (delta_of u5 change patch r baseline candidates t) (sort ids), w'))"

section \<open>Intent alignment (intent.py)\<close>

text \<open>An item of the intent ledger, by the attributes it has; \<open>None\<close> for those it has not.\<close>

type_synonym ledger_item = json

record alignment_record =
  al_id :: string
  al_item :: string
  al_claim :: string
  al_status :: string
  al_verdict :: string
  al_rationale :: string
  al_score :: rat
  al_evidence :: "string list"

definition KNOWN_KINDS :: "string list" where
  "KNOWN_KINDS = [''REQUIREMENT'', ''CONSTRAINT'', ''ACCEPTANCE_CRITERION'']"

definition CHANGED_CLASSIFICATIONS :: "string list" where
  "CHANGED_CLASSIFICATIONS = [''ALTERED'', ''ADDED'', ''REMOVED'']"

definition texts_in :: "pyval list \<Rightarrow> string list" where
  "texts_in vs = List.map_filter (\<lambda>v. case v of PStr s \<Rightarrow> Some s | _ \<Rightarrow> None) vs"

definition scope_texts :: "ledger_item \<Rightarrow> string list" where
  "scope_texts item =
     concat (map (\<lambda>a. case get_key item a of PStr s \<Rightarrow> [s] | PList vs \<Rightarrow> texts_in vs | _ \<Rightarrow> [])
       [''statement'', ''behaviors'', ''targets'', ''behavior'', ''target''])"

definition mentions_claim :: "ledger_item \<Rightarrow> string \<Rightarrow> bool" where
  "mentions_claim item k \<longleftrightarrow>
     k \<noteq> [] \<and> list_ex (\<lambda>s. s \<noteq> [] \<and> contains (lower k) (lower s)) (scope_texts item)"

definition item_text :: "platform \<Rightarrow> ledger_item \<Rightarrow> string \<Rightarrow> string" where
  "item_text p item a = (case get_key item a of PNone \<Rightarrow> [] | v \<Rightarrow> py_str (float_repr p) v)"

definition first_matching_intent_item :: "platform \<Rightarrow> string \<Rightarrow> ledger_item list \<Rightarrow> ledger_item option" where
  "first_matching_intent_item p k items =
     find (\<lambda>item. item_text p item ''kind'' \<in> set KNOWN_KINDS \<and> mentions_claim item k) items"

definition alignment_of ::
    "named_uuid \<Rightarrow> delta_record \<Rightarrow> string \<Rightarrow> string \<Rightarrow> string \<Rightarrow> string \<Rightarrow> rat \<Rightarrow> alignment_record" where
  "alignment_of u5 b item st verdict rationale score =
     \<lparr>al_id = u5 ''smorx:intent-alignment'' (join ''|'' [bx_claim b, item, verdict]), al_item = item, al_claim = bx_claim b,
      al_status = st, al_verdict = verdict, al_rationale = rationale, al_score = score, al_evidence = bx_evidence b\<rparr>"

definition covered_by :: "platform \<Rightarrow> string \<Rightarrow> ledger_item \<Rightarrow> string" where
  "covered_by p kind item =
     ''covered by '' @ kind @ '' intent item '' @ item_text p item ''id'' @ '': '' @ item_text p item ''statement''"

definition align_delta :: "platform \<Rightarrow> named_uuid \<Rightarrow> ledger_item list \<Rightarrow> delta_record \<Rightarrow> alignment_record" where
  "align_delta p u5 items b =
     (if bx_class b = ''UNCHANGED'' then
        alignment_of u5 b [] ''ALIGNED'' ''AUTHORIZED'' ''no behavioral change observed; nothing to authorize'' 1
      else if bx_class b = ''UNEXPLAINED'' then
        alignment_of u5 b [] ''PENDING'' ''UNEXPLAINED'' ''no evidence to support authorization judgment'' 0
      else if bx_class b \<in> set CHANGED_CLASSIFICATIONS then
        (case first_matching_intent_item p (bx_claim b) items of
           None \<Rightarrow> alignment_of u5 b [] ''MISALIGNED'' ''UNAUTHORIZED''
             ''observed change is not covered by any locked intent ledger item'' 0
         | Some item \<Rightarrow>
             if item_text p item ''kind'' = ''CONSTRAINT'' then
               alignment_of u5 b (item_text p item ''id'') ''ALIGNED'' ''AUTHORIZED'' (covered_by p ''CONSTRAINT'' item) (9 / 10)
             else
               alignment_of u5 b (item_text p item ''id'') ''ALIGNED'' ''AUTHORIZED''
                 (covered_by p (item_text p item ''kind'') item) (8 / 10))
      else
        alignment_of u5 b [] ''PENDING'' ''UNEXPLAINED''
          ''unexpected delta classification; authorization cannot be evaluated'' 0)"

definition evaluate_intent_alignment ::
    "platform \<Rightarrow> named_uuid \<Rightarrow> delta_record list \<Rightarrow> ledger_item list \<Rightarrow> alignment_record list" where
  "evaluate_intent_alignment p u5 bs items = map (align_delta p u5 items) bs"

section \<open>The decision (decision.py)\<close>

datatype decision_code = EligibleToContinue | RepairRequired | DecisionBlocked | InsufficientEvidence

fun decision_value :: "decision_code \<Rightarrow> string" where
  "decision_value EligibleToContinue = ''ELIGIBLE_TO_CONTINUE''"
| "decision_value RepairRequired = ''REPAIR_REQUIRED''"
| "decision_value DecisionBlocked = ''BLOCKED''"
| "decision_value InsufficientEvidence = ''INSUFFICIENT_EVIDENCE''"

record certification_decision =
  dc_code :: decision_code
  dc_candidate :: string
  dc_change :: string
  dc_run :: string
  dc_summary :: string
  dc_gates :: "string list"
  dc_allow_merge :: bool
  dc_failures :: "string list"

text \<open>\<open>{alignment.claim_id: alignment}\<close>: the last alignment of a claim counts.\<close>

definition alignment_by_claim :: "alignment_record list \<Rightarrow> string \<Rightarrow> alignment_record option" where
  "alignment_by_claim als k = map_of (rev (map (\<lambda>a. (al_claim a, a)) als)) k"

text \<open>What a gate that does not hold adds: its label and its reason.\<close>

definition claim_gates :: "verification_result \<Rightarrow> (string \<times> string) list" where
  "claim_gates r = map (\<lambda>(k, a). (''CLAIM:'' @ k @ '':'' @ assessment_value a,
       ''claim '' @ k @ '' has '' @ assessment_value a @ '' evidence''))
     (filter (\<lambda>(k, a). a \<in> {Contradicting, Conflicting}) (vf_claims r))"

definition module_gates :: "verification_result \<Rightarrow> (string \<times> string) list" where
  "module_gates r = map (\<lambda>m. (''MODULE:'' @ module_value (mo_type m) @ '':FAILED'',
       ''verification module '' @ module_value (mo_type m) @ '' failed''))
     (filter (\<lambda>m. mo_status m = MFailed) (vf_modules r))"

definition delta_gates :: "alignment_record list \<Rightarrow> delta_record \<Rightarrow> (string \<times> string) list" where
  "delta_gates als b =
     (if bx_class b = ''UNEXPLAINED'' then
        [(''DELTA:'' @ bx_claim b @ '':UNEXPLAINED'', ''delta for claim '' @ bx_claim b @ '' is unexplained'')]
      else if bx_class b \<in> set CHANGED_CLASSIFICATIONS then
        (let unverified = [(''INTENT:'' @ bx_claim b @ '':UNVERIFIED'',
               ''change for claim '' @ bx_claim b @ '' is not yet authorized'')] in
         case alignment_by_claim als (bx_claim b) of
           None \<Rightarrow> unverified
         | Some a \<Rightarrow>
             if al_verdict a \<in> {''PENDING'', ''UNEXPLAINED''} then unverified
             else if al_verdict a = ''UNAUTHORIZED'' then
               [(''INTENT:'' @ bx_claim b @ '':UNAUTHORIZED'', ''change for claim '' @ bx_claim b @ '' is unauthorized'')]
             else [])
      else [])"

definition change_authorized :: "alignment_record list \<Rightarrow> delta_record \<Rightarrow> bool" where
  "change_authorized als b \<longleftrightarrow>
     (if bx_class b = ''UNEXPLAINED'' then False
      else if bx_class b \<in> set CHANGED_CLASSIFICATIONS then
        (case alignment_by_claim als (bx_claim b) of None \<Rightarrow> False | Some a \<Rightarrow> al_verdict a = ''AUTHORIZED'')
      else True)"

definition decision_of ::
    "verification_result \<Rightarrow> decision_code \<Rightarrow> string \<Rightarrow> string list \<Rightarrow> bool \<Rightarrow> string list \<Rightarrow> certification_decision" where
  "decision_of r code summary gates allow reasons =
     \<lparr>dc_code = code, dc_candidate = vf_candidate r, dc_change = vf_change r, dc_run = vf_run r, dc_summary = summary,
      dc_gates = gates, dc_allow_merge = allow, dc_failures = reasons\<rparr>"

definition decide_certification ::
    "verification_result \<Rightarrow> delta_record list \<Rightarrow> alignment_record list \<Rightarrow> certification_decision" where
  "decide_certification r bs als =
     (if vf_state r \<noteq> ''COMPLETED'' then
        decision_of r DecisionBlocked ''blocked: verification wave did not complete'' [''PHASE9_STATE='' @ vf_state r] False
          [''verification wave must be COMPLETED before deciding'']
      else if vf_evidence r = [] then
        decision_of r InsufficientEvidence ''insufficient evidence: completed verification produced no records''
          [''PHASE9_STATE=COMPLETED'', ''EVIDENCE=none''] False [''no evidence records'']
      else
        (let open = claim_gates r @ module_gates r @ concat (map (delta_gates als) bs);
             gates = [''PHASE9_STATE=COMPLETED'', ''EVIDENCE='' @ str_int (int (length (vf_evidence r)))] @ map fst open;
             clean = list_all (\<lambda>m. mo_status m = MPassed \<or> mo_status m = MSkipped) (vf_modules r);
             contradiction_free = \<not> list_ex (\<lambda>(k, a). a \<in> {Contradicting, Conflicting}) (vf_claims r);
             authorized = list_all (change_authorized als) bs
         in if open \<noteq> [] then
              decision_of r RepairRequired (str_int (int (length open)) @
                '' gate(s) unresolved; candidate requires repair and re-verification before it may continue'') gates False (map snd open)
            else if clean \<and> contradiction_free \<and> authorized then
              decision_of r EligibleToContinue
                ''verification completed with no unresolved gates; candidate may continue to independent certification'' gates True []
            else
              decision_of r DecisionBlocked ''blocked: decision gates unresolved without a repair path'' (gates @ [''UNRESOLVED''])
                False [''unresolved gates'']))"

section \<open>The barrier (handoff.py)\<close>

datatype handoff_error = NotCompleted string | NoRunId | WrongCandidate string string

record handoff =
  ho_result :: verification_result
  ho_admitted :: string
  ho_allowed :: bool

text \<open>The contract of a result is a constant, so that the test of it never fails.\<close>

definition admit_verification_result ::
    "platform \<Rightarrow> verification_result \<Rightarrow> string option \<Rightarrow> world \<Rightarrow> (handoff_error + handoff) \<times> world" where
  "admit_verification_result p r admitted w =
     (if vf_state r \<noteq> ''COMPLETED'' then (Inl (NotCompleted (vf_state r)), w)
      else if vf_run r = [] then (Inl NoRunId, w)
      else (case admitted of
          Some (x # xs) \<Rightarrow> (Inr \<lparr>ho_result = r, ho_admitted = x # xs, ho_allowed = True\<rparr>, w)
        | _ \<Rightarrow> let (t, w') = now w in (Inr \<lparr>ho_result = r, ho_admitted = isoformat p t, ho_allowed = True\<rparr>, w')))"

definition evidence_record_ids :: "handoff \<Rightarrow> string list" where
  "evidence_record_ids h = map vr_id (vf_evidence (ho_result h))"

definition require_candidate_id :: "verification_result \<Rightarrow> string \<Rightarrow> handoff_error + unit" where
  "require_candidate_id r k = (if vf_candidate r \<noteq> k then Inl (WrongCandidate (vf_candidate r) k) else Inr ())"

section \<open>Lemmas\<close>

text \<open>The gates that are open, and when there are none.\<close>

lemma no_claim_gates: "claim_gates r = [] \<longleftrightarrow> (\<forall>(k, a)\<in>set (vf_claims r). a \<in> {Supporting, Insufficient})"
proof -
  have "a \<in> {Supporting, Insufficient} \<longleftrightarrow> a \<notin> {Contradicting, Conflicting}" for a by (cases a) auto
  then show ?thesis by (auto simp: claim_gates_def filter_empty_conv)
qed

lemma no_module_gates: "module_gates r = [] \<longleftrightarrow> (\<forall>m\<in>set (vf_modules r). mo_status m \<noteq> MFailed)"
  by (auto simp: module_gates_def filter_empty_conv)

lemma authorized_no_gates: "change_authorized als b \<Longrightarrow> delta_gates als b = []"
  by (auto simp: change_authorized_def delta_gates_def split: if_splits option.splits)

lemma allowed_iff:
  "dc_allow_merge (decide_certification r bs als) \<longleftrightarrow>
     vf_state r = ''COMPLETED'' \<and> vf_evidence r \<noteq> [] \<and>
     (\<forall>(k, a)\<in>set (vf_claims r). a \<in> {Supporting, Insufficient}) \<and>
     (\<forall>m\<in>set (vf_modules r). mo_status m \<in> {MPassed, MSkipped}) \<and> (\<forall>b\<in>set bs. change_authorized als b)"
  (is "?allow \<longleftrightarrow> ?A \<and> ?E \<and> ?C \<and> ?M \<and> ?B")
proof -
  define opened where "opened = claim_gates r @ module_gates r @ concat (map (delta_gates als) bs)"
  have "?allow \<longleftrightarrow> ?A \<and> ?E \<and> opened = [] \<and> ?M \<and> ?C \<and> ?B"
    unfolding no_claim_gates [symmetric]
    by (auto simp: decide_certification_def decision_of_def Let_def opened_def list_all_iff list_ex_iff claim_gates_def
        filter_empty_conv)
  moreover have "opened = []" if ?M ?C ?B
    using that authorized_no_gates by (auto simp: opened_def no_claim_gates no_module_gates)
  ultimately show ?thesis by blast
qed

lemma decision_codes: "dc_code (decide_certification r bs als) = EligibleToContinue \<longleftrightarrow> dc_allow_merge (decide_certification r bs als)"
  by (simp add: decide_certification_def decision_of_def Let_def)

text \<open>Alignments of deltas that are a function of their claim.\<close>

lemma alignment_lookup:
  assumes "b \<in> set bs" "\<And>x. x \<in> set bs \<Longrightarrow> bx_claim x = bx_claim b \<Longrightarrow> x = b"
  shows "alignment_by_claim (evaluate_intent_alignment p u5 bs items) (bx_claim b) = Some (align_delta p u5 items b)"
proof -
  have c: "al_claim (align_delta p u5 items x) = bx_claim x" for x
    by (simp add: align_delta_def alignment_of_def split: option.split)
  let ?m = "rev (map (\<lambda>a. (al_claim a, a)) (evaluate_intent_alignment p u5 bs items))"
  have "map_of ?m (bx_claim b) \<noteq> None"
    using assms(1) by (auto simp: map_of_eq_None_iff evaluate_intent_alignment_def c image_iff)
  then obtain a where a: "map_of ?m (bx_claim b) = Some a" by auto
  from map_of_SomeD [OF this] assms(2) have "a = align_delta p u5 items b"
    by (auto simp: evaluate_intent_alignment_def c)
  with a show ?thesis by (simp add: alignment_by_claim_def)
qed

lemma delta_of_claim [simp]: "bx_claim (delta_of u5 change patch r baseline candidates t k) = k"
  by (simp add: delta_of_def Let_def case_prod_unfold)

lemma delta_of_class [simp]:
  "bx_class (delta_of u5 change patch r baseline candidates t k) = fst (classify_delta r baseline candidates k)"
  by (simp add: delta_of_def Let_def case_prod_unfold)

lemma computed_deltas:
  "fst (compute_behavioral_deltas u5 change patch ids r baseline candidates w) =
   map (delta_of u5 change patch r baseline candidates (fst (now w))) (sort ids)"
  by (simp add: compute_behavioral_deltas_def Let_def case_prod_unfold)

lemma aligned_verdict:
  "bx_class b \<in> set CHANGED_CLASSIFICATIONS \<Longrightarrow>
   al_verdict (align_delta p u5 items b) = ''AUTHORIZED'' \<longleftrightarrow> first_matching_intent_item p (bx_claim b) items \<noteq> None"
  by (auto simp: align_delta_def alignment_of_def CHANGED_CLASSIFICATIONS_def split: option.split)

lemma deltas_authorized:
  assumes "bs = fst (compute_behavioral_deltas u5 change patch ids r baseline candidates w)"
  shows "(\<forall>b\<in>set bs. change_authorized (evaluate_intent_alignment p u5 bs items) b) \<longleftrightarrow>
    (\<forall>k\<in>set ids. let cls = fst (classify_delta r baseline candidates k) in
       cls \<noteq> ''UNEXPLAINED'' \<and> (cls \<in> set CHANGED_CLASSIFICATIONS \<longrightarrow> first_matching_intent_item p k items \<noteq> None))"
proof -
  define t where "t = fst (now w)"
  have bs: "bs = map (delta_of u5 change patch r baseline candidates t) (sort ids)"
    using assms by (simp add: computed_deltas t_def)
  have "change_authorized (evaluate_intent_alignment p u5 bs items) b \<longleftrightarrow>
      bx_class b \<noteq> ''UNEXPLAINED'' \<and>
      (bx_class b \<in> set CHANGED_CLASSIFICATIONS \<longrightarrow> first_matching_intent_item p (bx_claim b) items \<noteq> None)"
    if b: "b \<in> set bs" for b
  proof -
    have "alignment_by_claim (evaluate_intent_alignment p u5 bs items) (bx_claim b) = Some (align_delta p u5 items b)"
      using b bs by (intro alignment_lookup) auto
    then show ?thesis using aligned_verdict [of b p u5 items] by (simp add: change_authorized_def)
  qed
  then show ?thesis using bs by (simp add: Let_def)
qed

text \<open>A record keeps what its emission says.\<close>

lemma emitted_fields:
  "vr_exit (fst (collector_emit p run e d)) = em_exit e \<and> vr_severity (fst (collector_emit p run e d)) = em_severity e \<and>
   vr_claim (fst (collector_emit p run e d)) = em_claim e"
  by (simp add: collector_emit_def Let_def case_prod_unfold)

lemma emit_all_fields:
  "(j, x) \<in> set (fst (emit_all p run es d)) \<Longrightarrow>
   \<exists>e. (j, e) \<in> set es \<and> vr_exit x = em_exit e \<and> vr_severity x = em_severity e \<and> vr_claim x = em_claim e"
proof (induction p run es d rule: emit_all.induct)
  case (2 p run i e es d)
  then show ?case using emitted_fields [of p run e d]
    by (cases "collector_emit p run e d"; cases "emit_all p run es (snd (collector_emit p run e d))") (auto; blast)
qed simp

text \<open>The severities the modules give their emissions.\<close>

definition calm :: "module_run \<Rightarrow> bool" where
  "calm r \<longleftrightarrow> (\<forall>e\<in>set (md_emissions r). em_severity e = ''INFO'' \<or> em_severity e = ''HIGH'')"

lemma calm_record [simp]:
  "calm \<lparr>md_emissions = es, md_status = st, md_summary = t, md_findings = fs\<rparr> \<longleftrightarrow>
   (\<forall>e\<in>set es. em_severity e = ''INFO'' \<or> em_severity e = ''HIGH'')"
  by (simp add: calm_def)

lemma calm_settled [simp]: "pred_option calm (settled st t fs)"
  by (simp add: settled_def)

lemma calm_Some [simp]: "pred_option calm (Some r) = calm r" "pred_option calm None"
  by simp_all

lemma emission_severities [simp]:
  "em_severity (compile_emission ctx c n chk) = (if fst chk \<noteq> 0 then ''HIGH'' else ''INFO'')"
  "em_severity (scan_emission ctx c m) = ''HIGH''"
  "em_severity (probe_emission ctx c b pb x k) = (if probe_equal x k then ''INFO'' else ''HIGH'')"
  "em_severity (ghost_emission c g) = (if ghost_reproduced g then ''HIGH'' else ''INFO'')"
  "em_severity (check_emission c ck) = (if check_consistent ck then ''INFO'' else ''HIGH'')"
  "em_severity (case_emission ctx planted c a) = (if case_verdict planted a = HoleFound then ''HIGH'' else ''INFO'')"
  "em_severity (mutant_emission p ctx v c r) = (if mt_killed r then ''INFO'' else ''HIGH'')"
  by (simp_all add: compile_emission_def scan_emission_def probe_emission_def ghost_emission_def check_emission_def
      case_emission_def mutant_emission_def Let_def)

lemma calm_static: "pred_option calm (run_static_analysis l ctx)"
  unfolding run_static_analysis_def Let_def
  by (cases "cx_claims ctx"; cases "compile_check l (cx_candidate ctx)")
    (simp_all only: list.case option.case if_distrib [of "pred_option calm"] calm_settled calm_Some calm_record, simp_all)

lemma calm_differential: "pred_option calm (run_differential_execution p l ctx)"
  unfolding run_differential_execution_def Let_def
  by (simp split: list.split option.split if_split prod.split)

lemma calm_ghosts: "pred_option calm (run_historical_ghost_replay p l ctx)"
  unfolding run_historical_ghost_replay_def Let_def
  by (simp split: list.split option.split if_split)

lemma calm_checks: "pred_option calm (run_metamorphic_checks p l ctx)"
  unfolding run_metamorphic_checks_def Let_def
  by (simp split: list.split option.split if_split)

lemma calm_adversarial: "pred_option calm (run_adversarial_scenarios ctx)"
  unfolding run_adversarial_scenarios_def Let_def
  by (simp split: list.split)

lemma calm_mutations: "pred_option calm (run_mutation_testing p l ctx)"
  unfolding run_mutation_testing_def mutation_testing_def Let_def
  by (simp add: option.pred_map settled_def split: list.split option.split prod.split)

lemma module_severities:
  assumes "run_module p ctx l m = Some r" "e \<in> set (md_emissions r)"
  shows "em_severity e = ''INFO'' \<or> em_severity e = ''HIGH''"
proof -
  have "pred_option calm (run_module p ctx l m)"
    by (cases m) (simp_all add: calm_static calm_differential calm_ghosts calm_checks calm_adversarial calm_mutations)
  with assms show ?thesis by (simp add: calm_def)
qed

lemma wave_emission_of:
  assumes "run_modules p labs c = Some ms" "e \<in> set (wave_emissions ms)"
  obtains i k m where "run_module p (module_context_of c) (labs i) k = Some m" "e \<in> set (md_emissions m)"
proof -
  from assms(2) obtain m where m: "m \<in> set ms" "e \<in> set (md_emissions m)" by (auto simp: wave_emissions_def)
  with assms(1) have "Some m \<in> set (map (\<lambda>(i, k). run_module p (module_context_of c) (labs i) k) (enumerate 0 (rc_modules c)))"
    by (simp add: run_modules_def)
  then obtain i k where "run_module p (module_context_of c) (labs i) k = Some m" by (auto dest: sym)
  then show thesis using that m(2) by blast
qed

text \<open>The delta of a claim, from the emissions of the wave.\<close>

lemma keys_fold_update: "fst ` set (fold (\<lambda>x. AList.update (f x) x) xs al) = fst ` set al \<union> f ` set xs"
  by (induction xs arbitrary: al) auto

lemma values_fold_update: "snd ` set (fold (\<lambda>x. AList.update (f x) x) xs al) \<subseteq> snd ` set al \<union> set xs"
proof (induction xs arbitrary: al)
  case (Cons x xs)
  have "snd ` set (AList.update (f x) x al) \<subseteq> insert x (snd ` set al)"
    by (induction al) auto
  with Cons [of "AList.update (f x) x al"] show ?case by auto
qed simp

lemma fold_values_Nil:
  "map snd (fold (\<lambda>x. AList.update (f x) x) (filter P xs) []) = [] \<longleftrightarrow> (\<forall>x\<in>set xs. \<not> P x)"
proof -
  have "map snd (fold (\<lambda>x. AList.update (f x) x) (filter P xs) []) = [] \<longleftrightarrow>
      fst ` set (fold (\<lambda>x. AList.update (f x) x) (filter P xs) []) = {}"
    by simp
  also have "\<dots> \<longleftrightarrow> (\<forall>x\<in>set xs. \<not> P x)" unfolding keys_fold_update by auto
  finally show ?thesis .
qed

lemma claim_evidence_Nil:
  "claim_evidence r k = [] \<longleftrightarrow> (\<forall>x\<in>set (vf_evidence r @ concat (map mo_evidence (vf_modules r))). vr_claim x \<noteq> k)"
  unfolding claim_evidence_def by (rule fold_values_Nil)

lemma claim_evidence_subset:
  "set (claim_evidence r k) \<subseteq> set (vf_evidence r @ concat (map mo_evidence (vf_modules r)))"
  using values_fold_update [of vr_id "filter (\<lambda>x. vr_claim x = k) (vf_evidence r @ concat (map mo_evidence (vf_modules r)))" "[]"]
  by (auto simp: claim_evidence_def)

lemma quiet_severities: "upper ''INFO'' \<notin> set CRITICAL_SEVERITIES" "''HIGH'' \<in> set HIGH_SEVERITIES"
  by code_simp+

lemma wave_deltas:
  assumes wave: "run_verification_wave p labs schedule c d = Some (r, D)" and ms: "run_modules p labs c = Some ms"
  shows "vf_evidence r = [] \<longleftrightarrow> wave_emissions ms = []"
    and "claim_evidence r k = [] \<longleftrightarrow> wave_emissions ms = [] \<or> k \<noteq> hd (rc_claims c)"
    and "\<forall>e\<in>set (wave_emissions ms). emission_supports e \<Longrightarrow>
      \<not> list_ex (\<lambda>x. upper (vr_severity x) \<in> set CRITICAL_SEVERITIES \<or> vr_exit x \<noteq> 0) (claim_evidence r k)"
proof -
  obtain ms' es run d0 where w:
      "run_modules p labs c = Some ms'" "mset (map snd es) = mset (wave_emissions ms')"
      "vf_evidence r = map snd (fst (emit_all p run es d0))"
      "map mo_status (vf_modules r) = map md_status ms'"
      "\<forall>m\<in>set (vf_modules r). set (mo_evidence m) \<subseteq> set (vf_evidence r)" "vf_state r = wave_state ms'"
      "vf_claims r = map (\<lambda>k. (k, club_verdict (club (vf_evidence r) k))) (club_keys (vf_evidence r) (rc_claims c))"
      "vf_run r = run"
    by (rule wave_parts [OF wave])
  with ms have w2: "mset (map snd es) = mset (wave_emissions ms)" by simp
  have set: "snd ` set es = set (wave_emissions ms)" using w2 by (metis set_map set_mset_mset)
  have "length (vf_evidence r) = length (wave_emissions ms)"
    using emit_all_length [of p run es d0] w(3) arg_cong [OF w2, of size] by simp
  then show none: "vf_evidence r = [] \<longleftrightarrow> wave_emissions ms = []" by auto
  have all: "set (vf_evidence r @ concat (map mo_evidence (vf_modules r))) = set (vf_evidence r)"
    using w(5) by auto
  have rec: "\<exists>e\<in>set (wave_emissions ms). vr_exit x = em_exit e \<and> vr_severity x = em_severity e \<and> vr_claim x = em_claim e"
    if "x \<in> set (vf_evidence r)" for x
    using that emit_all_fields [of _ x p run es d0] unfolding w(3) set [symmetric] by force
  have claim: "vr_claim x = hd (rc_claims c)" if "x \<in> set (vf_evidence r)" for x
    using rec [OF that] run_modules_claims [OF ms] by (auto simp: wave_emissions_def)
  then show "claim_evidence r k = [] \<longleftrightarrow> wave_emissions ms = [] \<or> k \<noteq> hd (rc_claims c)"
    unfolding claim_evidence_Nil all none [symmetric] by (cases "vf_evidence r") auto
  show "\<not> list_ex (\<lambda>x. upper (vr_severity x) \<in> set CRITICAL_SEVERITIES \<or> vr_exit x \<noteq> 0) (claim_evidence r k)"
    if ok: "\<forall>e\<in>set (wave_emissions ms). emission_supports e"
  proof -
    have "upper (vr_severity x) \<notin> set CRITICAL_SEVERITIES \<and> vr_exit x = 0" if "x \<in> set (claim_evidence r k)" for x
    proof -
      from that claim_evidence_subset [of r k] all have "x \<in> set (vf_evidence r)" by auto
      from rec [OF this] obtain e where e: "e \<in> set (wave_emissions ms)" "vr_exit x = em_exit e" "vr_severity x = em_severity e"
        by blast
      obtain i m l where "run_module p (module_context_of c) (labs i) l = Some m" "e \<in> set (md_emissions m)"
        by (rule wave_emission_of [OF ms e(1)])
      from module_severities [OF this] ok e quiet_severities show ?thesis by (auto simp: emission_supports_def)
    qed
    then show ?thesis by (auto simp: list_ex_iff)
  qed
qed

text \<open>What the decision looks at, in a wave: the claims, the class of the delta of each.\<close>

lemma judged_claims:
  assumes "run_verification_wave p labs schedule c d = Some (r, D)" "run_modules p labs c = Some ms" "wave_emissions ms \<noteq> []"
  shows "rc_claims c \<noteq> []"
    and "(\<forall>(k, v)\<in>set (vf_claims r). v \<in> {Supporting, Insufficient}) \<longleftrightarrow> (\<forall>e\<in>set (wave_emissions ms). emission_supports e)"
proof -
  let ?E = "wave_emissions ms"
  have claims: "vf_claims r = map (\<lambda>k. (k, if k = hd (rc_claims c) then judgement (set ?E) else Insufficient)) (dedup (rc_claims c))"
    using wave_judged [OF assms(1)] assms(2) by auto
  from assms(3) obtain e where "e \<in> set ?E" by (cases ?E) auto
  with run_modules_claims [OF assms(2)] show "rc_claims c \<noteq> []" by (auto simp: wave_emissions_def)
  then have "hd (rc_claims c) \<in> set (rc_claims c)" by simp
  moreover have "judgement (set ?E) \<in> {Supporting, Insufficient} \<longleftrightarrow> (\<forall>e\<in>set ?E. emission_supports e)"
    using assms(3) by (auto simp: judgement_def)
  ultimately show "(\<forall>(k, v)\<in>set (vf_claims r). v \<in> {Supporting, Insufficient}) \<longleftrightarrow> (\<forall>e\<in>set ?E. emission_supports e)"
    unfolding claims by auto
qed

lemma supported_class:
  assumes wave: "run_verification_wave p labs schedule c d = Some (r, D)" and ms: "run_modules p labs c = Some ms"
    and E: "wave_emissions ms \<noteq> []" "\<forall>e\<in>set (wave_emissions ms). emission_supports e" and k: "k = hd (rc_claims c)"
  shows "fst (classify_delta r baseline candidates k) =
    (if k \<in> set candidates \<and> k \<notin> set baseline then ''ADDED''
     else if k \<in> set baseline \<and> k \<notin> set candidates then ''REMOVED'' else ''UNCHANGED'')"
proof -
  have claims: "vf_claims r = map (\<lambda>k. (k, if k = hd (rc_claims c) then judgement (set (wave_emissions ms)) else Insufficient))
      (dedup (rc_claims c))"
    using wave_judged [OF wave] ms by auto
  have "judgement (set (wave_emissions ms)) = Supporting" using E by (simp add: judgement_def)
  with k have "claim_assessment_of r k \<in> {None, Some Supporting}"
    by (cases "claim_assessment_of r k") (auto simp: claim_assessment_of_def claims dest!: map_of_SomeD)
  then have "\<not> is_contradicting r k (claim_evidence r k)"
    using wave_deltas(3) [OF wave ms E(2)] by (auto simp: is_contradicting_def CONTRADICTING_ASSESSMENTS_def)
  then show ?thesis using wave_deltas(2) [OF wave ms, of k] E(1) k by (simp add: classify_delta_def Let_def)
qed

lemma unexplained_class:
  assumes "run_verification_wave p labs schedule c d = Some (r, D)" "run_modules p labs c = Some ms" "k \<noteq> hd (rc_claims c)"
  shows "fst (classify_delta r baseline candidates k) = ''UNEXPLAINED''"
  using wave_deltas(2) [OF assms(1,2), of k] assms(3) by (simp add: classify_delta_def Let_def)

text \<open>
  C5. A candidate may be merged exactly when its wave was perfect, and only for one claim: deciding over the
  deltas and alignments of the claims of a wave allows the merge exactly when the wave was run for a single
  claim, produced evidence, every emission supports, every module passed or was skipped, and, where the
  claim is new or gone, an item of the intent mentions it. Neither an authorized alteration nor a second
  claim ever gets through.
\<close>

theorem pipeline_merges_exactly:
  assumes wave: "run_verification_wave p labs schedule c d = Some (r, D)" and ms: "run_modules p labs c = Some ms"
    and bs: "bs = fst (compute_behavioral_deltas u5 change patch (rc_claims c) r baseline candidates w)"
  shows "dc_allow_merge (decide_certification r bs (evaluate_intent_alignment p u5 bs items)) \<longleftrightarrow>
    (\<exists>k. set (rc_claims c) = {k} \<and> wave_emissions ms \<noteq> [] \<and> (\<forall>e\<in>set (wave_emissions ms). emission_supports e) \<and>
      set (map md_status ms) \<subseteq> {MPassed, MSkipped} \<and>
      ((k \<in> set baseline) = (k \<in> set candidates) \<or> first_matching_intent_item p k items \<noteq> None))"
proof -
  let ?E = "wave_emissions ms" and ?a = "hd (rc_claims c)" and ?cls = "\<lambda>k. fst (classify_delta r baseline candidates k)"
  let ?explained = "\<forall>k\<in>set (rc_claims c). let cls = ?cls k in cls \<noteq> ''UNEXPLAINED'' \<and>
      (cls \<in> set CHANGED_CLASSIFICATIONS \<longrightarrow> first_matching_intent_item p k items \<noteq> None)"
    and ?intended = "\<lambda>k. (k \<in> set baseline) = (k \<in> set candidates) \<or> first_matching_intent_item p k items \<noteq> None"
  have st: "map mo_status (vf_modules r) = map md_status ms" "vf_state r = wave_state ms"
    using wave_judged [OF wave] ms by auto
  have statuses: "(\<forall>m\<in>set (vf_modules r). mo_status m \<in> {MPassed, MSkipped}) \<longleftrightarrow> set (map md_status ms) \<subseteq> {MPassed, MSkipped}"
    unfolding st(1) [symmetric] by auto
  have state: "vf_state r = ''COMPLETED'' \<longleftrightarrow> MBlocked \<notin> set (map md_status ms) \<and> ?E \<noteq> []"
    unfolding st(2) wave_state_def by simp
  note claims = judged_claims [OF wave ms] and cls = supported_class [OF wave ms]
  have explained: "?explained \<longleftrightarrow> set (rc_claims c) = {?a} \<and> ?intended ?a"
    if "?E \<noteq> []" "\<forall>e\<in>set ?E. emission_supports e"
  proof -
    have one: "?explained \<Longrightarrow> set (rc_claims c) = {?a}"
      using unexplained_class [OF wave ms] claims(1) [OF that(1)] by (auto simp: Let_def)
    have "(let cls = ?cls ?a in cls \<noteq> ''UNEXPLAINED'' \<and>
        (cls \<in> set CHANGED_CLASSIFICATIONS \<longrightarrow> first_matching_intent_item p ?a items \<noteq> None)) \<longleftrightarrow> ?intended ?a"
      unfolding cls [OF that refl] by (simp add: Let_def CHANGED_CLASSIFICATIONS_def) blast
    then have "set (rc_claims c) = {?a} \<Longrightarrow> ?explained \<longleftrightarrow> ?intended ?a" by simp
    with one show ?thesis by blast
  qed
  have single: "k = ?a" if "set (rc_claims c) = {k}" for k
    using that by (cases "rc_claims c") auto
  have "dc_allow_merge (decide_certification r bs (evaluate_intent_alignment p u5 bs items)) \<longleftrightarrow>
      ?E \<noteq> [] \<and> (\<forall>e\<in>set ?E. emission_supports e) \<and> set (map md_status ms) \<subseteq> {MPassed, MSkipped} \<and>
      set (rc_claims c) = {?a} \<and> ?intended ?a"
    unfolding allowed_iff deltas_authorized [OF bs] statuses state wave_deltas(1) [OF wave ms]
    using claims(2) explained by blast
  also have "\<dots> \<longleftrightarrow> (\<exists>k. set (rc_claims c) = {k} \<and> ?E \<noteq> [] \<and> (\<forall>e\<in>set ?E. emission_supports e) \<and>
      set (map md_status ms) \<subseteq> {MPassed, MSkipped} \<and> ?intended k)"
    using single by blast
  finally show ?thesis .
qed

text \<open>
  The decision is exact: it allows the merge, and only then calls the candidate eligible, exactly when the
  wave is COMPLETED with evidence, no claim is contradicted, every module passed or was skipped, no delta is
  unexplained and every change has an alignment that authorizes it; a wave that is not COMPLETED blocks.
\<close>

theorem decision_exact:
  "(dc_code (decide_certification r bs als) = EligibleToContinue \<longleftrightarrow> dc_allow_merge (decide_certification r bs als)) \<and>
   (dc_allow_merge (decide_certification r bs als) \<longleftrightarrow>
     vf_state r = ''COMPLETED'' \<and> vf_evidence r \<noteq> [] \<and>
     (\<forall>(k, a)\<in>set (vf_claims r). a \<in> {Supporting, Insufficient}) \<and>
     (\<forall>m\<in>set (vf_modules r). mo_status m \<in> {MPassed, MSkipped}) \<and>
     (\<forall>b\<in>set bs. bx_class b \<noteq> ''UNEXPLAINED'' \<and>
       (bx_class b \<in> {''ALTERED'', ''ADDED'', ''REMOVED''} \<longrightarrow>
         (\<exists>a. alignment_by_claim als (bx_claim b) = Some a \<and> al_verdict a = ''AUTHORIZED'')))) \<and>
   (vf_state r \<noteq> ''COMPLETED'' \<longrightarrow> dc_code (decide_certification r bs als) = DecisionBlocked)"
proof -
  have "change_authorized als b \<longleftrightarrow> bx_class b \<noteq> ''UNEXPLAINED'' \<and>
      (bx_class b \<in> {''ALTERED'', ''ADDED'', ''REMOVED''} \<longrightarrow>
        (\<exists>a. alignment_by_claim als (bx_claim b) = Some a \<and> al_verdict a = ''AUTHORIZED''))" for b
    by (auto simp: change_authorized_def CHANGED_CLASSIFICATIONS_def split: option.split)
  moreover have "dc_code (decide_certification r bs als) = DecisionBlocked" if "vf_state r \<noteq> ''COMPLETED''"
    using that by (simp add: decide_certification_def decision_of_def)
  ultimately show ?thesis unfolding decision_codes allowed_iff by blast
qed

section \<open>Concrete decisions\<close>

text \<open>The candidate of the demonstration is merged when it is verified for one claim, and never for two.\<close>

definition demo_deltas :: "string list \<Rightarrow> verification_result \<Rightarrow> delta_record list" where
  "demo_deltas ks r = fst (compute_behavioral_deltas (\<lambda>n s. n @ s) ''change'' ''patch'' ks r [] [''k1''] demo_host)"

definition demo_intent :: "ledger_item list" where
  "demo_intent = [[(''id'', PStr ''i1''), (''kind'', PStr ''REQUIREMENT''), (''statement'', PStr ''K1 is new'')]]"

lemma demo_single:
  "map_option (\<lambda>ms. (map md_status ms, length (wave_emissions ms), list_all emission_supports (wave_emissions ms)))
     (run_modules demo_platform (\<lambda>_. demo_lab) (demo_config [''k1''])) =
   Some ([MPassed, MPassed, MSkipped, MSkipped, MPassed, MPassed], 25, True)"
  "first_matching_intent_item demo_platform ''k1'' demo_intent \<noteq> None"
  by code_simp+

theorem pipeline_merges_exactly_witness:
  "(\<exists>r D. run_verification_wave demo_platform (\<lambda>_. demo_lab) [] (demo_config [''k1'']) (empty_db demo_host) = Some (r, D) \<and>
     dc_allow_merge (decide_certification r (demo_deltas [''k1''] r)
       (evaluate_intent_alignment demo_platform (\<lambda>n s. n @ s) (demo_deltas [''k1''] r) demo_intent))) \<and>
   (\<exists>r D. run_verification_wave demo_platform (\<lambda>_. demo_lab) [4, 0, 4] (demo_config [''k1'', ''k2'']) (empty_db demo_host) = Some (r, D) \<and>
     \<not> dc_allow_merge (decide_certification r (demo_deltas [''k1'', ''k2''] r)
       (evaluate_intent_alignment demo_platform (\<lambda>n s. n @ s) (demo_deltas [''k1'', ''k2''] r) demo_intent)))"
proof
  obtain ms where ms: "run_modules demo_platform (\<lambda>_. demo_lab) (demo_config [''k1'']) = Some ms"
      "map md_status ms = [MPassed, MPassed, MSkipped, MSkipped, MPassed, MPassed]" "length (wave_emissions ms) = 25"
      "list_all emission_supports (wave_emissions ms)"
    using demo_single(1) by auto
  obtain r D where r: "run_verification_wave demo_platform (\<lambda>_. demo_lab) [] (demo_config [''k1'']) (empty_db demo_host) = Some (r, D)"
    using wave_returns [OF ms(1)] by metis
  have "demo_deltas [''k1''] r = fst (compute_behavioral_deltas (\<lambda>n s. n @ s) ''change'' ''patch''
      (rc_claims (demo_config [''k1''])) r [] [''k1''] demo_host)"
    by (simp add: demo_deltas_def demo_config_def)
  from pipeline_merges_exactly [OF r ms(1) this, of demo_intent] ms(2-4) demo_single(2)
  have "dc_allow_merge (decide_certification r (demo_deltas [''k1''] r)
      (evaluate_intent_alignment demo_platform (\<lambda>n s. n @ s) (demo_deltas [''k1''] r) demo_intent))"
    by (auto simp: demo_config_def list_all_iff)
  with r show "\<exists>r D. run_verification_wave demo_platform (\<lambda>_. demo_lab) [] (demo_config [''k1'']) (empty_db demo_host) = Some (r, D) \<and>
     dc_allow_merge (decide_certification r (demo_deltas [''k1''] r)
       (evaluate_intent_alignment demo_platform (\<lambda>n s. n @ s) (demo_deltas [''k1''] r) demo_intent))" by blast
next
  obtain ms r D where w: "run_modules demo_platform (\<lambda>_. demo_lab) (demo_config [''k1'', ''k2'']) = Some ms"
    "run_verification_wave demo_platform (\<lambda>_. demo_lab) [4, 0, 4] (demo_config [''k1'', ''k2'']) (empty_db demo_host) = Some (r, D)"
    "judgement (set (wave_emissions ms)) = Supporting" "wave_state ms = ''COMPLETED''"
    "map md_status ms = [MPassed, MPassed, MSkipped, MSkipped, MPassed, MPassed]"
    by (rule demo_wave)
  have "demo_deltas [''k1'', ''k2''] r = fst (compute_behavioral_deltas (\<lambda>n s. n @ s) ''change'' ''patch''
      (rc_claims (demo_config [''k1'', ''k2''])) r [] [''k1''] demo_host)"
    by (simp add: demo_deltas_def demo_config_def)
  from pipeline_merges_exactly [OF w(2,1) this, of demo_intent]
  have "\<not> dc_allow_merge (decide_certification r (demo_deltas [''k1'', ''k2''] r)
      (evaluate_intent_alignment demo_platform (\<lambda>n s. n @ s) (demo_deltas [''k1'', ''k2''] r) demo_intent))"
    by (auto simp: demo_config_def)
  with w(2) show "\<exists>r D. run_verification_wave demo_platform (\<lambda>_. demo_lab) [4, 0, 4] (demo_config [''k1'', ''k2'']) (empty_db demo_host) = Some (r, D) \<and>
     \<not> dc_allow_merge (decide_certification r (demo_deltas [''k1'', ''k2''] r)
       (evaluate_intent_alignment demo_platform (\<lambda>n s. n @ s) (demo_deltas [''k1'', ''k2''] r) demo_intent))" by blast
qed

text \<open>A completed result without modules, with one record and nothing changed, is eligible.\<close>

definition plain_result :: verification_result where
  "plain_result =
     \<lparr>vf_candidate = ''cand'', vf_plan = ''plan'', vf_plan_version = 1, vf_run = ''run'', vf_change = ''change'', vf_task = ''task'',
      vf_modules = [], vf_evidence = [\<lparr>vr_type = ''STATIC_ANALYSIS'', vr_claim = ''k'', vr_source = ''s'', vr_provenance = ''p'',
        vr_artifact = [], vr_result = [], vr_exit = 0, vr_severity = ''INFO'', vr_timestamp = 0, vr_id = ''e'', vr_status = ''ELIGIBLE''\<rparr>],
      vf_claims = [(''k'', Supporting)], vf_contradictions = [], vf_state = ''COMPLETED'', vf_summary = [], vf_timestamp = 0\<rparr>"

theorem decision_exact_witness:
  "dc_code (decide_certification plain_result [] []) = EligibleToContinue \<and>
   dc_code (decide_certification (plain_result\<lparr>vf_state := ''BLOCKED''\<rparr>) [] []) = DecisionBlocked"
  using decision_exact [of plain_result "[]" "[]"] decision_exact [of "plain_result\<lparr>vf_state := ''BLOCKED''\<rparr>" "[]" "[]"]
  by (simp add: plain_result_def)

end
