(* ===== verification/Repairs.thy ===== *)
theory Repairs
  imports Delta Loop_Bounds
begin

text \<open>
  The repair package (\<open>repair.py\<close>) and the repair loop (\<open>repair_loop.py\<close>) of \<open>smorx_delta\<close>. The loop runs
  under the controller of \<^theory_text>\<open>Loop_Bounds\<close>; a session, when there is one, is the database, else only its host
  is read. The dash U+2014 of the messages is written \<open>--\<close>.
\<close>

section \<open>The package (repair.py)\<close>

record package_record =
  pk_id :: string
  pk_failure :: string
  pk_expected :: string
  pk_observed :: string
  pk_claim :: string
  pk_outcome :: string
  pk_created :: int
  pk_version :: string
  pk_evidence :: "string list"
  pk_path :: string
  pk_criteria :: "string list"
  pk_constraints :: "string list"

datatype plan_fault = NoEvidence | NoOutcome | NoClaim

definition uuid_hex :: "string \<Rightarrow> string" where
  "uuid_hex u = filter (\<lambda>c. c \<noteq> CHR ''-'') u"

definition build_repair_package ::
    "string \<Rightarrow> string \<Rightarrow> string \<Rightarrow> string \<Rightarrow> string list \<Rightarrow> string \<Rightarrow> string \<Rightarrow> string list \<Rightarrow> string list \<Rightarrow> world \<Rightarrow>
     (plan_fault + package_record) \<times> world" where
  "build_repair_package failure k expected observed ids outcome path criteria limits w =
     (if ids = [] then (Inl NoEvidence, w)
      else if outcome = [] then (Inl NoOutcome, w)
      else if k = [] then (Inl NoClaim, w)
      else let (t, w1) = now w; (u, w2) = uuid4 w1 in
        (Inr \<lparr>pk_id = uuid_hex u, pk_failure = failure, pk_expected = expected, pk_observed = observed, pk_claim = k,
           pk_outcome = outcome, pk_created = t, pk_version = ''1.0.0'', pk_evidence = ids, pk_path = path,
           pk_criteria = criteria, pk_constraints = limits\<rparr>, w2))"

section \<open>The loop (repair_loop.py)\<close>

record repair_iteration =
  it_number :: int
  it_repair :: package_record
  it_candidate :: int
  it_status :: string
  it_started :: int
  it_finished :: int
  it_outcome :: string
  it_notes :: string

record repair_result =
  rz_decision :: string
  rz_patch :: string
  rz_iterations :: "repair_iteration list"
  rz_continue :: bool
  rz_blocked :: string

datatype repair_error = PlanFault plan_fault | BadIdentifier string

text \<open>The first delta and the first alignment of a claim count; the claims of the deltas come first.\<close>

definition first_delta :: "delta_record list \<Rightarrow> string \<Rightarrow> delta_record option" where
  "first_delta bs k = find (\<lambda>b. bx_claim b = k) bs"

definition first_alignment :: "alignment_record list \<Rightarrow> string \<Rightarrow> alignment_record option" where
  "first_alignment als k = find (\<lambda>a. al_claim a = k) als"

definition needs_repair ::
    "delta_record list \<Rightarrow> alignment_record list \<Rightarrow> (string \<times> claim_assessment) list \<Rightarrow> string \<Rightarrow> bool" where
  "needs_repair bs als verdicts k \<longleftrightarrow>
     (case first_delta bs k of None \<Rightarrow> False | Some b \<Rightarrow> bx_authorized b = Some False \<or> bx_alignment b = ''PENDING'') \<or>
     (case first_alignment als k of None \<Rightarrow> False | Some a \<Rightarrow> al_status a = ''PENDING'') \<or>
     map_of verdicts k = Some Contradicting"

definition find_affected_claim ::
    "delta_record list \<Rightarrow> alignment_record list \<Rightarrow> (string \<times> claim_assessment) list \<Rightarrow> string option" where
  "find_affected_claim bs als verdicts = find (needs_repair bs als verdicts) (dedup (map bx_claim bs @ map al_claim als))"

definition gather_evidence_ids :: "verification_result \<Rightarrow> string \<Rightarrow> string list" where
  "gather_evidence_ids r k = map vr_id (filter (\<lambda>x. vr_claim x = k) (vf_evidence r))"

definition expected_text :: "string \<Rightarrow> contradiction option \<Rightarrow> string" where
  "expected_text k n =
     (case n of
        Some x \<Rightarrow> if cn_supporting x = [] then ''protected behavior must be preserved''
          else ''expected behavior must satisfy claim '' @ k @ ''; supporting types: '' @ join '', '' (cn_supporting x)
      | None \<Rightarrow> ''protected behavior must be preserved'')"

definition observed_parts :: "contradiction \<Rightarrow> string list" where
  "observed_parts x =
     (if cn_contradicting x = [] then [] else [''contradicting types: '' @ join '', '' (cn_contradicting x)])
     @ (if cn_detail x = [] then [] else [cn_detail x])"

definition observed_text :: "string \<Rightarrow> contradiction option \<Rightarrow> string" where
  "observed_text k n =
     (case n of
        Some x \<Rightarrow> if observed_parts x = [] then ''verification detected contradicting evidence''
          else ''claim '' @ k @ '' -- '' @ join ''; '' (observed_parts x)
      | None \<Rightarrow> ''verification detected contradicting evidence'')"

definition derive_repair_text :: "string \<Rightarrow> verification_result \<Rightarrow> string \<times> string" where
  "derive_repair_text k r =
     (let n = find (\<lambda>x. cn_claim x = k) (vf_contradictions r) in (expected_text k n, observed_text k n))"

definition UNAUTHORIZED_OUTCOME :: string where
  "UNAUTHORIZED_OUTCOME =
     ''candidate patches must be re-verified; no repeat of the observed divergence is acceptable''"

text \<open>A step that reads the host only.\<close>

definition on_host :: "(world \<Rightarrow> 'a \<times> world) \<Rightarrow> db \<Rightarrow> 'a \<times> db" where
  "on_host f d = (let (x, w) = f (host d) in (x, d\<lparr>host := w\<rparr>))"

definition add_candidate :: "string \<Rightarrow> string \<Rightarrow> package_record \<Rightarrow> int \<Rightarrow> db \<Rightarrow> string \<times> db" where
  "add_candidate change task pkg n d =
     (let (u, d1) = db_uuid d; (t, d2) = db_now d1
      in (u, d2\<lparr>patches := patches d2 @ [\<lparr>cp_id = u, cp_change = change, cp_task = task, cp_index = n + 1, cp_status = ''PROPOSED'',
           cp_patch_ref = Some (''repair_loop:'' @ str_int n), cp_summary = Some (pk_expected pkg), cp_created = t\<rparr>]\<rparr>))"

definition add_package :: "platform \<Rightarrow> string \<Rightarrow> string \<Rightarrow> package_record \<Rightarrow> int \<Rightarrow> db \<Rightarrow> db" where
  "add_package p task candidate pkg n d =
     (let (fin, d1) = db_now d; (u, d2) = db_uuid d1; (t, d3) = db_now d2
      in d3\<lparr>repairs := repairs d3 @ [\<lparr>rp_id = u, rp_task = Some task, rp_failure = parse_uuid p (pk_failure pkg), rp_patch = Some candidate,
           rp_evidence = (case pk_evidence pkg of [] \<Rightarrow> None | x # _ \<Rightarrow> parse_uuid p x), rp_attempt = n, rp_iteration = n,
           rp_description = Some (pk_observed pkg), rp_patch_ref = Some (''repair_loop:'' @ str_int n), rp_status = ''CREATED'',
           rp_started = Some (pk_created pkg), rp_finished = Some fin, rp_created = t\<rparr>]\<rparr>)"

definition persist_repair_package ::
    "platform \<Rightarrow> package_record \<Rightarrow> string \<Rightarrow> string \<Rightarrow> int \<Rightarrow> db \<Rightarrow> (repair_error + unit) \<times> db" where
  "persist_repair_package p pkg task change n d =
     (case parse_uuid p change of None \<Rightarrow> (Inl (BadIdentifier change), d)
      | Some ch \<Rightarrow> (case parse_uuid p task of None \<Rightarrow> (Inl (BadIdentifier task), d)
          | Some tk \<Rightarrow> let (u, d1) = add_candidate ch tk pkg n d in (Inr (), add_package p tk u pkg n d1)))"

text \<open>What does not change while the loop runs.\<close>

record repair_input =
  ri_change :: string
  ri_task :: string
  ri_result :: verification_result
  ri_deltas :: "delta_record list"
  ri_alignments :: "alignment_record list"
  ri_session :: bool

definition repair_signature :: "string \<Rightarrow> string list \<Rightarrow> string \<Rightarrow> string" where
  "repair_signature k ids observed = k @ '':'' @ str_int (int (length ids)) @ '':'' @ observed"

datatype repair_step =
    Stopped string
  | Failed repair_error
  | Structured repair_iteration bool controller

text \<open>One attempt: the checks, the package, the counters, the rows. The flag says that no progress was made.\<close>

definition structure_repair ::
    "platform \<Rightarrow> repair_input \<Rightarrow> string \<Rightarrow> string list \<Rightarrow> int \<Rightarrow> controller \<Rightarrow> db \<Rightarrow> repair_step \<times> db" where
  "structure_repair p i k ids started c d =
     (let (expected, observed) = derive_repair_text k (ri_result i);
          (pkg, d1) = on_host (build_repair_package (''F-'' @ k) k expected observed ids UNAUTHORIZED_OUTCOME [] [] []) d
      in case pkg of Inl e \<Rightarrow> (Failed (PlanFault e), d1)
         | Inr pk \<Rightarrow>
             let (stuck, c1) = record_execution_signature (repair_signature k ids observed) (bump_repairs c);
                 c2 = bump_iteration c1; n = lc_iteration c2;
                 (fin, d2) = on_host now d1;
                 (saved, d3) = (if ri_session i then persist_repair_package p pk (ri_task i) (ri_change i) n d2 else (Inr (), d2))
             in case saved of Inl e \<Rightarrow> (Failed e, d3)
                | Inr _ \<Rightarrow>
                    (Structured \<lparr>it_number = n, it_repair = pk, it_candidate = n + 1, it_status = ''CREATED'', it_started = started,
                       it_finished = fin, it_outcome = (if stuck then ''NO_PROGRESS'' else ''PROCEED''),
                       it_notes = (if stuck then ''no-progress detected; identical repair signature repeated''
                         else ''repair candidate structured; re-verification is Phase 11'' @ [CHR 0x27] @ ''s responsibility'')\<rparr>
                       stuck c2, d3))"

definition repair_attempt :: "platform \<Rightarrow> repair_input \<Rightarrow> controller \<Rightarrow> db \<Rightarrow> repair_step \<times> db" where
  "repair_attempt p i c d =
     (case on_host (check_bounds c) d of
        (Inl e, d1) \<Rightarrow> (Stopped (''loop bound exhausted: '' @ be_bound e @ '' -- '' @ be_message e), d1)
      | (Inr _, d1) \<Rightarrow>
          (let (started, d2) = on_host now d1 in
           case find_affected_claim (ri_deltas i) (ri_alignments i) (vf_claims (ri_result i)) of
             None \<Rightarrow> (Stopped ''no unauthorized or contradicting claims found; nothing to repair'', d2)
           | Some k \<Rightarrow>
               let ids = gather_evidence_ids (ri_result i) k in
               if ids = [] then
                 (Stopped (''no verification evidence for affected claim '' @ k @
                    ''; repair package schema requires minItems 1 evidence_ids''), d2)
               else structure_repair p i k ids started c d2))"

definition no_progress_reason :: "repair_iteration \<Rightarrow> string" where
  "no_progress_reason t =
     ''no-progress threshold reached at iteration '' @ str_int (it_number t) @ ''; repair signatures are materially equivalent''"

text \<open>\<open>for _attempt in range(1, max_iterations + 1)\<close>: the iterations done, and why the loop stopped early.\<close>

fun repair_attempts ::
    "platform \<Rightarrow> repair_input \<Rightarrow> nat \<Rightarrow> controller \<Rightarrow> db \<Rightarrow> (repair_error + repair_iteration list \<times> string) \<times> db" where
  "repair_attempts p i 0 c d = (Inr ([], []), d)"
| "repair_attempts p i (Suc n) c d =
     (case repair_attempt p i c d of
        (Stopped reason, d1) \<Rightarrow> (Inr ([], reason), d1)
      | (Failed e, d1) \<Rightarrow> (Inl e, d1)
      | (Structured t stuck c1, d1) \<Rightarrow>
          if stuck then (Inr ([t], no_progress_reason t), d1)
          else (case repair_attempts p i n c1 d1 of
              (Inl e, d2) \<Rightarrow> (Inl e, d2)
            | (Inr (ts, reason), d2) \<Rightarrow> (Inr (t # ts, reason), d2)))"

definition run_repair_loop ::
    "platform \<Rightarrow> certification_decision \<Rightarrow> string \<Rightarrow> repair_input \<Rightarrow> loop_bounds option \<Rightarrow> db \<Rightarrow>
     (repair_error + repair_result) \<times> db" where
  "run_repair_loop p decision patch i bounds d =
     (if dc_code decision \<noteq> RepairRequired then
        (Inr \<lparr>rz_decision = decision_value (dc_code decision), rz_patch = patch, rz_iterations = [], rz_continue = False,
           rz_blocked = ''repair loop requires a REPAIR_REQUIRED certification decision''\<rparr>, d)
      else
        (let b = (case bounds of None \<Rightarrow> default_bounds | Some b \<Rightarrow> b);
             (c, d1) = on_host (new_controller b) d
         in case repair_attempts p i (nat (lb_max_iterations b)) c d1 of
              (Inl e, d2) \<Rightarrow> (Inl e, d2)
            | (Inr (ts, reason), d2) \<Rightarrow>
                (Inr \<lparr>rz_decision = decision_value (dc_code decision), rz_patch = patch, rz_iterations = ts,
                   rz_continue = (ts \<noteq> []), rz_blocked = reason\<rparr>, d2)))"

section \<open>Lemmas\<close>

lemma on_host_fst [simp]: "fst (on_host f d) = fst (f (host d))"
  by (simp add: on_host_def case_prod_unfold Let_def)

text \<open>A controller that has seen one signature only reports it exactly when it is full.\<close>

lemma dedup_replicate [simp]: "dedup (replicate n x) = (if n = 0 then [] else [x])"
  by (induction n) auto

lemma repeated_signature:
  assumes "lc_recent_signatures c = replicate j s" "T = nat (max 1 (lb_no_progress_threshold (lc_bounds c)))" "j < T"
  shows "fst (record_execution_signature s c) \<longleftrightarrow> Suc j = T"
    and "Suc j \<noteq> T \<Longrightarrow> lc_recent_signatures (snd (record_execution_signature s c)) = replicate (Suc j) s"
proof -
  have recents: "lc_recent_signatures c @ [s] = replicate (Suc j) s"
    using assms(1) by (simp add: replicate_append_same)
  have "T \<noteq> 0" using assms(3) by simp
  then show "fst (record_execution_signature s c) \<longleftrightarrow> Suc j = T"
    using assms(3) unfolding record_execution_signature_def recents assms(2) [symmetric] Let_def by auto
  show "Suc j \<noteq> T \<Longrightarrow> lc_recent_signatures (snd (record_execution_signature s c)) = replicate (Suc j) s"
    using assms(3) unfolding record_execution_signature_def recents assms(2) [symmetric] Let_def by auto
qed

text \<open>What one attempt structures, and that it cannot fail on sound identifiers.\<close>

definition sound_identifiers :: "platform \<Rightarrow> repair_input \<Rightarrow> bool" where
  "sound_identifiers p i \<longleftrightarrow> \<not> ri_session i \<or> parse_uuid p (ri_change i) \<noteq> None \<and> parse_uuid p (ri_task i) \<noteq> None"

lemma persist_sound:
  "sound_identifiers p i \<Longrightarrow> ri_session i \<Longrightarrow>
   fst (persist_repair_package p pkg (ri_task i) (ri_change i) n d) = Inr ()"
  by (auto simp: sound_identifiers_def persist_repair_package_def case_prod_unfold Let_def)

definition structured_for :: "repair_input \<Rightarrow> string \<Rightarrow> repair_iteration \<Rightarrow> bool" where
  "structured_for i k t \<longleftrightarrow>
     pk_claim (it_repair t) = k \<and> pk_evidence (it_repair t) = gather_evidence_ids (ri_result i) k \<and>
     pk_expected (it_repair t) = fst (derive_repair_text k (ri_result i)) \<and>
     pk_observed (it_repair t) = snd (derive_repair_text k (ri_result i)) \<and> it_status t = ''CREATED''"

definition claim_signature :: "repair_input \<Rightarrow> string \<Rightarrow> string" where
  "claim_signature i k = repair_signature k (gather_evidence_ids (ri_result i) k) (snd (derive_repair_text k (ri_result i)))"

lemma structured_repair:
  assumes "k \<noteq> []" "gather_evidence_ids (ri_result i) k \<noteq> []" "sound_identifiers p i"
  shows "\<exists>t D. structure_repair p i k (gather_evidence_ids (ri_result i) k) started c d =
      (Structured t (fst (record_execution_signature (claim_signature i k) (bump_repairs c)))
        (bump_iteration (snd (record_execution_signature (claim_signature i k) (bump_repairs c)))), D) \<and>
    structured_for i k t \<and> it_number t = lc_iteration c + 1 \<and>
    it_outcome t = (if fst (record_execution_signature (claim_signature i k) (bump_repairs c)) then ''NO_PROGRESS'' else ''PROCEED'')"
proof -
  let ?ids = "gather_evidence_ids (ri_result i) k"
  obtain expected observed where derived: "derive_repair_text k (ri_result i) = (expected, observed)"
    by (cases "derive_repair_text k (ri_result i)")
  obtain stuck c1 where sig: "record_execution_signature (claim_signature i k) (bump_repairs c) = (stuck, c1)"
    by (cases "record_execution_signature (claim_signature i k) (bump_repairs c)")
  have signature: "repair_signature k ?ids observed = claim_signature i k" by (simp add: claim_signature_def derived)
  have number: "lc_iteration c1 = lc_iteration c"
    using signature_fields(2) [of "claim_signature i k" "bump_repairs c"] sig by simp
  let ?build = "build_repair_package (''F-'' @ k) k expected observed ?ids UNAUTHORIZED_OUTCOME [] [] []"
  have "UNAUTHORIZED_OUTCOME \<noteq> []" by (simp add: UNAUTHORIZED_OUTCOME_def)
  with assms(1,2) obtain pk where pk: "fst (on_host ?build d) = Inr pk" "pk_claim pk = k" "pk_evidence pk = ?ids"
      "pk_expected pk = expected" "pk_observed pk = observed"
    by (auto simp: build_repair_package_def case_prod_unfold Let_def)
  then obtain d1 where pkg: "on_host ?build d = (Inr pk, d1)" by (metis prod.collapse)
  obtain fin d2 where fin: "on_host now d1 = (fin, d2)" by (cases "on_host now d1")
  let ?save = "if ri_session i then persist_repair_package p pk (ri_task i) (ri_change i) (lc_iteration (bump_iteration c1)) d2
      else (Inr (), d2)"
  have "fst ?save = Inr ()" using persist_sound [OF assms(3)] by simp
  then obtain d3 where saved: "?save = (Inr (), d3)" by (metis prod.collapse)
  show ?thesis
    unfolding structure_repair_def derived prod.case pkg Let_def sum.case signature sig fin saved
    by (simp add: structured_for_def pk derived number)
qed

text \<open>One attempt over a claim that needs repair: the budget stops it, or it structures a repair of that claim.\<close>

lemma attempt_cases:
  assumes "find_affected_claim (ri_deltas i) (ri_alignments i) (vf_claims (ri_result i)) = Some k"
    and "k \<noteq> []" "gather_evidence_ids (ri_result i) k \<noteq> []" "sound_identifiers p i"
  obtains (stop) e D where "repair_attempt p i c d = (Stopped (''loop bound exhausted: '' @ be_bound e @ '' -- '' @ be_message e), D)"
  | (structured) t D where
      "repair_attempt p i c d = (Structured t (fst (record_execution_signature (claim_signature i k) (bump_repairs c)))
        (bump_iteration (snd (record_execution_signature (claim_signature i k) (bump_repairs c)))), D)"
      "structured_for i k t" "it_number t = lc_iteration c + 1" "lc_repairs c < lb_max_repair_attempts (lc_bounds c)"
      "it_outcome t = (if fst (record_execution_signature (claim_signature i k) (bump_repairs c)) then ''NO_PROGRESS'' else ''PROCEED'')"
proof -
  obtain chk d1 where chk: "on_host (check_bounds c) d = (chk, d1)" by (cases "on_host (check_bounds c) d")
  obtain started d2 where st: "on_host now d1 = (started, d2)" by (cases "on_host now d1")
  show thesis
  proof (cases chk)
    case (Inl e)
    with chk stop show thesis by (simp add: repair_attempt_def)
  next
    case (Inr u)
    have "fst (check_bounds c (host d)) = Inr u" using chk Inr on_host_fst [of "check_bounds c" d] by simp
    note bound = check_bounds_Inr [OF this]
    have "repair_attempt p i c d = structure_repair p i k (gather_evidence_ids (ri_result i) k) started c d2"
      using chk Inr st assms(1,3) by (simp add: repair_attempt_def Let_def)
    with structured_repair [OF assms(2-4), of started c d2] structured bound show thesis by auto
  qed
qed

lemma attempts_repeat:
  assumes "find_affected_claim (ri_deltas i) (ri_alignments i) (vf_claims (ri_result i)) = Some k"
    and "k \<noteq> []" "gather_evidence_ids (ri_result i) k \<noteq> []" "sound_identifiers p i"
    and "T = nat (max 1 (lb_no_progress_threshold b))"
  shows "lc_bounds c = b \<Longrightarrow> lc_recent_signatures c = replicate j (claim_signature i k) \<Longrightarrow> j < T \<Longrightarrow> lc_repairs c = int j \<Longrightarrow>
    \<exists>ts reason D. repair_attempts p i n c d = (Inr (ts, reason), D) \<and> (\<forall>t\<in>set ts. structured_for i k t) \<and>
      length ts \<le> n \<and> j + length ts \<le> T \<and> (ts \<noteq> [] \<longrightarrow> int (j + length ts) \<le> lb_max_repair_attempts b) \<and>
      map it_outcome ts = map (\<lambda>m. if Suc (j + m) = T then ''NO_PROGRESS'' else ''PROCEED'') [0..<length ts]"
proof (induction n arbitrary: c j d)
  case (Suc n)
  show ?case
  proof (rule attempt_cases [OF assms(1-4), of c d])
    fix e D
    assume "repair_attempt p i c d = (Stopped (''loop bound exhausted: '' @ be_bound e @ '' -- '' @ be_message e), D)"
    with Suc.prems(3) show ?thesis by simp
  next
    fix t D
    assume structured: "repair_attempt p i c d = (Structured t (fst (record_execution_signature (claim_signature i k) (bump_repairs c)))
        (bump_iteration (snd (record_execution_signature (claim_signature i k) (bump_repairs c)))), D)"
      "structured_for i k t" "it_number t = lc_iteration c + 1" "lc_repairs c < lb_max_repair_attempts (lc_bounds c)"
      "it_outcome t = (if fst (record_execution_signature (claim_signature i k) (bump_repairs c)) then ''NO_PROGRESS'' else ''PROCEED'')"
    let ?c = "snd (record_execution_signature (claim_signature i k) (bump_repairs c))"
    have T: "T = nat (max 1 (lb_no_progress_threshold (lc_bounds (bump_repairs c))))" using Suc.prems(1) assms(5) by simp
    have rec: "lc_recent_signatures (bump_repairs c) = replicate j (claim_signature i k)"
      using Suc.prems(2) by (simp add: bump_repairs_def)
    note full = repeated_signature [OF rec T Suc.prems(3)]
    have stuck: "fst (record_execution_signature (claim_signature i k) (bump_repairs c)) \<longleftrightarrow> Suc j = T" by (rule full(1))
    have repairs: "int (Suc j) \<le> lb_max_repair_attempts b" using structured(4) Suc.prems by simp
    show ?thesis
    proof (cases "Suc j = T")
      case True
      then show ?thesis using structured stuck repairs by simp
    next
      case False
      have "lc_bounds (bump_iteration ?c) = b" "lc_repairs (bump_iteration ?c) = int (Suc j)" using Suc.prems by simp_all
      moreover have "lc_recent_signatures (bump_iteration ?c) = replicate (Suc j) (claim_signature i k)"
        using full(2) [OF False] by (simp add: bump_iteration_def)
      moreover have "Suc j < T" using Suc.prems(3) False by simp
      ultimately obtain ts reason D' where IH: "repair_attempts p i n (bump_iteration ?c) D = (Inr (ts, reason), D')"
          "\<forall>t\<in>set ts. structured_for i k t" "length ts \<le> n" "Suc j + length ts \<le> T"
          "ts \<noteq> [] \<longrightarrow> int (Suc j + length ts) \<le> lb_max_repair_attempts b"
          "map it_outcome ts = map (\<lambda>m. if Suc (Suc j + m) = T then ''NO_PROGRESS'' else ''PROCEED'') [0..<length ts]"
        using Suc.IH [of "bump_iteration ?c" "Suc j" D] by blast
      have "repair_attempts p i (Suc n) c d = (Inr (t # ts, reason), D')"
        using structured(1) stuck False IH(1) by simp
      moreover have "map it_outcome (t # ts) =
          map (\<lambda>m. if Suc (j + m) = T then ''NO_PROGRESS'' else ''PROCEED'') [0..<length (t # ts)]"
        unfolding list.map IH(6) using structured(5) stuck False
        by (simp only: length_Cons map_upt_Suc if_False add_0_right add_Suc_right add_Suc)
      moreover have "int (j + length (t # ts)) \<le> lb_max_repair_attempts b"
        using repairs IH(5) by (cases ts) simp_all
      moreover have "\<forall>x\<in>set (t # ts). structured_for i k x" "length (t # ts) \<le> Suc n" "j + length (t # ts) \<le> T"
        using IH(2-4) structured(2) by simp_all
      ultimately show ?thesis by blast
    qed
  qed
qed simp

text \<open>Every delta that was computed is PENDING: the claim that is repaired is always the least one.\<close>

lemma computed_affected:
  assumes "bs = fst (compute_behavioral_deltas u5 change patch ids r baseline candidates w)" "ids \<noteq> []"
  shows "find_affected_claim bs als verdicts = Some (hd (sort ids))"
proof -
  obtain t where bs: "bs = map (delta_of u5 change patch r baseline candidates t) (sort ids)"
    using assms(1) by (metis computed_deltas)
  obtain k ks where ks: "sort ids = k # ks" using assms(2) by (metis list.exhaust sort_key_simps(1) length_0_conv length_sort)
  have "needs_repair bs als verdicts k"
    unfolding bs ks needs_repair_def first_delta_def by (simp add: delta_of_def case_prod_unfold Let_def)
  then show ?thesis unfolding find_affected_claim_def bs ks by simp
qed

lemma attempts_without_evidence:
  assumes "find_affected_claim (ri_deltas i) (ri_alignments i) (vf_claims (ri_result i)) = Some k"
    and "gather_evidence_ids (ri_result i) k = []"
  shows "\<exists>reason D. repair_attempts p i n c d = (Inr ([], reason), D)"
proof (cases n)
  case (Suc m)
  obtain chk d1 where chk: "on_host (check_bounds c) d = (chk, d1)" by (cases "on_host (check_bounds c) d")
  obtain started d2 where "on_host now d1 = (started, d2)" by (cases "on_host now d1")
  with assms chk Suc show ?thesis by (cases chk) (auto simp: repair_attempt_def Let_def)
qed simp

text \<open>
  C29. The repair loop repairs the least claim, again and again: over computed deltas, whichever claim failed,
  the loop returns and every iteration structures the same repair of the least claim, the iteration that
  fills the no-progress window is the last one and the only one reported as such, and the iterations stay within
  the maximal iterations, the no-progress threshold and the maximal repairs; when the least claim has no
  evidence, nothing is repaired.
\<close>

theorem repairs_repeat_the_least_claim:
  assumes "dc_code decision = RepairRequired" "sound_identifiers p i"
    and deltas: "ri_deltas i = fst (compute_behavioral_deltas u5 change candidate ids r baseline candidates w)" "ids \<noteq> []"
    and "hd (sort ids) \<noteq> []"
  shows "\<exists>res D. run_repair_loop p decision patch i (Some b) d = (Inr res, D) \<and>
    (\<forall>t\<in>set (rz_iterations res). structured_for i (hd (sort ids)) t) \<and>
    length (rz_iterations res) \<le> nat (lb_max_iterations b) \<and>
    length (rz_iterations res) \<le> nat (max 1 (lb_no_progress_threshold b)) \<and>
    (rz_iterations res \<noteq> [] \<longrightarrow> int (length (rz_iterations res)) \<le> lb_max_repair_attempts b) \<and>
    map it_outcome (rz_iterations res) =
      map (\<lambda>m. if Suc m = nat (max 1 (lb_no_progress_threshold b)) then ''NO_PROGRESS'' else ''PROCEED'')
        [0..<length (rz_iterations res)] \<and>
    (gather_evidence_ids (ri_result i) (hd (sort ids)) = [] \<longrightarrow> rz_iterations res = [])"
proof -
  let ?k = "hd (sort ids)" and ?T = "nat (max 1 (lb_no_progress_threshold b))"
  note found = computed_affected [OF deltas, of "ri_alignments i" "vf_claims (ri_result i)"]
  obtain c d1 where c: "on_host (new_controller b) d = (c, d1)" by (cases "on_host (new_controller b) d")
  have fresh: "lc_bounds c = b" "lc_recent_signatures c = replicate 0 (claim_signature i ?k)" "lc_repairs c = int 0"
    using c by (auto simp: on_host_def new_controller_def case_prod_unfold Let_def)
  have "\<exists>ts reason D. repair_attempts p i (nat (lb_max_iterations b)) c d1 = (Inr (ts, reason), D) \<and>
      (\<forall>t\<in>set ts. structured_for i ?k t) \<and> length ts \<le> nat (lb_max_iterations b) \<and> 0 + length ts \<le> ?T \<and>
      (ts \<noteq> [] \<longrightarrow> int (0 + length ts) \<le> lb_max_repair_attempts b) \<and>
      map it_outcome ts = map (\<lambda>m. if Suc (0 + m) = ?T then ''NO_PROGRESS'' else ''PROCEED'') [0..<length ts] \<and>
      (gather_evidence_ids (ri_result i) ?k = [] \<longrightarrow> ts = [])"
  proof (cases "gather_evidence_ids (ri_result i) ?k = []")
    case True
    from attempts_without_evidence [OF found True, of p "nat (lb_max_iterations b)" c d1] show ?thesis by fastforce
  next
    case False
    have "0 < ?T" by simp
    from attempts_repeat [OF found assms(5) False assms(2) refl fresh(1,2) this fresh(3), of "nat (lb_max_iterations b)" d1] False
    show ?thesis by blast
  qed
  then show ?thesis using assms(1) c by (auto simp: run_repair_loop_def)
qed

section \<open>A concrete loop\<close>

text \<open>The claim \<open>z\<close> has no evidence; what is repaired is the claim \<open>k\<close>, against which nothing speaks.\<close>

definition demo_repair :: repair_input where
  "demo_repair =
     \<lparr>ri_change = ''change'', ri_task = ''task'', ri_result = plain_result,
      ri_deltas = fst (compute_behavioral_deltas (\<lambda>n s. n @ s) ''change'' ''patch'' [''z'', ''k''] plain_result [] [] demo_host),
      ri_alignments = [], ri_session = False\<rparr>"

lemma demo_repair_loop:
  "dc_code (decide_certification plain_result (ri_deltas demo_repair) []) = RepairRequired"
  "map_sum id (\<lambda>res. length (rz_iterations res)) (fst (run_repair_loop demo_platform
     (decide_certification plain_result (ri_deltas demo_repair) []) ''patch'' demo_repair (Some default_bounds) (empty_db demo_host))) = Inr 2"
  by code_simp+

theorem repairs_repeat_the_least_claim_witness:
  "\<exists>res D. run_repair_loop demo_platform (decide_certification plain_result (ri_deltas demo_repair) []) ''patch'' demo_repair
     (Some default_bounds) (empty_db demo_host) = (Inr res, D) \<and> length (rz_iterations res) = 2 \<and>
     (\<forall>t\<in>set (rz_iterations res). pk_claim (it_repair t) = ''k'') \<and> map it_outcome (rz_iterations res) = [''PROCEED'', ''NO_PROGRESS'']"
proof -
  have s: "sound_identifiers demo_platform demo_repair" by (simp add: sound_identifiers_def demo_repair_def)
  have k: "hd (sort [''z'', ''k'']) = ''k''" by code_simp
  have b: "nat (max 1 (lb_no_progress_threshold default_bounds)) = 2" by (simp add: default_bounds_def)
  have bs: "ri_deltas demo_repair =
      fst (compute_behavioral_deltas (\<lambda>n s. n @ s) ''change'' ''patch'' [''z'', ''k''] plain_result [] [] demo_host)"
    by (simp add: demo_repair_def)
  obtain res D where r: "run_repair_loop demo_platform (decide_certification plain_result (ri_deltas demo_repair) []) ''patch'' demo_repair
      (Some default_bounds) (empty_db demo_host) = (Inr res, D)"
      "\<forall>t\<in>set (rz_iterations res). structured_for demo_repair ''k'' t"
      "map it_outcome (rz_iterations res) = map (\<lambda>m. if Suc m = 2 then ''NO_PROGRESS'' else ''PROCEED'') [0..<length (rz_iterations res)]"
    using repairs_repeat_the_least_claim [OF demo_repair_loop(1) s bs, of "''patch''" default_bounds "empty_db demo_host"]
    unfolding k b by auto
  have "length (rz_iterations res) = 2" using demo_repair_loop(2) r(1) by simp
  with r show ?thesis by (intro exI conjI) (auto simp: structured_for_def upt_rec)
qed

end
