(* ===== verification/Repair_Decisions.thy ===== *)
theory Repair_Decisions
  imports Coding_Proofs
begin

text \<open>
  Which decision a file mutation of the coding loop belongs to: every repair decision that was carried out is
  followed through its turn to what it wrote, and the mutations of a run are those of its repairs, in order.
\<close>

section \<open>A decision and its mutation\<close>

text \<open>The decision recorded for a directive, in the iteration the decider was asked in.\<close>

definition decided_as :: "loop_view \<Rightarrow> directive \<Rightarrow> decision \<Rightarrow> bool" where
  "decided_as view d dec \<longleftrightarrow>
     de_iteration dec = lv_iteration view \<and> de_action dec = dd_action d \<and> de_rationale dec = dd_rationale d \<and>
     de_diagnosis dec = dd_diagnosis d \<and>
     de_mutation_path dec = (case dd_mutation d of None \<Rightarrow> [] | Some g \<Rightarrow> md_path g)"

text \<open>A mutation that wrote what a directive asked for.\<close>

definition written_as :: "host_ports \<Rightarrow> mutation_directive \<Rightarrow> file_mutation \<Rightarrow> bool" where
  "written_as h g mu \<longleftrightarrow>
     fm_operation mu = WRITE \<and> fm_path mu = md_path g \<and> fm_reason mu = md_reason g \<and>
     fm_after mu = ho_sha256 h (utf8 (md_content g))"

text \<open>The mutations of one carried out decision: the decider asked for it, and for one file at most.\<close>

definition carried_out :: "host_ports \<Rightarrow> 'd decider \<Rightarrow> decision \<Rightarrow> file_mutation list \<Rightarrow> bool" where
  "carried_out h decider dec mus \<longleftrightarrow>
     (\<exists>view s d s'. decider view s = (Inr d, s') \<and> decided_as view d dec \<and>
        (case dd_mutation d of None \<Rightarrow> mus = [] | Some g \<Rightarrow> \<exists>mu. mus = [mu] \<and> written_as h g mu))"

text \<open>
  The mutations of a loop are those of its repair decisions in order. A repair that could not be written ends the
  run with the error of the sandbox: it is the last one.
\<close>

definition accounts :: "host_ports \<Rightarrow> 'd decider \<Rightarrow> loop_error + 'r \<Rightarrow> ('p, 'd) coding_loop \<Rightarrow> bool" where
  "accounts h decider r m \<longleftrightarrow>
     (\<exists>decs lost parts. filter is_repair (cl_decisions m) = decs @ lost \<and> list_all2 (carried_out h decider) decs parts \<and>
        cl_mutations m = concat parts \<and> (lost = [] \<or> (\<exists>dec e. lost = [dec] \<and> r = Inl (LoopSandbox e))))"

lemma accounts_keep:
  assumes "accounts h decider (Inr x) m" "cl_decisions m' = cl_decisions m" "cl_mutations m' = cl_mutations m"
  shows "accounts h decider r m'"
proof -
  from assms(1) have "\<exists>decs parts. filter is_repair (cl_decisions m) = decs \<and> list_all2 (carried_out h decider) decs parts \<and>
      cl_mutations m = concat parts"
    unfolding accounts_def by auto
  then show ?thesis unfolding accounts_def assms(2,3) by auto
qed

lemma mutate_file_writes:
  assumes "mutate_file h g m = (r, m')"
  shows "case r of
      Inl e \<Rightarrow> (\<exists>x. e = LoopSandbox x) \<and> cl_mutations m' = cl_mutations m
    | Inr _ \<Rightarrow> \<exists>mu. cl_mutations m' = cl_mutations m @ [mu] \<and> written_as h g mu"
proof -
  obtain x sb where w: "write_file h (md_path g) (TextContent (md_content g)) (md_reason g) (cl_sandbox m) = (x, sb)" by fastforce
  have "written_as h g mu" if "x = Inr mu" for mu
    using w that
    by (auto simp: write_file_def log_mutation_def written_as_def case_prod_unfold Let_def split: sum.splits if_splits)
  then show ?thesis using assms w by (auto simp: mutate_file_def Let_def split: sum.splits)
qed

lemma plan_keeps:
  assumes "execute_plan h commands m = (r, m')"
  shows "cl_decisions m' = cl_decisions m \<and> cl_mutations m' = cl_mutations m"
  using execute_plan_effect [OF assms] by (auto simp: spends_def split: sum.splits)

section \<open>Turns\<close>

text \<open>What a repair does after its mutation changes neither list.\<close>

lemma repair_turn_accounts:
  assumes turn: "repair_turn h plan d dec m = (r, m')"
    and asked: "decider view s = (Inr d, s')" "decided_as view d dec" "is_repair dec"
    and before: "cl_decisions m = ds @ [dec]" "list_all2 (carried_out h decider) (filter is_repair ds) parts"
      "cl_mutations m = concat parts"
  shows "accounts h decider r m'"
proof -
  define m1 where "m1 = m\<lparr>cl_controller := bump_repairs (cl_controller m)\<rparr>"
  have m1: "cl_decisions m1 = ds @ [dec]" "cl_mutations m1 = concat parts" using before by (simp_all add: m1_def)
  obtain x m2 where mutate: "(case dd_mutation d of None \<Rightarrow> (Inr (), m1) | Some g \<Rightarrow> mutate_file h g m1) = (x, m2)"
    by fastforce
  have d2: "cl_decisions m2 = ds @ [dec]"
    using mutate m1 mutate_file_effect(3) [of h _ m1 x m2] by (auto split: option.splits)
  show ?thesis
  proof (cases x)
    case (Inl e)
    then obtain g where "dd_mutation d = Some g" using mutate by (cases "dd_mutation d") auto
    then obtain err where "e = LoopSandbox err" "cl_mutations m2 = concat parts"
      using mutate mutate_file_writes [of h g m1 x m2] Inl m1 by auto
    moreover have "r = Inl e" "m' = m2" using turn mutate Inl by (simp_all add: repair_turn_def Let_def flip: m1_def)
    ultimately show ?thesis unfolding accounts_def using d2 asked(3) before(2)
      by (intro exI [of _ "filter is_repair ds"] exI [of _ "[dec]"] exI [of _ parts]) simp
  next
    case (Inr u)
    obtain mus where mus: "cl_mutations m2 = concat parts @ mus"
        "case dd_mutation d of None \<Rightarrow> mus = [] | Some g \<Rightarrow> \<exists>mu. mus = [mu] \<and> written_as h g mu"
    proof (cases "dd_mutation d")
      case None
      with mutate m1 that [of "[]"] show thesis by auto
    next
      case (Some g)
      with mutate mutate_file_writes [of h g m1 x m2] Inr m1 that show thesis by auto
    qed
    then have "carried_out h decider dec mus" unfolding carried_out_def using asked(1,2) by blast
    then have ok: "accounts h decider (Inr ()) m2"
      unfolding accounts_def using d2 mus(1) asked(3) before(2)
      by (intro exI [of _ "filter is_repair ds @ [dec]"] exI [of _ "[]"] exI [of _ "parts @ [mus]"])
        (simp add: list_all2_appendI)
    obtain rs m3 where run: "execute_plan h (dp_tests_to_run plan) m2 = (rs, m3)" by fastforce
    have "cl_decisions m' = cl_decisions m3 \<and> cl_mutations m' = cl_mutations m3"
      using turn mutate Inr run
      by (auto simp: repair_turn_def Let_def case_prod_unfold simp flip: m1_def split: sum.splits if_splits)
    then show ?thesis using plan_keeps [OF run] by (intro accounts_keep [OF ok]) auto
  qed
qed

lemma decide_directive_records:
  assumes "decide_directive d a m = (Inr dec, m')" "lv_iteration view = lc_iteration (cl_controller m)"
  shows "decided_as view d dec" "cl_decisions m' = cl_decisions m @ [dec]" "cl_mutations m' = cl_mutations m"
    "is_repair dec \<longleftrightarrow> de_policy_state dec \<noteq> DENIED_BY_POLICY \<and> dd_action d \<noteq> ''STOP''"
  using decide_directive_effect [OF assms(1)] assms
  by (auto simp: decide_directive_def decided_as_def case_prod_unfold Let_def split: option.splits)

lemma coding_turn_accounts:
  assumes turn: "coding_turn h plan a decider records m = (r, m')" and ok: "accounts h decider (Inr ()) m"
  shows "accounts h decider r m'"
proof (cases "fst (loop_check m)")
  case (Inl e)
  with turn have "m' = snd (loop_check m)" by (auto simp: coding_turn_def case_prod_unfold Let_def)
  then show ?thesis by (intro accounts_keep [OF ok]) simp_all
next
  case (Inr u)
  define view where "view = fst (make_view plan records (snd (loop_check m)))"
  define m2 where "m2 = snd (make_view plan records (snd (loop_check m)))"
  define answer where "answer = fst (decider view (cl_decider_state m2))"
  define s' where "s' = snd (decider view (cl_decider_state m2))"
  have asked: "decider view (cl_decider_state m2) = (answer, s')" by (simp add: answer_def s'_def)
  define m3 where "m3 = m2\<lparr>cl_decider_state := s'\<rparr>"
  have m3: "cl_decisions m3 = cl_decisions m" "cl_mutations m3 = cl_mutations m" "cl_controller m3 = cl_controller m"
    by (simp_all add: m3_def m2_def)
  have iter: "lv_iteration view = lc_iteration (cl_controller m3)"
    by (simp add: view_def make_view_def m3 case_prod_unfold Let_def)
  have step: "coding_turn h plan a decider records m =
      (case answer of
         Inl e \<Rightarrow> (Inl (DeciderRaised e), m3)
       | Inr d \<Rightarrow>
           (let (decided, m4) = decide_directive d a m3 in
            case decided of
              Inl e \<Rightarrow> (Inl e, m4)
            | Inr decision \<Rightarrow>
                (if de_policy_state decision = DENIED_BY_POLICY then
                   (Inr (Return (loop_result_of BLOCKED POLICY_STOP
                      (''decision '' @ de_decision_id decision @ '' denied by policy: '' @
                       de_policy_reason decision) m4)), m4)
                 else if dd_action d = ''STOP'' then
                   (Inr (Return (loop_result_of CANDIDATE_FAILED STOP_REQUESTED
                      (''decider requested stop: '' @ dd_rationale d) m4)), m4)
                 else repair_turn h plan d decision m4)))"
    using Inr unfolding coding_turn_def m3_def answer_def s'_def m2_def view_def by (simp add: case_prod_unfold Let_def)
  show ?thesis
  proof (cases answer)
    case (Inl e)
    with turn step have "m' = m3" by simp
    then show ?thesis using m3 by (intro accounts_keep [OF ok]) simp_all
  next
    case answer: (Inr d)
    obtain decided m4 where decide: "decide_directive d a m3 = (decided, m4)" by fastforce
    show ?thesis
    proof (cases decided)
      case (Inl e)
      with turn step answer decide have "m' = m4" by simp
      moreover have "m4 = m3" using decide_directive_effect [OF decide] Inl by simp
      ultimately show ?thesis using m3 by (intro accounts_keep [OF ok]) simp_all
    next
      case decided: (Inr dec)
      note rec = decide_directive_records [OF decide [unfolded decided] iter]
      from ok obtain parts where parts: "list_all2 (carried_out h decider) (filter is_repair (cl_decisions m)) parts"
          "cl_mutations m = concat parts"
        by (auto simp: accounts_def)
      show ?thesis
      proof (cases "is_repair dec")
        case True
        then have "repair_turn h plan d dec m4 = (r, m')" using turn step answer decide decided rec(4) by simp
        then show ?thesis
          by (rule repair_turn_accounts [of h plan d dec m4 r m' decider view "cl_decider_state m2" s' "cl_decisions m" parts])
            (use asked answer rec True parts m3 in simp_all)
      next
        case False
        with turn step answer decide decided rec(4) have "m' = m4" by (auto split: if_splits)
        then show ?thesis unfolding accounts_def using rec(2,3) m3 parts False by auto
      qed
    qed
  qed
qed

section \<open>Runs\<close>

lemma repair_loop_accounts:
  "repair_loop n h plan a decider records m = (r, m') \<Longrightarrow> accounts h decider (Inr ()) m \<Longrightarrow> accounts h decider r m'"
proof (induction n arbitrary: records m)
  case 0
  then show ?case by (auto intro: accounts_keep)
next
  case (Suc n)
  obtain t m1 where turn: "coding_turn h plan a decider records m = (t, m1)" by fastforce
  note acc = coding_turn_accounts [OF turn Suc.prems(2)]
  show ?case
  proof (cases t)
    case (Inl e)
    with Suc.prems(1) turn have "r = Inl e" "m' = m1" by simp_all
    with acc Inl show ?thesis by (auto simp: accounts_def)
  next
    case (Inr x)
    have acc1: "accounts h decider y m1" for y :: "loop_error + 'x" using accounts_keep [OF acc [unfolded Inr]] by blast
    show ?thesis
    proof (cases x)
      case (Return res)
      with Suc.prems(1) turn Inr have "m' = m1" by simp
      with acc1 show ?thesis by (auto intro: accounts_keep [OF acc [unfolded Inr]])
    next
      case (NextTurn records')
      with Suc.prems(1) turn Inr have "repair_loop n h plan a decider records' m1 = (r, m')" by simp
      from Suc.IH [OF this accounts_keep [OF acc [unfolded Inr] refl refl]] show ?thesis .
    qed
  qed
qed

lemma run_coding_accounts:
  assumes run: "run_coding h plan failed a decider m = (r, m')" and fresh: "fresh_loop m"
  shows "accounts h decider r m'"
proof -
  have ok: "accounts h decider (Inr ()) m"
    unfolding accounts_def using fresh by (intro exI [of _ "[]"]) (simp add: fresh_loop_def)
  show ?thesis
  proof (cases "failed = []")
    case False
    with run show ?thesis by (auto simp: run_coding_def intro: accounts_keep [OF ok])
  next
    case allowed: True
    obtain x m1 where cp: "loop_checkpoint ''pre-candidate'' m = (x, m1)" by fastforce
    note m1 = loop_checkpoint_fields(3,4) [OF cp]
    obtain rs m2 where exec: "execute_plan h (dp_tests_to_run plan) m1 = (rs, m2)" by fastforce
    note m2 = plan_keeps [OF exec]
    have later: "accounts h decider (Inr ()) (m2\<lparr>cl_controller := c\<rparr>)" for c
      using m1 m2 by (intro accounts_keep [OF ok]) simp_all
    show ?thesis
    proof (cases "x = Inr () \<and> (\<exists>records. rs = Inr records \<and> failing records \<noteq> [])")
      case True
      then obtain records c n where "repair_loop n h plan a decider records (m2\<lparr>cl_controller := c\<rparr>) = (r, m')"
        using run allowed cp exec unfolding run_coding_def by (auto simp: Let_def simp del: repair_loop.simps)
      from repair_loop_accounts [OF this later] show ?thesis .
    next
      case False
      then have "cl_decisions m' = cl_decisions m \<and> cl_mutations m' = cl_mutations m"
        using run allowed cp exec m1 m2 unfolding run_coding_def by (auto simp: Let_def split: sum.splits if_splits)
      then show ?thesis by (intro accounts_keep [OF ok]) auto
    qed
  qed
qed

section \<open>Properties\<close>

text \<open>
  C35. Nothing is changed without its decision: the file mutations of a run are, in order, those of its repair
  decisions. Each repair decision is the record of a directive the decider gave in that iteration, and its
  mutation is the one write the directive names, with its path, its reason and the hash of its content; a
  directive without a mutation has none. Only the last repair of a run that ends with an error of the sandbox may
  lack its write. Every repair that was carried out was authorized and states what was observed and what comes
  next, and an unauthorized run changes no file.
\<close>
theorem mutations_are_decided:
  assumes "run_coding h plan failed a decider (new_loop sb b d) = (r, m')"
  shows "(\<exists>decs lost parts. filter is_repair (cl_decisions m') = decs @ lost \<and>
      list_all2 (carried_out h decider) decs parts \<and> cl_mutations m' = concat parts \<and>
      (lost = [] \<or> (\<exists>dec e. lost = [dec] \<and> r = Inl (LoopSandbox e)))) \<and>
    list_all (disciplined a) (cl_decisions m') \<and> (a \<or> cl_mutations m' = [])"
proof -
  have ok: "loop_ok a m'" using run_coding_effect [OF assms new_loop_fresh(1)] by (simp add: run_ok_def)
  then have "filter is_repair (cl_decisions m') = []" if "\<not> a"
    using that by (auto simp: loop_ok_def list_all_iff disciplined_def filter_empty_conv)
  with ok run_coding_accounts [OF assms new_loop_fresh(1)] show ?thesis
    unfolding accounts_def by (cases a) (auto simp: loop_ok_def)
qed

text \<open>One repair: its mutation is the file the decider asked for.\<close>

theorem mutations_are_decided_witness:
  "\<exists>res m' dec mu. run_coding demo_host demo_plan [] True demo_decider (new_loop demo_workspace default_bounds ()) = (Inr res, m') \<and>
    filter is_repair (cl_decisions m') = [dec] \<and> cl_mutations m' = [mu] \<and> de_mutation_path dec = ''fixed'' \<and>
    fm_path mu = ''fixed'' \<and> fm_reason mu = ''fix'' \<and> fm_after mu = ''x''"
proof (rule demo_coding_obtains)
  fix res m'
  assume run: "run_coding demo_host demo_plan [] True demo_decider (new_loop demo_workspace default_bounds ()) = (Inr res, m')"
    and one: "length (lr_mutations res) = 1"
  have len: "length (cl_mutations m') = 1"
    using run_coding_effect [OF run new_loop_fresh(1)] one by (simp add: run_ok_def reports_def)
  from mutations_are_decided [OF run] obtain parts where
    parts: "list_all2 (carried_out demo_host demo_decider) (filter is_repair (cl_decisions m')) parts" "cl_mutations m' = concat parts"
    by auto
  have each: "de_mutation_path dec = ''fixed'' \<and> (\<exists>mu. part = [mu] \<and> fm_path mu = ''fixed'' \<and> fm_reason mu = ''fix'' \<and> fm_after mu = ''x'')"
    if "carried_out demo_host demo_decider dec part" for dec part
    using that by (auto simp: carried_out_def demo_decider_def decided_as_def written_as_def demo_host_def utf8_def)
  have "length (concat parts) = length (filter is_repair (cl_decisions m'))"
    using parts(1) by (induction rule: list_all2_induct) (auto dest: each)
  with len parts(2) obtain dec where "filter is_repair (cl_decisions m') = [dec]"
    by (auto simp: length_Suc_conv)
  moreover from this parts(1) obtain part where part: "parts = [part]" "carried_out demo_host demo_decider dec part"
    by (auto simp: list_all2_Cons1)
  moreover from each [OF part(2)] parts(2) part(1) obtain mu where "cl_mutations m' = [mu]"
      "fm_path mu = ''fixed'' \<and> fm_reason mu = ''fix'' \<and> fm_after mu = ''x''" "de_mutation_path dec = ''fixed''" by auto
  ultimately show ?thesis using run by blast
qed

end
