(* ===== verification/Rows.thy ===== *)
theory Rows
  imports Store
begin

text \<open>
  The ORM objects the pre-code packages and the version policy work on: an object is its class and its
  attributes by name, so that \<open>getattr\<close> and \<open>setattr\<close> over the columns of a table (which
  \<open>smorx_behavior/versioning\<close> uses) read as they are written. A table is the list of its rows in the order
  of insertion. A UUID is its canonical text; a date is a count of microseconds. The columns
  \<open>created_at\<close> and \<open>updated_at\<close> are written by the database server and read by nothing modelled here.
\<close>

section \<open>Classes and columns (models/entities.py)\<close>

datatype family = JsonDict | UuidColumn | StrColumn | NoFamily

record column =
  col_name :: string
  col_family :: family
  col_unique :: bool
  col_default :: pyval

datatype model =
    MProject | MRepository | MChange | MTask | MConstitution | MConstitutionClaim | MIntentLedger | MIntentItem
  | MSemanticImpact | MVerificationPlan | MVerificationCase | MCertificate

abbreviation col :: "string \<Rightarrow> family \<Rightarrow> pyval \<Rightarrow> column" where
  "col n f v \<equiv> \<lparr>col_name = n, col_family = f, col_unique = False, col_default = v\<rparr>"

abbreviation unique_col :: "string \<Rightarrow> column" where
  "unique_col n \<equiv> \<lparr>col_name = n, col_family = StrColumn, col_unique = True, col_default = PNone\<rparr>"

definition mixin_columns :: "column list" where
  "mixin_columns = [col ''id'' UuidColumn PNone, col ''created_at'' NoFamily PNone, col ''updated_at'' NoFamily PNone]"

definition version_columns :: "column list" where
  "version_columns = [col ''version'' NoFamily (PInt 1), col ''locked'' NoFamily (PBool False)]"

definition project_columns :: "column list" where
  "project_columns =
     [col ''name'' StrColumn PNone, unique_col ''slug'', col ''description'' StrColumn PNone,
      col ''meta'' JsonDict (PDict [])]"

definition repository_columns :: "column list" where
  "repository_columns =
     [col ''project_id'' UuidColumn PNone, col ''name'' StrColumn PNone, col ''url'' StrColumn PNone,
      col ''default_branch'' StrColumn (PStr ''main''), col ''vcs'' StrColumn (PStr ''git''),
      col ''last_inspected_at'' NoFamily PNone, col ''meta'' JsonDict (PDict [])]"

definition change_columns :: "column list" where
  "change_columns =
     [col ''repository_id'' UuidColumn PNone, col ''external_id'' StrColumn PNone, col ''commit_sha'' StrColumn PNone,
      col ''author'' StrColumn PNone, col ''title'' StrColumn PNone, col ''description'' StrColumn PNone,
      col ''status'' StrColumn (PStr ''OPEN''), col ''changed_at'' NoFamily PNone] @ version_columns"

definition task_columns :: "column list" where
  "task_columns =
     [col ''project_id'' UuidColumn PNone, col ''repository_id'' UuidColumn PNone, col ''change_id'' UuidColumn PNone,
      col ''title'' StrColumn PNone, col ''description'' StrColumn PNone, col ''status'' StrColumn (PStr ''CREATED''),
      col ''priority'' StrColumn (PStr ''NORMAL''), col ''requested_by'' StrColumn PNone,
      col ''acceptance_criteria'' JsonDict (PList [])] @ version_columns"

definition constitution_columns :: "column list" where
  "constitution_columns =
     [col ''project_id'' UuidColumn PNone, col ''title'' StrColumn PNone, col ''statement'' StrColumn PNone,
      col ''status'' StrColumn (PStr ''DRAFT''), col ''owner_scope'' StrColumn (PStr ''GOVERNANCE'')]
     @ version_columns @ [col ''ratified_at'' NoFamily PNone]"

definition constitution_claim_columns :: "column list" where
  "constitution_claim_columns =
     [col ''constitution_id'' UuidColumn PNone, col ''category'' StrColumn (PStr ''GOVERNANCE''),
      col ''rule'' StrColumn PNone, col ''severity'' StrColumn (PStr ''MEDIUM''), col ''position'' NoFamily (PInt 0)]
     @ version_columns"

definition intent_ledger_columns :: "column list" where
  "intent_ledger_columns =
     [col ''project_id'' UuidColumn PNone, col ''task_id'' UuidColumn PNone, col ''title'' StrColumn PNone,
      col ''source'' StrColumn (PStr ''HUMAN''), col ''status'' StrColumn (PStr ''DRAFT''),
      col ''owner_scope'' StrColumn (PStr ''USER_INTENT''), col ''created_by'' StrColumn PNone] @ version_columns"

definition intent_item_columns :: "column list" where
  "intent_item_columns =
     [col ''intent_ledger_id'' UuidColumn PNone, col ''task_id'' UuidColumn PNone, col ''statement'' StrColumn PNone,
      col ''kind'' StrColumn (PStr ''REQUIREMENT''), col ''priority'' StrColumn (PStr ''NORMAL''),
      col ''status'' StrColumn (PStr ''PENDING''), col ''authorized'' NoFamily (PBool False),
      col ''source_ref'' StrColumn PNone]"

definition semantic_impact_columns :: "column list" where
  "semantic_impact_columns =
     [col ''task_id'' UuidColumn PNone, col ''change_id'' UuidColumn PNone, col ''intent_item_id'' UuidColumn PNone,
      col ''description'' StrColumn PNone, col ''scope'' JsonDict (PDict []),
      col ''impacted_behaviors'' JsonDict (PList []), col ''impacted_artifacts'' JsonDict (PList []),
      col ''status'' StrColumn (PStr ''DRAFT''), col ''owner_scope'' StrColumn (PStr ''IMPACT'')] @ version_columns"

definition verification_plan_columns :: "column list" where
  "verification_plan_columns =
     [col ''change_id'' UuidColumn PNone, col ''task_id'' UuidColumn PNone, col ''intent_ledger_id'' UuidColumn PNone,
      col ''title'' StrColumn PNone, col ''strategy'' JsonDict (PDict []),
      col ''verification_contract'' JsonDict (PDict []), col ''status'' StrColumn (PStr ''DRAFT''),
      col ''owner_scope'' StrColumn (PStr ''VERIFICATION_CONTRACT''), col ''created_by'' StrColumn PNone]
     @ version_columns"

definition verification_case_columns :: "column list" where
  "verification_case_columns =
     [col ''verification_plan_id'' UuidColumn PNone, col ''change_id'' UuidColumn PNone, col ''name'' StrColumn PNone,
      col ''kind'' StrColumn (PStr ''STATIC_ANALYSIS''), col ''description'' StrColumn PNone,
      col ''method'' StrColumn PNone, col ''expected'' StrColumn PNone, col ''threshold'' NoFamily PNone,
      col ''status'' StrColumn (PStr ''PENDING''), col ''independent'' NoFamily (PBool True),
      col ''owning_module'' StrColumn PNone] @ version_columns"

definition certificate_columns :: "column list" where
  "certificate_columns =
     [col ''task_id'' UuidColumn PNone, col ''project_id'' UuidColumn PNone, col ''claim_id'' UuidColumn PNone,
      col ''verification_plan_id'' UuidColumn PNone, col ''intent_alignment_id'' UuidColumn PNone,
      unique_col ''certificate_key'', col ''status'' StrColumn (PStr ''DRAFT''),
      col ''owner_scope'' StrColumn (PStr ''CERTIFICATION''), col ''signature'' StrColumn PNone,
      col ''evidence_hash'' StrColumn PNone, col ''payload'' JsonDict (PDict []), col ''issued_at'' NoFamily PNone]
     @ version_columns"

fun own_columns :: "model \<Rightarrow> column list" where
  "own_columns MProject = project_columns"
| "own_columns MRepository = repository_columns"
| "own_columns MChange = change_columns"
| "own_columns MTask = task_columns"
| "own_columns MConstitution = constitution_columns"
| "own_columns MConstitutionClaim = constitution_claim_columns"
| "own_columns MIntentLedger = intent_ledger_columns"
| "own_columns MIntentItem = intent_item_columns"
| "own_columns MSemanticImpact = semantic_impact_columns"
| "own_columns MVerificationPlan = verification_plan_columns"
| "own_columns MVerificationCase = verification_case_columns"
| "own_columns MCertificate = certificate_columns"

definition columns :: "model \<Rightarrow> column list" where
  "columns m = mixin_columns @ own_columns m"

text \<open>\<open>type(obj).__name__\<close>.\<close>

fun model_name :: "model \<Rightarrow> string" where
  "model_name MProject = ''Project''"
| "model_name MRepository = ''Repository''"
| "model_name MChange = ''Change''"
| "model_name MTask = ''Task''"
| "model_name MConstitution = ''Constitution''"
| "model_name MConstitutionClaim = ''ConstitutionClaim''"
| "model_name MIntentLedger = ''IntentLedger''"
| "model_name MIntentItem = ''IntentItem''"
| "model_name MSemanticImpact = ''SemanticImpact''"
| "model_name MVerificationPlan = ''VerificationPlan''"
| "model_name MVerificationCase = ''VerificationCase''"
| "model_name MCertificate = ''Certificate''"

lemmas column_defs =
  columns_def mixin_columns_def version_columns_def project_columns_def repository_columns_def change_columns_def
  task_columns_def constitution_columns_def constitution_claim_columns_def intent_ledger_columns_def
  intent_item_columns_def semantic_impact_columns_def verification_plan_columns_def verification_case_columns_def
  certificate_columns_def

section \<open>Objects\<close>

record orm =
  ob_model :: model
  ob_attrs :: "string \<Rightarrow> pyval"

definition attr :: "orm \<Rightarrow> string \<Rightarrow> pyval" where
  "attr r f = ob_attrs r f"

definition set_attr :: "string \<Rightarrow> pyval \<Rightarrow> orm \<Rightarrow> orm" where
  "set_attr f v r = r\<lparr>ob_attrs := (ob_attrs r)(f := v)\<rparr>"

text \<open>A constructor call with keyword arguments; an attribute that is not given is \<open>None\<close> until the flush.\<close>

definition new_object :: "model \<Rightarrow> json \<Rightarrow> orm" where
  "new_object m args = \<lparr>ob_model = m, ob_attrs = get_key args\<rparr>"

definition has_column :: "model \<Rightarrow> string \<Rightarrow> bool" where
  "has_column m f \<longleftrightarrow> f \<in> col_name ` set (columns m)"

definition column_of :: "model \<Rightarrow> string \<Rightarrow> column option" where
  "column_of m f = find (\<lambda>c. col_name c = f) (columns m)"

text \<open>A text column read as \<open>x or ''\<close>, the integer of \<open>version\<close> (a column that is never null), and the primary key.\<close>

fun text_of :: "pyval \<Rightarrow> string" where
  "text_of (PStr s) = s"
| "text_of _ = []"

fun int_of :: "pyval \<Rightarrow> int" where
  "int_of (PInt i) = i"
| "int_of _ = 0"

definition row_id :: "orm \<Rightarrow> string" where
  "row_id r = text_of (attr r ''id'')"

definition row_version :: "orm \<Rightarrow> int" where
  "row_version r = int_of (attr r ''version'')"

section \<open>The session (repo/base.py)\<close>

record session =
  se_host :: world
  se_rows :: "orm list"

definition same_row :: "orm \<Rightarrow> orm \<Rightarrow> bool" where
  "same_row a b \<longleftrightarrow> ob_model a = ob_model b \<and> row_id a = row_id b"

definition repo_get :: "session \<Rightarrow> model \<Rightarrow> string \<Rightarrow> orm option" where
  "repo_get s m k = find (\<lambda>r. ob_model r = m \<and> row_id r = k) (se_rows s)"

text \<open>Column defaults at the flush of a new object: an attribute that was not set takes the default of its column.\<close>

definition with_defaults :: "orm \<Rightarrow> orm" where
  "with_defaults r = r\<lparr>ob_attrs := (\<lambda>f. if ob_attrs r f = PNone
     then (case column_of (ob_model r) f of Some c \<Rightarrow> col_default c | None \<Rightarrow> PNone) else ob_attrs r f)\<rparr>"

definition repo_save :: "orm \<Rightarrow> session \<Rightarrow> orm \<times> session" where
  "repo_save r s =
     (let (k, w) = uuid4 (se_host s); row = with_defaults (set_attr ''id'' (PStr k) r)
      in (row, s\<lparr>se_host := w, se_rows := se_rows s @ [row]\<rparr>))"

text \<open>The flush of an object the session knows writes its row.\<close>

definition update_row :: "orm \<Rightarrow> session \<Rightarrow> session" where
  "update_row r s = s\<lparr>se_rows := map (\<lambda>x. if same_row r x then r else x) (se_rows s)\<rparr>"

text \<open>Equality filters; the rows come ordered by their primary key.\<close>

definition repo_list :: "session \<Rightarrow> model \<Rightarrow> json \<Rightarrow> orm list" where
  "repo_list s m filters =
     sort_key row_id (filter (\<lambda>r. ob_model r = m \<and> (\<forall>(f, v)\<in>set filters. attr r f = v)) (se_rows s))"

definition session_now :: "session \<Rightarrow> int \<times> session" where
  "session_now s = (let (t, w) = now (se_host s) in (t, s\<lparr>se_host := w\<rparr>))"

definition session_uuid :: "session \<Rightarrow> string \<times> session" where
  "session_uuid s = (let (k, w) = uuid4 (se_host s) in (k, s\<lparr>se_host := w\<rparr>))"

text \<open>A session without rows.\<close>

definition empty_session :: "world \<Rightarrow> session" where
  "empty_session w = \<lparr>se_host = w, se_rows = []\<rparr>"

end
