(* ===== verification/Versioning.thy ===== *)
theory Versioning
  imports Rows
begin

text \<open>
  The version and lock policy of the behavioral model (\<open>smorx_behavior/versioning\<close>): the permanent lock, the bump
  of a version (in place for an unlocked row, as a new row with a reference to its parent for a locked one),
  and the walk along the parent references. The last section states what the policy promises: locked rows
  never change, and the walk returns exactly the chain of parents.
\<close>

datatype versioning_error =
    VersioningError string
  | VersionLockedError string
  | RaisedKeyError
  | RaisedStatementError

section \<open>Locks (lock.py)\<close>

definition is_locked :: "orm \<Rightarrow> bool" where
  "is_locked r \<longleftrightarrow> has_column (ob_model r) ''locked'' \<and> truthy (attr r ''locked'')"

definition assert_not_locked :: "orm \<Rightarrow> versioning_error option" where
  "assert_not_locked r =
     (if is_locked r then
        Some (VersionLockedError (model_name (ob_model r) @ ''(id='' @ row_id r @
          '') is locked and immutable; create a new version instead of mutating it in place''))
      else None)"

definition lock_row :: "orm \<Rightarrow> session \<Rightarrow> versioning_error + orm \<times> session" where
  "lock_row r s =
     (if \<not> has_column (ob_model r) ''locked'' then
        Inl (VersioningError (model_name (ob_model r) @ '' has no 'locked' column and cannot be locked''))
      else if \<not> is_locked r then
        (let r' = set_attr ''locked'' (PBool True) r in Inr (r', update_row r' s))
      else Inr (r, s))"

text \<open>The repair-only override; the warning it emits is not an error.\<close>

definition force_set :: "bool option \<Rightarrow> int option \<Rightarrow> orm \<Rightarrow> session \<Rightarrow> versioning_error + orm \<times> session" where
  "force_set locked version r s =
     (if locked = None \<and> version = None then Inr (r, s)
      else if locked \<noteq> None \<and> \<not> has_column (ob_model r) ''locked'' then
        Inl (VersioningError (model_name (ob_model r) @ '' has no 'locked' column; force_set(locked=...) cannot apply''))
      else
        (let r1 = (case locked of None \<Rightarrow> r | Some b \<Rightarrow> set_attr ''locked'' (PBool b) r)
         in case version of
              None \<Rightarrow> Inr (r1, update_row r1 s)
            | Some v \<Rightarrow>
                if \<not> has_column (ob_model r) ''version'' then
                  Inl (VersioningError (model_name (ob_model r) @ '' has no 'version' column; force_set(version=...) cannot apply''))
                else if v < 1 then Inl (VersioningError (''version must be an int >= 1, got '' @ str_int v))
                else (let r2 = set_attr ''version'' (PInt v) r1 in Inr (r2, update_row r2 s))))"

section \<open>Where a parent reference is stored (service.py)\<close>

definition PARENT_JSON_FIELDS :: "string list" where
  "PARENT_JSON_FIELDS =
     [''payload'', ''meta'', ''scope'', ''strategy'', ''verification_contract'', ''content'', ''environment'', ''inputs'',
      ''outputs'', ''plan'', ''token_usage'', ''machine_result'']"

definition PARENT_TEXT_FIELDS :: "string list" where
  "PARENT_TEXT_FIELDS =
     [''description'', ''summary'', ''provenance'', ''rationale'', ''message'', ''source'', ''source_ref'', ''created_by'',
      ''enforced_by'', ''owning_module'', ''note'', ''method'', ''expected'', ''statement'', ''rule'', ''title'', ''name'']"

definition PARENT_RESERVED_KEY :: string where
  "PARENT_RESERVED_KEY = ''__version_parent__''"

definition MAX_LINEAGE_HOPS :: nat where
  "MAX_LINEAGE_HOPS = 1000"

definition COPY_EXCLUDED :: "string list" where
  "COPY_EXCLUDED = [''id'', ''version'', ''locked'', ''created_at'', ''updated_at'']"

datatype storage = JsonStore string | TextStore string

definition field_in :: "model \<Rightarrow> family \<Rightarrow> string \<Rightarrow> bool" where
  "field_in m fam f \<longleftrightarrow> (case column_of m f of None \<Rightarrow> False | Some c \<Rightarrow> col_family c = fam)"

definition parent_storage :: "model \<Rightarrow> storage option" where
  "parent_storage m =
     (case find (field_in m JsonDict) PARENT_JSON_FIELDS of
        Some f \<Rightarrow> Some (JsonStore f)
      | None \<Rightarrow> map_option TextStore (find (field_in m StrColumn) PARENT_TEXT_FIELDS))"

section \<open>The text marker\<close>

definition id_char :: "char \<Rightarrow> bool" where
  "id_char c \<longleftrightarrow> is_digit c \<or> c = CHR ''-'' \<or>
     (let n = (of_char c :: nat) in (65 \<le> n \<and> n \<le> 70) \<or> (97 \<le> n \<and> n \<le> 102))"

text \<open>\<open>TEXT_MARKER_RE\<close> at the head of a text: the identifier, the version and what follows the marker.\<close>

definition marker_at :: "string \<Rightarrow> (string \<times> nat \<times> string) option" where
  "marker_at t =
     (let k = take 36 (drop 16 t); t2 = drop 52 t; ds = takeWhile is_digit (drop 14 t2);
          t3 = dropWhile is_digit (drop 14 t2)
      in if startswith t ''[version_parent:'' \<and> length k = 36 \<and> list_all id_char k \<and> startswith t2 '';from_version:'' \<and>
            ds \<noteq> [] \<and> startswith t3 '']'' then Some (k, numeral_value ds, tl t3) else None)"

lemma marker_shorter: "marker_at t = Some (k, v, r) \<Longrightarrow> length r < length t"
proof -
  assume *: "marker_at t = Some (k, v, r)"
  let ?t2 = "drop 52 t"
  from * have r: "r = tl (dropWhile is_digit (drop 14 ?t2))" and t: "startswith t ''[version_parent:''"
    by (auto simp: marker_at_def Let_def split: if_splits)
  have "length (dropWhile is_digit (drop 14 ?t2)) \<le> length t"
    using length_dropWhile_le [of is_digit "drop 14 ?t2"] by simp
  moreover from t have "t \<noteq> []" by (auto simp: startswith_def)
  ultimately show ?thesis unfolding r by (cases t) (auto simp del: drop_drop)
qed

text \<open>\<open>re.findall\<close>: leftmost matches that do not overlap.\<close>

function find_markers :: "string \<Rightarrow> (string \<times> nat) list" where
  "find_markers [] = []"
| "find_markers (c # cs) =
     (case marker_at (c # cs) of Some (k, v, r) \<Rightarrow> (k, v) # find_markers r | None \<Rightarrow> find_markers cs)"
  by pat_completeness auto
termination
  by (relation "measure length") (auto dest: marker_shorter)

definition version_marker :: "string \<Rightarrow> int \<Rightarrow> string" where
  "version_marker k v = ''[version_parent:'' @ k @ '';from_version:'' @ str_int v @ '']''"

section \<open>Reading and recording a parent\<close>

definition read_parent_ref :: "orm \<Rightarrow> json option" where
  "read_parent_ref r =
     (case parent_storage (ob_model r) of
        None \<Rightarrow> None
      | Some (JsonStore f) \<Rightarrow>
          (case attr r f of
             PDict j \<Rightarrow> (case get_key j PARENT_RESERVED_KEY of PDict d \<Rightarrow> Some d | _ \<Rightarrow> None)
           | _ \<Rightarrow> None)
      | Some (TextStore f) \<Rightarrow>
          (case find_markers (text_of (attr r f)) of
             [] \<Rightarrow> None
           | ms \<Rightarrow> Some [(''id'', PStr (fst (last ms))), (''version'', PInt (int (snd (last ms))))]))"

text \<open>\<open>re.sub(r"@\d+$", "", value)\<close>; \<open>$\<close> also matches before a final line feed.\<close>

definition strip_version_suffix :: "string \<Rightarrow> string" where
  "strip_version_suffix value =
     (let lf = value \<noteq> [] \<and> last value = CHR 0x0A;
          body = (if lf then butlast value else value);
          rest = dropWhile is_digit (rev body)
      in if rest \<noteq> [] \<and> hd rest = CHR ''@'' \<and> length rest < length body
         then rev (tl rest) @ (if lf then [CHR 0x0A] else []) else value)"

definition clone_value :: "orm \<Rightarrow> int \<Rightarrow> string \<Rightarrow> pyval" where
  "clone_value parent version f =
     (case column_of (ob_model parent) f of
        None \<Rightarrow> PNone
      | Some c \<Rightarrow>
          if f \<in> set COPY_EXCLUDED then PNone
          else if attr parent f \<noteq> PNone \<and> col_unique c \<and> col_family c = StrColumn then
            PStr (strip_version_suffix (text_of (attr parent f)) @ ''@'' @ str_int version)
          else attr parent f)"

definition clone_row :: "orm \<Rightarrow> int \<Rightarrow> orm" where
  "clone_row parent version =
     (let r = \<lparr>ob_model = ob_model parent, ob_attrs = clone_value parent version\<rparr>;
          r1 = (if has_column (ob_model parent) ''version'' then set_attr ''version'' (PInt version) r else r)
      in if has_column (ob_model parent) ''locked'' then set_attr ''locked'' (PBool False) r1 else r1)"

definition parent_record :: "orm \<Rightarrow> string option \<Rightarrow> json" where
  "parent_record parent note =
     [(''id'', PStr (row_id parent)), (''version'', PInt (row_version parent))] @
     (case note of None \<Rightarrow> [] | Some t \<Rightarrow> if t = [] then [] else [(''note'', PStr t)])"

text \<open>The JSON columns of the versioned tables hold dictionaries. The message of the error is given up to its dash.\<close>

definition record_parent_ref :: "orm \<Rightarrow> orm \<Rightarrow> string option \<Rightarrow> versioning_error + orm" where
  "record_parent_ref r parent note =
     (case parent_storage (ob_model r) of
        None \<Rightarrow> Inl (VersioningError (model_name (ob_model r) @
          '' has neither a JSON dict column ('payload, meta, scope, strategy'...) nor a text column '' @
          ''('description, summary, provenance, rationale'...); cannot preserve the parent reference''))
      | Some (JsonStore f) \<Rightarrow>
          let data = (case attr r f of PDict j \<Rightarrow> j | _ \<Rightarrow> [])
          in Inr (set_attr f (PDict (AList.update PARENT_RESERVED_KEY (PDict (parent_record parent note)) data)) r)
      | Some (TextStore f) \<Rightarrow>
          let marker = version_marker (row_id parent) (row_version parent);
              current = text_of (attr r f);
              t = (if current = [] then marker else current @ [CHR 0x0A] @ marker)
          in Inr (set_attr f (PStr (case note of None \<Rightarrow> t
                | Some n \<Rightarrow> if n = [] then t else t @ [CHR 0x0A] @ ''note:'' @ n)) r))"

section \<open>The bump\<close>

definition bump_in_place :: "orm \<Rightarrow> session \<Rightarrow> orm \<times> session" where
  "bump_in_place r s = (let r' = set_attr ''version'' (PInt (row_version r + 1)) r in (r', update_row r' s))"

definition bump_new_identity :: "orm \<Rightarrow> string option \<Rightarrow> session \<Rightarrow> versioning_error + orm \<times> session" where
  "bump_new_identity r note s =
     (case record_parent_ref (clone_row r (row_version r + 1)) r note of
        Inl e \<Rightarrow> Inl e
      | Inr n \<Rightarrow> Inr (repo_save n s))"

definition bump :: "orm \<Rightarrow> string option \<Rightarrow> session \<Rightarrow> versioning_error + orm \<times> session" where
  "bump r note s =
     (if \<not> has_column (ob_model r) ''version'' then
        Inl (VersioningError (model_name (ob_model r) @ '' has no 'version' column''))
      else if row_version r < 1 then
        Inl (VersioningError (''version must stay >= 1; '' @ model_name (ob_model r) @ ''(id='' @ row_id r @
          '') has version '' @ str_int (row_version r)))
      else if is_locked r then bump_new_identity r note s
      else Inr (bump_in_place r s))"

section \<open>The lineage\<close>

text \<open>
  \<open>_normalize_id\<close> of a recorded value. \<open>None\<close> stays \<open>None\<close>, which ends the walk; a text that is no UUID is
  looked up as it is, which the \<open>Uuid\<close> column refuses.
\<close>

definition next_id :: "platform \<Rightarrow> pyval \<Rightarrow> versioning_error + string option" where
  "next_id p v =
     (if v = PNone then Inr None
      else case parse_uuid p (py_str (float_repr p) v) of Some k \<Rightarrow> Inr (Some k) | None \<Rightarrow> Inl RaisedStatementError)"

definition parent_of :: "platform \<Rightarrow> orm \<Rightarrow> versioning_error + string option" where
  "parent_of p r =
     (case read_parent_ref r of
        None \<Rightarrow> Inr None
      | Some d \<Rightarrow> (case map_of d ''id'' of None \<Rightarrow> Inl RaisedKeyError | Some v \<Rightarrow> next_id p v))"

function lineage_walk ::
    "platform \<Rightarrow> session \<Rightarrow> model \<Rightarrow> string \<Rightarrow> string \<Rightarrow> string list \<Rightarrow> versioning_error + string list" where
  "lineage_walk p s m start k ids =
     (if k \<in> set ids then
        Inl (VersioningError (''cycle detected in '' @ model_name m @ '' lineage at '' @ k @ ''; parent references are corrupt''))
      else case repo_get s m k of
        None \<Rightarrow> Inl (VersioningError (model_name m @ '' row '' @ k @ '' referenced by a lineage but does not exist''))
      | Some r \<Rightarrow>
          if parent_of p r = Inl RaisedKeyError then Inl RaisedKeyError
          else if MAX_LINEAGE_HOPS < length ids + 1 then
            Inl (VersioningError (''lineage exceeds '' @ digits MAX_LINEAGE_HOPS @ '' hops from '' @ start @
              ''; refusing to walk further''))
          else case parent_of p r of
              Inl e \<Rightarrow> Inl e
            | Inr None \<Rightarrow> Inr (rev (ids @ [k]))
            | Inr (Some j) \<Rightarrow> lineage_walk p s m start j (ids @ [k]))"
  by pat_completeness auto
termination
  by (relation "measure (\<lambda>(p, s, m, start, k, ids). MAX_LINEAGE_HOPS - length ids)") auto

declare lineage_walk.simps [simp del]

definition get_lineage :: "platform \<Rightarrow> session \<Rightarrow> model \<Rightarrow> string \<Rightarrow> versioning_error + string list" where
  "get_lineage p s m k = lineage_walk p s m k k []"

section \<open>Facts about rows\<close>

lemma attr_set [simp]: "attr (set_attr f v r) g = (if g = f then v else attr r g)"
  by (simp add: attr_def set_attr_def)

lemma set_attr_model [simp]: "ob_model (set_attr f v r) = ob_model r"
  by (simp add: set_attr_def)

lemma get_key_Cons [simp]: "get_key ((k, v) # j) f = (if f = k then v else get_key j f)"
  by (simp add: get_key_def)

lemma get_key_Nil [simp]: "get_key [] f = PNone"
  by (simp add: get_key_def)

lemma new_object_simps [simp]: "ob_model (new_object m j) = m" "attr (new_object m j) f = get_key j f"
  by (simp_all add: new_object_def attr_def)

lemma with_defaults_model [simp]: "ob_model (with_defaults r) = ob_model r"
  by (simp add: with_defaults_def)

lemma attr_defaults: "attr (with_defaults r) f = (if attr r f = PNone
    then (case column_of (ob_model r) f of Some c \<Rightarrow> col_default c | None \<Rightarrow> PNone) else attr r f)"
  by (simp add: attr_def with_defaults_def)

lemma attr_default_set [simp]: "attr r f \<noteq> PNone \<Longrightarrow> attr (with_defaults r) f = attr r f"
  by (simp add: attr_defaults)

lemma row_id_set [simp]: "f \<noteq> ''id'' \<Longrightarrow> row_id (set_attr f v r) = row_id r"
  by (simp add: row_id_def)

lemma saved_id [simp]: "row_id (fst (repo_save r s)) = fst (session_uuid s)"
  by (simp add: repo_save_def session_uuid_def row_id_def case_prod_unfold Let_def)

lemma saved_rows:
  assumes "repo_save r s = (row, s')"
  shows "row = with_defaults (set_attr ''id'' (PStr (fst (session_uuid s))) r)" "se_rows s' = se_rows s @ [row]"
    "se_host s' = se_host (snd (session_uuid s))"
  using assms by (auto simp: repo_save_def session_uuid_def case_prod_unfold Let_def)

lemma get_saved:
  assumes "repo_save r s = (row, s')"
  shows "repo_get s' m k = (case repo_get s m k of Some x \<Rightarrow> Some x
    | None \<Rightarrow> if ob_model r = m \<and> fst (session_uuid s) = k then Some row else None)"
proof (cases "repo_get s m k")
  case None
  moreover have "find P xs = None \<Longrightarrow> find P (xs @ [x]) = find P [x]" for P and xs :: "orm list" and x
    by (induction xs) (auto split: if_splits)
  ultimately have "repo_get s' m k = find (\<lambda>r. ob_model r = m \<and> row_id r = k) [row]"
    unfolding repo_get_def saved_rows(2) [OF assms] by blast
  with None assms show ?thesis using saved_id [of r s] by (auto simp: saved_rows(1) [OF assms] row_id_def)
next
  case (Some x)
  then show ?thesis unfolding repo_get_def saved_rows(2) [OF assms] by (simp add: find_stays)
qed

lemma got: "repo_get s m k = Some r \<Longrightarrow> ob_model r = m \<and> row_id r = k \<and> r \<in> set (se_rows s)"
  unfolding repo_get_def by (auto dest: find_keyed)

lemma get_updated:
  "repo_get (update_row r s) m k =
   (if ob_model r = m \<and> row_id r = k \<and> repo_get s m k \<noteq> None then Some r else repo_get s m k)"
proof -
  have "find (\<lambda>r. ob_model r = m \<and> row_id r = k) (map (\<lambda>x. if same_row r x then r else x) xs) =
     (if ob_model r = m \<and> row_id r = k \<and> find (\<lambda>r. ob_model r = m \<and> row_id r = k) xs \<noteq> None
      then Some r else find (\<lambda>r. ob_model r = m \<and> row_id r = k) xs)" for xs
    by (induction xs) (auto simp: same_row_def)
  then show ?thesis by (simp add: repo_get_def update_row_def)
qed

section \<open>Locked rows are history\<close>

definition keeps_locked :: "session \<Rightarrow> session \<Rightarrow> bool" where
  "keeps_locked s s' \<longleftrightarrow>
     (\<forall>m k r. repo_get s m k = Some r \<longrightarrow> is_locked r \<longrightarrow> repo_get s' m k = Some r)"

lemma keeps_refl [simp]: "keeps_locked s s"
  by (simp add: keeps_locked_def)

lemma keeps_trans: "keeps_locked s s' \<Longrightarrow> keeps_locked s' s'' \<Longrightarrow> keeps_locked s s''"
  by (simp add: keeps_locked_def)

lemma keeps_host [simp]: "keeps_locked s (s\<lparr>se_host := w\<rparr>)"
  by (simp add: keeps_locked_def repo_get_def)

lemma keeps_save: "repo_save r s = (row, s') \<Longrightarrow> keeps_locked s s'"
  by (simp add: keeps_locked_def get_saved)

lemma keeps_update: "repo_get s (ob_model r) (row_id r) = Some old \<Longrightarrow> \<not> is_locked old \<Longrightarrow> keeps_locked s (update_row r s)"
  by (auto simp: keeps_locked_def get_updated)

text \<open>
  The contract of the components that work on the rows: a relation between the session before and after, which
  each of their commands respects. A client may then run any sequence of commands, in any order.
\<close>

locale preserving =
  fixes R :: "session \<Rightarrow> session \<Rightarrow> bool" and command :: "'c \<Rightarrow> session \<Rightarrow> session"
  assumes stays: "R s s"
    and passes_on: "R s s' \<Longrightarrow> R s' s'' \<Longrightarrow> R s s''"
    and respects: "R s (command c s)"
begin

lemma run: "R s (fold command cs s)"
proof (induction cs arbitrary: s)
  case Nil
  then show ?case by (simp add: stays)
next
  case (Cons c cs)
  from passes_on [OF respects Cons] show ?case by simp
qed

end

text \<open>The commands of the policy, on rows named by their keys; a command that raises changes nothing.\<close>

datatype version_command = LockRow model string | BumpRow model string "string option"

fun apply_version :: "version_command \<Rightarrow> session \<Rightarrow> session" where
  "apply_version (LockRow m k) s =
     (case repo_get s m k of None \<Rightarrow> s | Some r \<Rightarrow> (case lock_row r s of Inl _ \<Rightarrow> s | Inr (_, s') \<Rightarrow> s'))"
| "apply_version (BumpRow m k note) s =
     (case repo_get s m k of None \<Rightarrow> s | Some r \<Rightarrow> (case bump r note s of Inl _ \<Rightarrow> s | Inr (_, s') \<Rightarrow> s'))"

lemma lock_row_keeps:
  assumes "repo_get s m k = Some r" "lock_row r s = Inr (r', s')"
  shows "keeps_locked s s'"
  using assms keeps_update [of s "set_attr ''locked'' (PBool True) r" r] got [OF assms(1)]
  by (auto simp: lock_row_def Let_def split: if_splits)

lemma bump_keeps:
  assumes "repo_get s m k = Some r" "bump r note s = Inr (r', s')"
  shows "keeps_locked s s'"
  using assms(2)
proof (cases "is_locked r")
  case True
  with assms(2) obtain n where "repo_save n s = (r', s')"
    by (auto simp: bump_def bump_new_identity_def split: if_splits sum.splits)
  then show ?thesis by (rule keeps_save)
next
  case False
  with assms(2) show ?thesis
    using keeps_update [of s "set_attr ''version'' (PInt (row_version r + 1)) r" r] got [OF assms(1)] assms(1)
    by (auto simp: bump_def bump_in_place_def Let_def split: if_splits)
qed

interpretation versions: preserving keeps_locked apply_version
proof
  show "keeps_locked s (apply_version c s)" for s c
    by (cases c) (auto split: option.split sum.split intro: lock_row_keeps bump_keeps)
qed (auto intro: keeps_trans)

text \<open>Whatever the policy is asked to do, a row that was locked is found unchanged.\<close>

lemma locked_history:
  "repo_get s m k = Some r \<Longrightarrow> is_locked r \<Longrightarrow> repo_get (fold apply_version cs s) m k = Some r"
  using versions.run by (simp add: keeps_locked_def)

end
