(* ===== verification/Lineage.thy ===== *)
theory Lineage
  imports Versioning
begin

text \<open>
  What a bump leaves behind (\<open>smorx_behavior/versioning/service.py\<close>): the reference to the parent is read back
  from the JSON column or from the text marker, and \<open>get_lineage\<close> returns exactly the chain of parents.
\<close>

section \<open>The marker is found again\<close>

definition canonical_id :: "string \<Rightarrow> bool" where
  "canonical_id k \<longleftrightarrow> length k = 36 \<and> list_all id_char k"

lemma takeWhile_digits: "list_all is_digit ds \<Longrightarrow> takeWhile is_digit (ds @ CHR '']'' # r) = ds"
  "list_all is_digit ds \<Longrightarrow> dropWhile is_digit (ds @ CHR '']'' # r) = CHR '']'' # r"
  by (induction ds) (simp_all add: is_digit_def)

lemma marker_at_iff:
  "marker_at t = Some (k, v, r) \<longleftrightarrow>
   (\<exists>ds. t = ''[version_parent:'' @ k @ '';from_version:'' @ ds @ '']'' @ r \<and> canonical_id k \<and> ds \<noteq> [] \<and>
      list_all is_digit ds \<and> v = numeral_value ds)" (is "?l \<longleftrightarrow> (\<exists>ds. ?r ds)")
proof
  assume ?l
  define t2 where "t2 = drop 52 t"
  define ds where "ds = takeWhile is_digit (drop 14 t2)"
  define t3 where "t3 = dropWhile is_digit (drop 14 t2)"
  from \<open>?l\<close> have p: "startswith t ''[version_parent:''" and k: "k = take 36 (drop 16 t)" "length k = 36" "list_all id_char k"
    and f: "startswith t2 '';from_version:''" and d: "ds \<noteq> []" and b: "startswith t3 '']''" and v: "v = numeral_value ds"
    and r: "r = tl t3"
    unfolding t2_def ds_def t3_def by (auto simp: marker_at_def Let_def split: if_splits)
  from p obtain u where u: "t = ''[version_parent:'' @ u" by (auto simp: startswith_iff)
  with k have "k = take 36 u" by simp
  moreover from u have "t2 = drop 36 u" by (simp add: t2_def)
  ultimately have t: "t = ''[version_parent:'' @ k @ t2" using u by (metis append_take_drop_id)
  from f obtain w where w: "t2 = '';from_version:'' @ w" by (auto simp: startswith_iff)
  then have "w = ds @ t3" unfolding ds_def t3_def by simp
  moreover from b r have "t3 = '']'' @ r" by (auto simp: startswith_iff)
  ultimately have "t = ''[version_parent:'' @ k @ '';from_version:'' @ ds @ '']'' @ r" using t w by simp
  moreover have "list_all is_digit ds" unfolding ds_def by (auto simp: list_all_iff dest: set_takeWhileD)
  ultimately show "\<exists>ds. ?r ds" using k d v by (auto simp: canonical_id_def)
next
  assume "\<exists>ds. ?r ds"
  then obtain ds where *: "?r ds" by blast
  then have k: "length k = 36" by (simp add: canonical_id_def)
  from * have "t = ''[version_parent:'' @ k @ '';from_version:'' @ ds @ '']'' @ r" by simp
  with k have "take 36 (drop 16 t) = k" "drop 52 t = '';from_version:'' @ ds @ CHR '']'' # r" "startswith t ''[version_parent:''"
    by (simp_all add: startswith_def)
  then show ?l using * takeWhile_digits [of ds r]
    by (simp add: marker_at_def Let_def canonical_id_def startswith_def)
qed

lemma id_char_no_bracket: "id_char c \<Longrightarrow> c \<noteq> CHR ''[''"
  by (auto simp: id_char_def is_digit_def)

lemma marker_before:
  assumes "x \<noteq> []"
  shows "marker_at (x @ CHR ''['' # y) = map_option (\<lambda>(k, v, r). (k, v, r @ CHR ''['' # y)) (marker_at x)"
proof (cases "marker_at (x @ CHR ''['' # y)")
  case None
  have "marker_at x = None"
  proof (cases "marker_at x")
    case (Some a)
    obtain k v r where a: "a = (k, v, r)" by (cases a)
    with Some obtain ds where "x = ''[version_parent:'' @ k @ '';from_version:'' @ ds @ '']'' @ r" "canonical_id k"
      "ds \<noteq> []" "list_all is_digit ds" "v = numeral_value ds" by (auto simp: marker_at_iff)
    then have "marker_at (x @ CHR ''['' # y) = Some (k, v, r @ CHR ''['' # y)" by (auto simp: marker_at_iff)
    with None show ?thesis by simp
  qed simp
  with None show ?thesis by simp
next
  case (Some a)
  obtain k v r where a: "a = (k, v, r)" by (cases a)
  with Some obtain ds where t: "x @ CHR ''['' # y = ''[version_parent:'' @ k @ '';from_version:'' @ ds @ '']'' @ r"
    and m: "canonical_id k" "ds \<noteq> []" "list_all is_digit ds" "v = numeral_value ds" by (auto simp: marker_at_iff)
  define u where "u = ''version_parent:'' @ k @ '';from_version:'' @ ds @ '']''"
  have "CHR ''['' \<notin> set k" using m(1) by (auto simp: canonical_id_def list_all_iff dest: id_char_no_bracket)
  moreover have "CHR ''['' \<notin> set ds" using m(3) by (auto simp: list_all_iff is_digit_def)
  ultimately have u: "CHR ''['' \<notin> set u" by (simp add: u_def)
  obtain x' where x: "x = CHR ''['' # x'" using assms t by (cases x) auto
  with t have "x' @ CHR ''['' # y = u @ r" by (simp add: u_def)
  then obtain w where "x' = u @ w \<and> w @ CHR ''['' # y = r \<or> x' @ w = u \<and> CHR ''['' # y = w @ r"
    by (auto simp: append_eq_append_conv2)
  then have w: "x' = u @ w" "r = w @ CHR ''['' # y" using u by (cases w; auto)+
  with x m have "marker_at x = Some (k, v, w)" by (auto simp: marker_at_iff u_def)
  with Some a w show ?thesis by simp
qed

lemma marker_head:
  assumes "canonical_id k" "0 \<le> v"
  shows "marker_at (version_marker k v @ t) = Some (k, nat v, t)"
proof -
  have "list_all is_digit (digits (nat v))"
    by (auto simp: list_all_iff is_digit_def dest!: digits_chars)
  moreover have "digits (nat v) \<noteq> []" by (subst digits.simps) simp
  ultimately show ?thesis using assms numeral_value_digits
    by (auto simp: marker_at_iff version_marker_def str_int_def intro!: exI [of _ "digits (nat v)"])
qed

lemma find_markers_marker:
  assumes "canonical_id k" "0 \<le> v"
  shows "find_markers (a @ version_marker k v @ t) = find_markers a @ (k, nat v) # find_markers t"
proof -
  obtain y where y: "version_marker k v @ t = CHR ''['' # y" by (simp add: version_marker_def)
  have h: "marker_at (CHR ''['' # y) = Some (k, nat v, t)" using marker_head [OF assms, of t] y by simp
  have "find_markers (a @ CHR ''['' # y) = find_markers a @ (k, nat v) # find_markers t"
  proof (induction a rule: find_markers.induct)
    case 1
    then show ?case using h by simp
  next
    case (2 c cs)
    then show ?case using marker_before [of "c # cs" y] by (auto split: option.split)
  qed
  with y show ?thesis by simp
qed

lemma find_markers_none: "CHR ''['' \<notin> set t \<Longrightarrow> find_markers t = []"
proof (induction t)
  case (Cons c cs)
  have "marker_at (c # cs) = None" using Cons.prems by (cases "marker_at (c # cs)") (auto simp: marker_at_iff)
  with Cons show ?case by simp
qed simp

section \<open>The parent reference is read back\<close>

lemma storage_field:
  assumes "parent_storage m = Some (JsonStore f) \<or> parent_storage m = Some (TextStore f)"
  shows "f \<noteq> ''id''" "f \<noteq> ''version''" "f \<noteq> ''locked''"
proof -
  from assms have "f \<in> set PARENT_JSON_FIELDS \<union> set PARENT_TEXT_FIELDS"
    by (auto simp: parent_storage_def split: option.splits dest: find_keyed)
  then show "f \<noteq> ''id''" "f \<noteq> ''version''" "f \<noteq> ''locked''"
    by (auto simp: PARENT_JSON_FIELDS_def PARENT_TEXT_FIELDS_def)
qed

definition plain_note :: "string option \<Rightarrow> bool" where
  "plain_note note \<longleftrightarrow> (case note of None \<Rightarrow> True | Some t \<Rightarrow> CHR ''['' \<notin> set t)"

lemma recorded_parent:
  assumes rec: "record_parent_ref c r note = Inr n" and id: "canonical_id (row_id r)" and ver: "0 \<le> row_version r"
    and plain: "plain_note note"
  shows "\<exists>d. read_parent_ref n = Some d \<and> map_of d ''id'' = Some (PStr (row_id r)) \<and>
    map_of d ''version'' = Some (PInt (row_version r))"
    "ob_model n = ob_model c" "attr n ''version'' = attr c ''version''" "attr n ''locked'' = attr c ''locked''"
proof -
  from rec obtain st where st: "parent_storage (ob_model c) = Some st"
    by (auto simp: record_parent_ref_def split: option.splits)
  then show "ob_model n = ob_model c" "attr n ''version'' = attr c ''version''" "attr n ''locked'' = attr c ''locked''"
    using rec storage_field [of "ob_model c"]
    by (auto simp: record_parent_ref_def Let_def split: storage.splits)
  show "\<exists>d. read_parent_ref n = Some d \<and> map_of d ''id'' = Some (PStr (row_id r)) \<and>
    map_of d ''version'' = Some (PInt (row_version r))"
  proof (cases st)
    case (JsonStore f)
    with rec st show ?thesis
      by (auto simp: record_parent_ref_def read_parent_ref_def Let_def get_key_def parent_record_def)
  next
    case (TextStore f)
    define cur where "cur = (if text_of (attr c f) = [] then [] else text_of (attr c f) @ [CHR 0x0A])"
    define tail where "tail = (case note of None \<Rightarrow> [] | Some n \<Rightarrow> if n = [] then [] else CHR 0x0A # ''note:'' @ n)"
    from rec st TextStore have n: "n = set_attr f (PStr (cur @ version_marker (row_id r) (row_version r) @ tail)) c"
      by (auto simp: record_parent_ref_def Let_def cur_def tail_def split: option.splits if_splits)
    have "CHR ''['' \<notin> set tail" using plain by (auto simp: tail_def plain_note_def split: option.splits)
    then have "find_markers (cur @ version_marker (row_id r) (row_version r) @ tail) =
        find_markers cur @ [(row_id r, nat (row_version r))]"
      using find_markers_marker [OF id ver] find_markers_none by simp
    then show ?thesis using st TextStore ver n
      by (cases "find_markers cur") (simp_all add: read_parent_ref_def)
  qed
qed

lemma clone_versioned:
  "ob_model (clone_row r v) = ob_model r"
  "has_column (ob_model r) ''version'' \<Longrightarrow> attr (clone_row r v) ''version'' = PInt v"
  "has_column (ob_model r) ''locked'' \<Longrightarrow> attr (clone_row r v) ''locked'' = PBool False"
  by (simp_all add: clone_row_def Let_def)

lemma defaulted_parent:
  assumes "read_parent_ref n = Some d" "ob_model n = m" 
  shows "read_parent_ref (with_defaults (set_attr ''id'' k n)) = Some d"
proof -
  from assms obtain st where st: "parent_storage (ob_model n) = Some st"
    by (auto simp: read_parent_ref_def split: option.splits)
  have keep: "attr (with_defaults (set_attr ''id'' k n)) f = attr n f" if "f \<noteq> ''id''" "attr n f \<noteq> PNone" for f
    using that by simp
  show ?thesis
  proof (cases st)
    case (JsonStore f)
    with st assms(1) have "attr n f \<noteq> PNone" by (auto simp: read_parent_ref_def)
    with JsonStore st assms(1) storage_field [of "ob_model n" f] show ?thesis by (simp add: read_parent_ref_def keep)
  next
    case (TextStore f)
    with st assms(1) have "attr n f \<noteq> PNone" by (auto simp: read_parent_ref_def)
    with TextStore st assms(1) storage_field [of "ob_model n" f] show ?thesis by (simp add: read_parent_ref_def keep)
  qed
qed

section \<open>The chain of parents\<close>

inductive ancestry :: "platform \<Rightarrow> session \<Rightarrow> model \<Rightarrow> string \<Rightarrow> string list \<Rightarrow> bool" for p s m where
  origin: "repo_get s m k = Some r \<Longrightarrow> parent_of p r = Inr None \<Longrightarrow> ancestry p s m k [k]"
| child: "repo_get s m k = Some r \<Longrightarrow> parent_of p r = Inr (Some j) \<Longrightarrow> ancestry p s m j c \<Longrightarrow> ancestry p s m k (c @ [k])"

lemma ancestry_rows: "ancestry p s m k c \<Longrightarrow> j \<in> set c \<Longrightarrow> repo_get s m j \<noteq> None"
  by (induction rule: ancestry.induct) auto

lemma ancestry_later:
  assumes "ancestry p s m k c" "\<And>j x. repo_get s m j = Some x \<Longrightarrow> repo_get s' m j = Some x"
  shows "ancestry p s' m k c"
  using assms by (induction rule: ancestry.induct) (auto intro: ancestry.intros)

lemma walk_sound:
  "lineage_walk p s m st k acc = Inr ids \<Longrightarrow>
   \<exists>c. ancestry p s m k c \<and> distinct c \<and> set c \<inter> set acc = {} \<and> length acc + length c \<le> MAX_LINEAGE_HOPS \<and>
     ids = c @ rev acc"
proof (induction p s m st k acc arbitrary: ids rule: lineage_walk.induct)
  case (1 p s m st k acc)
  note walk = 1(2) [unfolded lineage_walk.simps [of p s m st k acc]]
  from walk have k: "k \<notin> set acc" by (auto split: if_splits)
  with walk obtain r where r: "repo_get s m k = Some r" by (auto split: option.splits)
  from walk k r have ok: "parent_of p r \<noteq> Inl RaisedKeyError" "\<not> MAX_LINEAGE_HOPS < length acc + 1"
    by (auto split: if_splits)
  show ?case
  proof (cases "parent_of p r")
    case (Inl e)
    with walk k r ok show ?thesis by simp
  next
    case par: (Inr nx)
    show ?thesis
    proof (cases nx)
      case None
      with walk k r ok par have "ids = [k] @ rev acc" by simp
      moreover from r par None have "ancestry p s m k [k]" by (auto intro: ancestry.intros)
      ultimately show ?thesis using k ok by (intro exI [of _ "[k]"]) auto
    next
      case (Some j)
      with walk k r ok par have "lineage_walk p s m st j (acc @ [k]) = Inr ids" by simp
      from 1(1) [OF k r _ ok(2) _ _ this] ok par Some obtain c where
        "ancestry p s m j c" "distinct c" "set c \<inter> set (acc @ [k]) = {}"
        "length (acc @ [k]) + length c \<le> MAX_LINEAGE_HOPS" "ids = c @ rev (acc @ [k])" by auto
      then show ?thesis using k r par Some by (intro exI [of _ "c @ [k]"]) (auto intro: ancestry.intros)
    qed
  qed
qed

lemma walk_complete:
  assumes "ancestry p s m k c" "distinct c" "set c \<inter> set acc = {}" "length acc + length c \<le> MAX_LINEAGE_HOPS"
  shows "lineage_walk p s m st k acc = Inr (c @ rev acc)"
  using assms
proof (induction arbitrary: acc rule: ancestry.induct)
  case (origin k r)
  then show ?case by (subst lineage_walk.simps) simp
next
  case (child k r j c)
  then have "lineage_walk p s m st j (acc @ [k]) = Inr (c @ rev (acc @ [k]))" by (intro child.IH) auto
  with child show ?case by (subst lineage_walk.simps) simp
qed

lemma lineage_iff:
  "get_lineage p s m k = Inr ids \<longleftrightarrow> ancestry p s m k ids \<and> distinct ids \<and> length ids \<le> MAX_LINEAGE_HOPS"
  using walk_sound [of p s m k k "[]" ids] walk_complete [of p s m k ids "[]" k]
  by (auto simp: get_lineage_def)

text \<open>
  The walk returns the identifiers exactly when they are the chain of the recorded parents from the oldest to
  the given row, without a repetition and within the bound of hops: a cycle, a missing row and a longer chain
  are errors, and every chain within the bound is found.
\<close>

theorem lineage_exact:
  "get_lineage p s m k = Inr ids \<longleftrightarrow> ancestry p s m k ids \<and> distinct ids \<and> length ids \<le> MAX_LINEAGE_HOPS"
  by (rule lineage_iff)

section \<open>A bump extends the lineage\<close>

lemma versioned_models: "has_column m ''locked'' \<Longrightarrow> has_column m ''version''"
  "has_column m ''version'' \<Longrightarrow> parent_storage m \<noteq> None"
proof -
  have "has_column m ''locked'' \<longrightarrow> has_column m ''version''" by (cases m; hypsubst; code_simp)
  then show "has_column m ''locked'' \<Longrightarrow> has_column m ''version''" ..
  have "has_column m ''version'' \<longrightarrow> parent_storage m \<noteq> None" by (cases m; hypsubst; code_simp)
  then show "has_column m ''version'' \<Longrightarrow> parent_storage m \<noteq> None" ..
qed

lemma bump_locked:
  assumes row: "repo_get s m k = Some r" and locked: "is_locked r" and ver: "1 \<le> row_version r"
    and id: "canonical_id k" and plain: "plain_note note"
  obtains c n s' d where "bump r note s = Inr (n, s')" "repo_save c s = (n, s')" "ob_model c = m"
    "read_parent_ref n = Some d" "map_of d ''id'' = Some (PStr k)" "row_version n = row_version r + 1" "\<not> is_locked n"
proof -
  have m: "ob_model r = m" "row_id r = k" using got [OF row] by simp_all
  have cols: "has_column m ''locked''" using locked m by (simp add: is_locked_def)
  note cols = cols versioned_models(1) [OF cols] versioned_models(2) [OF versioned_models(1) [OF cols]]
  define c0 where "c0 = clone_row r (row_version r + 1)"
  have c0: "ob_model c0 = m" "attr c0 ''version'' = PInt (row_version r + 1)" "attr c0 ''locked'' = PBool False"
    using clone_versioned [of r "row_version r + 1"] cols m by (simp_all add: c0_def)
  have "\<exists>c. record_parent_ref c0 r note = Inr c"
    using cols(3) c0(1) by (auto simp: record_parent_ref_def Let_def split: storage.splits)
  then obtain c where c: "record_parent_ref c0 r note = Inr c" by blast
  have "0 \<le> row_version r" "canonical_id (row_id r)" using ver id m by simp_all
  note rec = recorded_parent [OF c this(2) this(1) plain]
  from rec(1) obtain d where d: "read_parent_ref c = Some d" "map_of d ''id'' = Some (PStr k)" using m by auto
  obtain n s' where n: "repo_save c s = (n, s')" by fastforce
  note n' = saved_rows(1) [OF n]
  have "bump r note s = Inr (n, s')"
    using ver cols locked m c n by (simp add: bump_def bump_new_identity_def c0_def)
  moreover have "read_parent_ref n = Some d" using defaulted_parent [OF d(1) refl] n' by simp
  moreover have "row_version n = row_version r + 1" "\<not> is_locked n"
    using rec(2-4) c0 by (simp_all add: n' row_version_def is_locked_def)
  ultimately show thesis using that n rec(2) c0(1) d by blast
qed

text \<open>
  C11. Bumping a locked row succeeds: the row stays as it is, a new unlocked row with the next version appears under
  a fresh identifier, and its lineage is that of the bumped row followed by the new one. The note must not
  contain an opening bracket, which would hide the reference to the parent, and the lineage so far must be
  shorter than the limit of the walk.
\<close>

theorem bump_extends_the_lineage:
  assumes row: "repo_get s m k = Some r" "is_locked r" "1 \<le> row_version r"
    and id: "canonical_id k" "parse_uuid p k = Some k" and plain: "plain_note note"
    and fresh: "repo_get s m (fst (session_uuid s)) = None"
    and line: "get_lineage p s m k = Inr ids" "length ids < MAX_LINEAGE_HOPS"
  shows "\<exists>n s'. bump r note s = Inr (n, s') \<and> repo_get s' m k = Some r \<and> row_version n = row_version r + 1 \<and>
    \<not> is_locked n \<and> row_id n = fst (session_uuid s) \<and> get_lineage p s' m (row_id n) = Inr (ids @ [row_id n])"
proof -
  obtain c n s' d where b: "bump r note s = Inr (n, s')" and n: "repo_save c s = (n, s')" "ob_model c = m"
    and d: "read_parent_ref n = Some d" "map_of d ''id'' = Some (PStr k)"
    and v: "row_version n = row_version r + 1" "\<not> is_locked n"
    by (rule bump_locked [OF row id(1) plain])
  have nid: "row_id n = fst (session_uuid s)" using saved_id [of c s] n by simp
  have keep: "repo_get s' m j = Some x" if "repo_get s m j = Some x" for j x using that by (simp add: get_saved [OF n(1)])
  have new: "repo_get s' m (row_id n) = Some n" using fresh nid n by (simp add: get_saved [OF n(1)])
  from line(1) have a: "ancestry p s m k ids" "distinct ids" by (simp_all add: lineage_iff)
  have "parent_of p n = Inr (Some k)" using d id(2) by (simp add: parent_of_def next_id_def)
  with new ancestry_later [OF a(1) keep] have "ancestry p s' m (row_id n) (ids @ [row_id n])" by (auto intro: ancestry.intros)
  moreover have "row_id n \<notin> set ids" using ancestry_rows [OF a(1), of "row_id n"] fresh nid by auto
  ultimately have "get_lineage p s' m (row_id n) = Inr (ids @ [row_id n])" using a(2) line(2) by (simp add: lineage_iff)
  with b keep [OF row(1)] v nid show ?thesis by blast
qed

end
