(* ===== verification/Precode_Intent.thy ===== *)
theory Precode_Intent
  imports Lineage
begin

text \<open>
  The first half of the pre-code flow (\<open>smorx_precode\<close>): the change definition, the compilation of intent
  statements, the intent ledger with its lock and its revision, and the resolution of the constitution's
  claims (\<open>change_definition.py\<close>, \<open>intent_compiler.py\<close>, \<open>intent_ledger.py\<close>). An operation returns its result
  with the new session; one that raises returns the error, and the caller keeps the session it had.
\<close>

datatype precode_error =
    TaskDefinitionError string "string list"
  | PyValueError string
  | PyTypeError
  | PyKeyError string
  | PyAssertionError
  | IntentCompilerError string
  | AmbiguityError string "string list"
  | IntentLedgerError string
  | IntentLedgerLockedError string
  | ConstitutionMapperError string
  | SemanticImpactError string
  | VerificationPlanError string
  | VersioningFailed versioning_error

text \<open>\<open>str(exc)\<close>.\<close>

fun error_text :: "precode_error \<Rightarrow> string" where
  "error_text (TaskDefinitionError t _) = t"
| "error_text (PyValueError t) = t"
| "error_text (PyKeyError k) = repr_str k"
| "error_text (IntentCompilerError t) = t"
| "error_text (AmbiguityError t _) = t"
| "error_text (IntentLedgerError t) = t"
| "error_text (IntentLedgerLockedError t) = t"
| "error_text (ConstitutionMapperError t) = t"
| "error_text (SemanticImpactError t) = t"
| "error_text (VerificationPlanError t) = t"
| "error_text _ = []"

definition pstr :: "platform \<Rightarrow> pyval \<Rightarrow> string" where
  "pstr p v = py_str (float_repr p) v"

definition opt_of :: "pyval \<Rightarrow> string option" where
  "opt_of v = (case v of PStr k \<Rightarrow> Some k | _ \<Rightarrow> None)"

lemma opt_of_simps [simp]: "opt_of PNone = None" "opt_of (PStr k) = Some k" "opt_of (opt_str x) = x"
  by (simp_all add: opt_of_def opt_str_def split: option.split)

section \<open>Change definition (change_definition.py)\<close>

definition REQUIRED_FIELDS :: "string list" where
  "REQUIRED_FIELDS = [''objective'', ''repository'', ''acceptance_criteria'']"

definition UNINFERABLE_FIELDS :: "string list" where
  "UNINFERABLE_FIELDS = [''objective'', ''repository'', ''acceptance_criteria'']"

definition VALID_PRIORITIES :: "string list" where
  "VALID_PRIORITIES = [''CRITICAL'', ''HIGH'', ''LOW'', ''NORMAL'']"

text \<open>\<open>Budget().as_dict()\<close>. A budget keeps the values it is given, whatever they are.\<close>

definition DEFAULT_BUDGET :: json where
  "DEFAULT_BUDGET =
     [(''max_iterations'', PInt 5), (''max_runtime_seconds'', PInt 600), (''max_commands'', PInt 40),
      (''max_repair_attempts'', PInt 3), (''no_progress_threshold'', PInt 2), (''per_tool_timeout_seconds'', PInt 60),
      (''per_agent_timeout_seconds'', PInt 300)]"

record change_definition =
  df_objective :: string
  df_repository :: string
  df_constraints :: "string list"
  df_criteria :: "string list"
  df_priority :: string
  df_budget :: json

record change_result =
  cr_definition :: change_definition
  cr_task :: orm
  cr_change :: orm
  cr_repository :: string

fun is_missing :: "pyval \<Rightarrow> bool" where
  "is_missing PNone = True"
| "is_missing (PStr s) = (strip s = [])"
| "is_missing (PList xs) = (xs = [])"
| "is_missing _ = False"

definition reject_incomplete :: "json \<Rightarrow> precode_error option" where
  "reject_incomplete payload =
     (let missing = filter (\<lambda>f. is_missing (get_key payload f)) REQUIRED_FIELDS;
          uninferable = filter (\<lambda>f. f \<in> set UNINFERABLE_FIELDS) missing
      in if missing = [] then None
         else Some (TaskDefinitionError (''incomplete human request; missing required fields: '' @ join '', '' missing @
           (if uninferable = [] then []
            else '' ('' @ join '', '' uninferable @ '' cannot be inferred and must be supplied)'')) missing))"

definition normalize_priority :: "platform \<Rightarrow> pyval \<Rightarrow> precode_error + string" where
  "normalize_priority p raw =
     (let priority = upper (strip (pstr p (if truthy raw then raw else PStr ''NORMAL'')))
      in if priority \<in> set VALID_PRIORITIES then Inr priority
         else Inl (TaskDefinitionError (''invalid priority '' @ repr_str priority @ ''; expected one of '' @
           pstr p (py_strs VALID_PRIORITIES)) [''priority'']))"

text \<open>The texts of a list field: each item as \<open>str\<close>, stripped, the blank ones left out.\<close>

definition usable_texts :: "platform \<Rightarrow> pyval list \<Rightarrow> string list" where
  "usable_texts p xs = filter (\<lambda>t. t \<noteq> []) (map (\<lambda>x. strip (pstr p x)) xs)"

definition text_items :: "platform \<Rightarrow> pyval \<Rightarrow> precode_error + string list" where
  "text_items p v = (case py_iter v of None \<Rightarrow> Inl PyTypeError | Some xs \<Rightarrow> Inr (usable_texts p xs))"

text \<open>
  The budget of a request. A truthy value that is no dictionary fails: its unknown members are named when
  all of them are texts, and otherwise sorting, joining or unpacking them is a \<open>TypeError\<close>.
\<close>

definition normalize_budget :: "pyval \<Rightarrow> precode_error + json" where
  "normalize_budget v =
     (let raw = (if truthy v then v else PDict []);
          unknown_error = (\<lambda>ks. TaskDefinitionError (''unknown budget keys: '' @ join '', '' (sort (dedup ks))) [])
      in case raw of
           PDict j \<Rightarrow>
             (let ks = filter (\<lambda>k. k \<notin> fst ` set DEFAULT_BUDGET) (map fst j)
              in if ks \<noteq> [] then Inl (unknown_error ks) else Inr (fold (\<lambda>(k, x). AList.update k x) j DEFAULT_BUDGET))
         | _ \<Rightarrow>
             (case py_iter raw of
                None \<Rightarrow> Inl PyTypeError
              | Some xs \<Rightarrow>
                  (let ks = filter (\<lambda>k. k \<notin> fst ` set DEFAULT_BUDGET) (map text_of xs)
                   in if list_all (\<lambda>x. case x of PStr _ \<Rightarrow> True | _ \<Rightarrow> False) xs \<and> ks \<noteq> [] then Inl (unknown_error ks)
                      else Inl PyTypeError)))"

definition find_repository :: "session \<Rightarrow> string \<Rightarrow> precode_error + orm" where
  "find_repository s name =
     (case find (\<lambda>r. ob_model r = MRepository \<and> attr r ''name'' = PStr name) (se_rows s) of
        None \<Rightarrow> Inl (TaskDefinitionError (''unknown repository '' @ repr_str name @
          ''; the target repository must be registered before a change can be defined against it'') [''repository''])
      | Some r \<Rightarrow> Inr r)"

text \<open>What is checked before anything is written.\<close>

definition normalize_request :: "platform \<Rightarrow> pyval \<Rightarrow> precode_error + change_definition" where
  "normalize_request p request =
     (case request of
        PDict payload \<Rightarrow>
          (case reject_incomplete payload of
             Some e \<Rightarrow> Inl e
           | None \<Rightarrow>
               (let objective = strip (pstr p (get_key payload ''objective''));
                    repository = strip (pstr p (get_key payload ''repository''))
                in case text_items p (get_key payload ''acceptance_criteria'') of
                     Inl e \<Rightarrow> Inl e
                   | Inr criteria \<Rightarrow>
                       if criteria = [] then
                         Inl (TaskDefinitionError ''acceptance_criteria contained no usable entries'' [''acceptance_criteria''])
                       else
                         (let raw = get_key payload ''constraints''
                          in case text_items p (if truthy raw then raw else PList []) of
                               Inl e \<Rightarrow> Inl e
                             | Inr limits \<Rightarrow>
                                 (case normalize_priority p (get_key payload ''priority'') of
                                    Inl e \<Rightarrow> Inl e
                                  | Inr priority \<Rightarrow>
                                      (case normalize_budget (get_key payload ''budget'') of
                                         Inl e \<Rightarrow> Inl e
                                       | Inr budget \<Rightarrow>
                                           Inr \<lparr>df_objective = objective, df_repository = repository,
                                             df_constraints = limits, df_criteria = criteria, df_priority = priority,
                                             df_budget = budget\<rparr>)))))
      | _ \<Rightarrow> Inl (TaskDefinitionError ''request payload must be a mapping'' [''objective'']))"

definition define_change ::
    "platform \<Rightarrow> string \<Rightarrow> pyval \<Rightarrow> string option \<Rightarrow> session \<Rightarrow> precode_error + change_result \<times> session" where
  "define_change p project request requested_by s =
     (case normalize_request p request of
        Inl e \<Rightarrow> Inl e
      | Inr df \<Rightarrow>
          (case repo_get s MProject project of
             None \<Rightarrow> Inl (PyValueError (''unknown project_id '' @ project))
           | Some pr \<Rightarrow>
               (case find_repository s (df_repository df) of
                  Inl e \<Rightarrow> Inl e
                | Inr repo \<Rightarrow>
                    (let (change, s1) = repo_save (new_object MChange
                           [(''repository_id'', PStr (row_id repo)), (''title'', PStr (take 400 (df_objective df))),
                            (''description'', PStr (df_objective df)), (''status'', PStr ''OPEN'')]) s;
                         (task, s2) = repo_save (new_object MTask
                           [(''project_id'', PStr (row_id pr)), (''repository_id'', PStr (row_id repo)),
                            (''change_id'', PStr (row_id change)), (''title'', PStr (take 400 (df_objective df))),
                            (''description'', PStr (df_objective df)), (''priority'', PStr (df_priority df)),
                            (''requested_by'', opt_str requested_by),
                            (''acceptance_criteria'', py_strs (df_criteria df))]) s1
                     in Inr (\<lparr>cr_definition = df, cr_task = task, cr_change = change, cr_repository = row_id repo\<rparr>, s2)))))"

definition get_change_definition :: "session \<Rightarrow> string \<Rightarrow> precode_error + change_definition" where
  "get_change_definition s task =
     (case repo_get s MTask task of
        None \<Rightarrow> Inl (TaskDefinitionError (''unknown task_id '' @ task) [])
      | Some t \<Rightarrow>
          (case Option.bind (opt_of (attr t ''repository_id'')) (repo_get s MRepository) of
             None \<Rightarrow> Inl (TaskDefinitionError (''task '' @ task @ '' has no repository binding'') [''repository''])
           | Some r \<Rightarrow>
               Inr \<lparr>df_objective = text_of (attr t ''title''), df_repository = text_of (attr r ''name''),
                 df_constraints = [],
                 df_criteria = (case attr t ''acceptance_criteria'' of PList xs \<Rightarrow> map text_of xs | _ \<Rightarrow> []),
                 df_priority = text_of (attr t ''priority''), df_budget = DEFAULT_BUDGET\<rparr>))"

section \<open>Intent compilation (intent_compiler.py)\<close>

definition INTENT_TYPES :: "string list" where
  "INTENT_TYPES = [''ADD'', ''REPLACE'', ''PRESERVE'', ''PERFORMANCE'', ''SECURITY'']"

definition AMBIGUOUS_MARKERS :: "string list" where
  "AMBIGUOUS_MARKERS =
     [''somehow'', ''whatever'', ''anything'', ''as needed'', ''etc'', ''and so on'', ''you decide'', ''make it work'']"

definition EXPANSION_MARKERS :: "string list" where
  "EXPANSION_MARKERS = [''everything'', ''all'', ''entire'', ''whole'', ''everywhere'', ''rewrite'', ''refactor all'']"

record intent =
  it_id :: string
  it_version :: string
  it_type :: string
  it_description :: string
  it_change :: string
  it_status :: string
  it_locked :: bool
  it_created :: int

record intent_dimensions =
  di_add :: "string list"
  di_replace :: "string list"
  di_preserve :: "string list"
  di_performance :: "string list"
  di_security :: "string list"

definition intent_corpus :: "string \<Rightarrow> string list \<Rightarrow> string" where
  "intent_corpus objective statements = lower objective @ concat (map (\<lambda>t. '' '' @ lower t) statements)"

definition flagged_markers :: "string \<Rightarrow> string list \<Rightarrow> string list" where
  "flagged_markers objective statements =
     (let corpus = intent_corpus objective statements
      in filter (\<lambda>m. contains m corpus) AMBIGUOUS_MARKERS @
         filter (\<lambda>m. m \<noteq> ''all'' \<and> contains m corpus) EXPANSION_MARKERS)"

definition detect_ambiguity :: "string \<Rightarrow> string list \<Rightarrow> precode_error option" where
  "detect_ambiguity objective statements =
     (let flagged = sort (dedup (flagged_markers objective statements))
      in if flagged = [] then None
         else Some (AmbiguityError (''ambiguous intent detected; flagged markers: '' @ join '', '' flagged) flagged))"

text \<open>\<open>str(statement.get(key, ""))\<close>, stripped.\<close>

definition statement_text :: "platform \<Rightarrow> json \<Rightarrow> string \<Rightarrow> string" where
  "statement_text p st k = strip (pstr p (case map_of st k of None \<Rightarrow> PStr [] | Some v \<Rightarrow> v))"

definition statement_type :: "platform \<Rightarrow> json \<Rightarrow> string" where
  "statement_type p st = upper (statement_text p st ''intent_type'')"

definition statement_description :: "platform \<Rightarrow> json \<Rightarrow> string" where
  "statement_description p st = statement_text p st ''description''"

definition proposed_intent :: "string \<Rightarrow> string \<Rightarrow> string \<Rightarrow> int \<Rightarrow> intent" where
  "proposed_intent k ty d t =
     \<lparr>it_id = k, it_version = ''1.0.0'', it_type = ty, it_description = d, it_change = [], it_status = ''PROPOSED'',
      it_locked = False, it_created = t\<rparr>"

fun compile_statements :: "platform \<Rightarrow> int \<Rightarrow> json list \<Rightarrow> world \<Rightarrow> precode_error + intent list \<times> world" where
  "compile_statements p t [] w = Inr ([], w)"
| "compile_statements p t (st # sts) w =
     (let (k, w1) = uuid4 w; ty = statement_type p st; d = statement_description p st
      in if ty \<notin> set INTENT_TYPES then
           Inl (IntentCompilerError (''unknown intent_type '' @ repr_str ty @ ''; expected one of '' @
             pstr p (py_strs INTENT_TYPES)))
         else if d = [] then Inl (IntentCompilerError (ty @ '' statement has an empty description''))
         else (case compile_statements p t sts w1 of
             Inl e \<Rightarrow> Inl e
           | Inr (is, w2) \<Rightarrow> Inr (proposed_intent k ty d t # is, w2)))"

definition IMPLICIT_PRESERVE :: string where
  "IMPLICIT_PRESERVE = ''all behaviors not explicitly declared as ADD/REPLACE/PERFORMANCE/SECURITY''"

definition compile_intent :: "platform \<Rightarrow> string \<Rightarrow> json list \<Rightarrow> world \<Rightarrow> precode_error + intent list \<times> world" where
  "compile_intent p objective statements w =
     (if strip objective = [] then Inl (IntentCompilerError ''objective is required to compile intent'')
      else
        (let (t, w1) = now w
         in case compile_statements p t statements w1 of
              Inl e \<Rightarrow> Inl e
            | Inr (is, w2) \<Rightarrow>
                if is = [] then Inl (IntentCompilerError ''no intent statements supplied'')
                else (case detect_ambiguity objective (map it_description is) of
                    Some e \<Rightarrow> Inl e
                  | None \<Rightarrow>
                      if ''PRESERVE'' \<in> it_type ` set is then Inr (is, w2)
                      else (let (k, w3) = uuid4 w2
                            in Inr (is @ [proposed_intent k ''PRESERVE'' IMPLICIT_PRESERVE t], w3)))))"

definition bucket :: "string \<Rightarrow> intent list \<Rightarrow> string list" where
  "bucket ty is = map it_description (filter (\<lambda>i. it_type i = ty) is)"

definition dimensions_from_contract_intents :: "intent list \<Rightarrow> intent_dimensions" where
  "dimensions_from_contract_intents is =
     \<lparr>di_add = bucket ''ADD'' is, di_replace = bucket ''REPLACE'' is, di_preserve = bucket ''PRESERVE'' is,
      di_performance = bucket ''PERFORMANCE'' is, di_security = bucket ''SECURITY'' is\<rparr>"

section \<open>The intent ledger (intent_ledger.py)\<close>

record ledger_ref =
  lg_id :: string
  lg_project :: string
  lg_task :: "string option"
  lg_version :: int
  lg_locked :: bool
  lg_status :: string
  lg_items :: "string list"

definition ledger_ref_of :: "orm \<Rightarrow> string list \<Rightarrow> ledger_ref" where
  "ledger_ref_of l items =
     \<lparr>lg_id = row_id l, lg_project = text_of (attr l ''project_id''), lg_task = opt_of (attr l ''task_id''),
      lg_version = row_version l, lg_locked = truthy (attr l ''locked''), lg_status = text_of (attr l ''status''),
      lg_items = items\<rparr>"

definition ledger_items :: "session \<Rightarrow> string \<Rightarrow> orm list" where
  "ledger_items s k = repo_list s MIntentItem [(''intent_ledger_id'', PStr k)]"

definition unknown_ledger :: "string \<Rightarrow> precode_error" where
  "unknown_ledger k = IntentLedgerError (''unknown intent_ledger_id '' @ k)"

definition intent_item :: "string \<Rightarrow> string option \<Rightarrow> intent \<Rightarrow> orm" where
  "intent_item ledger task i = new_object MIntentItem
     [(''intent_ledger_id'', PStr ledger), (''task_id'', opt_str task), (''statement'', PStr (it_description i)),
      (''kind'', PStr (it_type i)), (''priority'', PStr ''NORMAL''), (''status'', PStr ''PENDING''),
      (''authorized'', PBool False)]"

fun save_all :: "orm list \<Rightarrow> session \<Rightarrow> string list \<times> session" where
  "save_all [] s = ([], s)"
| "save_all (r # rs) s =
     (let (row, s1) = repo_save r s; (ks, s2) = save_all rs s1 in (row_id row # ks, s2))"

definition build_intent_ledger ::
    "platform \<Rightarrow> string \<Rightarrow> string option \<Rightarrow> string \<Rightarrow> json list \<Rightarrow> string \<Rightarrow> string option \<Rightarrow> session \<Rightarrow>
     precode_error + ledger_ref \<times> session" where
  "build_intent_ledger p project task objective statements authority created_by s =
     (case compile_intent p objective statements (se_host s) of
        Inl e \<Rightarrow> Inl e
      | Inr (is, w) \<Rightarrow>
          (let (l, s1) = repo_save (new_object MIntentLedger
                 [(''project_id'', PStr project), (''task_id'', opt_str task), (''title'', PStr (take 300 objective)),
                  (''source'', PStr authority), (''status'', PStr ''PROPOSED''), (''owner_scope'', PStr ''USER_INTENT''),
                  (''created_by'', opt_str created_by), (''version'', PInt 1), (''locked'', PBool False)])
                 (s\<lparr>se_host := w\<rparr>);
               (ks, s2) = save_all (map (intent_item (row_id l) task) is) s1
           in Inr (ledger_ref_of l ks, s2)))"

definition get_intent_ledger :: "session \<Rightarrow> string \<Rightarrow> precode_error + ledger_ref" where
  "get_intent_ledger s k =
     (case repo_get s MIntentLedger k of
        None \<Rightarrow> Inl (unknown_ledger k)
      | Some l \<Rightarrow> Inr (ledger_ref_of l (map row_id (ledger_items s (row_id l)))))"

definition confirm_item :: "orm \<Rightarrow> session \<Rightarrow> session" where
  "confirm_item i s = update_row (set_attr ''authorized'' (PBool True) (set_attr ''status'' (PStr ''CONFIRMED'') i)) s"

definition lock_intent_ledger :: "string \<Rightarrow> session \<Rightarrow> precode_error + ledger_ref \<times> session" where
  "lock_intent_ledger k s =
     (case repo_get s MIntentLedger k of
        None \<Rightarrow> Inl (unknown_ledger k)
      | Some l \<Rightarrow>
          (case (if truthy (attr l ''locked'') then Inr s
                 else (case lock_row l s of
                     Inl e \<Rightarrow> Inl (VersioningFailed e)
                   | Inr (l1, s1) \<Rightarrow>
                       (let s2 = update_row (set_attr ''status'' (PStr ''LOCKED'') l1) s1
                        in Inr (fold confirm_item (ledger_items s2 (row_id l)) s2)))) of
             Inl e \<Rightarrow> Inl e
           | Inr s' \<Rightarrow> map_sum id (\<lambda>ref. (ref, s')) (get_intent_ledger s' (row_id l))))"

text \<open>The detail of a \<open>VersioningError\<close> becomes that of the ledger error.\<close>

fun error_detail :: "versioning_error \<Rightarrow> string" where
  "error_detail (VersioningError t) = t"
| "error_detail (VersionLockedError t) = t"
| "error_detail _ = []"

fun ledger_error :: "versioning_error \<Rightarrow> precode_error" where
  "ledger_error (VersionLockedError t) = IntentLedgerLockedError t"
| "ledger_error (VersioningError t) = IntentLedgerError t"
| "ledger_error e = VersioningFailed e"

definition bump_intent_ledger :: "string \<Rightarrow> string option \<Rightarrow> session \<Rightarrow> precode_error + ledger_ref \<times> session" where
  "bump_intent_ledger k note s =
     (case repo_get s MIntentLedger k of
        None \<Rightarrow> Inl (unknown_ledger k)
      | Some l \<Rightarrow>
          (case bump l (Some (case note of None \<Rightarrow> ''intent revision'' | Some t \<Rightarrow> if t = [] then ''intent revision'' else t)) s of
             Inl e \<Rightarrow> Inl (ledger_error e)
           | Inr (n, s') \<Rightarrow> map_sum id (\<lambda>ref. (ref, s')) (get_intent_ledger s' (row_id n))))"

section \<open>Constraint resolution\<close>

record constraint_resolution =
  rs_ledger :: string
  rs_constitution :: string
  rs_version :: int
  rs_locked :: bool
  rs_protected :: "string list"
  rs_matched :: "string list"
  rs_conflicting :: "string list"
  rs_notes :: "string list"

definition terms :: "string \<Rightarrow> string list" where
  "terms t = filter (\<lambda>w. 3 < length w) (words_from [] (lower t))"

definition item_terms :: "orm \<Rightarrow> string list" where
  "item_terms i = terms (text_of (attr i ''statement''))"

definition claim_terms :: "orm \<Rightarrow> string list" where
  "claim_terms c = terms (text_of (attr c ''rule''))"

definition claim_hits :: "orm list \<Rightarrow> orm \<Rightarrow> string list" where
  "claim_hits items c =
     (if claim_terms c = [] then []
      else map row_id (filter (\<lambda>i. item_terms i \<noteq> [] \<and> list_ex (\<lambda>w. w \<in> set (item_terms i)) (claim_terms c)) items))"

text \<open>\<open>items_by_id(items)[i].kind == "REPLACE"\<close>: a later item of the same key would win.\<close>

definition is_replace :: "orm list \<Rightarrow> string \<Rightarrow> bool" where
  "is_replace items k \<longleftrightarrow>
     (case find (\<lambda>i. row_id i = k) (rev items) of None \<Rightarrow> False | Some i \<Rightarrow> attr i ''kind'' = PStr ''REPLACE'')"

definition replace_hits :: "orm list \<Rightarrow> orm \<Rightarrow> string list" where
  "replace_hits items c = filter (is_replace items) (claim_hits items c)"

definition conflict_note :: "orm \<Rightarrow> string \<Rightarrow> string" where
  "conflict_note c k =
     ''REPLACE intent item '' @ k @ '' overlaps protected claim '' @ row_id c @ '' ['' @ text_of (attr c ''category'') @
     ''/'' @ text_of (attr c ''severity'') @ '']: '' @ take 80 (text_of (attr c ''rule'')) @
     ''; explicit human authorization required before the coding agent may touch it''"

definition resolution_of :: "orm \<Rightarrow> orm \<Rightarrow> orm list \<Rightarrow> orm list \<Rightarrow> constraint_resolution" where
  "resolution_of l c cs items =
     \<lparr>rs_ledger = row_id l, rs_constitution = row_id c, rs_version = row_version c, rs_locked = truthy (attr c ''locked''),
      rs_protected = map row_id cs, rs_matched = map row_id (filter (\<lambda>x. claim_hits items x \<noteq> []) cs),
      rs_conflicting = map row_id (filter (\<lambda>x. replace_hits items x \<noteq> []) cs),
      rs_notes = concat (map (\<lambda>x. map (conflict_note x) (replace_hits items x)) cs)\<rparr>"

definition resolve_constraints :: "session \<Rightarrow> string \<Rightarrow> string \<Rightarrow> precode_error + constraint_resolution" where
  "resolve_constraints s ledger constitution =
     (case repo_get s MIntentLedger ledger of
        None \<Rightarrow> Inl (unknown_ledger ledger)
      | Some l \<Rightarrow>
          (case repo_get s MConstitution constitution of
             None \<Rightarrow> Inl (ConstitutionMapperError (''unknown constitution_id '' @ constitution))
           | Some c \<Rightarrow>
               if \<not> truthy (attr c ''locked'') then
                 Inl (ConstitutionMapperError (''constitution '' @ constitution @
                   '' is not locked; resolve_constraints requires a locked Behavioral Constitution''))
               else Inr (resolution_of l c (repo_list s MConstitutionClaim [(''constitution_id'', PStr (row_id c))])
                 (ledger_items s (row_id l)))))"

end
