(* ===== verification/Precode_Gate.thy ===== *)
theory Precode_Gate
  imports Precode_Intent
begin

text \<open>
  The second half of the pre-code flow (\<open>smorx_precode\<close>): the semantic impact map, the verification plan with
  its coverage rule, and the gate that assembles the pre-coding context (\<open>impact.py\<close>,
  \<open>verification_plan.py\<close>, \<open>lock_gate.py\<close>).
\<close>

section \<open>The semantic impact map (impact.py)\<close>

record impact_node =
  nd_kind :: string
  nd_ref :: string
  nd_protected :: bool
  nd_note :: string

record impact_relationship =
  rl_source :: string
  rl_relation :: string
  rl_target :: string
  rl_rationale :: string

record impact_map =
  im_task :: string
  im_id :: string
  im_version :: int
  im_locked :: bool
  im_status :: string
  im_nodes :: "impact_node list"
  im_relationships :: "impact_relationship list"

definition NODE_KINDS :: "string list" where
  "NODE_KINDS = [''BEHAVIOR'', ''COMPONENT'', ''DATA_FLOW'', ''DEPENDENCY'', ''FILE'', ''GHOST'', ''RISK_ZONE'']"

definition RELATIONS :: "string list" where
  "RELATIONS = [''DEPENDS_ON'', ''FLOWS_INTO'', ''HISTORY_FOR'', ''IMPACTS'', ''PROTECTS'']"

definition node_dict :: "impact_node \<Rightarrow> pyval" where
  "node_dict n = PDict [(''kind'', PStr (nd_kind n)), (''ref'', PStr (nd_ref n)), (''protected'', PBool (nd_protected n)),
     (''note'', PStr (nd_note n))]"

definition relationship_dict :: "impact_relationship \<Rightarrow> pyval" where
  "relationship_dict r = PDict [(''source_ref'', PStr (rl_source r)), (''relation'', PStr (rl_relation r)),
     (''target_ref'', PStr (rl_target r)), (''rationale'', PStr (rl_rationale r))]"

definition impacted_refs :: "impact_map \<Rightarrow> string list option \<Rightarrow> string list" where
  "impacted_refs m kinds =
     map nd_ref (filter (\<lambda>n. case kinds of None \<Rightarrow> True | Some ks \<Rightarrow> nd_kind n \<in> set ks) (im_nodes m))"

definition protected_refs :: "impact_map \<Rightarrow> string list" where
  "protected_refs m = map nd_ref (filter nd_protected (im_nodes m))"

fun validate_nodes :: "platform \<Rightarrow> string list \<Rightarrow> impact_node list \<Rightarrow> precode_error option" where
  "validate_nodes p seen [] = None"
| "validate_nodes p seen (n # ns) =
     (if nd_kind n \<notin> set NODE_KINDS then
        Some (SemanticImpactError (''unknown impact node kind '' @ repr_str (nd_kind n) @ ''; expected one of '' @
          pstr p (py_strs NODE_KINDS)))
      else if strip (nd_ref n) = [] then Some (SemanticImpactError ''impact node ref must be non-empty'')
      else if nd_ref n \<in> set seen then Some (SemanticImpactError (''duplicate impact node ref '' @ repr_str (nd_ref n)))
      else validate_nodes p (nd_ref n # seen) ns)"

fun validate_relationships :: "platform \<Rightarrow> string list \<Rightarrow> impact_relationship list \<Rightarrow> precode_error option" where
  "validate_relationships p refs [] = None"
| "validate_relationships p refs (r # rs) =
     (if rl_relation r \<notin> set RELATIONS then
        Some (SemanticImpactError (''unknown impact relation '' @ repr_str (rl_relation r) @ ''; expected one of '' @
          pstr p (py_strs RELATIONS)))
      else if rl_source r \<notin> set refs \<or> rl_target r \<notin> set refs then
        Some (SemanticImpactError (''impact relationship '' @ repr_str (rl_source r) @ '' -> '' @ repr_str (rl_target r) @
          '' references an unknown node''))
      else validate_relationships p refs rs)"

definition validate_impact ::
    "platform \<Rightarrow> impact_node list \<Rightarrow> impact_relationship list \<Rightarrow> precode_error option" where
  "validate_impact p nodes rels =
     (case validate_nodes p [] nodes of
        Some e \<Rightarrow> Some e
      | None \<Rightarrow>
          (case validate_relationships p (map nd_ref nodes) rels of
             Some e \<Rightarrow> Some e
           | None \<Rightarrow>
               if ''BEHAVIOR'' \<in> nd_kind ` set nodes then None
               else Some (SemanticImpactError (''semantic impact map requires at least one BEHAVIOR node; '' @
                 ''a generic file list is not an impact map''))))"

definition impact_map_of :: "orm \<Rightarrow> impact_node list \<Rightarrow> impact_relationship list \<Rightarrow> impact_map" where
  "impact_map_of r nodes rels =
     \<lparr>im_task = text_of (attr r ''task_id''), im_id = row_id r, im_version = row_version r,
      im_locked = truthy (attr r ''locked''), im_status = text_of (attr r ''status''), im_nodes = nodes,
      im_relationships = rels\<rparr>"

definition impact_scope :: "impact_node list \<Rightarrow> impact_relationship list \<Rightarrow> json" where
  "impact_scope nodes rels =
     [(''nodes'', PList (map node_dict nodes)), (''relationships'', PList (map relationship_dict rels))]"

definition impact_row ::
    "string \<Rightarrow> string list \<Rightarrow> impact_node list \<Rightarrow> impact_relationship list \<Rightarrow> string option \<Rightarrow> orm" where
  "impact_row task items nodes rels description = new_object MSemanticImpact
     [(''task_id'', PStr task), (''intent_item_id'', case items of [] \<Rightarrow> PNone | k # _ \<Rightarrow> PStr k),
      (''description'', opt_str description), (''scope'', PDict (impact_scope nodes rels)),
      (''impacted_behaviors'', py_strs (map nd_ref (filter (\<lambda>n. nd_kind n = ''BEHAVIOR'') nodes))),
      (''impacted_artifacts'', py_strs (map nd_ref (filter (\<lambda>n. nd_kind n \<in> {''FILE'', ''COMPONENT''}) nodes))),
      (''status'', PStr ''DRAFT''), (''owner_scope'', PStr ''IMPACT''), (''version'', PInt 1), (''locked'', PBool False)]"

definition build_semantic_impact ::
    "platform \<Rightarrow> string \<Rightarrow> string list \<Rightarrow> impact_node list \<Rightarrow> impact_relationship list \<Rightarrow> string option \<Rightarrow> session \<Rightarrow>
     precode_error + impact_map \<times> session" where
  "build_semantic_impact p task items nodes rels description s =
     (case validate_impact p nodes rels of
        Some e \<Rightarrow> Inl e
      | None \<Rightarrow>
          (let (r, s') = repo_save (impact_row task items nodes rels description) s
           in Inr (impact_map_of r nodes rels, s')))"

text \<open>\<open>_map_from_row\<close>: the JSON of a row read back. A key that is not there is a \<open>KeyError\<close>.\<close>

definition need :: "json \<Rightarrow> string \<Rightarrow> precode_error + pyval" where
  "need j k = (case map_of j k of None \<Rightarrow> Inl (PyKeyError k) | Some v \<Rightarrow> Inr v)"

definition text_default :: "platform \<Rightarrow> json \<Rightarrow> string \<Rightarrow> string" where
  "text_default p j k = pstr p (case map_of j k of None \<Rightarrow> PStr [] | Some v \<Rightarrow> v)"

fun node_of :: "platform \<Rightarrow> pyval \<Rightarrow> precode_error + impact_node" where
  "node_of p (PDict j) =
     (case (need j ''kind'', need j ''ref'') of
        (Inl e, _) \<Rightarrow> Inl e
      | (Inr _, Inl e) \<Rightarrow> Inl e
      | (Inr k, Inr r) \<Rightarrow>
          Inr \<lparr>nd_kind = pstr p k, nd_ref = pstr p r, nd_protected = truthy (get_key j ''protected''),
            nd_note = text_default p j ''note''\<rparr>)"
| "node_of p v = Inl PyTypeError"

fun relationship_of :: "platform \<Rightarrow> pyval \<Rightarrow> precode_error + impact_relationship" where
  "relationship_of p (PDict j) =
     (case (need j ''source_ref'', need j ''relation'', need j ''target_ref'') of
        (Inl e, _) \<Rightarrow> Inl e
      | (Inr _, Inl e, _) \<Rightarrow> Inl e
      | (Inr _, Inr _, Inl e) \<Rightarrow> Inl e
      | (Inr a, Inr r, Inr b) \<Rightarrow>
          Inr \<lparr>rl_source = pstr p a, rl_relation = pstr p r, rl_target = pstr p b,
            rl_rationale = text_default p j ''rationale''\<rparr>)"
| "relationship_of p v = Inl PyTypeError"

fun all_of :: "('a \<Rightarrow> 'e + 'b) \<Rightarrow> 'a list \<Rightarrow> 'e + 'b list" where
  "all_of f [] = Inr []"
| "all_of f (x # xs) =
     (case f x of Inl e \<Rightarrow> Inl e | Inr y \<Rightarrow> (case all_of f xs of Inl e \<Rightarrow> Inl e | Inr ys \<Rightarrow> Inr (y # ys)))"

definition scope_list :: "json \<Rightarrow> string \<Rightarrow> precode_error + pyval list" where
  "scope_list j k =
     (case map_of j k of
        None \<Rightarrow> Inr []
      | Some v \<Rightarrow> (case py_iter v of None \<Rightarrow> Inl PyTypeError | Some xs \<Rightarrow> Inr xs))"

definition map_from_row :: "platform \<Rightarrow> orm \<Rightarrow> precode_error + impact_map" where
  "map_from_row p r =
     (let j = (case attr r ''scope'' of PDict j \<Rightarrow> j | _ \<Rightarrow> [])
      in case scope_list j ''nodes'' of Inl e \<Rightarrow> Inl e | Inr ns \<Rightarrow>
        (case all_of (node_of p) ns of Inl e \<Rightarrow> Inl e | Inr nodes \<Rightarrow>
          (case scope_list j ''relationships'' of Inl e \<Rightarrow> Inl e | Inr rs \<Rightarrow>
            (case all_of (relationship_of p) rs of Inl e \<Rightarrow> Inl e | Inr rels \<Rightarrow>
              Inr (impact_map_of r nodes rels)))))"

definition impact_rows :: "session \<Rightarrow> string \<Rightarrow> orm list" where
  "impact_rows s task = repo_list s MSemanticImpact [(''task_id'', PStr task)]"

definition no_impact :: "string \<Rightarrow> precode_error" where
  "no_impact task = SemanticImpactError (''no semantic impact map exists for task '' @ task)"

definition get_semantic_impact :: "platform \<Rightarrow> session \<Rightarrow> string \<Rightarrow> precode_error + impact_map" where
  "get_semantic_impact p s task =
     (case impact_rows s task of [] \<Rightarrow> Inl (no_impact task) | r # _ \<Rightarrow> map_from_row p r)"

definition lock_semantic_impact ::
    "platform \<Rightarrow> string \<Rightarrow> session \<Rightarrow> precode_error + impact_map \<times> session" where
  "lock_semantic_impact p task s =
     (case impact_rows s task of
        [] \<Rightarrow> Inl (no_impact task)
      | r # _ \<Rightarrow>
          (case (if truthy (attr r ''locked'') then Inr (r, s)
                 else (case lock_row r s of
                     Inl e \<Rightarrow> Inl (VersioningFailed e)
                   | Inr (r1, s1) \<Rightarrow>
                       (let r2 = set_attr ''status'' (PStr ''LOCKED'') r1 in Inr (r2, update_row r2 s1)))) of
             Inl e \<Rightarrow> Inl e
           | Inr (r', s') \<Rightarrow> map_sum id (\<lambda>m. (m, s')) (map_from_row p r')))"

section \<open>The verification plan (verification_plan.py)\<close>

record case_spec =
  vc_name :: string
  vc_kind :: string
  vc_behaviors :: "string list"
  vc_description :: string
  vc_method :: string
  vc_expected :: string

record plan_ref =
  vp_id :: string
  vp_change :: string
  vp_task :: "string option"
  vp_ledger :: "string option"
  vp_title :: string
  vp_version :: int
  vp_locked :: bool
  vp_status :: string
  vp_cases :: "case_spec list"
  vp_coverage :: "(string \<times> string list) list"

definition CASE_KINDS :: "string list" where
  "CASE_KINDS =
     [''ADVERSARIAL_CASE'', ''BEHAVIORAL_CHECK'', ''INTEGRATION_TEST'', ''PERFORMANCE_CHECK'', ''REGRESSION_CHECK'',
      ''RUNTIME_INVESTIGATION'', ''SECURITY_CHECK'', ''UNIT_TEST'']"

text \<open>\<open>coverage[behavior].append(case.name)\<close> for each behavior of a case.\<close>

fun cover :: "string \<Rightarrow> string list \<Rightarrow> (string \<times> string list) list \<Rightarrow> (string \<times> string list) list" where
  "cover name [] cov = cov"
| "cover name (b # bs) cov = cover name bs (map (\<lambda>(k, ns). if k = b then (k, ns @ [name]) else (k, ns)) cov)"

fun check_cases ::
    "platform \<Rightarrow> string list \<Rightarrow> string list \<Rightarrow> case_spec list \<Rightarrow> (string \<times> string list) list \<Rightarrow>
     precode_error + (string \<times> string list) list" where
  "check_cases p affected seen [] cov = Inr cov"
| "check_cases p affected seen (c # cs) cov =
     (if strip (vc_name c) = [] then Inl (VerificationPlanError ''verification case name must be non-empty'')
      else if vc_name c \<in> set seen then
        Inl (VerificationPlanError (''duplicate verification case name '' @ repr_str (vc_name c)))
      else if vc_kind c \<notin> set CASE_KINDS then
        Inl (VerificationPlanError (''unknown case kind '' @ repr_str (vc_kind c) @ ''; expected one of '' @
          pstr p (py_strs CASE_KINDS)))
      else if vc_behaviors c = [] then
        Inl (VerificationPlanError (''case '' @ repr_str (vc_name c) @
          '' targets no behavior; every case must map to at least one affected behavior''))
      else
        (let unknown = filter (\<lambda>b. b \<notin> set affected) (sort (dedup (vc_behaviors c)))
         in if unknown \<noteq> [] then
              Inl (VerificationPlanError (''case '' @ repr_str (vc_name c) @
                '' targets behaviors outside the impact map: '' @ pstr p (py_strs unknown)))
            else check_cases p affected (vc_name c # seen) cs (cover (vc_name c) (vc_behaviors c) cov)))"

definition validate_plan ::
    "platform \<Rightarrow> string list \<Rightarrow> case_spec list \<Rightarrow> precode_error + (string \<times> string list) list" where
  "validate_plan p affected cs =
     (if affected = [] then
        Inl (VerificationPlanError ''verification plan requires at least one affected behavior to cover'')
      else if cs = [] then Inl (VerificationPlanError ''verification plan requires at least one case'')
      else (case check_cases p affected [] cs (map (\<lambda>b. (b, [])) (dedup affected)) of
          Inl e \<Rightarrow> Inl e
        | Inr cov \<Rightarrow>
            (let uncovered = map fst (filter (\<lambda>(b, names). names = []) cov)
             in if uncovered \<noteq> [] then
                  Inl (VerificationPlanError (''uncovered affected behaviors (every affected behavior needs at least '' @
                    ''one case): '' @ pstr p (py_strs (sort uncovered))))
                else Inr cov)))"

definition case_dict :: "case_spec \<Rightarrow> pyval" where
  "case_dict c = PDict [(''name'', PStr (vc_name c)), (''kind'', PStr (vc_kind c)),
     (''behaviors'', py_strs (vc_behaviors c)), (''description'', PStr (vc_description c)),
     (''method'', PStr (vc_method c)), (''expected'', PStr (vc_expected c))]"

text \<open>\<open>x or None\<close>.\<close>

definition or_none :: "string \<Rightarrow> pyval" where
  "or_none t = (if t = [] then PNone else PStr t)"

definition case_row :: "string \<Rightarrow> string \<Rightarrow> case_spec \<Rightarrow> orm" where
  "case_row plan change c = new_object MVerificationCase
     [(''verification_plan_id'', PStr plan), (''change_id'', PStr change), (''name'', PStr (take 200 (vc_name c))),
      (''kind'', PStr (vc_kind c)), (''description'', or_none (vc_description c)), (''method'', or_none (vc_method c)),
      (''expected'', or_none (vc_expected c)), (''status'', PStr ''PENDING''), (''independent'', PBool True),
      (''owning_module'', PStr ''smorx_precode.verification_plan''), (''version'', PInt 1), (''locked'', PBool False)]"

definition plan_ref_of :: "orm \<Rightarrow> case_spec list \<Rightarrow> (string \<times> string list) list \<Rightarrow> plan_ref" where
  "plan_ref_of r cs cov =
     \<lparr>vp_id = row_id r, vp_change = text_of (attr r ''change_id''), vp_task = opt_of (attr r ''task_id''),
      vp_ledger = opt_of (attr r ''intent_ledger_id''), vp_title = text_of (attr r ''title''),
      vp_version = row_version r, vp_locked = truthy (attr r ''locked''), vp_status = text_of (attr r ''status''),
      vp_cases = cs, vp_coverage = cov\<rparr>"

definition plan_strategy :: "string list \<Rightarrow> (string \<times> string list) list \<Rightarrow> nat \<Rightarrow> json" where
  "plan_strategy affected cov n =
     [(''affected_behaviors'', py_strs affected), (''coverage'', PDict (map (\<lambda>(b, ns). (b, py_strs ns)) cov)),
      (''case_count'', PInt (int n))]"

definition build_verification_plan ::
    "platform \<Rightarrow> string \<Rightarrow> string \<Rightarrow> string option \<Rightarrow> string \<Rightarrow> string list \<Rightarrow> case_spec list \<Rightarrow> string option \<Rightarrow>
     session \<Rightarrow> precode_error + plan_ref \<times> session" where
  "build_verification_plan p change task ledger title affected cs created_by s =
     (case validate_plan p affected cs of
        Inl e \<Rightarrow> Inl e
      | Inr cov \<Rightarrow>
          (let (r, s1) = repo_save (new_object MVerificationPlan
                 [(''change_id'', PStr change), (''task_id'', PStr task), (''intent_ledger_id'', opt_str ledger),
                  (''title'', PStr (take 300 title)), (''strategy'', PDict (plan_strategy affected cov (length cs))),
                  (''verification_contract'', PDict [(''cases'', PList (map case_dict cs))]), (''status'', PStr ''DRAFT''),
                  (''owner_scope'', PStr ''VERIFICATION_CONTRACT''), (''created_by'', opt_str created_by),
                  (''version'', PInt 1), (''locked'', PBool False)]) s;
               (_, s2) = save_all (map (case_row (row_id r) change) cs) s1
           in Inr (plan_ref_of r cs cov, s2)))"

text \<open>\<open>_ref_from_row\<close>; the coverage of a stored strategy is a dictionary of lists of texts.\<close>

definition stored_coverage :: "orm \<Rightarrow> (string \<times> string list) list" where
  "stored_coverage r =
     (case attr r ''strategy'' of
        PDict j \<Rightarrow>
          (case get_key j ''coverage'' of
             PDict c \<Rightarrow> map (\<lambda>(b, v). (b, case v of PList xs \<Rightarrow> map text_of xs | _ \<Rightarrow> [])) c
           | _ \<Rightarrow> [])
      | _ \<Rightarrow> [])"

definition spec_from_row :: "(string \<times> string list) list \<Rightarrow> orm \<Rightarrow> case_spec" where
  "spec_from_row cov r =
     \<lparr>vc_name = text_of (attr r ''name''), vc_kind = text_of (attr r ''kind''),
      vc_behaviors = map fst (filter (\<lambda>(b, names). text_of (attr r ''name'') \<in> set names) cov),
      vc_description = text_of (attr r ''description''), vc_method = text_of (attr r ''method''),
      vc_expected = text_of (attr r ''expected'')\<rparr>"

definition case_rows :: "session \<Rightarrow> string \<Rightarrow> orm list" where
  "case_rows s plan = repo_list s MVerificationCase [(''verification_plan_id'', PStr plan)]"

definition ref_from_row :: "orm \<Rightarrow> orm list \<Rightarrow> plan_ref" where
  "ref_from_row r rows = plan_ref_of r (map (spec_from_row (stored_coverage r)) rows) (stored_coverage r)"

definition unknown_plan :: "string \<Rightarrow> precode_error" where
  "unknown_plan k = VerificationPlanError (''unknown verification_plan_id '' @ k)"

definition get_verification_plan :: "session \<Rightarrow> string \<Rightarrow> precode_error + plan_ref" where
  "get_verification_plan s k =
     (case repo_get s MVerificationPlan k of
        None \<Rightarrow> Inl (unknown_plan k)
      | Some r \<Rightarrow> Inr (ref_from_row r (case_rows s (row_id r))))"

text \<open>A case row always has the lock column, so locking it does not fail.\<close>

definition lock_case :: "orm \<Rightarrow> session \<Rightarrow> session" where
  "lock_case r s =
     (if truthy (attr r ''locked'') then s else (case lock_row r s of Inl _ \<Rightarrow> s | Inr (_, s') \<Rightarrow> s'))"

definition lock_verification_plan :: "string \<Rightarrow> session \<Rightarrow> precode_error + plan_ref \<times> session" where
  "lock_verification_plan k s =
     (case repo_get s MVerificationPlan k of
        None \<Rightarrow> Inl (unknown_plan k)
      | Some r \<Rightarrow>
          (case (if truthy (attr r ''locked'') then Inr (r, s)
                 else (case lock_row r s of
                     Inl e \<Rightarrow> Inl (VersioningFailed e)
                   | Inr (r1, s1) \<Rightarrow>
                       (let r2 = set_attr ''status'' (PStr ''LOCKED'') r1; s2 = update_row r2 s1
                        in Inr (r2, fold lock_case (case_rows s2 (row_id r)) s2)))) of
             Inl e \<Rightarrow> Inl e
           | Inr (r', s') \<Rightarrow> Inr (ref_from_row r' (case_rows s' (row_id r)), s')))"

section \<open>The lock gate (lock_gate.py)\<close>

record precode_context =
  px_id :: string
  px_task :: string
  px_change :: string
  px_repository :: string
  px_ledger :: string
  px_constitution :: string
  px_impact :: string
  px_plan :: string
  px_intent_version :: int
  px_constitution_version :: int
  px_impact_version :: int
  px_plan_version :: int
  px_lock_state :: string
  px_locked_objects :: "string list"
  px_created :: int
  px_definition :: change_definition
  px_resolution :: constraint_resolution
  px_impact_map :: impact_map
  px_plan_ref :: plan_ref

record precode_verdict =
  gv_state :: string
  gv_context :: "precode_context option"
  gv_failed :: "string list"

record components =
  cm_definition :: "change_definition option"
  cm_ledger :: "ledger_ref option"
  cm_resolution :: "constraint_resolution option"
  cm_impact :: "impact_map option"
  cm_plan :: "plan_ref option"
  cm_failed :: "string list"

definition NIL_UUID :: string where
  "NIL_UUID = ''00000000-0000-0000-0000-000000000000''"

definition plan_rows :: "session \<Rightarrow> string \<Rightarrow> orm list" where
  "plan_rows s task = repo_list s MVerificationPlan [(''task_id'', PStr task)]"

definition load_plan_for_task :: "session \<Rightarrow> string \<Rightarrow> precode_error + plan_ref" where
  "load_plan_for_task s task =
     (case plan_rows s task of
        [] \<Rightarrow> Inl (VerificationPlanError (''no verification plan exists for task '' @ task))
      | r # _ \<Rightarrow> get_verification_plan s (row_id r))"

definition ok_of :: "'e + 'a \<Rightarrow> 'a option" where
  "ok_of x = (case x of Inl _ \<Rightarrow> None | Inr a \<Rightarrow> Some a)"

definition failure_of :: "string \<Rightarrow> precode_error + 'a \<Rightarrow> string list" where
  "failure_of what x = (case x of Inl e \<Rightarrow> [what @ error_text e] | Inr _ \<Rightarrow> [])"

definition ledger_failures :: "string \<Rightarrow> string \<Rightarrow> precode_error + ledger_ref \<Rightarrow> string list" where
  "ledger_failures task ledger x =
     (case x of
        Inl e \<Rightarrow> [''intent ledger invalid: '' @ error_text e]
      | Inr l \<Rightarrow>
          (case lg_task l of
             None \<Rightarrow> []
           | Some k \<Rightarrow>
               if k \<noteq> task then [''intent ledger '' @ ledger @ '' is bound to task '' @ k @ '', not '' @ task] else []))"

definition constitution_failures :: "session \<Rightarrow> string option \<Rightarrow> string list" where
  "constitution_failures s k0 =
     (case k0 of
        None \<Rightarrow> [''constitution_id is required'']
      | Some k \<Rightarrow>
          if k = NIL_UUID then [''constitution_id is required'']
          else (case repo_get s MConstitution k of
              None \<Rightarrow> [''constitution '' @ k @ '' is unknown'']
            | Some c \<Rightarrow> if \<not> truthy (attr c ''locked'') then [''constitution '' @ k @ '' is not locked''] else []))"

definition plan_ledger_failures :: "string \<Rightarrow> plan_ref option \<Rightarrow> string list" where
  "plan_ledger_failures ledger v0 =
     (case v0 of
        None \<Rightarrow> []
      | Some v \<Rightarrow>
          (case vp_ledger v of
             None \<Rightarrow> []
           | Some k \<Rightarrow>
               if k \<noteq> ledger then
                 [''verification plan '' @ vp_id v @ '' references intent ledger '' @ k @ '', not '' @ ledger]
               else []))"

text \<open>
  An error of the impact map that is no \<open>SemanticImpactError\<close> (a stored scope without its keys) is not caught.
\<close>

definition collect_components ::
    "platform \<Rightarrow> session \<Rightarrow> string \<Rightarrow> string \<Rightarrow> string option \<Rightarrow> precode_error + components" where
  "collect_components p s task ledger constitution =
     (let definition0 = get_change_definition s task;
          ledger0 = get_intent_ledger s ledger;
          impact0 = get_semantic_impact p s task;
          plan0 = load_plan_for_task s task;
          constitution_failed = constitution_failures s constitution;
          resolution0 = (case (ledger0, constitution) of
              (Inr _, Some k) \<Rightarrow>
                if constitution_failed = [] then Some (resolve_constraints s ledger k) else None
            | _ \<Rightarrow> None)
      in if (case impact0 of Inl (SemanticImpactError _) \<Rightarrow> False | Inl _ \<Rightarrow> True | Inr _ \<Rightarrow> False) then
           Inl (case impact0 of Inl e \<Rightarrow> e | Inr _ \<Rightarrow> PyAssertionError)
         else Inr
           \<lparr>cm_definition = ok_of definition0, cm_ledger = ok_of ledger0, cm_resolution = Option.bind resolution0 ok_of,
            cm_impact = ok_of impact0, cm_plan = ok_of plan0,
            cm_failed =
              failure_of ''change definition invalid: '' definition0 @
              ledger_failures task ledger ledger0 @
              failure_of ''semantic impact map invalid: '' impact0 @
              failure_of ''verification plan invalid: '' plan0 @
              constitution_failed @
              plan_ledger_failures ledger (ok_of plan0) @
              (case resolution0 of
                 None \<Rightarrow> []
               | Some r \<Rightarrow> failure_of ''constitutional constraint resolution failed: '' r)\<rparr>)"

definition locked_objects :: "ledger_ref \<Rightarrow> impact_map \<Rightarrow> plan_ref \<Rightarrow> string list" where
  "locked_objects l m v =
     (if lg_locked l then [''intent_ledger:'' @ lg_id l] else []) @
     (if im_locked m then [''semantic_impact:'' @ im_id m] else []) @
     (if vp_locked v then [''verification_plan:'' @ vp_id v] else [])"

definition build_context ::
    "string \<Rightarrow> string \<Rightarrow> change_definition \<Rightarrow> ledger_ref \<Rightarrow> constraint_resolution \<Rightarrow> impact_map \<Rightarrow> plan_ref \<Rightarrow>
     session \<Rightarrow> precode_context \<times> session" where
  "build_context task constitution d l r m v s =
     (let objects = locked_objects l m v; (k, s1) = session_uuid s; (t, s2) = session_now s1
      in (\<lparr>px_id = k, px_task = task, px_change = vp_change v, px_repository = df_repository d, px_ledger = lg_id l,
           px_constitution = constitution, px_impact = im_id m, px_plan = vp_id v, px_intent_version = lg_version l,
           px_constitution_version = rs_version r, px_impact_version = im_version m, px_plan_version = vp_version v,
           px_lock_state = (if length objects = 3 then ''LOCKED'' else ''BLOCKED''), px_locked_objects = objects,
           px_created = t, px_definition = d, px_resolution = r, px_impact_map = m, px_plan_ref = v\<rparr>, s2))"

definition gate_context ::
    "string \<Rightarrow> string option \<Rightarrow> components \<Rightarrow> session \<Rightarrow> precode_context option \<times> session" where
  "gate_context task constitution cm s =
     (case (cm_definition cm, cm_ledger cm, cm_resolution cm, cm_impact cm, cm_plan cm) of
        (Some d, Some l, Some r, Some m, Some v) \<Rightarrow>
          (let (c, s') = build_context task (case constitution of None \<Rightarrow> [] | Some k \<Rightarrow> k) d l r m v s in (Some c, s'))
      | _ \<Rightarrow> (None, s))"

definition missing_locks :: "precode_context \<Rightarrow> string list" where
  "missing_locks c =
     filter (\<lambda>name. name \<notin> set (map (takeWhile (\<lambda>x. x \<noteq> CHR '':'')) (px_locked_objects c)))
       [''intent_ledger'', ''semantic_impact'', ''verification_plan'']"

definition gate_verdict_of :: "string list \<Rightarrow> precode_context option \<Rightarrow> precode_error + precode_verdict" where
  "gate_verdict_of failed context =
     (if failed \<noteq> [] then Inr \<lparr>gv_state = ''BLOCKED'', gv_context = context, gv_failed = failed\<rparr>
      else case context of
          None \<Rightarrow> Inl PyAssertionError
        | Some c \<Rightarrow>
            if px_lock_state c \<noteq> ''LOCKED'' then
              Inr \<lparr>gv_state = ''BLOCKED'', gv_context = context,
                gv_failed = map (\<lambda>name. ''required object not locked: '' @ name) (missing_locks c)\<rparr>
            else Inr \<lparr>gv_state = ''PASS'', gv_context = context, gv_failed = []\<rparr>)"

definition pre_coding_gate ::
    "platform \<Rightarrow> string \<Rightarrow> string \<Rightarrow> string option \<Rightarrow> session \<Rightarrow> precode_error + precode_verdict \<times> session" where
  "pre_coding_gate p task ledger constitution s =
     (case collect_components p s task ledger constitution of
        Inl e \<Rightarrow> Inl e
      | Inr cm \<Rightarrow>
          (let (context, s') = gate_context task constitution cm s
           in map_sum id (\<lambda>v. (v, s')) (gate_verdict_of (cm_failed cm) context)))"

end
