(* ===== verification/Barrier.thy ===== *)
theory Barrier
  imports Precode_Gate
begin

text \<open>
  The handoff of the pre-coding context and the execution barrier (\<open>smorx_develop/handoff.py\<close>,
  \<open>smorx_develop/barrier.py\<close>): the coding agent starts only on a context whose ledger and plan are still
  locked, unchanged and not superseded by a later version.
\<close>

record handoff_record =
  hr_id :: string
  hr_context_id :: string
  hr_task :: string
  hr_change :: string
  hr_ledger :: string
  hr_plan :: string
  hr_intent_version :: int
  hr_constitution_version :: int
  hr_impact_version :: int
  hr_plan_version :: int
  hr_lock_state :: string
  hr_received :: int
  hr_context :: precode_context

record barrier_verdict =
  bv_state :: string
  bv_handoff :: "handoff_record option"
  bv_failed :: "string list"

section \<open>The handoff (handoff.py)\<close>

definition names_parent :: "storage \<Rightarrow> string \<Rightarrow> orm \<Rightarrow> bool" where
  "names_parent st k r =
     (case st of
        JsonStore f \<Rightarrow>
          (case attr r f of
             PDict j \<Rightarrow> (case get_key j PARENT_RESERVED_KEY of PDict d \<Rightarrow> get_key d ''id'' = PStr k | _ \<Rightarrow> False)
           | _ \<Rightarrow> False)
      | TextStore f \<Rightarrow> contains (''[version_parent:'' @ k @ '';'') (text_of (attr r f)))"

text \<open>The recorded identifiers are texts, so \<open>str\<close> leaves them as they are.\<close>

definition successor_id :: "session \<Rightarrow> model \<Rightarrow> string \<Rightarrow> string option" where
  "successor_id s m k =
     (case parent_storage m of
        None \<Rightarrow> None
      | Some st \<Rightarrow> map_option row_id (find (names_parent st k) (repo_list s m [])))"

definition ledger_stale :: "session \<Rightarrow> precode_context \<Rightarrow> string option" where
  "ledger_stale s c =
     (case repo_get s MIntentLedger (px_ledger c) of
        None \<Rightarrow> Some (''intent ledger '' @ px_ledger c @ '' no longer exists; context is stale'')
      | Some l \<Rightarrow>
          if \<not> truthy (attr l ''locked'') then
            Some (''intent ledger '' @ px_ledger c @ '' is no longer locked; context is stale'')
          else if row_version l \<noteq> px_intent_version c then
            Some (''stale context: intent ledger version moved '' @ str_int (px_intent_version c) @ '' -> '' @
              str_int (row_version l))
          else map_option (\<lambda>k. ''stale context: intent ledger '' @ row_id l @ '' (v'' @ str_int (row_version l) @
              '') has been superseded by '' @ k @ ''; create a new pre-coding context for the current version'')
            (successor_id s MIntentLedger (row_id l)))"

definition plan_stale :: "session \<Rightarrow> precode_context \<Rightarrow> string option" where
  "plan_stale s c =
     (case repo_get s MVerificationPlan (px_plan c) of
        None \<Rightarrow> Some (''verification plan '' @ px_plan c @ '' no longer exists; context is stale'')
      | Some v \<Rightarrow>
          if \<not> truthy (attr v ''locked'') then
            Some (''verification plan '' @ px_plan c @ '' is no longer locked; context is stale'')
          else if row_version v \<noteq> px_plan_version c then
            Some (''stale context: verification plan version moved '' @ str_int (px_plan_version c) @ '' -> '' @
              str_int (row_version v))
          else (case successor_id s MVerificationPlan (row_id v) of
              Some k \<Rightarrow> Some (''stale context: verification plan '' @ row_id v @ '' (v'' @ str_int (row_version v) @
                '') has been superseded by '' @ k)
            | None \<Rightarrow>
                (case opt_of (attr v ''task_id'') of
                   None \<Rightarrow> None
                 | Some t \<Rightarrow>
                     if t \<noteq> px_task c then
                       Some (''context task mismatch: plan is bound to task '' @ t @ '', context carries '' @ px_task c)
                     else None)))"

definition pre_coding_handoff ::
    "precode_context \<Rightarrow> string \<Rightarrow> session \<Rightarrow> string + handoff_record \<times> session" where
  "pre_coding_handoff c expected s =
     (if px_lock_state c \<noteq> expected then
        Inl (''context lock_state is '' @ repr_str (px_lock_state c) @ '', expected '' @ repr_str expected @
          ''; a blocked context is never accepted'')
      else case ledger_stale s c of
          Some e \<Rightarrow> Inl e
        | None \<Rightarrow>
            (case plan_stale s c of
               Some e \<Rightarrow> Inl e
             | None \<Rightarrow>
                 (let (k, s1) = session_uuid s; (t, s2) = session_now s1
                  in Inr (\<lparr>hr_id = k, hr_context_id = px_id c, hr_task = px_task c, hr_change = px_change c,
                       hr_ledger = px_ledger c, hr_plan = px_plan c, hr_intent_version = px_intent_version c,
                       hr_constitution_version = px_constitution_version c, hr_impact_version = px_impact_version c,
                       hr_plan_version = px_plan_version c, hr_lock_state = px_lock_state c, hr_received = t,
                       hr_context = c\<rparr>, s2))))"

section \<open>The barrier (barrier.py)\<close>

definition ledger_condition :: "session \<Rightarrow> handoff_record \<Rightarrow> string list" where
  "ledger_condition s h =
     (case repo_get s MIntentLedger (hr_ledger h) of
        None \<Rightarrow> [''intent ledger does not exist'']
      | Some l \<Rightarrow> if \<not> truthy (attr l ''locked'') then [''intent is not locked''] else [])"

definition impact_condition :: "session \<Rightarrow> handoff_record \<Rightarrow> string list" where
  "impact_condition s h =
     (case impact_rows s (hr_task h) of
        [] \<Rightarrow> [''semantic impact map does not exist'']
      | r # _ \<Rightarrow>
          if \<not> truthy (attr r ''locked'') then [''semantic impact map is not locked'']
          else if row_version r \<noteq> hr_impact_version h then
            [''impact map version mismatch: context carries '' @ str_int (hr_impact_version h) @ '', persisted is '' @
              str_int (row_version r)]
          else [])"

definition plan_condition :: "session \<Rightarrow> handoff_record \<Rightarrow> string list" where
  "plan_condition s h =
     (case repo_get s MVerificationPlan (hr_plan h) of
        None \<Rightarrow> [''verification plan does not exist'']
      | Some v \<Rightarrow>
          if \<not> truthy (attr v ''locked'') then [''verification plan is not locked'']
          else if row_version v \<noteq> hr_plan_version h then
            [''verification plan version mismatch: context carries '' @ str_int (hr_plan_version h) @
              '', persisted is '' @ str_int (row_version v)]
          else [])"

definition failed_conditions :: "session \<Rightarrow> handoff_record \<Rightarrow> bool \<Rightarrow> string list" where
  "failed_conditions s h authorized =
     ledger_condition s h @
     (if hr_constitution_version h < 1 then [''constitution context does not exist''] else []) @
     impact_condition s h @ plan_condition s h @
     (if \<not> authorized then [''task is not authorized for execution; an explicit authorization '' @
        ''flag is required (no implicit execution)''] else [])"

definition evaluate_barrier :: "precode_context \<Rightarrow> bool \<Rightarrow> session \<Rightarrow> barrier_verdict \<times> session" where
  "evaluate_barrier c authorized s =
     (case pre_coding_handoff c ''LOCKED'' s of
        Inl e \<Rightarrow> (\<lparr>bv_state = ''BLOCKED'', bv_handoff = None, bv_failed = [''handoff invalid: '' @ e]\<rparr>, s)
      | Inr (h, s') \<Rightarrow>
          (let failed = failed_conditions s' h authorized
           in (\<lparr>bv_state = (if failed \<noteq> [] then ''BLOCKED'' else ''PASS''), bv_handoff = Some h, bv_failed = failed\<rparr>, s')))"

definition require_pass :: "precode_context \<Rightarrow> bool \<Rightarrow> session \<Rightarrow> string + handoff_record \<times> session" where
  "require_pass c authorized s =
     (let (v, s') = evaluate_barrier c authorized s
      in if bv_state v \<noteq> ''PASS'' then Inl (''execution barrier BLOCKED: '' @ join ''; '' (bv_failed v))
         else case bv_handoff v of None \<Rightarrow> Inl [] | Some h \<Rightarrow> Inr (h, s'))"

end
