(* ===== verification/Intent_Proofs.thy ===== *)
theory Intent_Proofs
  imports Precode_Intent
begin

text \<open>
  What the first half of the pre-code flow promises: the compiled intents are the declared statements with a
  PRESERVE among them, the resolution names exactly the claims an item touches, and a revised ledger starts
  without any item.
\<close>

section \<open>Compilation\<close>

definition declared :: "platform \<Rightarrow> json list \<Rightarrow> (string \<times> string) list" where
  "declared p sts = map (\<lambda>st. (statement_type p st, statement_description p st)) sts"

definition compilable :: "platform \<Rightarrow> string \<Rightarrow> json list \<Rightarrow> bool" where
  "compilable p objective sts \<longleftrightarrow>
     strip objective \<noteq> [] \<and> sts \<noteq> [] \<and>
     list_all (\<lambda>(ty, d). ty \<in> set INTENT_TYPES \<and> d \<noteq> []) (declared p sts) \<and>
     flagged_markers objective (map snd (declared p sts)) = []"

text \<open>The intents a request may lead to: what it declares, and the protection of everything else.\<close>

definition with_preserve :: "(string \<times> string) list \<Rightarrow> (string \<times> string) list" where
  "with_preserve xs = xs @ (if ''PRESERVE'' \<in> fst ` set xs then [] else [(''PRESERVE'', IMPLICIT_PRESERVE)])"

definition intent_pair :: "intent \<Rightarrow> string \<times> string" where
  "intent_pair i = (it_type i, it_description i)"

definition proposed :: "intent \<Rightarrow> bool" where
  "proposed i \<longleftrightarrow> it_status i = ''PROPOSED'' \<and> \<not> it_locked i"

lemma proposed_intent_simps [simp]:
  "intent_pair (proposed_intent k ty d t) = (ty, d)" "proposed (proposed_intent k ty d t)"
  "it_type (proposed_intent k ty d t) = ty" "it_description (proposed_intent k ty d t) = d"
  by (simp_all add: intent_pair_def proposed_def proposed_intent_def)

lemma compiled_statements:
  "case compile_statements p t sts w of
     Inl e \<Rightarrow> \<not> list_all (\<lambda>(ty, d). ty \<in> set INTENT_TYPES \<and> d \<noteq> []) (declared p sts)
   | Inr (xs, w') \<Rightarrow> list_all (\<lambda>(ty, d). ty \<in> set INTENT_TYPES \<and> d \<noteq> []) (declared p sts) \<and>
       map intent_pair xs = declared p sts \<and> list_all proposed xs"
proof (induction sts arbitrary: w)
  case (Cons st sts)
  show ?case using Cons.IH [of "snd (uuid4 w)"]
    by (auto simp: declared_def Let_def case_prod_unfold split: sum.splits)
qed (simp add: declared_def)

lemma pairs_parts:
  assumes "map intent_pair xs = ys"
  shows "map it_description xs = map snd ys" "it_type ` set xs = fst ` set ys" "xs = [] \<longleftrightarrow> ys = []"
  using assms by (auto simp: intent_pair_def image_image)

lemma detect_none: "detect_ambiguity o' ds = None \<longleftrightarrow> flagged_markers o' ds = []"
proof -
  have "sort (dedup xs) = [] \<longleftrightarrow> xs = []" for xs :: "string list"
    by (metis dedup_Nil_iff set_empty set_sort)
  then show ?thesis by (simp add: detect_ambiguity_def Let_def)
qed

text \<open>
  C30. A request compiles exactly when its objective is given, it has statements, each with a known type and a
  description, and no marker of ambiguity or expansion occurs. The intents are then the statements in their
  order, followed by the implicit PRESERVE when none was declared, and all of them are proposals.
\<close>

theorem intents_compile_exactly:
  "case compile_intent p objective sts w of
     Inl e \<Rightarrow> \<not> compilable p objective sts
   | Inr (xs, w') \<Rightarrow> compilable p objective sts \<and> map intent_pair xs = with_preserve (declared p sts) \<and>
       list_all proposed xs"
proof (cases "strip objective = []")
  case False
  obtain t w1 where n: "now w = (t, w1)" by fastforce
  note stm = compiled_statements [where p = p and t = t and sts = sts and w = w1]
  show ?thesis
  proof (cases "compile_statements p t sts w1")
    case (Inl e)
    with stm False n show ?thesis by (simp add: compile_intent_def compilable_def)
  next
    case (Inr r)
    obtain xs w2 where r: "r = (xs, w2)" by (cases r)
    from stm Inr r have ok: "list_all (\<lambda>(ty, d). ty \<in> set INTENT_TYPES \<and> d \<noteq> []) (declared p sts)"
      "map intent_pair xs = declared p sts" "list_all proposed xs" by simp_all
    note parts = pairs_parts [OF ok(2)]
    have sts: "declared p sts = [] \<longleftrightarrow> sts = []" by (simp add: declared_def)
    show ?thesis
    proof (cases "xs = [] \<or> detect_ambiguity objective (map it_description xs) \<noteq> None")
      case True
      then have "\<not> compilable p objective sts" using parts sts by (auto simp: compilable_def detect_none)
      then show ?thesis using True False n Inr r by (auto simp: compile_intent_def split: option.splits)
    next
      case no: False
      then have "compilable p objective sts" using parts sts ok(1) False by (auto simp: compilable_def detect_none)
      then show ?thesis using no False n Inr r ok parts(2)
        by (auto simp: compile_intent_def with_preserve_def case_prod_unfold Let_def split: option.splits)
    qed
  qed
qed (simp add: compile_intent_def compilable_def)

section \<open>Resolution\<close>

definition touches :: "orm \<Rightarrow> orm \<Rightarrow> bool" where
  "touches i c \<longleftrightarrow> list_ex (\<lambda>w. w \<in> set (item_terms i)) (claim_terms c)"

lemma claim_hits_touch: "claim_hits items c = map row_id (filter (\<lambda>i. touches i c) items)"
proof -
  have "item_terms i \<noteq> [] \<and> list_ex (\<lambda>w. w \<in> set (item_terms i)) (claim_terms c) \<longleftrightarrow> touches i c" for i
    by (auto simp: touches_def list_ex_iff)
  moreover have "claim_terms c = [] \<Longrightarrow> filter (\<lambda>i. touches i c) items = []" by (simp add: touches_def)
  ultimately show ?thesis by (simp add: claim_hits_def)
qed

lemma found_by_key: "distinct (map f xs) \<Longrightarrow> x \<in> set xs \<Longrightarrow> find (\<lambda>y. f y = f x) xs = Some x"
  by (induction xs) auto

lemma is_replace_of:
  assumes "distinct (map row_id items)" "i \<in> set items"
  shows "is_replace items (row_id i) \<longleftrightarrow> attr i ''kind'' = PStr ''REPLACE''"
  using found_by_key [of row_id "rev items" i] assms by (simp add: is_replace_def rev_map [symmetric])

lemma replace_hits_iff:
  assumes "distinct (map row_id items)"
  shows "replace_hits items c \<noteq> [] \<longleftrightarrow> (\<exists>i\<in>set items. touches i c \<and> attr i ''kind'' = PStr ''REPLACE'')"
  using is_replace_of [OF assms] by (auto simp: replace_hits_def claim_hits_touch filter_empty_conv)

text \<open>
  The claims of the constitution are all protected; matched are those that share a term with an item of the
  ledger, conflicting those that share one with a REPLACE item, and a note is written exactly when there is a
  conflict.
\<close>

theorem resolution_exact:
  assumes "resolve_constraints s ledger constitution = Inr res" "distinct (map row_id (ledger_items s ledger))"
  shows "rs_protected res = map row_id (repo_list s MConstitutionClaim [(''constitution_id'', PStr constitution)]) \<and>
    rs_matched res = map row_id (filter (\<lambda>c. list_ex (\<lambda>i. touches i c) (ledger_items s ledger))
      (repo_list s MConstitutionClaim [(''constitution_id'', PStr constitution)])) \<and>
    rs_conflicting res = map row_id
      (filter (\<lambda>c. list_ex (\<lambda>i. touches i c \<and> attr i ''kind'' = PStr ''REPLACE'') (ledger_items s ledger))
        (repo_list s MConstitutionClaim [(''constitution_id'', PStr constitution)])) \<and>
    (rs_notes res = [] \<longleftrightarrow> rs_conflicting res = [])"
proof -
  from assms(1) obtain l c where lc: "repo_get s MIntentLedger ledger = Some l" "repo_get s MConstitution constitution = Some c"
    by (auto simp: resolve_constraints_def split: option.splits)
  let ?cs = "repo_list s MConstitutionClaim [(''constitution_id'', PStr constitution)]"
  let ?items = "ledger_items s ledger"
  from got [OF lc(1)] got [OF lc(2)] assms(1) lc have res: "res = resolution_of l c ?cs ?items"
    by (auto simp: resolve_constraints_def split: if_splits)
  have "replace_hits ?items x \<noteq> [] \<longleftrightarrow> list_ex (\<lambda>i. touches i x \<and> attr i ''kind'' = PStr ''REPLACE'') ?items" for x
    using replace_hits_iff [OF assms(2)] by (simp add: list_ex_iff)
  moreover have "claim_hits ?items x \<noteq> [] \<longleftrightarrow> list_ex (\<lambda>i. touches i x) ?items" for x
    by (auto simp: claim_hits_touch filter_empty_conv list_ex_iff)
  moreover have "concat (map (\<lambda>x. map (conflict_note x) (replace_hits ?items x)) ?cs) = [] \<longleftrightarrow>
      map row_id (filter (\<lambda>x. replace_hits ?items x \<noteq> []) ?cs) = []"
    by (auto simp: filter_empty_conv)
  ultimately show ?thesis by (simp add: res resolution_of_def)
qed

section \<open>Revision of a ledger\<close>

lemma list_saved:
  assumes "repo_save r s = (row, s')" "ob_model r \<noteq> m"
  shows "repo_list s' m fs = repo_list s m fs"
  using assms saved_rows(1,2) [OF assms(1)] by (simp add: repo_list_def)

lemma bump_locked_saves:
  assumes "bump l note s = Inr (n, s')" "is_locked l"
  obtains c where "repo_save c s = (n, s')" "ob_model c = ob_model l" "attr c ''version'' = PInt (row_version l + 1)"
proof -
  from assms obtain c where c: "record_parent_ref (clone_row l (row_version l + 1)) l note = Inr c" "repo_save c s = (n, s')"
    and v: "has_column (ob_model l) ''version''"
    by (auto simp: bump_def bump_new_identity_def split: if_splits sum.splits)
  from c(1) obtain st where st: "parent_storage (ob_model l) = Some st"
    by (auto simp: record_parent_ref_def clone_versioned split: option.splits)
  then have "ob_model c = ob_model l" "attr c ''version'' = PInt (row_version l + 1)"
    using c(1) storage_field [of "ob_model l"] clone_versioned(2) [OF v, of "row_version l + 1"]
    by (auto simp: record_parent_ref_def clone_versioned(1) Let_def split: storage.splits)
  with c(2) that show thesis by blast
qed

text \<open>
  C32. The revision of a locked ledger is a new ledger without any of the items: nothing it is resolved against
  matches or conflicts, whatever the previous version asked to replace.
\<close>

theorem revision_drops_the_intent:
  assumes row: "repo_get s MIntentLedger k = Some l" "truthy (attr l ''locked'')"
    and fresh: "repo_get s MIntentLedger (fst (session_uuid s)) = None" "ledger_items s (fst (session_uuid s)) = []"
    and revised: "bump_intent_ledger k note s = Inr (ref, s')"
    and resolved: "resolve_constraints s' (lg_id ref) constitution = Inr res"
  shows "lg_id ref = fst (session_uuid s) \<and> lg_version ref = row_version l + 1 \<and> lg_items ref = [] \<and>
    rs_matched res = [] \<and> rs_conflicting res = [] \<and> rs_notes res = []"
proof -
  have m: "ob_model l = MIntentLedger" using got [OF row(1)] by simp
  have locked: "is_locked l" using row(2) m by (simp add: is_locked_def has_column_def column_defs)
  define note' where "note' = Some (case note of None \<Rightarrow> ''intent revision'' | Some t \<Rightarrow> if t = [] then ''intent revision'' else t)"
  from revised row(1) obtain n s1 where "bump l note' s = Inr (n, s1)" "map_sum id (\<lambda>ref. (ref, s1)) (get_intent_ledger s1 (row_id n)) = Inr (ref, s')"
    by (auto simp: bump_intent_ledger_def note'_def split: sum.splits)
  then have n: "bump l note' s = Inr (n, s')" "get_intent_ledger s' (row_id n) = Inr ref"
    by (cases "get_intent_ledger s1 (row_id n)"; simp)+
  obtain c where c: "repo_save c s = (n, s')" "ob_model c = MIntentLedger" "attr c ''version'' = PInt (row_version l + 1)"
    using bump_locked_saves [OF n(1) locked] m by metis
  have id: "row_id n = fst (session_uuid s)" using saved_id [of c s] c(1) by simp
  have get: "repo_get s' MIntentLedger (row_id n) = Some n" using fresh(1) id c(2) by (simp add: get_saved [OF c(1)])
  have items: "ledger_items s' (row_id n) = []"
    using list_saved [OF c(1), of MIntentItem] c(2) fresh(2) id by (simp add: ledger_items_def)
  have ref: "ref = ledger_ref_of n []" using n(2) get items by (simp add: get_intent_ledger_def)
  have ver: "row_version n = row_version l + 1" using saved_rows(1) [OF c(1)] c(3) by (simp add: row_version_def)
  from resolved get items ref have "rs_matched res = [] \<and> rs_conflicting res = [] \<and> rs_notes res = []"
    by (auto simp: resolve_constraints_def resolution_of_def claim_hits_touch replace_hits_def ledger_ref_of_def
        split: option.splits if_splits)
  with ref ver id show ?thesis by (simp add: ledger_ref_of_def)
qed

end
