(* ===== verification/Flow_Proofs.thy ===== *)
theory Flow_Proofs
  imports Precode_Proofs
begin

text \<open>
  The pre-code flow as a whole: the exact condition under which the gate passes, the history that every sequence
  of operations keeps, and the barrier on fresh and on superseded contexts.
\<close>

section \<open>The gate\<close>

definition gate_passes :: "precode_error + precode_verdict \<times> session \<Rightarrow> bool" where
  "gate_passes x \<longleftrightarrow> (case x of Inl _ \<Rightarrow> False | Inr (v, _) \<Rightarrow> gv_state v = ''PASS'')"

text \<open>What is persisted for the task when the gate passes.\<close>

definition gate_ready :: "platform \<Rightarrow> session \<Rightarrow> string \<Rightarrow> string \<Rightarrow> string option \<Rightarrow> bool" where
  "gate_ready p s task ledger constitution \<longleftrightarrow>
     (case (get_change_definition s task, get_intent_ledger s ledger, get_semantic_impact p s task,
         load_plan_for_task s task, constitution) of
        (Inr d, Inr l, Inr m, Inr v, Some k) \<Rightarrow>
          lg_locked l \<and> lg_task l \<in> {None, Some task} \<and> im_locked m \<and> vp_locked v \<and> vp_ledger v \<in> {None, Some ledger} \<and>
          k \<noteq> NIL_UUID \<and> (case repo_get s MConstitution k of None \<Rightarrow> False | Some c \<Rightarrow> truthy (attr c ''locked''))
      | _ \<Rightarrow> False)"

lemma resolves:
  "repo_get s MIntentLedger ledger = Some l \<Longrightarrow> repo_get s MConstitution k = Some c \<Longrightarrow> truthy (attr c ''locked'') \<Longrightarrow>
   \<exists>r. resolve_constraints s ledger k = Inr r \<and> rs_version r = row_version c"
  by (simp add: resolve_constraints_def resolution_of_def)

lemma three_locked: "length (locked_objects l m v) = 3 \<longleftrightarrow> lg_locked l \<and> im_locked m \<and> vp_locked v"
  by (simp add: locked_objects_def)

lemma constitution_ok:
  "constitution_failures s k0 = [] \<longleftrightarrow>
   (\<exists>k c. k0 = Some k \<and> k \<noteq> NIL_UUID \<and> repo_get s MConstitution k = Some c \<and> truthy (attr c ''locked''))"
  by (auto simp: constitution_failures_def split: option.splits)

lemma ledger_found: "get_intent_ledger s k = Inr l \<Longrightarrow> repo_get s MIntentLedger k \<noteq> None"
  by (auto simp: get_intent_ledger_def split: option.splits)

lemma gate_context_of:
  assumes "get_change_definition s task = Inr d" "get_intent_ledger s ledger = Inr l" "get_semantic_impact p s task = Inr m"
    "load_plan_for_task s task = Inr v" "constitution_failures s (Some k) = []"
  obtains r c where "repo_get s MConstitution k = Some c" "rs_version r = row_version c"
    "collect_components p s task ledger (Some k) = Inr
       \<lparr>cm_definition = Some d, cm_ledger = Some l, cm_resolution = Some r, cm_impact = Some m, cm_plan = Some v,
        cm_failed = ledger_failures task ledger (Inr l) @ plan_ledger_failures ledger (Some v)\<rparr>"
proof -
  from assms(5) obtain c where c: "repo_get s MConstitution k = Some c" "truthy (attr c ''locked'')"
    by (auto simp: constitution_ok)
  from ledger_found [OF assms(2)] obtain l0 where "repo_get s MIntentLedger ledger = Some l0" by blast
  from resolves [OF this c] obtain r where r: "resolve_constraints s ledger k = Inr r" "rs_version r = row_version c" by blast
  have "collect_components p s task ledger (Some k) = Inr
       \<lparr>cm_definition = Some d, cm_ledger = Some l, cm_resolution = Some r, cm_impact = Some m, cm_plan = Some v,
        cm_failed = ledger_failures task ledger (Inr l) @ plan_ledger_failures ledger (Some v)\<rparr>"
    using assms r(1) by (simp add: collect_components_def Let_def ok_of_def failure_of_def)
  with c(1) r(2) that show thesis by blast
qed

lemma failures_Nil:
  "ledger_failures task ledger (Inr l) = [] \<longleftrightarrow> lg_task l \<in> {None, Some task}"
  "plan_ledger_failures ledger (Some v) = [] \<longleftrightarrow> vp_ledger v \<in> {None, Some ledger}"
  by (auto simp: ledger_failures_def plan_ledger_failures_def split: option.splits)

lemma not_failed:
  assumes "collect_components p s task ledger constitution = Inr cm" "cm_failed cm = []"
  obtains d l m v k where "get_change_definition s task = Inr d" "get_intent_ledger s ledger = Inr l"
    "get_semantic_impact p s task = Inr m" "load_plan_for_task s task = Inr v" "constitution = Some k"
    "constitution_failures s (Some k) = []"
proof -
  from assms have f: "failure_of ''change definition invalid: '' (get_change_definition s task) = []"
    "ledger_failures task ledger (get_intent_ledger s ledger) = []"
    "failure_of ''semantic impact map invalid: '' (get_semantic_impact p s task) = []"
    "failure_of ''verification plan invalid: '' (load_plan_for_task s task) = []" "constitution_failures s constitution = []"
    by (auto simp: collect_components_def Let_def split: if_splits)
  then have "\<exists>d. get_change_definition s task = Inr d" "\<exists>l. get_intent_ledger s ledger = Inr l"
    "\<exists>m. get_semantic_impact p s task = Inr m" "\<exists>v. load_plan_for_task s task = Inr v" "\<exists>k. constitution = Some k"
    by (auto simp: failure_of_def ledger_failures_def constitution_ok split: sum.splits)
  with f(5) that show thesis by blast
qed

text \<open>What a verdict PASS says of the session and of the context it hands on.\<close>

lemma gate_pass_context:
  assumes gate: "pre_coding_gate p task ledger constitution s = Inr (v, s')" and pass: "gv_state v = ''PASS''"
  obtains d l m w k c r x where "get_change_definition s task = Inr d" "get_intent_ledger s ledger = Inr l"
    "get_semantic_impact p s task = Inr m" "load_plan_for_task s task = Inr w" "constitution = Some k"
    "constitution_failures s (Some k) = []" "repo_get s MConstitution k = Some c" "rs_version r = row_version c"
    "lg_locked l \<and> im_locked m \<and> vp_locked w" "lg_task l \<in> {None, Some task}" "vp_ledger w \<in> {None, Some ledger}"
    "build_context task k d l r m w s = (x, s')" "v = \<lparr>gv_state = ''PASS'', gv_context = Some x, gv_failed = []\<rparr>"
proof -
  from gate obtain cm where cm: "collect_components p s task ledger constitution = Inr cm"
    by (auto simp: pre_coding_gate_def split: sum.splits)
  obtain x0 s0 where x0: "gate_context task constitution cm s = (x0, s0)" by fastforce
  with gate cm have "map_sum id (\<lambda>v. (v, s0)) (gate_verdict_of (cm_failed cm) x0) = Inr (v, s')"
    by (simp add: pre_coding_gate_def)
  then have gv: "gate_verdict_of (cm_failed cm) x0 = Inr v" "s' = s0"
    by (cases "gate_verdict_of (cm_failed cm) x0"; simp)+
  with pass have failed: "cm_failed cm = []" by (auto simp: gate_verdict_of_def split: if_splits)
  obtain d l m w k where parts: "get_change_definition s task = Inr d" "get_intent_ledger s ledger = Inr l"
    "get_semantic_impact p s task = Inr m" "load_plan_for_task s task = Inr w" "constitution = Some k"
    "constitution_failures s (Some k) = []"
    by (rule not_failed [OF cm failed])
  obtain r c where rc: "repo_get s MConstitution k = Some c" "rs_version r = row_version c"
    "collect_components p s task ledger (Some k) = Inr
       \<lparr>cm_definition = Some d, cm_ledger = Some l, cm_resolution = Some r, cm_impact = Some m, cm_plan = Some w,
        cm_failed = ledger_failures task ledger (Inr l) @ plan_ledger_failures ledger (Some w)\<rparr>"
    by (rule gate_context_of [OF parts(1-4,6)])
  note cm' = cm [unfolded parts(5) rc(3), simplified, symmetric]
  obtain x where x: "build_context task k d l r m w s = (x, s')" "x0 = Some x"
    using x0 gv(2) parts(5) cm' by (cases "build_context task k d l r m w s") (simp add: gate_context_def)
  have state: "px_lock_state x = (if lg_locked l \<and> im_locked m \<and> vp_locked w then ''LOCKED'' else ''BLOCKED'')"
    using x(1) by (auto simp: build_context_def three_locked case_prod_unfold Let_def)
  have locks: "lg_locked l \<and> im_locked m \<and> vp_locked w" "v = \<lparr>gv_state = ''PASS'', gv_context = Some x, gv_failed = []\<rparr>"
    using gv(1) failed x(2) pass state by (auto simp: gate_verdict_of_def split: if_splits)
  from failed cm' have "lg_task l \<in> {None, Some task}" "vp_ledger w \<in> {None, Some ledger}"
    using failures_Nil by simp_all
  with that parts rc(1,2) x(1) locks show thesis by blast
qed

text \<open>Whatever is ready passes.\<close>

lemma gate_ready_passes:
  assumes "gate_ready p s task ledger constitution"
  shows "gate_passes (pre_coding_gate p task ledger constitution s)"
proof -
  from assms obtain d l m v k where parts: "get_change_definition s task = Inr d" "get_intent_ledger s ledger = Inr l"
    "get_semantic_impact p s task = Inr m" "load_plan_for_task s task = Inr v" "constitution = Some k"
    "constitution_failures s (Some k) = []" and locks: "lg_locked l \<and> im_locked m \<and> vp_locked v"
    and bound: "lg_task l \<in> {None, Some task}" "vp_ledger v \<in> {None, Some ledger}"
    by (auto simp: gate_ready_def constitution_ok split: sum.splits option.splits)
  obtain r c where "collect_components p s task ledger (Some k) = Inr
       \<lparr>cm_definition = Some d, cm_ledger = Some l, cm_resolution = Some r, cm_impact = Some m, cm_plan = Some v,
        cm_failed = ledger_failures task ledger (Inr l) @ plan_ledger_failures ledger (Some v)\<rparr>"
    by (rule gate_context_of [OF parts(1-4,6)])
  moreover have "ledger_failures task ledger (Inr l) @ plan_ledger_failures ledger (Some v) = []"
    using bound failures_Nil by simp
  ultimately show ?thesis using locks parts(5)
    by (simp add: gate_passes_def pre_coding_gate_def gate_context_def build_context_def three_locked gate_verdict_of_def
        case_prod_unfold Let_def)
qed

text \<open>What has to be there and locked: definition, ledger, impact map, plan and constitution.\<close>

definition gate_parts :: "platform \<Rightarrow> session \<Rightarrow> string \<Rightarrow> string \<Rightarrow> string option \<Rightarrow> ledger_ref \<Rightarrow> plan_ref \<Rightarrow> bool" where
  "gate_parts p s task ledger constitution l v \<longleftrightarrow>
     (\<exists>d m k c. get_change_definition s task = Inr d \<and> get_intent_ledger s ledger = Inr l \<and>
        get_semantic_impact p s task = Inr m \<and> load_plan_for_task s task = Inr v \<and> constitution = Some k \<and>
        k \<noteq> NIL_UUID \<and> repo_get s MConstitution k = Some c \<and> truthy (attr c ''locked'') \<and>
        lg_locked l \<and> im_locked m \<and> vp_locked v)"

text \<open>
  The bindings the docstring of the gate asks for, and those the code accepts besides: a ledger without a task, a
  plan without a ledger.
\<close>

definition documented_binding :: "string \<Rightarrow> string \<Rightarrow> ledger_ref \<Rightarrow> plan_ref \<Rightarrow> bool" where
  "documented_binding task ledger l v \<longleftrightarrow> lg_task l = Some task \<and> vp_ledger v = Some ledger"

definition undocumented_binding :: "string \<Rightarrow> string \<Rightarrow> ledger_ref \<Rightarrow> plan_ref \<Rightarrow> bool" where
  "undocumented_binding task ledger l v \<longleftrightarrow>
     lg_task l = None \<and> vp_ledger v \<in> {None, Some ledger} \<or> lg_task l = Some task \<and> vp_ledger v = None"

lemma gate_ready_parts:
  "gate_ready p s task ledger constitution \<longleftrightarrow>
     (\<exists>l v. gate_parts p s task ledger constitution l v \<and>
        (documented_binding task ledger l v \<or> undocumented_binding task ledger l v))"
  by (auto simp: gate_ready_def gate_parts_def documented_binding_def undocumented_binding_def split: sum.splits option.splits)

text \<open>
  C8. The gate passes when the change definition, the ledger, the impact map, the plan and the constitution are
  there and locked, the ledger is bound to the task and the plan to the ledger, as its docstring says; and in one
  case more, which the docstring excludes with "any other combination is BLOCKED": a ledger that has no task and a
  plan that has no ledger pass as well. In no other case it passes. That the case occurs is shown by
  \<open>unbound_context_passes\<close> in \<open>Precode_Demo\<close>.
\<close>

theorem gate_passes_exactly:
  "gate_passes (pre_coding_gate p task ledger constitution s) \<longleftrightarrow>
     (\<exists>l v. gate_parts p s task ledger constitution l v \<and>
        (documented_binding task ledger l v \<or> undocumented_binding task ledger l v))"
  unfolding gate_ready_parts [symmetric]
proof
  assume "gate_passes (pre_coding_gate p task ledger constitution s)"
  then obtain v s' where gate: "pre_coding_gate p task ledger constitution s = Inr (v, s')" "gv_state v = ''PASS''"
    by (auto simp: gate_passes_def split: sum.splits)
  show "gate_ready p s task ledger constitution"
    by (rule gate_pass_context [OF gate]) (auto simp: gate_ready_def constitution_ok)
qed (rule gate_ready_passes)

section \<open>The barrier on a fresh context\<close>

definition keys :: "session \<Rightarrow> (model \<times> string) list" where
  "keys s = map (\<lambda>r. (ob_model r, row_id r)) (se_rows s)"

definition unique_keys :: "session \<Rightarrow> bool" where
  "unique_keys s \<longleftrightarrow> distinct (keys s)"

lemma unique_row:
  assumes "unique_keys s" "r \<in> set (se_rows s)" "r' \<in> set (se_rows s)" "same_row r r'"
  shows "r = r'"
  using assms by (auto simp: unique_keys_def keys_def same_row_def distinct_map dest: inj_onD)

lemma unique_get: "unique_keys s \<Longrightarrow> r \<in> set (se_rows s) \<Longrightarrow> repo_get s (ob_model r) (row_id r) = Some r"
proof -
  assume *: "unique_keys s" "r \<in> set (se_rows s)"
  then have "repo_get s (ob_model r) (row_id r) \<noteq> None" by (auto simp: repo_get_def find_None_iff)
  then obtain r' where r': "repo_get s (ob_model r) (row_id r) = Some r'" by blast
  have "r = r'" by (rule unique_row [OF *]) (use got [OF r'] in \<open>simp_all add: same_row_def\<close>)
  with r' show ?thesis by simp
qed

lemma listed: "r \<in> set (repo_list s m fs) \<longleftrightarrow>
    r \<in> set (se_rows s) \<and> ob_model r = m \<and> (\<forall>(f, v)\<in>set fs. attr r f = v)"
  by (auto simp: repo_list_def)

lemma same_rows:
  assumes "se_rows s' = se_rows s"
  shows "repo_get s' m k = repo_get s m k" "repo_list s' m fs = repo_list s m fs"
    "successor_id s' m k = successor_id s m k"
proof -
  show "repo_get s' m k = repo_get s m k" using assms by (simp add: repo_get_def)
  have *: "repo_list s' n gs = repo_list s n gs" for n gs using assms by (simp add: repo_list_def)
  then show "repo_list s' m fs = repo_list s m fs" .
  show "successor_id s' m k = successor_id s m k" unfolding successor_id_def * ..
qed

lemma host_rows [simp]: "se_rows (snd (session_uuid s)) = se_rows s" "se_rows (snd (session_now s)) = se_rows s"
  by (simp_all add: session_uuid_def session_now_def case_prod_unfold Let_def)

lemma context_fields:
  assumes "build_context task k d l r m w s = (x, s')"
  shows "px_task x = task" "px_ledger x = lg_id l" "px_plan x = vp_id w" "px_intent_version x = lg_version l"
    "px_constitution_version x = rs_version r" "px_impact_version x = im_version m" "px_plan_version x = vp_version w"
    "px_lock_state x = (if lg_locked l \<and> im_locked m \<and> vp_locked w then ''LOCKED'' else ''BLOCKED'')"
    "se_rows s' = se_rows s"
  using assms by (auto simp: build_context_def three_locked case_prod_unfold Let_def)

lemma ledger_row:
  assumes "get_intent_ledger s k = Inr l"
  obtains r where "repo_get s MIntentLedger k = Some r" "lg_id l = k" "lg_version l = row_version r"
    "lg_locked l \<longleftrightarrow> truthy (attr r ''locked'')"
proof -
  from assms obtain r where r: "repo_get s MIntentLedger k = Some r" "l = ledger_ref_of r (map row_id (ledger_items s (row_id r)))"
    by (auto simp: get_intent_ledger_def split: option.splits)
  with got [OF r(1)] that show thesis by (simp add: ledger_ref_of_def)
qed

lemma impact_row_of:
  assumes "get_semantic_impact p s task = Inr m"
  obtains r rs where "impact_rows s task = r # rs" "im_version m = row_version r" "im_locked m \<longleftrightarrow> truthy (attr r ''locked'')"
proof -
  from assms obtain r rs where r: "impact_rows s task = r # rs" "map_from_row p r = Inr m"
    by (auto simp: get_semantic_impact_def split: list.splits)
  from r(2) obtain ns es where "m = impact_map_of r ns es"
    by (auto simp: map_from_row_def Let_def split: sum.splits)
  with r(1) that show thesis by (simp add: impact_map_of_def)
qed

lemma plan_row_of:
  assumes "load_plan_for_task s task = Inr w" "unique_keys s"
  obtains r where "repo_get s MVerificationPlan (row_id r) = Some r" "vp_id w = row_id r" "vp_version w = row_version r"
    "vp_locked w \<longleftrightarrow> truthy (attr r ''locked'')" "attr r ''task_id'' = PStr task"
proof -
  from assms(1) obtain r rs where r: "plan_rows s task = r # rs" "get_verification_plan s (row_id r) = Inr w"
    by (auto simp: load_plan_for_task_def split: list.splits)
  from r(1) have "r \<in> set (plan_rows s task)" by simp
  then have in_s: "r \<in> set (se_rows s)" "ob_model r = MVerificationPlan" "attr r ''task_id'' = PStr task"
    by (auto simp: plan_rows_def listed)
  from unique_get [OF assms(2) in_s(1)] in_s(2) have get: "repo_get s MVerificationPlan (row_id r) = Some r" by simp
  with r(2) have "w = ref_from_row r (case_rows s (row_id r))" by (simp add: get_verification_plan_def)
  with get in_s that show thesis by (simp add: ref_from_row_def plan_ref_of_def)
qed

lemma fresh_context_accepted:
  assumes gate: "pre_coding_gate p task ledger constitution s = Inr (v, s')" "gv_state v = ''PASS''" "gv_context v = Some c"
    and keys: "unique_keys s"
  shows "bv_state (fst (evaluate_barrier c authorized s')) = ''PASS'' \<longleftrightarrow>
    authorized \<and> 1 \<le> px_constitution_version c \<and> successor_id s' MIntentLedger (px_ledger c) = None \<and>
    successor_id s' MVerificationPlan (px_plan c) = None"
proof -
  obtain d l m w k r x where parts: "get_intent_ledger s ledger = Inr l" "get_semantic_impact p s task = Inr m"
    "load_plan_for_task s task = Inr w" and locks: "lg_locked l \<and> im_locked m \<and> vp_locked w"
    and x: "build_context task k d l r m w s = (x, s')" "v = \<lparr>gv_state = ''PASS'', gv_context = Some x, gv_failed = []\<rparr>"
    by (rule gate_pass_context [OF gate(1,2)])
  from x(2) gate(3) have c: "c = x" by simp
  note ctx = context_fields [OF x(1), folded c]
  obtain lr where lr: "repo_get s MIntentLedger ledger = Some lr" "lg_id l = ledger" "lg_version l = row_version lr"
    "lg_locked l \<longleftrightarrow> truthy (attr lr ''locked'')" by (rule ledger_row [OF parts(1)])
  obtain ir irs where ir: "impact_rows s task = ir # irs" "im_version m = row_version ir"
    "im_locked m \<longleftrightarrow> truthy (attr ir ''locked'')" by (rule impact_row_of [OF parts(2)])
  obtain pr where pr: "repo_get s MVerificationPlan (row_id pr) = Some pr" "vp_id w = row_id pr" "vp_version w = row_version pr"
    "vp_locked w \<longleftrightarrow> truthy (attr pr ''locked'')" "attr pr ''task_id'' = PStr task"
    by (rule plan_row_of [OF parts(3) keys])
  note rows = same_rows [OF ctx(9)]
  have stale: "ledger_stale s' c = None \<longleftrightarrow> successor_id s' MIntentLedger (px_ledger c) = None"
    using lr locks ctx rows got [OF lr(1)] by (simp add: ledger_stale_def)
  have plan: "plan_stale s' c = None \<longleftrightarrow> successor_id s' MVerificationPlan (px_plan c) = None"
    using pr locks ctx rows by (auto simp: plan_stale_def split: option.split)
  show ?thesis
  proof (cases "ledger_stale s' c = None \<and> plan_stale s' c = None")
    case False
    with stale plan show ?thesis by (auto simp: evaluate_barrier_def pre_coding_handoff_def split: option.split)
  next
    case True
    obtain h s2 where h: "pre_coding_handoff c ''LOCKED'' s' = Inr (h, s2)" "se_rows s2 = se_rows s'" "hr_ledger h = px_ledger c"
      "hr_task h = px_task c" "hr_plan h = px_plan c" "hr_constitution_version h = px_constitution_version c"
      "hr_impact_version h = px_impact_version c" "hr_plan_version h = px_plan_version c"
      using True locks ctx(8) by (simp add: pre_coding_handoff_def case_prod_unfold Let_def)
    note rows2 = same_rows [OF h(2)]
    have "ledger_condition s2 h = []" "impact_condition s2 h = []" "plan_condition s2 h = []"
      using lr ir pr locks ctx rows rows2 h
      by (simp_all add: ledger_condition_def impact_condition_def plan_condition_def impact_rows_def)
    then have "failed_conditions s2 h authorized = [] \<longleftrightarrow> authorized \<and> 1 \<le> px_constitution_version c"
      using h(6) by (auto simp: failed_conditions_def)
    with h(1) True stale plan show ?thesis by (auto simp: evaluate_barrier_def Let_def)
  qed
qed

text \<open>
  C31. A context the gate has just passed is accepted by the barrier exactly when the execution is authorized, the
  constitution has a version, and no row of the ledgers or the plans names its ledger or its plan as parent.
\<close>

theorem fresh_context_passes:
  assumes gate: "pre_coding_gate p task ledger constitution s = Inr (v, s')" "gv_state v = ''PASS''" "gv_context v = Some c"
    and keys: "unique_keys s"
  shows "bv_state (fst (evaluate_barrier c authorized s')) = ''PASS'' \<longleftrightarrow>
    authorized \<and> 1 \<le> px_constitution_version c \<and> successor_id s' MIntentLedger (px_ledger c) = None \<and>
    successor_id s' MVerificationPlan (px_plan c) = None"
  by (rule fresh_context_accepted [OF assms])

end
