(* ===== verification/Flow_History.thy ===== *)
theory Flow_History
  imports Flow_Proofs
begin

text \<open>
  Any sequence of pre-code operations, gates and barriers keeps the locked rows as they are and the sources of
  the ledgers as they were written, so a superseded context stays rejected. Each operation is a sequence of
  small steps on the rows; the invariants are proved by rule induction on the steps.
\<close>

section \<open>Fresh identifiers\<close>

text \<open>The primary keys are different, and \<open>uuid4\<close> will neither repeat itself nor hand out a key in use.\<close>

definition fresh_keys :: "session \<Rightarrow> bool" where
  "fresh_keys s \<longleftrightarrow> unique_keys s \<and> inj (uuid_at (se_host s)) \<and>
     (\<forall>n\<ge>uuids (se_host s). \<forall>r\<in>set (se_rows s). uuid_at (se_host s) n \<noteq> row_id r)"

inductive row_step :: "session \<Rightarrow> session \<Rightarrow> bool" where
  tick: "uuids (se_host s) \<le> uuids w \<Longrightarrow> uuid_at w = uuid_at (se_host s) \<Longrightarrow> row_step s (s\<lparr>se_host := w\<rparr>)"
| save: "repo_save r s = (row, s') \<Longrightarrow> row_step s s'"
| change: "(\<And>old. old \<in> set (se_rows s) \<Longrightarrow> same_row r old \<Longrightarrow>
      \<not> is_locked old \<and> (ob_model r = MIntentLedger \<longrightarrow> attr r ''source'' = attr old ''source'')) \<Longrightarrow>
    row_step s (update_row r s)"

abbreviation row_steps :: "session \<Rightarrow> session \<Rightarrow> bool" where
  "row_steps \<equiv> row_step\<^sup>*\<^sup>*"

lemma keys_update_row: "keys (update_row r s) = keys s"
  by (auto simp: keys_def update_row_def same_row_def)

lemma ids_of_keys: "(\<exists>r\<in>set (se_rows s). row_id r = k) \<longleftrightarrow> k \<in> snd ` set (keys s)"
  by (force simp: keys_def)

lemma step_fresh: "row_step s s' \<Longrightarrow> fresh_keys s \<Longrightarrow> fresh_keys s'"
proof (induction rule: row_step.induct)
  case (tick s w)
  then show ?case by (simp add: fresh_keys_def unique_keys_def keys_def)
next
  case (save r s row s')
  let ?w = "se_host s"
  from save(1) have s': "se_rows s' = se_rows s @ [row]" "se_host s' = ?w\<lparr>uuids := Suc (uuids ?w)\<rparr>" "row_id row = uuid_at ?w (uuids ?w)"
    using saved_rows [OF save(1)] saved_id [of r s]
    by (simp_all add: session_uuid_def uuid4_def case_prod_unfold Let_def)
  from save(2) have f: "unique_keys s" "inj (uuid_at ?w)"
    "\<forall>n\<ge>uuids ?w. \<forall>r\<in>set (se_rows s). uuid_at ?w n \<noteq> row_id r" by (simp_all add: fresh_keys_def)
  then have "unique_keys s'" using s' by (auto simp: unique_keys_def keys_def)
  moreover have "uuid_at ?w n \<noteq> uuid_at ?w (uuids ?w)" if "Suc (uuids ?w) \<le> n" for n
    using f(2) that by (auto dest: injD)
  ultimately show ?case using s' f by (auto simp: fresh_keys_def)
next
  case (change s r)
  have "map row_id (se_rows (update_row r s)) = map row_id (se_rows s)"
    by (auto simp: update_row_def same_row_def)
  then have "row_id ` set (se_rows (update_row r s)) = row_id ` set (se_rows s)" by (metis list.set_map)
  then have "(\<forall>x\<in>set (se_rows (update_row r s)). k \<noteq> row_id x) \<longleftrightarrow> (\<forall>x\<in>set (se_rows s). k \<noteq> row_id x)" for k
    by (metis (no_types, lifting) imageE imageI)
  with change(2) show ?case by (simp add: fresh_keys_def unique_keys_def keys_update_row) (simp add: update_row_def)
qed

lemma steps_fresh: "row_steps s s' \<Longrightarrow> fresh_keys s \<Longrightarrow> fresh_keys s'"
  by (induction rule: rtranclp_induct) (auto intro: step_fresh)

lemma step_keeps: "row_step s s' \<Longrightarrow> keeps_locked s s'"
proof (induction rule: row_step.induct)
  case (save r s row s')
  then show ?case by (rule keeps_save)
next
  case (change s r)
  show ?case unfolding keeps_locked_def
  proof (intro allI impI)
    fix m k x assume x: "repo_get s m k = Some x" "is_locked x"
    from got [OF x(1)] change [of x] x show "repo_get (update_row r s) m k = Some x"
      by (auto simp: get_updated same_row_def)
  qed
qed simp

text \<open>The source of a ledger is written once.\<close>

definition keeps_sources :: "session \<Rightarrow> session \<Rightarrow> bool" where
  "keeps_sources s s' \<longleftrightarrow>
     (\<forall>k r. repo_get s MIntentLedger k = Some r \<longrightarrow>
       (\<exists>r'. repo_get s' MIntentLedger k = Some r' \<and> attr r' ''source'' = attr r ''source''))"

lemma sources_trans: "keeps_sources s s' \<Longrightarrow> keeps_sources s' s'' \<Longrightarrow> keeps_sources s s''"
  unfolding keeps_sources_def by metis

lemma step_sources: "row_step s s' \<Longrightarrow> keeps_sources s s'"
proof (induction rule: row_step.induct)
  case (tick s w)
  then show ?case by (simp add: keeps_sources_def repo_get_def)
next
  case (save r s row s')
  then show ?case by (simp add: keeps_sources_def get_saved)
next
  case (change s r)
  show ?case unfolding keeps_sources_def
  proof (intro allI impI)
    fix k x assume x: "repo_get s MIntentLedger k = Some x"
    from got [OF x] change [of x] x
    show "\<exists>r'. repo_get (update_row r s) MIntentLedger k = Some r' \<and> attr r' ''source'' = attr x ''source''"
      by (auto simp: get_updated same_row_def)
  qed
qed

section \<open>The operations as steps\<close>

lemma save_steps: "repo_save r s = (row, s') \<Longrightarrow> row_steps s s'"
  by (blast intro: row_step.save)

lemma save_all_steps: "save_all rs s = (ks, s') \<Longrightarrow> row_steps s s'"
proof (induction rs arbitrary: s ks)
  case (Cons r rs)
  obtain row s1 where r: "repo_save r s = (row, s1)" by fastforce
  with Cons.prems obtain ks' where "save_all rs s1 = (ks', s')" by (auto split: prod.splits)
  with Cons.IH save_steps [OF r] show ?case by (meson rtranclp_trans)
qed simp

lemma uuid_tick: "uuids (se_host s) \<le> uuids (se_host (snd (session_uuid s)))" 
    "uuid_at (se_host (snd (session_uuid s))) = uuid_at (se_host s)" "snd (session_uuid s) = s\<lparr>se_host := se_host (snd (session_uuid s))\<rparr>"
  by (simp_all add: session_uuid_def uuid4_def case_prod_unfold Let_def)

lemma now_tick: "uuids (se_host s) \<le> uuids (se_host (snd (session_now s)))"
    "uuid_at (se_host (snd (session_now s))) = uuid_at (se_host s)" "snd (session_now s) = s\<lparr>se_host := se_host (snd (session_now s))\<rparr>"
  by (simp_all add: session_now_def now_def case_prod_unfold Let_def)

lemma uuid_steps: "row_steps s (snd (session_uuid s))"
  using row_step.tick [OF uuid_tick(1,2), of s] uuid_tick(3) [of s] by simp

lemma now_steps: "row_steps s (snd (session_now s))"
  using row_step.tick [OF now_tick(1,2), of s] now_tick(3) [of s] by simp

lemma uuid_now_steps: "row_steps s (snd (session_now (snd (session_uuid s))))"
  using uuid_steps now_steps by (meson rtranclp_trans)

lemma compile_ticks:
  "compile_statements p t sts w = Inr (xs, w') \<Longrightarrow> uuids w \<le> uuids w' \<and> uuid_at w' = uuid_at w"
proof (induction sts arbitrary: w xs)
  case (Cons st sts)
  then obtain ys where "compile_statements p t sts (snd (uuid4 w)) = Inr (ys, w')"
    by (auto simp: Let_def case_prod_unfold split: if_splits sum.splits)
  from Cons.IH [OF this] show ?case by (simp add: uuid4_def)
qed simp

lemma compile_intent_ticks:
  assumes "compile_intent p objective sts w = Inr (xs, w')"
  shows "uuids w \<le> uuids w' \<and> uuid_at w' = uuid_at w"
proof -
  from assms obtain ys w2 where "compile_statements p (fst (now w)) sts (snd (now w)) = Inr (ys, w2)" "w' = w2 \<or> w' = snd (uuid4 w2)"
    by (auto simp: compile_intent_def case_prod_unfold Let_def split: if_splits sum.splits option.splits)
  with compile_ticks [OF this(1)] show ?thesis by (auto simp: now_def uuid4_def)
qed

text \<open>Two updates of one row are the last of them; a row of the table that is not locked may be changed.\<close>

lemma update_twice: "same_row r r1 \<Longrightarrow> update_row r (update_row r1 s) = update_row r s"
  by (auto simp: update_row_def same_row_def)

lemma change_steps:
  assumes "unique_keys s" "old \<in> set (se_rows s)" "same_row r old" "\<not> is_locked old"
    "ob_model r = MIntentLedger \<Longrightarrow> attr r ''source'' = attr old ''source''"
  shows "row_steps s (update_row r s)"
proof (rule r_into_rtranclp, rule row_step.change)
  fix x assume x: "x \<in> set (se_rows s)" "same_row r x"
  have "x = old" by (rule unique_row [OF assms(1) x(1) assms(2)]) (use x(2) assms(3) in \<open>simp add: same_row_def\<close>)
  with assms(4,5) show "\<not> is_locked x \<and> (ob_model r = MIntentLedger \<longrightarrow> attr r ''source'' = attr x ''source'')" by simp
qed

lemma unlocked: "has_column (ob_model r) ''locked'' \<Longrightarrow> truthy (attr r ''locked'') \<longleftrightarrow> is_locked r"
  by (simp add: is_locked_def)

lemma lockable: "has_column MIntentLedger ''locked''" "has_column MSemanticImpact ''locked''"
    "has_column MVerificationPlan ''locked''" "has_column MVerificationCase ''locked''" "\<not> has_column MIntentItem ''locked''"
  by (simp_all add: has_column_def column_defs)

text \<open>Locking a row and setting its status.\<close>

lemma lock_status_steps:
  assumes "unique_keys s" "r \<in> set (se_rows s)" "\<not> is_locked r" "lock_row r s = Inr (r1, s1)"
  shows "row_steps s (update_row (set_attr ''status'' v r1) s1)"
proof -
  from assms(3,4) have r1: "r1 = set_attr ''locked'' (PBool True) r" "s1 = update_row r1 s"
    by (auto simp: lock_row_def Let_def split: if_splits)
  have "same_row (set_attr ''status'' v r1) r1" by (simp add: same_row_def)
  then have "update_row (set_attr ''status'' v r1) s1 = update_row (set_attr ''status'' v r1) s"
    unfolding r1(2) by (rule update_twice)
  moreover have "row_steps s (update_row (set_attr ''status'' v r1) s)"
    by (rule change_steps [OF assms(1,2) _ assms(3)]) (simp_all add: r1(1) same_row_def)
  ultimately show ?thesis by simp
qed

lemma confirm_steps:
  assumes "\<And>i. i \<in> set items \<Longrightarrow> ob_model i = MIntentItem"
  shows "row_steps s (fold confirm_item items s)"
  using assms
proof (induction items arbitrary: s)
  case (Cons i items)
  have "row_step s (confirm_item i s)" unfolding confirm_item_def
    by (rule row_step.change) (use Cons.prems [of i] lockable in \<open>auto simp: same_row_def is_locked_def\<close>)
  moreover from Cons have "row_steps (confirm_item i s) (fold confirm_item items (confirm_item i s))" by simp
  ultimately show ?case by (simp add: converse_rtranclp_into_rtranclp)
qed simp

lemma lock_case_steps:
  assumes "unique_keys s" "set rows \<subseteq> set (se_rows s)" "distinct (map row_id rows)"
    "\<And>r. r \<in> set rows \<Longrightarrow> ob_model r = MVerificationCase"
  shows "row_steps s (fold lock_case rows s)"
  using assms
proof (induction rows arbitrary: s)
  case (Cons r rows)
  have m: "ob_model r = MVerificationCase" using Cons.prems(4) by simp
  show ?case
  proof (cases "truthy (attr r ''locked'')")
    case True
    with Cons show ?thesis by (simp add: lock_case_def)
  next
    case False
    let ?r = "set_attr ''locked'' (PBool True) r"
    from False have nl: "\<not> is_locked r" by (simp add: is_locked_def)
    then have step: "lock_case r s = update_row ?r s" using False m lockable by (simp add: lock_case_def lock_row_def Let_def)
    have "row_steps s (update_row ?r s)"
      by (rule change_steps [OF Cons.prems(1) _ _ nl]) (use Cons.prems(2) m in \<open>simp_all add: same_row_def\<close>)
    moreover have "x \<in> set (se_rows (update_row ?r s))" if "x \<in> set rows" for x
    proof -
      from that Cons.prems(3) have "row_id x \<noteq> row_id r" by (auto simp: image_iff)
      with that Cons.prems(2) show ?thesis by (force simp: update_row_def same_row_def)
    qed
    then have "row_steps (update_row ?r s) (fold lock_case rows (update_row ?r s))"
      using Cons.prems by (intro Cons.IH) (auto simp: unique_keys_def keys_update_row)
    ultimately show ?thesis using step by simp
  qed
qed simp

text \<open>What each operation does to the rows, when it returns.\<close>

lemma define_steps: "define_change p project request by s = Inr (x, s') \<Longrightarrow> row_steps s s'"
  by (auto simp: define_change_def Let_def split: sum.splits option.splits prod.splits dest!: save_steps)

lemma build_ledger_steps:
  assumes "build_intent_ledger p project task objective sts authority by s = Inr (x, s')"
  shows "row_steps s s'"
proof -
  from assms obtain xs w where c: "compile_intent p objective sts (se_host s) = Inr (xs, w)"
    by (auto simp: build_intent_ledger_def split: sum.splits)
  then have "row_steps s (s\<lparr>se_host := w\<rparr>)" using compile_intent_ticks [OF c] by (blast intro: row_step.tick)
  moreover from assms c have "row_steps (s\<lparr>se_host := w\<rparr>) s'"
    by (auto simp: build_intent_ledger_def split: prod.splits dest!: save_steps save_all_steps)
  ultimately show ?thesis by simp
qed

lemma lock_ledger_steps:
  assumes "fresh_keys s" "lock_intent_ledger k s = Inr (x, s')"
  shows "row_steps s s'"
proof -
  from assms(2) obtain l where l: "repo_get s MIntentLedger k = Some l"
    by (auto simp: lock_intent_ledger_def split: option.splits)
  note g = got [OF l]
  show ?thesis
  proof (cases "truthy (attr l ''locked'')")
    case True
    with assms(2) l have "s' = s" by (cases "get_intent_ledger s (row_id l)") (auto simp: lock_intent_ledger_def)
    then show ?thesis by simp
  next
    case False
    then have nl: "\<not> is_locked l" by (simp add: is_locked_def)
    obtain l1 s1 where l1: "lock_row l s = Inr (l1, s1)" using nl g lockable by (simp add: lock_row_def Let_def)
    let ?s2 = "update_row (set_attr ''status'' (PStr ''LOCKED'') l1) s1"
    have "row_steps s ?s2"
      by (rule lock_status_steps [OF _ _ nl l1]) (use assms(1) g in \<open>simp_all add: fresh_keys_def\<close>)
    moreover have "row_steps ?s2 (fold confirm_item (ledger_items ?s2 (row_id l)) ?s2)"
      by (rule confirm_steps) (simp add: ledger_items_def listed)
    moreover from assms(2) l False l1 have "s' = fold confirm_item (ledger_items ?s2 (row_id l)) ?s2"
      by (cases "get_intent_ledger (fold confirm_item (ledger_items ?s2 (row_id l)) ?s2) (row_id l)")
        (auto simp: lock_intent_ledger_def Let_def)
    ultimately show ?thesis by simp
  qed
qed

lemma bump_steps:
  assumes "unique_keys s" "l \<in> set (se_rows s)" "bump l note s = Inr (n, s')"
  shows "row_steps s s'"
proof (cases "is_locked l")
  case True
  with assms(3) obtain c where "repo_save c s = (n, s')"
    by (auto simp: bump_def bump_new_identity_def split: if_splits sum.splits)
  then show ?thesis by (rule save_steps)
next
  case False
  with assms(3) have "s' = update_row (set_attr ''version'' (PInt (row_version l + 1)) l) s"
    by (auto simp: bump_def bump_in_place_def Let_def split: if_splits)
  then show ?thesis using change_steps [OF assms(1,2) _ False, of "set_attr ''version'' (PInt (row_version l + 1)) l"]
    by (simp add: same_row_def)
qed

lemma bump_ledger_row:
  assumes "bump_intent_ledger k note s = Inr (x, s')"
  obtains l n t where "repo_get s MIntentLedger k = Some l" "bump l (Some t) s = Inr (n, s')"
proof -
  from assms obtain l where l: "repo_get s MIntentLedger k = Some l"
    by (auto simp: bump_intent_ledger_def split: option.splits)
  define t where "t = (case note of None \<Rightarrow> ''intent revision'' | Some t \<Rightarrow> if t = [] then ''intent revision'' else t)"
  from assms l obtain n s1 where n: "bump l (Some t) s = Inr (n, s1)"
    "map_sum id (\<lambda>ref. (ref, s1)) (get_intent_ledger s1 (row_id n)) = Inr (x, s')"
    by (auto simp: bump_intent_ledger_def t_def split: sum.splits)
  then have "s1 = s'" by (cases "get_intent_ledger s1 (row_id n)") auto
  with l n(1) that show thesis by blast
qed

lemma bump_ledger_steps:
  assumes "fresh_keys s" "bump_intent_ledger k note s = Inr (x, s')"
  shows "row_steps s s'"
proof -
  obtain l n t where "repo_get s MIntentLedger k = Some l" "bump l (Some t) s = Inr (n, s')"
    by (rule bump_ledger_row [OF assms(2)])
  with got [OF this(1)] assms(1) show ?thesis by (auto simp: fresh_keys_def intro: bump_steps)
qed

lemma build_impact_steps: "build_semantic_impact p task items nodes rels description s = Inr (x, s') \<Longrightarrow> row_steps s s'"
  by (auto simp: build_semantic_impact_def split: option.splits prod.splits dest!: save_steps)

lemma lock_impact_steps:
  assumes "fresh_keys s" "lock_semantic_impact p task s = Inr (x, s')"
  shows "row_steps s s'"
proof -
  from assms(2) obtain r rs where r: "impact_rows s task = r # rs"
    by (auto simp: lock_semantic_impact_def split: list.splits)
  then have "r \<in> set (impact_rows s task)" by simp
  then have g: "r \<in> set (se_rows s)" "ob_model r = MSemanticImpact" by (auto simp: impact_rows_def listed)
  show ?thesis
  proof (cases "truthy (attr r ''locked'')")
    case True
    with assms(2) r have "s' = s" by (cases "map_from_row p r") (auto simp: lock_semantic_impact_def)
    then show ?thesis by simp
  next
    case False
    then have nl: "\<not> is_locked r" by (simp add: is_locked_def)
    obtain r1 s1 where r1: "lock_row r s = Inr (r1, s1)" using nl g lockable by (simp add: lock_row_def Let_def)
    have "row_steps s (update_row (set_attr ''status'' (PStr ''LOCKED'') r1) s1)"
      by (rule lock_status_steps [OF _ g(1) nl r1]) (use assms(1) in \<open>simp add: fresh_keys_def\<close>)
    moreover from assms(2) r False r1 have "s' = update_row (set_attr ''status'' (PStr ''LOCKED'') r1) s1"
      by (cases "map_from_row p (set_attr ''status'' (PStr ''LOCKED'') r1)") (auto simp: lock_semantic_impact_def Let_def)
    ultimately show ?thesis by simp
  qed
qed

lemma build_plan_steps:
  "build_verification_plan p change task ledger title affected cs by s = Inr (x, s') \<Longrightarrow> row_steps s s'"
  by (auto simp: build_verification_plan_def split: sum.splits prod.splits dest!: save_steps save_all_steps)

lemma distinct_listed: "unique_keys s \<Longrightarrow> distinct (map row_id (repo_list s m fs))"
proof -
  assume u: "unique_keys s"
  have "distinct (map row_id (filter (\<lambda>r. ob_model r = m \<and> P r) xs))"
    if "distinct (map (\<lambda>r. (ob_model r, row_id r)) xs)" for P xs
    using that by (auto simp: distinct_map inj_on_def)
  with u have "distinct (map row_id (filter (\<lambda>r. ob_model r = m \<and> (\<forall>(f, v)\<in>set fs. attr r f = v)) (se_rows s)))"
    by (simp add: unique_keys_def keys_def)
  then show ?thesis by (simp add: repo_list_def distinct_map)
qed

lemma lock_plan_steps:
  assumes "fresh_keys s" "lock_verification_plan k s = Inr (x, s')"
  shows "row_steps s s'"
proof -
  from assms(2) obtain r where r: "repo_get s MVerificationPlan k = Some r"
    by (auto simp: lock_verification_plan_def split: option.splits)
  note g = got [OF r]
  show ?thesis
  proof (cases "truthy (attr r ''locked'')")
    case True
    with assms(2) r show ?thesis by (simp add: lock_verification_plan_def)
  next
    case False
    then have nl: "\<not> is_locked r" by (simp add: is_locked_def)
    obtain r1 s1 where r1: "lock_row r s = Inr (r1, s1)" using nl g lockable by (simp add: lock_row_def Let_def)
    let ?s2 = "update_row (set_attr ''status'' (PStr ''LOCKED'') r1) s1"
    have one: "row_steps s ?s2"
      by (rule lock_status_steps [OF _ _ nl r1]) (use assms(1) g in \<open>simp_all add: fresh_keys_def\<close>)
    have u: "unique_keys ?s2" using steps_fresh [OF one assms(1)] by (simp add: fresh_keys_def)
    have "row_steps ?s2 (fold lock_case (case_rows ?s2 (row_id r)) ?s2)"
      by (rule lock_case_steps [OF u]) (use distinct_listed [OF u] in \<open>auto simp: case_rows_def listed\<close>)
    moreover from assms(2) r False r1 have "s' = fold lock_case (case_rows ?s2 (row_id r)) ?s2"
      by (simp add: lock_verification_plan_def Let_def)
    ultimately show ?thesis using one by simp
  qed
qed

lemma gate_steps: 
  assumes "pre_coding_gate p task ledger constitution s = Inr (x, s')"
  shows "row_steps s s'"
proof -
  from assms obtain cm where cm: "collect_components p s task ledger constitution = Inr cm"
    by (auto simp: pre_coding_gate_def split: sum.splits)
  obtain c s1 where c: "gate_context task constitution cm s = (c, s1)" by fastforce
  with assms cm have "s' = s1" by (cases "gate_verdict_of (cm_failed cm) c") (auto simp: pre_coding_gate_def)
  with c have "s' = snd (gate_context task constitution cm s)" by simp
  then show ?thesis using uuid_now_steps [of s]
    by (auto simp: gate_context_def build_context_def case_prod_unfold Let_def split: option.splits)
qed

lemma barrier_steps: "row_steps s (snd (evaluate_barrier c authorized s))"
  using uuid_now_steps [of s]
  by (auto simp: evaluate_barrier_def pre_coding_handoff_def case_prod_unfold Let_def split: sum.splits option.splits if_splits)

section \<open>Sequences of operations\<close>

datatype flow_command =
    DefineChange string pyval "string option"
  | BuildLedger string "string option" string "json list" string "string option"
  | LockLedger string
  | BumpLedger string "string option"
  | BuildImpact string "string list" "impact_node list" "impact_relationship list" "string option"
  | LockImpact string
  | BuildPlan string string "string option" string "string list" "case_spec list" "string option"
  | LockPlan string
  | RunGate string string "string option"
  | RunBarrier precode_context bool

text \<open>The session after a command; a command that raises leaves the session of its caller.\<close>

definition after_result :: "session \<Rightarrow> 'e + 'a \<times> session \<Rightarrow> session" where
  "after_result s x = (case x of Inl _ \<Rightarrow> s | Inr (_, s') \<Rightarrow> s')"

fun flow :: "platform \<Rightarrow> flow_command \<Rightarrow> session \<Rightarrow> session" where
  "flow p (DefineChange project request by) s = after_result s (define_change p project request by s)"
| "flow p (BuildLedger project task objective sts authority by) s =
     after_result s (build_intent_ledger p project task objective sts authority by s)"
| "flow p (LockLedger k) s = after_result s (lock_intent_ledger k s)"
| "flow p (BumpLedger k note) s = after_result s (bump_intent_ledger k note s)"
| "flow p (BuildImpact task items nodes rels description) s =
     after_result s (build_semantic_impact p task items nodes rels description s)"
| "flow p (LockImpact task) s = after_result s (lock_semantic_impact p task s)"
| "flow p (BuildPlan change task ledger title affected cs by) s =
     after_result s (build_verification_plan p change task ledger title affected cs by s)"
| "flow p (LockPlan k) s = after_result s (lock_verification_plan k s)"
| "flow p (RunGate task ledger constitution) s = after_result s (pre_coding_gate p task ledger constitution s)"
| "flow p (RunBarrier c authorized) s = snd (evaluate_barrier c authorized s)"

lemma after_steps: "(\<And>x s'. r = Inr (x, s') \<Longrightarrow> row_steps s s') \<Longrightarrow> row_steps s (after_result s r)"
  by (cases r) (auto simp: after_result_def)

lemmas operation_steps =
  define_steps build_ledger_steps lock_ledger_steps bump_ledger_steps build_impact_steps lock_impact_steps
  build_plan_steps lock_plan_steps gate_steps barrier_steps

lemma flow_steps: "fresh_keys s \<Longrightarrow> row_steps s (flow p c s)"
  by (cases c) (auto intro!: after_steps intro: operation_steps)

text \<open>The contract of the flow: from a session with fresh keys, each operation is a sequence of steps.\<close>

definition history :: "session \<Rightarrow> session \<Rightarrow> bool" where
  "history s s' \<longleftrightarrow> (fresh_keys s \<longrightarrow> row_steps s s')"

interpretation precode_flow: preserving history "flow p" for p
proof
  show "history s s''" if "history s s'" "history s' s''" for s s' s''
    using that steps_fresh by (auto simp: history_def intro: rtranclp_trans)
qed (simp_all add: history_def flow_steps)

lemma steps_keep: "row_steps s s' \<Longrightarrow> keeps_locked s s'"
  by (induction rule: rtranclp_induct) (auto intro: keeps_trans step_keeps)

lemma steps_sources: "row_steps s s' \<Longrightarrow> keeps_sources s s'"
proof (induction rule: rtranclp_induct)
  case base
  then show ?case by (simp add: keeps_sources_def)
qed (auto intro: sources_trans step_sources)

lemma flow_history: "fresh_keys s \<Longrightarrow> row_steps s (fold (flow p) cs s)"
  using precode_flow.run by (simp add: history_def)

text \<open>
  C10. Whatever operations follow, in whatever order, a row that was locked is found as it was: ledgers, impact
  maps, plans, cases and constitutions are immutable once locked.
\<close>

theorem locked_rows_survive:
  assumes "fresh_keys s" "repo_get s m k = Some r" "is_locked r"
  shows "repo_get (fold (flow p) cs s) m k = Some r"
  using steps_keep [OF flow_history [OF assms(1)]] assms(2,3) by (simp add: keeps_locked_def)

section \<open>Superseded contexts\<close>

lemma bumped_source:
  assumes "bump l note s = Inr (n, s')" "is_locked l" "ob_model l = MIntentLedger"
  shows "contains (''[version_parent:'' @ row_id l @ '';'') (text_of (attr n ''source''))"
proof -
  have st: "parent_storage MIntentLedger = Some (TextStore ''source'')"
    by (simp add: parent_storage_def field_in_def column_of_def PARENT_JSON_FIELDS_def PARENT_TEXT_FIELDS_def column_defs)
  from assms obtain c where c: "record_parent_ref (clone_row l (row_version l + 1)) l note = Inr c" "repo_save c s = (n, s')"
    by (auto simp: bump_def bump_new_identity_def split: if_splits sum.splits)
  define cur where "cur = (let t = text_of (attr (clone_row l (row_version l + 1)) ''source'') in if t = [] then [] else t @ [CHR 0x0A])"
  define rest where "rest = (case note of None \<Rightarrow> [] | Some n \<Rightarrow> if n = [] then [] else CHR 0x0A # ''note:'' @ n)"
  from c(1) st assms(3) have "c = set_attr ''source'' (PStr (cur @ version_marker (row_id l) (row_version l) @ rest))
      (clone_row l (row_version l + 1))"
    by (auto simp: record_parent_ref_def clone_versioned Let_def cur_def rest_def split: option.splits if_splits)
  then have "text_of (attr n ''source'') = cur @ version_marker (row_id l) (row_version l) @ rest"
    by (simp add: saved_rows(1) [OF c(2)])
  then have "text_of (attr n ''source'') = cur @ (''[version_parent:'' @ row_id l @ '';'') @
      (''from_version:'' @ str_int (row_version l) @ '']'' @ rest)" by (simp add: version_marker_def)
  then show ?thesis unfolding contains_iff by blast
qed

lemma has_successor:
  assumes "repo_get s MIntentLedger j = Some n" "contains (''[version_parent:'' @ k @ '';'') (text_of (attr n ''source''))"
  shows "successor_id s MIntentLedger k \<noteq> None"
proof -
  have st: "parent_storage MIntentLedger = Some (TextStore ''source'')"
    by (simp add: parent_storage_def field_in_def column_of_def PARENT_JSON_FIELDS_def PARENT_TEXT_FIELDS_def column_defs)
  from got [OF assms(1)] have "n \<in> set (repo_list s MIntentLedger [])" by (simp add: listed)
  then have "find (names_parent (TextStore ''source'') k) (repo_list s MIntentLedger []) \<noteq> None"
    using assms(2) by (auto simp: find_None_iff names_parent_def)
  then show ?thesis using st by (simp add: successor_id_def)
qed

lemma superseded_is_stale:
  assumes keys: "fresh_keys s" and row: "repo_get s MIntentLedger k = Some l" "truthy (attr l ''locked'')"
    and revised: "bump_intent_ledger k note s = Inr (ref, s')" and carries: "px_ledger c = k"
  shows "ledger_stale (fold (flow p) cs s') c \<noteq> None"
proof -
  let ?s = "fold (flow p) cs s'"
  note g = got [OF row(1)]
  have locked: "is_locked l" using row(2) g lockable by (simp add: is_locked_def)
  obtain l' n t where "repo_get s MIntentLedger k = Some l'" "bump l' (Some t) s = Inr (n, s')"
    by (rule bump_ledger_row [OF revised])
  with row(1) have n: "bump l (Some t) s = Inr (n, s')" by simp
  have one: "row_steps s s'" by (rule bump_ledger_steps [OF keys revised])
  have fresh: "fresh_keys s'" by (rule steps_fresh [OF one keys])
  have all: "row_steps s' ?s" by (rule flow_history [OF fresh])
  obtain r where r: "repo_save r s = (n, s')" "ob_model r = MIntentLedger"
    using bump_locked_saves [OF n locked] g by metis
  have "n \<in> set (se_rows s')" "ob_model n = MIntentLedger" using saved_rows [OF r(1)] r(2) by simp_all
  with unique_get fresh have "repo_get s' MIntentLedger (row_id n) = Some n" by (metis fresh_keys_def)
  with steps_sources [OF all] obtain n' where n': "repo_get ?s MIntentLedger (row_id n) = Some n'"
    "attr n' ''source'' = attr n ''source''" by (auto simp: keeps_sources_def)
  have succ: "successor_id ?s MIntentLedger k \<noteq> None"
    by (rule has_successor [OF n'(1)]) (use bumped_source [OF n locked] g n'(2) in simp)
  have "row_steps s ?s" using one all by simp
  from steps_keep [OF this] row(1) locked have "repo_get ?s MIntentLedger k = Some l" by (simp add: keeps_locked_def)
  with row(2) succ carries g show ?thesis by (auto simp: ledger_stale_def)
qed

lemma stale_context_is_blocked:
  assumes "ledger_stale s c \<noteq> None"
  obtains e where "evaluate_barrier c authorized s =
    (\<lparr>bv_state = ''BLOCKED'', bv_handoff = None, bv_failed = [''handoff invalid: '' @ e]\<rparr>, s)"
  using assms by (cases "px_lock_state c = ''LOCKED''") (auto simp: evaluate_barrier_def pre_coding_handoff_def)

text \<open>
  C9. Once a locked ledger has been revised, every context that carries it is rejected by the barrier: at once and
  after any further operations, authorized or not.
\<close>

theorem superseded_context_is_rejected:
  assumes keys: "fresh_keys s" and row: "repo_get s MIntentLedger k = Some l" "truthy (attr l ''locked'')"
    and revised: "bump_intent_ledger k note s = Inr (ref, s')" and carries: "px_ledger c = k"
  shows "bv_state (fst (evaluate_barrier c authorized (fold (flow p) cs s'))) = ''BLOCKED'' \<and>
    bv_handoff (fst (evaluate_barrier c authorized (fold (flow p) cs s'))) = None"
proof -
  from superseded_is_stale [OF assms] obtain e where
    "evaluate_barrier c authorized (fold (flow p) cs s') =
      (\<lparr>bv_state = ''BLOCKED'', bv_handoff = None, bv_failed = [''handoff invalid: '' @ e]\<rparr>, fold (flow p) cs s')"
    by (rule stale_context_is_blocked)
  then show ?thesis by simp
qed

end
