(* ===== verification/Precode_Demo.thy ===== *)
theory Precode_Demo
  imports Flow_History
begin

text \<open>
  A concrete change on its way through the pre-code flow: one task with a locked ledger, a locked constitution, a
  locked impact map and a locked plan. The theorems of the flow are applied to it.
\<close>

section \<open>The rows\<close>

definition plain_platform :: platform where
  "plain_platform = \<lparr>sha256 = id, dumps = (\<lambda>_. []), isoformat = str_int, uuid5 = id, parse_uuid = Some,
     float_repr = (\<lambda>_. ''0.5'')\<rparr>"

definition demo_key :: "nat \<Rightarrow> pyval" where
  "demo_key n = PStr (digits n)"

definition demo_repository :: orm where
  "demo_repository = new_object MRepository [(''id'', demo_key 0), (''name'', PStr ''payments-api'')]"

definition demo_change_task :: orm where
  "demo_change_task = new_object MTask
     [(''id'', demo_key 9), (''repository_id'', demo_key 0), (''title'', PStr ''Restore isolation''),
      (''priority'', PStr ''HIGH''), (''acceptance_criteria'', py_strs [''ghost replay passes''])]"

definition demo_ledger :: orm where
  "demo_ledger = new_object MIntentLedger
     [(''id'', demo_key 2), (''task_id'', demo_key 9), (''source'', PStr ''HUMAN''), (''status'', PStr ''LOCKED''),
      (''version'', PInt 1), (''locked'', PBool True)]"

definition demo_item :: orm where
  "demo_item = new_object MIntentItem
     [(''id'', demo_key 3), (''intent_ledger_id'', demo_key 2), (''kind'', PStr ''REPLACE''),
      (''statement'', PStr ''replace the tokens''), (''authorized'', PBool True)]"

definition demo_constitution :: orm where
  "demo_constitution = new_object MConstitution [(''id'', demo_key 4), (''version'', PInt 1), (''locked'', PBool True)]"

definition demo_rule :: orm where
  "demo_rule = new_object MConstitutionClaim
     [(''id'', demo_key 5), (''constitution_id'', demo_key 4), (''rule'', PStr ''tokens are never logged''),
      (''category'', PStr ''SECURITY''), (''severity'', PStr ''HIGH'')]"

definition demo_nodes :: "impact_node list" where
  "demo_nodes = [\<lparr>nd_kind = ''BEHAVIOR'', nd_ref = ''AUTH-017'', nd_protected = True, nd_note = []\<rparr>]"

definition demo_impact :: orm where
  "demo_impact = new_object MSemanticImpact
     [(''id'', demo_key 6), (''task_id'', demo_key 9), (''scope'', PDict (impact_scope demo_nodes [])),
      (''version'', PInt 1), (''locked'', PBool True)]"

definition demo_verification_plan :: orm where
  "demo_verification_plan = new_object MVerificationPlan
     [(''id'', demo_key 7), (''change_id'', PStr ''c''), (''task_id'', demo_key 9), (''intent_ledger_id'', demo_key 2),
      (''strategy'', PDict (plan_strategy [''AUTH-017''] [(''AUTH-017'', [''replay''])] 1)), (''version'', PInt 1),
      (''locked'', PBool True)]"

definition demo_session :: session where
  "demo_session =
     \<lparr>se_host = \<lparr>clock_at = int, ticks = 0, uuid_at = digits, uuids = 10\<rparr>,
      se_rows = [demo_repository, demo_change_task, demo_ledger, demo_item, demo_constitution, demo_rule, demo_impact,
        demo_verification_plan]\<rparr>"

lemmas flow_rows =
  demo_repository_def demo_change_task_def demo_ledger_def demo_item_def demo_constitution_def demo_rule_def
  demo_impact_def demo_verification_plan_def demo_key_def

lemma demo_ids [simp]:
  "row_id demo_repository = digits 0" "row_id demo_change_task = digits 9" "row_id demo_ledger = digits 2"
  "row_id demo_item = digits 3" "row_id demo_constitution = digits 4" "row_id demo_rule = digits 5"
  "row_id demo_impact = digits 6" "row_id demo_verification_plan = digits 7"
  by (simp_all add: row_id_def flow_rows)

lemma demo_models [simp]:
  "ob_model demo_repository = MRepository" "ob_model demo_change_task = MTask" "ob_model demo_ledger = MIntentLedger"
  "ob_model demo_item = MIntentItem" "ob_model demo_constitution = MConstitution" "ob_model demo_rule = MConstitutionClaim"
  "ob_model demo_impact = MSemanticImpact" "ob_model demo_verification_plan = MVerificationPlan"
  by (simp_all add: flow_rows)

lemma demo_fresh: "fresh_keys demo_session"
  by (auto simp: fresh_keys_def unique_keys_def keys_def demo_session_def digits_inj inj_def)

lemma demo_get [simp]:
  "repo_get demo_session MRepository (digits 0) = Some demo_repository"
  "repo_get demo_session MTask (digits 9) = Some demo_change_task"
  "repo_get demo_session MIntentLedger (digits 2) = Some demo_ledger"
  "repo_get demo_session MConstitution (digits 4) = Some demo_constitution"
  "repo_get demo_session MVerificationPlan (digits 7) = Some demo_verification_plan"
  "repo_get demo_session MIntentLedger (digits 10) = None"
  by (simp_all add: repo_get_def demo_session_def digits_inj)

lemma demo_lists [simp]:
  "ledger_items demo_session (digits 2) = [demo_item]" "ledger_items demo_session (digits 10) = []"
  "impact_rows demo_session (digits 9) = [demo_impact]" "plan_rows demo_session (digits 9) = [demo_verification_plan]"
  "repo_list demo_session MConstitutionClaim [(''constitution_id'', PStr (digits 4))] = [demo_rule]"
  "impact_rows demo_session (digits 2) = []"
  by (simp_all add: ledger_items_def impact_rows_def plan_rows_def repo_list_def demo_session_def flow_rows digits_inj)

lemma demo_uuid [simp]: "fst (session_uuid demo_session) = digits 10"
  by (simp add: session_uuid_def uuid4_def demo_session_def)

lemma demo_ready: "gate_ready plain_platform demo_session (digits 9) (digits 2) (Some (digits 4))"
proof -
  have "case_rows demo_session (digits 7) = []"
    by (simp add: case_rows_def repo_list_def demo_session_def)
  then have plan: "load_plan_for_task demo_session (digits 9) = Inr (ref_from_row demo_verification_plan [])"
    by (simp add: load_plan_for_task_def get_verification_plan_def)
  have impact: "get_semantic_impact plain_platform demo_session (digits 9) = Inr (impact_map_of demo_impact demo_nodes [])"
    by (simp add: get_semantic_impact_def map_from_row_def flow_rows impact_scope_def scope_list_def all_round)
  have ledger: "get_intent_ledger demo_session (digits 2) = Inr (ledger_ref_of demo_ledger [digits 3])"
    by (simp add: get_intent_ledger_def)
  have "\<exists>d. get_change_definition demo_session (digits 9) = Inr d"
  proof -
    have "opt_of (attr demo_change_task ''repository_id'') = Some (digits 0)" by (simp add: flow_rows)
    then show ?thesis by (simp add: get_change_definition_def)
  qed
  moreover have "digits 4 \<noteq> NIL_UUID" by (simp add: digits.simps [of 4] NIL_UUID_def)
  ultimately show ?thesis
    by (auto simp: gate_ready_def plan impact ledger ledger_ref_of_def impact_map_of_def ref_from_row_def plan_ref_of_def
        flow_rows)
qed

text \<open>The same rows, but the ledger is bound to no task and the plan refers to no ledger.\<close>

definition unbound_session :: session where
  "unbound_session =
     demo_session\<lparr>se_rows := [demo_repository, demo_change_task,
        new_object MIntentLedger [(''id'', demo_key 2), (''source'', PStr ''HUMAN''), (''status'', PStr ''LOCKED''),
          (''version'', PInt 1), (''locked'', PBool True)],
        demo_item, demo_constitution, demo_rule, demo_impact,
        new_object MVerificationPlan [(''id'', demo_key 7), (''change_id'', PStr ''c''), (''task_id'', demo_key 9),
          (''strategy'', PDict (plan_strategy [''AUTH-017''] [(''AUTH-017'', [''replay''])] 1)), (''version'', PInt 1),
          (''locked'', PBool True)]]\<rparr>"

text \<open>The gate lets them pass, although its docstring asks for both bindings.\<close>

theorem unbound_context_passes:
  "gate_passes (pre_coding_gate plain_platform (digits 9) (digits 2) (Some (digits 4)) unbound_session)"
  by code_simp

lemma unbound_context:
  "case get_intent_ledger unbound_session (digits 2) of Inl _ \<Rightarrow> False | Inr l \<Rightarrow> lg_task l = None"
  by code_simp

section \<open>The theorems on these rows\<close>

lemma impact_map_round_trip_witness:
  "\<exists>m s'. build_semantic_impact plain_platform (digits 2) [] demo_nodes [] None demo_session = Inr (m, s') \<and>
     get_semantic_impact plain_platform s' (digits 2) = Inr m"
proof -
  have "validate_impact plain_platform demo_nodes [] = None"
    by (simp add: validate_impact_def demo_nodes_def NODE_KINDS_def strip_def is_space_def)
  then obtain m s' where b: "build_semantic_impact plain_platform (digits 2) [] demo_nodes [] None demo_session = Inr (m, s')"
    by (cases "repo_save (impact_row (digits 2) [] demo_nodes [] None) demo_session") (auto simp: build_semantic_impact_def)
  with impact_map_round_trip [OF b] show ?thesis by simp
qed

lemma resolution_exact_witness:
  "\<exists>res. resolve_constraints demo_session (digits 2) (digits 4) = Inr res \<and> rs_protected res = [digits 5]"
proof -
  have "truthy (attr demo_constitution ''locked'')" by (simp add: flow_rows)
  from resolves [OF demo_get(3,4) this] obtain res where r: "resolve_constraints demo_session (digits 2) (digits 4) = Inr res"
    by blast
  with resolution_exact [OF r] show ?thesis by simp
qed

lemma demo_locked [simp]: "truthy (attr demo_ledger ''locked'')" "is_locked demo_ledger"
  using lockable by (simp_all add: is_locked_def) (simp_all add: flow_rows)

lemma demo_gate:
  obtains v c s' where "pre_coding_gate plain_platform (digits 9) (digits 2) (Some (digits 4)) demo_session = Inr (v, s')"
    "gv_state v = ''PASS''" "gv_context v = Some c" "px_ledger c = digits 2"
proof -
  from gate_ready_passes [OF demo_ready] obtain v s' where
    g: "pre_coding_gate plain_platform (digits 9) (digits 2) (Some (digits 4)) demo_session = Inr (v, s')" "gv_state v = ''PASS''"
    by (auto simp: gate_passes_def split: sum.splits)
  show thesis
  proof (rule gate_pass_context [OF g])
    fix d l m w k c r x
    assume l: "get_intent_ledger demo_session (digits 2) = Inr l"
      and x: "build_context (digits 9) k d l r m w demo_session = (x, s')"
      and v: "v = \<lparr>gv_state = ''PASS'', gv_context = Some x, gv_failed = []\<rparr>"
    have "lg_id l = digits 2" using l by (auto simp: get_intent_ledger_def ledger_ref_of_def)
    with context_fields(2) [OF x] v g that show thesis by simp
  qed
qed

lemma fresh_context_passes_witness:
  "\<exists>v c s'. pre_coding_gate plain_platform (digits 9) (digits 2) (Some (digits 4)) demo_session = Inr (v, s') \<and>
     gv_context v = Some c \<and> bv_state (fst (evaluate_barrier c False s')) \<noteq> ''PASS''"
proof -
  obtain v c s' where g: "pre_coding_gate plain_platform (digits 9) (digits 2) (Some (digits 4)) demo_session = Inr (v, s')"
    "gv_state v = ''PASS''" "gv_context v = Some c" by (rule demo_gate)
  have "unique_keys demo_session" using demo_fresh by (simp add: fresh_keys_def)
  from fresh_context_passes [OF g this, of False] g show ?thesis by blast
qed

lemma demo_revision:
  obtains ref s' where "bump_intent_ledger (digits 2) None demo_session = Inr (ref, s')"
    "repo_get s' MConstitution (digits 4) = Some demo_constitution" "repo_get s' MIntentLedger (lg_id ref) \<noteq> None"
proof -
  have st: "parent_storage MIntentLedger = Some (TextStore ''source'')" "has_column MIntentLedger ''version''"
    by (simp_all add: parent_storage_def field_in_def column_of_def PARENT_JSON_FIELDS_def PARENT_TEXT_FIELDS_def
        has_column_def column_defs)
  have v: "row_version demo_ledger = 1" by (simp add: row_version_def flow_rows)
  obtain c where c: "record_parent_ref (clone_row demo_ledger 2) demo_ledger (Some ''intent revision'') = Inr c" "ob_model c = MIntentLedger"
    using st by (simp add: record_parent_ref_def clone_versioned Let_def)
  obtain n s' where n: "repo_save c demo_session = (n, s')" by fastforce
  have b: "bump demo_ledger (Some ''intent revision'') demo_session = Inr (n, s')"
    using st v c n by (simp add: bump_def bump_new_identity_def)
  have id: "row_id n = digits 10" using saved_id [of c demo_session] n by simp
  have new: "repo_get s' MIntentLedger (digits 10) = Some n" using c(2) by (simp add: get_saved [OF n])
  then have "\<exists>ref. get_intent_ledger s' (digits 10) = Inr ref \<and> lg_id ref = digits 10"
    using id by (simp add: get_intent_ledger_def ledger_ref_of_def)
  then obtain ref where "bump_intent_ledger (digits 2) None demo_session = Inr (ref, s')" "lg_id ref = digits 10"
    using b id by (auto simp: bump_intent_ledger_def)
  with that new show thesis by (simp add: get_saved [OF n])
qed

lemma superseded_context_is_rejected_witness:
  "\<exists>v c s' ref s2. pre_coding_gate plain_platform (digits 9) (digits 2) (Some (digits 4)) demo_session = Inr (v, s') \<and>
     gv_state v = ''PASS'' \<and> gv_context v = Some c \<and> bump_intent_ledger (digits 2) None demo_session = Inr (ref, s2) \<and>
     bv_state (fst (evaluate_barrier c True (fold (flow plain_platform) [LockLedger (lg_id ref)] s2))) = ''BLOCKED''"
proof -
  obtain v c s' where g: "pre_coding_gate plain_platform (digits 9) (digits 2) (Some (digits 4)) demo_session = Inr (v, s')"
    "gv_state v = ''PASS''" "gv_context v = Some c" "px_ledger c = digits 2" by (rule demo_gate)
  obtain ref s2 where b: "bump_intent_ledger (digits 2) None demo_session = Inr (ref, s2)" by (rule demo_revision)
  from superseded_context_is_rejected [OF demo_fresh demo_get(3) demo_locked(1) b g(4)] g b show ?thesis by blast
qed

lemma revision_drops_the_intent_witness:
  "\<exists>ref s' res. bump_intent_ledger (digits 2) None demo_session = Inr (ref, s') \<and>
     resolve_constraints s' (lg_id ref) (digits 4) = Inr res \<and> rs_conflicting res = []"
proof -
  obtain ref s' where b: "bump_intent_ledger (digits 2) None demo_session = Inr (ref, s')"
    and s': "repo_get s' MConstitution (digits 4) = Some demo_constitution" "repo_get s' MIntentLedger (lg_id ref) \<noteq> None"
    by (rule demo_revision)
  have "truthy (attr demo_constitution ''locked'')" by (simp add: flow_rows)
  with s' resolves obtain res where r: "resolve_constraints s' (lg_id ref) (digits 4) = Inr res" by blast
  from revision_drops_the_intent [OF demo_get(3) demo_locked(1) _ _ b r] b r show ?thesis by simp
qed

lemma locked_rows_survive_witness:
  "repo_get (fold (flow plain_platform) [BumpLedger (digits 2) None, LockImpact (digits 9), LockLedger (digits 2)] demo_session)
     MIntentLedger (digits 2) = Some demo_ledger"
  by (rule locked_rows_survive [OF demo_fresh demo_get(3) demo_locked(2)])

section \<open>A locked certificate and its next version\<close>

definition demo_uuid_text :: string where
  "demo_uuid_text = ''6f1c2a34-0000-4000-8000-0123456789ab''"

definition demo_certificate_row :: orm where
  "demo_certificate_row = new_object MCertificate
     [(''id'', PStr demo_uuid_text), (''certificate_key'', PStr ''cert-AUTH-017''), (''payload'', PDict []),
      (''version'', PInt 1), (''locked'', PBool True)]"

definition certificate_session :: session where
  "certificate_session =
     \<lparr>se_host = \<lparr>clock_at = int, ticks = 0, uuid_at = digits, uuids = 0\<rparr>, se_rows = [demo_certificate_row]\<rparr>"

lemma bump_extends_the_lineage_witness:
  "\<exists>n s'. bump demo_certificate_row (Some ''recertified'') certificate_session = Inr (n, s') \<and>
     get_lineage plain_platform s' MCertificate (row_id n) = Inr [demo_uuid_text, row_id n]"
proof -
  have st: "parent_storage MCertificate = Some (JsonStore ''payload'')" "has_column MCertificate ''locked''"
    by (simp_all add: parent_storage_def field_in_def column_of_def PARENT_JSON_FIELDS_def has_column_def column_defs)
  have row: "repo_get certificate_session MCertificate demo_uuid_text = Some demo_certificate_row"
    by (simp add: repo_get_def certificate_session_def demo_certificate_row_def row_id_def)
  have locked: "is_locked demo_certificate_row" using st by (simp add: is_locked_def demo_certificate_row_def)
  have ver: "1 \<le> row_version demo_certificate_row" by (simp add: row_version_def demo_certificate_row_def)
  have id: "canonical_id demo_uuid_text" by (simp add: canonical_id_def demo_uuid_text_def id_char_def is_digit_def)
  have parse: "parse_uuid plain_platform demo_uuid_text = Some demo_uuid_text" by (simp add: plain_platform_def)
  have plain: "plain_note (Some ''recertified'')" by (simp add: plain_note_def)
  have "digits 0 \<noteq> demo_uuid_text" by (simp add: digits.simps [of 0] demo_uuid_text_def)
  then have fresh: "repo_get certificate_session MCertificate (fst (session_uuid certificate_session)) = None"
    by (simp add: repo_get_def session_uuid_def uuid4_def certificate_session_def demo_certificate_row_def row_id_def)
  have "read_parent_ref demo_certificate_row = None"
    using st by (simp add: read_parent_ref_def demo_certificate_row_def)
  then have "ancestry plain_platform certificate_session MCertificate demo_uuid_text [demo_uuid_text]"
    using row by (auto simp: parent_of_def intro: ancestry.intros)
  then have line: "get_lineage plain_platform certificate_session MCertificate demo_uuid_text = Inr [demo_uuid_text]"
    by (simp add: lineage_iff MAX_LINEAGE_HOPS_def)
  from bump_extends_the_lineage [OF row locked ver id parse plain fresh line] show ?thesis
    by (auto simp: MAX_LINEAGE_HOPS_def)
qed

end
