(* ===== verification/Guarded_Run.thy ===== *)
theory Guarded_Run
  imports Coding_Proofs Precode_Demo
begin

text \<open>
  The entry of the coding loop (\<open>develop/agent.py\<close>): a run asks the execution barrier first, and the loop of
  \<open>Coding_Loop\<close> starts on its verdict. The rows of the pre-code flow and the sandbox of the agent are two
  states; the barrier reads the one, the loop changes the other.
\<close>

definition run_guarded ::
    "host_ports \<Rightarrow> development_plan \<Rightarrow> precode_context \<Rightarrow> bool \<Rightarrow> 'd decider \<Rightarrow> ('p, 'd) coding_loop \<Rightarrow> session \<Rightarrow>
     (loop_error + loop_result) \<times> ('p, 'd) coding_loop \<times> session" where
  "run_guarded h plan c authorized decider m s =
     (let (v, s') = evaluate_barrier c authorized s;
          (r, m') = run_coding h plan (bv_failed v) authorized decider m
      in (r, m', s'))"

lemma barrier_passes:
  assumes "evaluate_barrier c authorized s = (v, s')" "bv_failed v = []"
  shows "authorized" "px_lock_state c = ''LOCKED''" "ledger_stale s c = None" "plan_stale s c = None"
    "1 \<le> px_constitution_version c"
  using assms
  by (auto simp: evaluate_barrier_def pre_coding_handoff_def failed_conditions_def case_prod_unfold Let_def
      split: if_splits option.splits)

lemma ledger_current:
  assumes "ledger_stale s c = None"
  obtains l where "repo_get s MIntentLedger (px_ledger c) = Some l" "truthy (attr l ''locked'')"
    "row_version l = px_intent_version c" "successor_id s MIntentLedger (px_ledger c) = None"
  using assms by (auto simp: ledger_stale_def split: option.splits if_splits dest!: got)

lemma plan_current:
  assumes "plan_stale s c = None"
  obtains v where "repo_get s MVerificationPlan (px_plan c) = Some v" "truthy (attr v ''locked'')"
    "row_version v = px_plan_version c" "successor_id s MVerificationPlan (px_plan c) = None"
  using assms by (auto simp: plan_stale_def split: option.splits if_splits dest!: got)

lemma blocked_run_stays:
  assumes "run_guarded h plan c authorized decider m s = (r, m', s')" "m' \<noteq> m"
  shows "bv_failed (fst (evaluate_barrier c authorized s)) = []"
  using assms by (auto simp: run_guarded_def run_coding_def case_prod_unfold Let_def split: if_splits)

text \<open>
  C12. The coding agent touches nothing, its records included, unless the execution is authorized and the context is
  locked and current: its ledger and its plan are still there, locked, in the versions the context was built from,
  and no later version names one of them as its parent.
\<close>

theorem coding_needs_a_current_context:
  assumes run: "run_guarded h plan c authorized decider m s = (r, m', s')" and touched: "m' \<noteq> m"
  shows "authorized \<and> px_lock_state c = ''LOCKED'' \<and> 1 \<le> px_constitution_version c \<and>
    (\<exists>l. repo_get s MIntentLedger (px_ledger c) = Some l \<and> truthy (attr l ''locked'') \<and>
      row_version l = px_intent_version c \<and> successor_id s MIntentLedger (px_ledger c) = None) \<and>
    (\<exists>v. repo_get s MVerificationPlan (px_plan c) = Some v \<and> truthy (attr v ''locked'') \<and>
      row_version v = px_plan_version c \<and> successor_id s MVerificationPlan (px_plan c) = None)"
proof -
  obtain v s1 where v: "evaluate_barrier c authorized s = (v, s1)" by fastforce
  with blocked_run_stays [OF run touched] have "bv_failed v = []" by simp
  note pass = barrier_passes [OF v this]
  show ?thesis using pass(1,2,5) ledger_current [OF pass(3)] plan_current [OF pass(4)] by metis
qed

section \<open>A run on the demonstration rows\<close>

lemma demo_unsuperseded:
  "successor_id demo_session MIntentLedger (digits 2) = None"
  "successor_id demo_session MVerificationPlan (digits 7) = None"
proof -
  have lists: "repo_list demo_session MIntentLedger [] = [demo_ledger]"
    "repo_list demo_session MVerificationPlan [] = [demo_verification_plan]"
    by (simp_all add: repo_list_def demo_session_def)
  have st: "parent_storage MIntentLedger = Some (TextStore ''source'')"
    "parent_storage MVerificationPlan = Some (JsonStore ''strategy'')"
    by (simp_all add: parent_storage_def field_in_def column_of_def PARENT_JSON_FIELDS_def PARENT_TEXT_FIELDS_def column_defs)
  show "successor_id demo_session MIntentLedger (digits 2) = None"
    by (simp add: successor_id_def lists st names_parent_def flow_rows startswith_def)
  show "successor_id demo_session MVerificationPlan (digits 7) = None"
    by (simp add: successor_id_def lists st names_parent_def flow_rows plan_strategy_def get_key_def PARENT_RESERVED_KEY_def)
qed

lemma demo_passing_context:
  obtains c s where "bv_failed (fst (evaluate_barrier c True s)) = []"
proof -
  from gate_ready_passes [OF demo_ready] obtain v s where
    g: "pre_coding_gate plain_platform (digits 9) (digits 2) (Some (digits 4)) demo_session = Inr (v, s)" "gv_state v = ''PASS''"
    by (auto simp: gate_passes_def split: sum.splits)
  show thesis
  proof (rule gate_pass_context [OF g])
    fix d l m w k c r x
    assume parts: "get_intent_ledger demo_session (digits 2) = Inr l" "load_plan_for_task demo_session (digits 9) = Inr w"
        "Some (digits 4) = Some k" "repo_get demo_session MConstitution k = Some c" "rs_version r = row_version c"
      and x: "build_context (digits 9) k d l r m w demo_session = (x, s)"
      and v: "v = \<lparr>gv_state = ''PASS'', gv_context = Some x, gv_failed = []\<rparr>"
    note ctx = context_fields [OF x]
    note rows = same_rows [OF ctx(9)]
    from parts(1) have l: "lg_id l = digits 2" by (auto simp: get_intent_ledger_def ledger_ref_of_def)
    from parts(2) have w: "vp_id w = digits 7"
      by (auto simp: load_plan_for_task_def get_verification_plan_def ref_from_row_def plan_ref_of_def)
    from parts(3,4,5) have r: "rs_version r = 1" by (auto simp: row_version_def flow_rows)
    have "unique_keys demo_session" using demo_fresh by (simp add: fresh_keys_def)
    moreover have "gv_context v = Some x" using v by simp
    ultimately have "bv_state (fst (evaluate_barrier x True s)) = ''PASS''"
      using fresh_context_accepted [OF g, of x True] l w r ctx rows demo_unsuperseded by simp
    then have "bv_failed (fst (evaluate_barrier x True s)) = []"
      by (auto simp: evaluate_barrier_def case_prod_unfold Let_def split: sum.splits if_splits)
    then show thesis by (rule that)
  qed
qed

lemma coding_needs_a_current_context_witness:
  "\<exists>c s m' s'. run_guarded Coding_Proofs.demo_host Coding_Proofs.demo_plan c True Coding_Proofs.demo_decider (new_loop Coding_Proofs.demo_workspace default_bounds ()) s = (fst (demo_coding default_bounds), m', s') \<and>
     m' \<noteq> new_loop Coding_Proofs.demo_workspace default_bounds () \<and> px_lock_state c = ''LOCKED'' \<and>
     successor_id s MIntentLedger (px_ledger c) = None"
proof -
  let ?m = "new_loop Coding_Proofs.demo_workspace default_bounds () :: (unit, unit) coding_loop"
  obtain c s where pass: "bv_failed (fst (evaluate_barrier c True s)) = []" by (rule demo_passing_context)
  obtain v s' where v: "evaluate_barrier c True s = (v, s')" by fastforce
  obtain r m' where r: "demo_coding default_bounds = (r, m')" by fastforce
  with v pass have run: "run_guarded Coding_Proofs.demo_host Coding_Proofs.demo_plan c True Coding_Proofs.demo_decider ?m s = (r, m', s')"
    by (simp add: run_guarded_def demo_coding_def)
  have "ec_records (cl_capture (snd (demo_coding default_bounds))) \<noteq> []" by code_simp
  moreover have "ec_records (cl_capture ?m) = []" by (simp add: new_loop_def case_prod_unfold Let_def)
  ultimately have "m' \<noteq> ?m" using r by auto
  from coding_needs_a_current_context [OF run this] run this r show ?thesis by auto
qed

end
