(* ===== verification/Repository.thy ===== *)
theory Repository
  imports Checkpoints
begin

text \<open>
  \<open>packages/tools/src/smorx_tools/repo.py\<close>: the path-safe repository toolkit with its ledger of mutations. The file
  system is a tree without symbolic links as in \<open>Workspace\<close>, here from its root, so that a path is the list of
  its components. The codec of \<open>read_text\<close> and the texts of the exceptions the host raises are arguments.
\<close>

section \<open>Operations\<close>

record repo_ports =
  rp_decode :: "bytes \<Rightarrow> string option"
  rp_error_text :: "string \<Rightarrow> string list \<Rightarrow> string"

text \<open>\<open>HostError\<close>: an exception of the host, by its class and the path it is about.\<close>

datatype repo_error = PathSafetyError string | HostError string "string list"

record repo_mutation =
  rm_path :: string
  rm_operation :: string
  rm_writer :: string
  rm_reason :: string
  rm_at :: int

text \<open>The toolkit with the file system it works on, the working directory of the process and the host.\<close>

record toolkit =
  tk_root :: "string list"
  tk_safety :: "string list list"
  tk_writer :: string
  tk_reason :: string
  tk_mutations :: "repo_mutation list"
  tk_cwd :: "string list"
  tk_tree :: tree
  tk_world :: world

definition path_str :: "string list \<Rightarrow> string" where
  "path_str p = ''/'' @ join ''/'' p"

definition resolve_candidate :: "string \<Rightarrow> toolkit \<Rightarrow> repo_error + string list" where
  "resolve_candidate candidate k =
     (let base = (case tk_safety k of r # _ \<Rightarrow> r | [] \<Rightarrow> tk_cwd k); p = resolve_from base candidate
      in if CHR 0x00 \<in> set candidate then Inl (HostError ''ValueError'' p) else Inr p)"

definition inside_roots :: "toolkit \<Rightarrow> string list \<Rightarrow> bool" where
  "inside_roots k p \<longleftrightarrow> list_ex (\<lambda>r. take (length r) p = r) (tk_safety k)"

definition is_safe :: "string \<Rightarrow> toolkit \<Rightarrow> repo_error + bool" where
  "is_safe candidate k = map_sum id (inside_roots k) (resolve_candidate candidate k)"

definition safe_resolve :: "string \<Rightarrow> toolkit \<Rightarrow> repo_error + string list" where
  "safe_resolve candidate k =
     (case resolve_candidate candidate k of
        Inl e \<Rightarrow> Inl e
      | Inr p \<Rightarrow>
          if inside_roots k p then Inr p
          else Inl (PathSafetyError (''path escapes approved roots: '' @ repr_str candidate @ '' -> '' @ path_str p)))"

text \<open>\<open>__post_init__\<close>: the root is made with its parents; without \<open>safety\<close> it is the only approved root.\<close>

definition new_toolkit ::
    "string list \<Rightarrow> string list list option \<Rightarrow> string \<Rightarrow> string \<Rightarrow> string list \<Rightarrow> tree \<Rightarrow> world \<Rightarrow> repo_error + toolkit" where
  "new_toolkit home safety writer reason cwd t w =
     (if \<exists>a \<in> set (home # ancestors home). is_file t a
      then Inl (HostError (if is_file t home then ''FileExistsError'' else ''NotADirectoryError'') home)
      else Inr \<lparr>tk_root = home, tk_safety = (case safety of None \<Rightarrow> [home] | Some rs \<Rightarrow> rs), tk_writer = writer,
        tk_reason = reason, tk_mutations = [], tk_cwd = cwd,
        tk_tree = foldl (\<lambda>u a. AList.update a NDir u) t (ancestors home @ [home]), tk_world = w\<rparr>)"

definition record_mutation :: "string list \<Rightarrow> string \<Rightarrow> string \<Rightarrow> toolkit \<Rightarrow> toolkit" where
  "record_mutation p oper reason k =
     (let (t, w) = now (tk_world k)
      in k\<lparr>tk_world := w, tk_mutations := tk_mutations k @
        [\<lparr>rm_path = path_str p, rm_operation = oper, rm_writer = tk_writer k,
          rm_reason = (if reason \<noteq> [] then reason else tk_reason k), rm_at = t\<rparr>]\<rparr>)"

text \<open>\<open>read_text\<close> with universal newlines; \<open>write_text\<close> writes the encoded text as it is.\<close>

fun universal_newlines :: "string \<Rightarrow> string" where
  "universal_newlines [] = []"
| "universal_newlines (c # cs) =
     (if c = CHR 0x0D \<and> startswith cs [CHR 0x0A] then universal_newlines cs
      else (if c = CHR 0x0D then CHR 0x0A else c) # universal_newlines cs)"

definition read_text :: "repo_ports \<Rightarrow> string list \<Rightarrow> tree \<Rightarrow> repo_error + string" where
  "read_text P p t =
     (case map_of t p of
        None \<Rightarrow> Inl (HostError (if \<exists>a \<in> set (ancestors p). is_file t a then ''NotADirectoryError'' else ''FileNotFoundError'') p)
      | Some NDir \<Rightarrow> Inl (HostError ''IsADirectoryError'' p)
      | Some (NFile b) \<Rightarrow>
          (case rp_decode P b of
             None \<Rightarrow> Inl (HostError ''UnicodeDecodeError'' p)
           | Some s \<Rightarrow> Inr (universal_newlines s)))"

fun host_error :: "string list \<Rightarrow> sandbox_error \<Rightarrow> repo_error" where
  "host_error p (SbOSError c) = HostError c p"
| "host_error p _ = HostError ''OSError'' p"

text \<open>Making the parents and writing the text: the error and the tree it leaves, or the tree.\<close>

definition write_text :: "string list \<Rightarrow> string \<Rightarrow> tree \<Rightarrow> (repo_error + unit) \<times> tree" where
  "write_text p content t =
     (case make_parents p t of
        Inl e \<Rightarrow> (Inl (host_error p e), t)
      | Inr t1 \<Rightarrow>
          (case write_bytes p (utf8 content) t1 of
             Inl e \<Rightarrow> (Inl (host_error p e), t1)
           | Inr t2 \<Rightarrow> (Inr (), t2)))"

definition repo_read :: "repo_ports \<Rightarrow> string \<Rightarrow> toolkit \<Rightarrow> repo_error + string" where
  "repo_read P path k =
     (case safe_resolve path k of Inl e \<Rightarrow> Inl e | Inr p \<Rightarrow> read_text P p (tk_tree k))"

definition repo_exists :: "string \<Rightarrow> toolkit \<Rightarrow> repo_error + bool" where
  "repo_exists path k = map_sum id (\<lambda>p. map_of (tk_tree k) p \<noteq> None) (safe_resolve path k)"

definition store_text ::
    "string \<Rightarrow> string list \<Rightarrow> string \<Rightarrow> string \<Rightarrow> toolkit \<Rightarrow> (repo_error + string) \<times> toolkit" where
  "store_text oper p content reason k =
     (let (r, t) = write_text p content (tk_tree k); k1 = k\<lparr>tk_tree := t\<rparr>
      in case r of
           Inl e \<Rightarrow> (Inl e, k1)
         | Inr _ \<Rightarrow> (Inr (path_str p), record_mutation p oper reason k1))"

definition repo_write :: "string \<Rightarrow> string \<Rightarrow> string \<Rightarrow> toolkit \<Rightarrow> (repo_error + string) \<times> toolkit" where
  "repo_write path content reason k =
     (case safe_resolve path k of
        Inl e \<Rightarrow> (Inl e, k)
      | Inr p \<Rightarrow> store_text ''write'' p content reason k)"

definition repo_create :: "string \<Rightarrow> string \<Rightarrow> string \<Rightarrow> toolkit \<Rightarrow> (repo_error + string) \<times> toolkit" where
  "repo_create path content reason k =
     (case safe_resolve path k of
        Inl e \<Rightarrow> (Inl e, k)
      | Inr p \<Rightarrow>
          if map_of (tk_tree k) p \<noteq> None
          then (Inl (PathSafetyError (''cannot create: file already exists: '' @ path_str p)), k)
          else store_text ''create'' p content reason k)"

text \<open>\<open>unlink\<close> fails on a directory; the deletion is in the ledger by then, and a \<open>delete_error\<close> follows it.\<close>

definition repo_delete :: "string \<Rightarrow> string \<Rightarrow> toolkit \<Rightarrow> (repo_error + string) \<times> toolkit" where
  "repo_delete path reason k =
     (case safe_resolve path k of
        Inl e \<Rightarrow> (Inl e, k)
      | Inr p \<Rightarrow>
          if map_of (tk_tree k) p = None
          then (Inl (PathSafetyError (''cannot delete missing path: '' @ path_str p)), k)
          else
            let k1 = record_mutation p ''delete'' reason k
            in if is_file (tk_tree k) p
               then (Inr (path_str p), k1\<lparr>tk_tree := AList.delete p (tk_tree k1)\<rparr>)
               else (Inl (HostError ''IsADirectoryError'' p), record_mutation p ''delete_error'' reason k1))"

text \<open>\<open>sorted\<close> compares paths component by component.\<close>

definition repo_list_files :: "string \<Rightarrow> toolkit \<Rightarrow> repo_error + string list" where
  "repo_list_files relative_base k =
     (case (if relative_base = [] then Inr (tk_root k) else safe_resolve relative_base k) of
        Inl e \<Rightarrow> Inl e
      | Inr base \<Rightarrow> Inr (map (\<lambda>p. join ''/'' (drop (length base) p))
          (sort (filter (\<lambda>p. length base < length p \<and> take (length base) p = base \<and> is_file (tk_tree k) p)
            (dedup (map fst (tk_tree k)))))))"

section \<open>Sessions\<close>

datatype repo_op = RepoWrite string string string | RepoCreate string string string | RepoDelete string string

fun repo_step :: "repo_op \<Rightarrow> toolkit \<Rightarrow> toolkit" where
  "repo_step (RepoWrite path content reason) k = snd (repo_write path content reason k)"
| "repo_step (RepoCreate path content reason) k = snd (repo_create path content reason k)"
| "repo_step (RepoDelete path reason) k = snd (repo_delete path reason k)"

text \<open>What an operation leaves: the set-up of the toolkit, and a ledger that explains every file that changed.\<close>

definition accounts :: "toolkit \<Rightarrow> toolkit \<Rightarrow> bool" where
  "accounts k k' \<longleftrightarrow> tk_safety k' = tk_safety k \<and> tk_writer k' = tk_writer k \<and>
     (\<exists>new. tk_mutations k' = tk_mutations k @ new \<and> (\<forall>m \<in> set new. rm_writer m = tk_writer k) \<and>
       (\<forall>p. content_at (tk_tree k') p \<noteq> content_at (tk_tree k) p \<longrightarrow>
         inside_roots k p \<and> (\<exists>m \<in> set new. rm_path m = path_str p)))"

lemma accounts_refl: "accounts k k"
  by (simp add: accounts_def)

lemma accounts_trans:
  assumes "accounts k1 k2" "accounts k2 k3"
  shows "accounts k1 k3"
proof -
  from assms(1) obtain n1 where n1: "tk_safety k2 = tk_safety k1" "tk_writer k2 = tk_writer k1"
    "tk_mutations k2 = tk_mutations k1 @ n1" "\<forall>m \<in> set n1. rm_writer m = tk_writer k1"
    "\<forall>p. content_at (tk_tree k2) p \<noteq> content_at (tk_tree k1) p \<longrightarrow> inside_roots k1 p \<and> (\<exists>m \<in> set n1. rm_path m = path_str p)"
    unfolding accounts_def by blast
  from assms(2) obtain n2 where n2: "tk_safety k3 = tk_safety k2" "tk_writer k3 = tk_writer k2"
    "tk_mutations k3 = tk_mutations k2 @ n2" "\<forall>m \<in> set n2. rm_writer m = tk_writer k2"
    "\<forall>p. content_at (tk_tree k3) p \<noteq> content_at (tk_tree k2) p \<longrightarrow> inside_roots k2 p \<and> (\<exists>m \<in> set n2. rm_path m = path_str p)"
    unfolding accounts_def by blast
  have same: "inside_roots k2 p \<longleftrightarrow> inside_roots k1 p" for p by (simp add: inside_roots_def n1(1))
  have "inside_roots k1 p \<and> (\<exists>m \<in> set (n1 @ n2). rm_path m = path_str p)"
    if "content_at (tk_tree k3) p \<noteq> content_at (tk_tree k1) p" for p
    using that n1(5) n2(5) same by (metis Un_iff set_append)
  moreover have "tk_mutations k3 = tk_mutations k1 @ (n1 @ n2)" "\<forall>m \<in> set (n1 @ n2). rm_writer m = tk_writer k1"
    using n1 n2 by auto
  ultimately show ?thesis using n1(1,2) n2(1,2) unfolding accounts_def by metis
qed

lemma record_mutation_fields [simp]:
  "tk_safety (record_mutation p oper reason k) = tk_safety k" "tk_writer (record_mutation p oper reason k) = tk_writer k"
  "tk_tree (record_mutation p oper reason k) = tk_tree k" "tk_root (record_mutation p oper reason k) = tk_root k"
  by (simp_all add: record_mutation_def case_prod_unfold Let_def)

lemma record_mutation_ledger:
  obtains m where "tk_mutations (record_mutation p oper reason k) = tk_mutations k @ [m]" "rm_path m = path_str p"
    "rm_writer m = tk_writer k" "rm_operation m = oper"
  by (simp add: record_mutation_def case_prod_unfold Let_def)

lemma safe_resolve_same:
  assumes "tk_cwd k' = tk_cwd k" "tk_safety k' = tk_safety k"
  shows "safe_resolve path k' = safe_resolve path k"
proof -
  have "resolve_candidate path k' = resolve_candidate path k" unfolding resolve_candidate_def assms ..
  moreover have "inside_roots k' = inside_roots k" unfolding inside_roots_def fun_eq_iff assms by simp
  ultimately show ?thesis by (simp only: safe_resolve_def)
qed

lemma safe_resolve_contained: "safe_resolve path k = Inr p \<Longrightarrow> inside_roots k p"
  by (auto simp: safe_resolve_def split: sum.splits if_splits)

lemma write_text_content:
  assumes "write_text p content t = (r, t')"
  shows "content_at t' = (case r of Inl _ \<Rightarrow> content_at t | Inr _ \<Rightarrow> (content_at t)(p \<mapsto> utf8 content))"
  using assms make_parents_content write_bytes_content
  by (auto simp: write_text_def split: sum.splits)

lemma store_text_accounts:
  assumes "inside_roots k p"
  shows "accounts k (snd (store_text oper p content reason k))"
proof -
  obtain r t where w: "write_text p content (tk_tree k) = (r, t)" by fastforce
  note content = write_text_content [OF w]
  obtain m where m: "tk_mutations (record_mutation p oper reason (k\<lparr>tk_tree := t\<rparr>)) = tk_mutations k @ [m]"
    "rm_path m = path_str p" "rm_writer m = tk_writer k"
    using record_mutation_ledger [of p oper reason "k\<lparr>tk_tree := t\<rparr>"] by auto
  show ?thesis
    using w content m assms by (cases r) (auto simp: accounts_def store_text_def split: if_splits)
qed

lemma repo_delete_accounts: "accounts k (snd (repo_delete path reason k))"
proof (cases "safe_resolve path k")
  case (Inl e)
  then show ?thesis by (simp add: repo_delete_def accounts_refl)
next
  case (Inr p)
  let ?k1 = "record_mutation p ''delete'' reason k"
  obtain m where m: "tk_mutations ?k1 = tk_mutations k @ [m]" "rm_path m = path_str p" "rm_writer m = tk_writer k"
    by (rule record_mutation_ledger)
  obtain n where n: "tk_mutations (record_mutation p ''delete_error'' reason ?k1) = tk_mutations ?k1 @ [n]" "rm_writer n = tk_writer k"
    using record_mutation_ledger [of p "''delete_error''" reason ?k1] by auto
  show ?thesis
    using Inr m n safe_resolve_contained [OF Inr]
    by (auto simp: repo_delete_def accounts_def Let_def accounts_refl split: if_splits)
qed

lemma repo_step_accounts: "accounts k (repo_step oper k)"
proof (cases oper)
  case (RepoWrite path content reason)
  then show ?thesis
    by (cases "safe_resolve path k") (simp_all add: repo_write_def accounts_refl store_text_accounts safe_resolve_contained)
next
  case (RepoCreate path content reason)
  then show ?thesis
    by (cases "safe_resolve path k") (simp_all add: repo_create_def accounts_refl store_text_accounts safe_resolve_contained)
next
  case (RepoDelete path reason)
  then show ?thesis by (simp add: repo_delete_accounts)
qed

lemma repo_session_accounts: "accounts k (fold repo_step ops k)"
proof (induction ops arbitrary: k)
  case Nil
  then show ?case by (simp add: accounts_refl)
next
  case (Cons oper ops)
  from accounts_trans [OF repo_step_accounts Cons.IH] show ?case by simp
qed

text \<open>
  Any sequence of repository operations, whatever paths it names, changes files below the approved roots only,
  and each changed file has an entry of the ledger that names it and the writer; earlier entries stay.
\<close>

theorem repository_edits_confined:
  "\<exists>new. tk_mutations (fold repo_step ops k) = tk_mutations k @ new \<and>
    {p. content_at (tk_tree (fold repo_step ops k)) p \<noteq> content_at (tk_tree k) p} \<subseteq>
      {p. inside_roots k p \<and> (path_str p, tk_writer k) \<in> set (map (\<lambda>m. (rm_path m, rm_writer m)) new)}"
proof -
  from repo_session_accounts [of k ops] obtain new where new: "tk_mutations (fold repo_step ops k) = tk_mutations k @ new"
    "\<forall>m \<in> set new. rm_writer m = tk_writer k"
    "\<forall>p. content_at (tk_tree (fold repo_step ops k)) p \<noteq> content_at (tk_tree k) p \<longrightarrow>
      inside_roots k p \<and> (\<exists>m \<in> set new. rm_path m = path_str p)"
    unfolding accounts_def by blast
  have "(path_str p, tk_writer k) \<in> set (map (\<lambda>m. (rm_path m, rm_writer m)) new)"
    if "\<exists>m \<in> set new. rm_path m = path_str p" for p
    using that new(2) by force
  with new(1,3) show ?thesis by auto
qed

text \<open>
  A text that was written is read back with its line ends made uniform: every carriage return, alone or before a
  line feed, comes back as a line feed.
\<close>

theorem written_text_reads_back:
  assumes wrote: "repo_write path content reason k = (Inr s, k')" and codec: "rp_decode P (utf8 content) = Some content"
  shows "repo_read P path k' = Inr (universal_newlines content)"
proof -
  from wrote obtain p t where p: "safe_resolve path k = Inr p" "write_text p content (tk_tree k) = (Inr (), t)"
    and k': "k' = record_mutation p ''write'' reason (k\<lparr>tk_tree := t\<rparr>)"
    by (auto simp: repo_write_def store_text_def Let_def split: sum.splits prod.splits)
  have "tk_cwd k' = tk_cwd k" "tk_safety k' = tk_safety k"
    by (simp_all add: k' record_mutation_def case_prod_unfold Let_def)
  then have "safe_resolve path k' = Inr p" using safe_resolve_same p(1) by metis
  moreover have "map_of t p = Some (NFile (utf8 content))"
    using p(2) by (auto simp: write_text_def write_bytes_def split: sum.splits if_splits)
  ultimately show ?thesis using codec by (simp add: repo_read_def read_text_def k')
qed

section \<open>A concrete repository\<close>

definition demo_toolkit :: toolkit where
  "demo_toolkit =
     \<lparr>tk_root = [''srv'', ''repo''], tk_safety = [[''srv'', ''repo'']], tk_writer = ''agent'', tk_reason = ''fix'',
      tk_mutations = [], tk_cwd = [''home''], tk_tree = [([], NDir), ([''srv''], NDir), ([''srv'', ''repo''], NDir)],
      tk_world = \<lparr>clock_at = int, ticks = 0, uuid_at = digits, uuids = 0\<rparr>\<rparr>"

definition ascii_ports :: repo_ports where
  "ascii_ports = \<lparr>rp_decode = Some, rp_error_text = (\<lambda>c _. c)\<rparr>"

lemma traversal_refused:
  "fst (repo_write ''../secret'' ''x'' [] demo_toolkit) =
    Inl (PathSafetyError (''path escapes approved roots: '' @ repr_str ''../secret'' @ '' -> /srv/secret''))"
  by code_simp

theorem written_text_reads_back_witness:
  "repo_read ascii_ports ''src/a.txt'' (snd (repo_write ''src/a.txt'' [CHR ''a'', CHR 0x0D, CHR 0x0A, CHR ''b''] [] demo_toolkit)) =
    Inr [CHR ''a'', CHR 0x0A, CHR ''b'']"
proof -
  have w: "fst (repo_write ''src/a.txt'' [CHR ''a'', CHR 0x0D, CHR 0x0A, CHR ''b''] [] demo_toolkit) = Inr ''/srv/repo/src/a.txt''"
    by code_simp
  have d: "rp_decode ascii_ports (utf8 [CHR ''a'', CHR 0x0D, CHR 0x0A, CHR ''b'']) = Some [CHR ''a'', CHR 0x0D, CHR 0x0A, CHR ''b'']"
    by code_simp
  obtain k' where k': "repo_write ''src/a.txt'' [CHR ''a'', CHR 0x0D, CHR 0x0A, CHR ''b''] [] demo_toolkit =
      (Inr ''/srv/repo/src/a.txt'', k')" using w by (metis prod.collapse)
  from written_text_reads_back [OF k' d] k' show ?thesis by (simp add: startswith_def)
qed

end
