(* ===== verification/Toolbox.thy ===== *)
theory Toolbox
  imports Control_Plane Execution Repository
begin

text \<open>
  \<open>packages/tools/src/smorx_tools/assembly.py\<close>: the default tools, bound to the repository toolkit, the command
  runner and the sandbox control, registered with a control plane; and from \<open>execution.py\<close> the parser
  of test summaries. A handler here is left to finish; the plane may give up waiting for it, which \<open>Control_Plane\<close> models.
\<close>

section \<open>Test summaries (execution.py)\<close>

text \<open>A match of \<open>(\d+)\s+word\<close> at the front of a text: the number and what follows.\<close>

definition counted_at :: "string \<Rightarrow> string \<Rightarrow> (nat \<times> string) option" where
  "counted_at word s =
     (let ds = takeWhile is_digit s; r = dropWhile is_digit s; u = dropWhile is_space r
      in if ds \<noteq> [] \<and> u \<noteq> r \<and> startswith u word then Some (numeral_value ds, drop (length word) u) else None)"

lemma counted_at_shorter:
  assumes "counted_at word s = Some (n, rest)"
  shows "length rest < length s"
proof -
  let ?r = "dropWhile is_digit s"
  have "length ?r \<le> length s" by (rule length_dropWhile_le)
  moreover have "length (dropWhile is_space ?r) \<le> length ?r" by (rule length_dropWhile_le)
  moreover have "dropWhile is_space ?r \<noteq> ?r" "rest = drop (length word) (dropWhile is_space ?r)"
    using assms by (auto simp: counted_at_def Let_def split: if_splits)
  moreover have "length (dropWhile is_space ?r) \<noteq> length ?r"
    using calculation(3) by (metis append_take_drop_id dropWhile_eq_drop length_append add_0 add_diff_cancel_right' append_Nil length_0_conv)
  ultimately show ?thesis by simp
qed

text \<open>The sum over \<open>findall\<close>; the plural of \<open>errors?\<close> holds no digit, so it needs no case of its own.\<close>

function summed :: "string \<Rightarrow> string \<Rightarrow> nat" where
  "summed word [] = 0"
| "summed word (c # cs) =
     (case counted_at word (c # cs) of
        Some (n, rest) \<Rightarrow> n + summed word rest
      | None \<Rightarrow> summed word cs)"
  by pat_completeness auto
termination
  by (relation "measure (\<lambda>(_, s). length s)") (auto dest: counted_at_shorter)

definition normalize_test_output :: "string \<Rightarrow> string \<Rightarrow> int \<Rightarrow> (string \<times> pyval) list" where
  "normalize_test_output stdout stderr exit_code =
     (let combined = (if stderr \<noteq> [] then stdout @ CHR 0x0A # stderr else stdout);
          passed = summed ''passed'' combined; failed = summed ''failed'' combined; errors = summed ''error'' combined;
          tail = strip combined
      in [(''passed'', PInt (int passed)), (''failed'', PInt (int failed)), (''errors'', PInt (int errors)),
          (''exit_code'', PInt exit_code)] @
         (if passed = 0 \<and> failed = 0 \<and> errors = 0
          then [(''summary_tail'', PStr (drop (length tail - 120) tail))] else []))"

section \<open>The handlers (assembly.py)\<close>

text \<open>
  Arguments of the model: the host of the runner, the codec and texts of the toolkit, the interpreter's path, the formats
  \<open>:.3f\<close> and \<open>str\<close> of a float, \<open>json.dumps(..., sort_keys=True)\<close>, and the class of what a provider raised.
\<close>

record tool_ports =
  tp_host :: host_ports
  tp_repo :: repo_ports
  tp_executable :: string
  tp_seconds :: "rat \<Rightarrow> string"
  tp_float :: "rat \<Rightarrow> string"
  tp_dumps :: "pyval \<Rightarrow> string"
  tp_error_type :: "string \<Rightarrow> string"

record 'p toolbox =
  tb_root :: "string list"
  tb_kit :: toolkit
  tb_control :: "'p sandbox_control"
  tb_provider :: 'p

type_synonym 'p tool_handler = "tool_ports \<Rightarrow> tool_request \<Rightarrow> 'p toolbox \<Rightarrow> handler_end \<times> 'p toolbox"

definition tb_world :: "'p toolbox \<Rightarrow> world" where
  "tb_world b = tk_world (tb_kit b)"

definition at_world :: "world \<Rightarrow> 'p toolbox \<Rightarrow> 'p toolbox" where
  "at_world w b = b\<lparr>tb_kit := (tb_kit b)\<lparr>tk_world := w\<rparr>\<rparr>"

definition end_result ::
    "tool_request \<Rightarrow> result_status \<Rightarrow> string \<Rightarrow> string \<Rightarrow> int option \<Rightarrow> (string \<times> pyval) list \<Rightarrow> string \<Rightarrow> string \<Rightarrow>
     'p toolbox \<Rightarrow> handler_end \<times> 'p toolbox" where
  "end_result rq status stdout stderr exit_code artifacts cls message b =
     (let (s, w1) = now (tb_world b); (f, w2) = now w1; (u, w3) = uuid4 w2
      in (HReturned \<lparr>te_invocation_id = u, te_tool_name = tq_tool_name rq, te_request_id = tq_request_id rq,
            te_status = status, te_started_at = s, te_finished_at = f, te_duration = seconds_between s f,
            te_exit_code = exit_code, te_stdout = stdout, te_stderr = stderr, te_artifacts = artifacts,
            te_error_classification = cls, te_timeout = tq_timeout rq, te_sandbox_id = tq_sandbox_id rq,
            te_provenance = ''tool:'' @ tq_tool_name rq @ '';task:'' @ tq_task_id rq, te_message = message\<rparr>,
          at_world w3 b))"

definition end_ok :: "tool_request \<Rightarrow> string \<Rightarrow> 'p toolbox \<Rightarrow> handler_end \<times> 'p toolbox" where
  "end_ok rq stdout = end_result rq SUCCEEDED stdout [] (Some 0) [] [] []"

definition end_failed :: "tool_request \<Rightarrow> string \<Rightarrow> 'p toolbox \<Rightarrow> handler_end \<times> 'p toolbox" where
  "end_failed rq message = end_result rq FAILED [] message None [] ''tool failure'' message"

definition arg_of :: "tool_request \<Rightarrow> string \<Rightarrow> string \<Rightarrow> string" where
  "arg_of rq key d = (case map_of (tq_arguments rq) key of Some (PStr s) \<Rightarrow> or_else s d | _ \<Rightarrow> d)"

fun repo_error_text :: "tool_ports \<Rightarrow> repo_error \<Rightarrow> string" where
  "repo_error_text P (PathSafetyError t) = ''PathSafetyError: '' @ t"
| "repo_error_text P (HostError c p) = c @ '': '' @ rp_error_text (tp_repo P) c p"

definition h_repository_inspect :: "'p tool_handler" where
  "h_repository_inspect P rq b =
     (case repo_list_files (arg_of rq ''path'' []) (tb_kit b) of
        Inl e \<Rightarrow> end_failed rq (repo_error_text P e) b
      | Inr files \<Rightarrow>
          end_result rq SUCCEEDED [] [] (Some 0)
            [(''files'', PList (map PStr files)), (''count'', PInt (int (length files)))] []
            (''inspected repository root '' @ path_str (tb_root b)) b)"

definition h_file_read :: "'p tool_handler" where
  "h_file_read P rq b =
     (let path = arg_of rq ''path'' []
      in if path = [] then end_failed rq ''no path provided'' b
         else case repo_read (tp_repo P) path (tb_kit b) of
             Inl e \<Rightarrow> end_failed rq (repo_error_text P e) b
           | Inr content \<Rightarrow> end_ok rq content b)"

text \<open>What a call of the toolkit that may change files gives: its result, or the failure.\<close>

definition end_edit ::
    "tool_ports \<Rightarrow> tool_request \<Rightarrow> string \<Rightarrow> (repo_error + string) \<times> toolkit \<Rightarrow> 'p toolbox \<Rightarrow> handler_end \<times> 'p toolbox" where
  "end_edit P rq verb res b =
     (let b1 = b\<lparr>tb_kit := snd res\<rparr>
      in case fst res of
           Inl e \<Rightarrow> end_failed rq (repo_error_text P e) b1
         | Inr resolved \<Rightarrow> end_ok rq (verb @ resolved) b1)"

definition content_of :: "tool_request \<Rightarrow> string option" where
  "content_of rq =
     (case map_of (tq_arguments rq) ''content'' of None \<Rightarrow> Some [] | Some (PStr s) \<Rightarrow> Some s | Some _ \<Rightarrow> None)"

definition h_file_write :: "'p tool_handler" where
  "h_file_write P rq b =
     (let path = arg_of rq ''path'' []
      in if path = [] then end_failed rq ''no path provided'' b
         else case content_of rq of
             None \<Rightarrow> end_failed rq ''content must be a string'' b
           | Some content \<Rightarrow>
               end_edit P rq ''wrote '' (repo_write path content (arg_of rq ''reason'' (tk_reason (tb_kit b))) (tb_kit b)) b)"

definition h_file_create :: "'p tool_handler" where
  "h_file_create P rq b =
     (let path = arg_of rq ''path'' []
      in if path = [] then end_failed rq ''no path provided'' b
         else case content_of rq of
             None \<Rightarrow> end_failed rq ''content must be a string'' b
           | Some content \<Rightarrow>
               end_edit P rq ''created '' (repo_create path content (arg_of rq ''reason'' (tk_reason (tb_kit b))) (tb_kit b)) b)"

definition h_file_delete :: "'p tool_handler" where
  "h_file_delete P rq b =
     (let path = arg_of rq ''path'' []
      in if path = [] then end_failed rq ''no path provided'' b
         else end_edit P rq ''deleted '' (repo_delete path (arg_of rq ''reason'' (tk_reason (tb_kit b))) (tb_kit b)) b)"

text \<open>\<open>s.split(" ")\<close>.\<close>

fun split_spaces :: "string \<Rightarrow> string list" where
  "split_spaces [] = [[]]"
| "split_spaces (c # cs) =
     (if c = CHR '' '' then [] # split_spaces cs
      else (case split_spaces cs of [] \<Rightarrow> [[c]] | p # ps \<Rightarrow> (c # p) # ps))"

fun runner_error_text :: "tool_ports \<Rightarrow> sandbox_error \<Rightarrow> string" where
  "runner_error_text P (ExecutionError t) = ''ExecutionError: '' @ t"
| "runner_error_text P (SbOSError c) = c @ '': '' @ rp_error_text (tp_repo P) c []"
| "runner_error_text P _ = ''Exception: ''"

definition run_in ::
    "tool_ports \<Rightarrow> string list \<Rightarrow> rat \<Rightarrow> string list \<Rightarrow> 'p toolbox \<Rightarrow> (sandbox_error + command_result) \<times> 'p toolbox" where
  "run_in P args timeout cwd b =
     (let (r, t, w) = run_command (tp_host P) args timeout (path_str cwd) [] (tk_tree (tb_kit b)) (tb_world b)
      in (r, b\<lparr>tb_kit := (tb_kit b)\<lparr>tk_tree := t, tk_world := w\<rparr>\<rparr>))"

text \<open>\<open>run_python\<close>: the interpreter on the code, under its name without \<open>.exe\<close>.\<close>

definition run_python ::
    "tool_ports \<Rightarrow> string \<Rightarrow> rat \<Rightarrow> 'p toolbox \<Rightarrow> (sandbox_error + command_result) \<times> 'p toolbox" where
  "run_python P code timeout b =
     (let (r, b1) = run_in P [tp_executable P, ''-c'', code] timeout (tk_cwd (tb_kit b)) b; name = path_name (tp_executable P)
      in (map_sum id (\<lambda>c. c\<lparr>cr_command_name :=
            (if endswith (lower name) ''.exe'' then take (length name - 4) name else name)\<rparr>) r, b1))"

definition command_status :: "command_result \<Rightarrow> result_status" where
  "command_status c = (if cr_exit_code c = 0 \<and> \<not> cr_timed_out c then SUCCEEDED else if cr_timed_out c then TIMEOUT else FAILED)"

definition command_class :: "command_result \<Rightarrow> string" where
  "command_class c = classify_signals (Some (cr_exit_code c)) (cr_stderr c) (cr_timed_out c) (result_value (command_status c))"

definition h_command_run :: "'p tool_handler" where
  "h_command_run P rq b =
     (let command = arg_of rq ''command'' []; python_code = arg_of rq ''python_code'' []
      in if python_code = [] \<and> command = [] then end_failed rq ''no command or python_code provided'' b
         else
           let (r, b1) = (if python_code \<noteq> [] then run_python P python_code (tq_timeout rq) b
             else run_in P (split_spaces command) (tq_timeout rq) (tb_root b) b)
           in case r of
                Inl e \<Rightarrow> end_failed rq (runner_error_text P e) b1
              | Inr c \<Rightarrow>
                  end_result rq (command_status c) (cr_stdout c) (cr_stderr c) (Some (cr_exit_code c)) [] (command_class c)
                    (''command '' @ cr_command_name c @ '' finished in '' @ tp_seconds P (cr_duration c) @ ''s'') b1)"

definition h_test_run :: "'p tool_handler" where
  "h_test_run P rq b =
     (let target = arg_of rq ''target'' []
      in if target = [] then end_failed rq ''no target test path provided'' b
         else
           let (r, b1) = run_in P [''python'', ''-m'', ''pytest'', target, ''-q''] (tq_timeout rq) (tb_root b) b
           in case r of
                Inl e \<Rightarrow> end_failed rq (runner_error_text P e) b1
              | Inr c \<Rightarrow>
                  (let parsed = normalize_test_output (cr_stdout c) (cr_stderr c) (cr_exit_code c)
                   in if command_status c = SUCCEEDED
                      then end_result rq SUCCEEDED (cr_stdout c) [] (Some 0) parsed [] (''test.run passed on '' @ target) b1
                      else end_result rq (command_status c) (cr_stdout c) (cr_stderr c) (Some (cr_exit_code c)) parsed
                             (command_class c) (''test.run failed on '' @ target) b1))"

definition evidence_path :: "string \<Rightarrow> string" where
  "evidence_path claim = ''evidence/'' @ claim @ ''.json''"

text \<open>The claim of a request: \<open>claim_id\<close>, or the first of \<open>claim_ids\<close>; an empty list has none and raises.\<close>

definition claim_of :: "tool_ports \<Rightarrow> tool_request \<Rightarrow> string option" where
  "claim_of P rq =
     (let k = arg_of rq ''claim_id'' []
      in if k \<noteq> [] then Some k
         else case map_of (tq_arguments rq) ''claim_ids'' of
             Some (PList (c # _)) \<Rightarrow> Some (py_str (tp_float P) c)
           | Some (PList []) \<Rightarrow> None
           | _ \<Rightarrow> Some [])"

definition h_evidence_record :: "'p tool_handler" where
  "h_evidence_record P rq b =
     (case claim_of P rq of
        None \<Rightarrow> (HRaised ''IndexError'' ''list index out of range'', b)
      | Some claim \<Rightarrow>
          if claim = [] then end_failed rq ''no claim_id provided'' b
          else
            let evidence = (case map_of (tq_arguments rq) ''evidence'' of None \<Rightarrow> PDict [] | Some v \<Rightarrow> v)
            in end_edit P rq (''recorded evidence '' @ claim @ '' at '')
                 (repo_write (evidence_path claim) (tp_dumps P (PDict [(''claim_id'', PStr claim), (''evidence'', evidence)]))
                   (tq_action_id rq) (tb_kit b)) b)"

definition h_evidence_read :: "'p tool_handler" where
  "h_evidence_read P rq b =
     (let claim = arg_of rq ''claim_id'' []
      in if claim = [] then end_failed rq ''no claim_id provided'' b
         else case repo_read (tp_repo P) (evidence_path claim) (tb_kit b) of
             Inl e \<Rightarrow> end_failed rq (repo_error_text P e) b
           | Inr content \<Rightarrow> end_ok rq content b)"

section \<open>The sandbox tools\<close>

definition sandbox_artifacts :: "sandbox_result \<Rightarrow> (string \<times> pyval) list" where
  "sandbox_artifacts r = [(''sandbox_status'', PStr (sandbox_status_value (so_status r))), (''operation'', PStr (so_operation r))]"

definition end_sandbox :: "tool_request \<Rightarrow> sandbox_result \<Rightarrow> 'p toolbox \<Rightarrow> handler_end \<times> 'p toolbox" where
  "end_sandbox rq r b =
     (let caps = (''capabilities'', py_strs (map capability_name (so_capabilities r)))
      in if so_status r = SbUNAVAILABLE then
           end_result rq UNAVAILABLE [] [] None [(''sandbox_status'', PStr ''UNAVAILABLE'')] ''environment/dependency failure''
             (so_message r) b
         else if so_status r \<notin> {SbCREATED, SbREADY, SbRUNNING, SbCHECKPOINTED, SbTERMINATED} then
           end_result rq FAILED [] (so_stderr r) (so_exit_code r) (sandbox_artifacts r @ [caps])
             (classify_signals (so_exit_code r) (so_stderr r) False ''FAILED'') (or_else (so_message r) ''sandbox operation failed'') b
         else
           end_result rq SUCCEEDED (so_stdout r) [] (Some (case so_exit_code r of None \<Rightarrow> 0 | Some c \<Rightarrow> c))
             (sandbox_artifacts r @ [(''sandbox_id'', PStr (so_sandbox_id r)), caps]) [] (so_message r) b)"

datatype sandbox_call = CallCreate | CallExecute | CallCheckpoint | CallRollback | CallDestroy

fun call_sandbox ::
    "sandbox_call \<Rightarrow> tool_request \<Rightarrow> string \<Rightarrow> 'p sandbox_control \<Rightarrow> 'p \<Rightarrow> (string + sandbox_result) \<times> 'p" where
  "call_sandbox CallCreate rq sandbox c p = sc_create c (tq_request_id rq) (arg_of rq ''image'' ''python:3.11-slim'') [] p"
| "call_sandbox CallExecute rq sandbox c p =
     sc_execute c sandbox (split_spaces (arg_of rq ''command'' ''true'')) (tq_timeout rq) p"
| "call_sandbox CallCheckpoint rq sandbox c p = sc_checkpoint c sandbox (arg_of rq ''label'' ''commit'') p"
| "call_sandbox CallRollback rq sandbox c p = sc_rollback c sandbox (arg_of rq ''checkpoint_ref'' []) p"
| "call_sandbox CallDestroy rq sandbox c p = sc_destroy c sandbox p"

definition h_sandbox :: "sandbox_call \<Rightarrow> 'p tool_handler" where
  "h_sandbox call P rq b =
     (let sandbox = or_else (tq_sandbox_id rq) (arg_of rq ''sandbox_id'' [])
      in if call \<noteq> CallCreate \<and> sandbox = [] then end_failed rq ''no sandbox_id provided'' b
         else
           let (r, p) = call_sandbox call rq sandbox (tb_control b) (tb_provider b); b1 = b\<lparr>tb_provider := p\<rparr>
           in case r of
                Inl e \<Rightarrow> (HRaised (tp_error_type P e) e, b1)
              | Inr res \<Rightarrow> end_sandbox rq res b1)"

section \<open>The registry and the plane\<close>

text \<open>A row of the table: name, kind, capability, risk, seconds, whether it mutates, and whether it asks for approval.\<close>

definition tool_row ::
    "string \<Rightarrow> tool_kind \<Rightarrow> string \<Rightarrow> risk_level \<Rightarrow> rat \<Rightarrow> bool \<Rightarrow> bool \<Rightarrow> 'p tool_handler \<Rightarrow> tool_ports \<Rightarrow> 'p toolbox \<Rightarrow> tool_spec" where
  "tool_row name kind capability risk timeout mutates approval f P b =
     \<lparr>tl_name = name, tl_kind = kind, tl_capability = capability, tl_risk = risk_value risk, tl_timeout = timeout,
      tl_requires_sandbox = False, tl_mutates = mutates, tl_requires_approval = approval,
      tl_handler = Some (\<lambda>rq w. let (e, b') = f P rq (at_world w b) in (e, tb_world b'))\<rparr>"

text \<open>The handler of a name, by the table.\<close>

definition tool_handlers :: "(string \<times> 'p tool_handler) list" where
  "tool_handlers =
     [(''repository.inspect'', h_repository_inspect), (''file.read'', h_file_read), (''file.write'', h_file_write),
      (''file.create'', h_file_create), (''file.delete'', h_file_delete), (''command.run'', h_command_run),
      (''test.run'', h_test_run), (''evidence.record'', h_evidence_record), (''evidence.read'', h_evidence_read),
      (''sandbox.create'', h_sandbox CallCreate), (''sandbox.execute'', h_sandbox CallExecute),
      (''sandbox.checkpoint'', h_sandbox CallCheckpoint), (''sandbox.rollback'', h_sandbox CallRollback),
      (''sandbox.destroy'', h_sandbox CallDestroy)]"

definition default_specs :: "tool_ports \<Rightarrow> 'p toolbox \<Rightarrow> tool_spec list" where
  "default_specs P b = map (\<lambda>f. f P b)
     [tool_row ''repository.inspect'' REPOSITORY ''*'' LOW 30 False False h_repository_inspect,
      tool_row ''file.read'' FILE ''*'' LOW 30 False False h_file_read,
      tool_row ''file.write'' FILE ''CODING'' LOW 30 True False h_file_write,
      tool_row ''file.create'' FILE ''CODING'' LOW 30 True False h_file_create,
      tool_row ''file.delete'' FILE ''CODING'' HIGH 30 True True h_file_delete,
      tool_row ''command.run'' COMMAND ''CODING'' HIGH 30 True False h_command_run,
      tool_row ''test.run'' TEST ''VERIFICATION'' LOW 120 False False h_test_run,
      tool_row ''evidence.record'' VERIFICATION_TOOL ''EVIDENCE'' LOW 30 True False h_evidence_record,
      tool_row ''evidence.read'' VERIFICATION_TOOL ''EVIDENCE'' LOW 30 False False h_evidence_read,
      tool_row ''sandbox.create'' SANDBOX ''CODING'' MEDIUM 30 False False (h_sandbox CallCreate),
      tool_row ''sandbox.execute'' SANDBOX ''CODING'' HIGH 30 True False (h_sandbox CallExecute),
      tool_row ''sandbox.checkpoint'' SANDBOX ''CODING'' MEDIUM 30 True False (h_sandbox CallCheckpoint),
      tool_row ''sandbox.rollback'' SANDBOX ''CODING'' MEDIUM 30 True False (h_sandbox CallRollback),
      tool_row ''sandbox.destroy'' SANDBOX ''CODING'' MEDIUM 30 True False (h_sandbox CallDestroy)]"

definition assemble_default_registry :: "tool_ports \<Rightarrow> 'p toolbox \<Rightarrow> value_error + tool_registry" where
  "assemble_default_registry P b =
     foldl (\<lambda>r spec. case r of Inl e \<Rightarrow> Inl e | Inr reg \<Rightarrow> register_tool spec reg) (Inr []) (default_specs P b)"

definition assemble_control_plane ::
    "tool_ports \<Rightarrow> 'p toolbox \<Rightarrow> string \<Rightarrow> human_plane option \<Rightarrow> policy_engine option \<Rightarrow> audit_record list option \<Rightarrow>
     (rat \<Rightarrow> string) \<Rightarrow> value_error + control_plane" where
  "assemble_control_plane P b environment human engine audit format_g =
     map_sum id (\<lambda>reg. \<lparr>cp_registry = reg,
         cp_engine = (case engine of None \<Rightarrow> new_engine [] None True | Some e \<Rightarrow> e),
         cp_audit = (case audit of None \<Rightarrow> [] | Some t \<Rightarrow> t), cp_human = human, cp_environment = environment,
         cp_world = tb_world b, cp_format_g = format_g\<rparr>)
       (assemble_default_registry P b)"

end
