(* ===== verification/Served_Tools.thy ===== *)
theory Served_Tools
  imports Toolbox
begin

text \<open>
  The default tools behind the control plane: a request that the plane lets through runs its handler on the toolbox, any
  other leaves the toolbox alone. What a sequence of requests may change, and what needs a human.
\<close>

section \<open>Serving a request\<close>

definition specs_by_name :: "tool_ports \<Rightarrow> 'p toolbox \<Rightarrow> tool_registry" where
  "specs_by_name P b = map (\<lambda>s. (tl_name s, s)) (default_specs P b)"

definition request_view :: "tool_request \<Rightarrow> auth_view" where
  "request_view rq =
     \<lparr>av_request_id = tq_request_id rq, av_action_id = tq_action_id rq, av_agent_id = tq_agent_id rq,
      av_task_id = tq_task_id rq, av_tool_name = tq_tool_name rq, av_arguments = tq_arguments rq,
      av_capabilities = tq_capabilities rq, av_allowed_tools = tq_allowed_tools rq, av_environment = tq_environment rq\<rparr>"

text \<open>The world the handler starts in, when the plane lets the request through: the plane reads its clock first.\<close>

definition handler_start :: "tool_request \<Rightarrow> control_plane \<Rightarrow> world option" where
  "handler_start rq p =
     (case resolve (map_of (cp_registry p) (tq_tool_name rq)) (request_view rq)
         (allowed_by (tq_allowed_tools rq) (tq_tool_name rq)) p of
        (Inr (auth, _), p1) \<Rightarrow> if ta_decision auth = ALLOW then Some (cp_world (snd (plane_now p1))) else None
      | _ \<Rightarrow> None)"

definition use_tool :: "tool_ports \<Rightarrow> tool_request \<Rightarrow> world \<Rightarrow> 'p toolbox \<Rightarrow> 'p toolbox" where
  "use_tool P rq w b =
     (case map_of tool_handlers (tq_tool_name rq) of None \<Rightarrow> b | Some f \<Rightarrow> snd (f P rq (at_world w b)))"

definition serve :: "tool_ports \<Rightarrow> tool_request \<Rightarrow> control_plane \<times> 'p toolbox \<Rightarrow> control_plane \<times> 'p toolbox" where
  "serve P rq = (\<lambda>(p, b).
     let p0 = p\<lparr>cp_registry := specs_by_name P b\<rparr>
     in (snd (execute_request rq p0), case handler_start rq p0 of None \<Rightarrow> b | Some w \<Rightarrow> use_tool P rq w b))"

lemma registry_assembled: "assemble_default_registry P b = Inr (specs_by_name P b)"
  by (simp add: assemble_default_registry_def specs_by_name_def default_specs_def tool_row_def register_tool_def)

section \<open>What the handlers change\<close>

lemma accounts_world [simp]: "accounts k (k'\<lparr>tk_world := w\<rparr>) \<longleftrightarrow> accounts k k'"
  "accounts (k\<lparr>tk_world := w\<rparr>) k' \<longleftrightarrow> accounts k k'"
  by (simp_all add: accounts_def inside_roots_def)

lemma at_world_kit [simp]: "tb_kit (at_world w b) = (tb_kit b)\<lparr>tk_world := w\<rparr>"
  by (simp add: at_world_def)

lemma end_result_kit:
  "\<exists>w. tb_kit (snd (end_result rq st so se ex ar cl ms b)) = (tb_kit b)\<lparr>tk_world := w\<rparr>"
  by (auto simp: end_result_def case_prod_unfold Let_def)

lemma ends_account [simp]:
  "accounts k (tb_kit (snd (end_result rq st so se ex ar cl ms b))) \<longleftrightarrow> accounts k (tb_kit b)"
  "accounts k (tb_kit (snd (end_ok rq so b))) \<longleftrightarrow> accounts k (tb_kit b)"
  "accounts k (tb_kit (snd (end_failed rq ms b))) \<longleftrightarrow> accounts k (tb_kit b)"
  "accounts k (tb_kit (snd (end_sandbox rq res b))) \<longleftrightarrow> accounts k (tb_kit b)"
proof -
  show *: "accounts k (tb_kit (snd (end_result rq st so se ex ar cl ms b))) \<longleftrightarrow> accounts k (tb_kit b)" for st so se ex ar cl ms
    using end_result_kit [of rq st so se ex ar cl ms b] by auto
  then show "accounts k (tb_kit (snd (end_ok rq so b))) \<longleftrightarrow> accounts k (tb_kit b)"
    "accounts k (tb_kit (snd (end_failed rq ms b))) \<longleftrightarrow> accounts k (tb_kit b)"
    "accounts k (tb_kit (snd (end_sandbox rq res b))) \<longleftrightarrow> accounts k (tb_kit b)"
    by (simp_all add: end_ok_def end_failed_def end_sandbox_def Let_def)
qed

lemma end_edit_accounts [simp]: "accounts k (tb_kit (snd (end_edit P rq verb res b))) \<longleftrightarrow> accounts k (snd res)"
  by (cases "fst res") (simp_all add: end_edit_def Let_def)

lemma edits_account:
  "accounts k (snd (repo_write path content reason k))" "accounts k (snd (repo_create path content reason k))"
  "accounts k (snd (repo_delete path reason k))"
  using repo_step_accounts [of k "RepoWrite path content reason"] repo_step_accounts [of k "RepoCreate path content reason"]
    repo_step_accounts [of k "RepoDelete path reason"] by simp_all

text \<open>Every handler but the two that start processes accounts for what it changes.\<close>

lemma file_handlers_account:
  "accounts (tb_kit b) (tb_kit (snd (h_repository_inspect P rq b)))" "accounts (tb_kit b) (tb_kit (snd (h_file_read P rq b)))"
  "accounts (tb_kit b) (tb_kit (snd (h_file_write P rq b)))" "accounts (tb_kit b) (tb_kit (snd (h_file_create P rq b)))"
  "accounts (tb_kit b) (tb_kit (snd (h_file_delete P rq b)))" "accounts (tb_kit b) (tb_kit (snd (h_evidence_read P rq b)))"
  "accounts (tb_kit b) (tb_kit (snd (h_evidence_record P rq b)))"
  by (simp_all add: h_repository_inspect_def h_file_read_def h_file_write_def h_file_create_def h_file_delete_def
      h_evidence_read_def h_evidence_record_def Let_def accounts_refl edits_account split: sum.split option.split)

lemma sandbox_handlers_account: "accounts (tb_kit b) (tb_kit (snd (h_sandbox call P rq b)))"
  by (simp add: h_sandbox_def Let_def case_prod_unfold accounts_refl split: sum.split)

definition starts_processes :: "tool_request \<Rightarrow> bool" where
  "starts_processes rq \<longleftrightarrow> tq_tool_name rq \<in> {''command.run'', ''test.run''}"

lemma use_tool_accounts:
  assumes "\<not> starts_processes rq"
  shows "accounts (tb_kit b) (tb_kit (use_tool P rq w b))"
proof (cases "map_of tool_handlers (tq_tool_name rq) :: 'a tool_handler option")
  case None
  then show ?thesis by (simp add: use_tool_def accounts_refl)
next
  case (Some f)
  from map_of_SomeD [OF Some] assms
  have "f \<in> {h_repository_inspect, h_file_read, h_file_write, h_file_create, h_file_delete, h_evidence_record, h_evidence_read} \<or>
      f \<in> range h_sandbox"
    by (auto simp: tool_handlers_def starts_processes_def)
  then have "accounts (tb_kit (at_world w b)) (tb_kit (snd (f P rq (at_world w b))))"
    using file_handlers_account [where b = "at_world w b" and P = P and rq = rq] sandbox_handlers_account
    by (auto simp del: at_world_kit)
  with Some show ?thesis by (simp add: use_tool_def)
qed

lemma serve_accounts:
  assumes "\<not> starts_processes rq"
  shows "accounts (tb_kit (snd pb)) (tb_kit (snd (serve P rq pb)))"
proof -
  obtain p b where pb: "pb = (p, b)" by fastforce
  show ?thesis
    by (cases "handler_start rq (p\<lparr>cp_registry := specs_by_name P b\<rparr>)")
      (simp_all add: pb serve_def Let_def accounts_refl use_tool_accounts [OF assms])
qed

lemma session_accounts:
  assumes "\<forall>rq \<in> set rqs. \<not> starts_processes rq"
  shows "accounts (tb_kit (snd pb)) (tb_kit (snd (fold (serve P) rqs pb)))"
  using assms
proof (induction rqs arbitrary: pb)
  case Nil
  then show ?case by (simp add: accounts_refl)
next
  case (Cons rq rqs)
  then have "accounts (tb_kit (snd pb)) (tb_kit (snd (serve P rq pb)))" by (simp add: serve_accounts)
  from accounts_trans [OF this Cons.IH] Cons.prems show ?case by simp
qed

section \<open>Properties\<close>

text \<open>
  C14. Behind the plane, a sequence of requests that starts no process changes files below the approved roots only, and
  every changed file has an entry of the ledger that names it and the writer.
\<close>

theorem served_requests_confined:
  assumes files: "\<forall>rq \<in> set rqs. \<not> starts_processes rq" and session: "fold (serve P) rqs (p, b) = (p', b')"
  shows "\<exists>new. tk_mutations (tb_kit b') = tk_mutations (tb_kit b) @ new \<and>
    {q. content_at (tk_tree (tb_kit b')) q \<noteq> content_at (tk_tree (tb_kit b)) q} \<subseteq>
      {q. inside_roots (tb_kit b) q \<and> (\<exists>m \<in> set new. rm_path m = path_str q \<and> rm_writer m = tk_writer (tb_kit b))}"
proof -
  from session_accounts [OF files, of "(p, b)" P] session have "accounts (tb_kit b) (tb_kit b')" by simp
  then show ?thesis unfolding accounts_def by blast
qed

lemma spec_of_risk:
  assumes "map_of (specs_by_name P b) name = Some s" "name \<in> {''file.delete'', ''command.run'', ''sandbox.execute''}"
  shows "tl_risk s = ''high''" "tl_capability s = ''CODING''"
  using assms by (auto simp: specs_by_name_def default_specs_def tool_row_def)

lemma high_risk_review:
  assumes "policy_context s view = Inr ctx" "tl_risk s = ''high''"
  shows "evaluate (new_engine [] None production) ctx = RequireReview"
proof -
  have "parse_risk ''high'' = Some HIGH" using parse_risk_value [of HIGH] by simp
  with assms have "pc_risk ctx = HIGH" by (auto simp: policy_context_def)
  then show ?thesis by (simp add: evaluate_def engine_rules default_new_engine Let_def)
qed

text \<open>
  C13. With the default policy, the tools that delete files, run commands or execute in a sandbox touch nothing unless the human plane
  is executing, the latest approval for this very action and tool is granted and not expired, and the agent has the coding capability.
\<close>

theorem risky_tools_need_approval:
  assumes served: "serve P rq (p, b) = (p', b')" and touched: "b' \<noteq> b"
    and risky: "tq_tool_name rq \<in> {''file.delete'', ''command.run'', ''sandbox.execute''}"
    and engine: "cp_engine p = new_engine [] None production"
  shows "''CODING'' \<in> set (tq_capabilities rq) \<and> (\<exists>h a. cp_human p = Some h \<and> can_execute h \<and>
    fst (approval_for (tq_action_id rq) (tq_tool_name rq) h (cp_world p)) = Some a \<and> ap_status a = APPROVED)"
proof -
  let ?p = "p\<lparr>cp_registry := specs_by_name P b\<rparr>" and ?v = "request_view rq"
  from served touched obtain auth r p1 where
    res: "resolve (map_of (specs_by_name P b) (tq_tool_name rq)) ?v (allowed_by (tq_allowed_tools rq) (tq_tool_name rq)) ?p =
      (Inr (auth, r), p1)" and allow: "ta_decision auth = ALLOW"
    by (auto simp: serve_def handler_start_def Let_def split: option.splits prod.splits sum.splits if_splits)
  from resolve_effect(2) [OF res] allow obtain s where s: "map_of (specs_by_name P b) (tq_tool_name rq) = Some s"
    and clear: "cleared s ?v (allowed_by (tq_allowed_tools rq) (tq_tool_name rq)) ?p" by blast
  note spec = spec_of_risk [OF s risky]
  from clear obtain ctx where ctx: "policy_context s ?v = Inr ctx"
    by (auto simp: cleared_def split: sum.splits)
  with clear high_risk_review [OF ctx spec(1), of production] engine
  have asked: "fst (consult_human (tq_action_id rq) (tq_tool_name rq) ?p)"
    by (simp add: cleared_def request_view_def)
  obtain h a where "cp_human ?p = Some h" "can_execute h"
    "fst (approval_for (tq_action_id rq) (tq_tool_name rq) h (cp_world ?p)) = Some a" "ap_status a = APPROVED"
    by (rule consult_human_True [OF asked])
  moreover have "''CODING'' \<in> set (tq_capabilities rq)"
    using clear spec(2) by (simp add: cleared_def passes_checks_def request_view_def)
  ultimately show ?thesis by auto
qed

section \<open>Requests on a concrete repository\<close>

definition demo_ports :: tool_ports where
  "demo_ports =
     \<lparr>tp_host = \<lparr>ho_sha256 = (\<lambda>b. b), ho_decode = (\<lambda>b. b), ho_environ = [], ho_start = (\<lambda>_ _ _ _. None),
        ho_process = (\<lambda>_ _ _ _ t w. (Exited (Some 0) [] [], t, w))\<rparr>,
      tp_repo = ascii_ports, tp_executable = ''/usr/bin/python'', tp_seconds = (\<lambda>_. []), tp_float = (\<lambda>_. []),
      tp_dumps = (\<lambda>_. []), tp_error_type = id\<rparr>"

definition demo_toolbox :: "unit toolbox" where
  "demo_toolbox = \<lparr>tb_root = [''srv'', ''repo''],
     tb_kit = demo_toolkit\<lparr>tk_tree := tk_tree demo_toolkit @ [([''srv'', ''repo'', ''a.txt''], NFile ''old'')]\<rparr>,
     tb_control = None, tb_provider = ()\<rparr>"

definition deleting_human :: human_plane where
  "deleting_human = (new_human 300)\<lparr>hp_requests :=
     [\<lparr>ap_id = ''0'', ap_requested_at = 0, ap_action_id = ''act'', ap_tool_name = ''file.delete'',
       ap_reason = [], ap_status = APPROVED, ap_expires_at = Some 300000000, ap_decided_at = Some 1,
       ap_decided_by = ''ada''\<rparr>]\<rparr>"

definition demo_front :: "human_plane option \<Rightarrow> control_plane" where
  "demo_front human = \<lparr>cp_registry = [], cp_engine = new_engine [] None True, cp_audit = [], cp_human = human,
     cp_environment = ''development'', cp_world = tk_world demo_toolkit, cp_format_g = (\<lambda>_. [])\<rparr>"

definition demo_request :: "string \<Rightarrow> (string \<times> pyval) list \<Rightarrow> tool_request" where
  "demo_request name args =
     \<lparr>tq_request_id = ''r'', tq_action_id = ''act'', tq_agent_id = ''coder'', tq_task_id = ''t'', tq_tool_name = name,
      tq_arguments = args, tq_capabilities = [''CODING''], tq_allowed_tools = [name], tq_phase = [],
      tq_environment = ''development'', tq_timeout = 30, tq_sandbox_id = [], tq_created_at = 0\<rparr>"

definition demo_write :: tool_request where
  "demo_write = demo_request ''file.write'' [(''path'', PStr ''b.txt''), (''content'', PStr ''new'')]"

definition demo_delete :: tool_request where
  "demo_delete = demo_request ''file.delete'' [(''path'', PStr ''a.txt'')]"

definition files_after :: "human_plane option \<Rightarrow> tool_request list \<Rightarrow> (bytes option \<times> bytes option)" where
  "files_after human rqs =
     (let t = tk_tree (tb_kit (snd (fold (serve demo_ports) rqs (demo_front human, demo_toolbox))))
      in (content_at t [''srv'', ''repo'', ''a.txt''], content_at t [''srv'', ''repo'', ''b.txt'']))"

lemma demo_files:
  "files_after None [demo_write] = (Some ''old'', Some ''new'')"
  "files_after (Some deleting_human) [demo_delete] = (None, None)"
  by code_simp+

theorem served_requests_confined_witness:
  "\<exists>p b new. fold (serve demo_ports) [demo_write] (demo_front None, demo_toolbox) = (p, b) \<and>
    tk_mutations (tb_kit b) = new \<and> (\<exists>m \<in> set new. rm_path m = path_str [''srv'', ''repo'', ''b.txt''])"
proof -
  obtain p b where run: "fold (serve demo_ports) [demo_write] (demo_front None, demo_toolbox) = (p, b)"
    by fastforce
  have files: "\<forall>rq \<in> set [demo_write]. \<not> starts_processes rq"
    by (simp add: starts_processes_def demo_write_def demo_request_def)
  have changed: "content_at (tk_tree (tb_kit b)) [''srv'', ''repo'', ''b.txt''] \<noteq>
      content_at (tk_tree (tb_kit demo_toolbox)) [''srv'', ''repo'', ''b.txt'']"
    using demo_files(1) run by (simp add: files_after_def Let_def demo_toolbox_def demo_toolkit_def content_at_def)
  have "tk_mutations (tb_kit demo_toolbox) = []" by (simp add: demo_toolbox_def demo_toolkit_def)
  with served_requests_confined [OF files run] changed run show ?thesis by auto
qed

theorem risky_tools_need_approval_witness:
  "(\<exists>a. fst (approval_for ''act'' ''file.delete'' deleting_human (tk_world demo_toolkit)) = Some a \<and> ap_status a = APPROVED) \<and>
    fst (files_after (Some deleting_human) [demo_delete]) = None"
proof -
  obtain p b where run: "serve demo_ports demo_delete (demo_front (Some deleting_human), demo_toolbox) = (p, b)" by fastforce
  have gone: "content_at (tk_tree (tb_kit b)) [''srv'', ''repo'', ''a.txt''] = None"
    using demo_files(2) run by (simp add: files_after_def Let_def)
  have "content_at (tk_tree (tb_kit demo_toolbox)) [''srv'', ''repo'', ''a.txt''] = Some ''old''"
    by (simp add: demo_toolbox_def demo_toolkit_def content_at_def)
  with gone have touched: "b \<noteq> demo_toolbox" by auto
  have "tq_tool_name demo_delete \<in> {''file.delete'', ''command.run'', ''sandbox.execute''}"
    "cp_engine (demo_front (Some deleting_human)) = new_engine [] None True"
    by (simp_all add: demo_delete_def demo_request_def demo_front_def)
  from risky_tools_need_approval [OF run touched this] demo_files(2) show ?thesis
    by (simp add: demo_front_def demo_delete_def demo_request_def)
qed

end
