(* ===== verification/Inspection.thy ===== *)
theory Inspection
  imports Repository Verification
begin

text \<open>
  \<open>packages/develop/src/smorx_develop/inspection.py\<close>: the structured inspection of a repository. The file system is
  the tree of \<open>Repository\<close>, without links; the walk visits a directory's files before its directories, both by name.
\<close>

section \<open>The walk\<close>

definition IGNORED_DIRECTORIES :: "string list" where
  "IGNORED_DIRECTORIES =
     [''.git'', ''.venv'', ''node_modules'', ''__pycache__'', ''.mypy_cache'', ''.pytest_cache'', ''dist'', ''build'']"

definition MAX_FILE_BYTES :: nat where
  "MAX_FILE_BYTES = 1000000"

definition MAX_FILES :: nat where
  "MAX_FILES = 5000"

definition paths_of :: "tree \<Rightarrow> string list list" where
  "paths_of t = dedup (map fst t)"

definition file_names :: "tree \<Rightarrow> string list \<Rightarrow> string list" where
  "file_names t d = sort (map last (filter (\<lambda>p. p \<noteq> [] \<and> butlast p = d \<and> is_file t p) (paths_of t)))"

definition directory_names :: "tree \<Rightarrow> string list \<Rightarrow> string list" where
  "directory_names t d =
     sort (filter (\<lambda>c. c \<notin> set IGNORED_DIRECTORIES)
       (map last (filter (\<lambda>p. p \<noteq> [] \<and> butlast p = d \<and> map_of t p = Some NDir) (paths_of t))))"

text \<open>\<open>os.walk\<close> from a directory, down to a depth; no path of the tree is longer than \<open>tree_depth\<close>.\<close>

fun walk_tree :: "nat \<Rightarrow> tree \<Rightarrow> string list \<Rightarrow> string list list" where
  "walk_tree 0 t d = []"
| "walk_tree (Suc n) t d =
     map (\<lambda>f. d @ [f]) (file_names t d) @ concat (map (\<lambda>c. walk_tree n t (d @ [c])) (directory_names t d))"

definition tree_depth :: "tree \<Rightarrow> nat" where
  "tree_depth t = Suc (foldr max (map (\<lambda>(p, _). length p) t) 0)"

definition walk_files :: "tree \<Rightarrow> string list \<Rightarrow> string list list" where
  "walk_files t home = take MAX_FILES (walk_tree (tree_depth t) t home)"

section \<open>Classification\<close>

definition relative_to :: "string list \<Rightarrow> string list \<Rightarrow> string" where
  "relative_to home p = join ''/'' (drop (length home) p)"

definition looks_like_entry_point :: "string \<Rightarrow> bool" where
  "looks_like_entry_point r \<longleftrightarrow>
     r \<in> {''main.py'', ''app.py'', ''manage.py'', ''wsgi.py'', ''asgi.py''} \<or>
     endswith r ''__main__.py'' \<or> endswith r ''cli.py'' \<or> r \<in> {''package.json'', ''pyproject.toml''}"

text \<open>\<open>relative.rsplit("/", 1)[-1]\<close>.\<close>

definition base_name :: "string \<Rightarrow> string" where
  "base_name r = rev (takeWhile (\<lambda>c. c \<noteq> CHR ''/'') (rev r))"

definition looks_like_config :: "string \<Rightarrow> bool" where
  "looks_like_config r \<longleftrightarrow>
     (let name = base_name r
      in startswith name ''.'' \<or>
         (list_ex (endswith name) [''.toml'', ''.ini'', ''.cfg'', ''.yaml'', ''.yml'', ''.json'', ''.lock''] \<and>
          name \<noteq> ''package-lock.json''))"

definition looks_like_test :: "string \<Rightarrow> bool" where
  "looks_like_test r \<longleftrightarrow>
     (let name = base_name r in startswith name ''test_'' \<or> endswith name ''_test.py'' \<or> contains ''/tests/'' r)"

definition SOURCE_EXTENSIONS :: "string list" where
  "SOURCE_EXTENSIONS = [''.py'', ''.ts'', ''.tsx'', ''.js'', ''.jsx'', ''.go'', ''.rs'', ''.java'', ''.rb'']"

text \<open>\<open>Path.suffix\<close>: from the last dot of the name, unless that is its first or its last character.\<close>

definition path_suffix :: "string list \<Rightarrow> string" where
  "path_suffix p =
     (let name = (if p = [] then [] else last p); tail = rev (takeWhile (\<lambda>c. c \<noteq> CHR ''.'') (rev name))
      in if tail = [] \<or> Suc (length tail) \<ge> length name then [] else CHR ''.'' # tail)"

definition looks_like_source :: "string list \<Rightarrow> string \<Rightarrow> bool" where
  "looks_like_source p r \<longleftrightarrow> path_suffix p \<in> set SOURCE_EXTENSIONS \<and> \<not> looks_like_test r"

section \<open>Dependencies\<close>

text \<open>\<open>s.strip(chars)\<close>.\<close>

definition strip_of :: "char list \<Rightarrow> string \<Rightarrow> string" where
  "strip_of cs s = rev (dropWhile (\<lambda>c. c \<in> set cs) (rev (dropWhile (\<lambda>c. c \<in> set cs) s)))"

definition dependency_line :: "string \<Rightarrow> string option" where
  "dependency_line line =
     (let s = strip line
      in if (startswith s [CHR 0x22] \<or> startswith s [CHR 0x27]) \<and> list_ex (\<lambda>m. contains m s) [''>'', ''<'', ''=='', ''~='']
         then let tok = strip_of [CHR 0x22, CHR 0x27, CHR '','', CHR '' ''] s
              in if tok \<noteq> [] then Some (strip (takeWhile (\<lambda>c. c \<noteq> CHR '';'') tok)) else None
         else None)"

text \<open>The file is decoded with replacement characters, so reading a regular file does not fail.\<close>

definition dependency_names :: "host_ports \<Rightarrow> tree \<Rightarrow> string list \<Rightarrow> string list list \<Rightarrow> string list" where
  "dependency_names h t home files =
     sort (dedup (concat (map (\<lambda>p.
       if relative_to home p = ''pyproject.toml'' then
         (case map_of t p of
            Some (NFile b) \<Rightarrow> List.map_filter dependency_line (split_lines [] (universal_newlines (ho_decode h b)))
          | _ \<Rightarrow> [])
       else []) files)))"

section \<open>The inspection\<close>

record inspection_result =
  in_root :: string
  in_entry_points :: "string list"
  in_dependencies :: "string list"
  in_config_files :: "string list"
  in_test_files :: "string list"
  in_source_files :: "string list"
  in_file_count :: nat
  in_summary :: "(string \<times> pyval) list"
  in_trace :: "(string \<times> string) list"

definition oversized :: "tree \<Rightarrow> string list \<Rightarrow> bool" where
  "oversized t p = (case map_of t p of Some (NFile b) \<Rightarrow> MAX_FILE_BYTES < length b | _ \<Rightarrow> False)"

text \<open>The files of a kind, in the order of the walk: the oversized ones are skipped, and traced.\<close>

definition of_kind :: "(string list \<Rightarrow> string \<Rightarrow> bool) \<Rightarrow> tree \<Rightarrow> string list \<Rightarrow> string list list \<Rightarrow> string list" where
  "of_kind kind t home files =
     map (relative_to home) (filter (\<lambda>p. \<not> oversized t p \<and> kind p (relative_to home p)) files)"

definition inspect_repository :: "host_ports \<Rightarrow> tree \<Rightarrow> string list \<Rightarrow> string + inspection_result" where
  "inspect_repository h t home =
     (if map_of t home \<noteq> Some NDir
      then Inl (''inspection root is not an existing directory: '' @ path_str home)
      else
        let files = walk_files t home;
            entries = of_kind (\<lambda>_. looks_like_entry_point) t home files;
            configs = of_kind (\<lambda>_. looks_like_config) t home files;
            tests = of_kind (\<lambda>_. looks_like_test) t home files;
            sources = of_kind looks_like_source t home files;
            skipped = filter (oversized t) files;
            deps = dependency_names h t home files;
            count = (\<lambda>xs. str_int (int (length xs)))
        in Inr \<lparr>in_root = path_str home, in_entry_points = sort entries, in_dependencies = deps,
             in_config_files = sort configs, in_test_files = sort tests, in_source_files = sort sources,
             in_file_count = length files,
             in_summary =
               [(''total_files'', PInt (int (length files))), (''source_files'', PInt (int (length sources))),
                (''test_files'', PInt (int (length tests))), (''config_files'', PInt (int (length configs))),
                (''entry_points'', PInt (int (length entries))), (''skipped_oversized'', PInt (int (length skipped))),
                (''has_tests'', PBool (tests \<noteq> [])),
                (''has_manifest'', PBool (list_ex (\<lambda>f. f \<in> {''pyproject.toml'', ''package.json''}) configs))],
             in_trace =
               (''walk'', str_int (int (length files)) @ '' files under '' @ path_str home) #
               map (\<lambda>p. (''skip'', ''oversized file: '' @ relative_to home p)) skipped @
               [(''classify'', ''entry_points='' @ count entries @ '' config='' @ count configs @ '' tests='' @ count tests @
                 '' sources='' @ count sources @ '' deps='' @ count deps)]\<rparr>)"

section \<open>What the walk finds\<close>

text \<open>A file the walk reaches: below the directory, and no directory on the way is ignored or missing.\<close>

definition reachable :: "tree \<Rightarrow> string list \<Rightarrow> string list \<Rightarrow> bool" where
  "reachable t d p \<longleftrightarrow> is_file t p \<and> length d < length p \<and> take (length d) p = d \<and>
     (\<forall>i. length d < i \<and> i < length p \<longrightarrow> map_of t (take i p) = Some NDir \<and> p ! (i - 1) \<notin> set IGNORED_DIRECTORIES)"

lemma paths_of_iff: "p \<in> set (paths_of t) \<longleftrightarrow> map_of t p \<noteq> None"
  by (simp add: paths_of_def map_of_eq_None_iff)

lemma file_names_iff: "f \<in> set (file_names t d) \<longleftrightarrow> is_file t (d @ [f])"
proof -
  have "is_file t (d @ [f]) \<Longrightarrow> d @ [f] \<in> set (paths_of t)"
    by (auto simp: paths_of_iff is_file_def split: option.splits)
  then show ?thesis by (force simp: file_names_def snoc_eq_iff_butlast)
qed

lemma directory_names_iff:
  "c \<in> set (directory_names t d) \<longleftrightarrow> map_of t (d @ [c]) = Some NDir \<and> c \<notin> set IGNORED_DIRECTORIES"
proof -
  have "map_of t (d @ [c]) = Some NDir \<Longrightarrow> d @ [c] \<in> set (paths_of t)" by (simp add: paths_of_iff)
  then show ?thesis by (force simp: directory_names_def snoc_eq_iff_butlast)
qed

lemma reachable_file: "reachable t d (d @ [f]) \<longleftrightarrow> is_file t (d @ [f])"
  by (auto simp: reachable_def)

lemma reachable_prefix:
  assumes "reachable t (d @ [c]) p"
  shows "length d < length p" "take (length d) p = d" "take (Suc (length d)) p = d @ [c]"
proof -
  show len: "length d < length p" and pre: "take (Suc (length d)) p = d @ [c]"
    using assms by (simp_all add: reachable_def)
  have "take (length d) p = take (length d) (take (Suc (length d)) p)" by (simp add: min_def)
  then show "take (length d) p = d" by (simp add: pre)
qed

lemma reachable_below:
  "length (d @ [c]) < length p \<Longrightarrow> take (length (d @ [c])) p = d @ [c] \<Longrightarrow>
    reachable t d p \<longleftrightarrow> map_of t (d @ [c]) = Some NDir \<and> c \<notin> set IGNORED_DIRECTORIES \<and> reachable t (d @ [c]) p"
proof -
  assume len: "length (d @ [c]) < length p" and pre: "take (length (d @ [c])) p = d @ [c]"
  have "take (length d) p = d"
    using pre by (metis append_eq_conv_conj length_append_singleton min.absorb1 min_def n_not_Suc_n nat_le_linear take_take le_SucI)
  moreover have "p ! length d = c" using pre len by (metis length_append_singleton lessI nth_append_length nth_take)
  moreover have "length d < i \<and> i < length p \<longleftrightarrow> i = Suc (length d) \<or> Suc (length d) < i \<and> i < length p" for i
    using len by auto
  ultimately show ?thesis using len pre unfolding reachable_def by auto
qed

lemma walk_tree_exact:
  assumes "length p \<le> length d + n"
  shows "p \<in> set (walk_tree n t d) \<longleftrightarrow> reachable t d p"
  using assms
proof (induction n arbitrary: d)
  case 0
  then show ?case by (auto simp: reachable_def)
next
  case (Suc n)
  let ?into = "\<lambda>c. map_of t (d @ [c]) = Some NDir \<and> c \<notin> set IGNORED_DIRECTORIES"
  have "p \<in> set (walk_tree (Suc n) t d) \<longleftrightarrow>
      (\<exists>f. p = d @ [f] \<and> is_file t p) \<or> (\<exists>c. ?into c \<and> reachable t (d @ [c]) p)"
    using Suc by (auto simp: file_names_iff directory_names_iff)
  also have "\<dots> \<longleftrightarrow> reachable t d p"
  proof (cases "length d < length p \<and> take (length d) p = d")
    case False
    then have "\<not> reachable t (d @ [c]) p" for c using reachable_prefix(1,2) by blast
    moreover have "p \<noteq> d @ [f]" for f using False by auto
    ultimately show ?thesis using False by (auto simp: reachable_def)
  next
    case True
    then obtain c q where p: "p = d @ c # q"
      by (metis append_take_drop_id drop_eq_Nil neq_Nil_conv not_le)
    show ?thesis
    proof (cases q)
      case Nil
      then show ?thesis using p by (auto simp: reachable_file) (auto simp: reachable_def)
    next
      case (Cons x xs)
      have below: "reachable t d p \<longleftrightarrow> ?into c \<and> reachable t (d @ [c]) p"
        using reachable_below [of d c p t] by (simp add: p Cons)
      have "c' = c" if "reachable t (d @ [c']) p" for c'
        using reachable_prefix(3) [OF that] by (simp add: p)
      with below show ?thesis using p Cons by auto
    qed
  qed
  finally show ?case .
qed

lemma depth_bound: "map_of t p \<noteq> None \<Longrightarrow> length p < tree_depth t"
proof -
  have "p \<in> fst ` set t \<Longrightarrow> length p \<le> foldr max (map (\<lambda>(p, _). length p) t) 0"
    by (induction t) (auto simp: le_max_iff_disj)
  moreover assume "map_of t p \<noteq> None"
  ultimately show ?thesis by (auto simp: map_of_eq_None_iff tree_depth_def)
qed

lemma whole_walk: "set (walk_tree (tree_depth t) t home) = {p. reachable t home p}"
proof -
  have "p \<in> set (walk_tree n t d) \<Longrightarrow> is_file t p" for n d p
    by (induction n arbitrary: d) (auto simp: file_names_iff)
  then have "length p \<le> length home + tree_depth t" if "p \<in> set (walk_tree (tree_depth t) t home) \<or> reachable t home p" for p
    using that depth_bound [of t p] by (force simp: is_file_def reachable_def)
  with walk_tree_exact show ?thesis by blast
qed

lemma walked_files:
  "set (walk_files t home) \<subseteq> {p. reachable t home p}"
  "length (walk_files t home) < MAX_FILES \<Longrightarrow> set (walk_files t home) = {p. reachable t home p}"
  using set_take_subset [of MAX_FILES "walk_tree (tree_depth t) t home"] whole_walk [of t home]
  by (auto simp: walk_files_def)

lemma set_of_kind:
  "set (of_kind kind t home files) = relative_to home ` {p \<in> set files. \<not> oversized t p \<and> kind p (relative_to home p)}"
  by (auto simp: of_kind_def)

text \<open>
  C40. An inspection that did not stop at its limit of files lists exactly the files that are reachable, not oversized and of the kind: no
  file is invented and none is left out; and no source file is a test.
\<close>

theorem inspection_exact:
  assumes ok: "inspect_repository h t home = Inr r" and few: "in_file_count r < MAX_FILES"
  shows "set (in_source_files r) = relative_to home `
      {p. reachable t home p \<and> \<not> oversized t p \<and> looks_like_source p (relative_to home p)} \<and>
    set (in_test_files r) = relative_to home ` {p. reachable t home p \<and> \<not> oversized t p \<and> looks_like_test (relative_to home p)} \<and>
    set (in_config_files r) = relative_to home ` {p. reachable t home p \<and> \<not> oversized t p \<and> looks_like_config (relative_to home p)} \<and>
    set (in_source_files r) \<inter> set (in_test_files r) = {}"
proof -
  let ?files = "walk_files t home"
  from ok have fields: "in_source_files r = sort (of_kind looks_like_source t home ?files)"
    "in_test_files r = sort (of_kind (\<lambda>_. looks_like_test) t home ?files)"
    "in_config_files r = sort (of_kind (\<lambda>_. looks_like_config) t home ?files)" "in_file_count r = length ?files"
    by (auto simp: inspect_repository_def Let_def split: if_splits)
  have "set ?files = {p. reachable t home p}" using walked_files(2) few fields(4) by simp
  then show ?thesis by (auto simp: fields set_of_kind looks_like_source_def)
qed

definition demo_tree :: tree where
  "demo_tree = [([], NDir), ([''r''], NDir), ([''r'', ''app.py''], NFile ''x''), ([''r'', ''.git''], NDir),
     ([''r'', ''.git'', ''a.py''], NFile ''x''), ([''r'', ''test_a.py''], NFile ''x'')]"

theorem inspection_exact_witness:
  "\<forall>h. \<exists>r. inspect_repository h demo_tree [''r''] = Inr r \<and>
    (\<forall>s. s \<in> set (in_source_files r) \<longleftrightarrow> s \<in> relative_to [''r''] `
      {p. reachable demo_tree [''r''] p \<and> \<not> oversized demo_tree p \<and> looks_like_source p (relative_to [''r''] p)})"
proof
  fix h
  obtain r where r: "inspect_repository h demo_tree [''r''] = Inr r"
    by (simp add: inspect_repository_def demo_tree_def Let_def)
  have "length (walk_files demo_tree [''r'']) = 2" by code_simp
  with r have "in_file_count r < MAX_FILES" by (auto simp: inspect_repository_def Let_def MAX_FILES_def split: if_splits)
  from inspection_exact [OF r this] r
  show "\<exists>r. inspect_repository h demo_tree [''r''] = Inr r \<and>
    (\<forall>s. s \<in> set (in_source_files r) \<longleftrightarrow> s \<in> relative_to [''r''] `
      {p. reachable demo_tree [''r''] p \<and> \<not> oversized demo_tree p \<and> looks_like_source p (relative_to [''r''] p)})" by auto
qed

end
