(* ===== verification/Model_Router.thy ===== *)
theory Model_Router
  imports Smorx_Prelude
begin

text \<open>
  \<open>apps/api/app/model/router.py\<close>: the deterministic routing of a capability to a model tier, with the reason of the
  decision, and the resolution of a model name back to its tier.
\<close>

section \<open>Routing\<close>

datatype model_tier = TierNANO | TierSUPER | TierULTRA

fun tier_value :: "model_tier \<Rightarrow> string" where
  "tier_value TierNANO = ''nano''"
| "tier_value TierSUPER = ''super''"
| "tier_value TierULTRA = ''ultra''"

datatype task_class = ClassSIMPLE | ClassNORMAL | ClassHARD

fun class_value :: "task_class \<Rightarrow> string" where
  "class_value ClassSIMPLE = ''simple''"
| "class_value ClassNORMAL = ''normal''"
| "class_value ClassHARD = ''hard''"

datatype routing_capability =
    RcEXTRACTION | RcCLASSIFICATION | RcROUTINE_DECISION | RcCODING | RcDEBUGGING | RcARCHITECTURE | RcSYNTHESIS
  | RcCERTIFICATION

fun routing_value :: "routing_capability \<Rightarrow> string" where
  "routing_value RcEXTRACTION = ''extraction''"
| "routing_value RcCLASSIFICATION = ''classification''"
| "routing_value RcROUTINE_DECISION = ''routine_decision''"
| "routing_value RcCODING = ''coding''"
| "routing_value RcDEBUGGING = ''debugging''"
| "routing_value RcARCHITECTURE = ''architecture''"
| "routing_value RcSYNTHESIS = ''synthesis''"
| "routing_value RcCERTIFICATION = ''certification''"

definition CHARS_PER_TOKEN :: int where
  "CHARS_PER_TOKEN = 3"

definition CONTEXT_GUARD_TOKENS :: int where
  "CONTEXT_GUARD_TOKENS = 110000"

fun CAPABILITY_TIERS :: "routing_capability \<Rightarrow> model_tier" where
  "CAPABILITY_TIERS RcEXTRACTION = TierNANO"
| "CAPABILITY_TIERS RcCLASSIFICATION = TierNANO"
| "CAPABILITY_TIERS RcROUTINE_DECISION = TierNANO"
| "CAPABILITY_TIERS RcCODING = TierSUPER"
| "CAPABILITY_TIERS RcDEBUGGING = TierSUPER"
| "CAPABILITY_TIERS RcARCHITECTURE = TierULTRA"
| "CAPABILITY_TIERS RcSYNTHESIS = TierULTRA"
| "CAPABILITY_TIERS RcCERTIFICATION = TierULTRA"

text \<open>\<open>_ESCALATION[tier]\<close>, which the code looks up for the two lower tiers only.\<close>

fun ESCALATION :: "model_tier \<Rightarrow> model_tier" where
  "ESCALATION TierNANO = TierSUPER"
| "ESCALATION TierSUPER = TierULTRA"
| "ESCALATION TierULTRA = TierULTRA"

record router_settings =
  ro_nano :: string
  ro_super :: string
  ro_ultra :: string

fun configured :: "router_settings \<Rightarrow> model_tier \<Rightarrow> string" where
  "configured s TierNANO = ro_nano s"
| "configured s TierSUPER = ro_super s"
| "configured s TierULTRA = ro_ultra s"

text \<open>\<open>Inl\<close> is the \<open>ConfigurationError\<close>, by its message.\<close>

definition model_for_tier :: "router_settings \<Rightarrow> model_tier \<Rightarrow> string + string" where
  "model_for_tier s tier =
     (let m = strip (configured s tier)
      in if m = [] then Inl (''No model id configured for tier '' @ tier_value tier) else Inr m)"

text \<open>The candidates: a dictionary literal keeps the last of two equal keys, \<open>setdefault\<close> the first.\<close>

definition tier_candidates :: "string \<Rightarrow> string \<Rightarrow> string \<Rightarrow> (string \<times> model_tier) list" where
  "tier_candidates nano large ultra =
     AList.update ultra TierULTRA (AList.update large TierSUPER (AList.update nano TierNANO [])) @
       map (\<lambda>t. (tier_value t, t)) [TierNANO, TierSUPER, TierULTRA]"

definition tier_for_model :: "router_settings \<Rightarrow> string \<Rightarrow> string + model_tier option" where
  "tier_for_model s model =
     (case model_for_tier s TierNANO of
        Inl e \<Rightarrow> Inl e
      | Inr nano \<Rightarrow>
          (case model_for_tier s TierSUPER of
             Inl e \<Rightarrow> Inl e
           | Inr large \<Rightarrow>
               (case model_for_tier s TierULTRA of
                  Inl e \<Rightarrow> Inl e
                | Inr ultra \<Rightarrow> Inr (map_of (tier_candidates nano large ultra) (strip model)))))"

record routing_decision =
  rd_selected_model :: string
  rd_tier :: model_tier
  rd_reason :: string
  rd_task_class :: task_class
  rd_capability :: routing_capability
  rd_confidence :: rat
  rd_context_tokens :: int
  rd_latency_sensitive :: bool
  rd_criticality :: string
  rd_timestamp :: int
  rd_run_id :: "string option"

definition base_tier :: "routing_capability \<Rightarrow> task_class \<Rightarrow> model_tier \<times> string list" where
  "base_tier c task =
     (let tier = CAPABILITY_TIERS c;
          clause = ''capability='' @ routing_value c @ '' with task_class='' @ class_value task @ '' maps to tier='' @ tier_value tier
      in if task = ClassSIMPLE \<and> tier = TierSUPER
         then (TierNANO, [clause, ''task_class=simple keeps tier=nano despite coding-class capability''])
         else (tier, [clause]))"

definition guard_context :: "int \<Rightarrow> model_tier \<Rightarrow> model_tier \<times> string list" where
  "guard_context tokens tier =
     (if tokens > CONTEXT_GUARD_TOKENS then
        (if tier \<noteq> TierULTRA then
           (ESCALATION tier, [''context estimated at '' @ str_int tokens @ '' tokens exceeds guard of '' @
              str_int CONTEXT_GUARD_TOKENS @ '', escalating tier='' @ tier_value tier @ '' -> tier='' @ tier_value (ESCALATION tier)])
         else (tier, [''context exceeds guard but tier=ultra already assigned; no escalation'']))
      else (tier, []))"

definition latency_clause :: "bool \<Rightarrow> model_tier \<Rightarrow> string list" where
  "latency_clause sensitive tier =
     (if \<not> sensitive then []
      else if tier \<in> {TierSUPER, TierULTRA}
      then [''latency-sensitive: tier='' @ tier_value tier @ '' kept as-is; latency/cost tradeoff accepted'']
      else [''latency-sensitive: tier=nano is lowest-latency; no tradeoff''])"

definition decide_route ::
    "router_settings \<Rightarrow> routing_capability \<Rightarrow> task_class option \<Rightarrow> int \<Rightarrow> bool \<Rightarrow> string option \<Rightarrow> world \<Rightarrow>
     (string + routing_decision) \<times> world" where
  "decide_route s c task_class context_chars sensitive run_id w =
     (let task = (case task_class of Some t \<Rightarrow> t | None \<Rightarrow> ClassNORMAL);
          tokens = max 0 context_chars div CHARS_PER_TOKEN;
          (t1, c1) = base_tier c task;
          (tier, c2) = guard_context tokens t1
      in case model_for_tier s tier of
           Inl e \<Rightarrow> (Inl e, w)
         | Inr model \<Rightarrow>
             (let (t, w') = now w
              in (Inr \<lparr>rd_selected_model = model, rd_tier = tier,
                    rd_reason = join ''; '' (c1 @ c2 @ latency_clause sensitive tier @ [''selected_model='' @ model]),
                    rd_task_class = task, rd_capability = c, rd_confidence = 1, rd_context_tokens = tokens,
                    rd_latency_sensitive = sensitive, rd_criticality = ''normal'', rd_timestamp = t, rd_run_id = run_id\<rparr>, w')))"

section \<open>What a decision promises\<close>

fun tier_rank :: "model_tier \<Rightarrow> nat" where
  "tier_rank TierNANO = 0"
| "tier_rank TierSUPER = 1"
| "tier_rank TierULTRA = 2"

lemma strip_idem [simp]: "strip (strip s) = strip s"
proof -
  define t where "t = dropWhile is_space s"
  define u where "u = dropWhile is_space (rev t)"
  have strip: "strip s = rev u" by (simp add: strip_def t_def u_def)
  obtain v where v: "rev t = v @ u" by (metis u_def takeWhile_dropWhile_id)
  have "dropWhile is_space (rev u) = rev u"
  proof (cases "rev u")
    case (Cons c cs)
    have "t = rev u @ rev v" using v by (metis rev_append rev_rev_ident)
    then have "hd t = c" "t \<noteq> []" using Cons by simp_all
    then have "\<not> is_space c" using hd_dropWhile [of is_space s] unfolding t_def by blast
    then show ?thesis using Cons by simp
  qed simp
  moreover have "dropWhile is_space u = u" unfolding u_def by (simp add: dropWhile_idem)
  ultimately show ?thesis unfolding strip by (simp add: strip_def)
qed

text \<open>
  A decision only ever goes up with the context, never above what the tiers have, is never the smallest tier beyond the guard, and its
  model resolves back to its tier when the three tiers have three models.
\<close>

theorem routed_model_resolves:
  assumes decided: "decide_route s c task chars sensitive run w = (Inr d, w')"
    and different: "distinct (map (\<lambda>t. strip (configured s t)) [TierNANO, TierSUPER, TierULTRA])"
    and complete: "\<forall>t \<in> set [TierNANO, TierSUPER, TierULTRA]. strip (configured s t) \<noteq> []"
  shows "tier_for_model s (rd_selected_model d) = Inr (Some (rd_tier d)) \<and>
    (rd_context_tokens d > CONTEXT_GUARD_TOKENS \<longrightarrow> rd_tier d \<noteq> TierNANO) \<and>
    tier_rank (rd_tier d) \<ge> tier_rank (fst (base_tier c (rd_task_class d)))"
proof -
  obtain t1 c1 where base: "base_tier c (rd_task_class d) = (t1, c1)" by fastforce
  obtain tier c2 where guard: "guard_context (rd_context_tokens d) t1 = (tier, c2)" by fastforce
  have model: "model_for_tier s (rd_tier d) = Inr (rd_selected_model d)" and tier: "rd_tier d = tier"
    using decided base guard by (auto simp: decide_route_def Let_def split: prod.splits sum.splits)
  have selected: "rd_selected_model d = strip (configured s tier)"
    using model tier by (auto simp: model_for_tier_def Let_def split: if_splits)
  have "tier_for_model s (rd_selected_model d) = Inr (Some tier)"
    using different complete
    by (cases tier) (auto simp: tier_for_model_def model_for_tier_def tier_candidates_def selected Let_def map_add_def)
  moreover have "rd_context_tokens d > CONTEXT_GUARD_TOKENS \<longrightarrow> tier \<noteq> TierNANO" "tier_rank tier \<ge> tier_rank t1"
    using guard by (cases t1; auto simp: guard_context_def split: if_splits)+
  ultimately show ?thesis by (simp add: tier base)
qed

theorem routed_model_resolves_witness:
  "\<exists>d w'. decide_route \<lparr>ro_nano = ''n'', ro_super = ''s'', ro_ultra = ''u''\<rparr> RcCODING None 400000 True None w = (Inr d, w') \<and>
    rd_tier d = TierULTRA \<and> tier_for_model \<lparr>ro_nano = ''n'', ro_super = ''s'', ro_ultra = ''u''\<rparr> (rd_selected_model d) = Inr (Some TierULTRA)"
proof -
  let ?s = "\<lparr>ro_nano = ''n'', ro_super = ''s'', ro_ultra = ''u''\<rparr>"
  have strips: "strip ''n'' = ''n''" "strip ''s'' = ''s''" "strip ''u'' = ''u''" by code_simp+
  obtain d w' where d: "decide_route ?s RcCODING None 400000 True None w = (Inr d, w')" "rd_tier d = TierULTRA"
    by (simp add: decide_route_def base_tier_def guard_context_def model_for_tier_def strips Let_def CHARS_PER_TOKEN_def
        CONTEXT_GUARD_TOKENS_def now_def)
  have "distinct (map (\<lambda>t. strip (configured ?s t)) [TierNANO, TierSUPER, TierULTRA])"
    "\<forall>t \<in> set [TierNANO, TierSUPER, TierULTRA]. strip (configured ?s t) \<noteq> []" by (simp_all add: strips)
  from routed_model_resolves [OF d(1) this] d show ?thesis by auto
qed

end
