(* ===== verification/Remote_Sandbox.thy ===== *)
theory Remote_Sandbox
  imports Workspace
begin

text \<open>
  \<open>apps/api/app/providers/sandbox/adapter.py\<close>: the adapter of the remote sandbox provider. The provider's SDK is an
  argument: its handles \<open>'h\<close> stand for immutable states of a sandbox on a server of state \<open>'s\<close>. The adapter keeps one handle
  and one lifecycle state per sandbox. Log events and the identifiers of the trace are left out.
\<close>

section \<open>The SDK\<close>

text \<open>What the SDK raises: a timeout, a missing image, or anything else, by class and text.\<close>

datatype sdk_error = SdkTimeout string string | SdkMissing string string | SdkFailure string string

fun sdk_class :: "sdk_error \<Rightarrow> string" where
  "sdk_class (SdkTimeout c t) = c" | "sdk_class (SdkMissing c t) = c" | "sdk_class (SdkFailure c t) = c"

fun sdk_text :: "sdk_error \<Rightarrow> string" where
  "sdk_text (SdkTimeout c t) = t" | "sdk_text (SdkMissing c t) = t" | "sdk_text (SdkFailure c t) = t"

record run_kwargs =
  rk_shell :: "string option"
  rk_command :: "string option"
  rk_args :: "string list option"
  rk_env :: "(string \<times> string) list option"
  rk_cwd :: "string option"
  rk_files :: "(string \<times> content) list option"
  rk_stdin :: "content option"
  rk_tag :: "string option"
  rk_timeout :: rat
  rk_disposable :: bool
  rk_truncate :: "int option"
  rk_preserve_env :: bool

text \<open>\<open>elapsed\<close> in microseconds.\<close>

record run_output =
  ru_exit_code :: int
  ru_stdout :: "string option"
  ru_stderr :: "string option"
  ru_elapsed :: int
  ru_truncated :: bool

record file_entry =
  fe_path :: string
  fe_size :: int
  fe_is_dir :: bool
  fe_mode :: int

record ('h, 's) sdk =
  sk_use :: "string \<Rightarrow> 's \<Rightarrow> (sdk_error + 'h) \<times> 's"
  sk_uuid :: "'h \<Rightarrow> string option"
  sk_run :: "'h \<Rightarrow> run_kwargs \<Rightarrow> 's \<Rightarrow> (sdk_error + 'h \<times> run_output) \<times> 's"
  sk_read :: "'h \<Rightarrow> string \<Rightarrow> 's \<Rightarrow> (sdk_error + bytes) \<times> 's"
  sk_list :: "'h \<Rightarrow> string \<Rightarrow> 's \<Rightarrow> (sdk_error + file_entry list) \<times> 's"
  sk_apply :: "'h \<Rightarrow> string \<Rightarrow> content \<Rightarrow> 's \<Rightarrow> (sdk_error + 'h) \<times> 's"

section \<open>The adapter\<close>

datatype remote_state = RsCREATED | RsREADY | RsBUSY | RsEXECUTING | RsTERMINATED | RsERRORED

datatype remote_error =
    SandboxCreationError string string
  | SandboxExecutionError string string
  | CommandTimeoutError string "(string \<times> pyval) list"

record command_request =
  rc_command :: string
  rc_shell :: bool
  rc_args :: "string list option"
  rc_cwd :: "string option"
  rc_env :: "(string \<times> string) list"
  rc_timeout :: "rat option"
  rc_files :: "(string \<times> content) list option"
  rc_stdin :: "content option"
  rc_disposable :: bool
  rc_truncate :: "int option"
  rc_preserve_env :: bool
  rc_tag :: "string option"
  rc_correlation :: "string option"

record remote_result =
  rr_exit_code :: int
  rr_stdout :: string
  rr_stderr :: string
  rr_duration_ms :: int
  rr_succeeded :: bool
  rr_request :: command_request
  rr_sandbox :: string
  rr_checkpoint :: "string option"
  rr_truncated :: bool
  rr_timestamp :: int

record remote_settings =
  rs_command_timeout :: rat
  rs_truncate_at :: int
  rs_redact :: "string \<Rightarrow> string"
  rs_format_g :: "rat \<Rightarrow> string"

record ('h, 's) remote =
  re_images :: "(string \<times> 'h) list"
  re_states :: "(string \<times> remote_state) list"
  re_server :: 's
  re_world :: world

definition set_state :: "string \<Rightarrow> remote_state \<Rightarrow> ('h, 's) remote \<Rightarrow> ('h, 's) remote" where
  "set_state k st a = a\<lparr>re_states := AList.update k st (re_states a)\<rparr>"

definition set_image :: "string \<Rightarrow> 'h \<Rightarrow> ('h, 's) remote \<Rightarrow> ('h, 's) remote" where
  "set_image k h a = a\<lparr>re_images := AList.update k h (re_images a)\<rparr>"

definition remote_now :: "('h, 's) remote \<Rightarrow> int \<times> ('h, 's) remote" where
  "remote_now a = (let (t, w) = now (re_world a) in (t, a\<lparr>re_world := w\<rparr>))"

definition require_image :: "string \<Rightarrow> ('h, 's) remote \<Rightarrow> remote_error + 'h" where
  "require_image k a =
     (case map_of (re_images a) k of
        None \<Rightarrow> Inl (SandboxExecutionError (''Unknown sandbox '' @ repr_str k @ ''; call create_sandbox first'') [])
      | Some h \<Rightarrow> Inr h)"

definition build_run_kwargs :: "command_request \<Rightarrow> rat \<Rightarrow> int \<Rightarrow> run_kwargs" where
  "build_run_kwargs rq timeout truncate_at =
     \<lparr>rk_shell = (if rc_shell rq then Some (rc_command rq) else None),
      rk_command = (if rc_shell rq then None else Some (rc_command rq)),
      rk_args = (if rc_shell rq then None else case rc_args rq of Some (x # xs) \<Rightarrow> Some (x # xs) | _ \<Rightarrow> None),
      rk_env = (if rc_env rq \<noteq> [] then Some (rc_env rq) else None), rk_cwd = rc_cwd rq,
      rk_files = (case rc_files rq of Some (x # xs) \<Rightarrow> Some (x # xs) | _ \<Rightarrow> None), rk_stdin = rc_stdin rq,
      rk_tag = (case rc_tag rq of Some (c # cs) \<Rightarrow> Some (c # cs) | _ \<Rightarrow> None), rk_timeout = timeout,
      rk_disposable = rc_disposable rq, rk_truncate = Some truncate_at, rk_preserve_env = rc_preserve_env rq\<rparr>"

definition remote_failed :: "remote_settings \<Rightarrow> string \<Rightarrow> sdk_error \<Rightarrow> remote_error" where
  "remote_failed S k e =
     SandboxExecutionError (''Sandbox '' @ k @ '' operation failed: '' @ sdk_class e) (take 1000 (rs_redact S (sdk_text e)))"

definition command_timeout :: "remote_settings \<Rightarrow> string \<Rightarrow> rat \<Rightarrow> (string \<times> pyval) list \<Rightarrow> remote_error" where
  "command_timeout S k timeout detail =
     CommandTimeoutError (''Sandbox '' @ k @ '' command exceeded its '' @ rs_format_g S timeout @ ''s budget'')
       (detail @ [(''sandbox_id'', PStr k)])"

definition create_remote ::
    "('h, 's) sdk \<Rightarrow> remote_settings \<Rightarrow> string \<Rightarrow> ('h, 's) remote \<Rightarrow> (remote_error + string) \<times> ('h, 's) remote" where
  "create_remote K S base_image a =
     (let (r, s) = sk_use K base_image (re_server a); a1 = a\<lparr>re_server := s\<rparr>
      in case r of
           Inl e \<Rightarrow> (Inl (SandboxCreationError (''Failed to resolve base image '' @ repr_str base_image @ '': '' @ sdk_class e)
                      (take 1000 (rs_redact S (sdk_text e)))), a1)
         | Inr h \<Rightarrow>
             (let (k, w) = (case sk_uuid K h of
                    Some u \<Rightarrow> (u, re_world a1)
                  | None \<Rightarrow> (let (u, w) = uuid4 (re_world a1) in (''sbox_'' @ take 12 u, w)));
                  (t, a2) = remote_now (set_state k RsREADY (set_image k h (a1\<lparr>re_world := w\<rparr>)))
              in (Inr k, a2)))"

text \<open>\<open>last_chars\<close>: the slice from \<open>-500\<close>.\<close>

definition error_tail :: "remote_settings \<Rightarrow> string \<Rightarrow> pyval" where
  "error_tail S s = PStr (rs_redact S (drop (length s - 500) s))"

definition or_empty :: "string option \<Rightarrow> string" where
  "or_empty s = (case s of None \<Rightarrow> [] | Some t \<Rightarrow> t)"

text \<open>A zero is no time limit of its own: \<open>request or settings\<close>. \<open>int\<close> cuts the milliseconds towards zero.\<close>

definition milliseconds :: "int \<Rightarrow> int" where
  "milliseconds us = (if us < 0 then - ((- us) div 1000) else us div 1000)"

definition remote_run ::
    "('h, 's) sdk \<Rightarrow> remote_settings \<Rightarrow> string \<Rightarrow> command_request \<Rightarrow> ('h, 's) remote \<Rightarrow>
     (remote_error + remote_result) \<times> ('h, 's) remote" where
  "remote_run K S k rq a =
     (case require_image k a of
        Inl e \<Rightarrow> (Inl e, a)
      | Inr h \<Rightarrow>
          (let timeout = (case rc_timeout rq of Some t \<Rightarrow> if t = 0 then rs_command_timeout S else t | None \<Rightarrow> rs_command_timeout S);
               truncate_at = (case rc_truncate rq of Some n \<Rightarrow> if n = 0 then rs_truncate_at S else n | None \<Rightarrow> rs_truncate_at S);
               (r, s) = sk_run K h (build_run_kwargs rq timeout truncate_at) (re_server a);
               a1 = a\<lparr>re_server := s\<rparr>
           in case r of
                Inl e \<Rightarrow>
                  (Inl (case e of SdkTimeout c t \<Rightarrow> command_timeout S k timeout [(''error'', PStr c)] | _ \<Rightarrow> remote_failed S k e),
                   set_state k RsERRORED a1)
              | Inr (h', out) \<Rightarrow>
                  (let stdout = or_empty (ru_stdout out); stderr = or_empty (ru_stderr out)
                   in if of_int (ru_elapsed out) / 1000000 > timeout then
                        (Inl (command_timeout S k timeout
                           [(''exit_code'', PInt (ru_exit_code out)), (''elapsed_ms'', PInt (milliseconds (ru_elapsed out))),
                            (''stdout_tail'', error_tail S stdout), (''stderr_tail'', error_tail S stderr)]),
                         set_state k RsERRORED a1)
                      else
                        let checkpoint_id = (if rc_disposable rq then None else sk_uuid K h');
                            a2 = set_state k RsREADY (if checkpoint_id \<noteq> None then set_image k h' a1 else a1);
                            (t, a3) = remote_now a2
                        in (Inr \<lparr>rr_exit_code = ru_exit_code out, rr_stdout = stdout, rr_stderr = stderr,
                              rr_duration_ms = milliseconds (ru_elapsed out), rr_succeeded = (ru_exit_code out = 0),
                              rr_request = rq, rr_sandbox = k, rr_checkpoint = checkpoint_id,
                              rr_truncated = (ru_truncated out \<or> int (length stdout) \<ge> truncate_at), rr_timestamp = t\<rparr>, a3))))"

definition remote_read ::
    "('h, 's) sdk \<Rightarrow> remote_settings \<Rightarrow> string \<Rightarrow> string \<Rightarrow> ('h, 's) remote \<Rightarrow> (remote_error + bytes) \<times> ('h, 's) remote" where
  "remote_read K S k path a =
     (case require_image k a of
        Inl e \<Rightarrow> (Inl e, a)
      | Inr h \<Rightarrow>
          (let (r, s) = sk_read K h path (re_server a); a1 = a\<lparr>re_server := s\<rparr>
           in case r of Inl e \<Rightarrow> (Inl (remote_failed S k e), a1) | Inr b \<Rightarrow> (Inr b, a1)))"

definition remote_write ::
    "('h, 's) sdk \<Rightarrow> remote_settings \<Rightarrow> string \<Rightarrow> string \<Rightarrow> content \<Rightarrow> ('h, 's) remote \<Rightarrow>
     (remote_error + string) \<times> ('h, 's) remote" where
  "remote_write K S k path content a =
     (case require_image k a of
        Inl e \<Rightarrow> (Inl e, a)
      | Inr h \<Rightarrow>
          (let (r, s) = sk_apply K h path content (re_server a); a1 = a\<lparr>re_server := s\<rparr>
           in case r of
                Inl e \<Rightarrow> (Inl (remote_failed S k e), a1)
              | Inr h' \<Rightarrow> (Inr (case sk_uuid K h' of Some u \<Rightarrow> u | None \<Rightarrow> k), set_state k RsREADY (set_image k h' a1))))"

definition remote_list ::
    "('h, 's) sdk \<Rightarrow> remote_settings \<Rightarrow> string \<Rightarrow> string \<Rightarrow> ('h, 's) remote \<Rightarrow>
     (remote_error + file_entry list) \<times> ('h, 's) remote" where
  "remote_list K S k path a =
     (case require_image k a of
        Inl e \<Rightarrow> (Inl e, a)
      | Inr h \<Rightarrow>
          (let (r, s) = sk_list K h path (re_server a); a1 = a\<lparr>re_server := s\<rparr>
           in case r of Inl e \<Rightarrow> (Inl (remote_failed S k e), a1) | Inr es \<Rightarrow> (Inr es, a1)))"

text \<open>A checkpoint is the state a run of \<open>true\<close> leaves.\<close>

definition checkpoint_kwargs :: "rat \<Rightarrow> run_kwargs" where
  "checkpoint_kwargs timeout =
     \<lparr>rk_shell = Some ''true'', rk_command = None, rk_args = None, rk_env = None, rk_cwd = None, rk_files = None,
      rk_stdin = None, rk_tag = None, rk_timeout = timeout, rk_disposable = False, rk_truncate = None, rk_preserve_env = False\<rparr>"

definition remote_checkpoint ::
    "('h, 's) sdk \<Rightarrow> remote_settings \<Rightarrow> string \<Rightarrow> ('h, 's) remote \<Rightarrow> (remote_error + string) \<times> ('h, 's) remote" where
  "remote_checkpoint K S k a =
     (case require_image k a of
        Inl e \<Rightarrow> (Inl e, a)
      | Inr h \<Rightarrow>
          (let timeout = rs_command_timeout S;
               (r, s) = sk_run K h (checkpoint_kwargs timeout) (re_server a);
               a1 = a\<lparr>re_server := s\<rparr>
           in case r of
                Inl e \<Rightarrow>
                  (Inl (case e of SdkTimeout c t \<Rightarrow> command_timeout S k timeout [(''error'', PStr c)] | _ \<Rightarrow> remote_failed S k e),
                   set_state k RsERRORED a1)
              | Inr (h', _) \<Rightarrow>
                  (case sk_uuid K h' of
                     None \<Rightarrow>
                       (Inl (SandboxExecutionError (''Checkpoint on sandbox '' @ k @ '' produced no server state uuid'') []),
                        set_state k RsERRORED a1)
                   | Some c \<Rightarrow>
                       (let a2 = (if c \<noteq> k then set_state c RsREADY (set_image c h' a1) else a1);
                            (t, a3) = remote_now (set_state k RsREADY a2)
                        in (Inr c, a3)))))"

text \<open>A rollback does not ask for the sandbox: the checkpoint's state becomes its state, whatever it was before.\<close>

definition remote_rollback ::
    "('h, 's) sdk \<Rightarrow> remote_settings \<Rightarrow> string \<Rightarrow> string \<Rightarrow> ('h, 's) remote \<Rightarrow>
     (remote_error + string \<times> string) \<times> ('h, 's) remote" where
  "remote_rollback K S k c a =
     (let previous = (case map_of (re_images a) k of None \<Rightarrow> [] | Some h \<Rightarrow> or_empty (sk_uuid K h));
          (r, s) = sk_use K c (re_server a); a1 = a\<lparr>re_server := s\<rparr>
      in case r of
           Inl e \<Rightarrow> (Inl (remote_failed S k e), a1)
         | Inr h \<Rightarrow> (let (t, a2) = remote_now (set_state k RsREADY (set_image k h a1)) in (Inr (previous, c), a2)))"

definition remote_destroy :: "string \<Rightarrow> ('h, 's) remote \<Rightarrow> bool \<times> ('h, 's) remote" where
  "remote_destroy k a =
     (if map_of (re_images a) k = None then (False, a)
      else (True, set_state k RsTERMINATED (a\<lparr>re_images := AList.delete k (re_images a)\<rparr>)))"

section \<open>Handles and states agree\<close>

datatype remote_op =
    RemoteCreate string
  | RemoteRun string command_request
  | RemoteRead string string
  | RemoteWrite string string content
  | RemoteList string string
  | RemoteCheckpoint string
  | RemoteRollback string string
  | RemoteDestroy string

fun remote_step :: "('h, 's) sdk \<Rightarrow> remote_settings \<Rightarrow> remote_op \<Rightarrow> ('h, 's) remote \<Rightarrow> ('h, 's) remote" where
  "remote_step K S (RemoteCreate img) a = snd (create_remote K S img a)"
| "remote_step K S (RemoteRun k rq) a = snd (remote_run K S k rq a)"
| "remote_step K S (RemoteRead k path) a = snd (remote_read K S k path a)"
| "remote_step K S (RemoteWrite k path content) a = snd (remote_write K S k path content a)"
| "remote_step K S (RemoteList k path) a = snd (remote_list K S k path a)"
| "remote_step K S (RemoteCheckpoint k) a = snd (remote_checkpoint K S k a)"
| "remote_step K S (RemoteRollback k c) a = snd (remote_rollback K S k c a)"
| "remote_step K S (RemoteDestroy k) a = snd (remote_destroy k a)"

definition paired :: "'h option \<Rightarrow> remote_state option \<Rightarrow> bool" where
  "paired h st \<longleftrightarrow> (if h = None then st \<in> {None, Some RsTERMINATED} else st \<in> {Some RsREADY, Some RsERRORED})"

definition tracked :: "('h, 's) remote \<Rightarrow> bool" where
  "tracked a \<longleftrightarrow> (\<forall>k. paired (map_of (re_images a) k) (map_of (re_states a) k))"

lemma paired_simps [simp]:
  "paired (Some h) (Some RsREADY)" "paired (Some h) (Some RsERRORED)" "paired None (Some RsTERMINATED)" "paired None None"
  by (simp_all add: paired_def)

lemma remote_fields [simp]:
  "re_images (set_state k st a) = re_images a" "re_states (set_state k st a) = AList.update k st (re_states a)"
  "re_images (set_image k h a) = AList.update k h (re_images a)" "re_states (set_image k h a) = re_states a"
  "re_server (set_state k st a) = re_server a" "re_server (set_image k h a) = re_server a"
  "re_images (snd (remote_now a)) = re_images a" "re_states (snd (remote_now a)) = re_states a"
  by (simp_all add: set_state_def set_image_def remote_now_def case_prod_unfold Let_def)

lemma tracked_now [simp]: "tracked (snd (remote_now a)) \<longleftrightarrow> tracked a"
  by (simp add: tracked_def)

lemma tracked_server [simp]: "tracked (a\<lparr>re_server := s\<rparr>) \<longleftrightarrow> tracked a" "tracked (a\<lparr>re_world := w\<rparr>) \<longleftrightarrow> tracked a"
  by (simp_all add: tracked_def)

lemma tracked_ready: "tracked a \<Longrightarrow> tracked (set_state k RsREADY (set_image k h a))"
  by (auto simp: tracked_def)

lemma tracked_errored: "tracked a \<Longrightarrow> map_of (re_images a) k = Some h \<Longrightarrow> tracked (set_state k RsERRORED a)"
  "tracked a \<Longrightarrow> map_of (re_images a) k = Some h \<Longrightarrow> tracked (set_state k RsREADY a)"
  by (auto simp: tracked_def)

lemma tracked_destroyed:
  "tracked a \<Longrightarrow> tracked (set_state k RsTERMINATED (a\<lparr>re_images := AList.delete k (re_images a)\<rparr>))"
  by (auto simp: tracked_def delete_conv)

lemma required: "require_image k a = Inr h \<longleftrightarrow> map_of (re_images a) k = Some h"
  by (simp add: require_image_def split: option.split)

lemma remote_run_tracked:
  assumes "tracked a"
  shows "tracked (snd (remote_run K S k rq a))"
proof (cases "require_image k a")
  case (Inl e)
  then show ?thesis using assms by (simp add: remote_run_def)
next
  case (Inr h)
  then have h: "map_of (re_images a) k = Some h" by (simp add: required)
  have states: "tracked (set_state k st (a\<lparr>re_server := s\<rparr>))" if "st \<in> {RsERRORED, RsREADY}" for st s
    using that tracked_errored [of "a\<lparr>re_server := s\<rparr>" k h] assms h by auto
  have image: "tracked (set_state k RsREADY (set_image k h' (a\<lparr>re_server := s\<rparr>)))" for h' s
    by (rule tracked_ready) (simp add: assms)
  show ?thesis
    by (simp add: remote_run_def Inr states image Let_def case_prod_unfold split: sum.split)
qed

lemma remote_checkpoint_tracked:
  assumes "tracked a"
  shows "tracked (snd (remote_checkpoint K S k a))"
proof (cases "require_image k a")
  case (Inl e)
  then show ?thesis using assms by (simp add: remote_checkpoint_def)
next
  case (Inr h)
  then have h: "map_of (re_images a) k = Some h" by (simp add: required)
  have states: "tracked (set_state k st (a\<lparr>re_server := s\<rparr>))" if "st \<in> {RsERRORED, RsREADY}" for st s
    using that tracked_errored [of "a\<lparr>re_server := s\<rparr>" k h] assms h by auto
  have both: "tracked (set_state k RsREADY (set_state c RsREADY (set_image c h' (a\<lparr>re_server := s\<rparr>))))" if "c \<noteq> k" for c h' s
    by (rule tracked_errored(2)) (use that h in \<open>simp_all add: tracked_ready assms\<close>)
  show ?thesis
    by (simp add: remote_checkpoint_def Inr states both Let_def case_prod_unfold split: sum.split option.split)
qed

text \<open>
  Whatever operations are called, a sandbox has a handle exactly when its state is \<open>READY\<close> or \<open>ERRORED\<close>; without one it is unknown or
  terminated, and every operation but a rollback onto it is refused.
\<close>

theorem sandboxes_stay_tracked:
  assumes "tracked a"
  shows "tracked (fold (remote_step K S) ops a)"
  using assms
proof (induction ops arbitrary: a)
  case (Cons oper ops)
  have "tracked (remote_step K S oper a)"
  proof (cases oper)
    case (RemoteCreate img)
    have "tracked (set_state k RsREADY (set_image k h (a\<lparr>re_server := s\<rparr>\<lparr>re_world := w\<rparr>)))" for k h s w
      by (rule tracked_ready) (simp add: Cons.prems)
    then show ?thesis using RemoteCreate Cons.prems
      by (simp add: create_remote_def Let_def case_prod_unfold split: sum.split)
  next
    case (RemoteWrite k path content)
    have "tracked (set_state k RsREADY (set_image k h (a\<lparr>re_server := s\<rparr>)))" for h s
      by (rule tracked_ready) (simp add: Cons.prems)
    then show ?thesis using RemoteWrite Cons.prems
      by (simp add: remote_write_def Let_def case_prod_unfold split: sum.split)
  next
    case (RemoteRollback k c)
    have "tracked (set_state k RsREADY (set_image k h (a\<lparr>re_server := s\<rparr>)))" for h s
      by (rule tracked_ready) (simp add: Cons.prems)
    then show ?thesis using RemoteRollback Cons.prems
      by (simp add: remote_rollback_def Let_def case_prod_unfold split: sum.split)
  qed (use Cons.prems in \<open>simp_all add: remote_run_tracked remote_checkpoint_tracked remote_read_def remote_list_def
      remote_destroy_def tracked_destroyed Let_def case_prod_unfold split: sum.split\<close>)
  then show ?case using Cons.IH by simp
qed simp

lemma sandboxes_stay_tracked_witness:
  "tracked (fold (remote_step K S) [RemoteCreate ''img''] \<lparr>re_images = [], re_states = [], re_server = s, re_world = w\<rparr>)"
  by (rule sandboxes_stay_tracked) (simp add: tracked_def)

section \<open>Rollback\<close>

text \<open>
  What the provider documents of its states: a run of \<open>true\<close> leaves the files as they are, an identifier names one immutable
  state, and a read gives the bytes of a file of the state. \<open>view\<close> is the contents of a state.
\<close>

definition durable :: "('h, 's) sdk \<Rightarrow> ('h \<Rightarrow> string \<Rightarrow> bytes option) \<Rightarrow> bool" where
  "durable K view \<longleftrightarrow>
     (\<forall>h t s h' out s'. sk_run K h (checkpoint_kwargs t) s = (Inr (h', out), s') \<longrightarrow> view h' = view h) \<and>
     (\<forall>c s h s' h0. sk_use K c s = (Inr h, s') \<and> sk_uuid K h0 = Some c \<longrightarrow> view h = view h0) \<and>
     (\<forall>h p s b s'. sk_read K h p s = (Inr b, s') \<longrightarrow> view h p = Some b)"

text \<open>
  After a rollback to a checkpoint, whatever is read from the sandbox is what the checkpointed sandbox held: whatever
  happened in between, and even for another sandbox.
\<close>

theorem remote_rollback_restores:
  assumes durable: "durable K view" and before: "map_of (re_images a) k = Some h"
    and saved: "remote_checkpoint K S k a = (Inr c, a1)" and undone: "remote_rollback K S k' c a2 = (Inr r, a3)"
    and got: "remote_read K S k' path a3 = (Inr b, a4)"
  shows "view h path = Some b"
proof -
  from saved before obtain h' out s where run: "sk_run K h (checkpoint_kwargs (rs_command_timeout S)) (re_server a) = (Inr (h', out), s)"
    and uuid: "sk_uuid K h' = Some c"
    by (auto simp: remote_checkpoint_def require_image_def Let_def split: prod.splits sum.splits option.splits)
  obtain u s2 where u: "sk_use K c (re_server a2) = (u, s2)" by fastforce
  with undone obtain h2 where h2: "sk_use K c (re_server a2) = (Inr h2, s2)"
    and a3: "a3 = snd (remote_now (set_state k' RsREADY (set_image k' h2 (a2\<lparr>re_server := s2\<rparr>))))"
    by (auto simp: remote_rollback_def Let_def case_prod_unfold split: sum.splits)
  have "map_of (re_images a3) k' = Some h2" by (simp add: a3)
  with got obtain s3 where "sk_read K h2 path (re_server a3) = (Inr b, s3)"
    by (auto simp: remote_read_def require_image_def Let_def split: prod.splits sum.splits)
  with durable have "view h2 path = Some b" unfolding durable_def by blast
  moreover have "view h2 = view h'" using durable h2 uuid unfolding durable_def by blast
  moreover have "view h' = view h" using durable run unfolding durable_def by blast
  ultimately show ?thesis by simp
qed

text \<open>A sandbox that was destroyed comes back by a rollback onto it: nothing asks whether it is still there.\<close>

theorem rollback_resurrects:
  assumes gone: "remote_destroy k a = (True, a1)" and undone: "remote_rollback K S k c a1 = (Inr r, a2)"
  shows "map_of (re_states a1) k = Some RsTERMINATED \<and> map_of (re_states a2) k = Some RsREADY \<and> map_of (re_images a2) k \<noteq> None"
  using assms by (auto simp: remote_destroy_def remote_rollback_def Let_def case_prod_unfold split: if_splits prod.splits sum.splits)

section \<open>A small provider\<close>

text \<open>Its states hold one text each, which is also their identifier.\<close>

definition text_sdk :: "(string, unit) sdk" where
  "text_sdk = \<lparr>sk_use = (\<lambda>c s. (Inr c, s)), sk_uuid = Some,
     sk_run = (\<lambda>h _ s. (Inr (h, \<lparr>ru_exit_code = 0, ru_stdout = None, ru_stderr = None, ru_elapsed = 0, ru_truncated = False\<rparr>), s)),
     sk_read = (\<lambda>h _ s. (Inr h, s)), sk_list = (\<lambda>_ _ s. (Inr [], s)), sk_apply = (\<lambda>_ _ c s. (Inr (content_bytes c), s))\<rparr>"

definition text_settings :: remote_settings where
  "text_settings = \<lparr>rs_command_timeout = 30, rs_truncate_at = 1000, rs_redact = id, rs_format_g = (\<lambda>_. [])\<rparr>"

definition text_adapter :: "(string, unit) remote" where
  "text_adapter = \<lparr>re_images = [(''box'', ''old'')], re_states = [(''box'', RsREADY)], re_server = (),
     re_world = \<lparr>clock_at = int, ticks = 0, uuid_at = digits, uuids = 0\<rparr>\<rparr>"

lemma remote_rollback_restores_witness:
  "\<exists>c a1 r a3 b a4. remote_checkpoint text_sdk text_settings ''box'' text_adapter = (Inr c, a1) \<and>
     remote_rollback text_sdk text_settings ''box'' c (snd (remote_write text_sdk text_settings ''box'' ''f'' (TextContent ''new'') a1)) = (Inr r, a3) \<and>
     remote_read text_sdk text_settings ''box'' ''f'' a3 = (Inr b, a4) \<and> b = ''old''"
proof -
  have d: "durable text_sdk (\<lambda>h _. Some h)" by (auto simp: durable_def text_sdk_def)
  have h: "map_of (re_images text_adapter) ''box'' = Some ''old''" by (simp add: text_adapter_def)
  obtain c a1 where c: "remote_checkpoint text_sdk text_settings ''box'' text_adapter = (Inr c, a1)"
    by (simp add: remote_checkpoint_def require_image_def h text_sdk_def Let_def case_prod_unfold)
  let ?a2 = "snd (remote_write text_sdk text_settings ''box'' ''f'' (TextContent ''new'') a1)"
  obtain r a3 where r: "remote_rollback text_sdk text_settings ''box'' c ?a2 = (Inr r, a3)" "map_of (re_images a3) ''box'' \<noteq> None"
    by (simp add: remote_rollback_def text_sdk_def Let_def case_prod_unfold)
  obtain b a4 where b: "remote_read text_sdk text_settings ''box'' ''f'' a3 = (Inr b, a4)"
    using r(2) by (auto simp: remote_read_def require_image_def text_sdk_def Let_def)
  from remote_rollback_restores [OF d h c r(1) b] c r(1) b show ?thesis by auto
qed

end
