(* ===== verification/Spec2Isabelle.thy ===== *)
theory Spec2Isabelle
  imports Agent_State Loop_Controls Orchestration Control_Plane Checkpoints Coding_Proofs Candidates Reliability Repairs Repair_Decisions Guarded_Run Served_Tools Inspection Model_Router Remote_Sandbox
begin

text \<open>
  \<^bold>\<open>Smorx: a verification development.\<close>

  Smorx runs AI coding agents under machine control: a change is compiled into a locked behavioral
  contract, an agent edits an isolated working copy in a bounded loop, the result is verified,
  compared with the contract, certified and merged. This development models the decision code of
  that pipeline, the packages under \<open>src/packages/*/src\<close>, and proves what each part promises
  and what the parts promise together. The models are translations of the Python functions: a
  dataclass is a record, an enumeration a datatype, a dictionary an association list in insertion order, a
  mutating method a function that returns the new state, a raised exception the left side of a sum. Python's
  integers are \<open>int\<close>, its floats are rationals without rounding, instants are
  integers in microseconds, strings are lists of the code points below 256.

  \<^bold>\<open>1. Agent runtime\<close> (\<open>packages/agent-runtime/src/smorx_runtime\<close>).
  \<open>Lifecycle\<close> is the contract of an explicit state machine, a locale; \<open>Agent_State\<close> (\<open>state.py\<close>) and
  \<open>Orchestration\<close> (the phases of \<open>orchestrator.py\<close>) interpret it, and read off that histories are paths of the
  transition table. \<open>Agents\<close> has assignments, results and capabilities (\<open>agents.py\<close>, \<open>capabilities.py\<close>);
  \<open>Task_Graph\<close> the dependency graph, its cycle test and the wave planner (\<open>graph.py\<close>); \<open>Waves\<close> the
  parallel engine (\<open>waves.py\<close>) as a step function over the events the event loop delivers, in any order;
  \<open>Telemetry\<close> the overlap evidence (\<open>telemetry.py\<close>); \<open>Loop_Controls\<close> the validated bounds and the
  detector (\<open>loop_controls.py\<close>); \<open>Orchestrator\<close> the whole run and \<open>Orchestration\<close> what it guarantees. \<open>No_Progress\<close> is the rule that a repeated failure
  signature stops a loop, a locale that \<open>Loop_Controls\<close> and \<open>Loop_Bounds\<close> interpret on their own states.

  \<^bold>\<open>2. Tools and control\<close> (\<open>toolgate.py\<close>, \<open>packages/tools/src/smorx_tools\<close>).
  \<open>Tool_Gate\<close> states the gateway protocol as a locale, interpreted by the in-memory double there and by the policy
  controlled plane of \<open>Control_Plane\<close> (\<open>tool.py\<close>, \<open>audit.py\<close>, \<open>control.py\<close>), which rests on \<open>Policies\<close>
  (\<open>policies.py\<close>) and \<open>Human_Gate\<close> (\<open>human.py\<close>). \<open>Repository\<close> is the path-safe toolkit with its ledger
  (\<open>repo.py\<close>), \<open>Toolbox\<close> the default tools, their registry and the assembled plane (\<open>assembly.py\<close>), and \<open>Served_Tools\<close>
  puts the tools behind the plane: what requests may change, and which of them need a human.

  \<^bold>\<open>3. Development\<close> (\<open>packages/develop/src/smorx_develop\<close>).
  \<open>Workspace\<close> is the isolated working copy over both backends, with the provider port and the command runner of the
  tools package; \<open>Checkpoints\<close> its refinement to a map from paths to contents. \<open>Loop_Bounds\<close> (\<open>bounds.py\<close>),
  \<open>Execution\<close> (\<open>plan.py\<close>, \<open>execution.py\<close>), \<open>Coding_Loop\<close> (\<open>agent.py\<close>) and \<open>Candidates\<close>
  (\<open>candidates.py\<close>, \<open>trace.py\<close>) are the loop and its evidence; \<open>Coding_Proofs\<close> has the invariant of the
  loop, and \<open>Repair_Decisions\<close> follows each file mutation to the decision it belongs to. \<open>Inspection\<close> (\<open>inspection.py\<close>) finds exactly the files of a repository. \<open>Barrier\<close> (\<open>handoff.py\<close>, \<open>barrier.py\<close>) admits a context; \<open>Guarded_Run\<close> composes the barrier with the loop.

  \<^bold>\<open>4. Behavior rows\<close> (\<open>packages/behavior/src/smorx_behavior\<close>).
  \<open>Store\<close> has the tables the certification side works on, each with its own record type, and the evidence service;
  \<open>Registry\<close> is the contract of a table written once per key, a locale interpreted by the evidence table (\<open>Store\<close>) and the
  execution and failure tables (\<open>Faults\<close>). \<open>Rows\<close> has the rows the version policy works on, an object being its
  class and its attributes by name, because that code reads and writes columns by name. \<open>Versioning\<close> (\<open>versioning/lock.py\<close>, \<open>service.py\<close>) and
  \<open>Lineage\<close> are locks, bumps and the references to parents; the locale \<open>preserving\<close> says that any sequence of
  operations keeps what each operation keeps, and is interpreted by the version operations (\<open>Versioning\<close>) and by the
  operations of the pre-code flow (\<open>Flow_History\<close>).

  \<^bold>\<open>5. Pre-code flow\<close> (\<open>packages/precode/src/smorx_precode\<close>).
  \<open>Precode_Intent\<close> has \<open>change_definition.py\<close>, \<open>intent_compiler.py\<close> and \<open>intent_ledger.py\<close>, \<open>Precode_Gate\<close> has
  \<open>impact.py\<close>, \<open>verification_plan.py\<close> and \<open>lock_gate.py\<close>. \<open>Intent_Proofs\<close>, \<open>Precode_Proofs\<close> and \<open>Flow_Proofs\<close>
  show what the operations and the gate promise, \<open>Flow_History\<close> what any sequence of them keeps, by rule induction on
  the small steps of the rows; \<open>Precode_Demo\<close> is the concrete change the theorems are applied to.

  \<^bold>\<open>6. Verification and decision\<close> (\<open>packages/verification\<close>, \<open>packages/delta\<close>).
  \<open>Verification\<close> has the contracts, the trust boundary, the collector, the fusion and the six modules;
  \<open>Verification_Wave\<close> the runner, for every interleaving of the modules, and the read model. \<open>Delta\<close> turns a wave into
  deltas, an alignment and a decision; \<open>Repairs\<close> is the bounded repair loop.

  \<^bold>\<open>7. Certification and workflow\<close> (\<open>packages/certification\<close>, \<open>packages/workflow\<close>).
  \<open>Journal\<close> (\<open>chaining.py\<close>, \<open>replay.py\<close>, the recorder of \<open>orchestrate.py\<close>), \<open>Certificates\<close>, \<open>Merge_Gate\<close> (\<open>alignment.py\<close>,
  \<open>reverify.py\<close>, \<open>merge_gate.py\<close>), \<open>Memory\<close> (\<open>archaeology.py\<close>, \<open>memory.py\<close>), \<open>Workflow\<close> (\<open>orchestrate.py\<close>), \<open>Faults\<close>
  (\<open>failure_inject.py\<close>) and \<open>Reliability\<close> (\<open>reliability.py\<close>). \<open>Workflow_Proofs\<close>, \<open>Journey\<close> and \<open>Progress\<close>
  carry the guarantees of the parts through the whole journey: a merge passed the gate, with a VERIFIED candidate and a
  certifiable alignment, the journal replays, and a change that can be certified is merged, certified and remembered.

  \<^bold>\<open>8. Service\<close> (\<open>apps/api/app\<close>).
  \<open>Model_Router\<close> (\<open>model/router.py\<close>) routes a capability to a model tier and back; \<open>Remote_Sandbox\<close>
  (\<open>providers/sandbox/adapter.py\<close>) keeps handles of remote states, over the provider's SDK as an argument: handles and lifecycle
  states agree, and a rollback brings the files of the checkpoint back.

  \<^bold>\<open>How the parts meet.\<close> The pre-code gate locks a ledger, an impact map and a plan and issues a context; the barrier
  admits it and the coding loop runs (\<open>Guarded_Run\<close>); a passed candidate is verified in a wave, decided and
  certified; the journey records every phase in its journal. The properties follow this order of importance: what
  must hold before something irreversible happens (dispatch, execution, merge), what is recorded, what
  ends, and what the parts compute. Where the code does not do what its documentation says, the property states what the code
  does and its text says what was promised.

  \<^bold>\<open>Bounds and fuel.\<close> The run of the orchestrator takes a number of turns; that \<open>run_fuel\<close> is enough for it to return is
  \<open>orchestration_terminates\<close>. The coding loop takes one turn more than \<open>max_iterations\<close>, which its own
  controller never exceeds (\<open>coding_run_bounded\<close>). Repairs are bounded by \<open>max_iterations\<close>, and the walk of the lineage by
  \<open>MAX_LINEAGE_HOPS\<close>, the constant of the code. Every other recursion is structural or has a measure.

  \<^bold>\<open>Parameters.\<close> What the code calls and does not define is an argument: SHA-256 and the JSON printer (records of
  functions; their injectivity is a named hypothesis where a property needs it), the clock and \<open>uuid4\<close> (a
  stream and a position in it), the processes a command starts, the sandbox provider, the decider of the coding loop, the
  handlers a plane is given and the behavior of the agents.

  \<^bold>\<open>Not modelled.\<close> The routes of the HTTP service, its remote clients and the command
  line scripts only connect the modelled code to files, processes and sockets. The wire contracts are declarations checked by a
  validation library, the catalog, the seed and the migrations are data and schema. Columns filled by the database itself (\<open>created_at\<close>, \<open>updated_at\<close>), log messages, \<open>snapshot()\<close> of the
  version policy and the methods that only turn a record into a dictionary are left out. File trees have no symbolic links,
  and a write that fails leaves no partial content. A query without an order returns rows in the order of insertion; foreign
  keys, the identity map of the ORM and relationship collections that went stale are not modelled, so saving a row never
  fails for a missing parent. \<open>time.monotonic\<close> and \<open>datetime.now\<close> read one clock. An executor factory or an assignment decorator
  that raises out of the orchestrator, and an executor that never yields to the event loop, are not modelled. The modules of a
  wave but mutation testing read no file after the commands they run, so what those commands leave is not threaded through them. Concurrency is modelled as the order of the
  events the event loop delivers; two processes writing the same database are not.
\<close>

end
